(* ===== verification/Prelude.thy ===== *)
theory Prelude
  imports Main "HOL-Library.Word" "HOL-Library.List_Lexorder" "HOL-Library.Multiset"
begin

text \<open>
  The shared layer of the development: the collections the component theories add their
  facts to, the type synonyms of the machine types, generic list facts, and the interface
  locales several components provide (an exact comparison, a codec, a validator, a
  ratchet). Nothing here models a line of the agent by itself.
\<close>

unbundle bit_operations_syntax

named_theorems str_simps \<open>evaluation of the string functions of the standard library\<close>
named_theorems fs_simps \<open>file-system primitives and their effect on the world\<close>
named_theorems spec_simps \<open>the specifications that the validators are equivalent to\<close>

type_synonym u8 = "8 word"
type_synonym u16 = "16 word"
type_synonym u32 = "32 word"
type_synonym u64 = "64 word"
type_synonym bytes = "u8 list"

text \<open>
  A Rust \<open>char\<close> is a Unicode scalar value and a \<open>str\<close> a sequence of them; the UTF-8
  bytes of a \<open>str\<close> are computed by \<open>utf8\<close> in the theory \<open>Rust_Str\<close>.
\<close>

type_synonym rchar = nat
type_synonym str = "rchar list"

section \<open>Fallible sequencing\<close>

text \<open>The \<open>?\<close> operator: an error is returned at once, a value is passed on.\<close>

definition bind_res :: "'e + 'a \<Rightarrow> ('a \<Rightarrow> 'e + 'b) \<Rightarrow> 'e + 'b" where
  "bind_res r k = (case r of Inl e \<Rightarrow> Inl e | Inr a \<Rightarrow> k a)"

lemma bind_res_simps [simp]:
  "bind_res (Inl e) k = Inl e"
  "bind_res (Inr a) k = k a"
  by (simp_all add: bind_res_def)

lemma bind_res_eq_Inr:
  "bind_res r k = Inr b \<longleftrightarrow> (\<exists>a. r = Inr a \<and> k a = Inr b)"
  by (cases r) auto

lemma bind_res_eq_Inl:
  "bind_res r k = Inl e \<longleftrightarrow> r = Inl e \<or> (\<exists>a. r = Inr a \<and> k a = Inl e)"
  by (cases r) auto

definition map_err :: "('e \<Rightarrow> 'f) \<Rightarrow> 'e + 'a \<Rightarrow> 'f + 'a" where
  "map_err f r = (case r of Inl e \<Rightarrow> Inl (f e) | Inr a \<Rightarrow> Inr a)"

lemma map_err_simps [simp]:
  "map_err f (Inl e) = Inl (f e)"
  "map_err f (Inr a) = Inr a"
  by (simp_all add: map_err_def)

lemma map_err_eq_Inr [simp]: "map_err f r = Inr a \<longleftrightarrow> r = Inr a"
  by (cases r) auto

definition ok_or :: "'a option \<Rightarrow> 'e \<Rightarrow> 'e + 'a" where
  "ok_or x e = (case x of None \<Rightarrow> Inl e | Some a \<Rightarrow> Inr a)"

lemma ok_or_simps [simp]:
  "ok_or None e = Inl e"
  "ok_or (Some a) e = Inr a"
  by (simp_all add: ok_or_def)

lemma ok_or_eq_Inr [simp]: "ok_or x e = Inr a \<longleftrightarrow> x = Some a"
  by (cases x) auto

definition unwrap_or :: "'a option \<Rightarrow> 'a \<Rightarrow> 'a" where
  "unwrap_or x d = (case x of None \<Rightarrow> d | Some a \<Rightarrow> a)"

lemma unwrap_or_simps [simp]:
  "unwrap_or None d = d"
  "unwrap_or (Some a) d = a"
  by (simp_all add: unwrap_or_def)

section \<open>Lists\<close>

text \<open>\<open>slice::windows(2)\<close>: the pairs of neighbours.\<close>

fun windows2 :: "'a list \<Rightarrow> ('a \<times> 'a) list" where
  "windows2 (x # y # zs) = (x, y) # windows2 (y # zs)"
| "windows2 _ = []"

text \<open>On a sorted list no two neighbours are equal exactly when no two elements are.\<close>

lemma sorted_windows2_distinct:
  fixes xs :: "'a :: linorder list"
  assumes "sorted xs"
  shows "(\<forall>p \<in> set (windows2 xs). fst p \<noteq> snd p) \<longleftrightarrow> distinct xs"
  using assms
proof (induction xs rule: windows2.induct)
  case (1 x y zs)
  from "1.prems" have srt: "sorted (y # zs)" and le: "\<forall>z \<in> set (y # zs). x \<le> z"
    by auto
  have "x \<notin> set (y # zs)" if "x \<noteq> y"
  proof
    assume "x \<in> set (y # zs)"
    with srt have "y \<le> x" by auto
    with le that show False by auto
  qed
  with "1.IH" [OF srt] show ?case by auto
qed auto

lemma windows2_map: "windows2 (map f xs) = map (\<lambda>(a, b). (f a, f b)) (windows2 xs)"
  by (induction xs rule: windows2.induct) auto

lemma dropWhile_rev_append:
  "\<not> P x \<Longrightarrow> dropWhile P (rev (xs @ [x])) = rev (xs @ [x])"
  by simp

text \<open>
  A stable sort by a key is determined by the multiset of the elements as soon as no two
  elements share a key.
\<close>

lemma sort_key_mset_cong:
  fixes f :: "'a \<Rightarrow> 'b :: linorder"
  assumes "mset xs = mset ys" and "inj_on f (set xs)"
  shows "sort_key f xs = sort_key f ys"
proof (rule properties_for_sort_key)
  show "mset (sort_key f ys) = mset xs" using assms(1) by simp
next
  fix k
  assume "k \<in> set (sort_key f ys)"
  with assms have k: "k \<in> set ys" and eq: "set xs = set ys"
    using mset_eq_setD by auto
  have same: "filter (\<lambda>x. f k = f x) zs = replicate (count (mset zs) k) k"
    if "set zs = set ys" for zs
  proof -
    have "filter (\<lambda>x. f k = f x) zs = filter (\<lambda>x. k = x) zs"
      using assms(2) k that eq by (intro filter_cong) (auto dest: inj_onD)
    also have "\<dots> = replicate (count (mset zs) k) k"
      by (induction zs) auto
    finally show ?thesis .
  qed
  show "filter (\<lambda>x. f k = f x) (sort_key f ys) = filter (\<lambda>x. f k = f x) xs"
    using same [of "sort_key f ys"] same [of xs] eq assms(1) by simp
next
  show "sorted (map f (sort_key f ys))" by simp
qed

section \<open>Interfaces\<close>

text \<open>
  A comparison that is written for a reason other than its result (a scan whose running
  time does not depend on the position of the first difference) promises to decide
  equality.
\<close>

locale exact_eq =
  fixes eqf :: "'a \<Rightarrow> 'a \<Rightarrow> bool"
  assumes exact: "eqf a b \<longleftrightarrow> a = b"
begin

lemma eqf_refl: "eqf a a"
  by (simp add: exact)

lemma eqf_sym: "eqf a b \<longleftrightarrow> eqf b a"
  by (auto simp: exact)

lemma eqf_trans: "eqf a b \<Longrightarrow> eqf b c \<Longrightarrow> eqf a c"
  by (simp add: exact)

end

text \<open>
  An encoder with a decoder that reads back every valid value. The decoder is told
  nothing but the encoding, so the encoding of valid values is unambiguous.
\<close>

locale codec =
  fixes valid :: "'a \<Rightarrow> bool"
    and enc :: "'a \<Rightarrow> 'b"
    and dec :: "'b \<Rightarrow> 'a option"
  assumes dec_enc: "valid a \<Longrightarrow> dec (enc a) = Some a"
begin

lemma enc_inject: "valid a \<Longrightarrow> valid b \<Longrightarrow> enc a = enc b \<longleftrightarrow> a = b"
  by (metis dec_enc option.inject)

lemma enc_inj_on: "inj_on enc (Collect valid)"
  by (rule inj_onI) (simp add: enc_inject)

end

text \<open>
  A validator returns unit or an error; its contract is the predicate it decides. Two
  validators in sequence decide the conjunction, and the first failing one names the
  error.
\<close>

locale validator =
  fixes check :: "'a \<Rightarrow> 'e + unit"
    and good :: "'a \<Rightarrow> bool"
  assumes check_iff: "check a = Inr () \<longleftrightarrow> good a"
begin

lemma check_bad: "\<not> good a \<Longrightarrow> \<exists>e. check a = Inl e"
  using check_iff [of a] by (cases "check a") auto

lemma check_then: "bind_res (check a) (\<lambda>_. k) = Inr b \<longleftrightarrow> good a \<and> k = Inr b"
  using check_iff [of a] by (cases "check a") auto

lemma check_good: "good a \<Longrightarrow> bind_res (check a) (\<lambda>_. k) = k"
  using check_iff [of a] by simp

end

text \<open>
  A ratchet is a quantity that no step of a relation decreases; then no run decreases it.
\<close>

locale ratchet =
  fixes step :: "'w \<Rightarrow> 'w \<Rightarrow> bool"
    and level :: "'w \<Rightarrow> 'n :: preorder"
  assumes step_le: "step w w' \<Longrightarrow> level w \<le> level w'"
begin

lemma run_le: "step\<^sup>*\<^sup>* w w' \<Longrightarrow> level w \<le> level w'"
proof (induction rule: rtranclp_induct)
  case base
  show ?case by simp
next
  case (step y z)
  then show ?case using step_le order_trans by blast
qed

end

text \<open>
  A simulation: every concrete step is a run of the abstract machine on the abstracted
  states; then every concrete run is one, and abstract invariants hold of concrete runs.
\<close>

locale simulation =
  fixes step :: "'w \<Rightarrow> 'w \<Rightarrow> bool"
    and astep :: "'a \<Rightarrow> 'a \<Rightarrow> bool"
    and abs :: "'w \<Rightarrow> 'a"
  assumes step_sim: "step w w' \<Longrightarrow> astep\<^sup>*\<^sup>* (abs w) (abs w')"
begin

lemma run_sim: "step\<^sup>*\<^sup>* w w' \<Longrightarrow> astep\<^sup>*\<^sup>* (abs w) (abs w')"
proof (induction rule: rtranclp_induct)
  case base
  show ?case by simp
next
  case (step y z)
  from step.IH step_sim [OF step.hyps(2)] show ?case by (rule rtranclp_trans)
qed

end

end
