(* ===== verification/Rust_Str.thy ===== *)
theory Rust_Str
  imports Prelude
begin

text \<open>
  The part of Rust's \<open>str\<close>, \<open>char\<close> and integer formatting that the agent uses: the
  character classes, trimming and splitting, \<open>lines\<close>, prefixes, UTF-8, and the decimal
  form of \<open>u64\<close>. The classes are the ones of the Unicode tables (\<open>White_Space\<close> and the
  control category), since \<open>char::is_whitespace\<close> and \<open>char::is_control\<close> are not
  restricted to ASCII. The decimal and the UTF-8 codec are instances of the codec
  interface of the prelude.
\<close>

section \<open>Literals and characters\<close>

definition lit :: "string \<Rightarrow> str" where
  "lit s = map of_char s"

definition is_whitespace :: "rchar \<Rightarrow> bool" where
  "is_whitespace c \<longleftrightarrow> 9 \<le> c \<and> c \<le> 13 \<or> c = 32 \<or> c = 0x85 \<or> c = 0xA0 \<or> c = 0x1680
     \<or> 0x2000 \<le> c \<and> c \<le> 0x200A \<or> c = 0x2028 \<or> c = 0x2029 \<or> c = 0x202F \<or> c = 0x205F \<or> c = 0x3000"

definition is_control :: "rchar \<Rightarrow> bool" where
  "is_control c \<longleftrightarrow> c < 32 \<or> 127 \<le> c \<and> c \<le> 159"

definition is_ascii_graphic :: "rchar \<Rightarrow> bool" where
  "is_ascii_graphic c \<longleftrightarrow> 33 \<le> c \<and> c \<le> 126"

definition is_ascii_digit :: "rchar \<Rightarrow> bool" where
  "is_ascii_digit c \<longleftrightarrow> 48 \<le> c \<and> c \<le> 57"

definition is_ascii_alphanumeric :: "rchar \<Rightarrow> bool" where
  "is_ascii_alphanumeric c \<longleftrightarrow> is_ascii_digit c \<or> 65 \<le> c \<and> c \<le> 90 \<or> 97 \<le> c \<and> c \<le> 122"

definition to_ascii_lower :: "rchar \<Rightarrow> rchar" where
  "to_ascii_lower c = (if 65 \<le> c \<and> c \<le> 90 then c + 32 else c)"

definition to_ascii_lowercase :: "str \<Rightarrow> str" where
  "to_ascii_lowercase s = map to_ascii_lower s"

definition eq_ignore_ascii_case :: "str \<Rightarrow> str \<Rightarrow> bool" where
  "eq_ignore_ascii_case a b \<longleftrightarrow> to_ascii_lowercase a = to_ascii_lowercase b"

section \<open>Trimming and splitting\<close>

definition trim_start :: "str \<Rightarrow> str" where
  "trim_start s = dropWhile is_whitespace s"

definition trim_end :: "str \<Rightarrow> str" where
  "trim_end s = rev (dropWhile is_whitespace (rev s))"

definition trim :: "str \<Rightarrow> str" where
  "trim s = trim_end (trim_start s)"

definition trim_end_matches :: "rchar \<Rightarrow> str \<Rightarrow> str" where
  "trim_end_matches c s = rev (dropWhile ((=) c) (rev s))"

definition strip_prefix :: "str \<Rightarrow> str \<Rightarrow> str option" where
  "strip_prefix p s = (if take (length p) s = p then Some (drop (length p) s) else None)"

text \<open>\<open>split_whitespace\<close>, with the token read so far (reversed) as an accumulator.\<close>

fun split_ws_acc :: "str \<Rightarrow> str \<Rightarrow> str list" where
  "split_ws_acc cur [] = (if cur = [] then [] else [rev cur])"
| "split_ws_acc cur (c # cs) =
     (if is_whitespace c then (if cur = [] then split_ws_acc [] cs else rev cur # split_ws_acc [] cs)
      else split_ws_acc (c # cur) cs)"

definition split_whitespace :: "str \<Rightarrow> str list" where
  "split_whitespace s = split_ws_acc [] s"

text \<open>
  \<open>lines\<close>: the pieces ended by a line feed, without it and without one carriage return
  before it; a last piece that no line feed ends is kept as it is unless it is empty.
\<close>

fun strip_cr_rev :: "str \<Rightarrow> str" where
  "strip_cr_rev (c # cs) = (if c = 13 then cs else c # cs)"
| "strip_cr_rev [] = []"

fun lines_acc :: "str \<Rightarrow> str \<Rightarrow> str list" where
  "lines_acc cur [] = (if cur = [] then [] else [rev cur])"
| "lines_acc cur (c # cs) =
     (if c = 10 then rev (strip_cr_rev cur) # lines_acc [] cs else lines_acc (c # cur) cs)"

definition lines :: "str \<Rightarrow> str list" where
  "lines s = lines_acc [] s"

text \<open>\<open>split\<close> at every occurrence of a character; the result is never empty.\<close>

fun split_char :: "rchar \<Rightarrow> str \<Rightarrow> str list" where
  "split_char sep [] = [[]]"
| "split_char sep (c # cs) =
     (if c = sep then [] # split_char sep cs
      else (case split_char sep cs of [] \<Rightarrow> [[c]] | p # ps \<Rightarrow> (c # p) # ps))"

text \<open>\<open>split_once\<close> at the first and \<open>rsplit_once\<close> at the last matching character.\<close>

fun split_once :: "(rchar \<Rightarrow> bool) \<Rightarrow> str \<Rightarrow> (str \<times> str) option" where
  "split_once p [] = None"
| "split_once p (c # cs) =
     (if p c then Some ([], cs)
      else map_option (\<lambda>(a, b). (c # a, b)) (split_once p cs))"

definition rsplit_once :: "rchar \<Rightarrow> str \<Rightarrow> (str \<times> str) option" where
  "rsplit_once c s = map_option (\<lambda>(a, b). (rev b, rev a)) (split_once ((=) c) (rev s))"

section \<open>UTF-8\<close>

definition is_scalar :: "rchar \<Rightarrow> bool" where
  "is_scalar c \<longleftrightarrow> c < 0xD800 \<or> 0xE000 \<le> c \<and> c < 0x110000"

definition utf8_char :: "rchar \<Rightarrow> bytes" where
  "utf8_char c =
     (if c < 0x80 then [of_nat c]
      else if c < 0x800 then [of_nat (0xC0 + c div 64), of_nat (0x80 + c mod 64)]
      else if c < 0x10000 then
        [of_nat (0xE0 + c div 4096), of_nat (0x80 + c div 64 mod 64), of_nat (0x80 + c mod 64)]
      else
        [of_nat (0xF0 + c div 262144), of_nat (0x80 + c div 4096 mod 64),
         of_nat (0x80 + c div 64 mod 64), of_nat (0x80 + c mod 64)])"

definition utf8 :: "str \<Rightarrow> bytes" where
  "utf8 s = concat (map utf8_char s)"

text \<open>\<open>str::len\<close> counts bytes.\<close>

definition str_len :: "str \<Rightarrow> nat" where
  "str_len s = length (utf8 s)"

definition is_cont :: "u8 \<Rightarrow> bool" where
  "is_cont b \<longleftrightarrow> 0x80 \<le> unat b \<and> unat b < 0xC0"

text \<open>
  \<open>String::from_utf8\<close>: overlong forms, surrogates and values past the last code point
  are errors, as in the standard library's table of first and second bytes.
\<close>

fun from_utf8 :: "bytes \<Rightarrow> str option" where
  "from_utf8 [] = Some []"
| "from_utf8 (a # r) =
     (if unat a < 0x80 then map_option (Cons (unat a)) (from_utf8 r)
      else if 0xC0 \<le> unat a \<and> unat a < 0xE0 then
        (case r of
           b # r1 \<Rightarrow>
             (let c = (unat a - 0xC0) * 64 + (unat b - 0x80)
              in if is_cont b \<and> 0x80 \<le> c then map_option (Cons c) (from_utf8 r1) else None)
         | [] \<Rightarrow> None)
      else if 0xE0 \<le> unat a \<and> unat a < 0xF0 then
        (case r of
           b # d # r2 \<Rightarrow>
             (let c = (unat a - 0xE0) * 4096 + (unat b - 0x80) * 64 + (unat d - 0x80)
              in if is_cont b \<and> is_cont d \<and> 0x800 \<le> c \<and> is_scalar c
                 then map_option (Cons c) (from_utf8 r2) else None)
         | _ \<Rightarrow> None)
      else if 0xF0 \<le> unat a \<and> unat a < 0xF8 then
        (case r of
           b # d # e # r3 \<Rightarrow>
             (let c = (unat a - 0xF0) * 262144 + (unat b - 0x80) * 4096
                        + (unat d - 0x80) * 64 + (unat e - 0x80)
              in if is_cont b \<and> is_cont d \<and> is_cont e \<and> 0x10000 \<le> c \<and> is_scalar c
                 then map_option (Cons c) (from_utf8 r3) else None)
         | _ \<Rightarrow> None)
      else None)"

section \<open>Decimal integers\<close>

fun show_nat :: "nat \<Rightarrow> str" where
  "show_nat n = (if n < 10 then [48 + n] else show_nat (n div 10) @ [48 + n mod 10])"

declare show_nat.simps [simp del]

definition show_u64 :: "u64 \<Rightarrow> str" where
  "show_u64 n = show_nat (unat n)"

definition show_u32 :: "u32 \<Rightarrow> str" where
  "show_u32 n = show_nat (unat n)"

definition show_int :: "int \<Rightarrow> str" where
  "show_int i = (if i < 0 then 45 # show_nat (nat (- i)) else show_nat (nat i))"

definition dec_val :: "str \<Rightarrow> nat" where
  "dec_val s = foldl (\<lambda>n c. 10 * n + (c - 48)) 0 s"

text \<open>\<open>parse::<u64>\<close>: one leading plus sign, decimal digits, no overflow.\<close>

definition parse_u64 :: "str \<Rightarrow> u64 option" where
  "parse_u64 s =
     (let d = (case s of c # cs \<Rightarrow> if c = 43 \<and> cs \<noteq> [] then cs else s | [] \<Rightarrow> [])
      in if d = [] \<or> \<not> list_all is_ascii_digit d then None
         else if dec_val d < 2 ^ 64 then Some (of_nat (dec_val d)) else None)"

section \<open>Facts about literals and trimming\<close>

lemma lit_inject [simp]: "lit a = lit b \<longleftrightarrow> a = b"
proof
  assume "lit a = lit b"
  moreover have "inj (of_char :: char \<Rightarrow> nat)"
    by (rule injI) simp
  ultimately show "a = b"
    by (auto simp: lit_def dest: map_injective)
qed simp

lemma length_lit [simp]: "length (lit s) = length s"
  by (simp add: lit_def)

lemma lit_Nil [simp]: "lit s = [] \<longleftrightarrow> s = []"
  by (simp add: lit_def)

lemma lit_append: "lit (a @ b) = lit a @ lit b"
  by (simp add: lit_def)

lemma strip_prefix_append [simp]: "strip_prefix p (p @ s) = Some s"
  by (simp add: strip_prefix_def)

lemma strip_prefix_Some: "strip_prefix p s = Some t \<longleftrightarrow> s = p @ t"
  by (auto simp: strip_prefix_def) (metis append_take_drop_id)

lemma strip_prefix_None: "strip_prefix p s = None \<longleftrightarrow> (\<nexists>t. s = p @ t)"
  using strip_prefix_Some by (metis not_None_eq)

lemma trim_id:
  assumes "s \<noteq> []" and "\<not> is_whitespace (hd s)" and "\<not> is_whitespace (last s)"
  shows "trim s = s"
proof -
  from assms have "trim_start s = s"
    by (cases s) (auto simp: trim_start_def)
  moreover have "dropWhile is_whitespace (rev s) = rev s"
    using assms by (cases s rule: rev_cases) auto
  ultimately show ?thesis by (simp add: trim_def trim_end_def)
qed

lemma trim_no_ws: "\<forall>c \<in> set s. \<not> is_whitespace c \<Longrightarrow> trim s = s"
  by (cases "s = []") (auto simp: trim_id, simp add: trim_def trim_start_def trim_end_def)

lemma trim_Nil [simp]: "trim [] = []"
  by (simp add: trim_def trim_start_def trim_end_def)

lemma trim_append_ws:
  assumes "\<forall>c \<in> set w. is_whitespace c"
  shows "trim (s @ w) = trim s"
proof (cases "\<forall>c \<in> set s. is_whitespace c")
  case True
  with assms have "trim_start (s @ w) = []" and "trim_start s = []"
    by (auto simp: trim_start_def dropWhile_eq_Nil_conv)
  then show ?thesis by (simp add: trim_def)
next
  case False
  then have "trim_start (s @ w) = trim_start s @ w"
    by (auto simp: trim_start_def dropWhile_append1)
  then show ?thesis
    using assms dropWhile_append2 [of "rev w" is_whitespace "rev (trim_start s)"]
    by (simp add: trim_def trim_end_def)
qed

lemma trim_eq_Nil: "trim s = [] \<longleftrightarrow> (\<forall>c \<in> set s. is_whitespace c)"
proof
  assume "trim s = []"
  then have "\<forall>c \<in> set (trim_start s). is_whitespace c"
    by (simp add: trim_def trim_end_def dropWhile_eq_Nil_conv)
  then have "trim_start s = []"
    using hd_dropWhile [of is_whitespace s] hd_in_set unfolding trim_start_def by blast
  then show "\<forall>c \<in> set s. is_whitespace c"
    by (simp add: trim_start_def dropWhile_eq_Nil_conv)
next
  assume "\<forall>c \<in> set s. is_whitespace c"
  then show "trim s = []"
    using trim_append_ws [of s "[]"] by simp
qed

lemma set_trim_end: "set (trim_end s) \<subseteq> set s"
  unfolding trim_end_def using set_dropWhileD by fastforce

lemma set_trim_start: "set (trim_start s) \<subseteq> set s"
  unfolding trim_start_def using set_dropWhileD by fastforce

lemma set_trim: "set (trim s) \<subseteq> set s"
  unfolding trim_def using set_trim_end set_trim_start by blast

lemma trim_trim [simp]: "trim (trim s) = trim s"
proof (cases "trim s = []")
  case False
  let ?t = "trim_start s"
  have lst: "\<not> is_whitespace (last (trim s))"
  proof -
    have "dropWhile is_whitespace (rev ?t) \<noteq> []"
      using False by (simp add: trim_def trim_end_def)
    then show ?thesis
      using hd_dropWhile [of is_whitespace "rev ?t"]
      by (simp add: trim_def trim_end_def last_rev)
  qed
  have "?t \<noteq> []" using False by (auto simp: trim_def trim_end_def)
  then have h: "\<not> is_whitespace (hd ?t)"
    using hd_dropWhile [of is_whitespace s] by (simp add: trim_start_def)
  obtain w where "rev ?t = w @ rev (trim s)"
    unfolding trim_def trim_end_def
    by (metis rev_rev_ident takeWhile_dropWhile_id)
  then have "?t = trim s @ rev w" by (metis rev_append rev_rev_ident)
  then have "hd ?t = hd (trim s)" using False by simp
  with h lst False show ?thesis by (simp add: trim_id)
qed simp

section \<open>Facts about splitting\<close>

lemma split_ws_acc_nonws:
  "\<forall>c \<in> set a. \<not> is_whitespace c \<Longrightarrow> split_ws_acc cur (a @ s) = split_ws_acc (rev a @ cur) s"
  by (induction a arbitrary: cur) auto

lemma split_whitespace_Cons:
  assumes "a \<noteq> []" and "\<forall>c \<in> set a. \<not> is_whitespace c" and "is_whitespace w"
  shows "split_whitespace (a @ w # s) = a # split_whitespace s"
  using assms by (simp add: split_whitespace_def split_ws_acc_nonws)

lemma split_whitespace_single:
  assumes "a \<noteq> []" and "\<forall>c \<in> set a. \<not> is_whitespace c"
  shows "split_whitespace a = [a]"
  using assms split_ws_acc_nonws [of a "[]" "[]"] by (simp add: split_whitespace_def)

lemma split_ws_acc_tokens:
  "t \<in> set (split_ws_acc cur s) \<Longrightarrow> \<forall>c \<in> set cur. \<not> is_whitespace c
   \<Longrightarrow> t \<noteq> [] \<and> (\<forall>c \<in> set t. \<not> is_whitespace c \<and> c \<in> set cur \<union> set s)"
proof (induction cur s rule: split_ws_acc.induct)
  case (1 cur)
  then show ?case by (auto split: if_splits)
next
  case (2 cur c cs)
  show ?case
  proof (cases "is_whitespace c")
    case False
    with "2.prems" have "t \<in> set (split_ws_acc (c # cur) cs)" by simp
    with "2.IH"(3) [OF False this] "2.prems"(2) False show ?thesis by auto
  next
    case True
    show ?thesis
    proof (cases "cur = []")
      case T: True
      with "2.prems" True have "t \<in> set (split_ws_acc [] cs)" by simp
      with "2.IH"(1) [OF True T this] show ?thesis by auto
    next
      case F: False
      with "2.prems" True have "t = rev cur \<or> t \<in> set (split_ws_acc [] cs)" by simp
      with "2.IH"(2) [OF True F] "2.prems"(2) F show ?thesis by auto
    qed
  qed
qed

lemma split_whitespace_tokens:
  assumes "t \<in> set (split_whitespace s)"
  shows "t \<noteq> []" and "\<forall>c \<in> set t. \<not> is_whitespace c" and "set t \<subseteq> set s"
  using split_ws_acc_tokens [of t "[]" s] assms by (auto simp: split_whitespace_def)

lemma split_whitespace_Nil [simp]: "split_whitespace [] = []"
  by (simp add: split_whitespace_def)

lemma split_whitespace_skip: "\<forall>c \<in> set u. is_whitespace c \<Longrightarrow> split_whitespace (u @ s) = split_whitespace s"
  by (induction u) (simp_all add: split_whitespace_def)

lemma split_ws_acc_trailing:
  assumes "\<forall>c \<in> set u. is_whitespace c"
  shows "split_ws_acc cur (s @ u) = split_ws_acc cur s"
proof (induction s arbitrary: cur)
  case Nil
  show ?case using assms by (induction u arbitrary: cur) auto
qed auto

lemma trim_decomp:
  "\<exists>u v. s = u @ trim s @ v \<and> (\<forall>c \<in> set u. is_whitespace c) \<and> (\<forall>c \<in> set v. is_whitespace c)"
proof -
  let ?t = "trim_start s"
  have "s = takeWhile is_whitespace s @ ?t" by (simp add: trim_start_def)
  moreover have "?t = trim s @ rev (takeWhile is_whitespace (rev ?t))"
    unfolding trim_def trim_end_def by (metis rev_append rev_rev_ident takeWhile_dropWhile_id)
  ultimately have "s = takeWhile is_whitespace s @ trim s @ rev (takeWhile is_whitespace (rev ?t))"
    by simp
  then show ?thesis
    by (intro exI [of _ "takeWhile is_whitespace s"] exI [of _ "rev (takeWhile is_whitespace (rev ?t))"] conjI)
       (auto dest: set_takeWhileD)
qed

lemma split_whitespace_trim: "split_whitespace (trim s) = split_whitespace s"
proof -
  obtain u v where s: "s = u @ trim s @ v" and u: "\<forall>c \<in> set u. is_whitespace c"
      and v: "\<forall>c \<in> set v. is_whitespace c"
    using trim_decomp by blast
  have "split_whitespace s = split_whitespace (trim s @ v)"
    by (subst s) (rule split_whitespace_skip [OF u])
  also have "\<dots> = split_whitespace (trim s)"
    unfolding split_whitespace_def by (rule split_ws_acc_trailing [OF v])
  finally show ?thesis by simp
qed

text \<open>Where the first token of a string stands.\<close>

lemma split_whitespace_first:
  assumes "split_whitespace s = a # rest"
  obtains u tl where "s = u @ a @ tl" "\<forall>c \<in> set u. is_whitespace c" "split_whitespace tl = rest"
    "tl = [] \<or> is_whitespace (hd tl)"
proof -
  define u s1 where "u = takeWhile is_whitespace s" and "s1 = dropWhile is_whitespace s"
  define a' tl where "a' = takeWhile (Not \<circ> is_whitespace) s1" and "tl = dropWhile (Not \<circ> is_whitespace) s1"
  have s: "s = u @ a' @ tl" by (simp add: u_def s1_def a'_def tl_def)
  have u: "\<forall>c \<in> set u. is_whitespace c" by (auto simp: u_def dest: set_takeWhileD)
  have split: "split_whitespace (a' @ tl) = a # rest"
    using assms split_whitespace_skip [OF u] s by metis
  have nw: "\<forall>c \<in> set a'. \<not> is_whitespace c" by (auto simp: a'_def dest: set_takeWhileD)
  have s1: "s1 = a' @ tl" by (simp add: a'_def tl_def)
  have "a' \<noteq> []"
  proof
    assume e: "a' = []"
    with split s1 have "s1 \<noteq> []" by auto
    moreover from this have "\<not> is_whitespace (hd s1)"
      unfolding s1_def by (rule hd_dropWhile)
    ultimately show False using e by (cases s1) (auto simp: a'_def)
  qed
  have tl: "tl = [] \<or> is_whitespace (hd tl)"
    using hd_dropWhile [of "Not \<circ> is_whitespace" s1] by (auto simp: tl_def)
  have "split_whitespace (a' @ tl) = a' # split_whitespace tl"
  proof (cases tl)
    case Nil
    with split_whitespace_single [OF \<open>a' \<noteq> []\<close> nw] show ?thesis by simp
  next
    case (Cons w t)
    with tl have w: "is_whitespace w" by simp
    with split_whitespace_skip [of "[w]" t] have "split_whitespace (w # t) = split_whitespace t" by simp
    with split_whitespace_Cons [OF \<open>a' \<noteq> []\<close> nw w] Cons show ?thesis by simp
  qed
  with split have "a' = a" and "split_whitespace tl = rest" by auto
  with s u tl show ?thesis using that by blast
qed

lemma lines_acc_line:
  "10 \<notin> set a \<Longrightarrow> lines_acc cur (a @ s) = lines_acc (rev a @ cur) s"
  by (induction a arbitrary: cur) auto

lemma lines_Cons:
  assumes "10 \<notin> set a" and "13 \<notin> set a"
  shows "lines (a @ 10 # s) = a # lines s"
proof -
  have "strip_cr_rev (rev a) = rev a"
    using assms(2) by (cases a rule: rev_cases) auto
  then show ?thesis
    using assms(1) by (simp add: lines_def lines_acc_line)
qed

lemma lines_Nil [simp]: "lines [] = []"
  by (simp add: lines_def)

lemma split_char_nonempty [simp]: "split_char sep s \<noteq> []"
  by (induction s) (auto split: list.splits)

text \<open>The pieces of a split, joined by the separator, are the string.\<close>

fun join_char :: "rchar \<Rightarrow> str list \<Rightarrow> str" where
  "join_char sep [] = []"
| "join_char sep [p] = p"
| "join_char sep (p # q # ps) = p @ sep # join_char sep (q # ps)"

lemma join_split_char: "join_char sep (split_char sep s) = s"
proof (induction s)
  case (Cons c cs)
  obtain p ps where sp: "split_char sep cs = p # ps"
    by (cases "split_char sep cs") auto
  with Cons have "join_char sep (p # ps) = cs" by simp
  with sp show ?case by (cases ps) auto
qed simp

section \<open>The decimal codec\<close>

lemma dec_val_snoc: "dec_val (s @ [c]) = 10 * dec_val s + (c - 48)"
  by (simp add: dec_val_def)

lemma dec_val_show_nat: "dec_val (show_nat n) = n"
proof (induction n rule: show_nat.induct)
  case (1 n)
  show ?case
  proof (cases "n < 10")
    case True
    then show ?thesis by (simp add: show_nat.simps [of n] dec_val_def)
  next
    case False
    with "1.IH" show ?thesis
      by (simp add: show_nat.simps [of n] dec_val_snoc)
  qed
qed

lemma show_nat_digits: "list_all is_ascii_digit (show_nat n)"
proof (induction n rule: show_nat.induct)
  case (1 n)
  show ?case
  proof (cases "n < 10")
    case True
    then show ?thesis by (simp add: show_nat.simps [of n] is_ascii_digit_def)
  next
    case False
    have "n mod 10 < 10" by simp
    then have "is_ascii_digit (48 + n mod 10)" by (simp add: is_ascii_digit_def)
    with False "1.IH" show ?thesis by (simp add: show_nat.simps [of n])
  qed
qed

lemma show_nat_not_Nil [simp]: "show_nat n \<noteq> []"
  by (subst show_nat.simps) simp

lemma show_nat_inject [simp]: "show_nat a = show_nat b \<longleftrightarrow> a = b"
  by (metis dec_val_show_nat)

lemma show_nat_set: "c \<in> set (show_nat n) \<Longrightarrow> 48 \<le> c \<and> c \<le> 57"
  using show_nat_digits [of n] by (auto simp: list_all_iff is_ascii_digit_def)

lemma parse_show_u64: "parse_u64 (show_u64 n) = Some n"
proof -
  let ?s = "show_nat (unat n)"
  have bound: "unat n < 2 ^ 64"
    using unsigned_less [of n] by simp
  have "hd ?s \<noteq> 43"
    using show_nat_set [of "hd ?s" "unat n"] by (simp add: list.set_sel)
  then have "(case ?s of c # cs \<Rightarrow> if c = 43 \<and> cs \<noteq> [] then cs else ?s | [] \<Rightarrow> []) = ?s"
    by (cases ?s) auto
  then show ?thesis
    using bound show_nat_digits [of "unat n"]
    by (simp add: parse_u64_def show_u64_def dec_val_show_nat)
qed

interpretation dec64: codec "\<lambda>_. True" show_u64 parse_u64
  by unfold_locales (simp add: parse_show_u64)

text \<open>A decimal never starts or ends with white space, so trimming keeps it.\<close>

lemma trim_show_nat: "trim (show_nat n) = show_nat n"
  by (rule trim_no_ws) (auto dest!: show_nat_set simp: is_whitespace_def)

text \<open>A decimal followed by a character that is no digit splits in one way only.\<close>

lemma show_nat_prefix:
  assumes "show_nat a @ c # r = show_nat b @ c' # r'"
    and "\<not> is_ascii_digit c" and "\<not> is_ascii_digit c'"
  shows "a = b \<and> c = c' \<and> r = r'"
proof -
  have tw: "takeWhile is_ascii_digit (show_nat n @ d # s) = show_nat n"
    if "\<not> is_ascii_digit d" for n d s
    using show_nat_digits [of n] that by (simp add: list_all_iff)
  have "show_nat a = show_nat b"
    using tw [OF assms(2)] tw [OF assms(3)] assms(1) by metis
  with assms(1) show ?thesis by simp
qed

section \<open>The UTF-8 codec\<close>

lemma unat_of_nat8: "n < 256 \<Longrightarrow> unat (of_nat n :: u8) = n"
  by (simp add: unat_of_nat)

lemma from_utf8_2:
  assumes "unat a = 0xC0 + x" "x < 32" "unat b = 0x80 + y" "y < 64" "0x80 \<le> x * 64 + y"
  shows "from_utf8 (a # b # bs) = map_option (Cons (x * 64 + y)) (from_utf8 bs)"
  using assms by (simp add: is_cont_def Let_def)

lemma from_utf8_3:
  assumes "unat a = 0xE0 + x" "x < 16" "unat b = 0x80 + y" "y < 64" "unat d = 0x80 + z" "z < 64"
    and "0x800 \<le> x * 4096 + y * 64 + z" "is_scalar (x * 4096 + y * 64 + z)"
  shows "from_utf8 (a # b # d # bs) = map_option (Cons (x * 4096 + y * 64 + z)) (from_utf8 bs)"
  using assms by (simp add: is_cont_def Let_def)

lemma from_utf8_4:
  assumes "unat a = 0xF0 + x" "x < 8" "unat b = 0x80 + y" "y < 64" "unat d = 0x80 + z" "z < 64"
    and "unat e = 0x80 + w" "w < 64" "0x10000 \<le> x * 262144 + y * 4096 + z * 64 + w"
    and "is_scalar (x * 262144 + y * 4096 + z * 64 + w)"
  shows "from_utf8 (a # b # d # e # bs) =
    map_option (Cons (x * 262144 + y * 4096 + z * 64 + w)) (from_utf8 bs)"
  using assms by (simp add: is_cont_def Let_def)

lemma from_utf8_char:
  assumes "is_scalar c"
  shows "from_utf8 (utf8_char c @ bs) = map_option (Cons c) (from_utf8 bs)"
proof -
  have m: "k mod 64 < 64" for k :: nat by simp
  consider "c < 0x80" | "0x80 \<le> c" "c < 0x800" | "0x800 \<le> c" "c < 0x10000" | "0x10000 \<le> c"
    by linarith
  then show ?thesis
  proof cases
    case 1
    then show ?thesis by (simp add: utf8_char_def unat_of_nat)
  next
    case 2
    have x: "c div 64 < 32" using 2 by (simp add: div_less_iff_less_mult)
    have e: "c div 64 * 64 + c mod 64 = c" by simp
    have "from_utf8 (of_nat (0xC0 + c div 64) # of_nat (0x80 + c mod 64) # bs) =
        map_option (Cons (c div 64 * 64 + c mod 64)) (from_utf8 bs)"
      by (rule from_utf8_2 [OF unat_of_nat8 x unat_of_nat8 m])
         (use x m [of c] 2 e in linarith)+
    then show ?thesis using 2 by (simp add: utf8_char_def)
  next
    case 3
    have x: "c div 4096 < 16" using 3 by (simp add: div_less_iff_less_mult)
    have "c div 64 = c div 4096 * 64 + c div 64 mod 64"
      using div_mult2_eq [of c 64 64] div_mult_mod_eq [of "c div 64" 64] by simp
    then have e: "c div 4096 * 4096 + c div 64 mod 64 * 64 + c mod 64 = c"
      using div_mult_mod_eq [of c 64] by linarith
    have "from_utf8 (of_nat (0xE0 + c div 4096) # of_nat (0x80 + c div 64 mod 64)
          # of_nat (0x80 + c mod 64) # bs) =
        map_option (Cons (c div 4096 * 4096 + c div 64 mod 64 * 64 + c mod 64)) (from_utf8 bs)"
      by (rule from_utf8_3 [OF unat_of_nat8 x unat_of_nat8 m unat_of_nat8 m])
         (use x m [of c] m [of "c div 64"] 3 e assms in auto)
    then show ?thesis using 3 e by (simp only: utf8_char_def) simp
  next
    case 4
    from assms 4 have lt: "c < 0x110000" by (simp add: is_scalar_def)
    then have x: "c div 262144 < 8" by (simp add: div_less_iff_less_mult)
    have e: "c div 262144 * 262144 + c div 4096 mod 64 * 4096 + c div 64 mod 64 * 64
        + c mod 64 = c"
    proof -
      have "c div 64 = c div 4096 * 64 + c div 64 mod 64"
        using div_mult2_eq [of c 64 64] div_mult_mod_eq [of "c div 64" 64] by simp
      moreover have "c div 4096 = c div 262144 * 64 + c div 4096 mod 64"
        using div_mult2_eq [of c 4096 64] div_mult_mod_eq [of "c div 4096" 64] by simp
      ultimately show ?thesis using div_mult_mod_eq [of c 64] by linarith
    qed
    have "from_utf8 (of_nat (0xF0 + c div 262144) # of_nat (0x80 + c div 4096 mod 64)
          # of_nat (0x80 + c div 64 mod 64) # of_nat (0x80 + c mod 64) # bs) =
        map_option (Cons (c div 262144 * 262144 + c div 4096 mod 64 * 4096
          + c div 64 mod 64 * 64 + c mod 64)) (from_utf8 bs)"
      by (rule from_utf8_4 [OF unat_of_nat8 x unat_of_nat8 m unat_of_nat8 m unat_of_nat8 m])
         (use x m [of c] m [of "c div 64"] m [of "c div 4096"] 4 e assms in auto)
    then show ?thesis using 4 e by (simp only: utf8_char_def) simp
  qed
qed

lemma utf8_Nil [simp]: "utf8 [] = []"
  by (simp add: utf8_def)

lemma utf8_Cons: "utf8 (c # s) = utf8_char c @ utf8 s"
  by (simp add: utf8_def)

lemma utf8_append: "utf8 (a @ b) = utf8 a @ utf8 b"
  by (simp add: utf8_def)

lemma from_utf8_utf8: "list_all is_scalar s \<Longrightarrow> from_utf8 (utf8 s) = Some s"
  by (induction s) (simp_all add: utf8_Cons from_utf8_char)

interpretation utf8_codec: codec "list_all is_scalar" utf8 from_utf8
  by unfold_locales (rule from_utf8_utf8)

text \<open>Decoding yields scalar values only, so a decoded string can be encoded again.\<close>

lemma from_utf8_scalar: "from_utf8 b = Some s \<Longrightarrow> list_all is_scalar s"
proof (induction b arbitrary: s rule: from_utf8.induct)
  case (2 a r)
  have "\<not> (0x80 \<le> unat a \<and> unat a < 0xC0)"
  proof
    assume "0x80 \<le> unat a \<and> unat a < 0xC0"
    then have "from_utf8 (a # r) = None" by simp
    with "2.prems" show False by simp
  qed
  moreover have "\<not> 0xF8 \<le> unat a"
  proof
    assume "0xF8 \<le> unat a"
    then have "from_utf8 (a # r) = None" by simp
    with "2.prems" show False by simp
  qed
  ultimately have "unat a < 0x80 \<or> (0xC0 \<le> unat a \<and> unat a < 0xE0)
      \<or> (0xE0 \<le> unat a \<and> unat a < 0xF0) \<or> (0xF0 \<le> unat a \<and> unat a < 0xF8)"
    by linarith
  then consider (one) "unat a < 0x80" | (two) "0xC0 \<le> unat a" "unat a < 0xE0"
    | (three) "0xE0 \<le> unat a" "unat a < 0xF0" | (four) "0xF0 \<le> unat a" "unat a < 0xF8"
    by blast
  then show ?case
  proof cases
    case one
    with "2.prems" obtain s' where "from_utf8 r = Some s'" and "s = unat a # s'" by auto
    with one "2.IH"(1) [OF one] show ?thesis by (simp add: is_scalar_def)
  next
    case two
    have "is_scalar ((unat a - 0xC0) * 64 + (unat b - 0x80))" if "is_cont b" for b
      using that two by (auto simp: is_scalar_def is_cont_def)
    with two "2.prems" "2.IH"(2) show ?thesis
      by (cases r) (auto simp: Let_def split: if_splits)
  next
    case three
    with "2.prems" "2.IH"(3) show ?thesis
      by (cases r; cases "tl r") (auto simp: Let_def split: if_splits)
  next
    case four
    with "2.prems" "2.IH"(4) show ?thesis
      by (cases r; cases "tl r"; cases "tl (tl r)") (auto simp: Let_def split: if_splits)
  qed
qed simp

lemma ascii_scalar: "c < 128 \<Longrightarrow> is_scalar c"
  by (simp add: is_scalar_def)

lemma utf8_ascii: "\<forall>c \<in> set s. c < 128 \<Longrightarrow> utf8 s = map of_nat s"
  by (induction s) (auto simp: utf8_Cons utf8_char_def)

lemma str_len_ascii: "\<forall>c \<in> set s. c < 128 \<Longrightarrow> str_len s = length s"
  by (simp add: str_len_def utf8_ascii)

lemma utf8_char_not_Nil [simp]: "utf8_char c \<noteq> []"
  by (simp add: utf8_char_def)

lemma utf8_eq_Nil [simp]: "utf8 s = [] \<longleftrightarrow> s = []"
  by (cases s) (auto simp: utf8_Cons)

lemma str_len_0 [simp]: "str_len s = 0 \<longleftrightarrow> s = []"
  by (simp add: str_len_def)

lemma length_le_str_len: "length s \<le> str_len s"
proof (induction s)
  case (Cons c s)
  have "1 \<le> length (utf8_char c)" by (simp add: utf8_char_def)
  with Cons show ?case by (simp add: str_len_def utf8_Cons)
qed simp

end
