(* ===== verification/Errors.thy ===== *)
theory Errors
  imports Rust_Str
begin

text \<open>
  \<open>src/errors.rs\<close>: the crate-wide error type, its closed reason enums and their
  user-facing messages. A source error of the standard library keeps its kind and its
  free-form message (which may hold a path); the source errors of the TOML and JSON
  parsers are kept as their message. The messages of \<open>Display\<close> are the ones of the
  \<open>#[error(...)]\<close> attributes.
\<close>

section \<open>Data\<close>

datatype io_kind = NotFound | PermissionDenied | AlreadyExists | IsADirectory | NotADirectory
  | InvalidData | UnexpectedEof | OtherIo

datatype io_error = IoErr (ioe_kind: io_kind) (ioe_message: str)

datatype trusted_ca_error = TcaEmpty | TcaMalformed | TcaDisallowedAlgorithm | TcaInvalidEncoding
  | TcaIllegalCharacter

datatype server_response_error = EmptyMachineId | InvalidMachineId | IntervalOutOfRange
  | InvalidServerIdentity | InvalidBundleSigningKey

datatype ca_bundle_error = BundleEmpty | TooManyKeys | DuplicateKeyId | DuplicatePublicKey
  | InvalidKey | MissingGeneration | MissingFingerprint | FingerprintMismatch | UnsupportedVersion
  | UnsupportedSignatureAlgorithm | InvalidTimestamp | Expired | NotYetValid | SignatureInvalid
  | SigningKeyMismatch | GenerationRegressed

datatype error =
    ConfigRead io_error
  | ConfigParse str
  | ConfigInvalid str
  | Io io_error
  | UnexpectedSymlink
  | InsecureOwnership
  | InsecurePermissions
  | InvalidPath
  | NotRoot
  | InvalidTrustedCa trusted_ca_error
  | AlreadyEnrolled
  | KeyAlreadyExists
  | KeyGeneration
  | KeyParse
  | KeySerialize
  | InvalidHostname
  | InvalidToken
  | InvalidServerUrl
  | MalformedPublicKey
  | InvalidServerResponse server_response_error
  | EnrollmentRejected
  | EnrollmentTransport
  | RequestSigning
  | HeartbeatTransport
  | HeartbeatRejected
  | InvalidHeartbeatResponse
  | CaBundleTransport
  | CaBundleRejected
  | InvalidCaBundle ca_bundle_error
  | CaReloadFailed
  | MachineRecordParse str
  | MachineRecordSerialize str
  | MachineRecordInvalid
  | HelperUnavailable
  | HelperProtocol
  | HelperUnauthenticated
  | HelperOperationFailed

type_synonym 'a res = "error + 'a"

section \<open>Messages\<close>

fun display_server_response :: "server_response_error \<Rightarrow> string" where
  "display_server_response EmptyMachineId = ''machine_id is empty''"
| "display_server_response InvalidMachineId = ''machine_id is invalid''"
| "display_server_response IntervalOutOfRange = ''interval is out of range''"
| "display_server_response InvalidServerIdentity = ''server_identity is not a valid key''"
| "display_server_response InvalidBundleSigningKey = ''bundle_signing_key is not a valid key''"

fun display_trusted_ca :: "trusted_ca_error \<Rightarrow> string" where
  "display_trusted_ca TcaEmpty = ''entry is empty''"
| "display_trusted_ca TcaMalformed = ''entry is malformed''"
| "display_trusted_ca TcaDisallowedAlgorithm = ''key algorithm is not allowed''"
| "display_trusted_ca TcaInvalidEncoding = ''key data is not valid base64''"
| "display_trusted_ca TcaIllegalCharacter = ''entry contains illegal characters''"

fun display_ca_bundle :: "ca_bundle_error \<Rightarrow> string" where
  "display_ca_bundle BundleEmpty = ''bundle contains no keys''"
| "display_ca_bundle TooManyKeys = ''bundle contains too many keys''"
| "display_ca_bundle DuplicateKeyId = ''bundle contains a duplicate key id''"
| "display_ca_bundle DuplicatePublicKey = ''bundle contains a duplicate public key''"
| "display_ca_bundle InvalidKey = ''bundle contains an invalid key''"
| "display_ca_bundle MissingGeneration = ''bundle generation is missing or invalid''"
| "display_ca_bundle MissingFingerprint = ''bundle fingerprint is missing''"
| "display_ca_bundle FingerprintMismatch = ''bundle fingerprint does not match its contents''"
| "display_ca_bundle UnsupportedVersion = ''bundle version is not supported''"
| "display_ca_bundle UnsupportedSignatureAlgorithm = ''bundle signature algorithm is not supported''"
| "display_ca_bundle InvalidTimestamp = ''bundle timestamp is missing or invalid''"
| "display_ca_bundle Expired = ''bundle has expired''"
| "display_ca_bundle NotYetValid = ''bundle is not valid yet''"
| "display_ca_bundle SignatureInvalid = ''bundle signature failed verification''"
| "display_ca_bundle SigningKeyMismatch = ''bundle signing key does not match the pinned key''"
| "display_ca_bundle GenerationRegressed = ''bundle generation is older than the applied generation''"

fun display :: "error \<Rightarrow> str" where
  "display (ConfigRead _) = lit ''failed to read configuration''"
| "display (ConfigParse _) = lit ''failed to parse configuration''"
| "display (ConfigInvalid reason) = lit ''invalid configuration: '' @ reason"
| "display (Io _) = lit ''filesystem operation failed''"
| "display UnexpectedSymlink = lit ''path failed security validation: unexpected symlink''"
| "display InsecureOwnership = lit ''path failed security validation: insecure ownership''"
| "display InsecurePermissions = lit ''path failed security validation: insecure permissions''"
| "display InvalidPath = lit ''path failed security validation: invalid path''"
| "display NotRoot = lit ''insufficient privileges: root is required''"
| "display (InvalidTrustedCa r) = lit (''invalid TrustedUserCAKeys entry: '' @ display_trusted_ca r)"
| "display AlreadyEnrolled = lit ''machine is already enrolled''"
| "display KeyAlreadyExists = lit ''machine identity key already exists''"
| "display KeyGeneration = lit ''failed to generate machine identity key''"
| "display KeyParse = lit ''failed to parse machine identity key''"
| "display KeySerialize = lit ''failed to serialise machine identity key''"
| "display InvalidHostname = lit ''invalid hostname''"
| "display InvalidToken = lit ''invalid enrollment token''"
| "display InvalidServerUrl = lit ''invalid server URL''"
| "display MalformedPublicKey = lit ''malformed public key''"
| "display (InvalidServerResponse r) = lit (''untrusted server response: '' @ display_server_response r)"
| "display EnrollmentRejected = lit ''enrollment was rejected by the server''"
| "display EnrollmentTransport = lit ''failed to communicate with the enrollment server''"
| "display RequestSigning = lit ''failed to sign request''"
| "display HeartbeatTransport = lit ''failed to communicate with the server''"
| "display HeartbeatRejected = lit ''server rejected the request''"
| "display InvalidHeartbeatResponse = lit ''untrusted heartbeat response''"
| "display CaBundleTransport = lit ''failed to communicate with the CA bundle server''"
| "display CaBundleRejected = lit ''server rejected the CA bundle request''"
| "display (InvalidCaBundle r) = lit (''untrusted CA bundle: '' @ display_ca_bundle r)"
| "display CaReloadFailed = lit ''helper could not apply the bundle; previous CA bundle was restored''"
| "display (MachineRecordParse _) = lit ''failed to parse machine record''"
| "display (MachineRecordSerialize _) = lit ''failed to serialise machine record''"
| "display MachineRecordInvalid = lit ''machine record is invalid''"
| "display HelperUnavailable = lit ''privileged helper is unavailable''"
| "display HelperProtocol = lit ''helper protocol error''"
| "display HelperUnauthenticated = lit ''helper rejected the request: unauthenticated''"
| "display HelperOperationFailed = lit ''helper operation failed''"

definition config_invalid :: "str \<Rightarrow> error" where
  "config_invalid reason = ConfigInvalid reason"

section \<open>No path in a message\<close>

definition slash :: rchar where
  "slash = 47"

lemma slash_lit: "slash \<in> set (lit s) \<longleftrightarrow> CHR ''/'' \<in> set s"
proof -
  have s: "slash = of_char (CHR ''/'')" by (simp add: slash_def)
  have "inj (of_char :: char \<Rightarrow> nat)" by (rule injI) simp
  then show ?thesis
    unfolding s lit_def set_map by (rule inj_image_mem_iff)
qed

text \<open>
  The message of an error never holds a path separator, whatever path its source
  error carries: only the reason of \<open>ConfigInvalid\<close>, which the caller words, reaches a
  message at all.
\<close>

theorem display_never_contains_paths:
  "slash \<in> set (display e) \<longleftrightarrow> (\<exists>reason. e = ConfigInvalid reason \<and> slash \<in> set reason)"
proof (cases e)
  case (InvalidTrustedCa r)
  then show ?thesis by (cases r) (simp_all add: slash_lit)
next
  case (InvalidServerResponse r)
  then show ?thesis by (cases r) (simp_all add: slash_lit)
next
  case (InvalidCaBundle r)
  then show ?thesis by (cases r) (simp_all add: slash_lit)
qed (simp_all add: slash_lit)

text \<open>The reason of a rejected bundle can be told from its message.\<close>

lemma display_ca_bundle_inject: "display_ca_bundle a = display_ca_bundle b \<longleftrightarrow> a = b"
  by (cases a; cases b) simp_all

end
