(* ===== verification/World.thy ===== *)
theory World
  imports Errors
begin

text \<open>
  What the agent runs against. Three kinds of things are here:
  the third-party crates the sources only call (a record of functions, always an
  argument of the definitions that use it); the standard library's paths and file
  system; and the world, which answers everything the agent cannot compute (faults of
  system calls, temporary names, the wall clock, randomness, HTTP exchanges, the helper's
  socket) by functions of a tick that every interaction advances. Theorems quantify over
  the world, so they hold for every clock, every server and every pattern of faults.

  The file system is a map from normalised paths to nodes. Links are followed at the
  last component only, and no other process writes the agent's files; permission checks
  of the kernel are among the faults.
\<close>

section \<open>Third-party crates\<close>

datatype key_algorithm = AlgEd25519 | AlgOther str

datatype keypair_data = KdEd25519 bytes | KdEncrypted bytes | KdOther str

record ssh_public =
  spk_algorithm :: key_algorithm
  spk_ed25519 :: "bytes option"

record private_key =
  prk_algorithm :: key_algorithm
  prk_data :: keypair_data
  prk_comment :: str

text \<open>
  \<open>sha2\<close>, \<open>hex\<close>, \<open>base64\<close>, \<open>ssh_key\<close>, \<open>ed25519_dalek\<close> and the RFC 3339 part of
  \<open>time\<close>. Instants are nanoseconds since the Unix epoch. The algorithm of a private key is
  read from its public half, so it is known of an encrypted key too.
\<close>

record libs =
  lib_sha256 :: "bytes \<Rightarrow> bytes"
  lib_hex :: "bytes \<Rightarrow> str"
  lib_b64_encode :: "bytes \<Rightarrow> str"
  lib_b64_decode :: "str \<Rightarrow> bytes option"
  lib_ssh_public :: "str \<Rightarrow> ssh_public option"
  lib_verifying_key :: "bytes \<Rightarrow> bool"
  lib_verify_strict :: "bytes \<Rightarrow> bytes \<Rightarrow> bytes \<Rightarrow> bool"
  lib_ed25519_sign :: "bytes \<Rightarrow> bytes \<Rightarrow> bytes"
  lib_private_random :: "bytes \<Rightarrow> private_key option"
  lib_private_parse :: "str \<Rightarrow> private_key option"
  lib_private_write :: "private_key \<Rightarrow> str option"
  lib_public_write :: "private_key \<Rightarrow> str option"
  lib_fingerprint :: "private_key \<Rightarrow> str"
  lib_rfc3339_parse :: "str \<Rightarrow> int option"
  lib_rfc3339_format :: "int \<Rightarrow> str option"

text \<open>
  A small instance of the crates for concrete runs: one Ed25519 key line is known, every
  signature of 64 bytes verifies, private keys are their comments, instants are written as whole seconds.
\<close>

definition sample_libs :: libs where
  "sample_libs =
     \<lparr>lib_sha256 = (\<lambda>_. []), lib_hex = (\<lambda>_. lit ''00''), lib_b64_encode = (\<lambda>_. lit ''AA''),
      lib_b64_decode = (\<lambda>_. Some (replicate 64 0)),
      lib_ssh_public = (\<lambda>s. if split_whitespace s = [lit ''ssh-ed25519'', lit ''AAAA'']
        then Some \<lparr>spk_algorithm = AlgEd25519, spk_ed25519 = Some []\<rparr> else None),
      lib_verifying_key = (\<lambda>_. True), lib_verify_strict = (\<lambda>_ _ _. True),
      lib_ed25519_sign = (\<lambda>_ _. replicate 64 0),
      lib_private_random = (\<lambda>_. Some \<lparr>prk_algorithm = AlgEd25519, prk_data = KdEd25519 [], prk_comment = []\<rparr>),
      lib_private_parse = (\<lambda>s. Some \<lparr>prk_algorithm = AlgEd25519, prk_data = KdEd25519 [], prk_comment = s\<rparr>),
      lib_private_write = (\<lambda>k. if prk_algorithm k = AlgEd25519 \<and> prk_data k = KdEd25519 []
          \<and> list_all is_scalar (prk_comment k) then Some (prk_comment k) else None),
      lib_public_write = (\<lambda>_. Some (lit ''ssh-ed25519 AAAA'')), lib_fingerprint = (\<lambda>_. lit ''SHA256:00''),
      lib_rfc3339_parse = (\<lambda>s. map_option (\<lambda>n. int (unat n) * 10 ^ 9) (parse_u64 s)),
      lib_rfc3339_format = (\<lambda>t. Some (show_int (t div 10 ^ 9)))\<rparr>"

section \<open>Paths\<close>

type_synonym path = str

datatype component = RootDir | CurDir | ParentDir | Normal str

type_synonym fskey = "component list"

definition segment_component :: "str \<Rightarrow> component list" where
  "segment_component s =
     (if s = [] \<or> s = lit ''.'' then []
      else if s = lit ''..'' then [ParentDir] else [Normal s])"

text \<open>\<open>Path::components\<close> on Unix.\<close>

definition components :: "path \<Rightarrow> fskey" where
  "components p =
     (let segs = split_char 47 p
      in (if p \<noteq> [] \<and> hd p = 47 then [RootDir]
          else if hd segs = lit ''.'' then [CurDir] else [])
         @ concat (map segment_component segs))"

definition is_absolute :: "path \<Rightarrow> bool" where
  "is_absolute p \<longleftrightarrow> p \<noteq> [] \<and> hd p = 47"

text \<open>\<open>Path::join\<close>: an absolute argument replaces the path.\<close>

definition path_join :: "path \<Rightarrow> path \<Rightarrow> path" where
  "path_join d f =
     (if is_absolute f then f
      else if d = [] \<or> last d = 47 then d @ f else d @ 47 # f)"

section \<open>Files\<close>

datatype node =
    NFile (node_bytes: bytes) (file_mode: u32) (file_uid: u32)
  | NDir (dir_mode: u32) (dir_uid: u32)
  | NLink (link_target: fskey) (link_uid: u32)

type_synonym fsmap = "fskey \<Rightarrow> node option"

fun node_mode :: "node \<Rightarrow> u32" where
  "node_mode (NFile _ m _) = m"
| "node_mode (NDir m _) = m"
| "node_mode (NLink _ _) = 0x1FF"

fun node_uid :: "node \<Rightarrow> u32" where
  "node_uid (NFile _ _ u) = u"
| "node_uid (NDir _ u) = u"
| "node_uid (NLink _ u) = u"

fun is_link :: "node \<Rightarrow> bool" where
  "is_link (NLink _ _) = True"
| "is_link _ = False"

text \<open>Following links, at most as often as the kernel does before it reports a loop.\<close>

fun follow :: "nat \<Rightarrow> fsmap \<Rightarrow> fskey \<Rightarrow> fskey option" where
  "follow 0 m k = None"
| "follow (Suc n) m k = (case m k of Some (NLink t _) \<Rightarrow> follow n m t | _ \<Rightarrow> Some k)"

definition max_links :: nat where
  "max_links = 40"

fun os_message :: "io_kind \<Rightarrow> string" where
  "os_message NotFound = ''No such file or directory''"
| "os_message PermissionDenied = ''Permission denied''"
| "os_message AlreadyExists = ''File exists''"
| "os_message IsADirectory = ''Is a directory''"
| "os_message NotADirectory = ''Not a directory''"
| "os_message InvalidData = ''stream did not contain valid UTF-8''"
| "os_message UnexpectedEof = ''failed to fill whole buffer''"
| "os_message OtherIo = ''Input/output error''"

definition os_err :: "io_kind \<Rightarrow> io_error" where
  "os_err k = IoErr k (lit (os_message k))"

definition stat_of :: "fsmap \<Rightarrow> fskey \<Rightarrow> io_error + node" where
  "stat_of m k =
     (case follow max_links m k of
        None \<Rightarrow> Inl (os_err OtherIo)
      | Some k' \<Rightarrow> ok_or (m k') (os_err NotFound))"

definition read_of :: "fsmap \<Rightarrow> fskey \<Rightarrow> io_error + bytes" where
  "read_of m k =
     (case stat_of m k of
        Inl e \<Rightarrow> Inl e
      | Inr (NFile c _ _) \<Rightarrow> Inr c
      | Inr _ \<Rightarrow> Inl (os_err IsADirectory))"

section \<open>The world\<close>

record http_request =
  req_url :: str
  req_headers :: "(str \<times> str) list"
  req_body :: bytes

record http_response =
  resp_status :: u16
  resp_body :: bytes

datatype http_method = GET | POST

text \<open>
  One connection to the helper's socket: whether the timeouts can be set, how many bytes
  the peer takes before the write fails, whether flushing works, and the bytes that can
  be read once the request is written.
\<close>

record helper_conn =
  conn_timeouts :: bool
  conn_capacity :: "nat option"
  conn_flush :: bool
  conn_reply :: "bytes \<Rightarrow> bytes"

text \<open>
  What the outside can see of a run: every state the file system passes through (also
  the states between two system calls of one operation, which a crash or a concurrent
  reader would find), every request, and every sleep in nanoseconds.
\<close>

datatype event =
    FsNow fsmap
  | Sent http_method http_request
  | HelperSent path bytes
  | Slept nat

record world =
  fs :: fsmap
  euid :: u32
  tick :: nat
  fault :: "nat \<Rightarrow> io_error option"
  tmp_name :: "nat \<Rightarrow> str"
  clock :: "nat \<Rightarrow> int"
  os_random :: "nat \<Rightarrow> nat \<Rightarrow> bytes"
  http :: "nat \<Rightarrow> http_method \<Rightarrow> http_request \<Rightarrow> http_response option"
  helper :: "nat \<Rightarrow> path \<Rightarrow> helper_conn option"
  stop_flag :: "nat \<Rightarrow> bool"
  trace :: "event list"

type_synonym ('e, 'a) comp = "world \<Rightarrow> ('e + 'a) \<times> world"
type_synonym 'a io = "(error, 'a) comp"

definition advance :: "world \<Rightarrow> world" where
  "advance w = w\<lparr>tick := Suc (tick w)\<rparr>"

definition bind_io :: "('e, 'a) comp \<Rightarrow> ('a \<Rightarrow> ('e, 'b) comp) \<Rightarrow> ('e, 'b) comp" where
  "bind_io m k w = (case m w of (Inl e, w') \<Rightarrow> (Inl e, w') | (Inr a, w') \<Rightarrow> k a w')"

definition lift_res :: "'e + 'a \<Rightarrow> ('e, 'a) comp" where
  "lift_res r w = (r, w)"

definition return_io :: "'a \<Rightarrow> ('e, 'a) comp" where
  "return_io a w = (Inr a, w)"

definition map_err_io :: "('e \<Rightarrow> 'f) \<Rightarrow> ('e, 'a) comp \<Rightarrow> ('f, 'a) comp" where
  "map_err_io f m w = (case m w of (r, w') \<Rightarrow> (map_err f r, w'))"

text \<open>
  A system call fails with the fault of its tick; without a fault it does what the file
  system says. A query reads the file system, an update replaces it and leaves the new
  state in the trace.
\<close>

definition sys_query :: "(fsmap \<Rightarrow> io_error + 'a) \<Rightarrow> (io_error, 'a) comp" where
  "sys_query f w =
     (case fault w (tick w) of
        Some e \<Rightarrow> (Inl e, advance w)
      | None \<Rightarrow> (f (fs w), advance w))"

definition sys_update :: "(fsmap \<Rightarrow> io_error + fsmap) \<Rightarrow> (io_error, unit) comp" where
  "sys_update f w =
     (case fault w (tick w) of
        Some e \<Rightarrow> (Inl e, advance w)
      | None \<Rightarrow>
          (case f (fs w) of
             Inl e \<Rightarrow> (Inl e, advance w)
           | Inr m \<Rightarrow> (Inr (), (advance w)\<lparr>fs := m, trace := trace w @ [FsNow m]\<rparr>)))"

definition sys_read :: "fskey \<Rightarrow> (io_error, bytes) comp" where
  "sys_read k = sys_query (\<lambda>m. read_of m k)"

definition sys_read_to_string :: "fskey \<Rightarrow> (io_error, str) comp" where
  "sys_read_to_string k =
     bind_io (sys_read k) (\<lambda>c. lift_res (ok_or (from_utf8 c) (os_err InvalidData)))"

definition sys_lstat :: "fskey \<Rightarrow> (io_error, node) comp" where
  "sys_lstat k = sys_query (\<lambda>m. ok_or (m k) (os_err NotFound))"

definition sys_stat :: "fskey \<Rightarrow> (io_error, node) comp" where
  "sys_stat k = sys_query (\<lambda>m. stat_of m k)"

text \<open>\<open>O_CREAT | O_EXCL\<close> in an existing directory, as the \<open>tempfile\<close> crate opens its files.\<close>

definition sys_create_new :: "fskey \<Rightarrow> fskey \<Rightarrow> u32 \<Rightarrow> u32 \<Rightarrow> (io_error, unit) comp" where
  "sys_create_new d k mode uid = sys_update (\<lambda>m.
     (case stat_of m d of
        Inl e \<Rightarrow> Inl e
      | Inr (NDir _ _) \<Rightarrow>
          (case m k of
             Some _ \<Rightarrow> Inl (os_err AlreadyExists)
           | None \<Rightarrow> Inr (m(k \<mapsto> NFile [] mode uid)))
      | Inr _ \<Rightarrow> Inl (os_err NotADirectory)))"

definition chmod_node :: "u32 \<Rightarrow> node \<Rightarrow> node" where
  "chmod_node mode n =
     (case n of NFile c _ u \<Rightarrow> NFile c mode u | NDir _ u \<Rightarrow> NDir mode u | NLink t u \<Rightarrow> NLink t u)"

definition sys_chmod :: "fskey \<Rightarrow> u32 \<Rightarrow> (io_error, unit) comp" where
  "sys_chmod k mode = sys_update (\<lambda>m.
     (case m k of None \<Rightarrow> Inl (os_err NotFound) | Some n \<Rightarrow> Inr (m(k \<mapsto> chmod_node mode n))))"

definition sys_write_all :: "fskey \<Rightarrow> bytes \<Rightarrow> (io_error, unit) comp" where
  "sys_write_all k c = sys_update (\<lambda>m.
     (case m k of
        Some (NFile c0 mo u) \<Rightarrow> Inr (m(k \<mapsto> NFile (c0 @ c) mo u))
      | _ \<Rightarrow> Inl (os_err OtherIo)))"

definition sys_fsync :: "fskey \<Rightarrow> (io_error, unit) comp" where
  "sys_fsync k = sys_query (\<lambda>m. bind_res (stat_of m k) (\<lambda>_. Inr ()))"

text \<open>\<open>rename\<close> replaces the target name, link or file, but not a directory by a file.\<close>

definition sys_rename :: "fskey \<Rightarrow> fskey \<Rightarrow> (io_error, unit) comp" where
  "sys_rename src dst = sys_update (\<lambda>m.
     (case m src of
        None \<Rightarrow> Inl (os_err NotFound)
      | Some n \<Rightarrow>
          (case m dst of
             Some (NDir _ _) \<Rightarrow> Inl (os_err IsADirectory)
           | _ \<Rightarrow> Inr ((m(src := None))(dst \<mapsto> n)))))"

text \<open>Best-effort removal, as a destructor does it: a failure is ignored.\<close>

definition sys_unlink_quiet :: "fskey \<Rightarrow> world \<Rightarrow> world" where
  "sys_unlink_quiet k w = snd (sys_update (\<lambda>m. Inr (m(k := None))) w)"

text \<open>\<open>Path::is_dir\<close> and \<open>Path::is_file\<close>: any failure means no.\<close>

definition sys_is_dir :: "fskey \<Rightarrow> world \<Rightarrow> bool \<times> world" where
  "sys_is_dir k w =
     (case sys_stat k w of (r, w') \<Rightarrow> ((case r of Inr (NDir _ _) \<Rightarrow> True | _ \<Rightarrow> False), w'))"

definition sys_is_file :: "fskey \<Rightarrow> world \<Rightarrow> bool \<times> world" where
  "sys_is_file k w =
     (case sys_stat k w of (r, w') \<Rightarrow> ((case r of Inr (NFile _ _ _) \<Rightarrow> True | _ \<Rightarrow> False), w'))"

definition clock_now :: "world \<Rightarrow> int \<times> world" where
  "clock_now w = (clock w (tick w), advance w)"

definition random_bytes :: "nat \<Rightarrow> world \<Rightarrow> bytes \<times> world" where
  "random_bytes n w = (os_random w (tick w) n, advance w)"

definition http_exchange :: "http_method \<Rightarrow> http_request \<Rightarrow> error \<Rightarrow> http_response io" where
  "http_exchange meth rq e w =
     (ok_or (http w (tick w) meth rq) e, (advance w)\<lparr>trace := trace w @ [Sent meth rq]\<rparr>)"

definition stop_requested :: "world \<Rightarrow> bool \<times> world" where
  "stop_requested w = (stop_flag w (tick w), advance w)"

text \<open>A world without faults, with a silent network: the start of the concrete runs below.\<close>

definition quiet_world :: "fsmap \<Rightarrow> world" where
  "quiet_world m = \<lparr>fs = m, euid = 0, tick = 0, fault = (\<lambda>_. None), tmp_name = show_nat,
     clock = (\<lambda>_. 0), os_random = (\<lambda>_ n. replicate n 0), http = (\<lambda>_ _ _. None),
     helper = (\<lambda>_ _. None), stop_flag = (\<lambda>_. False), trace = []\<rparr>"

section \<open>Sequencing\<close>

lemma bind_io_cases:
  assumes "bind_io m k w = (r, w')"
  obtains (err) e where "m w = (Inl e, w')" and "r = Inl e"
    | (ok) a w1 where "m w = (Inr a, w1)" and "k a w1 = (r, w')"
  using assms by (auto simp: bind_io_def split: prod.splits sum.splits)

lemma bind_io_Inr:
  "bind_io m k w = (Inr b, w') \<longleftrightarrow> (\<exists>a w1. m w = (Inr a, w1) \<and> k a w1 = (Inr b, w'))"
  by (auto simp: bind_io_def split: prod.splits sum.splits)

lemma bind_io_step: "m w = (Inr a, w1) \<Longrightarrow> bind_io m k w = k a w1"
  by (simp add: bind_io_def)

lemma bind_io_fail: "m w = (Inl e, w1) \<Longrightarrow> bind_io m k w = (Inl e, w1)"
  by (simp add: bind_io_def)

lemma lift_res_apply [simp]: "lift_res r w = (r, w)"
  by (simp add: lift_res_def)

lemma return_io_apply [simp]: "return_io a w = (Inr a, w)"
  by (simp add: return_io_def)

lemma advance_simps [simp]:
  "fs (advance w) = fs w" "trace (advance w) = trace w" "tick (advance w) = Suc (tick w)"
  "euid (advance w) = euid w" "fault (advance w) = fault w" "tmp_name (advance w) = tmp_name w"
  "clock (advance w) = clock w" "os_random (advance w) = os_random w" "http (advance w) = http w"
  "helper (advance w) = helper w" "stop_flag (advance w) = stop_flag w"
  by (simp_all add: advance_def)

lemma quiet_world_simps [simp]:
  "fs (quiet_world m) = m" "euid (quiet_world m) = 0" "tick (quiet_world m) = 0"
  "fault (quiet_world m) = (\<lambda>_. None)" "tmp_name (quiet_world m) = show_nat"
  "clock (quiet_world m) = (\<lambda>_. 0)" "http (quiet_world m) = (\<lambda>_ _ _. None)"
  "helper (quiet_world m) = (\<lambda>_ _. None)" "trace (quiet_world m) = []"
  "stop_flag (quiet_world m) = (\<lambda>_. False)" "os_random (quiet_world m) = (\<lambda>_ n. replicate n 0)"
  by (simp_all add: quiet_world_def)

section \<open>What a computation may do\<close>

text \<open>
  The names the \<open>tempfile\<close> crate gives its files start with a fixed prefix. What a
  computation does to such files is nobody's concern; what it does to all others is
  described by the changes it may make (\<open>P k n\<close>: key \<open>k\<close> may become \<open>n\<close>) and the
  messages it may send (\<open>Q\<close>), at the end and at every moment in between.
\<close>

definition tmp_prefix :: str where
  "tmp_prefix = lit ''.tmp''"

definition is_tmp :: "fskey \<Rightarrow> bool" where
  "is_tmp k \<longleftrightarrow> (\<exists>d n. k = d @ [Normal (tmp_prefix @ n)])"

definition fs_change :: "(fskey \<Rightarrow> node option \<Rightarrow> bool) \<Rightarrow> fsmap \<Rightarrow> fsmap \<Rightarrow> bool" where
  "fs_change P m m' \<longleftrightarrow> (\<forall>k. \<not> is_tmp k \<longrightarrow> m' k = m k \<or> P k (m' k))"

definition event_ok ::
    "(fskey \<Rightarrow> node option \<Rightarrow> bool) \<Rightarrow> (event \<Rightarrow> bool) \<Rightarrow> fsmap \<Rightarrow> event \<Rightarrow> bool" where
  "event_ok P Q m e = (case e of FsNow m' \<Rightarrow> fs_change P m m' | _ \<Rightarrow> Q e)"

definition same_env :: "world \<Rightarrow> world \<Rightarrow> bool" where
  "same_env w w' \<longleftrightarrow> euid w' = euid w \<and> fault w' = fault w \<and> tmp_name w' = tmp_name w
     \<and> clock w' = clock w \<and> os_random w' = os_random w \<and> http w' = http w
     \<and> helper w' = helper w \<and> stop_flag w' = stop_flag w \<and> tick w \<le> tick w'"

definition confined ::
    "(fskey \<Rightarrow> node option \<Rightarrow> bool) \<Rightarrow> (event \<Rightarrow> bool) \<Rightarrow> world \<Rightarrow> world \<Rightarrow> bool" where
  "confined P Q w w' \<longleftrightarrow> same_env w w' \<and> fs_change P (fs w) (fs w')
     \<and> (\<exists>es. trace w' = trace w @ es \<and> (\<forall>e \<in> set es. event_ok P Q (fs w) e))"

lemma same_env_refl [simp]: "same_env w w"
  by (simp add: same_env_def)

lemma same_env_trans: "same_env u v \<Longrightarrow> same_env v w \<Longrightarrow> same_env u w"
  by (auto simp: same_env_def)

lemma fs_change_refl [simp]: "fs_change P m m"
  by (simp add: fs_change_def)

lemma fs_change_trans: "fs_change P a b \<Longrightarrow> fs_change P b c \<Longrightarrow> fs_change P a c"
  unfolding fs_change_def by metis

lemma confined_refl [simp]: "confined P Q w w"
  by (simp add: confined_def)

lemma confined_advance [simp]: "confined P Q w (advance w)"
  by (simp add: confined_def same_env_def)

lemma confined_trans:
  assumes "confined P Q u v" and "confined P Q v w"
  shows "confined P Q u w"
proof -
  from assms(1) obtain es where es: "trace v = trace u @ es"
      "\<forall>e \<in> set es. event_ok P Q (fs u) e" and uv: "fs_change P (fs u) (fs v)"
    by (auto simp: confined_def)
  from assms(2) obtain es' where es': "trace w = trace v @ es'"
      "\<forall>e \<in> set es'. event_ok P Q (fs v) e" and vw: "fs_change P (fs v) (fs w)"
    by (auto simp: confined_def)
  have "event_ok P Q (fs u) e" if "e \<in> set es'" for e
    using es'(2) that uv fs_change_trans
    by (cases e) (auto simp: event_ok_def)
  with es es' uv vw assms show ?thesis
    by (auto simp: confined_def intro: same_env_trans fs_change_trans)
qed

lemma confined_mono:
  assumes "confined P Q u w"
    and "\<And>k n. P k n \<Longrightarrow> P' k n" and "\<And>e. Q e \<Longrightarrow> Q' e"
  shows "confined P' Q' u w"
proof -
  have "fs_change P a b \<Longrightarrow> fs_change P' a b" for a b
    using assms(2) unfolding fs_change_def by blast
  moreover from this have "event_ok P Q m e \<Longrightarrow> event_ok P' Q' m e" for m e
    using assms(3) by (cases e) (auto simp: event_ok_def)
  ultimately show ?thesis using assms(1) unfolding confined_def by blast
qed

lemma confined_fs: "confined P Q w w' \<Longrightarrow> \<not> is_tmp k \<Longrightarrow> fs w' k = fs w k \<or> P k (fs w' k)"
  by (auto simp: confined_def fs_change_def)

lemma confined_env: "confined P Q w w' \<Longrightarrow> same_env w w'"
  by (simp add: confined_def)

lemma confined_moments:
  assumes "confined P Q w w'"
  obtains es where "trace w' = trace w @ es"
    "\<And>m. m = fs w' \<or> FsNow m \<in> set es \<Longrightarrow> fs_change P (fs w) m"
    "\<And>e. e \<in> set es \<Longrightarrow> (\<forall>m. e \<noteq> FsNow m) \<Longrightarrow> Q e"
proof -
  from assms obtain es where es: "trace w' = trace w @ es" "fs_change P (fs w) (fs w')"
      "\<forall>e \<in> set es. event_ok P Q (fs w) e"
    by (auto simp: confined_def)
  have "fs_change P (fs w) m" if "m = fs w' \<or> FsNow m \<in> set es" for m
    using that es(2,3) by (auto simp: event_ok_def dest: bspec [where x = "FsNow m"])
  moreover have "Q e" if "e \<in> set es" "\<forall>m. e \<noteq> FsNow m" for e
  proof -
    from that(1) es(3) have "event_ok P Q (fs w) e" by blast
    with that(2) show ?thesis by (cases e) (auto simp: event_ok_def)
  qed
  ultimately show ?thesis using that es(1) by blast
qed

text \<open>What a run sent and slept: the trace without the states of the file system.\<close>

fun is_message :: "event \<Rightarrow> bool" where
  "is_message (FsNow _) = False"
| "is_message _ = True"

definition messages :: "event list \<Rightarrow> event list" where
  "messages es = filter is_message es"

lemma messages_simps [simp]:
  "messages [] = []" "messages (a @ b) = messages a @ messages b"
  "messages (FsNow m # es) = messages es" "messages (Sent meth rq # es) = Sent meth rq # messages es"
  by (simp_all add: messages_def)

lemma confined_silent:
  assumes "confined P (\<lambda>_. False) w w'"
  shows "messages (trace w') = messages (trace w)"
proof -
  from assms obtain es where es: "trace w' = trace w @ es" "\<forall>e \<in> set es. event_ok P (\<lambda>_. False) (fs w) e"
    by (auto simp: confined_def)
  have "\<not> is_message e" if "e \<in> set es" for e
  proof -
    from es(2) that have "event_ok P (\<lambda>_. False) (fs w) e" by blast
    then show ?thesis by (cases e) (simp_all add: event_ok_def)
  qed
  with es(1) show ?thesis by (simp add: messages_def filter_empty_conv)
qed

text \<open>The states of the file system a run went through: the trace without the messages.\<close>

fun fs_moments :: "event list \<Rightarrow> fsmap list" where
  "fs_moments [] = []"
| "fs_moments (FsNow m # es) = m # fs_moments es"
| "fs_moments (_ # es) = fs_moments es"

lemma fs_moments_append [simp]: "fs_moments (a @ b) = fs_moments a @ fs_moments b"
  by (induction a rule: fs_moments.induct) simp_all

lemma fs_moments_slept [simp]: "fs_moments (map Slept cs) = []"
  by (induction cs) simp_all

lemma set_fs_moments: "m \<in> set (fs_moments es) \<longleftrightarrow> FsNow m \<in> set es"
  by (induction es rule: fs_moments.induct) auto

text \<open>A computation keeps to \<open>P\<close> and \<open>Q\<close> when it does so from every world.\<close>

definition keeps ::
    "(fskey \<Rightarrow> node option \<Rightarrow> bool) \<Rightarrow> (event \<Rightarrow> bool) \<Rightarrow> ('e, 'a) comp \<Rightarrow> bool" where
  "keeps P Q m \<longleftrightarrow> (\<forall>w. confined P Q w (snd (m w)))"

lemma keepsD: "keeps P Q m \<Longrightarrow> m w = (r, w') \<Longrightarrow> confined P Q w w'"
  unfolding keeps_def by (metis snd_conv)

lemma keeps_bind [intro]:
  assumes "keeps P Q m" and "\<And>a. keeps P Q (k a)"
  shows "keeps P Q (bind_io m k)"
  unfolding keeps_def
proof
  fix w
  obtain r w' where e: "bind_io m k w = (r, w')" by fastforce
  then show "confined P Q w (snd (bind_io m k w))"
  proof (cases rule: bind_io_cases)
    case (err x)
    with assms(1) e show ?thesis by (simp add: keepsD)
  next
    case (ok a w1)
    from keepsD [OF assms(1) ok(1)] keepsD [OF assms(2) ok(2)] e show ?thesis
      by (auto intro: confined_trans)
  qed
qed

lemma keeps_lift [intro]: "keeps P Q (lift_res r)"
  by (simp add: keeps_def)

lemma keeps_return [intro]: "keeps P Q (return_io r)"
  by (simp add: keeps_def)

lemma keeps_if [intro]: "keeps P Q a \<Longrightarrow> keeps P Q b \<Longrightarrow> keeps P Q (if c then a else b)"
  by simp

lemma keeps_map_err [intro]: "keeps P Q m \<Longrightarrow> keeps P Q (map_err_io f m)"
  by (auto simp: keeps_def map_err_io_def split: prod.splits) (metis snd_conv)

lemma keeps_query [intro]: "keeps P Q (sys_query f)"
  by (auto simp: keeps_def sys_query_def split: option.splits)

lemma keeps_read [intro]: "keeps P Q (sys_read k)" "keeps P Q (sys_read_to_string k)"
  "keeps P Q (sys_lstat k)" "keeps P Q (sys_stat k)" "keeps P Q (sys_fsync k)"
  by (auto simp: sys_read_def sys_read_to_string_def sys_lstat_def sys_stat_def sys_fsync_def)

text \<open>The same from the worlds that satisfy an invariant which such changes preserve.\<close>

definition keeps_when ::
    "(world \<Rightarrow> bool) \<Rightarrow> (fskey \<Rightarrow> node option \<Rightarrow> bool) \<Rightarrow> (event \<Rightarrow> bool) \<Rightarrow> ('e, 'a) comp \<Rightarrow> bool" where
  "keeps_when I P Q m \<longleftrightarrow> (\<forall>w. I w \<longrightarrow> confined P Q w (snd (m w)))"

definition preserved :: "(world \<Rightarrow> bool) \<Rightarrow> (fskey \<Rightarrow> node option \<Rightarrow> bool) \<Rightarrow> (event \<Rightarrow> bool) \<Rightarrow> bool" where
  "preserved I P Q \<longleftrightarrow> (\<forall>w w'. I w \<longrightarrow> confined P Q w w' \<longrightarrow> I w')"

lemma keeps_whenD: "keeps_when I P Q m \<Longrightarrow> I w \<Longrightarrow> m w = (r, w') \<Longrightarrow> confined P Q w w'"
  unfolding keeps_when_def by (metis snd_conv)

lemma keeps_imp_when: "keeps P Q m \<Longrightarrow> keeps_when I P Q m"
  by (simp add: keeps_def keeps_when_def)

lemma keeps_when_bind:
  assumes "preserved I P Q" and "keeps_when I P Q m" and "\<And>a. keeps_when I P Q (k a)"
  shows "keeps_when I P Q (bind_io m k)"
  unfolding keeps_when_def
proof (intro allI impI)
  fix w
  assume I: "I w"
  obtain r w' where e: "bind_io m k w = (r, w')" by fastforce
  then show "confined P Q w (snd (bind_io m k w))"
  proof (cases rule: bind_io_cases)
    case (err x)
    with keeps_whenD [OF assms(2) I err(1)] e show ?thesis by simp
  next
    case (ok a w1)
    have 1: "confined P Q w w1" using keeps_whenD [OF assms(2) I ok(1)] .
    with assms(1) I have "I w1" unfolding preserved_def by blast
    from confined_trans [OF 1 keeps_whenD [OF assms(3) this ok(2)]] e show ?thesis by simp
  qed
qed

lemma keeps_when_lift_bind:
  assumes "\<And>a. r = Inr a \<Longrightarrow> keeps_when I P Q (k a)"
  shows "keeps_when I P Q (bind_io (lift_res r) k)"
proof (cases r)
  case (Inr a)
  with assms [of a] show ?thesis by (simp add: keeps_when_def bind_io_def)
qed (simp add: keeps_when_def bind_io_def)

lemma keeps_lift_bind:
  assumes "\<And>a. r = Inr a \<Longrightarrow> keeps P Q (k a)"
  shows "keeps P Q (bind_io (lift_res r) k)"
proof (cases r)
  case (Inr a)
  with assms [of a] show ?thesis by (simp add: keeps_def bind_io_def)
qed (simp add: keeps_def bind_io_def)

lemma keeps_mono:
  assumes "keeps P Q m" and "\<And>k n. P k n \<Longrightarrow> P' k n" and "\<And>e. Q e \<Longrightarrow> Q' e"
  shows "keeps P' Q' m"
  unfolding keeps_def
proof
  fix w
  have "confined P Q w (snd (m w))" using assms(1) by (simp add: keeps_def)
  then show "confined P' Q' w (snd (m w))" by (rule confined_mono) (use assms(2,3) in blast)+
qed

lemma keeps_exchange: "Q (Sent meth rq) \<Longrightarrow> keeps P Q (http_exchange meth rq e)"
  by (auto simp: keeps_def http_exchange_def confined_def same_env_def event_ok_def)

text \<open>Queries leave the file system and the trace alone.\<close>

lemma sys_query_frame:
  "sys_query f w = (r, w') \<Longrightarrow> fs w' = fs w \<and> trace w' = trace w"
  by (auto simp: sys_query_def split: option.splits)

lemma sys_read_frame: "sys_read k w = (r, w') \<Longrightarrow> fs w' = fs w \<and> trace w' = trace w"
  unfolding sys_read_def by (rule sys_query_frame)

lemma sys_read_Inr: "sys_read k w = (Inr c, w') \<Longrightarrow> read_of (fs w) k = Inr c"
  by (auto simp: sys_read_def sys_query_def split: option.splits)

lemma sys_read_Inl:
  "sys_read k w = (Inl e, w') \<Longrightarrow> read_of (fs w) k = Inl e \<or> fault w (tick w) = Some e"
  by (auto simp: sys_read_def sys_query_def split: option.splits)

lemma sys_read_ok:
  "fault w (tick w) = None \<Longrightarrow> sys_read k w = (read_of (fs w) k, advance w)"
  by (simp add: sys_read_def sys_query_def)

lemma sys_update_within:
  assumes "\<And>m'. f (fs w) = Inr m' \<Longrightarrow> fs_change P (fs w) m'"
  shows "confined P Q w (snd (sys_update f w))"
  using assms
  by (auto simp: sys_update_def confined_def same_env_def event_ok_def
           split: option.splits sum.splits)

lemma clock_now_frame: "clock_now w = (t, w') \<Longrightarrow> w' = advance w"
  by (simp add: clock_now_def)

lemma read_of_file [simp]: "m k = Some (NFile c mo u) \<Longrightarrow> read_of m k = Inr c"
  by (simp add: read_of_def stat_of_def max_links_def numeral_eq_Suc)

lemma read_of_none [simp]: "m k = None \<Longrightarrow> read_of m k = Inl (os_err NotFound)"
  by (simp add: read_of_def stat_of_def max_links_def numeral_eq_Suc)

lemma read_of_dir [simp]: "m k = Some (NDir mo u) \<Longrightarrow> read_of m k = Inl (os_err IsADirectory)"
  by (simp add: read_of_def stat_of_def max_links_def numeral_eq_Suc)

text \<open>A name that is no link is read where it stands.\<close>

lemma read_of_cong:
  assumes "m k = m' k" and "\<And>t u. m k \<noteq> Some (NLink t u)"
  shows "read_of m k = read_of m' k"
proof (cases "m k")
  case None
  with assms(1) show ?thesis by simp
next
  case (Some n)
  with assms(1) have "m' k = Some n" by simp
  with Some assms(2) show ?thesis by (cases n) simp_all
qed

end
