(* ===== verification/Security.thy ===== *)
theory Security
  imports World
begin

text \<open>
  \<open>src/security.rs\<close>: the hardened file-system primitives. \<open>secure_write\<close> is modelled
  system call by system call (temporary file with the crate's private mode, permission
  bits, contents, \<open>fsync\<close>, rename, directory \<open>fsync\<close>), each of which can fail; when it
  fails before the temporary file is kept, the destructor of the temporary file removes
  it. The lemmas say what each primitive leaves behind: a reader or a crash at any moment
  finds the old file or the whole new one, and nothing else is touched.
\<close>

section \<open>Definitions\<close>

definition MODE_SECRET :: u32 where
  "MODE_SECRET = 0x180"

definition MODE_PUBLIC :: u32 where
  "MODE_PUBLIC = 0x1A4"

definition MODE_DIR :: u32 where
  "MODE_DIR = 0x1C0"

definition GROUP_OR_OTHER_WRITABLE :: u32 where
  "GROUP_OR_OTHER_WRITABLE = 0x12"

definition parent_of :: "path \<Rightarrow> fskey res" where
  "parent_of p =
     (let cs = components p
      in if cs = [] \<or> last cs = RootDir \<or> butlast cs = [] then Inl InvalidPath
         else Inr (butlast cs))"

definition fsync_dir :: "fskey \<Rightarrow> unit io" where
  "fsync_dir d = map_err_io Io (bind_io (sys_stat d) (\<lambda>_. sys_fsync d))"

definition atomic_replace :: "fskey \<Rightarrow> path \<Rightarrow> unit io" where
  "atomic_replace src dst =
     bind_io (lift_res (parent_of dst)) (\<lambda>parent.
     bind_io (map_err_io Io (sys_rename src (components dst))) (\<lambda>_.
     fsync_dir parent))"

definition tmp_key :: "fskey \<Rightarrow> world \<Rightarrow> fskey" where
  "tmp_key d w = d @ [Normal (tmp_prefix @ tmp_name w (tick w))]"

text \<open>The steps on the temporary file before it is renamed; \<open>keep\<close> is the last of them.\<close>

definition fill_temp :: "fskey \<Rightarrow> bytes \<Rightarrow> u32 \<Rightarrow> (io_error, unit) comp" where
  "fill_temp tmp contents mode =
     bind_io (sys_chmod tmp mode) (\<lambda>_.
     bind_io (sys_write_all tmp contents) (\<lambda>_.
     bind_io (sys_fsync tmp) (\<lambda>_.
     sys_query (\<lambda>_. Inr ()))))"

definition secure_write :: "path \<Rightarrow> bytes \<Rightarrow> u32 \<Rightarrow> unit io" where
  "secure_write p contents mode w =
     (case parent_of p of
        Inl e \<Rightarrow> (Inl e, w)
      | Inr parent \<Rightarrow>
          (let tmp = tmp_key parent w
           in case sys_create_new parent tmp MODE_SECRET (euid w) w of
                (Inl e, w1) \<Rightarrow> (Inl (Io e), w1)
              | (Inr _, w1) \<Rightarrow>
                  (case fill_temp tmp contents mode w1 of
                     (Inl e, w2) \<Rightarrow> (Inl (Io e), sys_unlink_quiet tmp w2)
                   | (Inr _, w2) \<Rightarrow> atomic_replace tmp p w2)))"

definition is_symlink :: "path \<Rightarrow> bool io" where
  "is_symlink p w =
     (case sys_lstat (components p) w of
        (Inr n, w') \<Rightarrow> (Inr (is_link n), w')
      | (Inl e, w') \<Rightarrow> (if ioe_kind e = NotFound then (Inr False, w') else (Inl (Io e), w')))"

definition ensure_not_symlink :: "path \<Rightarrow> unit io" where
  "ensure_not_symlink p =
     bind_io (is_symlink p) (\<lambda>b. lift_res (if b then Inl UnexpectedSymlink else Inr ()))"

definition validate_owner :: "path \<Rightarrow> u32 \<Rightarrow> unit io" where
  "validate_owner p expected_uid =
     bind_io (map_err_io Io (sys_lstat (components p))) (\<lambda>meta.
     lift_res (if node_uid meta \<noteq> expected_uid then Inl InsecureOwnership else Inr ()))"

definition ensure_not_group_or_world_writable :: "path \<Rightarrow> unit io" where
  "ensure_not_group_or_world_writable p =
     bind_io (map_err_io Io (sys_lstat (components p))) (\<lambda>meta.
     lift_res (if (node_mode meta AND 0x1FF) AND GROUP_OR_OTHER_WRITABLE \<noteq> 0
               then Inl InsecurePermissions else Inr ()))"

definition validate_mode_at_most :: "path \<Rightarrow> u32 \<Rightarrow> unit io" where
  "validate_mode_at_most p allowed_mode =
     bind_io (map_err_io Io (sys_lstat (components p))) (\<lambda>meta.
     lift_res (if (node_mode meta AND 0x1FF) AND NOT (allowed_mode AND 0x1FF) \<noteq> 0
               then Inl InsecurePermissions else Inr ()))"

section \<open>What the steps of a write do\<close>

lemma is_tmp_tmp_key [simp]: "is_tmp (tmp_key d w)"
  by (auto simp: is_tmp_def tmp_key_def)

lemma sys_update_cases:
  assumes "sys_update f w = (r, w')"
  obtains (fail) e where "r = Inl e" and "w' = advance w"
    | (upd) m where "r = Inr ()" and "f (fs w) = Inr m"
        and "w' = (advance w)\<lparr>fs := m, trace := trace w @ [FsNow m]\<rparr>"
  using assms by (auto simp: sys_update_def split: option.splits sum.splits)

lemma sys_create_new_cases:
  assumes "sys_create_new d k mode uid w = (r, w')"
  obtains (fail) e where "r = Inl e" and "w' = advance w"
    | (upd) "r = Inr ()" and "fs w k = None" and "fs w' = (fs w)(k \<mapsto> NFile [] mode uid)"
  using assms unfolding sys_create_new_def
  by (cases rule: sys_update_cases) (auto split: sum.splits node.splits option.splits)

text \<open>
  Filling the temporary file touches that file only; on success it holds the contents
  under the requested mode.
\<close>

lemma fill_temp_effect:
  assumes "fill_temp k c mode w = (r, w')" and "fs w k = Some (NFile [] m0 u)"
  shows "(\<exists>n. fs w' = (fs w)(k \<mapsto> n)) \<and> (r = Inr () \<longrightarrow> fs w' = (fs w)(k \<mapsto> NFile c mode u))"
proof -
  have same: "\<exists>n. fs w = (fs w)(k \<mapsto> n)"
    using assms(2) by (metis fun_upd_triv)
  show ?thesis
    using assms same unfolding fill_temp_def sys_chmod_def sys_write_all_def
    by (elim bind_io_cases sys_update_cases)
       (auto simp: chmod_node_def sys_fsync_def dest!: sys_query_frame)
qed

lemma sys_unlink_quiet_fs:
  "fs (sys_unlink_quiet k w) = fs w \<or> fs (sys_unlink_quiet k w) = (fs w)(k := None)"
  by (auto simp: sys_unlink_quiet_def sys_update_def split: option.splits)

text \<open>
  The four ways a write can end: done; failed without a trace; failed after the rename
  (the directory could not be synced); failed with the temporary file left behind.
\<close>

inductive write_result :: "path \<Rightarrow> bytes \<Rightarrow> u32 \<Rightarrow> world \<Rightarrow> unit res \<Rightarrow> fsmap \<Rightarrow> bool" for p c mode w where
  written: "write_result p c mode w (Inr ()) ((fs w)(components p \<mapsto> NFile c mode (euid w)))"
| untouched: "write_result p c mode w (Inl e) (fs w)"
| unsynced: "write_result p c mode w (Inl e) ((fs w)(components p \<mapsto> NFile c mode (euid w)))"
| leaked: "is_tmp k \<Longrightarrow> fs w k = None \<Longrightarrow> write_result p c mode w (Inl e) ((fs w)(k \<mapsto> n))"

inductive_cases write_resultE: "write_result p c mode w r m"

lemma fsync_dir_frame: "fsync_dir d w = (r, w') \<Longrightarrow> fs w' = fs w"
  unfolding fsync_dir_def map_err_io_def sys_stat_def sys_fsync_def
  by (auto split: prod.splits elim!: bind_io_cases dest!: sys_query_frame)

lemma sys_rename_cases:
  assumes "sys_rename src dst w = (r, w')"
  obtains (fail) e where "r = Inl e" and "w' = advance w"
    | (upd) n where "r = Inr ()" and "fs w src = Some n" and "fs w' = ((fs w)(src := None))(dst \<mapsto> n)"
  using assms unfolding sys_rename_def
  by (cases rule: sys_update_cases) (auto split: node.splits option.splits)

lemma atomic_replace_effect:
  assumes "atomic_replace src dst w = (r, w')" and "fs w src = Some n"
  shows "(\<exists>e. r = Inl e \<and> fs w' = fs w) \<or> fs w' = ((fs w)(src := None))(components dst \<mapsto> n)"
  using assms(1) unfolding atomic_replace_def
proof (cases rule: bind_io_cases)
  case (ok parent w1)
  then have w1: "w1 = w" by simp
  from ok(2) show ?thesis
  proof (cases rule: bind_io_cases)
    case (err e)
    then show ?thesis
      using w1 by (auto simp: map_err_io_def split: prod.splits elim!: sys_rename_cases)
  next
    case ok2: (ok u w2)
    have "fs w2 = ((fs w)(src := None))(components dst \<mapsto> n)"
      using ok2(1) w1 assms(2)
      by (auto simp: map_err_io_def split: prod.splits elim!: sys_rename_cases)
    with fsync_dir_frame [OF ok2(2)] show ?thesis by simp
  qed
qed auto

lemma secure_write_result:
  assumes "secure_write p c mode w = (r, w')"
  shows "write_result p c mode w r (fs w')"
proof (cases "parent_of p")
  case (Inl e)
  with assms show ?thesis by (auto simp: secure_write_def intro: untouched)
next
  case (Inr d)
  let ?k = "tmp_key d w"
  obtain r1 w1 where cr: "sys_create_new d ?k MODE_SECRET (euid w) w = (r1, w1)" by fastforce
  then show ?thesis
  proof (cases rule: sys_create_new_cases)
    case (fail e)
    with assms Inr cr show ?thesis
      by (auto simp: secure_write_def Let_def intro: untouched)
  next
    case upd
    obtain r2 w2 where fl: "fill_temp ?k c mode w1 = (r2, w2)" by fastforce
    have k1: "fs w1 ?k = Some (NFile [] MODE_SECRET (euid w))" using upd by simp
    from fill_temp_effect [OF fl this]
    obtain n where n: "fs w2 = (fs w1)(?k \<mapsto> n)" by blast
    show ?thesis
    proof (cases r2)
      case (Inl e)
      then have w': "w' = sys_unlink_quiet ?k w2" and r: "r = Inl (Io e)"
        using assms Inr cr upd(1) fl by (auto simp: secure_write_def Let_def)
      from sys_unlink_quiet_fs [of ?k w2] n upd(2,3) w'
      have "fs w' = (fs w)(?k \<mapsto> n) \<or> fs w' = fs w"
        by (auto simp: fun_upd_idem)
      with r show ?thesis
        using leaked [OF is_tmp_tmp_key upd(2)] untouched by metis
    next
      case (Inr u)
      then have "r2 = Inr ()" by simp
      with fill_temp_effect [OF fl k1] have w2: "fs w2 = (fs w)(?k \<mapsto> NFile c mode (euid w))"
        using upd(3) by simp
      from \<open>r2 = Inr ()\<close> have ar: "atomic_replace ?k p w2 = (r, w')"
        using assms \<open>parent_of p = Inr d\<close> cr upd(1) fl by (auto simp: secure_write_def Let_def)
      from atomic_replace_effect [OF ar] w2
      consider e where "r = Inl e" "fs w' = fs w2"
        | "fs w' = ((fs w2)(?k := None))(components p \<mapsto> NFile c mode (euid w))"
        by auto
      then show ?thesis
      proof cases
        case 1
        with w2 show ?thesis
          using leaked [OF is_tmp_tmp_key upd(2)] by metis
      next
        case 2
        then have "fs w' = (fs w)(components p \<mapsto> NFile c mode (euid w))"
          using w2 upd(2) by (auto simp: fun_upd_idem)
        then show ?thesis
          by (cases r) (auto intro: written unsynced)
      qed
    qed
  qed
qed

section \<open>Atomicity\<close>

lemma fs_change_tmp: "is_tmp k \<Longrightarrow> fs_change P m (m(k := x))"
  by (auto simp: fs_change_def)

lemma fill_temp_keeps: "is_tmp k \<Longrightarrow> keeps P Q (fill_temp k c mode)"
  unfolding fill_temp_def sys_chmod_def sys_write_all_def keeps_def [of P Q "sys_update _"]
  by (intro keeps_bind keeps_query keeps_read)
     (auto simp: keeps_def intro!: sys_update_within
           split: option.splits node.splits dest: fs_change_tmp)

lemma sys_create_new_within: "is_tmp k \<Longrightarrow> confined P Q w (snd (sys_create_new d k mode uid w))"
  unfolding sys_create_new_def
  by (rule sys_update_within) (auto split: sum.splits node.splits option.splits dest: fs_change_tmp)

lemma sys_unlink_within: "is_tmp k \<Longrightarrow> confined P Q w (sys_unlink_quiet k w)"
  unfolding sys_unlink_quiet_def by (rule sys_update_within) (auto dest: fs_change_tmp)

lemma fsync_dir_keeps [intro]: "keeps P Q (fsync_dir d)"
  unfolding fsync_dir_def by auto

lemma atomic_replace_within:
  assumes "is_tmp src" and "fs w src = Some n" and "P (components dst) (Some n)"
  shows "confined P Q w (snd (atomic_replace src dst w))"
proof -
  have ren: "confined P Q w (snd (sys_rename src (components dst) w))"
    unfolding sys_rename_def using assms
    by (intro sys_update_within) (auto simp: fs_change_def split: option.splits node.splits if_splits)
  show ?thesis
  proof (cases "parent_of dst")
    case (Inl e)
    then show ?thesis by (simp add: atomic_replace_def bind_io_def)
  next
    case (Inr d)
    obtain r w1 where r: "sys_rename src (components dst) w = (r, w1)" by fastforce
    have fd: "confined P Q w1 (snd (fsync_dir d w1))"
      using fsync_dir_keeps by (simp add: keeps_def)
    show ?thesis
      using ren fd r Inr
      by (cases r) (auto simp: atomic_replace_def bind_io_def map_err_io_def intro: confined_trans)
  qed
qed

text \<open>The file states a write passes through, as changes a computation may make.\<close>

lemma secure_write_within:
  assumes "P (components p) (Some (NFile c mode (euid w)))"
  shows "confined P Q w (snd (secure_write p c mode w))"
proof (cases "parent_of p")
  case (Inl e)
  then show ?thesis by (simp add: secure_write_def)
next
  case (Inr d)
  let ?k = "tmp_key d w"
  obtain r1 w1 where cr: "sys_create_new d ?k MODE_SECRET (euid w) w = (r1, w1)" by fastforce
  have ww1: "confined P Q w w1"
    using sys_create_new_within [of ?k P Q w d MODE_SECRET "euid w"] cr by simp
  obtain r2 w2 where fl: "fill_temp ?k c mode w1 = (r2, w2)" by fastforce
  have w12: "confined P Q w1 w2" using keepsD [OF fill_temp_keeps fl] by simp
  show ?thesis
  proof (cases r1)
    case (Inl e)
    with \<open>parent_of p = Inr d\<close> cr ww1 show ?thesis by (simp add: secure_write_def Let_def)
  next
    case r1: (Inr u)
    show ?thesis
    proof (cases r2)
      case (Inl e)
      have "confined P Q w2 (sys_unlink_quiet ?k w2)" by (simp add: sys_unlink_within)
      with ww1 w12 have "confined P Q w (sys_unlink_quiet ?k w2)"
        by (blast intro: confined_trans)
      with \<open>parent_of p = Inr d\<close> cr r1 fl Inl show ?thesis
        by (simp add: secure_write_def Let_def)
    next
      case r2: (Inr v)
      have "fs w1 ?k = Some (NFile [] MODE_SECRET (euid w))"
        using cr r1 by (auto elim: sys_create_new_cases)
      with fill_temp_effect [OF fl] r2 have "fs w2 ?k = Some (NFile c mode (euid w))"
        by auto
      then have "confined P Q w2 (snd (atomic_replace ?k p w2))"
        using assms by (intro atomic_replace_within) auto
      with ww1 w12 have "confined P Q w (snd (atomic_replace ?k p w2))"
        by (blast intro: confined_trans)
      with \<open>parent_of p = Inr d\<close> cr r1 fl r2 show ?thesis
        by (simp add: secure_write_def Let_def)
    qed
  qed
qed

lemma secure_write_keeps:
  assumes "\<And>u. P (components p) (Some (NFile c mode u))"
  shows "keeps P Q (secure_write p c mode)"
  unfolding keeps_def using assms by (blast intro: secure_write_within)

lemma secure_write_fs:
  "secure_write p c mode w = (Inr (), w') \<Longrightarrow> fs w' = (fs w)(components p \<mapsto> NFile c mode (euid w))"
  by (auto dest!: secure_write_result elim: write_resultE)

lemma secure_write_read_back:
  "secure_write p c mode w = (Inr (), w') \<Longrightarrow> read_of (fs w') (components p) = Inr c"
  by (auto dest!: secure_write_result elim!: write_resultE)

text \<open>
  C29. Atomic replacement: at the end of \<open>secure_write\<close> and at every moment in between
  (every state that a crash or a concurrent reader can find), the target holds what it
  held before or the whole new contents under the requested mode, and every other file
  that is not a temporary one is untouched. Success means the new contents are in place.
\<close>

theorem secure_write_atomic:
  assumes "secure_write p c mode w = (r, w')"
  shows "\<exists>es. trace w' = trace w @ es
     \<and> (\<forall>m. m = fs w' \<or> FsNow m \<in> set es \<longrightarrow>
          (\<forall>k. \<not> is_tmp k \<longrightarrow> m k = fs w k
               \<or> k = components p \<and> m k = Some (NFile c mode (euid w))))
     \<and> (r = Inr () \<longrightarrow> fs w' (components p) = Some (NFile c mode (euid w)))"
proof -
  let ?P = "\<lambda>k n. k = components p \<and> n = Some (NFile c mode (euid w))"
  have "confined ?P (\<lambda>_. True) w w'"
    using secure_write_within [of ?P p c mode w "\<lambda>_. True"] assms by simp
  then obtain es where "trace w' = trace w @ es" "fs_change ?P (fs w) (fs w')"
      "\<forall>e \<in> set es. event_ok ?P (\<lambda>_. True) (fs w) e"
    by (auto simp: confined_def)
  moreover have "r = Inr () \<longrightarrow> fs w' (components p) = Some (NFile c mode (euid w))"
    using secure_write_result [OF assms] by (auto elim: write_resultE)
  moreover have "fs_change ?P (fs w) m" if "m = fs w' \<or> FsNow m \<in> set es" for m
    using that calculation(2,3) by (auto simp: event_ok_def dest: bspec [where x = "FsNow m"])
  ultimately show ?thesis
    unfolding fs_change_def by blast
qed

section \<open>A write without faults succeeds\<close>

lemma sys_update_ok:
  "fault w (tick w) = None \<Longrightarrow> f (fs w) = Inr m
   \<Longrightarrow> sys_update f w = (Inr (), (advance w)\<lparr>fs := m, trace := trace w @ [FsNow m]\<rparr>)"
  by (simp add: sys_update_def)

lemma sys_query_ok: "fault w (tick w) = None \<Longrightarrow> sys_query f w = (f (fs w), advance w)"
  by (simp add: sys_query_def)

lemma stat_of_dir: "m d = Some (NDir mo u) \<Longrightarrow> stat_of m d = Inr (NDir mo u)"
  by (simp add: stat_of_def max_links_def numeral_eq_Suc)

lemma stat_of_file: "m d = Some (NFile c mo u) \<Longrightarrow> stat_of m d = Inr (NFile c mo u)"
  by (simp add: stat_of_def max_links_def numeral_eq_Suc)

lemma parent_of_Inr:
  assumes "parent_of p = Inr d"
  shows "components p = d @ [last (components p)]" and "d \<noteq> []"
  using assms by (auto simp: parent_of_def Let_def split: if_splits)

lemma secure_write_ok:
  assumes par: "parent_of p = Inr d" and dir: "fs w d = Some (NDir dm du)"
    and nofault: "\<And>t. fault w t = None" and fresh: "fs w (tmp_key d w) = None"
    and nodir: "\<And>m u. fs w (components p) \<noteq> Some (NDir m u)"
  shows "fst (secure_write p c mode w) = Inr ()
    \<and> fs (snd (secure_write p c mode w)) = (fs w)(components p \<mapsto> NFile c mode (euid w))"
proof -
  let ?k = "tmp_key d w"
  have kd: "?k \<noteq> d" by (simp add: tmp_key_def)
  have pd: "components p \<noteq> d" using parent_of_Inr [OF par] by (metis append_self_conv not_Cons_self2)
  have cr: "sys_create_new d ?k MODE_SECRET (euid w) w =
      (Inr (), (advance w)\<lparr>fs := (fs w)(?k \<mapsto> NFile [] MODE_SECRET (euid w)),
         trace := trace w @ [FsNow ((fs w)(?k \<mapsto> NFile [] MODE_SECRET (euid w)))]\<rparr>)"
    unfolding sys_create_new_def
    by (rule sys_update_ok) (simp_all add: nofault stat_of_dir dir fresh)
  obtain w1 where w1: "sys_create_new d ?k MODE_SECRET (euid w) w = (Inr (), w1)"
      "fs w1 = (fs w)(?k \<mapsto> NFile [] MODE_SECRET (euid w))" "fault w1 = fault w"
    using cr by simp
  obtain w2 where w2: "fill_temp ?k c mode w1 = (Inr (), w2)"
      "fs w2 = (fs w)(?k \<mapsto> NFile c mode (euid w))" "fault w2 = fault w"
    using w1 nofault
    by (simp add: fill_temp_def bind_io_def sys_chmod_def sys_write_all_def sys_fsync_def
        sys_update_def sys_query_def chmod_node_def stat_of_file)
  have rn: "\<And>n. fs w2 (components p) \<noteq> Some (NDir n u)" for u
    using w2(2) nodir by (auto split: if_splits)
  have "fs w2 d = Some (NDir dm du)" using w2(2) dir kd by simp
  then have "fst (atomic_replace ?k p w2) = Inr ()
      \<and> fs (snd (atomic_replace ?k p w2)) = ((fs w2)(?k := None))(components p \<mapsto> NFile c mode (euid w))"
    using w2(2,3) nofault rn nodir par pd kd
    by (auto simp: atomic_replace_def bind_io_def map_err_io_def sys_rename_def sys_update_def
        fsync_dir_def sys_stat_def sys_fsync_def sys_query_def stat_of_dir
        split: option.splits node.splits)
  moreover have "((fs w2)(?k := None))(components p \<mapsto> NFile c mode (euid w))
      = (fs w)(components p \<mapsto> NFile c mode (euid w))"
    using w2(2) fresh by (auto simp: fun_upd_idem)
  ultimately show ?thesis
    using w1 w2 par by (simp add: secure_write_def Let_def)
qed

text \<open>
  Without faults, into an existing directory and under an unused temporary name,
  \<open>secure_write\<close> succeeds, and the file system afterwards differs from the one before in
  the target alone: no temporary file is left.
\<close>

theorem secure_write_succeeds:
  assumes par: "parent_of p = Inr d" and dir: "fs w d = Some (NDir dm du)"
    and nofault: "\<And>t. fault w t = None" and fresh: "fs w (tmp_key d w) = None"
    and nodir: "\<And>m u. fs w (components p) \<noteq> Some (NDir m u)"
  shows "fst (secure_write p c mode w) = Inr ()
    \<and> fs (snd (secure_write p c mode w)) = (fs w)(components p \<mapsto> NFile c mode (euid w))"
  by (rule secure_write_ok [OF assms])

text \<open>One write, into \<open>/d\<close>, under the name \<open>f\<close>.\<close>

definition sample_dir :: fskey where
  "sample_dir = [RootDir, Normal (lit ''d'')]"

definition sample_file :: path where
  "sample_file = lit ''/d/f''"

lemma sample_paths:
  "components sample_file = sample_dir @ [Normal (lit ''f'')]" "parent_of sample_file = Inr sample_dir"
  by (simp_all add: sample_file_def sample_dir_def components_def parent_of_def segment_component_def
      lit_def)

theorem secure_write_succeeds_witness:
  "fst (secure_write sample_file [104, 105] MODE_SECRET (quiet_world [sample_dir \<mapsto> NDir MODE_DIR 0])) = Inr ()"
  using secure_write_succeeds [of sample_file sample_dir "quiet_world [sample_dir \<mapsto> NDir MODE_DIR 0]"
      MODE_DIR 0 "[104, 105]" MODE_SECRET]
  by (simp add: sample_paths tmp_key_def)

text \<open>The same write on a disk that fails it leaves nothing behind.\<close>

theorem secure_write_atomic_witness:
  "fs (snd (secure_write sample_file [104] MODE_SECRET
      ((quiet_world [sample_dir \<mapsto> NDir MODE_DIR 0])\<lparr>fault := (\<lambda>_. Some (os_err OtherIo))\<rparr>)))
     (components sample_file) = None"
  using secure_write_atomic [of sample_file "[104]" MODE_SECRET
      "(quiet_world [sample_dir \<mapsto> NDir MODE_DIR 0])\<lparr>fault := (\<lambda>_. Some (os_err OtherIo))\<rparr>", OF surjective_pairing]
  by (auto simp: secure_write_def sample_paths sys_create_new_def sys_update_def is_tmp_def sample_dir_def
      tmp_prefix_def lit_def)

section \<open>The checks on owner and mode\<close>

lemma perm_mask: "(0x1FF :: u32) = mask 9"
  by (simp add: mask_eq_exp_minus_1)

lemma bit_perm: "bit (m AND 0x1FF :: u32) i \<longleftrightarrow> bit m i \<and> i < 9"
  unfolding perm_mask by (auto simp: bit_and_iff bit_mask_iff)

text \<open>No permission bit outside the allowed ones is set.\<close>

definition mode_within :: "u32 \<Rightarrow> u32 \<Rightarrow> bool" where
  "mode_within m allowed \<longleftrightarrow> (\<forall>i \<in> {0..<9}. bit m i \<longrightarrow> bit allowed i)"

lemma mode_within_mask:
  "(m AND 0x1FF) AND NOT (allowed AND 0x1FF) = (0 :: u32) \<longleftrightarrow> mode_within m allowed"
proof -
  have "(m AND 0x1FF) AND NOT (allowed AND 0x1FF) = 0 \<longleftrightarrow>
      (\<forall>i < 32. \<not> (bit m i \<and> i < 9 \<and> \<not> (bit allowed i \<and> i < 9)))"
    by (simp only: bit_eq_iff [of _ "0 :: u32"] bit_and_iff [of "m AND 0x1FF"] bit_perm bit_not_iff
        possible_bit_word) auto
  also have "\<dots> \<longleftrightarrow> mode_within m allowed"
    by (auto simp: mode_within_def)
  finally show ?thesis .
qed

lemma validate_mode_at_most_Inr:
  assumes "validate_mode_at_most p allowed w = (Inr (), w')"
  obtains n where "fs w (components p) = Some n" "mode_within (node_mode n) allowed" "fs w' = fs w"
  using assms unfolding validate_mode_at_most_def mode_within_mask map_err_io_def sys_lstat_def
  by (auto elim!: bind_io_cases split: prod.splits if_splits
      dest: sys_query_frame) (auto simp: sys_query_def split: option.splits)

lemma validate_owner_Inr:
  assumes "validate_owner p uid w = (Inr (), w')"
  obtains n where "fs w (components p) = Some n" "node_uid n = uid" "fs w' = fs w"
  using assms unfolding validate_owner_def map_err_io_def sys_lstat_def
  by (auto elim!: bind_io_cases split: prod.splits if_splits
      dest: sys_query_frame) (auto simp: sys_query_def split: option.splits)

lemma ensure_not_symlink_Inr:
  assumes "ensure_not_symlink p w = (Inr (), w')"
  shows "fs w' = fs w" and "fault w (tick w) = None \<Longrightarrow> fs w (components p) \<noteq> Some (NLink t u)"
  using assms unfolding ensure_not_symlink_def is_symlink_def sys_lstat_def
  by (auto simp: sys_query_def elim!: bind_io_cases split: prod.splits if_splits sum.splits option.splits)

lemma keeps_checks [intro]:
  "keeps P Q (is_symlink p)" "keeps P Q (ensure_not_symlink p)" "keeps P Q (validate_owner p uid)"
  "keeps P Q (validate_mode_at_most p mode)" "keeps P Q (ensure_not_group_or_world_writable p)"
proof -
  show sym: "keeps P Q (is_symlink p)"
    using keeps_read(3) [of P Q "components p"]
    by (auto simp: keeps_def is_symlink_def split: prod.splits sum.splits) (metis snd_conv)+
  show "keeps P Q (ensure_not_symlink p)"
    unfolding ensure_not_symlink_def using sym by blast
qed (auto simp: validate_owner_def validate_mode_at_most_def ensure_not_group_or_world_writable_def)

end
