(* ===== verification/Keypair.thy ===== *)
theory Keypair
  imports Security
begin

text \<open>
  \<open>src/identity/keypair.rs\<close>: the machine's Ed25519 identity keypair, a wrapper around the
  \<open>ssh_key\<close> crate, and the check of a public-key line.
\<close>

section \<open>Definitions\<close>

definition KEY_COMMENT :: str where
  "KEY_COMMENT = lit ''mayfly-agent machine identity''"

record machine_keypair =
  mk_key :: private_key

definition keypair_generate :: "libs \<Rightarrow> world \<Rightarrow> machine_keypair res \<times> world" where
  "keypair_generate L w =
     (case random_bytes 32 w of
        (seed, w') \<Rightarrow>
          (bind_res (ok_or (lib_private_random L seed) KeyGeneration)
             (\<lambda>key. Inr \<lparr>mk_key = key\<lparr>prk_comment := KEY_COMMENT\<rparr>\<rparr>), w'))"

definition from_openssh_private :: "libs \<Rightarrow> str \<Rightarrow> machine_keypair res" where
  "from_openssh_private L pem =
     bind_res (ok_or (lib_private_parse L pem) KeyParse) (\<lambda>key.
       if prk_algorithm key \<noteq> AlgEd25519 then Inl KeyParse else Inr \<lparr>mk_key = key\<rparr>)"

definition public_key_openssh :: "libs \<Rightarrow> machine_keypair \<Rightarrow> str res" where
  "public_key_openssh L kp = ok_or (lib_public_write L (mk_key kp)) KeySerialize"

definition keypair_sign :: "libs \<Rightarrow> machine_keypair \<Rightarrow> bytes \<Rightarrow> bytes res" where
  "keypair_sign L kp message =
     (case prk_data (mk_key kp) of
        KdEd25519 seed \<Rightarrow> Inr (lib_ed25519_sign L seed message)
      | _ \<Rightarrow> Inl KeyParse)"

definition keypair_fingerprint :: "libs \<Rightarrow> machine_keypair \<Rightarrow> str" where
  "keypair_fingerprint L kp = lib_fingerprint L (mk_key kp)"

definition to_openssh_private :: "libs \<Rightarrow> machine_keypair \<Rightarrow> str res" where
  "to_openssh_private L kp = ok_or (lib_private_write L (mk_key kp)) KeySerialize"

definition validate_ed25519_public_key :: "libs \<Rightarrow> str \<Rightarrow> unit res" where
  "validate_ed25519_public_key L value =
     (if \<exists>c \<in> set value. is_control c then Inl MalformedPublicKey
      else bind_res (ok_or (lib_ssh_public L value) MalformedPublicKey) (\<lambda>key.
        if spk_algorithm key \<noteq> AlgEd25519 then Inl MalformedPublicKey else Inr ()))"

section \<open>Properties\<close>

text \<open>A line is accepted when it has no control character and the crate reads an Ed25519 key.\<close>

definition ed25519_line :: "libs \<Rightarrow> str \<Rightarrow> bool" where
  "ed25519_line L value \<longleftrightarrow> (\<forall>c \<in> set value. \<not> is_control c)
     \<and> (case lib_ssh_public L value of Some k \<Rightarrow> spk_algorithm k = AlgEd25519 | None \<Rightarrow> False)"

lemma validate_ed25519_public_key_iff:
  "validate_ed25519_public_key L value = Inr () \<longleftrightarrow> ed25519_line L value"
  by (auto simp: validate_ed25519_public_key_def ed25519_line_def bind_res_eq_Inr
      split: option.splits if_splits)

interpretation pubkey: validator "validate_ed25519_public_key L" "ed25519_line L" for L
  by unfold_locales (rule validate_ed25519_public_key_iff)

lemma validate_ed25519_public_key_err:
  "validate_ed25519_public_key L value = Inl e \<Longrightarrow> e = MalformedPublicKey"
  by (auto simp: validate_ed25519_public_key_def bind_res_eq_Inl split: if_splits)
     (cases "lib_ssh_public L value"; simp)

lemma keypair_sign_Inr:
  "keypair_sign L kp m = Inr s \<longleftrightarrow> (\<exists>seed. prk_data (mk_key kp) = KdEd25519 seed
     \<and> s = lib_ed25519_sign L seed m)"
  by (auto simp: keypair_sign_def split: keypair_data.splits)

text \<open>
  The keypair written in OpenSSH format and read back is the same keypair, so it signs
  and prints the same, provided the crate reads what it writes and the key is Ed25519.
\<close>

lemma keypair_roundtrip:
  assumes reads_back: "\<And>k s. lib_private_write L k = Some s \<Longrightarrow> lib_private_parse L s = Some k"
    and "prk_algorithm (mk_key kp) = AlgEd25519"
    and "to_openssh_private L kp = Inr pem"
  shows "from_openssh_private L pem = Inr kp"
  using assms by (auto simp: to_openssh_private_def from_openssh_private_def)

text \<open>
  An encrypted Ed25519 key is taken by the parser (its public half names the algorithm) and
  fails only when it has to sign.
\<close>

lemma encrypted_key_accepted:
  assumes "lib_private_parse L pem = Some \<lparr>prk_algorithm = AlgEd25519, prk_data = KdEncrypted c, prk_comment = m\<rparr>"
  shows "\<exists>kp. from_openssh_private L pem = Inr kp \<and> keypair_sign L kp msg = Inl KeyParse"
  using assms by (simp add: from_openssh_private_def keypair_sign_def)

lemma keypair_generate_frame:
  "keypair_generate L w = (r, w') \<Longrightarrow> w' = advance w"
  by (auto simp: keypair_generate_def random_bytes_def)

end
