(* ===== verification/Trusted_Ca.thy ===== *)
theory Trusted_Ca
  imports Errors
begin

text \<open>
  \<open>src/ssh/trusted_ca.rs\<close>: the structural gate for the \<open>TrustedUserCAKeys\<close> file. The
  lemmas give the language the parser accepts and the shape of what it returns.
\<close>

section \<open>Definitions\<close>

definition ALLOWED_ALGORITHMS :: "str list" where
  "ALLOWED_ALGORITHMS = map lit
     [''ssh-ed25519'', ''ssh-rsa'', ''rsa-sha2-256'', ''rsa-sha2-512'', ''ecdsa-sha2-nistp256'',
      ''ecdsa-sha2-nistp384'', ''ecdsa-sha2-nistp521'', ''sk-ssh-ed25519@openssh.com'',
      ''sk-ecdsa-sha2-nistp256@openssh.com'']"

record ca_public_key =
  ca_algorithm :: str
  ca_key_data :: str
  ca_comment :: "str option"

definition is_base64_char :: "u8 \<Rightarrow> bool" where
  "is_base64_char b \<longleftrightarrow> is_ascii_alphanumeric (unat b) \<or> b = 43 \<or> b = 47"

text \<open>The scan of the bytes from index \<open>i\<close> on: padding from \<open>body_len\<close>, body before.\<close>

fun base64_scan :: "nat \<Rightarrow> nat \<Rightarrow> bytes \<Rightarrow> bool" where
  "base64_scan body_len i [] = True"
| "base64_scan body_len i (b # bs) =
     (if i \<ge> body_len
      then (if b \<noteq> 61 then False else base64_scan body_len (Suc i) bs)
      else if \<not> is_base64_char b then False else base64_scan body_len (Suc i) bs)"

definition is_valid_base64 :: "str \<Rightarrow> bool" where
  "is_valid_base64 s =
     (if s = [] \<or> str_len s mod 4 \<noteq> 0 then False
      else let bytes = utf8 s;
               padding = length (takeWhile (\<lambda>b. b = 61) (rev bytes))
           in if padding > 2 then False
              else let body_len = length bytes - padding
                   in base64_scan body_len 0 bytes \<and> body_len > 0)"

definition collect_comment :: "str \<Rightarrow> str \<Rightarrow> str \<Rightarrow> str option" where
  "collect_comment line algorithm key_data =
     Option.bind (map_option trim_start (strip_prefix algorithm (trim_start line))) (\<lambda>after_algo.
     Option.bind (map_option trim (strip_prefix key_data after_algo)) (\<lambda>after_key.
     if after_key = [] then None else Some after_key))"

definition ca_public_key_parse :: "str \<Rightarrow> trusted_ca_error + ca_public_key" where
  "ca_public_key_parse line =
     (if \<exists>c \<in> set line. is_control c then Inl TcaIllegalCharacter
      else let trimmed = trim line
           in if trimmed = [] then Inl TcaEmpty
              else (case split_whitespace trimmed of
                      algorithm # key_data # _ \<Rightarrow>
                        (let comment = collect_comment trimmed algorithm key_data
                         in if algorithm \<notin> set ALLOWED_ALGORITHMS then Inl TcaDisallowedAlgorithm
                            else if \<not> is_valid_base64 key_data then Inl TcaInvalidEncoding
                            else Inr \<lparr>ca_algorithm = algorithm, ca_key_data = key_data,
                                      ca_comment = comment\<rparr>)
                    | _ \<Rightarrow> Inl TcaMalformed))"

fun parse_lines :: "str list \<Rightarrow> ca_public_key list res" where
  "parse_lines [] = Inr []"
| "parse_lines (line # rest) =
     (let trimmed = trim line
      in if trimmed = [] \<or> hd trimmed = 35 then parse_lines rest
         else bind_res (map_err InvalidTrustedCa (ca_public_key_parse line)) (\<lambda>key.
              bind_res (parse_lines rest) (\<lambda>keys. Inr (key # keys))))"

definition trusted_ca_keys_parse :: "str \<Rightarrow> ca_public_key list res" where
  "trusted_ca_keys_parse contents = parse_lines (lines contents)"

section \<open>Base64\<close>

lemma base64_scan_iff:
  "base64_scan n i bs \<longleftrightarrow>
     (\<forall>b \<in> set (take (n - i) bs). is_base64_char b) \<and> (\<forall>b \<in> set (drop (n - i) bs). b = 61)"
proof (induction bs arbitrary: i)
  case (Cons b bs)
  show ?case
  proof (cases "n - i")
    case 0
    with Cons [of "Suc i"] show ?thesis by auto
  next
    case (Suc m)
    then have "n - Suc i = m" and "\<not> n \<le> i" by auto
    with Cons [of "Suc i"] Suc show ?thesis by auto
  qed
qed simp

text \<open>The language of standard base64: a body of whole characters, then at most two pads.\<close>

definition base64_char :: "rchar \<Rightarrow> bool" where
  "base64_char c \<longleftrightarrow> is_ascii_alphanumeric c \<or> c = 43 \<or> c = 47"

definition base64_string :: "str \<Rightarrow> bool" where
  "base64_string s \<longleftrightarrow> (\<exists>body pad. s = body @ replicate pad 61 \<and> body \<noteq> [] \<and> pad \<le> 2
     \<and> (length body + pad) mod 4 = 0 \<and> (\<forall>c \<in> set body. base64_char c))"

lemma base64_char_ascii: "base64_char c \<Longrightarrow> c < 128 \<and> c \<noteq> 61 \<and> \<not> is_whitespace c \<and> \<not> is_control c"
  by (auto simp: base64_char_def is_ascii_alphanumeric_def is_ascii_digit_def is_whitespace_def
      is_control_def)

lemma pad_plain: "\<not> is_whitespace 61 \<and> \<not> is_control 61"
  by (simp add: is_whitespace_def is_control_def)

lemma is_base64_char_iff: "is_base64_char b \<longleftrightarrow> base64_char (unat b)"
  by (simp add: is_base64_char_def base64_char_def word_unat_eq_iff)

lemma base64_string_char:
  assumes "base64_string s" and "c \<in> set s"
  shows "base64_char c \<or> c = 61"
  using assms by (auto simp: base64_string_def)

lemma base64_string_ascii: "base64_string s \<Longrightarrow> c \<in> set s \<Longrightarrow> c < 128"
  using base64_string_char [of s c] base64_char_ascii [of c] by auto

lemma base64_string_plain:
  "base64_string s \<Longrightarrow> c \<in> set s \<Longrightarrow> \<not> is_whitespace c \<and> \<not> is_control c"
  using base64_string_char [of s c] base64_char_ascii [of c] pad_plain by auto

lemma base64_string_nonempty: "base64_string s \<Longrightarrow> s \<noteq> []"
  by (auto simp: base64_string_def)

lemma takeWhile_pad:
  assumes "body \<noteq> []" and "last body \<noteq> (61 :: u8)"
  shows "takeWhile (\<lambda>b. b = 61) (rev (body @ replicate pad 61)) = replicate pad 61"
proof -
  obtain b bs where "rev body = b # bs" and "b \<noteq> 61"
    using assms by (cases "rev body") (auto simp: hd_rev [symmetric])
  then show ?thesis by (simp add: takeWhile_append)
qed

lemma valid_base64_if:
  assumes "base64_string s"
  shows "is_valid_base64 s"
proof -
  from assms obtain body pad where s: "s = body @ replicate pad 61" "body \<noteq> []" "pad \<le> 2"
      "(length body + pad) mod 4 = 0" and body: "\<forall>c \<in> set body. base64_char c"
    by (auto simp: base64_string_def)
  let ?b = "map (of_nat :: nat \<Rightarrow> u8) body"
  have "utf8 s = map of_nat s"
    using base64_string_ascii [OF assms] by (blast intro: utf8_ascii)
  then have u: "utf8 s = ?b @ replicate pad 61" using s(1) by simp
  have ok: "is_base64_char b" if b: "b \<in> set ?b" for b
  proof -
    from b obtain c where c: "c \<in> set body" "b = of_nat c" by auto
    with body have bc: "base64_char c" by blast
    then have "c < 256" using base64_char_ascii [OF bc] by simp
    then have "unat b = c" using c(2) unat_of_nat8 by blast
    with bc show ?thesis by (simp add: is_base64_char_iff)
  qed
  have "is_base64_char (last ?b)" using ok s(2) by (metis last_in_set list.map_disc_iff)
  then have "last ?b \<noteq> 61" using base64_char_ascii [of 61] by (auto simp: is_base64_char_iff)
  then have "takeWhile (\<lambda>b. b = 61) (rev (utf8 s)) = replicate pad 61"
    using s(2) unfolding u by (intro takeWhile_pad) auto
  moreover have "base64_scan (length ?b) 0 (utf8 s)"
    unfolding base64_scan_iff u using ok by auto
  ultimately show ?thesis
    using s unfolding is_valid_base64_def Let_def str_len_def u by simp
qed

lemma valid_base64_only:
  assumes "is_valid_base64 s" and sc: "list_all is_scalar s"
  shows "base64_string s"
proof -
  define pad where "pad = length (takeWhile (\<lambda>b. b = 61) (rev (utf8 s)))"
  define n where "n = length (utf8 s) - pad"
  from assms(1) have len: "length (utf8 s) mod 4 = 0" "pad \<le> 2" and scan: "base64_scan n 0 (utf8 s)" and n: "0 < n"
    by (auto simp: is_valid_base64_def Let_def str_len_def pad_def n_def split: if_splits)
  define body where "body = take n (utf8 s)"
  have b: "\<forall>x \<in> set body. base64_char (unat x)" and "\<forall>x \<in> set (drop n (utf8 s)). x = 61"
    using scan by (simp_all add: base64_scan_iff is_base64_char_iff body_def)
  moreover have "pad \<le> length (utf8 s)"
    unfolding pad_def using length_takeWhile_le [of _ "rev (utf8 s)"] by simp
  ultimately have "drop n (utf8 s) = replicate pad 61"
    by (intro replicate_eqI) (auto simp: n_def)
  then have u: "utf8 s = body @ replicate pad 61"
    unfolding body_def by (metis append_take_drop_id)
  let ?t = "map unat body @ replicate pad 61"
  have asc: "\<forall>c \<in> set ?t. c < 128"
    using b base64_char_ascii by auto
  then have "utf8 ?t = map of_nat ?t" by (rule utf8_ascii)
  then have "utf8 ?t = utf8 s" unfolding u by (simp add: comp_def)
  moreover have "list_all is_scalar ?t"
    using asc ascii_scalar by (auto simp: list_all_iff)
  ultimately have "s = ?t" using sc utf8_codec.enc_inject by metis
  moreover have "body \<noteq> []" using n by (auto simp: body_def n_def)
  moreover have "(length (map unat body) + pad) mod 4 = 0"
    using len(1) arg_cong [OF u, of length] by simp
  moreover have "\<forall>c \<in> set (map unat body). base64_char c" using b by simp
  ultimately show ?thesis
    unfolding base64_string_def using len(2)
    by (intro exI [of _ "map unat body"] exI [of _ pad] conjI) simp_all
qed

text \<open>
  The byte scan accepts exactly standard base64: a non-empty body over the alphabet
  without the URL characters, at most two pads at the very end, a length divisible by four.
\<close>

theorem is_valid_base64_correct:
  assumes "list_all is_scalar s"
  shows "is_valid_base64 s \<longleftrightarrow> base64_string s"
  using assms valid_base64_if valid_base64_only by blast

theorem is_valid_base64_correct_witness:
  "is_valid_base64 (lit ''QUI='') \<longleftrightarrow> base64_string (lit ''QUI='')"
  by (rule is_valid_base64_correct) (simp add: lit_def is_scalar_def)

section \<open>The accepted lines\<close>

text \<open>
  A key line is an allowed algorithm and a base64 blob, separated by white space; what
  follows, trimmed, is the comment.
\<close>

definition key_line :: "str \<Rightarrow> ca_public_key \<Rightarrow> bool" where
  "key_line line k \<longleftrightarrow> (\<forall>c \<in> set line. \<not> is_control c)
     \<and> ca_algorithm k \<in> set ALLOWED_ALGORITHMS \<and> is_valid_base64 (ca_key_data k)
     \<and> (\<exists>u v z. line = u @ ca_algorithm k @ v @ ca_key_data k @ z \<and> v \<noteq> []
          \<and> (\<forall>c \<in> set (u @ v). is_whitespace c) \<and> (z = [] \<or> is_whitespace (hd z))
          \<and> (\<forall>c \<in> set (ca_algorithm k @ ca_key_data k). \<not> is_whitespace c)
          \<and> ca_comment k = (if trim z = [] then None else Some (trim z)))"

lemma trim_start_skip:
  assumes "\<forall>c \<in> set u. is_whitespace c" and "a \<noteq> []" and "\<not> is_whitespace (hd a)"
  shows "trim_start (u @ a) = a"
  using assms by (cases a) (auto simp: trim_start_def dropWhile_append2)

lemma collect_comment_eq:
  assumes "\<forall>c \<in> set (a @ d). \<not> is_whitespace c" "a \<noteq> []" "d \<noteq> []" "\<forall>c \<in> set (u @ v). is_whitespace c"
  shows "collect_comment (u @ a @ v @ d @ z) a d = (if trim z = [] then None else Some (trim z))"
proof -
  have "\<not> is_whitespace (hd a)" "\<not> is_whitespace (hd d)"
    using assms(1-3) by (auto simp: in_set_conv_decomp neq_Nil_conv)
  then have "trim_start (u @ a @ v @ d @ z) = a @ v @ d @ z" "trim_start (v @ d @ z) = d @ z"
    using assms by (auto intro!: trim_start_skip)
  then show ?thesis by (simp add: collect_comment_def)
qed

lemma trim_Cons_ws: "is_whitespace x \<Longrightarrow> trim (x # s) = trim s"
  by (simp add: trim_def trim_start_def)

lemma ALLOWED_plain:
  assumes "a \<in> set ALLOWED_ALGORITHMS"
  shows "a \<noteq> []" and "\<forall>c \<in> set a. is_ascii_graphic c"
  using assms by (auto simp: ALLOWED_ALGORITHMS_def lit_def is_ascii_graphic_def)

lemma graphic_plain: "is_ascii_graphic c \<Longrightarrow> \<not> is_whitespace c \<and> \<not> is_control c \<and> c < 128"
  by (auto simp: is_ascii_graphic_def is_whitespace_def is_control_def)

lemma trim_tail:
  assumes "\<forall>c \<in> set (u @ v). is_whitespace c" "\<forall>c \<in> set (a @ d). \<not> is_whitespace c" "a \<noteq> []" "d \<noteq> []"
  shows "\<exists>z'. trim (u @ a @ v @ d @ z) = a @ v @ d @ z' \<and> trim z' = trim z"
proof -
  have ts: "trim_start (u @ a @ v @ d @ z) = a @ v @ d @ z"
    using assms by (intro trim_start_skip) (auto simp: neq_Nil_conv)
  define w where "w = rev (takeWhile is_whitespace (rev z))"
  define z' where "z' = trim_end z"
  have z: "z = z' @ w"
    unfolding z'_def w_def trim_end_def by (metis rev_append rev_rev_ident takeWhile_dropWhile_id)
  have w: "\<forall>c \<in> set w. is_whitespace c" by (auto simp: w_def dest: set_takeWhileD)
  have "trim_end (a @ v @ d @ z) = a @ v @ d @ z'"
  proof (cases "z' = []")
    case True
    have "\<not> is_whitespace (last d)" using assms(2,4) by simp
    then have "dropWhile is_whitespace (rev d @ x) = rev d @ x" for x
      using assms(4) by (cases "rev d") (auto simp: last_rev [symmetric] hd_rev)
    with w z True show ?thesis
      using dropWhile_append2 [of "rev w" is_whitespace "rev d @ rev v @ rev a"]
      by (simp add: trim_end_def)
  next
    case False
    then have "\<exists>c \<in> set (rev z). \<not> is_whitespace c"
      unfolding z'_def trim_end_def by (auto simp: dropWhile_eq_Nil_conv)
    then show ?thesis by (auto simp: z'_def trim_end_def dropWhile_append1)
  qed
  moreover have "trim z' = trim z" using trim_append_ws [OF w, of z'] z by simp
  ultimately show ?thesis using ts by (auto simp: trim_def)
qed

lemma parse_sound:
  assumes "ca_public_key_parse line = Inr k"
  shows "key_line line k"
proof -
  from assms obtain rest where nc: "\<forall>c \<in> set line. \<not> is_control c"
      and toks: "split_whitespace (trim line) = ca_algorithm k # ca_key_data k # rest"
      and al: "ca_algorithm k \<in> set ALLOWED_ALGORITHMS" and b64: "is_valid_base64 (ca_key_data k)"
      and cm: "ca_comment k = collect_comment (trim line) (ca_algorithm k) (ca_key_data k)"
    by (auto simp: ca_public_key_parse_def Let_def split: if_splits list.splits)
  from toks have toks': "split_whitespace line = ca_algorithm k # ca_key_data k # rest"
    by (simp add: split_whitespace_trim)
  then obtain u z1 where 1: "line = u @ ca_algorithm k @ z1" "\<forall>c \<in> set u. is_whitespace c"
      "split_whitespace z1 = ca_key_data k # rest" "z1 = [] \<or> is_whitespace (hd z1)"
    by (rule split_whitespace_first)
  from 1(3) obtain v z where 2: "z1 = v @ ca_key_data k @ z" "\<forall>c \<in> set v. is_whitespace c"
      "split_whitespace z = rest" "z = [] \<or> is_whitespace (hd z)"
    by (rule split_whitespace_first)
  have in2: "ca_algorithm k \<in> set (split_whitespace line)" "ca_key_data k \<in> set (split_whitespace line)"
    using toks' by auto
  note ne = split_whitespace_tokens(1) [OF in2(1)] split_whitespace_tokens(1) [OF in2(2)]
  note nw = split_whitespace_tokens(2) [OF in2(1)] split_whitespace_tokens(2) [OF in2(2)]
  have v: "v \<noteq> []"
  proof
    assume "v = []"
    with 2(1) ne(2) have "hd z1 \<in> set (ca_key_data k)" "z1 \<noteq> []" by (auto simp: neq_Nil_conv)
    with 1(4) nw(2) show False by blast
  qed
  have line: "line = u @ ca_algorithm k @ v @ ca_key_data k @ z" using 1(1) 2(1) by simp
  have ws: "\<forall>c \<in> set (u @ v). is_whitespace c" using 1(2) 2(2) by auto
  have nws: "\<forall>c \<in> set (ca_algorithm k @ ca_key_data k). \<not> is_whitespace c" using nw by auto
  obtain z' where z': "trim line = ca_algorithm k @ v @ ca_key_data k @ z'" "trim z' = trim z"
    using trim_tail [OF ws nws ne] unfolding line by blast
  have "ca_comment k = (if trim z = [] then None else Some (trim z))"
    using collect_comment_eq [OF nws ne, of "[]" v z'] cm z' ws by simp
  then show ?thesis
    unfolding key_line_def using nc al b64 line v ws nws 2(4) by blast
qed

lemma parse_complete:
  assumes "key_line line k"
  shows "ca_public_key_parse line = Inr k"
proof -
  from assms obtain u v z where nc: "\<forall>c \<in> set line. \<not> is_control c"
      and al: "ca_algorithm k \<in> set ALLOWED_ALGORITHMS" and b64: "is_valid_base64 (ca_key_data k)"
      and line: "line = u @ ca_algorithm k @ v @ ca_key_data k @ z" and v: "v \<noteq> []"
      and ws: "\<forall>c \<in> set (u @ v). is_whitespace c" and z: "z = [] \<or> is_whitespace (hd z)"
      and nw: "\<forall>c \<in> set (ca_algorithm k @ ca_key_data k). \<not> is_whitespace c"
      and cm: "ca_comment k = (if trim z = [] then None else Some (trim z))"
    by (auto simp: key_line_def)
  have ne: "ca_algorithm k \<noteq> []" "ca_key_data k \<noteq> []"
    using ALLOWED_plain(1) [OF al] b64 by (auto simp: is_valid_base64_def)
  have 1: "split_whitespace (ca_key_data k @ z) = ca_key_data k # split_whitespace z"
  proof (cases z)
    case Nil
    with split_whitespace_single ne(2) nw show ?thesis by simp
  next
    case (Cons w t)
    with z have "is_whitespace w" by simp
    with split_whitespace_skip [of "[w]" t] split_whitespace_Cons [OF ne(2) _ this, of t] nw Cons
    show ?thesis by simp
  qed
  obtain x v' where v': "v = x # v'" using v by (cases v) auto
  have "split_whitespace (ca_algorithm k @ x # (v' @ ca_key_data k @ z))
      = ca_algorithm k # split_whitespace (v' @ ca_key_data k @ z)"
    using ne(1) nw ws v' by (intro split_whitespace_Cons) auto
  also have "split_whitespace (v' @ ca_key_data k @ z) = ca_key_data k # split_whitespace z"
    using 1 ws v' split_whitespace_skip [of v'] by simp
  finally have "split_whitespace line = ca_algorithm k # ca_key_data k # split_whitespace z"
    unfolding line using ws split_whitespace_skip [of u] v' by simp
  then have toks: "split_whitespace (trim line) = ca_algorithm k # ca_key_data k # split_whitespace z"
    by (simp only: split_whitespace_trim)
  obtain z' where z': "trim line = ca_algorithm k @ v @ ca_key_data k @ z'" "trim z' = trim z"
    using trim_tail [OF ws nw ne] unfolding line by blast
  have "collect_comment (trim line) (ca_algorithm k) (ca_key_data k) = ca_comment k"
    using collect_comment_eq [OF nw ne, of "[]" v z'] cm z' ws by simp
  moreover have "trim line \<noteq> []" using z'(1) ne(1) by simp
  ultimately show ?thesis
    using nc al b64 toks by (simp add: ca_public_key_parse_def Let_def)
qed

text \<open>
  C34. A line is accepted exactly when it is a key line, and the result is the key it
  spells: algorithm, blob and trimmed comment.
\<close>

theorem ca_public_key_parse_correct:
  "ca_public_key_parse line = Inr k \<longleftrightarrow> key_line line k"
  using parse_sound parse_complete by blast

section \<open>Whole files\<close>

lemma parse_lines_ok:
  "parse_lines ls = Inr ks \<longleftrightarrow>
     list_all2 (\<lambda>l k. ca_public_key_parse l = Inr k)
       (filter (\<lambda>l. trim l \<noteq> [] \<and> hd (trim l) \<noteq> 35) ls) ks"
proof (induction ls arbitrary: ks)
  case (Cons l ls)
  then show ?case
    by (cases ks) (auto simp: Let_def bind_res_eq_Inr)
qed auto

text \<open>A line the renderer writes parses to its fields.\<close>

lemma parse_rendered:
  assumes "a \<in> set ALLOWED_ALGORITHMS" and "is_valid_base64 d" and "c \<noteq> []"
    and "\<forall>x \<in> set d. is_ascii_graphic x" and "\<forall>x \<in> set c. is_ascii_graphic x"
  shows "ca_public_key_parse (a @ 32 # d @ 32 # c) = Inr \<lparr>ca_algorithm = a, ca_key_data = d, ca_comment = Some c\<rparr>"
proof (rule parse_complete)
  have sp: "is_whitespace 32" "\<not> is_control 32" by (simp_all add: is_whitespace_def is_control_def)
  have "trim (32 # c) = c"
    using assms(5) graphic_plain trim_no_ws [of c] sp(1) by (simp add: trim_Cons_ws)
  moreover have "\<forall>x \<in> set a \<union> set d \<union> set c. \<not> is_whitespace x \<and> \<not> is_control x"
    using assms(4,5) ALLOWED_plain(2) [OF assms(1)] graphic_plain by blast
  ultimately show "key_line (a @ 32 # d @ 32 # c) \<lparr>ca_algorithm = a, ca_key_data = d, ca_comment = Some c\<rparr>"
    unfolding key_line_def using assms(1-3) sp
    by (intro conjI exI [of _ "[]"] exI [of _ "[32]"] exI [of _ "32 # c"]) auto
qed

end
