(* ===== verification/Ca_Bundle.thy ===== *)
theory Ca_Bundle
  imports Keypair Trusted_Ca
begin

text \<open>
  \<open>src/protocol/ca_bundle.rs\<close>: the gate that decides whether a bundle from the server is
  authentic and well formed. \<open>from_response\<close> is translated check by check, in the order of
  the source; the canonical encodings are translated down to the escaping of single
  characters. A \<open>str\<close> is ordered by its UTF-8 bytes in Rust, which is the order of its
  code points and here the lexicographic order of lists.
\<close>

section \<open>Data\<close>

definition CA_BUNDLE_PATH :: str where
  "CA_BUNDLE_PATH = lit ''/api/v1/agent/ca-bundle''"

definition CA_BUNDLE_ACK_PATH :: str where
  "CA_BUNDLE_ACK_PATH = lit ''/api/v1/agent/ca-bundle/ack''"

definition HEADER_IF_NONE_MATCH :: str where
  "HEADER_IF_NONE_MATCH = lit ''If-None-Match''"

definition FINGERPRINT_PREFIX :: str where
  "FINGERPRINT_PREFIX = lit ''sha256:''"

definition SUPPORTED_BUNDLE_VERSION :: u32 where
  "SUPPORTED_BUNDLE_VERSION = 1"

definition SIGNATURE_ALGORITHM :: str where
  "SIGNATURE_ALGORITHM = lit ''ssh-ed25519''"

definition CLOCK_SKEW_GRACE :: int where
  "CLOCK_SKEW_GRACE = 60 * 1000000000"

definition MIN_KEYS :: nat where
  "MIN_KEYS = 1"

definition MAX_KEYS :: nat where
  "MAX_KEYS = 64"

definition MAX_KEY_ID_LEN :: nat where
  "MAX_KEY_ID_LEN = 64"

record ca_bundle_key =
  key_id :: str
  public_key :: str

record ca_bundle_response =
  raw_bundle_version :: "u32 option"
  raw_generation :: "u64 option"
  raw_fingerprint :: "str option"
  raw_created_at :: "str option"
  raw_expires_at :: "str option"
  raw_keys :: "ca_bundle_key list"
  raw_signature_algorithm :: "str option"
  raw_signature :: "str option"
  raw_bundle_signing_public_key :: "str option"

record ca_bundle =
  bundle_version :: u32
  generation :: u64
  fingerprint :: str
  created_at :: int
  expires_at :: int
  bundle_keys :: "ca_bundle_key list"
  signing_public_key :: str

text \<open>The JSON reader of \<open>serde_json\<close> for this shape is a parameter.\<close>

definition bundle_from_json :: "(bytes \<Rightarrow> ca_bundle_response option) \<Rightarrow> bytes \<Rightarrow> ca_bundle_response res" where
  "bundle_from_json parse bs = ok_or (parse bs) (InvalidCaBundle InvalidKey)"

section \<open>Canonical encodings\<close>

definition hex_digit :: "nat \<Rightarrow> rchar" where
  "hex_digit n = (if n < 10 then 48 + n else 87 + n)"

definition json_escape_char :: "rchar \<Rightarrow> str" where
  "json_escape_char c =
     (if c = 34 then [92, 34]
      else if c = 92 then [92, 92]
      else if c = 10 then [92, 110]
      else if c = 13 then [92, 114]
      else if c = 9 then [92, 116]
      else if c = 8 then [92, 98]
      else if c = 12 then [92, 102]
      else if c < 32 then [92, 117, 48, 48, hex_digit (c div 16), hex_digit (c mod 16)]
      else [c])"

definition json_escape :: "str \<Rightarrow> str" where
  "json_escape s = concat (map json_escape_char s)"

definition append_key :: "ca_bundle_key \<Rightarrow> str" where
  "append_key k =
     lit ''{\"key_id\":\"'' @ json_escape (key_id k)
     @ lit ''\",\"public_key\":\"'' @ json_escape (public_key k) @ lit ''\"}''"

fun append_keys_array_from :: "nat \<Rightarrow> ca_bundle_key list \<Rightarrow> str" where
  "append_keys_array_from i [] = []"
| "append_keys_array_from i (k # ks) =
     (if i > 0 then [44] else []) @ append_key k @ append_keys_array_from (Suc i) ks"

definition append_keys_array :: "ca_bundle_key list \<Rightarrow> str" where
  "append_keys_array ks = [91] @ append_keys_array_from 0 ks @ [93]"

definition canonical_json :: "u64 \<Rightarrow> ca_bundle_key list \<Rightarrow> str" where
  "canonical_json gen keys =
     lit ''{\"generation\":'' @ show_u64 gen @ lit '',\"keys\":''
     @ append_keys_array (sort_key key_id keys) @ [125]"

definition canonical_signing_payload ::
    "u32 \<Rightarrow> u64 \<Rightarrow> str \<Rightarrow> str \<Rightarrow> str \<Rightarrow> ca_bundle_key list \<Rightarrow> str" where
  "canonical_signing_payload version gen fpr created expires keys =
     lit ''{\"bundle_version\":'' @ show_u32 version
     @ lit '',\"created_at\":\"'' @ json_escape created
     @ lit ''\",\"expires_at\":\"'' @ json_escape expires
     @ lit ''\",\"fingerprint\":\"'' @ json_escape fpr
     @ lit ''\",\"generation\":'' @ show_u64 gen
     @ lit '',\"keys\":'' @ append_keys_array (sort_key key_id keys) @ [125]"

definition compute_fingerprint :: "libs \<Rightarrow> u64 \<Rightarrow> ca_bundle_key list \<Rightarrow> str" where
  "compute_fingerprint L gen keys =
     FINGERPRINT_PREFIX @ lib_hex L (lib_sha256 L (utf8 (canonical_json gen keys)))"

section \<open>Comparisons\<close>

text \<open>The full scan: the differences of all bytes are collected before the test.\<close>

definition scan_equal :: "bytes \<Rightarrow> bytes \<Rightarrow> bool" where
  "scan_equal a b =
     (if length a \<noteq> length b then False
      else foldl (\<lambda>diff (x, y). diff OR (x XOR y)) 0 (zip a b) = 0)"

definition fingerprints_equal :: "str \<Rightarrow> str \<Rightarrow> bool" where
  "fingerprints_equal a b = scan_equal (utf8 a) (utf8 b)"

definition key_material :: "str \<Rightarrow> (str \<times> str) option" where
  "key_material s =
     (case split_whitespace s of algo # blob # _ \<Rightarrow> Some (algo, blob) | _ \<Rightarrow> None)"

definition public_keys_equal :: "str \<Rightarrow> str \<Rightarrow> bool" where
  "public_keys_equal a b =
     (case (key_material a, key_material b) of (Some x, Some y) \<Rightarrow> x = y | _ \<Rightarrow> False)"

section \<open>Validation\<close>

definition validate_key_id :: "str \<Rightarrow> ca_bundle_error + unit" where
  "validate_key_id i =
     (if i = [] \<or> str_len i > MAX_KEY_ID_LEN then Inl InvalidKey
      else if \<exists>c \<in> set i. is_whitespace c \<or> is_control c \<or> \<not> is_ascii_graphic c then Inl InvalidKey
      else Inr ())"

fun validate_keys :: "libs \<Rightarrow> ca_bundle_key list \<Rightarrow> ca_bundle_error + unit" where
  "validate_keys L [] = Inr ()"
| "validate_keys L (k # ks) =
     bind_res (validate_key_id (key_id k)) (\<lambda>_.
     bind_res (map_err (\<lambda>_. InvalidKey) (validate_ed25519_public_key L (public_key k))) (\<lambda>_.
     validate_keys L ks))"

definition verify_signature :: "libs \<Rightarrow> bytes \<Rightarrow> str \<Rightarrow> str \<Rightarrow> ca_bundle_error + unit" where
  "verify_signature L payload signature_b64 signing_key =
     bind_res (ok_or (lib_ssh_public L signing_key) SignatureInvalid) (\<lambda>key.
     bind_res (ok_or (spk_ed25519 key) SignatureInvalid) (\<lambda>ed.
     if \<not> lib_verifying_key L ed then Inl SignatureInvalid
     else bind_res (ok_or (lib_b64_decode L (trim signature_b64)) SignatureInvalid) (\<lambda>sig_bytes.
       if length sig_bytes \<noteq> 64 then Inl SignatureInvalid
       else if lib_verify_strict L ed payload sig_bytes then Inr () else Inl SignatureInvalid)))"

definition check_duplicates :: "ca_bundle_key list \<Rightarrow> ca_bundle_error + unit" where
  "check_duplicates keys =
     (let by_id = sort_key key_id keys;
          by_pubkey = sort (map public_key keys)
      in if \<exists>(a, b) \<in> set (windows2 by_id). key_id a = key_id b then Inl DuplicateKeyId
         else if \<exists>(a, b) \<in> set (windows2 by_pubkey). a = b then Inl DuplicatePublicKey
         else Inr ())"

text \<open>The checks after the envelope has been authenticated.\<close>

definition check_content ::
    "libs \<Rightarrow> ca_bundle_response \<Rightarrow> int \<Rightarrow> u32 \<Rightarrow> u64 \<Rightarrow> str \<Rightarrow> str \<Rightarrow> str \<Rightarrow> str
     \<Rightarrow> ca_bundle_error + ca_bundle" where
  "check_content L raw now version gen fpr created_str expires_str signing_key =
     (if gen = 0 then Inl MissingGeneration
      else if length (raw_keys raw) < MIN_KEYS then Inl BundleEmpty
      else if length (raw_keys raw) > MAX_KEYS then Inl TooManyKeys
      else bind_res (validate_keys L (raw_keys raw)) (\<lambda>_.
        bind_res (check_duplicates (raw_keys raw)) (\<lambda>_.
        let keys = sort_key key_id (raw_keys raw);
            computed = compute_fingerprint L gen keys
        in if \<not> fingerprints_equal computed fpr then Inl FingerprintMismatch
           else bind_res (ok_or (lib_rfc3339_parse L created_str) InvalidTimestamp) (\<lambda>created.
             bind_res (ok_or (lib_rfc3339_parse L expires_str) InvalidTimestamp) (\<lambda>expires.
             if expires \<le> created then Inl InvalidTimestamp
             else if now \<ge> expires then Inl Expired
             else if created - now > CLOCK_SKEW_GRACE then Inl NotYetValid
             else Inr \<lparr>bundle_version = version, generation = gen, fingerprint = computed,
                       created_at = created, expires_at = expires, bundle_keys = keys,
                       signing_public_key = signing_key\<rparr>)))))"

definition from_response ::
    "libs \<Rightarrow> ca_bundle_response \<Rightarrow> int \<Rightarrow> str option \<Rightarrow> ca_bundle_error + ca_bundle" where
  "from_response L raw now expected_signing_key =
     bind_res (ok_or (raw_bundle_version raw) UnsupportedVersion) (\<lambda>version.
     let gen = unwrap_or (raw_generation raw) 0;
         fpr = unwrap_or (raw_fingerprint raw) [];
         created_str = unwrap_or (raw_created_at raw) [];
         expires_str = unwrap_or (raw_expires_at raw) [];
         algorithm = unwrap_or (raw_signature_algorithm raw) [];
         signature = unwrap_or (raw_signature raw) [];
         signing_key = unwrap_or (raw_bundle_signing_public_key raw) []
     in if version \<noteq> SUPPORTED_BUNDLE_VERSION then Inl UnsupportedVersion
        else if algorithm \<noteq> SIGNATURE_ALGORITHM then Inl UnsupportedSignatureAlgorithm
        else if trim signing_key = [] \<or> validate_ed25519_public_key L signing_key \<noteq> Inr ()
          then Inl SignatureInvalid
        else if (case expected_signing_key of
                   Some expected \<Rightarrow> \<not> public_keys_equal expected signing_key
                 | None \<Rightarrow> False)
          then Inl SigningKeyMismatch
        else if trim fpr = [] then Inl MissingFingerprint
        else bind_res (verify_signature L
               (utf8 (canonical_signing_payload version gen fpr created_str expires_str (raw_keys raw)))
               signature signing_key) (\<lambda>_.
          check_content L raw now version gen fpr created_str expires_str signing_key))"

section \<open>Rendering\<close>

definition render_key_line :: "ca_bundle_key \<Rightarrow> str" where
  "render_key_line k =
     (let tokens = split_whitespace (public_key k);
          algorithm = (case tokens of a # _ \<Rightarrow> a | [] \<Rightarrow> lit ''ssh-ed25519'');
          blob = (case tokens of _ # b # _ \<Rightarrow> b | _ \<Rightarrow> [])
      in algorithm @ [32] @ blob @ lit '' mayfly:'' @ key_id k)"

definition render_trusted_user_ca_keys :: "ca_bundle \<Rightarrow> str" where
  "render_trusted_user_ca_keys b =
     lit ''# Managed by mayfly-agent. DO NOT EDIT.'' @ [10]
     @ lit ''# bundle_version: '' @ show_u32 (bundle_version b) @ [10]
     @ lit ''# generation: '' @ show_u64 (generation b) @ [10]
     @ lit ''# fingerprint: '' @ fingerprint b @ [10]
     @ concat (map (\<lambda>k. render_key_line k @ [10]) (bundle_keys b))"

section \<open>Exact comparison\<close>

lemma foldl_or_zero:
  "foldl (\<lambda>d (x, y). d OR (x XOR y)) (d :: u8) ps = 0 \<longleftrightarrow> d = 0 \<and> (\<forall>(x, y) \<in> set ps. x = y)"
proof (induction ps arbitrary: d)
  case (Cons p ps)
  obtain x y where p: "p = (x, y)" by fastforce
  have "d OR (x XOR y) = 0 \<longleftrightarrow> d = 0 \<and> x = y"
    by (metis or_eq_0_iff xor_self_eq xor.left_neutral xor.assoc xor.right_neutral)
  with Cons p show ?case by auto
qed simp

interpretation scan: exact_eq scan_equal
proof
  fix a b
  show "scan_equal a b \<longleftrightarrow> a = b"
  proof (cases "length a = length b")
    case True
    then have "(\<forall>(x, y) \<in> set (zip a b). x = y) \<longleftrightarrow> a = b"
      by (induction a b rule: list_induct2) auto
    with True show ?thesis by (simp add: scan_equal_def foldl_or_zero)
  qed (auto simp: scan_equal_def)
qed

lemma fingerprints_equal_iff [simp]: "fingerprints_equal a b \<longleftrightarrow> utf8 a = utf8 b"
  by (simp add: fingerprints_equal_def scan.exact)

section \<open>What the gate accepts\<close>

text \<open>A well-formed key identifier: 1 to 64 printable ASCII characters, no white space.\<close>

definition good_key_id :: "str \<Rightarrow> bool" where
  "good_key_id i \<longleftrightarrow> i \<noteq> [] \<and> length i \<le> 64 \<and> (\<forall>c \<in> set i. is_ascii_graphic c)"

lemma graphic_len: "\<forall>c \<in> set i. is_ascii_graphic c \<Longrightarrow> str_len i = length i"
  using graphic_plain by (intro str_len_ascii) blast

interpretation key_id_check: validator validate_key_id good_key_id
proof
  fix i
  have "(\<exists>c \<in> set i. is_whitespace c \<or> is_control c \<or> \<not> is_ascii_graphic c)
      \<longleftrightarrow> \<not> (\<forall>c \<in> set i. is_ascii_graphic c)"
    using graphic_plain by blast
  then show "validate_key_id i = Inr () \<longleftrightarrow> good_key_id i"
    using graphic_len [of i] by (auto simp: validate_key_id_def good_key_id_def MAX_KEY_ID_LEN_def)
qed

definition good_key :: "libs \<Rightarrow> ca_bundle_key \<Rightarrow> bool" where
  "good_key L k \<longleftrightarrow> good_key_id (key_id k) \<and> ed25519_line L (public_key k)"

interpretation keys_check: validator "validate_keys L" "\<lambda>ks. \<forall>k \<in> set ks. good_key L k" for L
proof
  fix ks
  show "validate_keys L ks = Inr () \<longleftrightarrow> (\<forall>k \<in> set ks. good_key L k)"
    by (induction ks)
       (auto simp: good_key_def bind_res_eq_Inr key_id_check.check_iff pubkey.check_iff)
qed

lemma validate_key_id_err: "validate_key_id i = Inl e \<Longrightarrow> e = InvalidKey"
  by (auto simp: validate_key_id_def split: if_splits)

lemma validate_keys_err: "validate_keys L ks = Inl e \<Longrightarrow> e = InvalidKey"
proof (induction ks)
  case (Cons k ks)
  then show ?case
    by (cases "validate_key_id (key_id k)"; cases "validate_ed25519_public_key L (public_key k)")
       (auto dest: validate_key_id_err)
qed simp

lemma windows_ids: "(\<exists>(a, b) \<in> set (windows2 (sort_key key_id ks)). key_id a = key_id b)
    \<longleftrightarrow> \<not> distinct (map key_id ks)"
proof -
  let ?s = "map key_id (sort_key key_id ks)"
  have "distinct ?s \<longleftrightarrow> distinct (map key_id ks)"
    by (metis mset_map mset_sort mset_eq_imp_distinct_iff)
  moreover have "(\<forall>p \<in> set (windows2 ?s). fst p \<noteq> snd p) \<longleftrightarrow> distinct ?s"
    by (rule sorted_windows2_distinct) simp
  moreover have "(\<forall>p \<in> set (windows2 ?s). fst p \<noteq> snd p) \<longleftrightarrow>
      \<not> (\<exists>(a, b) \<in> set (windows2 (sort_key key_id ks)). key_id a = key_id b)"
    unfolding windows2_map set_map ball_simps by force
  ultimately show ?thesis by blast
qed

lemma windows_keys: "(\<exists>(a, b) \<in> set (windows2 (sort (map public_key ks))). a = b)
    \<longleftrightarrow> \<not> distinct (map public_key ks)"
  using sorted_windows2_distinct [of "sort (map public_key ks)"] by fastforce

interpretation dup_check: validator check_duplicates
    "\<lambda>ks. distinct (map key_id ks) \<and> distinct (map public_key ks)"
  by unfold_locales (simp add: check_duplicates_def Let_def windows_ids windows_keys)

text \<open>A valid detached signature of a payload under an OpenSSH Ed25519 key line.\<close>

definition signed_by :: "libs \<Rightarrow> str \<Rightarrow> str \<Rightarrow> bytes \<Rightarrow> bool" where
  "signed_by L signing_key signature_b64 payload \<longleftrightarrow> (\<exists>key ed sig.
     lib_ssh_public L signing_key = Some key \<and> spk_ed25519 key = Some ed \<and> lib_verifying_key L ed
     \<and> lib_b64_decode L (trim signature_b64) = Some sig \<and> length sig = 64
     \<and> lib_verify_strict L ed payload sig)"

lemma verify_signature_iff:
  "verify_signature L payload sig key = Inr () \<longleftrightarrow> signed_by L key sig payload"
  by (auto simp: verify_signature_def signed_by_def bind_res_eq_Inr)

lemma verify_signature_err: "verify_signature L payload sig key = Inl e \<Longrightarrow> e = SignatureInvalid"
  by (auto simp: verify_signature_def bind_res_eq_Inl ok_or_def split: if_splits option.splits)

text \<open>
  The payload, the key and the signature that a raw bundle claims to be authentic by,
  and the contract of the gate: \<open>authentic\<close> is what has to be true of the envelope,
  \<open>well_formed\<close> what has to be true of its content, \<open>bundle_of\<close> what is then returned.
\<close>

definition claimed_payload :: "ca_bundle_response \<Rightarrow> bytes" where
  "claimed_payload raw = utf8 (canonical_signing_payload
     (unwrap_or (raw_bundle_version raw) 0) (unwrap_or (raw_generation raw) 0)
     (unwrap_or (raw_fingerprint raw) []) (unwrap_or (raw_created_at raw) [])
     (unwrap_or (raw_expires_at raw) []) (raw_keys raw))"

definition authentic :: "libs \<Rightarrow> ca_bundle_response \<Rightarrow> str option \<Rightarrow> bool" where
  "authentic L raw pin \<longleftrightarrow>
     raw_bundle_version raw = Some 1 \<and> raw_signature_algorithm raw = Some (lit ''ssh-ed25519'')
     \<and> (\<exists>key fpr. raw_bundle_signing_public_key raw = Some key \<and> raw_fingerprint raw = Some fpr
          \<and> trim key \<noteq> [] \<and> trim fpr \<noteq> [] \<and> ed25519_line L key
          \<and> (\<forall>p. pin = Some p \<longrightarrow> public_keys_equal p key)
          \<and> signed_by L key (unwrap_or (raw_signature raw) []) (claimed_payload raw))"

definition well_formed :: "libs \<Rightarrow> ca_bundle_response \<Rightarrow> int \<Rightarrow> bool" where
  "well_formed L raw now \<longleftrightarrow> (\<exists>gen created expires.
     raw_generation raw = Some gen \<and> gen \<noteq> 0
     \<and> raw_keys raw \<noteq> [] \<and> length (raw_keys raw) \<le> 64
     \<and> (\<forall>k \<in> set (raw_keys raw). good_key L k)
     \<and> distinct (map key_id (raw_keys raw)) \<and> distinct (map public_key (raw_keys raw))
     \<and> utf8 (compute_fingerprint L gen (raw_keys raw)) = utf8 (unwrap_or (raw_fingerprint raw) [])
     \<and> lib_rfc3339_parse L (unwrap_or (raw_created_at raw) []) = Some created
     \<and> lib_rfc3339_parse L (unwrap_or (raw_expires_at raw) []) = Some expires
     \<and> created < expires \<and> now < expires \<and> created - now \<le> 60 * 10 ^ 9)"

definition bundle_of :: "libs \<Rightarrow> ca_bundle_response \<Rightarrow> ca_bundle" where
  "bundle_of L raw =
     \<lparr>bundle_version = 1, generation = unwrap_or (raw_generation raw) 0,
      fingerprint = compute_fingerprint L (unwrap_or (raw_generation raw) 0) (raw_keys raw),
      created_at = unwrap_or (lib_rfc3339_parse L (unwrap_or (raw_created_at raw) [])) 0,
      expires_at = unwrap_or (lib_rfc3339_parse L (unwrap_or (raw_expires_at raw) [])) 0,
      bundle_keys = sort_key key_id (raw_keys raw),
      signing_public_key = unwrap_or (raw_bundle_signing_public_key raw) []\<rparr>"

lemma sort_key_sort_key: "sort_key f (sort_key f xs) = sort_key f xs"
  by (simp add: sort_key_id_if_sorted)

lemma fingerprint_sorted [simp]:
  "compute_fingerprint L gen (sort_key key_id ks) = compute_fingerprint L gen ks"
  by (simp add: compute_fingerprint_def canonical_json_def sort_key_sort_key)

lemma check_content_iff:
  "check_content L raw now 1 (unwrap_or (raw_generation raw) 0) (unwrap_or (raw_fingerprint raw) [])
     (unwrap_or (raw_created_at raw) []) (unwrap_or (raw_expires_at raw) [])
     (unwrap_or (raw_bundle_signing_public_key raw) []) = Inr b
   \<longleftrightarrow> well_formed L raw now \<and> b = bundle_of L raw"
proof (cases "raw_generation raw")
  case None
  then show ?thesis by (simp add: check_content_def well_formed_def)
next
  case (Some gen)
  have pick: "\<exists>a. \<not> a \<le> now \<and> (\<not> a \<le> now \<longrightarrow> \<not> a \<le> c \<and> (\<not> a \<le> c \<longrightarrow> x = a \<and> a = x))"
    if "c < x" "now < x" for c x :: int
    using that by (intro exI [of _ x]) simp
  show ?thesis
    unfolding check_content_def Let_def well_formed_def keys_check.check_then bundle_of_def Some
    by (auto simp: Let_def keys_check.check_then dup_check.check_then bind_res_eq_Inr
        CLOCK_SKEW_GRACE_def MIN_KEYS_def MAX_KEYS_def keys_check.check_iff dup_check.check_iff
        split: if_splits intro!: pick)
qed

definition envelope_errors :: "ca_bundle_error set" where
  "envelope_errors = {UnsupportedVersion, UnsupportedSignatureAlgorithm, SignatureInvalid,
     SigningKeyMismatch, MissingFingerprint}"

lemma check_content_errors:
  "check_content L raw now v gen fpr c x key \<notin> Inl ` envelope_errors"
proof -
  have "e \<notin> envelope_errors"
    if "check_content L raw now v gen fpr c x key = Inl e" for e
    using that
    by (auto simp: envelope_errors_def check_content_def check_duplicates_def Let_def bind_res_eq_Inl ok_or_def
        dest!: validate_keys_err split: if_splits option.splits)
  then show ?thesis by blast
qed

lemma from_response_split:
  assumes "from_response L raw now pin = r"
  shows "(\<exists>e \<in> envelope_errors. r = Inl e \<and> \<not> authentic L raw pin)
    \<or> authentic L raw pin \<and> r = check_content L raw now 1 (unwrap_or (raw_generation raw) 0)
        (unwrap_or (raw_fingerprint raw) []) (unwrap_or (raw_created_at raw) [])
        (unwrap_or (raw_expires_at raw) []) (unwrap_or (raw_bundle_signing_public_key raw) [])"
proof -
  have SA: "SIGNATURE_ALGORITHM \<noteq> []" by (simp add: SIGNATURE_ALGORITHM_def)
  have alg: "unwrap_or x [] = SIGNATURE_ALGORITHM \<longleftrightarrow> x = Some (lit ''ssh-ed25519'')" for x
    using SA by (cases x) (auto simp: SIGNATURE_ALGORITHM_def lit_def)
  show ?thesis
  proof (cases "raw_bundle_version raw = Some 1 \<and> raw_signature_algorithm raw = Some (lit ''ssh-ed25519'')")
    case False
    then have "r = Inl UnsupportedVersion \<or> r = Inl UnsupportedSignatureAlgorithm"
      using assms alg [of "raw_signature_algorithm raw"] by (cases "raw_bundle_version raw")
        (simp_all add: from_response_def Let_def SUPPORTED_BUNDLE_VERSION_def split: if_splits)
    moreover have "\<not> authentic L raw pin" using False by (auto simp: authentic_def)
    ultimately show ?thesis by (auto simp: envelope_errors_def)
  next
    case True
    let ?key = "unwrap_or (raw_bundle_signing_public_key raw) []"
    let ?fpr = "unwrap_or (raw_fingerprint raw) []"
    let ?ver = "verify_signature L (claimed_payload raw) (unwrap_or (raw_signature raw) []) ?key"
    have auth: "authentic L raw pin \<longleftrightarrow> trim ?key \<noteq> [] \<and> ed25519_line L ?key
        \<and> (\<forall>p. pin = Some p \<longrightarrow> public_keys_equal p ?key) \<and> trim ?fpr \<noteq> [] \<and> ?ver = Inr ()"
      using True unfolding authentic_def verify_signature_iff
      by (cases "raw_bundle_signing_public_key raw"; cases "raw_fingerprint raw") auto
    show ?thesis
    proof (cases "trim ?key = [] \<or> \<not> ed25519_line L ?key
        \<or> (\<exists>p. pin = Some p \<and> \<not> public_keys_equal p ?key) \<or> trim ?fpr = []")
      case bad: True
      with auth have "\<not> authentic L raw pin" by blast
      with bad True assms show ?thesis
        by (auto simp: from_response_def Let_def SUPPORTED_BUNDLE_VERSION_def SIGNATURE_ALGORITHM_def
            pubkey.check_iff envelope_errors_def split: option.splits if_splits)
    next
      case good: False
      then have r: "r = bind_res ?ver (\<lambda>_. check_content L raw now 1 (unwrap_or (raw_generation raw) 0)
          ?fpr (unwrap_or (raw_created_at raw) []) (unwrap_or (raw_expires_at raw) []) ?key)"
        using True assms by (auto simp: from_response_def Let_def SUPPORTED_BUNDLE_VERSION_def
            SIGNATURE_ALGORITHM_def pubkey.check_iff claimed_payload_def split: option.splits if_splits)
      show ?thesis
        using r good auth verify_signature_err by (cases ?ver) (auto simp: envelope_errors_def)
    qed
  qed
qed

text \<open>
  C7. The gate accepts a response exactly when its envelope is authentic (version, algorithm,
  a signing key that is the pinned one if there is a pin, a signature of the canonical
  payload) and its content is well formed (positive generation, 1 to 64 valid keys without
  duplicates, matching fingerprint, validity window around now), and it returns the bundle
  of exactly the signed fields with the keys sorted by identifier.
\<close>

theorem from_response_correct:
  "from_response L raw now pin = Inr b \<longleftrightarrow>
     authentic L raw pin \<and> well_formed L raw now \<and> b = bundle_of L raw"
  using from_response_split [OF refl, of L raw now pin] check_content_iff [of L raw now b]
  by auto

text \<open>
  C8. Authentication comes first: the gate answers with one of the five errors about the
  envelope exactly when the envelope is not authentic, so every answer that depends on the
  content (success, or an error about generation, keys, fingerprint or time) is given only
  for an envelope whose signature verifies under a key that matches the pin; and a pin that
  matches changes nothing.
\<close>

theorem from_response_authenticates_first:
  "(from_response L raw now pin \<in> Inl ` envelope_errors \<longleftrightarrow> \<not> authentic L raw pin)
   \<and> (authentic L raw pin \<longrightarrow> from_response L raw now pin = from_response L raw now None)"
proof -
  have "authentic L raw pin \<Longrightarrow> authentic L raw None" by (auto simp: authentic_def)
  then show ?thesis
    using from_response_split [OF refl, of L raw now pin] from_response_split [OF refl, of L raw now None]
      check_content_errors [of L raw now 1 "unwrap_or (raw_generation raw) 0"
        "unwrap_or (raw_fingerprint raw) []" "unwrap_or (raw_created_at raw) []"
        "unwrap_or (raw_expires_at raw) []" "unwrap_or (raw_bundle_signing_public_key raw) []"]
    by (cases "authentic L raw pin") (force, force)
qed

section \<open>The canonical encodings\<close>

lemma hex_digit_inj: "a < 16 \<Longrightarrow> b < 16 \<Longrightarrow> hex_digit a = hex_digit b \<longleftrightarrow> a = b"
  by (auto simp: hex_digit_def)

lemma json_escape_char_hd [simp]: "json_escape_char c @ u \<noteq> 34 # v" "34 # v \<noteq> json_escape_char c @ u"
  by (auto simp: json_escape_char_def)

text \<open>The first two characters tell which case of the match produced an escape.\<close>

definition escape_class :: "rchar \<Rightarrow> nat" where
  "escape_class c = (if c \<in> {34, 92, 10, 13, 9, 8, 12} then 0 else if c < 32 then 3 else 2)"

definition unescape_letter :: "rchar \<Rightarrow> rchar" where
  "unescape_letter x =
     (if x = 110 then 10 else if x = 114 then 13 else if x = 116 then 9 else if x = 98 then 8
      else if x = 102 then 12 else x)"

lemma escape_shape:
  "escape_class e = 0 \<Longrightarrow> \<exists>x. json_escape_char e = [92, x] \<and> x \<noteq> 117 \<and> e = unescape_letter x"
  "escape_class e = 3 \<Longrightarrow> e < 32 \<and> json_escape_char e
     = [92, 117, 48, 48, hex_digit (e div 16), hex_digit (e mod 16)]"
  "escape_class e = 2 \<Longrightarrow> json_escape_char e = [e] \<and> e \<noteq> 92"
  by (auto simp: escape_class_def json_escape_char_def unescape_letter_def split: if_splits)

lemma escape_class_cases: "escape_class e = 0 \<or> escape_class e = 3 \<or> escape_class e = 2"
  by (simp add: escape_class_def)

lemma escape_class_eq:
  assumes "json_escape_char c @ u = json_escape_char d @ v"
  shows "escape_class c = escape_class d"
  using escape_class_cases [of c] escape_class_cases [of d] assms
  by (elim disjE) (auto dest!: escape_shape)

lemma json_escape_char_code:
  assumes "json_escape_char c @ u = json_escape_char d @ v"
  shows "c = d \<and> u = v"
  using escape_class_cases [of c]
proof (elim disjE)
  assume "escape_class c = 0"
  with escape_class_eq [OF assms] assms show ?thesis by (auto dest!: escape_shape(1))
next
  assume "escape_class c = 3"
  with escape_shape(2) [of c] escape_shape(2) [of d] escape_class_eq [OF assms] assms
  have "hex_digit (c div 16) = hex_digit (d div 16)" "hex_digit (c mod 16) = hex_digit (d mod 16)"
      "u = v" "c < 32" "d < 32" by auto
  moreover from this have "c div 16 = d div 16" "c mod 16 = d mod 16"
    using hex_digit_inj by (auto simp: less_mult_imp_div_less)
  ultimately show ?thesis by (metis div_mult_mod_eq)
next
  assume "escape_class c = 2"
  with escape_shape(3) [of c] escape_shape(3) [of d] escape_class_eq [OF assms] assms
  show ?thesis by simp
qed

lemma json_escape_Cons [simp]: "json_escape (c # s) = json_escape_char c @ json_escape s"
  by (simp add: json_escape_def)

lemma json_escape_Nil [simp]: "json_escape [] = []"
  by (simp add: json_escape_def)

text \<open>An escaped string ends at the first bare quote: its end cannot be forged.\<close>

lemma json_escape_quote:
  "json_escape a @ 34 # x = json_escape b @ 34 # y \<longleftrightarrow> a = b \<and> x = y"
proof (induction a arbitrary: b)
  case Nil
  show ?case by (cases b) auto
next
  case (Cons c a)
  show ?case
  proof (cases b)
    case b: (Cons d b')
    then show ?thesis
      using json_escape_char_code [of c "json_escape a @ 34 # x" d "json_escape b' @ 34 # y"] Cons [of b']
      by auto
  qed simp
qed

lemma append_key_code: "append_key k @ u = append_key k' @ v \<longleftrightarrow> k = k' \<and> u = v"
  by (cases k; cases k') (auto simp: append_key_def lit_def json_escape_quote)

lemma append_key_Cons: "\<exists>t. append_key k = 123 # t"
  by (simp add: append_key_def lit_def)

lemma append_keys_from_code:
  "append_keys_array_from i ks @ 93 # u = append_keys_array_from i ks' @ 93 # v \<longleftrightarrow> ks = ks' \<and> u = v"
proof (induction ks arbitrary: i ks')
  case Nil
  show ?case
  proof (cases ks')
    case (Cons k ks)
    obtain t where "append_key k = 123 # t" using append_key_Cons by blast
    with Cons show ?thesis by (cases i) auto
  qed simp
next
  case (Cons k ks)
  show ?case
  proof (cases ks')
    case Nil
    obtain t where "append_key k = 123 # t" using append_key_Cons by blast
    with Nil show ?thesis by (cases i) auto
  next
    case k': (Cons k1 ks1)
    have "append_keys_array_from i (k # ks) @ 93 # u = append_keys_array_from i ks' @ 93 # v \<longleftrightarrow>
        append_key k @ (append_keys_array_from (Suc i) ks @ 93 # u)
          = append_key k1 @ (append_keys_array_from (Suc i) ks1 @ 93 # v)"
      using k' by simp
    with Cons [of "Suc i" ks1] k' show ?thesis by (simp only: append_key_code) auto
  qed
qed

lemma append_keys_array_code:
  "append_keys_array ks @ u = append_keys_array ks' @ v \<longleftrightarrow> ks = ks' \<and> u = v"
  using append_keys_from_code [of 0 ks u ks' v] by (simp add: append_keys_array_def)

lemma append_keys_array_inject [simp]: "append_keys_array ks = append_keys_array ks' \<longleftrightarrow> ks = ks'"
  using append_keys_array_code [of ks "[]" ks' "[]"] by simp

lemma show_u32_code: "show_u32 a @ 44 # u = show_u32 b @ 44 # v \<longleftrightarrow> a = b \<and> u = v"
  using show_nat_prefix [of "unat a" 44 u "unat b" 44 v]
  by (auto simp: show_u32_def is_ascii_digit_def word_unat_eq_iff)

lemma show_u64_code: "show_u64 a @ 44 # u = show_u64 b @ 44 # v \<longleftrightarrow> a = b \<and> u = v"
  using show_nat_prefix [of "unat a" 44 u "unat b" 44 v]
  by (auto simp: show_u64_def is_ascii_digit_def word_unat_eq_iff)

lemma canonical_signing_payload_eq:
  "canonical_signing_payload v g f c x ks = canonical_signing_payload v' g' f' c' x' ks' \<longleftrightarrow>
     v = v' \<and> g = g' \<and> f = f' \<and> c = c' \<and> x = x' \<and> sort_key key_id ks = sort_key key_id ks'"
  unfolding canonical_signing_payload_def lit_def
  by (auto simp: show_u32_code show_u64_code json_escape_quote append_keys_array_code)

lemma canonical_json_eq:
  "canonical_json g ks = canonical_json g' ks' \<longleftrightarrow> g = g' \<and> sort_key key_id ks = sort_key key_id ks'"
  unfolding canonical_json_def lit_def
  by (auto simp: show_u64_code append_keys_array_code)

lemma sort_key_eq_mset: "sort_key f xs = sort_key f ys \<Longrightarrow> mset xs = mset ys"
  by (metis mset_sort)

text \<open>
  C10. The signed payload is unambiguous: two envelopes have the same payload only if they
  agree in every field and hold the same keys, whatever quotes, backslashes or control
  characters the fields contain. A signature therefore covers exactly one envelope, up to the
  order of the keys.
\<close>

theorem canonical_signing_payload_unambiguous:
  assumes "canonical_signing_payload v g f c x ks = canonical_signing_payload v' g' f' c' x' ks'"
  shows "v = v' \<and> g = g' \<and> f = f' \<and> c = c' \<and> x = x' \<and> mset ks = mset ks'"
  using assms sort_key_eq_mset unfolding canonical_signing_payload_eq by blast

lemma from_response_permuted:
  assumes "mset ks = mset (raw_keys raw)" and "distinct (map key_id (raw_keys raw))"
  shows "from_response L (raw\<lparr>raw_keys := ks\<rparr>) now pin = from_response L raw now pin"
proof -
  have inj: "inj_on key_id (set ks)"
    using assms distinct_map mset_eq_setD by metis
  have srt: "sort_key key_id ks = sort_key key_id (raw_keys raw)"
    using sort_key_mset_cong [OF assms(1) inj] .
  have len: "length ks = length (raw_keys raw)" and st: "set ks = set (raw_keys raw)"
    using mset_eq_length [OF assms(1)] mset_eq_setD [OF assms(1)] by simp_all
  have pay: "canonical_signing_payload v g f c x ks = canonical_signing_payload v g f c x (raw_keys raw)"
    for v g f c x by (simp add: canonical_signing_payload_eq srt)
  have keys: "validate_keys L ks = validate_keys L (raw_keys raw)"
    using keys_check.check_iff [of L ks] keys_check.check_iff [of L "raw_keys raw"] st
    by (cases "validate_keys L ks"; cases "validate_keys L (raw_keys raw)") (auto dest!: validate_keys_err)
  have "sort (map public_key ks) = sort (map public_key (raw_keys raw))"
    using assms(1) by (metis mset_map sorted_list_of_multiset_mset)
  then have dups: "check_duplicates ks = check_duplicates (raw_keys raw)"
    by (simp add: check_duplicates_def srt)
  show ?thesis
    by (simp add: from_response_def check_content_def len pay keys dups srt Let_def cong: if_cong)
qed

lemma from_response_distinct: "from_response L raw now pin = Inr b \<Longrightarrow> distinct (map key_id (raw_keys raw))"
  using from_response_split [OF refl, of L raw now pin] check_content_iff [of L raw now b]
  by (auto simp: well_formed_def)

text \<open>
  C11. The order in which the server lists the keys does not decide over a bundle: a response
  with the same keys in another order is accepted exactly if the response is, with the same
  bundle (a response that repeats an identifier is refused in every order). If the identifiers
  are distinct the whole answer is the same, the error included.
\<close>

theorem from_response_order_independent:
  assumes "mset ks = mset (raw_keys raw)"
  shows "(\<forall>b. from_response L (raw\<lparr>raw_keys := ks\<rparr>) now pin = Inr b \<longleftrightarrow> from_response L raw now pin = Inr b)
    \<and> (distinct (map key_id (raw_keys raw))
        \<longrightarrow> from_response L (raw\<lparr>raw_keys := ks\<rparr>) now pin = from_response L raw now pin)"
proof -
  have same: "distinct (map key_id ks) \<longleftrightarrow> distinct (map key_id (raw_keys raw))"
    using assms by (metis mset_map mset_eq_imp_distinct_iff)
  have eq: "from_response L (raw\<lparr>raw_keys := ks\<rparr>) now pin = from_response L raw now pin"
    if "distinct (map key_id (raw_keys raw))"
    using from_response_permuted [OF assms that] .
  have "distinct (map key_id (raw_keys raw))"
    if "from_response L (raw\<lparr>raw_keys := ks\<rparr>) now pin = Inr b \<or> from_response L raw now pin = Inr b" for b
    using that from_response_distinct [of L "raw\<lparr>raw_keys := ks\<rparr>" now pin b]
      from_response_distinct [of L raw now pin b] same by auto
  with eq show ?thesis by metis
qed

section \<open>What is rendered\<close>

text \<open>
  What the code relies on from the crates it calls: \<open>ssh_key\<close> accepts an Ed25519 line only
  if it starts with the algorithm name and a padded base64 blob, and \<open>hex\<close> writes
  hexadecimal digits.
\<close>

definition ssh_lines_ok :: "libs \<Rightarrow> bool" where
  "ssh_lines_ok L \<longleftrightarrow> (\<forall>s k. lib_ssh_public L s = Some k \<and> spk_algorithm k = AlgEd25519
     \<longrightarrow> (\<exists>blob rest. split_whitespace s = lit ''ssh-ed25519'' # blob # rest \<and> base64_string blob))"

definition hex_ok :: "libs \<Rightarrow> bool" where
  "hex_ok L \<longleftrightarrow> (\<forall>b. \<forall>c \<in> set (lib_hex L b). is_ascii_alphanumeric c)"

definition trusted_key :: "ca_bundle_key \<Rightarrow> ca_public_key" where
  "trusted_key k = \<lparr>ca_algorithm = lit ''ssh-ed25519'',
     ca_key_data = (case key_material (public_key k) of Some (_, blob) \<Rightarrow> blob | None \<Rightarrow> []),
     ca_comment = Some (lit ''mayfly:'' @ key_id k)\<rparr>"

lemma base64_graphic: "base64_string s \<Longrightarrow> c \<in> set s \<Longrightarrow> is_ascii_graphic c"
  using base64_string_char [of s c]
  by (auto simp: base64_char_def is_ascii_alphanumeric_def is_ascii_digit_def is_ascii_graphic_def)

lemma render_key_line_parse:
  assumes "ssh_lines_ok L" and "good_key L k"
  shows "ca_public_key_parse (render_key_line k) = Inr (trusted_key k)"
    and "\<forall>c \<in> set (render_key_line k). \<not> is_control c" and "hd (render_key_line k) = 115"
proof -
  from assms obtain blob rest where toks: "split_whitespace (public_key k) = lit ''ssh-ed25519'' # blob # rest"
      and b64: "base64_string blob"
    by (auto simp: ssh_lines_ok_def good_key_def ed25519_line_def split: option.splits)
  have line: "render_key_line k = lit ''ssh-ed25519'' @ 32 # blob @ 32 # (lit ''mayfly:'' @ key_id k)"
    using toks by (simp add: render_key_line_def lit_def)
  have key: "trusted_key k = \<lparr>ca_algorithm = lit ''ssh-ed25519'', ca_key_data = blob,
      ca_comment = Some (lit ''mayfly:'' @ key_id k)\<rparr>"
    using toks by (simp add: trusted_key_def key_material_def)
  have graphic: "\<forall>x \<in> set (lit ''mayfly:'' @ key_id k). is_ascii_graphic x"
    using assms(2) by (auto simp: good_key_def good_key_id_def lit_def is_ascii_graphic_def)
  show parse: "ca_public_key_parse (render_key_line k) = Inr (trusted_key k)"
    unfolding line key using b64 graphic base64_graphic
    by (intro parse_rendered) (auto simp: ALLOWED_ALGORITHMS_def valid_base64_if)
  show "\<forall>c \<in> set (render_key_line k). \<not> is_control c"
    using parse_sound [OF parse] by (simp add: key_line_def)
  show "hd (render_key_line k) = 115" by (simp add: line lit_def)
qed

lemma trim_hd: "\<not> is_whitespace c \<Longrightarrow> \<exists>t. trim (c # s) = c # t"
  by (auto simp: trim_def trim_start_def trim_end_def dropWhile_append intro: exI [of _ "rev (dropWhile is_whitespace (rev s))"])

lemma lines_concat:
  assumes "\<forall>l \<in> set ls. \<forall>c \<in> set l. \<not> is_control c"
  shows "lines (concat (map (\<lambda>l. l @ [10]) ls)) = ls"
  using assms
proof (induction ls)
  case (Cons l ls)
  then have "10 \<notin> set l" "13 \<notin> set l" by (auto simp: is_control_def)
  with lines_Cons [of l "concat (map (\<lambda>l. l @ [10]) ls)"] Cons show ?case by simp
qed simp

lemma parse_lines_comments:
  assumes "\<forall>l \<in> set hs. l \<noteq> [] \<and> hd l = 35"
  shows "parse_lines (hs @ ls) = parse_lines ls"
  using assms
proof (induction hs)
  case (Cons h hs)
  then obtain t where h: "h = 35 # t" by (cases h) auto
  have "\<not> is_whitespace 35" by (simp add: is_whitespace_def)
  with trim_hd [of 35 t] h obtain t' where "trim h = 35 # t'" by blast
  with Cons show ?case by (simp add: Let_def)
qed simp

lemma parse_lines_all:
  assumes "\<And>k. k \<in> set ks \<Longrightarrow> ca_public_key_parse (f k) = Inr (g k) \<and> f k \<noteq> [] \<and> hd (f k) = 115"
  shows "parse_lines (map f ks) = Inr (map g ks)"
  using assms
proof (induction ks)
  case (Cons k ks)
  then have k: "ca_public_key_parse (f k) = Inr (g k)" "f k \<noteq> []" "hd (f k) = 115" by auto
  have "\<not> is_whitespace 115" by (simp add: is_whitespace_def)
  then obtain t where "trim (f k) = 115 # t" using trim_hd [of 115 "tl (f k)"] k(2,3) by (cases "f k") auto
  with k(1) Cons show ?case by (simp add: Let_def)
qed simp

definition header_lines :: "ca_bundle \<Rightarrow> str list" where
  "header_lines b =
     [lit ''# Managed by mayfly-agent. DO NOT EDIT.'', lit ''# bundle_version: '' @ show_u32 (bundle_version b),
      lit ''# generation: '' @ show_u64 (generation b), lit ''# fingerprint: '' @ fingerprint b]"

lemma render_lines:
  "render_trusted_user_ca_keys b =
     concat (map (\<lambda>l. l @ [10]) (header_lines b @ map render_key_line (bundle_keys b)))"
  by (simp add: render_trusted_user_ca_keys_def header_lines_def comp_def)

lemma plain_lit: "list_all (\<lambda>c. \<not> is_control (of_char c)) s \<Longrightarrow> c \<in> set (lit s) \<Longrightarrow> \<not> is_control c"
  by (auto simp: lit_def list_all_iff)

lemma plain_show: "c \<in> set (show_nat n) \<Longrightarrow> \<not> is_control c"
  using show_nat_set [of c n] by (auto simp: is_control_def)

lemma header_plain:
  assumes "hex_ok L" and "fingerprint b = compute_fingerprint L g ks" and "l \<in> set (header_lines b)" and "c \<in> set l"
  shows "\<not> is_control c"
proof -
  have "\<not> is_control c" if "is_ascii_alphanumeric c" for c
    using that by (auto simp: is_ascii_alphanumeric_def is_ascii_digit_def is_control_def)
  then have "\<forall>c \<in> set (fingerprint b). \<not> is_control c"
    using assms(1,2) by (auto simp: compute_fingerprint_def hex_ok_def FINGERPRINT_PREFIX_def
        dest!: plain_lit [rotated] simp: is_control_def)
  with assms(3,4) show ?thesis
    by (auto simp: header_lines_def show_u32_def show_u64_def dest!: plain_lit [rotated] plain_show
        simp: is_control_def)
qed

lemma rendered_parses:
  assumes "ssh_lines_ok L" and "hex_ok L" and "from_response L raw now pin = Inr b"
  shows "trusted_ca_keys_parse (render_trusted_user_ca_keys b) = Inr (map trusted_key (bundle_keys b))"
proof -
  have wf: "well_formed L raw now" and b: "b = bundle_of L raw"
    using assms(3) from_response_split [OF refl, of L raw now pin] check_content_iff [of L raw now b] by auto
  then have good: "good_key L k" if "k \<in> set (bundle_keys b)" for k
    using that by (auto simp: well_formed_def bundle_of_def)
  note keys = render_key_line_parse [OF assms(1) good]
  have plain: "\<forall>l \<in> set (header_lines b @ map render_key_line (bundle_keys b)). \<forall>c \<in> set l. \<not> is_control c"
  proof -
    have "fingerprint b = compute_fingerprint L (unwrap_or (raw_generation raw) 0) (raw_keys raw)"
      using b by (simp add: bundle_of_def)
    from header_plain [OF assms(2) this] keys(2) show ?thesis by auto
  qed
  have ne: "render_key_line k \<noteq> []" for k by (simp add: render_key_line_def Let_def)
  have "trusted_ca_keys_parse (render_trusted_user_ca_keys b)
      = parse_lines (header_lines b @ map render_key_line (bundle_keys b))"
    by (simp add: trusted_ca_keys_parse_def render_lines lines_concat [OF plain] del: map_append concat_append)
  also have "\<dots> = parse_lines (map render_key_line (bundle_keys b))"
    by (rule parse_lines_comments) (auto simp: header_lines_def lit_def)
  also have "\<dots> = Inr (map trusted_key (bundle_keys b))"
    using keys(1,3) ne by (intro parse_lines_all) auto
  finally show ?thesis .
qed

text \<open>
  C30. What the agent renders, the structural parser reads back: for every bundle the gate
  accepts, the rendered \<open>TrustedUserCAKeys\<close> file parses to exactly the accepted keys, in the
  order of their identifiers, each with its blob and the comment \<open>mayfly:<key_id>\<close>; no
  key identifier or key line of the server can add, drop or change an entry.
\<close>

theorem rendered_bundle_parses:
  assumes "ssh_lines_ok L" and "hex_ok L" and "from_response L raw now pin = Inr b"
  shows "trusted_ca_keys_parse (render_trusted_user_ca_keys b) = Inr (map trusted_key (bundle_keys b))"
  using assms by (rule rendered_parses)

section \<open>A concrete response\<close>

definition sample_key :: str where
  "sample_key = lit ''ssh-ed25519 AAAA''"

definition sample_response :: ca_bundle_response where
  "sample_response =
     \<lparr>raw_bundle_version = Some 1, raw_generation = Some 7, raw_fingerprint = Some (lit ''sha256:00''),
      raw_created_at = Some (lit ''1''), raw_expires_at = Some (lit ''9''),
      raw_keys = [\<lparr>key_id = lit ''ca-01'', public_key = sample_key\<rparr>],
      raw_signature_algorithm = Some (lit ''ssh-ed25519''), raw_signature = Some (lit ''AA''),
      raw_bundle_signing_public_key = Some sample_key\<rparr>"

lemma sample_key_tokens: "split_whitespace sample_key = [lit ''ssh-ed25519'', lit ''AAAA'']"
  by (simp add: sample_key_def lit_def split_whitespace_def is_whitespace_def)

lemma sample_key_ok: "ed25519_line sample_libs sample_key" "trim sample_key = sample_key"
    "key_material sample_key = Some (lit ''ssh-ed25519'', lit ''AAAA'')"
  by (simp_all add: ed25519_line_def sample_libs_def sample_key_tokens key_material_def)
     (simp_all add: sample_key_def lit_def is_control_def trim_def trim_start_def trim_end_def is_whitespace_def)

lemma sample_libs_ok: "ssh_lines_ok sample_libs" "hex_ok sample_libs"
proof -
  have "base64_string (lit ''AAAA'')"
    unfolding base64_string_def
    by (intro exI [of _ "lit ''AAAA''"] exI [of _ 0])
       (simp add: lit_def base64_char_def is_ascii_alphanumeric_def)
  then show "ssh_lines_ok sample_libs"
    by (auto simp: ssh_lines_ok_def sample_libs_def split: if_splits)
  show "hex_ok sample_libs"
    by (simp add: hex_ok_def sample_libs_def lit_def is_ascii_alphanumeric_def is_ascii_digit_def)
qed

lemma sample_authentic: "authentic sample_libs sample_response (Some sample_key)"
proof -
  have "trim (lit ''sha256:00'') \<noteq> []"
    by (simp add: trim_eq_Nil lit_def is_whitespace_def)
  moreover have "sample_key \<noteq> []" by (simp add: sample_key_def lit_def)
  ultimately show ?thesis
    using sample_key_ok
    by (simp add: authentic_def sample_response_def public_keys_equal_def signed_by_def)
       (simp add: sample_libs_def sample_key_tokens)
qed

lemma sample_accepted:
  "from_response sample_libs sample_response (2 * 10 ^ 9) (Some sample_key)
     = Inr (bundle_of sample_libs sample_response)"
proof -
  have fp: "compute_fingerprint sample_libs g ks = lit ''sha256:00''" for g ks
    by (simp add: compute_fingerprint_def sample_libs_def FINGERPRINT_PREFIX_def lit_def)
  have "good_key sample_libs \<lparr>key_id = lit ''ca-01'', public_key = sample_key\<rparr>"
    using sample_key_ok by (simp add: good_key_def good_key_id_def lit_def is_ascii_graphic_def)
  moreover have "lib_rfc3339_parse sample_libs (lit ''1'') = Some (10 ^ 9)"
      "lib_rfc3339_parse sample_libs (lit ''9'') = Some (9 * 10 ^ 9)"
    by (simp_all add: sample_libs_def parse_u64_def dec_val_def lit_def is_ascii_digit_def)
  ultimately have "well_formed sample_libs sample_response (2 * 10 ^ 9)"
    by (simp add: well_formed_def sample_response_def fp)
  then show ?thesis
    using from_response_split [OF refl, of sample_libs sample_response "2 * 10 ^ 9" "Some sample_key"]
      check_content_iff sample_authentic by metis
qed

theorem from_response_authenticates_first_witness:
  "from_response sample_libs sample_response 0 (Some sample_key) = from_response sample_libs sample_response 0 None"
  using from_response_authenticates_first [of sample_libs sample_response 0 "Some sample_key"] sample_authentic
  by blast

theorem canonical_signing_payload_unambiguous_witness:
  "canonical_signing_payload 1 7 (lit ''f'') (lit ''c'') (lit ''x'')
       [\<lparr>key_id = lit ''b'', public_key = []\<rparr>, \<lparr>key_id = lit ''a'', public_key = []\<rparr>]
     = canonical_signing_payload 1 7 (lit ''f'') (lit ''c'') (lit ''x'')
       [\<lparr>key_id = lit ''a'', public_key = []\<rparr>, \<lparr>key_id = lit ''b'', public_key = []\<rparr>]
   \<and> mset [\<lparr>key_id = lit ''b'', public_key = []\<rparr>, \<lparr>key_id = lit ''a'', public_key = [] :: str\<rparr>]
     = mset [\<lparr>key_id = lit ''a'', public_key = []\<rparr>, \<lparr>key_id = lit ''b'', public_key = []\<rparr>]"
proof -
  have "sort_key key_id [\<lparr>key_id = lit ''b'', public_key = []\<rparr>, \<lparr>key_id = lit ''a'', public_key = []\<rparr>]
      = sort_key key_id [\<lparr>key_id = lit ''a'', public_key = []\<rparr>, \<lparr>key_id = lit ''b'', public_key = []\<rparr>]"
    by (simp add: lit_def)
  then have "canonical_signing_payload 1 7 (lit ''f'') (lit ''c'') (lit ''x'')
       [\<lparr>key_id = lit ''b'', public_key = []\<rparr>, \<lparr>key_id = lit ''a'', public_key = []\<rparr>]
     = canonical_signing_payload 1 7 (lit ''f'') (lit ''c'') (lit ''x'')
       [\<lparr>key_id = lit ''a'', public_key = []\<rparr>, \<lparr>key_id = lit ''b'', public_key = []\<rparr>]"
    unfolding canonical_signing_payload_eq by blast
  with canonical_signing_payload_unambiguous [OF this] show ?thesis by blast
qed

theorem from_response_order_independent_witness:
  "from_response sample_libs (sample_response\<lparr>raw_keys :=
       [\<lparr>key_id = lit ''b'', public_key = sample_key\<rparr>, \<lparr>key_id = lit ''a'', public_key = lit ''k''\<rparr>]\<rparr>) 0 None
   = from_response sample_libs (sample_response\<lparr>raw_keys :=
       [\<lparr>key_id = lit ''a'', public_key = lit ''k''\<rparr>, \<lparr>key_id = lit ''b'', public_key = sample_key\<rparr>]\<rparr>) 0 None"
  using from_response_order_independent
    [of "[\<lparr>key_id = lit ''b'', public_key = sample_key\<rparr>, \<lparr>key_id = lit ''a'', public_key = lit ''k''\<rparr>]"
      "sample_response\<lparr>raw_keys := [\<lparr>key_id = lit ''a'', public_key = lit ''k''\<rparr>,
          \<lparr>key_id = lit ''b'', public_key = sample_key\<rparr>]\<rparr>" sample_libs 0 None]
  by simp

theorem rendered_bundle_parses_witness:
  "trusted_ca_keys_parse (render_trusted_user_ca_keys (bundle_of sample_libs sample_response))
     = Inr (map trusted_key (bundle_keys (bundle_of sample_libs sample_response)))"
  by (rule rendered_bundle_parses [OF sample_libs_ok sample_accepted])

end
