(* ===== verification/Signing.thy ===== *)
theory Signing
  imports Keypair
begin

text \<open>
  \<open>src/protocol/signing.rs\<close>: the canonical string of a request and its signature. The
  string joins its seven fields with line feeds; the lemmas show that it determines every
  field, the machine identifier whatever it is, as long as none of the fields after the time
  holds a line feed.
\<close>

section \<open>Definitions\<close>

definition SIGNING_DOMAIN :: str where
  "SIGNING_DOMAIN = lit ''mayfly-agent-auth-v1''"

definition HEADER_MACHINE_ID :: str where
  "HEADER_MACHINE_ID = lit ''X-Mayfly-Machine-Id''"

definition HEADER_TIMESTAMP :: str where
  "HEADER_TIMESTAMP = lit ''X-Mayfly-Timestamp''"

definition HEADER_NONCE :: str where
  "HEADER_NONCE = lit ''X-Mayfly-Nonce''"

definition HEADER_SIGNATURE :: str where
  "HEADER_SIGNATURE = lit ''X-Mayfly-Signature''"

definition NONCE_BYTES :: nat where
  "NONCE_BYTES = 16"

definition body_sha256_hex :: "libs \<Rightarrow> bytes \<Rightarrow> str" where
  "body_sha256_hex L body = lib_hex L (lib_sha256 L body)"

definition canonical_string :: "str \<Rightarrow> int \<Rightarrow> str \<Rightarrow> str \<Rightarrow> str \<Rightarrow> str \<Rightarrow> str" where
  "canonical_string machine_id timestamp nonce meth path body_hash_hex =
     SIGNING_DOMAIN @ [10] @ machine_id @ [10] @ show_int timestamp @ [10] @ nonce @ [10]
     @ meth @ [10] @ path @ [10] @ body_hash_hex"

definition generate_nonce :: "libs \<Rightarrow> world \<Rightarrow> str \<times> world" where
  "generate_nonce L w = (case random_bytes NONCE_BYTES w of (bs, w') \<Rightarrow> (lib_hex L bs, w'))"

record signed_headers =
  sh_machine_id :: str
  sh_timestamp :: int
  sh_nonce :: str
  sh_signature :: str

text \<open>The fields \<open>Debug\<close> prints, by name.\<close>

definition signed_headers_debug :: "signed_headers \<Rightarrow> (str \<times> str) list" where
  "signed_headers_debug sg =
     [(lit ''machine_id'', sh_machine_id sg), (lit ''timestamp'', show_int (sh_timestamp sg)),
      (lit ''nonce'', sh_nonce sg), (lit ''signature'', lit ''<redacted>'')]"

definition sign_request ::
    "libs \<Rightarrow> machine_keypair \<Rightarrow> str \<Rightarrow> int \<Rightarrow> str \<Rightarrow> str \<Rightarrow> str \<Rightarrow> bytes \<Rightarrow> signed_headers res" where
  "sign_request L kp machine_id timestamp nonce meth path body =
     (let body_hash = body_sha256_hex L body;
          canonical = canonical_string machine_id timestamp nonce meth path body_hash
      in bind_res (map_err (\<lambda>_. RequestSigning) (keypair_sign L kp (utf8 canonical))) (\<lambda>signature.
         Inr \<lparr>sh_machine_id = machine_id, sh_timestamp = timestamp, sh_nonce = nonce,
              sh_signature = lib_b64_encode L signature\<rparr>))"

text \<open>\<open>OffsetDateTime::unix_timestamp\<close>: whole seconds.\<close>

definition unix_timestamp :: "int \<Rightarrow> int" where
  "unix_timestamp t = t div 1000000000"

text \<open>A look at the clock as a step that cannot fail.\<close>

definition now_io :: "('e, int) comp" where
  "now_io w = (case clock_now w of (t, w') \<Rightarrow> (Inr t, w'))"

lemma keeps_now [intro]: "keeps P Q now_io"
  by (auto simp: keeps_def now_io_def clock_now_def)

section \<open>The canonical string\<close>

lemma split_char_append: "sep \<notin> set a \<Longrightarrow> split_char sep (a @ sep # b) = a # split_char sep b"
  by (induction a) auto

lemma split_char_none: "sep \<notin> set a \<Longrightarrow> split_char sep a = [a]"
  by (induction a) auto

lemma show_int_no_lf: "10 \<notin> set (show_int i)"
  by (auto simp: show_int_def dest: show_nat_set)

lemma show_int_inject [simp]: "show_int a = show_int b \<longleftrightarrow> a = b"
proof -
  have "hd (show_nat n) \<noteq> 45" for n
    using show_nat_set [of "hd (show_nat n)" n] by auto
  then have "45 # s \<noteq> show_nat n" "show_nat n \<noteq> 45 # s" for s n by (metis list.sel(1))+
  then show ?thesis unfolding show_int_def by (auto split: if_splits)
qed

definition no_lf :: "str \<Rightarrow> bool" where
  "no_lf s \<longleftrightarrow> 10 \<notin> set s"

lemma split_char_app: "split_char sep (a @ sep # b) = split_char sep a @ split_char sep b"
  by (induction a) (auto split: list.splits)

lemma canonical_string_split:
  assumes "no_lf n" "no_lf m" "no_lf p" "no_lf h"
  shows "split_char 10 (canonical_string i t n m p h) = SIGNING_DOMAIN # split_char 10 i @ [show_int t, n, m, p, h]"
proof -
  have "10 \<notin> set SIGNING_DOMAIN" by (simp add: SIGNING_DOMAIN_def lit_def)
  then show ?thesis
    using assms show_int_no_lf [of t]
    by (simp add: canonical_string_def no_lf_def split_char_app split_char_none)
qed

text \<open>Whatever the machine identifier is, the other fields are the last five lines.\<close>

lemma canonical_string_inject:
  assumes "no_lf n" "no_lf m" "no_lf p" "no_lf h" and "no_lf n'" "no_lf m'" "no_lf p'" "no_lf h'"
    and "canonical_string i t n m p h = canonical_string i' t' n' m' p' h'"
  shows "i = i' \<and> t = t' \<and> n = n' \<and> m = m' \<and> p = p' \<and> h = h'"
proof -
  from canonical_string_split [OF assms(1-4), of i t] canonical_string_split [OF assms(5-8), of i' t'] assms(9)
  have "split_char 10 i @ [show_int t, n, m, p, h] = split_char 10 i' @ [show_int t', n', m', p', h']" by simp
  then have "split_char 10 i = split_char 10 i'" "t = t' \<and> n = n' \<and> m = m' \<and> p = p' \<and> h = h'" by simp_all
  then show ?thesis using join_split_char by metis
qed

lemma sign_request_Inr:
  "sign_request L kp i t n m p body = Inr h \<longleftrightarrow> (\<exists>seed. prk_data (mk_key kp) = KdEd25519 seed
     \<and> h = \<lparr>sh_machine_id = i, sh_timestamp = t, sh_nonce = n,
            sh_signature = lib_b64_encode L (lib_ed25519_sign L seed
              (utf8 (canonical_string i t n m p (body_sha256_hex L body))))\<rparr>)"
  by (auto simp: sign_request_def Let_def bind_res_eq_Inr keypair_sign_Inr)

lemma sign_request_Inl: "sign_request L kp i t n m p body = Inl e \<Longrightarrow> e = RequestSigning"
  by (auto simp: sign_request_def Let_def bind_res_eq_Inl map_err_def split: sum.splits)

lemma generate_nonce_frame: "generate_nonce L w = (n, w') \<Longrightarrow> w' = advance w"
  by (auto simp: generate_nonce_def random_bytes_def)

end
