(* ===== verification/Heartbeat.thy ===== *)
theory Heartbeat
  imports Signing
begin

text \<open>
  \<open>src/protocol/heartbeat.rs\<close>: one signed heartbeat. JSON encoding and decoding
  (\<open>serde_json\<close>) are arguments; the transport is the HTTP exchange of the world, whose
  failures of any kind are the transport error, as in the source.
\<close>

section \<open>Definitions\<close>

definition HEARTBEAT_PATH :: str where
  "HEARTBEAT_PATH = lit ''/api/v1/agent/heartbeat''"

definition MIN_NEXT_HEARTBEAT_SECS :: u64 where
  "MIN_NEXT_HEARTBEAT_SECS = 1"

definition MAX_NEXT_HEARTBEAT_SECS :: u64 where
  "MAX_NEXT_HEARTBEAT_SECS = 86400"

record heartbeat_request =
  hb_agent_version :: str
  hb_hostname :: str
  hb_os :: str
  hb_kernel :: str
  hb_ip :: str
  hb_current_generation :: u64
  hb_uptime_seconds :: u64

record heartbeat_response =
  hb_status :: str
  hb_server_time :: str
  hb_next_heartbeat_seconds :: u64

record heartbeat_client =
  hbc_machine_id :: str
  hbc_keypair :: machine_keypair
  hbc_server_url :: str

definition heartbeat_client_new :: "str \<Rightarrow> machine_keypair \<Rightarrow> str \<Rightarrow> heartbeat_client" where
  "heartbeat_client_new machine_id kp server_url =
     \<lparr>hbc_machine_id = machine_id, hbc_keypair = kp, hbc_server_url = server_url\<rparr>"

definition build_headers :: "signed_headers \<Rightarrow> (str \<times> str) list" where
  "build_headers sg =
     [(lit ''content-type'', lit ''application/json''),
      (HEADER_MACHINE_ID, sh_machine_id sg),
      (HEADER_TIMESTAMP, show_int (sh_timestamp sg)),
      (HEADER_NONCE, sh_nonce sg),
      (HEADER_SIGNATURE, sh_signature sg)]"

definition join_url :: "str \<Rightarrow> str \<Rightarrow> str" where
  "join_url base path = trim_end_matches 47 base @ path"

definition is_success :: "u16 \<Rightarrow> bool" where
  "is_success status \<longleftrightarrow> 200 \<le> status \<and> status < 300"

definition validate_response :: "heartbeat_response \<Rightarrow> unit res" where
  "validate_response response =
     (if trim (hb_status response) = [] then Inl InvalidHeartbeatResponse
      else if \<not> (MIN_NEXT_HEARTBEAT_SECS \<le> hb_next_heartbeat_seconds response
                 \<and> hb_next_heartbeat_seconds response \<le> MAX_NEXT_HEARTBEAT_SECS)
        then Inl InvalidHeartbeatResponse
      else if trim (hb_server_time response) = [] then Inl InvalidHeartbeatResponse
      else Inr ())"

definition heartbeat_post :: "http_request \<Rightarrow> http_response io" where
  "heartbeat_post rq = http_exchange POST rq HeartbeatTransport"

definition send_heartbeat ::
    "libs \<Rightarrow> (heartbeat_request \<Rightarrow> bytes option) \<Rightarrow> (bytes \<Rightarrow> heartbeat_response option)
     \<Rightarrow> heartbeat_client \<Rightarrow> heartbeat_request \<Rightarrow> heartbeat_response io" where
  "send_heartbeat L enc dec client request w0 =
     (case enc request of
        None \<Rightarrow> (Inl RequestSigning, w0)
      | Some body \<Rightarrow>
          (case clock_now w0 of (now, w1) \<Rightarrow>
           (case generate_nonce L w1 of (nonce, w2) \<Rightarrow>
             bind_io (lift_res (sign_request L (hbc_keypair client) (hbc_machine_id client)
                 (unix_timestamp now) nonce (lit ''POST'') HEARTBEAT_PATH body)) (\<lambda>sg.
             bind_io (heartbeat_post \<lparr>req_url = join_url (hbc_server_url client) HEARTBEAT_PATH,
                 req_headers = build_headers sg, req_body = body\<rparr>) (\<lambda>response.
             if \<not> is_success (resp_status response) then lift_res (Inl HeartbeatRejected)
             else lift_res (bind_res (ok_or (dec (resp_body response)) InvalidHeartbeatResponse) (\<lambda>parsed.
               bind_res (validate_response parsed) (\<lambda>_. Inr parsed))))) w2)))"

section \<open>Properties\<close>

definition good_heartbeat_response :: "heartbeat_response \<Rightarrow> bool" where
  "good_heartbeat_response r \<longleftrightarrow> trim (hb_status r) \<noteq> [] \<and> trim (hb_server_time r) \<noteq> []
     \<and> 1 \<le> unat (hb_next_heartbeat_seconds r) \<and> unat (hb_next_heartbeat_seconds r) \<le> 86400"

interpretation heartbeat_check: validator validate_response good_heartbeat_response
  by unfold_locales
     (auto simp: validate_response_def good_heartbeat_response_def MIN_NEXT_HEARTBEAT_SECS_def
        MAX_NEXT_HEARTBEAT_SECS_def word_le_nat_alt)

text \<open>The one request a heartbeat may send.\<close>

definition signed_post :: "libs \<Rightarrow> heartbeat_client \<Rightarrow> int \<Rightarrow> str \<Rightarrow> bytes \<Rightarrow> http_request option" where
  "signed_post L client now nonce body =
     (case prk_data (mk_key (hbc_keypair client)) of
        KdEd25519 seed \<Rightarrow> Some \<lparr>req_url = join_url (hbc_server_url client) HEARTBEAT_PATH,
          req_headers = [(lit ''content-type'', lit ''application/json''),
            (lit ''X-Mayfly-Machine-Id'', hbc_machine_id client),
            (lit ''X-Mayfly-Timestamp'', show_int (now div 10 ^ 9)),
            (lit ''X-Mayfly-Nonce'', nonce),
            (lit ''X-Mayfly-Signature'', lib_b64_encode L (lib_ed25519_sign L seed
               (utf8 (canonical_string (hbc_machine_id client) (now div 10 ^ 9) nonce (lit ''POST'')
                  HEARTBEAT_PATH (lib_hex L (lib_sha256 L body))))))],
          req_body = body\<rparr>
      | _ \<Rightarrow> None)"

lemma send_heartbeat_result:
  assumes "send_heartbeat L enc dec client request w = (r, w')"
  shows "fs w' = fs w \<and>
    (case Option.bind (enc request) (signed_post L client (clock w (tick w))
            (lib_hex L (os_random w (Suc (tick w)) 16))) of
       None \<Rightarrow> trace w' = trace w \<and> r = Inl RequestSigning
     | Some rq \<Rightarrow> trace w' = trace w @ [Sent POST rq] \<and>
        r = (case http w (Suc (Suc (tick w))) POST rq of
               None \<Rightarrow> Inl HeartbeatTransport
             | Some resp \<Rightarrow>
                 if \<not> (200 \<le> unat (resp_status resp) \<and> unat (resp_status resp) < 300) then Inl HeartbeatRejected
                 else (case dec (resp_body resp) of
                         Some parsed \<Rightarrow> if good_heartbeat_response parsed then Inr parsed
                                        else Inl InvalidHeartbeatResponse
                       | None \<Rightarrow> Inl InvalidHeartbeatResponse)))"
proof -
  have verr: "validate_response x = Inl e \<Longrightarrow> e = InvalidHeartbeatResponse" for x e
    by (auto simp: validate_response_def split: if_splits)
  have vres: "bind_res (validate_response x) (\<lambda>_. Inr x) =
      (if good_heartbeat_response x then Inr x else Inl InvalidHeartbeatResponse)" for x
    using heartbeat_check.check_iff [of x] verr [of x] by (cases "validate_response x") auto
  have succ: "is_success s \<longleftrightarrow> 200 \<le> unat s \<and> unat s < 300" for s
    by (simp add: is_success_def word_le_nat_alt word_less_nat_alt)
  show ?thesis
    using assms unfolding send_heartbeat_def
    by (auto simp: clock_now_def generate_nonce_def random_bytes_def NONCE_BYTES_def bind_io_def
        sign_request_def keypair_sign_def signed_post_def build_headers_def heartbeat_post_def http_exchange_def
        vres succ unix_timestamp_def body_sha256_hex_def Let_def HEADER_MACHINE_ID_def HEADER_TIMESTAMP_def
        HEADER_NONCE_def HEADER_SIGNATURE_def
        split: option.splits keypair_data.splits if_splits)
qed

text \<open>
  C33. A heartbeat sends at most one request and touches no file. A request is sent exactly
  when the body can be encoded and the key can sign; it carries the body that was signed. The
  result is a response only if the server answered that request with a 2xx status and a
  body that decodes to a response within the allowed range.
\<close>

theorem send_heartbeat_correct:
  "\<exists>r w'. send_heartbeat L enc dec client request w = (r, w') \<and> fs w' = fs w \<and>
    (case Option.bind (enc request) (signed_post L client (clock w (tick w))
            (lib_hex L (os_random w (Suc (tick w)) 16))) of
       None \<Rightarrow> trace w' = trace w \<and> r = Inl RequestSigning
     | Some rq \<Rightarrow> trace w' = trace w @ [Sent POST rq] \<and>
        r = (case http w (Suc (Suc (tick w))) POST rq of
               None \<Rightarrow> Inl HeartbeatTransport
             | Some resp \<Rightarrow>
                 if \<not> (200 \<le> unat (resp_status resp) \<and> unat (resp_status resp) < 300) then Inl HeartbeatRejected
                 else (case dec (resp_body resp) of
                         Some parsed \<Rightarrow> if good_heartbeat_response parsed then Inr parsed
                                        else Inl InvalidHeartbeatResponse
                       | None \<Rightarrow> Inl InvalidHeartbeatResponse)))"
proof -
  obtain r w' where "send_heartbeat L enc dec client request w = (r, w')" by fastforce
  then show ?thesis using send_heartbeat_result by blast
qed

end
