(* ===== verification/Ca_Sync.thy ===== *)
theory Ca_Sync
  imports Ca_Bundle Heartbeat
begin

text \<open>
  \<open>src/protocol/ca_sync.rs\<close>: one synchronisation pass. \<open>synchronize\<close> is the whole method
  with every read, request and write in the order of the source. The privileged side is the
  port \<open>BundleApplier\<close>: an argument here, with its contract as the locale
  \<open>bundle_applier\<close>, provided by the helper client in the theory \<open>Ipc_Client\<close>.
\<close>

section \<open>Definitions\<close>

definition STATUS_NOT_MODIFIED :: u16 where
  "STATUS_NOT_MODIFIED = 304"

datatype bundle_apply_outcome = BundleApplied | BundleRolledBack

definition ACK_STATUS_APPLIED :: str where
  "ACK_STATUS_APPLIED = lit ''applied''"

definition ACK_STATUS_ROLLBACK :: str where
  "ACK_STATUS_ROLLBACK = lit ''rollback''"

definition ACK_ROLLBACK_REASON :: str where
  "ACK_ROLLBACK_REASON = lit ''sshd apply failed; previous bundle restored''"

record ack_report =
  ack_generation :: u64
  ack_fingerprint :: str
  ack_status :: str
  ack_reason :: "str option"

datatype sync_outcome =
    SyncNotModified u64
  | SyncUnchanged u64
  | SyncUpdated u64 str bool

datatype apply_result = ApplyApplied | ApplyRolledBack

record persisted_state =
  ps_generation :: "u64 option"
  ps_fingerprint :: "str option"
  ps_signing_key :: "str option"

record ca_sync_service =
  cs_keypair :: machine_keypair
  cs_machine_id :: str
  cs_server_url :: str
  cs_pinned_signing_key :: "str option"
  cs_generation_path :: path
  cs_fingerprint_path :: path
  cs_signing_key_path :: path
  cs_last_sync_path :: path
  cs_last_success_path :: path

text \<open>The transport, the applier and the clock are arguments of the methods.\<close>

definition ca_sync_service_new ::
    "machine_keypair \<Rightarrow> str \<Rightarrow> str \<Rightarrow> str option \<Rightarrow> path \<Rightarrow> path \<Rightarrow> path \<Rightarrow> path \<Rightarrow> path \<Rightarrow> ca_sync_service" where
  "ca_sync_service_new kp machine_id server_url pinned generation_path fingerprint_path signing_key_path
     last_sync_path last_success_path =
     \<lparr>cs_keypair = kp, cs_machine_id = machine_id, cs_server_url = server_url, cs_pinned_signing_key = pinned,
      cs_generation_path = generation_path, cs_fingerprint_path = fingerprint_path,
      cs_signing_key_path = signing_key_path, cs_last_sync_path = last_sync_path,
      cs_last_success_path = last_success_path\<rparr>"

type_synonym applier = "str \<Rightarrow> bundle_apply_outcome io"

definition bundle_get :: "http_request \<Rightarrow> http_response io" where
  "bundle_get rq = http_exchange GET rq CaBundleTransport"

definition bundle_post :: "http_request \<Rightarrow> http_response io" where
  "bundle_post rq = http_exchange POST rq CaBundleTransport"

definition signing_headers :: "signed_headers \<Rightarrow> (str \<times> str) list" where
  "signing_headers sg =
     [(HEADER_MACHINE_ID, sh_machine_id sg), (HEADER_TIMESTAMP, show_int (sh_timestamp sg)),
      (HEADER_NONCE, sh_nonce sg), (HEADER_SIGNATURE, sh_signature sg)]"

definition nonce_io :: "libs \<Rightarrow> ('e, str) comp" where
  "nonce_io L w = (case generate_nonce L w of (n, w') \<Rightarrow> (Inr n, w'))"

definition read_optional :: "path \<Rightarrow> bytes option io" where
  "read_optional p w =
     (case sys_read (components p) w of
        (Inr bs, w') \<Rightarrow> (Inr (Some bs), w')
      | (Inl e, w') \<Rightarrow> (if ioe_kind e = NotFound then (Inr None, w') else (Inl (Io e), w')))"

definition read_optional_string :: "path \<Rightarrow> str option io" where
  "read_optional_string p =
     bind_io (read_optional p) (\<lambda>x.
       case x of
         None \<Rightarrow> return_io None
       | Some bs \<Rightarrow>
           bind_io (lift_res (ok_or (from_utf8 bs) MachineRecordInvalid)) (\<lambda>text.
             let trimmed = trim text
             in if trimmed = [] then return_io None else return_io (Some trimmed)))"

definition read_generation :: "ca_sync_service \<Rightarrow> u64 option io" where
  "read_generation svc =
     bind_io (read_optional_string (cs_generation_path svc)) (\<lambda>x.
       case x of
         None \<Rightarrow> return_io None
       | Some text \<Rightarrow>
           bind_io (lift_res (ok_or (parse_u64 (trim text)) MachineRecordInvalid)) (\<lambda>v. return_io (Some v)))"

definition load_state :: "ca_sync_service \<Rightarrow> persisted_state io" where
  "load_state svc =
     bind_io (read_generation svc) (\<lambda>g.
     bind_io (read_optional_string (cs_fingerprint_path svc)) (\<lambda>f.
     bind_io (read_optional_string (cs_signing_key_path svc)) (\<lambda>k.
     return_io \<lparr>ps_generation = g, ps_fingerprint = f, ps_signing_key = k\<rparr>)))"

definition write_generation :: "ca_sync_service \<Rightarrow> u64 \<Rightarrow> unit io" where
  "write_generation svc gen = secure_write (cs_generation_path svc) (utf8 (show_u64 gen @ [10])) MODE_PUBLIC"

definition write_fingerprint :: "ca_sync_service \<Rightarrow> str \<Rightarrow> unit io" where
  "write_fingerprint svc fpr = secure_write (cs_fingerprint_path svc) (utf8 (fpr @ [10])) MODE_PUBLIC"

definition write_timestamp :: "libs \<Rightarrow> path \<Rightarrow> unit io" where
  "write_timestamp L p =
     bind_io now_io (\<lambda>now.
     bind_io (lift_res (ok_or (lib_rfc3339_format L now) MachineRecordInvalid)) (\<lambda>stamp.
     secure_write p (utf8 (stamp @ [10])) MODE_PUBLIC))"

definition sync_sign :: "libs \<Rightarrow> ca_sync_service \<Rightarrow> str \<Rightarrow> str \<Rightarrow> bytes \<Rightarrow> signed_headers io" where
  "sync_sign L svc meth path body =
     bind_io now_io (\<lambda>now.
     bind_io (nonce_io L) (\<lambda>nonce.
     lift_res (sign_request L (cs_keypair svc) (cs_machine_id svc) (unix_timestamp now) nonce meth path body)))"

definition fetch_bundle :: "libs \<Rightarrow> ca_sync_service \<Rightarrow> str option \<Rightarrow> http_response io" where
  "fetch_bundle L svc current_fingerprint =
     bind_io (sync_sign L svc (lit ''GET'') CA_BUNDLE_PATH []) (\<lambda>sg.
     let headers = signing_headers sg
           @ (case current_fingerprint of
                Some f \<Rightarrow> [(HEADER_IF_NONE_MATCH, [34] @ f @ [34])]
              | None \<Rightarrow> [])
     in bundle_get \<lparr>req_url = join_url (cs_server_url svc) CA_BUNDLE_PATH, req_headers = headers, req_body = []\<rparr>)"

definition try_acknowledge ::
    "libs \<Rightarrow> (ack_report \<Rightarrow> bytes option) \<Rightarrow> ca_sync_service \<Rightarrow> ack_report \<Rightarrow> unit io" where
  "try_acknowledge L enc svc report =
     bind_io (lift_res (ok_or (enc report) RequestSigning)) (\<lambda>body.
     bind_io (sync_sign L svc (lit ''POST'') CA_BUNDLE_ACK_PATH body) (\<lambda>sg.
     bind_io (bundle_post \<lparr>req_url = join_url (cs_server_url svc) CA_BUNDLE_ACK_PATH,
         req_headers = signing_headers sg @ [(lit ''content-type'', lit ''application/json'')],
         req_body = body\<rparr>) (\<lambda>response.
     lift_res (if \<not> is_success (resp_status response) then Inl CaBundleRejected else Inr ()))))"

definition acknowledge ::
    "libs \<Rightarrow> (ack_report \<Rightarrow> bytes option) \<Rightarrow> ca_sync_service \<Rightarrow> ack_report \<Rightarrow> bool io" where
  "acknowledge L enc svc report w =
     (case try_acknowledge L enc svc report w of
        (Inr _, w') \<Rightarrow> (Inr True, w')
      | (Inl _, w') \<Rightarrow> (Inr False, w'))"

definition expected_signing_key :: "ca_sync_service \<Rightarrow> persisted_state \<Rightarrow> str option" where
  "expected_signing_key svc persisted =
     (case cs_pinned_signing_key svc of Some k \<Rightarrow> Some k | None \<Rightarrow> ps_signing_key persisted)"

definition persist_pin_if_needed :: "ca_sync_service \<Rightarrow> ca_bundle \<Rightarrow> unit io" where
  "persist_pin_if_needed svc bundle =
     (if cs_pinned_signing_key svc \<noteq> None then return_io ()
      else bind_io (read_optional (cs_signing_key_path svc)) (\<lambda>x.
        if x \<noteq> None then return_io ()
        else secure_write (cs_signing_key_path svc) (utf8 (signing_public_key bundle @ [10])) MODE_PUBLIC))"

definition persist_after_apply :: "libs \<Rightarrow> ca_sync_service \<Rightarrow> ca_bundle \<Rightarrow> unit io" where
  "persist_after_apply L svc bundle =
     bind_io (write_generation svc (generation bundle)) (\<lambda>_.
     bind_io (write_fingerprint svc (fingerprint bundle)) (\<lambda>_.
     bind_io (persist_pin_if_needed svc bundle) (\<lambda>_.
     write_timestamp L (cs_last_success_path svc))))"

definition sync_apply :: "applier \<Rightarrow> ca_bundle \<Rightarrow> apply_result io" where
  "sync_apply A bundle =
     (let contents = render_trusted_user_ca_keys bundle
      in bind_io (lift_res (trusted_ca_keys_parse contents)) (\<lambda>_.
         bind_io (A contents) (\<lambda>out.
         return_io (case out of BundleApplied \<Rightarrow> ApplyApplied | BundleRolledBack \<Rightarrow> ApplyRolledBack))))"

definition sync_finish ::
    "libs \<Rightarrow> (ack_report \<Rightarrow> bytes option) \<Rightarrow> applier \<Rightarrow> ca_sync_service \<Rightarrow> ca_bundle \<Rightarrow> sync_outcome io" where
  "sync_finish L enc A svc bundle =
     bind_io (sync_apply A bundle) (\<lambda>result.
       case result of
         ApplyApplied \<Rightarrow>
           bind_io (persist_after_apply L svc bundle) (\<lambda>_.
           bind_io (acknowledge L enc svc
               \<lparr>ack_generation = generation bundle, ack_fingerprint = fingerprint bundle,
                ack_status = ACK_STATUS_APPLIED, ack_reason = None\<rparr>) (\<lambda>acknowledged.
           return_io (SyncUpdated (generation bundle) (fingerprint bundle) acknowledged)))
       | ApplyRolledBack \<Rightarrow>
           bind_io (acknowledge L enc svc
               \<lparr>ack_generation = generation bundle, ack_fingerprint = fingerprint bundle,
                ack_status = ACK_STATUS_ROLLBACK, ack_reason = Some ACK_ROLLBACK_REASON\<rparr>) (\<lambda>_.
           lift_res (Inl CaReloadFailed)))"

text \<open>The part of a pass after the server has answered.\<close>

definition sync_respond ::
    "libs \<Rightarrow> (bytes \<Rightarrow> ca_bundle_response option) \<Rightarrow> (ack_report \<Rightarrow> bytes option) \<Rightarrow> applier
     \<Rightarrow> ca_sync_service \<Rightarrow> persisted_state \<Rightarrow> http_response \<Rightarrow> sync_outcome io" where
  "sync_respond L dec enc A svc persisted response =
     bind_io (write_timestamp L (cs_last_sync_path svc)) (\<lambda>_.
     if resp_status response = STATUS_NOT_MODIFIED then
       bind_io (write_timestamp L (cs_last_success_path svc)) (\<lambda>_.
       return_io (SyncNotModified (unwrap_or (ps_generation persisted) 0)))
     else if \<not> is_success (resp_status response) then lift_res (Inl CaBundleRejected)
     else
       bind_io (lift_res (bundle_from_json dec (resp_body response))) (\<lambda>raw.
       bind_io now_io (\<lambda>now.
       bind_io (lift_res (map_err InvalidCaBundle
           (from_response L raw now (expected_signing_key svc persisted)))) (\<lambda>bundle.
       if (case ps_generation persisted of Some prev \<Rightarrow> generation bundle < prev | None \<Rightarrow> False)
       then lift_res (Inl (InvalidCaBundle GenerationRegressed))
       else if ps_generation persisted = Some (generation bundle)
               \<and> ps_fingerprint persisted = Some (fingerprint bundle)
       then bind_io (persist_pin_if_needed svc bundle) (\<lambda>_.
            bind_io (write_timestamp L (cs_last_success_path svc)) (\<lambda>_.
            return_io (SyncUnchanged (generation bundle))))
       else sync_finish L enc A svc bundle))))"

definition synchronize ::
    "libs \<Rightarrow> (bytes \<Rightarrow> ca_bundle_response option) \<Rightarrow> (ack_report \<Rightarrow> bytes option) \<Rightarrow> applier
     \<Rightarrow> ca_sync_service \<Rightarrow> sync_outcome io" where
  "synchronize L dec enc A svc =
     bind_io (load_state svc) (\<lambda>persisted.
     bind_io (fetch_bundle L svc (ps_fingerprint persisted)) (\<lambda>response.
     sync_respond L dec enc A svc persisted response))"

section \<open>What a signature binds\<close>

text \<open>The three requests the agent signs: its heartbeat, the fetch of the bundle and the acknowledgement.\<close>

definition signed_endpoints :: "(str \<times> str) set" where
  "signed_endpoints = {(lit ''POST'', HEARTBEAT_PATH), (lit ''GET'', CA_BUNDLE_PATH), (lit ''POST'', CA_BUNDLE_ACK_PATH)}"

lemma endpoint_no_lf: "(m, p) \<in> signed_endpoints \<Longrightarrow> no_lf m \<and> no_lf p"
  by (auto simp: signed_endpoints_def no_lf_def HEARTBEAT_PATH_def CA_BUNDLE_PATH_def CA_BUNDLE_ACK_PATH_def lit_def)

lemma hex_no_lf: "hex_ok L \<Longrightarrow> no_lf (lib_hex L bs)"
  by (fastforce simp: hex_ok_def no_lf_def is_ascii_alphanumeric_def is_ascii_digit_def)

text \<open>
  C32. What the agent signs determines the request: take two requests of the agent, each to one of its
  three endpoints, with a nonce it has drawn, the hash of a body, any time and any machine
  identifier, be it one that holds line feeds. If they have the same canonical string, they
  agree in machine, time, nonce, method, path and body hash. The hash and the nonce are
  hexadecimal (\<open>hex_ok\<close>).
\<close>

theorem canonical_string_unambiguous:
  assumes "hex_ok L" and "(m, p) \<in> signed_endpoints" and "(m', p') \<in> signed_endpoints"
    and "generate_nonce L w = (n, v)" and "generate_nonce L w' = (n', v')"
    and "canonical_string i t n m p (body_sha256_hex L body) = canonical_string i' t' n' m' p' (body_sha256_hex L body')"
  shows "i = i' \<and> t = t' \<and> n = n' \<and> m = m' \<and> p = p' \<and> body_sha256_hex L body = body_sha256_hex L body'"
proof (rule canonical_string_inject [OF _ _ _ _ _ _ _ _ assms(6)])
  show "no_lf n" "no_lf n'"
    using assms(4,5) hex_no_lf [OF assms(1)] by (auto simp: generate_nonce_def random_bytes_def)
  show "no_lf (body_sha256_hex L body)" "no_lf (body_sha256_hex L body')"
    using hex_no_lf [OF assms(1)] by (simp_all add: body_sha256_hex_def)
qed (use endpoint_no_lf assms(2,3) in blast)+

theorem canonical_string_unambiguous_witness:
  "canonical_string (lit ''m'') 1 (lit ''00'') (lit ''GET'') CA_BUNDLE_PATH (body_sha256_hex sample_libs [])
     \<noteq> canonical_string (lit ''m'') 1 (lit ''00'') (lit ''POST'') HEARTBEAT_PATH (body_sha256_hex sample_libs [])"
proof
  let ?w = "quiet_world Map.empty"
  assume "canonical_string (lit ''m'') 1 (lit ''00'') (lit ''GET'') CA_BUNDLE_PATH (body_sha256_hex sample_libs [])
     = canonical_string (lit ''m'') 1 (lit ''00'') (lit ''POST'') HEARTBEAT_PATH (body_sha256_hex sample_libs [])"
  moreover have "generate_nonce sample_libs ?w = (lit ''00'', advance ?w)"
    by (simp add: generate_nonce_def random_bytes_def sample_libs_def)
  moreover have "(lit ''GET'', CA_BUNDLE_PATH) \<in> signed_endpoints" "(lit ''POST'', HEARTBEAT_PATH) \<in> signed_endpoints"
    by (simp_all add: signed_endpoints_def)
  ultimately have "CA_BUNDLE_PATH = HEARTBEAT_PATH"
    using canonical_string_unambiguous [OF sample_libs_ok(2)] by blast
  then show False by (simp add: CA_BUNDLE_PATH_def HEARTBEAT_PATH_def lit_def)
qed

section \<open>What the state files say\<close>

text \<open>
  The environment never reports an existing file as missing: the faults of system calls are
  of any kind but \<open>NotFound\<close>.
\<close>

definition honest :: "world \<Rightarrow> bool" where
  "honest w \<longleftrightarrow> (\<forall>t e. fault w t = Some e \<longrightarrow> ioe_kind e \<noteq> NotFound)"

definition text_of :: "fsmap \<Rightarrow> path \<Rightarrow> str option" where
  "text_of m p =
     (case read_of m (components p) of
        Inr bs \<Rightarrow> (case from_utf8 bs of
                     Some t \<Rightarrow> if trim t = [] then None else Some (trim t)
                   | None \<Rightarrow> None)
      | Inl _ \<Rightarrow> None)"

definition stored_generation :: "ca_sync_service \<Rightarrow> fsmap \<Rightarrow> u64 option" where
  "stored_generation svc m = Option.bind (text_of m (cs_generation_path svc)) parse_u64"

definition stored_fingerprint :: "ca_sync_service \<Rightarrow> fsmap \<Rightarrow> str option" where
  "stored_fingerprint svc m = text_of m (cs_fingerprint_path svc)"

definition stored_pin :: "ca_sync_service \<Rightarrow> fsmap \<Rightarrow> str option" where
  "stored_pin svc m = text_of m (cs_signing_key_path svc)"

lemma honest_env: "honest w \<Longrightarrow> same_env w w' \<Longrightarrow> honest w'"
  by (simp add: honest_def same_env_def)

lemma read_optional_frame:
  assumes "read_optional p w = (r, w')"
  shows "fs w' = fs w \<and> trace w' = trace w \<and> same_env w w'"
  using assms
  by (auto simp: read_optional_def sys_read_def sys_query_def same_env_def split: prod.splits sum.splits if_splits option.splits)

lemma read_optional_Inr:
  assumes "honest w" and "read_optional p w = (Inr x, w')"
  shows "(\<exists>bs. x = Some bs \<and> read_of (fs w) (components p) = Inr bs)
    \<or> x = None \<and> (\<exists>e. read_of (fs w) (components p) = Inl e \<and> ioe_kind e = NotFound)"
  using assms
  by (auto simp: read_optional_def sys_read_def sys_query_def honest_def split: sum.splits option.splits if_splits)

lemma read_optional_string_Inr:
  assumes "honest w" and "read_optional_string p w = (Inr x, w')"
  shows "x = text_of (fs w) p \<and> fs w' = fs w \<and> trace w' = trace w \<and> same_env w w'"
  using assms(2) unfolding read_optional_string_def
proof (cases rule: bind_io_cases)
  case (ok y w1)
  with read_optional_Inr [OF assms(1) ok(1)] read_optional_frame [OF ok(1)] show ?thesis
    by (auto simp: text_of_def Let_def bind_io_def split: option.splits sum.splits if_splits)
qed simp

lemma text_of_trim: "text_of m p = Some t \<Longrightarrow> trim t = t"
  by (auto simp: text_of_def split: sum.splits option.splits if_splits)

lemma read_generation_Inr:
  assumes "honest w" and "read_generation svc w = (Inr g, w')"
  shows "g = stored_generation svc (fs w) \<and> fs w' = fs w \<and> trace w' = trace w \<and> same_env w w'"
  using assms(2) unfolding read_generation_def
proof (cases rule: bind_io_cases)
  case (ok y w1)
  with read_optional_string_Inr [OF assms(1) ok(1)] show ?thesis
    by (auto simp: stored_generation_def bind_io_def text_of_trim split: option.splits sum.splits)
qed simp

lemma load_state_Inr:
  assumes "honest w" and "load_state svc w = (Inr ps, w')"
  shows "ps = \<lparr>ps_generation = stored_generation svc (fs w), ps_fingerprint = stored_fingerprint svc (fs w),
      ps_signing_key = stored_pin svc (fs w)\<rparr> \<and> fs w' = fs w \<and> trace w' = trace w \<and> same_env w w'"
proof -
  from assms(2) obtain g w1 f w2 k where 1: "read_generation svc w = (Inr g, w1)"
      and 2: "read_optional_string (cs_fingerprint_path svc) w1 = (Inr f, w2)"
      and 3: "read_optional_string (cs_signing_key_path svc) w2 = (Inr k, w')"
      and ps: "ps = \<lparr>ps_generation = g, ps_fingerprint = f, ps_signing_key = k\<rparr>"
    by (auto simp: load_state_def bind_io_Inr)
  note r1 = read_generation_Inr [OF assms(1) 1]
  then have h1: "honest w1" using honest_env assms(1) by blast
  note r2 = read_optional_string_Inr [OF h1 2]
  then have h2: "honest w2" using honest_env h1 by blast
  note r3 = read_optional_string_Inr [OF h2 3]
  show ?thesis
    using r1 r2 r3 ps by (auto simp: stored_fingerprint_def stored_pin_def intro: same_env_trans)
qed

lemma keeps_read_optional [intro]: "keeps P Q (read_optional p)"
  using keeps_read(1) [of P Q "components p"]
  by (auto simp: keeps_def read_optional_def split: prod.splits sum.splits) (metis snd_conv)+

lemma keeps_read_optional_string [intro]: "keeps P Q (read_optional_string p)"
  unfolding read_optional_string_def by (intro keeps_bind keeps_read_optional)
    (auto split: option.splits simp: Let_def)

lemma keeps_load_state [intro]: "keeps P Q (load_state svc)"
  unfolding load_state_def read_generation_def
  by (intro keeps_bind keeps_read_optional_string keeps_return) (auto split: option.splits)

lemma keeps_nonce [intro]: "keeps P Q (nonce_io L)"
  by (auto simp: keeps_def nonce_io_def generate_nonce_def random_bytes_def)

lemma keeps_sync_sign [intro]: "keeps P Q (sync_sign L svc m p b)"
  unfolding sync_sign_def by auto

lemma keeps_fetch: "(\<And>rq. Q (Sent GET rq)) \<Longrightarrow> keeps P Q (fetch_bundle L svc f)"
  unfolding fetch_bundle_def Let_def bundle_get_def by (auto intro: keeps_exchange)

lemma keeps_acknowledge:
  assumes "\<And>rq. Q (Sent POST rq)"
  shows "keeps P Q (acknowledge L enc svc report)"
proof -
  have "keeps P Q (try_acknowledge L enc svc report)"
    unfolding try_acknowledge_def bundle_post_def
    by (intro keeps_bind keeps_lift keeps_sync_sign keeps_exchange assms)
  then show ?thesis
    by (auto simp: keeps_def acknowledge_def split: prod.splits sum.splits) (metis snd_conv)+
qed

lemma keeps_write_timestamp: "(\<And>n. P (components p) n) \<Longrightarrow> keeps P Q (write_timestamp L p)"
  unfolding write_timestamp_def by (auto intro: secure_write_keeps)

section \<open>What a pass may do\<close>

text \<open>
  The port to the privileged side: it touches none of the files the agent manages, and what
  it sends for a given body is described by \<open>sends\<close>.
\<close>

locale bundle_applier =
  fixes A :: applier
    and sends :: "str \<Rightarrow> event \<Rightarrow> bool"
  assumes apply_keeps: "keeps (\<lambda>_ _. False) (sends body) (A body)"

text \<open>The bundles that the gate lets through under a key, and the key a pass checks against.\<close>

definition accepted :: "libs \<Rightarrow> str option \<Rightarrow> ca_bundle \<Rightarrow> bool" where
  "accepted L key b \<longleftrightarrow> (\<exists>raw now. from_response L raw now key = Inr b)"

abbreviation key_in_force :: "ca_sync_service \<Rightarrow> fsmap \<Rightarrow> str option" where
  "key_in_force svc m \<equiv> (case cs_pinned_signing_key svc of Some k \<Rightarrow> Some k | None \<Rightarrow> stored_pin svc m)"

text \<open>
  The changes a pass may make, given the bundles \<open>acc\<close> it may take over: the generation file
  to the generation of such a bundle, at least \<open>lo\<close>; the fingerprint to a file, the two
  timestamps to anything; the pin, only without an operator's key and when \<open>pin_free\<close>, to the key of such
  a bundle.
\<close>

definition sync_writes ::
    "ca_sync_service \<Rightarrow> (ca_bundle \<Rightarrow> bool) \<Rightarrow> nat \<Rightarrow> bool \<Rightarrow> fskey \<Rightarrow> node option \<Rightarrow> bool" where
  "sync_writes svc acc lo pin_free k n \<longleftrightarrow>
     k = components (cs_generation_path svc)
       \<and> (\<exists>b u. acc b \<and> n = Some (NFile (utf8 (show_u64 (generation b) @ [10])) MODE_PUBLIC u) \<and> lo \<le> unat (generation b))
     \<or> k = components (cs_fingerprint_path svc) \<and> (\<exists>c u. n = Some (NFile c MODE_PUBLIC u))
     \<or> k = components (cs_signing_key_path svc) \<and> pin_free \<and> cs_pinned_signing_key svc = None
       \<and> (\<exists>b u. acc b \<and> n = Some (NFile (utf8 (signing_public_key b @ [10])) MODE_PUBLIC u))
     \<or> k = components (cs_last_sync_path svc) \<or> k = components (cs_last_success_path svc)"

text \<open>
  The messages: requests to the server, and what the applier sends for the rendering of a
  bundle that the gate accepted under the expected key.
\<close>

definition sync_sends ::
    "libs \<Rightarrow> (str \<Rightarrow> event \<Rightarrow> bool) \<Rightarrow> str option \<Rightarrow> nat \<Rightarrow> event \<Rightarrow> bool" where
  "sync_sends L sends key lo e \<longleftrightarrow> (\<exists>m rq. e = Sent m rq)
     \<or> (\<exists>raw now b. from_response L raw now key = Inr b \<and> lo \<le> unat (generation b)
          \<and> sends (render_trusted_user_ca_keys b) e)"

definition pin_kept :: "ca_sync_service \<Rightarrow> bool \<Rightarrow> world \<Rightarrow> bool" where
  "pin_kept svc pin_free w \<longleftrightarrow> pin_free \<or> honest w
     \<and> (\<exists>c m u. fs w (components (cs_signing_key_path svc)) = Some (NFile c m u))"

definition generation_level :: "u64 option \<Rightarrow> nat" where
  "generation_level g = (case g of None \<Rightarrow> 0 | Some x \<Rightarrow> unat x)"

text \<open>The five state files have five names, none of them one of a temporary file.\<close>

definition state_paths_ok :: "ca_sync_service \<Rightarrow> bool" where
  "state_paths_ok svc \<longleftrightarrow>
     distinct (map components [cs_generation_path svc, cs_fingerprint_path svc, cs_signing_key_path svc,
       cs_last_sync_path svc, cs_last_success_path svc])
     \<and> (\<forall>p \<in> {cs_generation_path svc, cs_fingerprint_path svc, cs_signing_key_path svc,
          cs_last_sync_path svc, cs_last_success_path svc}. \<not> is_tmp (components p))"

lemma pin_kept_stable:
  assumes "state_paths_ok svc"
  shows "preserved (pin_kept svc pf) (sync_writes svc acc lo pf) Q"
  unfolding preserved_def
proof (intro allI impI)
  fix w w'
  assume k: "pin_kept svc pf w" and w: "confined (sync_writes svc acc lo pf) Q w w'"
  show "pin_kept svc pf w'"
  proof (cases pf)
    case False
    have "\<not> sync_writes svc acc lo pf (components (cs_signing_key_path svc)) n" for n
      using assms False by (auto simp: sync_writes_def state_paths_ok_def)
    with confined_fs [OF w, of "components (cs_signing_key_path svc)"] assms
    have "fs w' (components (cs_signing_key_path svc)) = fs w (components (cs_signing_key_path svc))"
      by (auto simp: state_paths_ok_def)
    with k False honest_env confined_env [OF w] show ?thesis by (auto simp: pin_kept_def)
  qed (simp add: pin_kept_def)
qed

lemma persist_pin_keeps:
  assumes "acc b"
  shows "keeps_when (pin_kept svc pf) (sync_writes svc acc lo pf) Q (persist_pin_if_needed svc b)"
proof (cases pf)
  case True
  then have "sync_writes svc acc lo pf (components (cs_signing_key_path svc))
      (Some (NFile (utf8 (signing_public_key b @ [10])) MODE_PUBLIC u))" if "cs_pinned_signing_key svc = None" for u
    using assms that by (auto simp: sync_writes_def)
  then show ?thesis
    unfolding persist_pin_if_needed_def
    by (cases "cs_pinned_signing_key svc")
       (auto intro!: keeps_imp_when keeps_if keeps_bind keeps_return keeps_read_optional secure_write_keeps)
next
  case False
  show ?thesis
    unfolding keeps_when_def
  proof (intro allI impI)
    fix w
    assume "pin_kept svc pf w"
    with False obtain c m u where h: "honest w" and f: "fs w (components (cs_signing_key_path svc)) = Some (NFile c m u)"
      by (auto simp: pin_kept_def)
    obtain r w1 where ro: "read_optional (cs_signing_key_path svc) w = (r, w1)" by fastforce
    have "confined (sync_writes svc acc lo pf) Q w w1" using keepsD [OF keeps_read_optional ro] .
    moreover have "r \<noteq> Inr None" using read_optional_Inr [OF h] ro f by fastforce
    ultimately show "confined (sync_writes svc acc lo pf) Q w (snd (persist_pin_if_needed svc b w))"
      using ro by (cases r) (auto simp: persist_pin_if_needed_def bind_io_def)
  qed
qed

lemma generation_level_regressed:
  "\<not> (case g of Some prev \<Rightarrow> x < prev | None \<Rightarrow> False) \<Longrightarrow> generation_level g \<le> unat x"
  by (cases g) (auto simp: generation_level_def word_less_nat_alt)

lemma write_generation_keeps:
  "acc b \<Longrightarrow> lo \<le> unat (generation b) \<Longrightarrow> keeps (sync_writes svc acc lo pf) Q (write_generation svc (generation b))"
  unfolding write_generation_def by (rule secure_write_keeps) (auto simp: sync_writes_def)

lemma write_fingerprint_keeps: "keeps (sync_writes svc acc lo pf) Q (write_fingerprint svc f)"
  unfolding write_fingerprint_def by (rule secure_write_keeps) (simp add: sync_writes_def)

lemma timestamps_keep:
  "keeps (sync_writes svc acc lo pf) Q (write_timestamp L (cs_last_sync_path svc))"
  "keeps (sync_writes svc acc lo pf) Q (write_timestamp L (cs_last_success_path svc))"
  by (rule keeps_write_timestamp, simp add: sync_writes_def)+

lemmas when_simple = keeps_imp_when [OF keeps_return] keeps_imp_when [OF keeps_lift]
  keeps_imp_when [OF keeps_now] keeps_imp_when [OF timestamps_keep(1)] keeps_imp_when [OF timestamps_keep(2)]

lemma sync_sends_http [simp]: "sync_sends L S key lo (Sent m rq)"
  by (simp add: sync_sends_def)

context bundle_applier
begin

lemma sync_apply_keeps:
  assumes "from_response L raw now key = Inr b" and "lo \<le> unat (generation b)"
  shows "keeps P (sync_sends L sends key lo) (sync_apply A b)"
proof -
  have "keeps P (sync_sends L sends key lo) (A (render_trusted_user_ca_keys b))"
    using apply_keeps by (rule keeps_mono) (use assms in \<open>auto simp: sync_sends_def\<close>)
  then show ?thesis unfolding sync_apply_def Let_def by auto
qed

lemma persist_after_apply_keeps:
  assumes "state_paths_ok svc" and "acc b" and "lo \<le> unat (generation b)"
  shows "keeps_when (pin_kept svc pf) (sync_writes svc acc lo pf) Q (persist_after_apply L svc b)"
  unfolding persist_after_apply_def
  using assms
  by (intro keeps_when_bind pin_kept_stable persist_pin_keeps
      keeps_imp_when [OF write_generation_keeps] keeps_imp_when [OF write_fingerprint_keeps]
      keeps_imp_when [OF timestamps_keep(2)])

lemma sync_finish_keeps:
  assumes "state_paths_ok svc" and "from_response L raw now key = Inr b" and "lo \<le> unat (generation b)"
  shows "keeps_when (pin_kept svc pf) (sync_writes svc (accepted L key) lo pf) (sync_sends L sends key lo)
           (sync_finish L enc A svc b)"
proof -
  have acc: "accepted L key b" using assms(2) by (auto simp: accepted_def)
  note ack = keeps_imp_when [OF keeps_acknowledge [of "sync_sends L sends key lo"]]
  show ?thesis
    unfolding sync_finish_def
  proof (intro keeps_when_bind pin_kept_stable assms(1) keeps_imp_when [OF sync_apply_keeps [OF assms(2,3)]])
    fix a
    show "keeps_when (pin_kept svc pf) (sync_writes svc (accepted L key) lo pf) (sync_sends L sends key lo)
        (case a of
           ApplyApplied \<Rightarrow>
             bind_io (persist_after_apply L svc b) (\<lambda>_.
             bind_io (acknowledge L enc svc
                 \<lparr>ack_generation = generation b, ack_fingerprint = fingerprint b,
                  ack_status = ACK_STATUS_APPLIED, ack_reason = None\<rparr>) (\<lambda>acknowledged.
             return_io (SyncUpdated (generation b) (fingerprint b) acknowledged)))
         | ApplyRolledBack \<Rightarrow>
             bind_io (acknowledge L enc svc
                 \<lparr>ack_generation = generation b, ack_fingerprint = fingerprint b,
                  ack_status = ACK_STATUS_ROLLBACK, ack_reason = Some ACK_ROLLBACK_REASON\<rparr>) (\<lambda>_.
             lift_res (Inl CaReloadFailed)))"
      by (cases a) (auto intro!: keeps_when_bind pin_kept_stable [OF assms(1)] ack
          persist_after_apply_keeps [where acc = "accepted L key", OF assms(1) acc assms(3)] when_simple)
  qed
qed

lemma sync_respond_keeps:
  assumes "state_paths_ok svc"
  shows "keeps_when (pin_kept svc pf) (sync_writes svc (accepted L (expected_signing_key svc ps)) (generation_level (ps_generation ps)) pf)
     (sync_sends L sends (expected_signing_key svc ps) (generation_level (ps_generation ps)))
     (sync_respond L dec enc A svc ps resp)"
  (is "keeps_when ?I ?P ?Q _")
proof -
  note st = pin_kept_stable [OF assms, of pf "accepted L (expected_signing_key svc ps)" "generation_level (ps_generation ps)" ?Q]
  have tail: "keeps_when ?I ?P ?Q
      (if (case ps_generation ps of Some prev \<Rightarrow> generation b < prev | None \<Rightarrow> False)
       then lift_res (Inl (InvalidCaBundle GenerationRegressed))
       else if ps_generation ps = Some (generation b) \<and> ps_fingerprint ps = Some (fingerprint b)
       then bind_io (persist_pin_if_needed svc b) (\<lambda>_.
            bind_io (write_timestamp L (cs_last_success_path svc)) (\<lambda>_.
            return_io (SyncUnchanged (generation b))))
       else sync_finish L enc A svc b)"
    if "from_response L raw now (expected_signing_key svc ps) = Inr b" for raw now b
  proof -
    have "accepted L (expected_signing_key svc ps) b" using that by (auto simp: accepted_def)
    then show ?thesis
      using sync_finish_keeps [OF assms that generation_level_regressed]
      by (auto intro!: keeps_when_bind pin_kept_stable [OF assms] persist_pin_keeps when_simple)
  qed
  show ?thesis
    unfolding sync_respond_def
    by (intro keeps_when_bind [OF st] keeps_imp_when [OF timestamps_keep(1)])
       (auto intro!: keeps_when_lift_bind tail keeps_when_bind [OF st] when_simple)
qed

text \<open>A whole pass: what it may write and send is bounded by the state it started from.\<close>

lemma synchronize_within:
  assumes "state_paths_ok svc" and "honest w" and "pin_kept svc pf w"
    and "synchronize L dec enc A svc w = (r, w')"
  shows "confined (sync_writes svc (accepted L (key_in_force svc (fs w))) (generation_level (stored_generation svc (fs w))) pf)
     (sync_sends L sends (key_in_force svc (fs w))
        (generation_level (stored_generation svc (fs w)))) w w'"
  (is "confined ?P ?Q w w'")
  using assms(4) unfolding synchronize_def
proof (cases rule: bind_io_cases)
  case (err e)
  from keepsD [OF keeps_load_state err(1)] show ?thesis .
next
  case (ok ps w1)
  have ps: "ps_generation ps = stored_generation svc (fs w)"
      "expected_signing_key svc ps = key_in_force svc (fs w)"
    using load_state_Inr [OF assms(2) ok(1)] by (auto simp: expected_signing_key_def split: option.split)
  have 1: "confined ?P ?Q w w1" using keepsD [OF keeps_load_state ok(1)] .
  note st = pin_kept_stable [OF assms(1), of pf "accepted L (key_in_force svc (fs w))" "generation_level (stored_generation svc (fs w))" ?Q]
  have rest: "keeps_when (pin_kept svc pf) ?P ?Q (\<lambda>w. bind_io (fetch_bundle L svc (ps_fingerprint ps))
      (sync_respond L dec enc A svc ps) w)"
    using sync_respond_keeps [OF assms(1), of pf L ps dec enc] unfolding ps
    by (intro keeps_when_bind [OF st] keeps_imp_when [OF keeps_fetch]) auto
  have "pin_kept svc pf w1" using st assms(3) 1 unfolding preserved_def by blast
  from confined_trans [OF 1 keeps_whenD [OF rest this ok(2)]] show ?thesis .
qed

end

section \<open>The generation never goes back\<close>

lemma utf8_line:
  assumes "\<forall>c \<in> set s. is_ascii_graphic c" and "s \<noteq> []"
  shows "from_utf8 (utf8 (s @ [10])) = Some (s @ [10])" and "trim (s @ [10]) = s"
proof -
  have "list_all is_scalar (s @ [10])"
    using assms(1) graphic_plain ascii_scalar by (auto simp: list_all_iff)
  then show "from_utf8 (utf8 (s @ [10])) = Some (s @ [10])" by (rule from_utf8_utf8)
  have "trim (s @ [10]) = trim s" by (rule trim_append_ws) (simp add: is_whitespace_def)
  also have "\<dots> = s" using assms(1) graphic_plain by (intro trim_no_ws) blast
  finally show "trim (s @ [10]) = s" .
qed

lemma text_of_line:
  assumes "m (components p) = Some (NFile (utf8 (s @ [10])) mo u)"
    and "\<forall>c \<in> set s. is_ascii_graphic c" and "s \<noteq> []"
  shows "text_of m p = Some s"
  using assms utf8_line [OF assms(2,3)] by (simp add: text_of_def)

lemma stored_generation_written:
  assumes "m (components (cs_generation_path svc)) = Some (NFile (utf8 (show_u64 g @ [10])) mo u)"
  shows "stored_generation svc m = Some g"
proof -
  have "\<forall>c \<in> set (show_u64 g). is_ascii_graphic c"
  proof
    fix c assume "c \<in> set (show_u64 g)"
    then have "48 \<le> c \<and> c \<le> 57" unfolding show_u64_def by (rule show_nat_set)
    then show "is_ascii_graphic c" by (simp add: is_ascii_graphic_def)
  qed
  then have "text_of m (cs_generation_path svc) = Some (show_u64 g)"
    using assms by (intro text_of_line) (simp_all add: show_u64_def)
  then show ?thesis by (simp add: stored_generation_def parse_show_u64)
qed

lemma text_of_cong:
  "m (components p) = m' (components p) \<Longrightarrow> (\<And>t u. m (components p) \<noteq> Some (NLink t u))
   \<Longrightarrow> text_of m p = text_of m' p"
  unfolding text_of_def by (simp add: read_of_cong [of m "components p" m'])

definition no_links :: "ca_sync_service \<Rightarrow> fsmap \<Rightarrow> bool" where
  "no_links svc m \<longleftrightarrow>
     (\<forall>p \<in> {cs_generation_path svc, cs_fingerprint_path svc, cs_signing_key_path svc}.
        case m (components p) of Some n \<Rightarrow> \<not> is_link n | None \<Rightarrow> True)"

lemma no_links_generation: "no_links svc m \<Longrightarrow> m (components (cs_generation_path svc)) \<noteq> Some (NLink t u)"
  by (auto simp: no_links_def)

lemma generation_after_change:
  assumes "state_paths_ok svc" and link: "\<And>t u. m (components (cs_generation_path svc)) \<noteq> Some (NLink t u)"
    and "fs_change (sync_writes svc acc (generation_level (stored_generation svc m)) pf) m m'"
  shows "generation_level (stored_generation svc m) \<le> generation_level (stored_generation svc m')"
proof -
  let ?k = "components (cs_generation_path svc)"
  have "\<not> is_tmp ?k" using assms(1) by (simp add: state_paths_ok_def)
  then have "m' ?k = m ?k \<or> sync_writes svc acc (generation_level (stored_generation svc m)) pf ?k (m' ?k)"
    using assms(3) by (auto simp: fs_change_def)
  then show ?thesis
  proof
    assume e: "m' ?k = m ?k"
    with link text_of_cong [of m "cs_generation_path svc" m'] show ?thesis
      by (simp add: stored_generation_def)
  next
    assume "sync_writes svc acc (generation_level (stored_generation svc m)) pf ?k (m' ?k)"
    then obtain g u where "m' ?k = Some (NFile (utf8 (show_u64 g @ [10])) MODE_PUBLIC u)"
        and le: "generation_level (stored_generation svc m) \<le> unat g"
      using assms(1) by (auto simp: sync_writes_def state_paths_ok_def)
    with stored_generation_written have "stored_generation svc m' = Some g" by blast
    with le show ?thesis by (simp add: generation_level_def)
  qed
qed

section \<open>What an outcome means for the state\<close>

definition storage_error :: "error \<Rightarrow> bool" where
  "storage_error e \<longleftrightarrow> (\<exists>x. e = Io x) \<or> e = InvalidPath \<or> e = MachineRecordInvalid"

lemma secure_write_error: "secure_write p c mode w = (Inl e, w') \<Longrightarrow> storage_error e"
  by (auto simp: secure_write_def storage_error_def parent_of_def Let_def atomic_replace_def fsync_dir_def
      map_err_io_def bind_io_def map_err_def
      split: sum.splits prod.splits if_splits)

lemma write_timestamp_error: "write_timestamp L p w = (Inl e, w') \<Longrightarrow> storage_error e"
  unfolding write_timestamp_def
  by (elim bind_io_cases) (auto simp: now_io_def clock_now_def storage_error_def ok_or_def
      split: option.splits dest: secure_write_error [unfolded storage_error_def])

lemma read_optional_error: "read_optional p w = (Inl e, w') \<Longrightarrow> storage_error e"
  by (auto simp: read_optional_def storage_error_def split: prod.splits sum.splits if_splits)

lemma persist_pin_error: "persist_pin_if_needed svc b w = (Inl e, w') \<Longrightarrow> storage_error e"
  unfolding persist_pin_if_needed_def
  by (auto split: if_splits elim!: bind_io_cases dest: read_optional_error secure_write_error)

lemma persist_after_apply_error: "persist_after_apply L svc b w = (Inl e, w') \<Longrightarrow> storage_error e"
  unfolding persist_after_apply_def write_generation_def write_fingerprint_def
  by (elim bind_io_cases) (auto dest: secure_write_error persist_pin_error write_timestamp_error)

definition changes_only :: "path set \<Rightarrow> world \<Rightarrow> world \<Rightarrow> bool" where
  "changes_only S w w' \<longleftrightarrow> (\<forall>k. \<not> is_tmp k \<longrightarrow> k \<notin> components ` S \<longrightarrow> fs w' k = fs w k)"

lemma changes_only_trans: "changes_only S u v \<Longrightarrow> changes_only S v w \<Longrightarrow> changes_only S u w"
  by (simp add: changes_only_def)

lemma changes_only_mono: "changes_only S u v \<Longrightarrow> S \<subseteq> T \<Longrightarrow> changes_only T u v"
  by (auto simp: changes_only_def)

lemma changes_only_within: "confined (\<lambda>k _. k \<in> components ` S) Q w w' \<Longrightarrow> changes_only S w w'"
  by (auto simp: changes_only_def confined_def fs_change_def)

lemma changes_only_refl: "fs w' = fs w \<Longrightarrow> changes_only S w w'"
  by (simp add: changes_only_def)

lemma write_timestamp_changes: "write_timestamp L p w = (r, w') \<Longrightarrow> changes_only {p} w w'"
  by (rule changes_only_within [of _ "\<lambda>_. True"], rule keepsD, rule keeps_write_timestamp) auto

lemma secure_write_changes: "secure_write p c mode w = (r, w') \<Longrightarrow> changes_only {p} w w'"
  by (rule changes_only_within [of _ "\<lambda>_. True"], rule keepsD, rule secure_write_keeps) auto

lemma persist_pin_changes: "persist_pin_if_needed svc b w = (r, w') \<Longrightarrow> changes_only {cs_signing_key_path svc} w w'"
  unfolding persist_pin_if_needed_def
  by (rule changes_only_within [of _ "\<lambda>_. True"], rule keepsD [rotated], assumption)
     (intro keeps_if keeps_bind keeps_return keeps_read_optional secure_write_keeps, simp)

lemma acknowledge_changes: "acknowledge L enc svc rep w = (r, w') \<Longrightarrow> changes_only {} w w'"
  by (rule changes_only_within [of _ "\<lambda>_. True"], rule keepsD, rule keeps_acknowledge) auto

lemma fetch_changes: "fetch_bundle L svc f w = (r, w') \<Longrightarrow> changes_only {} w w'"
  by (rule changes_only_within [of _ "\<lambda>_. True"], rule keepsD, rule keeps_fetch) auto

lemma load_changes: "load_state svc w = (r, w') \<Longrightarrow> changes_only {} w w'"
  by (rule changes_only_within [of _ "\<lambda>_. True"], rule keepsD, rule keeps_load_state)

context bundle_applier
begin

lemma apply_changes: "A body w = (r, w') \<Longrightarrow> changes_only {} w w'"
  by (rule changes_only_within [of _ "sends body"], rule keepsD, rule keeps_mono [OF apply_keeps]) auto

lemma sync_apply_changes: "sync_apply A b w = (r, w') \<Longrightarrow> changes_only {} w w'"
  unfolding sync_apply_def Let_def
  by (auto elim!: bind_io_cases dest: apply_changes intro: changes_only_refl)

lemma sync_apply_Inr:
  assumes "sync_apply A b w = (Inr res, w')"
  obtains out where "A (render_trusted_user_ca_keys b) w = (Inr out, w')"
    "res = (case out of BundleApplied \<Rightarrow> ApplyApplied | BundleRolledBack \<Rightarrow> ApplyRolledBack)"
  using assms unfolding sync_apply_def Let_def by (auto simp: bind_io_Inr)

lemma persist_after_apply_Inr:
  assumes "persist_after_apply L svc b w = (Inr x, w')"
  obtains w3 w4 w5 where "write_generation svc (generation b) w = (Inr (), w3)"
    "write_fingerprint svc (fingerprint b) w3 = (Inr (), w4)" "persist_pin_if_needed svc b w4 = (Inr (), w5)"
    "write_timestamp L (cs_last_success_path svc) w5 = (Inr (), w')"
  using assms unfolding persist_after_apply_def by (auto simp: bind_io_Inr)

lemma sync_finish_error:
  assumes "sync_finish L enc A svc b w = (Inl e, w')" and "\<not> storage_error e"
  shows "changes_only {} w w'"
  using assms(1) unfolding sync_finish_def
proof (cases rule: bind_io_cases)
  case (err x)
  then show ?thesis using sync_apply_changes by blast
next
  case (ok res w1)
  have 1: "changes_only {} w w1" using sync_apply_changes [OF ok(1)] .
  show ?thesis
  proof (cases res)
    case ApplyApplied
    with ok(2) assms(2) show ?thesis
      by (auto elim!: bind_io_cases dest: persist_after_apply_error simp: acknowledge_def
          split: prod.splits sum.splits)
  next
    case ApplyRolledBack
    with ok(2) obtain a w2 where "acknowledge L enc svc \<lparr>ack_generation = generation b,
        ack_fingerprint = fingerprint b, ack_status = ACK_STATUS_ROLLBACK,
        ack_reason = Some ACK_ROLLBACK_REASON\<rparr> w1 = (a, w2)" and "w' = w2"
      by (auto elim!: bind_io_cases)
    with 1 acknowledge_changes show ?thesis by (blast intro: changes_only_trans)
  qed
qed

lemma sync_finish_updated:
  assumes "state_paths_ok svc" and "sync_finish L enc A svc b w = (Inr out, w')"
  obtains a w1 w2 where "out = SyncUpdated (generation b) (fingerprint b) a"
    "A (render_trusted_user_ca_keys b) w1 = (Inr BundleApplied, w2)"
    "\<exists>u. fs w' (components (cs_generation_path svc)) = Some (NFile (utf8 (show_u64 (generation b) @ [10])) MODE_PUBLIC u)"
    "\<exists>u. fs w' (components (cs_fingerprint_path svc)) = Some (NFile (utf8 (fingerprint b @ [10])) MODE_PUBLIC u)"
proof -
  let ?gk = "components (cs_generation_path svc)" and ?fk = "components (cs_fingerprint_path svc)"
  from assms(2) obtain res w2 where sa: "sync_apply A b w = (Inr res, w2)"
      and rest: "(case res of
         ApplyApplied \<Rightarrow>
           bind_io (persist_after_apply L svc b) (\<lambda>_.
           bind_io (acknowledge L enc svc
               \<lparr>ack_generation = generation b, ack_fingerprint = fingerprint b,
                ack_status = ACK_STATUS_APPLIED, ack_reason = None\<rparr>) (\<lambda>acknowledged.
           return_io (SyncUpdated (generation b) (fingerprint b) acknowledged)))
       | ApplyRolledBack \<Rightarrow>
           bind_io (acknowledge L enc svc
               \<lparr>ack_generation = generation b, ack_fingerprint = fingerprint b,
                ack_status = ACK_STATUS_ROLLBACK, ack_reason = Some ACK_ROLLBACK_REASON\<rparr>) (\<lambda>_.
           lift_res (Inl CaReloadFailed))) w2 = (Inr out, w')"
    unfolding sync_finish_def bind_io_Inr by blast
  from rest have "res = ApplyApplied" by (cases res) (auto simp: bind_io_Inr)
  with sa have ap: "A (render_trusted_user_ca_keys b) w = (Inr BundleApplied, w2)"
    by (auto elim!: sync_apply_Inr split: bundle_apply_outcome.splits)
  from rest \<open>res = ApplyApplied\<close> obtain w6 a where pa: "persist_after_apply L svc b w2 = (Inr (), w6)"
      and k: "acknowledge L enc svc \<lparr>ack_generation = generation b, ack_fingerprint = fingerprint b,
           ack_status = ACK_STATUS_APPLIED, ack_reason = None\<rparr> w6 = (Inr a, w')"
      and out: "out = SyncUpdated (generation b) (fingerprint b) a"
    by (auto simp: bind_io_Inr)
  from pa obtain w3 w4 w5 where g: "write_generation svc (generation b) w2 = (Inr (), w3)"
      and f: "write_fingerprint svc (fingerprint b) w3 = (Inr (), w4)"
      and p: "persist_pin_if_needed svc b w4 = (Inr (), w5)"
      and t: "write_timestamp L (cs_last_success_path svc) w5 = (Inr (), w6)"
    by (rule persist_after_apply_Inr)
  have fs4: "fs w4 ?gk = Some (NFile (utf8 (show_u64 (generation b) @ [10])) MODE_PUBLIC (euid w2))"
      "fs w4 ?fk = Some (NFile (utf8 (fingerprint b @ [10])) MODE_PUBLIC (euid w3))"
    using g f assms(1) secure_write_fs
    by (auto simp: write_generation_def write_fingerprint_def state_paths_ok_def)
  have keep: "fs w' x = fs w4 x" if "x = ?gk \<or> x = ?fk" for x
  proof -
    have "x \<notin> components ` {cs_signing_key_path svc}" "x \<notin> components ` {cs_last_success_path svc}" "\<not> is_tmp x"
      using assms(1) that by (auto simp: state_paths_ok_def)
    with persist_pin_changes [OF p] write_timestamp_changes [OF t] acknowledge_changes [OF k]
    show ?thesis by (simp add: changes_only_def)
  qed
  show ?thesis
    by (rule that [OF out ap]) (use fs4 keep in auto)
qed

lemma sync_respond_error:
  assumes "sync_respond L dec enc A svc ps resp w = (Inl e, w')" and "\<not> storage_error e"
  shows "changes_only {cs_last_sync_path svc} w w'"
proof -
  from assms obtain w1 where t: "write_timestamp L (cs_last_sync_path svc) w = (Inr (), w1)"
    unfolding sync_respond_def by (auto elim!: bind_io_cases dest: write_timestamp_error)
  have "changes_only {} w1 w'"
    using assms t unfolding sync_respond_def bind_io_step [of "write_timestamp L (cs_last_sync_path svc)", OF t]
    by (auto split: if_splits elim!: bind_io_cases dest: write_timestamp_error persist_pin_error
        sync_finish_error simp: now_io_def clock_now_def intro: changes_only_refl)
       (auto simp: changes_only_def dest!: sync_finish_error dest: persist_pin_error write_timestamp_error)
  with write_timestamp_changes [OF t] show ?thesis
    by (blast intro: changes_only_trans changes_only_mono)
qed

text \<open>An error that is not one of local storage leaves everything but \<open>last_sync\<close> alone.\<close>

lemma synchronize_error:
  assumes "synchronize L dec enc A svc w = (Inl e, w')" and "\<not> storage_error e"
  shows "changes_only {cs_last_sync_path svc} w w'"
  using assms(1) unfolding synchronize_def
proof (cases rule: bind_io_cases)
  case (err x)
  from load_changes [OF err(1)] show ?thesis by (rule changes_only_mono) simp
next
  case l: (ok ps w1)
  from l(2) show ?thesis
  proof (cases rule: bind_io_cases)
    case (err x)
    from load_changes [OF l(1)] fetch_changes [OF err(1)] show ?thesis
      by (blast intro: changes_only_trans changes_only_mono)
  next
    case (ok resp w2)
    from load_changes [OF l(1)] fetch_changes [OF ok(1)] have "changes_only {cs_last_sync_path svc} w w2"
      by (blast intro: changes_only_trans changes_only_mono)
    with assms(2) ok(2) sync_respond_error show ?thesis by (blast intro: changes_only_trans)
  qed
qed

end

context bundle_applier
begin

text \<open>The three ways a pass can succeed.\<close>

lemma sync_respond_Inr:
  assumes "sync_respond L dec enc A svc ps resp w = (Inr out, w')"
  obtains (not_modified) "resp_status resp = STATUS_NOT_MODIFIED"
      "out = SyncNotModified (unwrap_or (ps_generation ps) 0)"
      "changes_only {cs_last_sync_path svc, cs_last_success_path svc} w w'"
    | (unchanged) raw now b where "from_response L raw now (expected_signing_key svc ps) = Inr b"
      "ps_generation ps = Some (generation b)" "ps_fingerprint ps = Some (fingerprint b)"
      "out = SyncUnchanged (generation b)"
      "changes_only {cs_last_sync_path svc, cs_last_success_path svc, cs_signing_key_path svc} w w'"
    | (updated) raw now b w1 where "from_response L raw now (expected_signing_key svc ps) = Inr b"
      "sync_finish L enc A svc b w1 = (Inr out, w')"
proof -
  from assms obtain w1 where t: "write_timestamp L (cs_last_sync_path svc) w = (Inr (), w1)"
    unfolding sync_respond_def by (auto simp: bind_io_Inr)
  note c1 = write_timestamp_changes [OF t]
  show ?thesis
  proof (cases "resp_status resp = STATUS_NOT_MODIFIED")
    case True
    from assms t True have s: "write_timestamp L (cs_last_success_path svc) w1 = (Inr (), w')"
      and out: "out = SyncNotModified (unwrap_or (ps_generation ps) 0)"
      unfolding sync_respond_def by (auto simp: bind_io_Inr)
    from c1 write_timestamp_changes [OF s]
    have "changes_only {cs_last_sync_path svc, cs_last_success_path svc} w w'"
      by (auto simp: changes_only_def)
    with True out show ?thesis by (rule not_modified)
  next
    case False
    let ?rest = "\<lambda>bundle. if (case ps_generation ps of Some prev \<Rightarrow> generation bundle < prev | None \<Rightarrow> False)
       then lift_res (Inl (InvalidCaBundle GenerationRegressed))
       else if ps_generation ps = Some (generation bundle) \<and> ps_fingerprint ps = Some (fingerprint bundle)
       then bind_io (persist_pin_if_needed svc bundle) (\<lambda>_.
            bind_io (write_timestamp L (cs_last_success_path svc)) (\<lambda>_.
            return_io (SyncUnchanged (generation bundle))))
       else sync_finish L enc A svc bundle"
    from assms t False obtain raw b where b: "from_response L raw (clock w1 (tick w1)) (expected_signing_key svc ps) = Inr b"
        and rest: "?rest b (advance w1) = (Inr out, w')"
      unfolding sync_respond_def by (auto simp: bind_io_Inr now_io_def clock_now_def split: if_splits)
    show ?thesis
    proof (cases "ps_generation ps = Some (generation b) \<and> ps_fingerprint ps = Some (fingerprint b)")
      case True
      with rest obtain w2 where p: "persist_pin_if_needed svc b (advance w1) = (Inr (), w2)"
          and s: "write_timestamp L (cs_last_success_path svc) w2 = (Inr (), w')"
          and out: "out = SyncUnchanged (generation b)"
        by (auto simp: bind_io_Inr)
      have "changes_only {cs_last_sync_path svc} w (advance w1)"
        using c1 by (simp add: changes_only_def)
      with persist_pin_changes [OF p] write_timestamp_changes [OF s]
      have "changes_only {cs_last_sync_path svc, cs_last_success_path svc, cs_signing_key_path svc} w w'"
        by (auto simp: changes_only_def)
      with unchanged [OF b] True out show ?thesis by simp
    next
      case False
      with rest have "sync_finish L enc A svc b (advance w1) = (Inr out, w')"
        by (simp split: if_splits)
      with updated [OF b] show ?thesis by simp
    qed
  qed
qed

lemma synchronize_Inr:
  assumes "honest w" and "synchronize L dec enc A svc w = (Inr out, w')"
  obtains resp w2 where "sync_respond L dec enc A svc \<lparr>ps_generation = stored_generation svc (fs w),
      ps_fingerprint = stored_fingerprint svc (fs w), ps_signing_key = stored_pin svc (fs w)\<rparr> resp w2 = (Inr out, w')"
    "changes_only {} w w2"
proof -
  from assms(2) obtain ps w1 resp w2 where l: "load_state svc w = (Inr ps, w1)"
      and f: "fetch_bundle L svc (ps_fingerprint ps) w1 = (Inr resp, w2)"
      and s: "sync_respond L dec enc A svc ps resp w2 = (Inr out, w')"
    unfolding synchronize_def bind_io_Inr by blast
  from load_state_Inr [OF assms(1) l] fetch_changes [OF f] have "changes_only {} w w2"
    by (simp add: changes_only_def)
  with that s load_state_Inr [OF assms(1) l] show ?thesis by blast
qed

end

lemma fingerprint_graphic:
  assumes "hex_ok L"
  shows "\<forall>c \<in> set (compute_fingerprint L g ks). is_ascii_graphic c" and "compute_fingerprint L g ks \<noteq> []"
proof -
  have "is_ascii_alphanumeric c \<Longrightarrow> is_ascii_graphic c" for c
    by (auto simp: is_ascii_alphanumeric_def is_ascii_digit_def is_ascii_graphic_def)
  with assms show "\<forall>c \<in> set (compute_fingerprint L g ks). is_ascii_graphic c"
    by (auto simp: compute_fingerprint_def hex_ok_def FINGERPRINT_PREFIX_def lit_def is_ascii_graphic_def)
  show "compute_fingerprint L g ks \<noteq> []"
    by (simp add: compute_fingerprint_def FINGERPRINT_PREFIX_def lit_def)
qed

lemma from_response_bundle:
  assumes "from_response L raw now pin = Inr b"
  shows "b = bundle_of L raw" and "authentic L raw pin" and "well_formed L raw now"
  using from_response_split [OF refl, of L raw now pin] check_content_iff [of L raw now b] assms by auto

context bundle_applier
begin

lemma synchronize_updated:
  assumes "state_paths_ok svc" and "honest w" and "hex_ok L"
    and "synchronize L dec enc A svc w = (Inr (SyncUpdated g f a), w')"
  shows "stored_generation svc (fs w') = Some g \<and> stored_fingerprint svc (fs w') = Some f
    \<and> (\<exists>raw now b w1 w2. from_response L raw now (case cs_pinned_signing_key svc of Some k \<Rightarrow> Some k
            | None \<Rightarrow> stored_pin svc (fs w)) = Inr b
         \<and> generation b = g \<and> fingerprint b = f
         \<and> A (render_trusted_user_ca_keys b) w1 = (Inr BundleApplied, w2))"
proof -
  let ?ps = "\<lparr>ps_generation = stored_generation svc (fs w), ps_fingerprint = stored_fingerprint svc (fs w),
      ps_signing_key = stored_pin svc (fs w)\<rparr>"
  have key: "expected_signing_key svc ?ps = (case cs_pinned_signing_key svc of Some k \<Rightarrow> Some k
            | None \<Rightarrow> stored_pin svc (fs w))"
    by (simp add: expected_signing_key_def split: option.split)
  obtain resp w2 where "sync_respond L dec enc A svc ?ps resp w2 = (Inr (SyncUpdated g f a), w')"
    using synchronize_Inr [OF assms(2,4)] by blast
  then show ?thesis
  proof (cases rule: sync_respond_Inr)
    case (updated raw now b w1)
    from updated(2) obtain a' w3 w4 where out: "SyncUpdated g f a = SyncUpdated (generation b) (fingerprint b) a'"
        and ap: "A (render_trusted_user_ca_keys b) w3 = (Inr BundleApplied, w4)"
        and g: "\<exists>u. fs w' (components (cs_generation_path svc)) = Some (NFile (utf8 (show_u64 (generation b) @ [10])) MODE_PUBLIC u)"
        and f: "\<exists>u. fs w' (components (cs_fingerprint_path svc)) = Some (NFile (utf8 (fingerprint b @ [10])) MODE_PUBLIC u)"
      by (rule sync_finish_updated [OF assms(1)])
    have "fingerprint b = compute_fingerprint L (unwrap_or (raw_generation raw) 0) (raw_keys raw)"
      using from_response_bundle(1) [OF updated(1)] by (simp add: bundle_of_def)
    with f fingerprint_graphic [OF assms(3)] text_of_line
    have "stored_fingerprint svc (fs w') = Some (fingerprint b)"
      unfolding stored_fingerprint_def by metis
    moreover have "stored_generation svc (fs w') = Some (generation b)"
      using g stored_generation_written by blast
    ultimately show ?thesis using out updated(1) ap unfolding key by blast
  qed auto
qed

end

end
