(* ===== verification/Ipc_Protocol.thy ===== *)
theory Ipc_Protocol
  imports Ca_Bundle
begin

text \<open>
  \<open>src/ipc/protocol.rs\<close>: the messages between agent and helper and their framing. A
  connection is the \<open>helper_conn\<close> of the world: the bytes written so far are passed along, a
  write takes what the peer still accepts, and the reply is the bytes that can be read.
  JSON encoding and decoding are arguments of the operations that use them.
\<close>

section \<open>Definitions\<close>

definition PROTOCOL_VERSION :: u32 where
  "PROTOCOL_VERSION = 1"

definition MAX_BODY_BYTES :: nat where
  "MAX_BODY_BYTES = 1024 * 1024"

datatype operation = Ping | EnsureDirectories | InstallSshdDropin | ApplyTrustedCaKeys | VerifyState

record ipc_request =
  rq_protocol_version :: u32
  rq_token :: str
  rq_op :: operation
  rq_content :: "str option"

definition request_new :: "str \<Rightarrow> operation \<Rightarrow> ipc_request" where
  "request_new token operation =
     \<lparr>rq_protocol_version = PROTOCOL_VERSION, rq_token = token, rq_op = operation, rq_content = None\<rparr>"

definition request_apply :: "str \<Rightarrow> str \<Rightarrow> ipc_request" where
  "request_apply token content =
     \<lparr>rq_protocol_version = PROTOCOL_VERSION, rq_token = token, rq_op = ApplyTrustedCaKeys,
      rq_content = Some content\<rparr>"

datatype ipc_outcome = OutOk | OutApplied | OutRolledBack | OutNotModified | OutUnhealthy

record ipc_response =
  rs_ok :: bool
  rs_outcome :: ipc_outcome
  rs_helper_version :: "str option"
  rs_detail :: "str option"

definition response_success :: "ipc_outcome \<Rightarrow> ipc_response" where
  "response_success out = \<lparr>rs_ok = True, rs_outcome = out, rs_helper_version = None, rs_detail = None\<rparr>"

definition response_failure :: "ipc_outcome \<Rightarrow> str \<Rightarrow> ipc_response" where
  "response_failure out detail = \<lparr>rs_ok = False, rs_outcome = out, rs_helper_version = None, rs_detail = Some detail\<rparr>"

definition encode_request :: "(ipc_request \<Rightarrow> bytes option) \<Rightarrow> ipc_request \<Rightarrow> bytes res" where
  "encode_request enc rq = ok_or (enc rq) HelperProtocol"

definition decode_request :: "(bytes \<Rightarrow> ipc_request option) \<Rightarrow> bytes \<Rightarrow> ipc_request res" where
  "decode_request dec bs = ok_or (dec bs) HelperProtocol"

definition encode_response :: "(ipc_response \<Rightarrow> bytes option) \<Rightarrow> ipc_response \<Rightarrow> bytes res" where
  "encode_response enc resp = ok_or (enc resp) HelperProtocol"

definition decode_response :: "(bytes \<Rightarrow> ipc_response option) \<Rightarrow> bytes \<Rightarrow> ipc_response res" where
  "decode_response dec bs = ok_or (dec bs) HelperProtocol"

definition to_be_bytes :: "u32 \<Rightarrow> bytes" where
  "to_be_bytes n = [ucast (drop_bit 24 n), ucast (drop_bit 16 n), ucast (drop_bit 8 n), ucast n]"

fun from_be_bytes :: "bytes \<Rightarrow> u32" where
  "from_be_bytes bs = foldl (\<lambda>n b. push_bit 8 n OR ucast b) 0 bs"

text \<open>\<open>write_all\<close> on the connection, after \<open>sent\<close> bytes have been written.\<close>

definition stream_write :: "helper_conn \<Rightarrow> bytes \<Rightarrow> bytes \<Rightarrow> bool \<times> bytes" where
  "stream_write conn bs sent =
     (case conn_capacity conn of
        None \<Rightarrow> (True, sent @ bs)
      | Some n \<Rightarrow> if length (sent @ bs) \<le> n then (True, sent @ bs) else (False, take n (sent @ bs)))"

definition write_frame :: "helper_conn \<Rightarrow> bytes \<Rightarrow> unit res \<times> bytes" where
  "write_frame conn body =
     (if length body > MAX_BODY_BYTES then (Inl HelperProtocol, [])
      else if length body \<ge> 2 ^ 32 then (Inl HelperProtocol, [])
      else (case stream_write conn (to_be_bytes (of_nat (length body))) [] of
              (False, sent) \<Rightarrow> (Inl HelperUnavailable, sent)
            | (True, sent) \<Rightarrow>
                (case stream_write conn body sent of
                   (False, sent') \<Rightarrow> (Inl HelperUnavailable, sent')
                 | (True, sent') \<Rightarrow> (if conn_flush conn then Inr () else Inl HelperUnavailable, sent'))))"

text \<open>\<open>read_exact\<close>: the wanted number of bytes and the rest, or nothing.\<close>

definition read_exact :: "nat \<Rightarrow> bytes \<Rightarrow> (bytes \<times> bytes) option" where
  "read_exact n bs = (if n \<le> length bs then Some (take n bs, drop n bs) else None)"

definition read_frame :: "bytes \<Rightarrow> (bytes \<times> bytes) res" where
  "read_frame bs =
     bind_res (ok_or (read_exact 4 bs) HelperUnavailable) (\<lambda>(len_buf, rest).
     let len = unat (from_be_bytes len_buf)
     in if len > MAX_BODY_BYTES then Inl HelperProtocol
        else ok_or (read_exact len rest) HelperUnavailable)"

definition constant_time_eq :: "bytes \<Rightarrow> bytes \<Rightarrow> bool" where
  "constant_time_eq a b =
     (if length a \<noteq> length b then False
      else foldl (\<lambda>diff (x, y). diff OR (x XOR y)) 0 (zip a b) = 0)"

section \<open>Properties\<close>

interpretation token: exact_eq constant_time_eq
  by unfold_locales (simp add: constant_time_eq_def scan.exact [unfolded scan_equal_def])

text \<open>
  The comparison of tokens, which looks at every byte whatever it has seen, decides
  equality.
\<close>

theorem constant_time_eq_correct: "constant_time_eq a b \<longleftrightarrow> a = b"
  by (rule token.exact)

lemma be_bytes_inverse: "from_be_bytes (to_be_bytes n) = n"
proof (rule bit_word_eqI)
  fix i
  assume "i < LENGTH(32)"
  then have "i < 8 \<or> 8 \<le> i \<and> i < 16 \<or> 16 \<le> i \<and> i < 24 \<or> 24 \<le> i \<and> i < 32" by auto
  then show "bit (from_be_bytes (to_be_bytes n)) i \<longleftrightarrow> bit n i"
    by (elim disjE) (auto simp: to_be_bytes_def bit_or_iff bit_push_bit_iff bit_ucast_iff bit_drop_bit_eq)
qed

lemma be_bytes_surj:
  assumes "length bs = 4"
  shows "to_be_bytes (from_be_bytes bs) = bs"
proof -
  obtain a b c d where bs: "bs = [a, b, c, d]"
    using assms by (auto simp: numeral_eq_Suc length_Suc_conv)
  have hi: "\<not> bit (x :: u8) (8 + n)" "\<not> bit x (16 + n)" "\<not> bit x (24 + n)" for x n
    by (auto dest: bit_imp_le_length)
  show ?thesis
    unfolding bs
    by (auto simp: to_be_bytes_def hi bit_or_iff bit_push_bit_iff bit_ucast_iff bit_drop_bit_eq intro!: bit_word_eqI)
qed

lemma length_to_be_bytes [simp]: "length (to_be_bytes n) = 4"
  by (simp add: to_be_bytes_def)

definition frame :: "bytes \<Rightarrow> bytes" where
  "frame body = to_be_bytes (of_nat (length body)) @ body"

lemma frame_length [simp]: "length (frame body) = 4 + length body"
  by (simp add: frame_def)

lemma read_frame_frame:
  assumes "length body \<le> MAX_BODY_BYTES"
  shows "read_frame (frame body @ rest) = Inr (body, rest)"
proof -
  have "length body < 2 ^ 32" using assms by (simp add: MAX_BODY_BYTES_def)
  then have "unat (of_nat (length body) :: u32) = length body" by (simp add: unat_of_nat)
  then show ?thesis
    using assms be_bytes_inverse [of "of_nat (length body)"]
    by (simp add: read_frame_def read_exact_def frame_def del: from_be_bytes.simps)
qed

lemma read_frame_only:
  assumes "read_frame bs = Inr (body, rest)"
  shows "bs = frame body @ rest \<and> length body \<le> MAX_BODY_BYTES"
proof -
  from assms have len: "4 \<le> length bs" by (auto simp: read_frame_def read_exact_def split: if_splits)
  define n where "n = from_be_bytes (take 4 bs)"
  from assms len have n: "unat n \<le> MAX_BODY_BYTES" "unat n \<le> length (drop 4 bs)"
      "body = take (unat n) (drop 4 bs)" "rest = drop (unat n) (drop 4 bs)"
    by (auto simp: read_frame_def read_exact_def n_def Let_def ok_or_def split: if_splits simp del: from_be_bytes.simps)
  have "to_be_bytes n = take 4 bs" unfolding n_def using len by (intro be_bytes_surj) simp
  moreover have "of_nat (length body) = n" using n(2,3) by simp
  ultimately have "frame body @ rest = take 4 bs @ body @ rest" by (simp add: frame_def)
  also have "body @ rest = drop 4 bs" using n(3,4) append_take_drop_id by metis
  finally show ?thesis using n(1-3) by simp
qed

interpretation frames: codec "\<lambda>body. length body \<le> MAX_BODY_BYTES" frame
    "\<lambda>bs. case read_frame bs of Inr (body, []) \<Rightarrow> Some body | _ \<Rightarrow> None"
  by unfold_locales (use read_frame_frame [of _ "[]"] in auto)

text \<open>
  C31. Framing round trip: on a stream the reader gets a body and the rest exactly when
  the stream starts with the frame of that body and the body is within the limit, so a
  frame is read as it was written, frames can follow each other, and nothing else is
  taken for a frame.
\<close>

theorem read_frame_correct:
  "read_frame bs = Inr (body, rest) \<longleftrightarrow> bs = frame body @ rest \<and> length body \<le> MAX_BODY_BYTES"
  using read_frame_only read_frame_frame by blast

lemma write_frame_Inr:
  "write_frame conn body = (Inr (), sent) \<Longrightarrow> sent = frame body \<and> length body \<le> MAX_BODY_BYTES"
  by (auto simp: write_frame_def stream_write_def frame_def split: if_splits option.splits)

lemma stream_write_take:
  "stream_write conn bs sent = (ok, sent') \<Longrightarrow> (\<exists>n. sent' = take n (sent @ bs)) \<and> (ok \<longrightarrow> sent' = sent @ bs)"
  by (auto simp: stream_write_def split: option.splits if_splits intro: exI [of _ "length sent + length bs"])

lemma write_frame_prefix:
  assumes "write_frame conn body = (r, sent)"
  shows "\<exists>n. sent = take n (frame body)"
proof -
  let ?h = "to_be_bytes (of_nat (length body))"
  obtain ok1 s1 where 1: "stream_write conn ?h [] = (ok1, s1)" by fastforce
  obtain ok2 s2 where 2: "stream_write conn body s1 = (ok2, s2)" by fastforce
  from stream_write_take [OF 1] obtain n1 where s1: "s1 = take n1 ?h" "ok1 \<longrightarrow> s1 = ?h"
    unfolding append_Nil by blast
  from stream_write_take [OF 2] obtain n2 where s2: "s2 = take n2 (s1 @ body)" by auto
  have h: "take n1 ?h = take (min n1 4) (frame body)"
    by (simp add: frame_def min_def)
  have "sent = [] \<or> sent = s1 \<or> ok1 \<and> sent = s2"
    using assms 1 2 by (auto simp: write_frame_def split: if_splits bool.splits)
  then show ?thesis
  proof (elim disjE conjE)
    assume "sent = []"
    then show ?thesis by (intro exI [of _ 0]) simp
  next
    assume "sent = s1"
    with s1(1) h show ?thesis by metis
  next
    assume "ok1" and "sent = s2"
    with s1(2) s2 show ?thesis by (auto simp: frame_def)
  qed
qed

end
