(* ===== verification/Ipc_Client.thy ===== *)
theory Ipc_Client
  imports Ca_Sync Ipc_Protocol
begin

text \<open>
  \<open>src/ipc/client.rs\<close>: the client of the privileged helper, one connection per call, and
  the production implementation of the port \<open>BundleApplier\<close>. With it the contract of the
  port holds, and the properties of a synchronisation pass are stated for the agent as it
  runs.
\<close>

section \<open>Definitions\<close>

record helper_client =
  hc_socket_path :: path
  hc_token :: str

definition helper_client_new :: "path \<Rightarrow> str \<Rightarrow> helper_client" where
  "helper_client_new socket_path token = \<lparr>hc_socket_path = socket_path, hc_token = token\<rparr>"

definition from_paths :: "path \<Rightarrow> path \<Rightarrow> helper_client io" where
  "from_paths socket_path token_path =
     bind_io (map_err_io Io (sys_read_to_string (components token_path))) (\<lambda>token.
     return_io (helper_client_new socket_path (trim token)))"

text \<open>
  One call: connect, set the timeouts, encode, write the frame, read the answer. The bytes
  written are an event of the world, also when the write fails half way. The final drain
  of the source reads no byte (it is limited to zero).
\<close>

definition helper_call ::
    "(ipc_request \<Rightarrow> bytes option) \<Rightarrow> (bytes \<Rightarrow> ipc_response option) \<Rightarrow> helper_client
     \<Rightarrow> ipc_request \<Rightarrow> ipc_response io" where
  "helper_call enc dec client request w =
     (case helper w (tick w) (hc_socket_path client) of
        None \<Rightarrow> (Inl HelperUnavailable, advance w)
      | Some conn \<Rightarrow>
          if \<not> conn_timeouts conn then (Inl HelperUnavailable, advance w)
          else (case encode_request enc request of
                  Inl e \<Rightarrow> (Inl e, advance w)
                | Inr body \<Rightarrow>
                    (case write_frame conn body of
                       (r, sent) \<Rightarrow>
                         (let w' = (advance w)\<lparr>trace := trace w @ [HelperSent (hc_socket_path client) sent]\<rparr>
                          in case r of
                               Inl e \<Rightarrow> (Inl e, w')
                             | Inr _ \<Rightarrow>
                                 (bind_res (read_frame (conn_reply conn sent)) (\<lambda>(response_body, _).
                                    decode_response dec response_body), w')))))"

definition check_ok :: "ipc_response \<Rightarrow> ipc_outcome res" where
  "check_ok resp =
     (if rs_ok resp then Inr (rs_outcome resp)
      else if rs_detail resp = Some (lit ''unauthenticated'') then Inl HelperUnauthenticated
      else Inl HelperOperationFailed)"

definition helper_ping ::
    "(ipc_request \<Rightarrow> bytes option) \<Rightarrow> (bytes \<Rightarrow> ipc_response option) \<Rightarrow> helper_client \<Rightarrow> str io" where
  "helper_ping enc dec client =
     bind_io (helper_call enc dec client (request_new (hc_token client) Ping)) (\<lambda>resp.
     bind_io (lift_res (check_ok resp)) (\<lambda>_.
     lift_res (ok_or (rs_helper_version resp) HelperOperationFailed)))"

definition ensure_directories ::
    "(ipc_request \<Rightarrow> bytes option) \<Rightarrow> (bytes \<Rightarrow> ipc_response option) \<Rightarrow> helper_client \<Rightarrow> unit io" where
  "ensure_directories enc dec client =
     bind_io (helper_call enc dec client (request_new (hc_token client) EnsureDirectories)) (\<lambda>resp.
     lift_res (bind_res (check_ok resp) (\<lambda>_. Inr ())))"

definition install_sshd_dropin ::
    "(ipc_request \<Rightarrow> bytes option) \<Rightarrow> (bytes \<Rightarrow> ipc_response option) \<Rightarrow> helper_client \<Rightarrow> ipc_outcome io" where
  "install_sshd_dropin enc dec client =
     bind_io (helper_call enc dec client (request_new (hc_token client) InstallSshdDropin)) (\<lambda>resp.
     lift_res (check_ok resp))"

definition apply_trusted_ca_keys ::
    "(ipc_request \<Rightarrow> bytes option) \<Rightarrow> (bytes \<Rightarrow> ipc_response option) \<Rightarrow> helper_client \<Rightarrow> str \<Rightarrow> ipc_outcome io" where
  "apply_trusted_ca_keys enc dec client content =
     bind_io (helper_call enc dec client (request_apply (hc_token client) content)) (\<lambda>resp.
     lift_res (check_ok resp))"

definition apply_verdict :: "ipc_response \<Rightarrow> bundle_apply_outcome res" where
  "apply_verdict resp =
     (if rs_ok resp then Inr BundleApplied
      else if rs_detail resp = Some (lit ''unauthenticated'') then Inl HelperUnauthenticated
      else if rs_outcome resp = OutRolledBack then Inr BundleRolledBack
      else Inl HelperOperationFailed)"

definition apply_bundle ::
    "(ipc_request \<Rightarrow> bytes option) \<Rightarrow> (bytes \<Rightarrow> ipc_response option) \<Rightarrow> helper_client \<Rightarrow> str
     \<Rightarrow> bundle_apply_outcome io" where
  "apply_bundle enc dec client content =
     bind_io (helper_call enc dec client (request_apply (hc_token client) content)) (\<lambda>resp.
     lift_res (apply_verdict resp))"

definition verify_state ::
    "(ipc_request \<Rightarrow> bytes option) \<Rightarrow> (bytes \<Rightarrow> ipc_response option) \<Rightarrow> helper_client \<Rightarrow> unit io" where
  "verify_state enc dec client =
     bind_io (helper_call enc dec client (request_new (hc_token client) VerifyState)) (\<lambda>resp.
     lift_res (bind_res (check_ok resp) (\<lambda>_. Inr ())))"

record helper_bundle_applier =
  hba_socket_path :: path
  hba_token_path :: path

definition helper_applier_new :: "path \<Rightarrow> path \<Rightarrow> helper_bundle_applier" where
  "helper_applier_new socket_path token_path = \<lparr>hba_socket_path = socket_path, hba_token_path = token_path\<rparr>"

definition helper_apply ::
    "(ipc_request \<Rightarrow> bytes option) \<Rightarrow> (bytes \<Rightarrow> ipc_response option) \<Rightarrow> helper_bundle_applier \<Rightarrow> applier" where
  "helper_apply enc dec a trusted_ca_keys =
     bind_io (from_paths (hba_socket_path a) (hba_token_path a)) (\<lambda>client.
     apply_bundle enc dec client trusted_ca_keys)"

section \<open>What a call does\<close>

definition frame_sent :: "(ipc_request \<Rightarrow> bytes option) \<Rightarrow> path \<Rightarrow> ipc_request \<Rightarrow> event \<Rightarrow> bool" where
  "frame_sent enc socket rq e \<longleftrightarrow> (\<exists>body n. enc rq = Some body \<and> e = HelperSent socket (take n (frame body)))"

lemma helper_call_keeps:
  "keeps P (frame_sent enc (hc_socket_path client) rq) (helper_call enc dec client rq)"
proof -
  have *: "confined P (frame_sent enc (hc_socket_path client) rq) w
      ((advance w)\<lparr>trace := trace w @ [HelperSent (hc_socket_path client) sent]\<rparr>)"
    if "enc rq = Some body" "write_frame conn body = (r, sent)" for w conn body r sent
    using write_frame_prefix [OF that(2)] that(1)
    by (auto simp: confined_def same_env_def event_ok_def frame_sent_def)
  then show ?thesis
    unfolding keeps_def helper_call_def
    by (auto simp: Let_def encode_request_def ok_or_def split: option.splits prod.splits sum.splits)
qed

text \<open>What the helper is sent when a body is applied: (part of) the frame of one apply request.\<close>

definition apply_sends ::
    "(ipc_request \<Rightarrow> bytes option) \<Rightarrow> helper_bundle_applier \<Rightarrow> str \<Rightarrow> event \<Rightarrow> bool" where
  "apply_sends enc a body e \<longleftrightarrow> (\<exists>token. frame_sent enc (hba_socket_path a) (request_apply token body) e)"

lemma from_paths_keeps [intro]: "keeps P Q (from_paths s t)"
  unfolding from_paths_def by auto

interpretation helper: bundle_applier "helper_apply enc dec a" "apply_sends enc a" for enc dec a
proof
  fix body
  show "keeps (\<lambda>_ _. False) (apply_sends enc a body) (helper_apply enc dec a body)"
    unfolding keeps_def
  proof
    fix w
    obtain r w1 where fp: "from_paths (hba_socket_path a) (hba_token_path a) w = (r, w1)" by fastforce
    have 1: "confined (\<lambda>_ _. False) (apply_sends enc a body) w w1" using keepsD [OF from_paths_keeps fp] .
    show "confined (\<lambda>_ _. False) (apply_sends enc a body) w (snd (helper_apply enc dec a body w))"
    proof (cases r)
      case (Inl e)
      with 1 fp show ?thesis by (simp add: helper_apply_def bind_io_def)
    next
      case (Inr client)
      then have s: "hc_socket_path client = hba_socket_path a"
        using fp by (auto simp: from_paths_def helper_client_new_def bind_io_Inr)
      have "keeps (\<lambda>_ _. False) (apply_sends enc a body)
          (helper_call enc dec client (request_apply (hc_token client) body))"
        by (rule keeps_mono [OF helper_call_keeps]) (auto simp: apply_sends_def s)
      then have "keeps (\<lambda>_ _. False) (apply_sends enc a body) (apply_bundle enc dec client body)"
        unfolding apply_bundle_def by auto
      then have "confined (\<lambda>_ _. False) (apply_sends enc a body) w1 (snd (apply_bundle enc dec client body w1))"
        by (simp add: keeps_def)
      with confined_trans [OF 1 this] fp Inr show ?thesis by (simp add: helper_apply_def bind_io_def)
    qed
  qed
qed

lemma helper_call_Inr:
  assumes "helper_call enc dec client rq w = (Inr resp, w')"
  obtains conn body rbody rest where "helper w (tick w) (hc_socket_path client) = Some conn"
    "enc rq = Some body" "length body \<le> MAX_BODY_BYTES"
    "conn_reply conn (frame body) = frame rbody @ rest" "length rbody \<le> MAX_BODY_BYTES"
    "dec rbody = Some resp"
    "trace w' = trace w @ [HelperSent (hc_socket_path client) (frame body)]"
proof -
  from assms obtain conn where conn: "helper w (tick w) (hc_socket_path client) = Some conn" "conn_timeouts conn"
    by (auto simp: helper_call_def split: option.splits if_splits)
  with assms obtain body where body: "enc rq = Some body"
    by (auto simp: helper_call_def encode_request_def ok_or_def split: option.splits)
  obtain r sent where wf: "write_frame conn body = (r, sent)" by fastforce
  from assms conn body wf have r: "r = Inr ()"
    by (cases r) (auto simp: helper_call_def encode_request_def Let_def)
  note sent = write_frame_Inr [OF wf [unfolded r]]
  from assms conn body wf r obtain rbody rest where rf: "read_frame (conn_reply conn sent) = Inr (rbody, rest)"
      and dec: "dec rbody = Some resp" and tr: "trace w' = trace w @ [HelperSent (hc_socket_path client) sent]"
    by (auto simp: helper_call_def encode_request_def Let_def bind_res_eq_Inr decode_response_def)
  show ?thesis
    using that [OF conn(1) body] sent read_frame_only [OF rf] dec tr by blast
qed

lemma sys_read_to_string_Inr:
  assumes "sys_read_to_string k w = (Inr t, w')"
  obtains c where "read_of (fs w) k = Inr c" "from_utf8 c = Some t" "w' = advance w"
  using assms
  by (auto simp: sys_read_to_string_def bind_io_Inr sys_read_def sys_query_def split: option.splits)

lemma helper_apply_confirmed:
  assumes "helper_apply hreq hresp a content w = (Inr BundleApplied, w')"
  shows "\<exists>c t conn body rbody rest resp.
    read_of (fs w) (components (hba_token_path a)) = Inr c \<and> from_utf8 c = Some t
    \<and> hreq (request_apply (trim t) content) = Some body
    \<and> helper w (Suc (tick w)) (hba_socket_path a) = Some conn
    \<and> trace w' = trace w @ [HelperSent (hba_socket_path a) (frame body)]
    \<and> conn_reply conn (frame body) = frame rbody @ rest \<and> hresp rbody = Some resp \<and> rs_ok resp"
proof -
  from assms obtain client w1 resp where fp: "from_paths (hba_socket_path a) (hba_token_path a) w = (Inr client, w1)"
      and call: "helper_call hreq hresp client (request_apply (hc_token client) content) w1 = (Inr resp, w')"
      and v: "apply_verdict resp = Inr BundleApplied"
    by (auto simp: helper_apply_def apply_bundle_def bind_io_Inr)
  from fp obtain t where rd: "sys_read_to_string (components (hba_token_path a)) w = (Inr t, w1)"
      and client: "client = \<lparr>hc_socket_path = hba_socket_path a, hc_token = trim t\<rparr>"
    by (auto simp: from_paths_def helper_client_new_def bind_io_Inr map_err_io_def split: prod.splits)
  from rd obtain c where c: "read_of (fs w) (components (hba_token_path a)) = Inr c" "from_utf8 c = Some t"
      and w1: "w1 = advance w"
    by (rule sys_read_to_string_Inr)
  have ok: "rs_ok resp" using v by (auto simp: apply_verdict_def split: if_splits)
  from call show ?thesis
  proof (rule helper_call_Inr)
    fix conn body rbody rest
    assume "helper w1 (tick w1) (hc_socket_path client) = Some conn"
      and "hreq (request_apply (hc_token client) content) = Some body"
      and "conn_reply conn (frame body) = frame rbody @ rest" and "hresp rbody = Some resp"
      and "trace w' = trace w1 @ [HelperSent (hc_socket_path client) (frame body)]"
    with c ok w1 client show ?thesis by auto
  qed
qed

text \<open>
  C16. A bundle counts as applied only on the helper's word: if the applier reports success,
  the agent has written the complete frame of the apply request for exactly this body under
  the token of the token file, and has read back a complete frame that decodes to an answer
  whose \<open>ok\<close> is set.
\<close>

theorem applied_only_if_confirmed:
  assumes "helper_apply hreq hresp a content w = (Inr BundleApplied, w')"
  shows "\<exists>c t conn body rbody rest resp.
    read_of (fs w) (components (hba_token_path a)) = Inr c \<and> from_utf8 c = Some t
    \<and> hreq (request_apply (trim t) content) = Some body
    \<and> helper w (Suc (tick w)) (hba_socket_path a) = Some conn
    \<and> trace w' = trace w @ [HelperSent (hba_socket_path a) (frame body)]
    \<and> conn_reply conn (frame body) = frame rbody @ rest \<and> hresp rbody = Some resp \<and> rs_ok resp"
  using helper_apply_confirmed [OF assms] .

end
