(* ===== verification/History.thy ===== *)
theory History
  imports Ipc_Client
begin

text \<open>
  The trace of a run is its history: replaying the file system states in it from the state of
  the start gives the state of the end. With this a property can speak of the files at the
  moment at which a message was sent. Every operation of a synchronisation pass logs its run
  in this sense, and the lemmas say which messages it logs.
\<close>

section \<open>Replaying a trace\<close>

fun fs_after :: "fsmap \<Rightarrow> event list \<Rightarrow> fsmap" where
  "fs_after m [] = m"
| "fs_after m (FsNow m' # es) = fs_after m' es"
| "fs_after m (_ # es) = fs_after m es"

lemma fs_after_append [simp]: "fs_after m (es @ es') = fs_after (fs_after m es) es'"
  by (induction m es rule: fs_after.induct) simp_all

text \<open>From one world to a later one: the trace grows by events of the kind \<open>Q\<close> that replay to the files.\<close>

definition logged :: "(event \<Rightarrow> bool) \<Rightarrow> world \<Rightarrow> world \<Rightarrow> bool" where
  "logged Q w w' \<longleftrightarrow> same_env w w'
     \<and> (\<exists>es. trace w' = trace w @ es \<and> fs w' = fs_after (fs w) es \<and> (\<forall>e \<in> set es. is_message e \<longrightarrow> Q e))"

lemma logged_refl [simp]: "logged Q w w"
  by (simp add: logged_def)

lemma logged_advance [simp]: "logged Q w (advance w)"
  by (simp add: logged_def same_env_def)

lemma logged_trans:
  assumes "logged Q u v" and "logged Q v w"
  shows "logged Q u w"
proof -
  from assms obtain es es' where "trace v = trace u @ es" "fs v = fs_after (fs u) es" "\<forall>e \<in> set es. is_message e \<longrightarrow> Q e"
      "trace w = trace v @ es'" "fs w = fs_after (fs v) es'" "\<forall>e \<in> set es'. is_message e \<longrightarrow> Q e"
    by (auto simp: logged_def)
  with assms show ?thesis
    unfolding logged_def by (intro conjI exI [of _ "es @ es'"]) (auto intro: same_env_trans)
qed

lemma logged_mono: "logged Q u w \<Longrightarrow> (\<And>e. Q e \<Longrightarrow> Q' e) \<Longrightarrow> logged Q' u w"
  unfolding logged_def by blast

lemma logged_message:
  "is_message e \<Longrightarrow> Q e \<Longrightarrow> same_env w w' \<Longrightarrow> fs w' = fs w \<Longrightarrow> trace w' = trace w @ [e] \<Longrightarrow> logged Q w w'"
  unfolding logged_def by (intro conjI exI [of _ "[e]"]) (cases e; simp)+

text \<open>A computation logs its run.\<close>

definition logs :: "(event \<Rightarrow> bool) \<Rightarrow> ('e, 'a) comp \<Rightarrow> bool" where
  "logs Q m \<longleftrightarrow> (\<forall>w. logged Q w (snd (m w)))"

lemma logsD: "logs Q m \<Longrightarrow> m w = (r, w') \<Longrightarrow> logged Q w w'"
  unfolding logs_def by (metis snd_conv)

lemma logsI: "(\<And>w r w'. m w = (r, w') \<Longrightarrow> logged Q w w') \<Longrightarrow> logs Q m"
  unfolding logs_def by (metis prod.collapse)

lemma logs_bind [intro]:
  assumes "logs Q m" and "\<And>a. logs Q (k a)"
  shows "logs Q (bind_io m k)"
proof (rule logsI)
  fix w r w'
  assume "bind_io m k w = (r, w')"
  then show "logged Q w w'"
  proof (cases rule: bind_io_cases)
    case (err e)
    with logsD [OF assms(1)] show ?thesis by blast
  next
    case (ok a w1)
    with logsD [OF assms(1)] logsD [OF assms(2)] show ?thesis by (blast intro: logged_trans)
  qed
qed

lemma logs_lift [intro]: "logs Q (lift_res r)"
  by (simp add: logs_def)

lemma logs_return [intro]: "logs Q (return_io r)"
  by (simp add: logs_def)

lemma logs_if [intro]: "logs Q a \<Longrightarrow> logs Q b \<Longrightarrow> logs Q (if c then a else b)"
  by simp

lemma logs_map_err [intro]: "logs Q m \<Longrightarrow> logs Q (map_err_io f m)"
  by (auto simp: logs_def map_err_io_def split: prod.splits) (metis snd_conv)

lemma logs_query [intro]: "logs Q (sys_query f)"
  by (auto simp: logs_def sys_query_def split: option.splits)

lemma logs_update [intro]: "logs Q (sys_update f)"
proof (rule logsI)
  fix w :: world and r w'
  assume "sys_update f w = (r, w')"
  then show "logged Q w w'"
  proof (cases rule: sys_update_cases)
    case (upd m)
    then show ?thesis unfolding logged_def by (intro conjI exI [of _ "[FsNow m]"]) (simp_all add: same_env_def)
  qed simp
qed

lemma logs_read [intro]: "logs Q (sys_read k)" "logs Q (sys_read_to_string k)" "logs Q (sys_stat k)" "logs Q (sys_fsync k)"
  by (auto simp: sys_read_def sys_read_to_string_def sys_stat_def sys_fsync_def)

lemma logs_exchange: "Q (Sent meth rq) \<Longrightarrow> logs Q (http_exchange meth rq e)"
  by (rule logsI) (auto simp: http_exchange_def same_env_def intro!: logged_message [of "Sent meth rq"])

lemma logs_now [intro]: "logs Q now_io"
  by (simp add: logs_def now_io_def clock_now_def)

section \<open>The operations of a pass\<close>

lemma logs_secure_write [intro]: "logs Q (secure_write p c mode)"
proof (rule logsI)
  fix w r w'
  assume run: "secure_write p c mode w = (r, w')"
  show "logged Q w w'"
  proof (cases "parent_of p")
    case (Inl e)
    with run show ?thesis by (simp add: secure_write_def)
  next
    case (Inr d)
    let ?k = "tmp_key d w"
    have fill: "logs Q (fill_temp ?k c mode)"
      unfolding fill_temp_def sys_chmod_def sys_write_all_def by (intro logs_bind logs_update logs_query logs_read)
    have repl: "logs Q (atomic_replace ?k p)"
      unfolding atomic_replace_def fsync_dir_def sys_rename_def
      by (intro logs_bind logs_lift logs_map_err logs_update logs_read)
    obtain r1 w1 where 1: "sys_create_new d ?k MODE_SECRET (euid w) w = (r1, w1)" by fastforce
    have "logs Q (sys_create_new d ?k MODE_SECRET (euid w))" unfolding sys_create_new_def by (rule logs_update)
    note l1 = logsD [OF this 1]
    obtain r2 w2 where 2: "fill_temp ?k c mode w1 = (r2, w2)" by fastforce
    note l2 = logged_trans [OF l1 logsD [OF fill 2]]
    have undo: "logged Q w2 (sys_unlink_quiet ?k w2)"
      unfolding sys_unlink_quiet_def by (rule logsD [OF logs_update surjective_pairing])
    obtain r3 w3 where 3: "atomic_replace ?k p w2 = (r3, w3)" by fastforce
    from run Inr 1 2 3 l1 logged_trans [OF l2 undo] logged_trans [OF l2 logsD [OF repl 3]] show ?thesis
      by (cases r1; cases r2) (simp_all add: secure_write_def Let_def)
  qed
qed

lemma logs_write_timestamp [intro]: "logs Q (write_timestamp L p)"
  unfolding write_timestamp_def by auto

lemma logs_read_optional [intro]: "logs Q (read_optional p)"
  using logs_read(1) [of Q "components p"]
  by (auto simp: logs_def read_optional_def split: prod.splits sum.splits) (metis snd_conv)+

lemma logs_read_optional_string [intro]: "logs Q (read_optional_string p)"
  unfolding read_optional_string_def by (intro logs_bind logs_read_optional) (auto split: option.splits simp: Let_def)

lemma logs_load_state [intro]: "logs Q (load_state svc)"
  unfolding load_state_def read_generation_def
  by (intro logs_bind logs_read_optional_string logs_return) (auto split: option.splits)

lemma logs_persist_pin [intro]: "logs Q (persist_pin_if_needed svc b)"
  unfolding persist_pin_if_needed_def by (intro logs_if logs_bind logs_read_optional logs_return logs_secure_write)

lemma logs_persist_after_apply [intro]: "logs Q (persist_after_apply L svc b)"
  unfolding persist_after_apply_def write_generation_def write_fingerprint_def by auto

lemma logs_sync_sign [intro]: "logs Q (sync_sign L svc m p body)"
  unfolding sync_sign_def
  by (intro logs_bind logs_now logs_lift) (simp add: logs_def nonce_io_def generate_nonce_def random_bytes_def)

text \<open>The requests of a pass: the fetch, and the acknowledgement at its own path.\<close>

definition pass_request :: "ca_sync_service \<Rightarrow> event \<Rightarrow> bool" where
  "pass_request svc e \<longleftrightarrow> (\<forall>rq. e = Sent POST rq \<longrightarrow> req_url rq = join_url (cs_server_url svc) CA_BUNDLE_ACK_PATH)"

lemma logs_fetch [intro]: "logs (pass_request svc) (fetch_bundle L svc f)"
  unfolding fetch_bundle_def Let_def bundle_get_def
  by (intro logs_bind logs_sync_sign logs_exchange) (simp add: pass_request_def)

lemma logs_acknowledge [intro]: "logs (pass_request svc) (acknowledge L enc svc report)"
proof -
  have "logs (pass_request svc) (try_acknowledge L enc svc report)"
    unfolding try_acknowledge_def bundle_post_def
    by (intro logs_bind logs_lift logs_sync_sign logs_exchange) (simp add: pass_request_def)
  then show ?thesis
    by (auto simp: logs_def acknowledge_def split: prod.splits sum.splits) (metis snd_conv)+
qed

lemma logs_helper_call: "(\<And>bs. Q (HelperSent (hc_socket_path client) bs)) \<Longrightarrow> logs Q (helper_call enc dec client rq)"
  by (rule logsI)
     (auto simp: helper_call_def Let_def same_env_def split: option.splits prod.splits sum.splits if_splits
       intro!: logged_message)

lemma logs_helper_apply: "(\<And>s bs. Q (HelperSent s bs)) \<Longrightarrow> logs Q (helper_apply enc dec a body)"
  unfolding helper_apply_def from_paths_def apply_bundle_def
  by (intro logs_bind logs_map_err logs_read logs_return logs_helper_call logs_lift)

lemma logs_sync_finish:
  assumes "\<And>body. logs (pass_request svc) (A body)"
  shows "logs (pass_request svc) (sync_finish L enc A svc b)"
  unfolding sync_finish_def sync_apply_def Let_def
  by (intro logs_bind logs_lift logs_return assms) (auto split: apply_result.splits)

lemma logs_synchronize:
  assumes "\<And>body. logs (pass_request svc) (A body)"
  shows "logs (pass_request svc) (synchronize L dec enc A svc)"
  unfolding synchronize_def sync_respond_def
  by (intro logs_bind logs_if logs_lift logs_return logs_now logs_load_state logs_fetch logs_write_timestamp
      logs_persist_pin logs_sync_finish assms)

lemma logs_pass: "logs (pass_request svc) (synchronize L dec enc (helper_apply hreq hresp a) svc)"
  by (intro logs_synchronize logs_helper_apply) (simp add: pass_request_def)

end
