(* ===== verification/Sync_Safety.thy ===== *)
theory Sync_Safety
  imports History
begin

text \<open>
  The safety of synchronisation as the agent runs it: \<open>CaSyncService::synchronize\<close> with the
  helper as its applier, against an arbitrary server, clock, helper and disk. The lemmas
  come from the locale \<open>bundle_applier\<close>, which the helper client interprets.
\<close>

section \<open>Runs of the agent\<close>

text \<open>
  One step of a run: a whole pass; a pass cut off by a crash, which leaves one of the file
  system states the pass went through; or anything that leaves the files alone (a restart,
  the passing of time, a different server).
\<close>

inductive sync_step ::
    "libs \<Rightarrow> (bytes \<Rightarrow> ca_bundle_response option) \<Rightarrow> (ack_report \<Rightarrow> bytes option)
     \<Rightarrow> (ipc_request \<Rightarrow> bytes option) \<Rightarrow> (bytes \<Rightarrow> ipc_response option) \<Rightarrow> helper_bundle_applier
     \<Rightarrow> ca_sync_service \<Rightarrow> world \<Rightarrow> world \<Rightarrow> bool"
  for L dec enc hreq hresp a svc where
  pass: "state_paths_ok svc \<Longrightarrow> honest w \<Longrightarrow> no_links svc (fs w)
    \<Longrightarrow> synchronize L dec enc (helper_apply hreq hresp a) svc w = (r, w')
    \<Longrightarrow> sync_step L dec enc hreq hresp a svc w w'"
| crash: "state_paths_ok svc \<Longrightarrow> honest w \<Longrightarrow> no_links svc (fs w)
    \<Longrightarrow> synchronize L dec enc (helper_apply hreq hresp a) svc w = (r, w')
    \<Longrightarrow> trace w' = trace w @ es \<Longrightarrow> FsNow m \<in> set es \<Longrightarrow> fs w'' = m
    \<Longrightarrow> sync_step L dec enc hreq hresp a svc w w''"
| environment: "fs w' = fs w \<Longrightarrow> sync_step L dec enc hreq hresp a svc w w'"

lemma pass_moments:
  assumes "state_paths_ok svc" "honest w" "no_links svc (fs w)"
    and "synchronize L dec enc (helper_apply hreq hresp a) svc w = (r, w')"
    and "trace w' = trace w @ es" and "m = fs w' \<or> FsNow m \<in> set es"
  shows "generation_level (stored_generation svc (fs w)) \<le> generation_level (stored_generation svc m)"
proof -
  have "pin_kept svc True w" by (simp add: pin_kept_def)
  from helper.synchronize_within [OF assms(1,2) this assms(4)]
  have "fs_change (sync_writes svc (accepted L (key_in_force svc (fs w))) (generation_level (stored_generation svc (fs w))) True) (fs w) m"
    using assms(5,6) by (auto elim!: confined_moments)
  then show ?thesis by (rule generation_after_change [OF assms(1), rotated]) (rule no_links_generation [OF assms(3)])
qed

lemma synchronize_trace:
  assumes "state_paths_ok svc" "honest w"
    and "synchronize L dec enc (helper_apply hreq hresp a) svc w = (r, w')"
  obtains es where "trace w' = trace w @ es"
proof -
  have "pin_kept svc True w" by (simp add: pin_kept_def)
  from helper.synchronize_within [OF assms(1,2) this assms(3)] show ?thesis
    using that by (auto elim: confined_moments)
qed

interpretation generations: ratchet "sync_step L dec enc hreq hresp a svc"
    "\<lambda>w. generation_level (stored_generation svc (fs w))" for L dec enc hreq hresp a svc
proof
  fix w w'
  assume "sync_step L dec enc hreq hresp a svc w w'"
  then show "generation_level (stored_generation svc (fs w)) \<le> generation_level (stored_generation svc (fs w'))"
  proof cases
    case (pass r)
    obtain es where "trace w' = trace w @ es" using synchronize_trace [OF pass(1,2,4)] .
    with pass_moments [OF pass(1-4)] show ?thesis by blast
  next
    case (crash r w1 es)
    with pass_moments [OF crash(1-5)] show ?thesis by blast
  qed simp
qed

text \<open>
  Downgrade resistance: over any run of passes, crashes in the middle of a pass and
  restarts, against any server, helper, clock and disk faults, the stored generation never
  goes back.
\<close>

theorem generation_never_regresses:
  assumes "(sync_step L dec enc hreq hresp a svc)\<^sup>*\<^sup>* w w'"
  shows "generation_level (stored_generation svc (fs w)) \<le> generation_level (stored_generation svc (fs w'))"
  using assms by (rule generations.run_le)

text \<open>
  C5. The helper is only ever asked to install authenticated content: whatever a pass sends
  to the helper's socket is (part of) one apply request whose body is the rendering of a
  bundle that the gate accepted under the operator's pin or else the stored pin, and whose
  generation is at least the stored one.
\<close>

theorem helper_gets_authentic_bundles_only:
  assumes "state_paths_ok svc" and "honest w"
    and "synchronize L dec enc (helper_apply hreq hresp a) svc w = (r, w')"
    and "trace w' = trace w @ es" and "HelperSent socket bs \<in> set es"
  shows "\<exists>raw now b token body n.
    authentic L raw (case cs_pinned_signing_key svc of Some k \<Rightarrow> Some k | None \<Rightarrow> stored_pin svc (fs w))
    \<and> well_formed L raw now \<and> b = bundle_of L raw
    \<and> generation_level (stored_generation svc (fs w)) \<le> unat (generation b)
    \<and> hreq (request_apply token (render_trusted_user_ca_keys b)) = Some body
    \<and> bs = take n (frame body) \<and> socket = hba_socket_path a"
proof -
  have "pin_kept svc True w" by (simp add: pin_kept_def)
  from helper.synchronize_within [OF assms(1,2) this assms(3)]
  have "sync_sends L (apply_sends hreq a)
      (case cs_pinned_signing_key svc of Some k \<Rightarrow> Some k | None \<Rightarrow> stored_pin svc (fs w))
      (generation_level (stored_generation svc (fs w))) (HelperSent socket bs)"
    using assms(4,5) by (auto elim!: confined_moments)
  then obtain raw now b token where
      b: "from_response L raw now (case cs_pinned_signing_key svc of Some k \<Rightarrow> Some k
            | None \<Rightarrow> stored_pin svc (fs w)) = Inr b"
        "generation_level (stored_generation svc (fs w)) \<le> unat (generation b)"
      and fr: "frame_sent hreq (hba_socket_path a) (request_apply token (render_trusted_user_ca_keys b)) (HelperSent socket bs)"
    by (auto simp: sync_sends_def apply_sends_def)
  with from_response_bundle [OF b(1)] show ?thesis
    unfolding frame_sent_def by blast
qed

lemma pass_keeps_pin:
  assumes "state_paths_ok svc" and "honest w"
    and "fs w (components (cs_signing_key_path svc)) = Some (NFile c mode u)"
    and "synchronize L dec enc (helper_apply hreq hresp a) svc w = (r, w')"
    and "trace w' = trace w @ es" and "m = fs w' \<or> FsNow m \<in> set es"
  shows "m (components (cs_signing_key_path svc)) = Some (NFile c mode u)"
proof -
  have "pin_kept svc False w" using assms(2,3) by (auto simp: pin_kept_def)
  from helper.synchronize_within [OF assms(1,2) this assms(4)]
  have "fs_change (sync_writes svc (accepted L (key_in_force svc (fs w))) (generation_level (stored_generation svc (fs w))) False) (fs w) m"
    using assms(5,6) by (auto elim!: confined_moments)
  with assms(1,3) show ?thesis
    by (auto simp: fs_change_def sync_writes_def state_paths_ok_def)
qed

text \<open>
  C6. The pin is for ever: once the file of the pinned signing key exists, no pass changes
  it, at its end or at any moment of it, whatever keys the server presents.
\<close>

theorem pin_never_changes:
  assumes "state_paths_ok svc" and "honest w"
    and "fs w (components (cs_signing_key_path svc)) = Some (NFile c mode u)"
    and "synchronize L dec enc (helper_apply hreq hresp a) svc w = (r, w')"
    and "trace w' = trace w @ es" and "m = fs w' \<or> FsNow m \<in> set es"
  shows "m (components (cs_signing_key_path svc)) = Some (NFile c mode u)"
  using pass_keeps_pin [OF assms] .

text \<open>
  C14. A failed pass is harmless: if a pass fails for any reason but local storage (a
  transport or server error, a rejected bundle, an unreachable helper, a rollback), no file
  has changed but the time of the last attempt, so generation, fingerprint and pin stay.
\<close>

theorem failed_pass_keeps_state:
  assumes "synchronize L dec enc (helper_apply hreq hresp a) svc w = (Inl e, w')"
    and "\<not> storage_error e"
    and "\<not> is_tmp k" and "k \<noteq> components (cs_last_sync_path svc)"
  shows "fs w' k = fs w k"
  using helper.synchronize_error [OF assms(1,2)] assms(3,4) by (simp add: changes_only_def)

context bundle_applier
begin

text \<open>The steps of a pass that reports an update: up to the apply, the apply, and what follows it.\<close>

lemma sync_finish_path:
  assumes "sync_finish L enc A svc b w = (Inr out, w')"
  obtains acked w2 where "out = SyncUpdated (generation b) (fingerprint b) acked"
    "A (render_trusted_user_ca_keys b) w = (Inr BundleApplied, w2)" "logged (pass_request svc) w2 w'"
proof -
  from assms obtain res w2 where sa: "sync_apply A b w = (Inr res, w2)"
      and rest: "(case res of
         ApplyApplied \<Rightarrow>
           bind_io (persist_after_apply L svc b) (\<lambda>_.
           bind_io (acknowledge L enc svc
               \<lparr>ack_generation = generation b, ack_fingerprint = fingerprint b,
                ack_status = ACK_STATUS_APPLIED, ack_reason = None\<rparr>) (\<lambda>acknowledged.
           return_io (SyncUpdated (generation b) (fingerprint b) acknowledged)))
       | ApplyRolledBack \<Rightarrow>
           bind_io (acknowledge L enc svc
               \<lparr>ack_generation = generation b, ack_fingerprint = fingerprint b,
                ack_status = ACK_STATUS_ROLLBACK, ack_reason = Some ACK_ROLLBACK_REASON\<rparr>) (\<lambda>_.
           lift_res (Inl CaReloadFailed))) w2 = (Inr out, w')"
    unfolding sync_finish_def bind_io_Inr by blast
  from rest have res: "res = ApplyApplied" by (cases res) (auto simp: bind_io_Inr)
  with sa have ap: "A (render_trusted_user_ca_keys b) w = (Inr BundleApplied, w2)"
    by (auto elim!: sync_apply_Inr split: bundle_apply_outcome.splits)
  from rest res obtain w3 acked where 3: "persist_after_apply L svc b w2 = (Inr (), w3)"
      and 4: "acknowledge L enc svc \<lparr>ack_generation = generation b, ack_fingerprint = fingerprint b,
           ack_status = ACK_STATUS_APPLIED, ack_reason = None\<rparr> w3 = (Inr acked, w')"
      and out: "out = SyncUpdated (generation b) (fingerprint b) acked"
    by (auto simp: bind_io_Inr)
  from that [OF out ap logged_trans [OF logsD [OF logs_persist_after_apply 3] logsD [OF logs_acknowledge 4]]] show ?thesis .
qed

lemma sync_respond_path:
  assumes "sync_respond L dec enc A svc ps resp w = (Inr (SyncUpdated g f acked), w')"
  obtains raw now b w1 where "from_response L raw now (expected_signing_key svc ps) = Inr b"
    "logged (pass_request svc) w w1" "changes_only {cs_last_sync_path svc} w w1"
    "sync_finish L enc A svc b w1 = (Inr (SyncUpdated g f acked), w')"
proof -
  from assms obtain w1 where t: "write_timestamp L (cs_last_sync_path svc) w = (Inr (), w1)"
    unfolding sync_respond_def by (auto simp: bind_io_Inr)
  have "resp_status resp \<noteq> STATUS_NOT_MODIFIED"
    using assms t unfolding sync_respond_def by (auto simp: bind_io_Inr)
  with assms t obtain raw b where "from_response L raw (clock w1 (tick w1)) (expected_signing_key svc ps) = Inr b"
      "sync_finish L enc A svc b (advance w1) = (Inr (SyncUpdated g f acked), w')"
    unfolding sync_respond_def by (auto simp: bind_io_Inr now_io_def clock_now_def split: if_splits)
  moreover have "changes_only {cs_last_sync_path svc} w (advance w1)"
    using write_timestamp_changes [OF t] by (simp add: changes_only_def)
  ultimately show ?thesis using that logged_trans [OF logsD [OF logs_write_timestamp t] logged_advance] by blast
qed

lemma synchronize_path:
  assumes "honest w" and "synchronize L dec enc A svc w = (Inr (SyncUpdated g f acked), w')"
  obtains raw now b w1 w2 where "from_response L raw now (key_in_force svc (fs w)) = Inr b" "generation b = g"
    "fingerprint b = f" "logged (pass_request svc) w w1" "changes_only {cs_last_sync_path svc} w w1"
    "A (render_trusted_user_ca_keys b) w1 = (Inr BundleApplied, w2)" "logged (pass_request svc) w2 w'"
proof -
  from assms(2) obtain ps v1 resp v2 where l: "load_state svc w = (Inr ps, v1)"
      and f: "fetch_bundle L svc (ps_fingerprint ps) v1 = (Inr resp, v2)"
      and s: "sync_respond L dec enc A svc ps resp v2 = (Inr (SyncUpdated g f acked), w')"
    unfolding synchronize_def bind_io_Inr by blast
  have key: "expected_signing_key svc ps = key_in_force svc (fs w)"
    using load_state_Inr [OF assms(1) l] by (simp add: expected_signing_key_def split: option.split)
  note 1 = logged_trans [OF logsD [OF logs_load_state l] logsD [OF logs_fetch f]]
  from s obtain raw now b w1 where b: "from_response L raw now (expected_signing_key svc ps) = Inr b"
      "logged (pass_request svc) v2 w1" "changes_only {cs_last_sync_path svc} v2 w1"
      "sync_finish L enc A svc b w1 = (Inr (SyncUpdated g f acked), w')"
    by (rule sync_respond_path)
  have 2: "changes_only {cs_last_sync_path svc} w w1"
    using load_changes [OF l] fetch_changes [OF f] b(3) by (blast intro: changes_only_trans changes_only_mono)
  from b(4) obtain acked' w2 where "SyncUpdated g f acked = SyncUpdated (generation b) (fingerprint b) acked'"
      "A (render_trusted_user_ca_keys b) w1 = (Inr BundleApplied, w2)" "logged (pass_request svc) w2 w'"
    by (rule sync_finish_path)
  with that b(1) logged_trans [OF 1 b(2)] 2 show ?thesis unfolding key by blast
qed

end

text \<open>
  C13. Success means what it says: when a pass reports an update, the state files hold the generation and
  the fingerprint of a bundle the gate accepted, and in this very pass the complete apply request
  with the rendering of that bundle was written to the helper, which answered it with success
  at a tick of the pass; up to that message no file had changed but the time of the last
  attempt. So a helper that never answers with success means that no pass reports an update.
\<close>

theorem updated_pass_persists:
  assumes "state_paths_ok svc" and "honest w" and "hex_ok L"
    and "synchronize L dec enc (helper_apply hreq hresp a) svc w = (Inr (SyncUpdated g f acked), w')"
  shows "stored_generation svc (fs w') = Some g \<and> stored_fingerprint svc (fs w') = Some f
    \<and> (\<exists>raw now b before later token body tk conn rbody rest resp.
         from_response L raw now (case cs_pinned_signing_key svc of Some k \<Rightarrow> Some k | None \<Rightarrow> stored_pin svc (fs w)) = Inr b
         \<and> generation b = g \<and> fingerprint b = f
         \<and> trace w' = trace w @ before @ HelperSent (hba_socket_path a) (frame body) # later
         \<and> hreq (request_apply token (render_trusted_user_ca_keys b)) = Some body
         \<and> tick w \<le> tk \<and> helper w tk (hba_socket_path a) = Some conn
         \<and> conn_reply conn (frame body) = frame rbody @ rest \<and> hresp rbody = Some resp \<and> rs_ok resp
         \<and> (\<forall>k. \<not> is_tmp k \<longrightarrow> k \<noteq> components (cs_last_sync_path svc) \<longrightarrow> fs_after (fs w) before k = fs w k))"
proof -
  from helper.synchronize_path [OF assms(2,4)] obtain raw now b w1 w2 where
      b: "from_response L raw now (key_in_force svc (fs w)) = Inr b" "generation b = g" "fingerprint b = f"
      and w1: "logged (pass_request svc) w w1" "changes_only {cs_last_sync_path svc} w w1"
      and ap: "helper_apply hreq hresp a (render_trusted_user_ca_keys b) w1 = (Inr BundleApplied, w2)"
      and w2: "logged (pass_request svc) w2 w'" .
  from helper_apply_confirmed [OF ap] obtain t conn body rbody rest resp where
      h: "hreq (request_apply (trim t) (render_trusted_user_ca_keys b)) = Some body"
        "helper w1 (Suc (tick w1)) (hba_socket_path a) = Some conn"
        "trace w2 = trace w1 @ [HelperSent (hba_socket_path a) (frame body)]"
        "conn_reply conn (frame body) = frame rbody @ rest" "hresp rbody = Some resp" "rs_ok resp"
    by blast
  from w1(1) obtain es where es: "trace w1 = trace w @ es" "fs w1 = fs_after (fs w) es"
      and env: "helper w1 = helper w" "tick w \<le> Suc (tick w1)"
    by (auto simp: logged_def same_env_def)
  from w2 obtain es' where "trace w' = trace w2 @ es'" by (auto simp: logged_def)
  with es(1) h(3) have "trace w' = trace w @ es @ HelperSent (hba_socket_path a) (frame body) # es'" by simp
  moreover have "\<forall>k. \<not> is_tmp k \<longrightarrow> k \<noteq> components (cs_last_sync_path svc) \<longrightarrow> fs_after (fs w) es k = fs w k"
    using w1(2) es(2) by (simp add: changes_only_def)
  moreover note helper.synchronize_updated [OF assms] b h(1,2,4-6) env
  ultimately show ?thesis unfolding env(1) by blast
qed

end
