(* ===== verification/Calm.thy ===== *)
theory Calm
  imports Security
begin

text \<open>
  A calm environment: no system call fails, and no file has a temporary name. In it a write
  into an existing directory succeeds and leaves the environment calm; the liveness lemmas of
  the components are chains of such writes.
\<close>

definition faultless :: "world \<Rightarrow> bool" where
  "faultless w \<longleftrightarrow> (\<forall>t. fault w t = None)"

lemma faultless_env: "faultless w \<Longrightarrow> same_env w w' \<Longrightarrow> faultless w'"
  by (simp add: faultless_def same_env_def)

definition calm :: "world \<Rightarrow> bool" where
  "calm w \<longleftrightarrow> faultless w \<and> (\<forall>k. is_tmp k \<longrightarrow> fs w k = None)"

text \<open>A set of files, each in an existing directory which is none of the files.\<close>

definition writable :: "path set \<Rightarrow> fsmap \<Rightarrow> bool" where
  "writable S m \<longleftrightarrow> (\<forall>p \<in> S. \<not> is_tmp (components p) \<and> (\<forall>mo u. m (components p) \<noteq> Some (NDir mo u))
     \<and> (\<exists>d mo u. parent_of p = Inr d \<and> m d = Some (NDir mo u)))"

lemma writable_update: "writable S m \<Longrightarrow> q \<in> S \<Longrightarrow> writable S (m(components q \<mapsto> NFile c mo u))"
  unfolding writable_def by (auto split: if_splits) (metis option.inject)+

lemma writable_add: "writable S m \<Longrightarrow> m k = None \<Longrightarrow> k \<notin> components ` S \<Longrightarrow> writable S (m(k \<mapsto> n))"
  unfolding writable_def by (auto split: if_splits) (metis option.distinct(1))+

lemma calm_faultless [dest]: "calm w \<Longrightarrow> faultless w"
  by (simp add: calm_def)

lemma calm_same:
  assumes "calm w" and "same_env w w'" and "fs w' = fs w"
  shows "calm w'"
  using assms faultless_env [of w w'] by (simp add: calm_def)

lemma calm_update:
  assumes "calm w" and "same_env w w'" and "fs w' = (fs w)(k := n)" and "\<not> is_tmp k"
  shows "calm w'"
  using assms faultless_env [of w w'] by (auto simp: calm_def)

lemma calm_advance [simp]: "calm (advance w) \<longleftrightarrow> calm w"
  by (simp add: calm_def faultless_def)

lemma secure_write_env: "secure_write p c mode w = (r, w') \<Longrightarrow> same_env w w'"
  using keepsD [OF secure_write_keeps [of "\<lambda>_ _. True" p c mode "\<lambda>_. True"]] confined_env by blast

lemma calm_write:
  assumes "calm w" and "writable S (fs w)" and "p \<in> S"
  obtains w' where "secure_write p c mode w = (Inr (), w')"
    and "fs w' = (fs w)(components p \<mapsto> NFile c mode (euid w))"
    and "calm w'" and "writable S (fs w')" and "same_env w w'"
proof -
  from assms(2,3) obtain d mo u where d: "parent_of p = Inr d" "fs w d = Some (NDir mo u)"
      and nt: "\<not> is_tmp (components p)" and nd: "\<And>mo u. fs w (components p) \<noteq> Some (NDir mo u)"
    by (auto simp: writable_def)
  have "\<And>t. fault w t = None" and "fs w (tmp_key d w) = None"
    using assms(1) by (simp_all add: calm_def faultless_def)
  from secure_write_ok [OF d this nd, of c mode]
  obtain w' where w': "secure_write p c mode w = (Inr (), w')"
      "fs w' = (fs w)(components p \<mapsto> NFile c mode (euid w))"
    by (metis prod.collapse)
  note env = secure_write_env [OF w'(1)]
  show ?thesis
    using that [OF w'] calm_update [OF assms(1) env w'(2) nt] writable_update [OF assms(2,3)] w'(2) env
    by simp
qed

end
