(* ===== verification/Sync_Liveness.thy ===== *)
theory Sync_Liveness
  imports Sync_Safety Calm
begin

text \<open>
  Synchronisation gets things done: on a calm machine, with a server that serves a newer
  authentic bundle and a helper that applies it, one pass installs the bundle and stores
  its generation. The same run is the concrete input of the safety properties.
\<close>

section \<open>The helper\<close>

definition helper_takes :: "(bytes \<Rightarrow> ipc_response option) \<Rightarrow> bytes \<Rightarrow> helper_conn \<Rightarrow> bool" where
  "helper_takes hresp body conn \<longleftrightarrow> conn_timeouts conn \<and> conn_capacity conn = None \<and> conn_flush conn
     \<and> (\<exists>rbody rest resp. conn_reply conn (frame body) = frame rbody @ rest \<and> length rbody \<le> MAX_BODY_BYTES
          \<and> hresp rbody = Some resp \<and> rs_ok resp)"

text \<open>The token can be read, the request for the content fits a frame, and every connection succeeds.\<close>

definition helper_ready ::
    "(ipc_request \<Rightarrow> bytes option) \<Rightarrow> (bytes \<Rightarrow> ipc_response option) \<Rightarrow> helper_bundle_applier \<Rightarrow> str
     \<Rightarrow> world \<Rightarrow> bool" where
  "helper_ready hreq hresp a content w \<longleftrightarrow>
     (\<exists>c mo u t body. fs w (components (hba_token_path a)) = Some (NFile c mo u) \<and> from_utf8 c = Some t
        \<and> hreq (request_apply (trim t) content) = Some body \<and> length body \<le> MAX_BODY_BYTES
        \<and> (\<forall>tk. \<exists>conn. helper w tk (hba_socket_path a) = Some conn \<and> helper_takes hresp body conn))"

lemma write_frame_ok:
  "conn_capacity conn = None \<Longrightarrow> conn_flush conn \<Longrightarrow> length body \<le> MAX_BODY_BYTES
   \<Longrightarrow> write_frame conn body = (Inr (), frame body)"
  by (simp add: write_frame_def stream_write_def frame_def MAX_BODY_BYTES_def)

lemma helper_apply_ready:
  assumes "helper_ready hreq hresp a content w" and "faultless w"
  obtains w' token body where "helper_apply hreq hresp a content w = (Inr BundleApplied, w')" "fs w' = fs w" "same_env w w'"
    "hreq (request_apply token content) = Some body" "trace w' = trace w @ [HelperSent (hba_socket_path a) (frame body)]"
proof -
  from assms(1) obtain c mo u t body where tok: "fs w (components (hba_token_path a)) = Some (NFile c mo u)"
      "from_utf8 c = Some t" and body: "hreq (request_apply (trim t) content) = Some body" "length body \<le> MAX_BODY_BYTES"
      and conns: "\<forall>tk. \<exists>conn. helper w tk (hba_socket_path a) = Some conn \<and> helper_takes hresp body conn"
    unfolding helper_ready_def by blast
  from conns obtain conn where conn: "helper w (Suc (tick w)) (hba_socket_path a) = Some conn" "helper_takes hresp body conn"
    by blast
  then obtain rbody rest resp where r: "conn_reply conn (frame body) = frame rbody @ rest" "length rbody \<le> MAX_BODY_BYTES"
      "hresp rbody = Some resp" "rs_ok resp" and cf: "conn_timeouts conn" "conn_capacity conn = None" "conn_flush conn"
    by (auto simp: helper_takes_def)
  have "from_paths (hba_socket_path a) (hba_token_path a) w
      = (Inr \<lparr>hc_socket_path = hba_socket_path a, hc_token = trim t\<rparr>, advance w)"
    using tok assms(2)
    by (simp add: from_paths_def bind_io_def map_err_io_def sys_read_to_string_def sys_read_ok faultless_def
        helper_client_new_def)
  then have "helper_apply hreq hresp a content w = (Inr BundleApplied,
      (advance (advance w))\<lparr>trace := trace w @ [HelperSent (hba_socket_path a) (frame body)]\<rparr>)"
    using conn(1) cf body r write_frame_ok [OF cf(2,3) body(2)] read_frame_frame [OF r(2), of rest]
    by (simp add: helper_apply_def apply_bundle_def helper_call_def encode_request_def decode_response_def
        apply_verdict_def bind_io_def Let_def)
  then show ?thesis by (rule that) (use body in \<open>simp_all add: same_env_def\<close>)
qed

section \<open>The state files\<close>

definition readable :: "path \<Rightarrow> fsmap \<Rightarrow> bool" where
  "readable p m \<longleftrightarrow> m (components p) = None
     \<or> (\<exists>bs mo u t. m (components p) = Some (NFile bs mo u) \<and> from_utf8 bs = Some t)"

definition state_readable :: "ca_sync_service \<Rightarrow> fsmap \<Rightarrow> bool" where
  "state_readable svc m \<longleftrightarrow> readable (cs_generation_path svc) m \<and> readable (cs_fingerprint_path svc) m
     \<and> readable (cs_signing_key_path svc) m
     \<and> (\<forall>t. text_of m (cs_generation_path svc) = Some t \<longrightarrow> parse_u64 t \<noteq> None)"

definition state_files :: "ca_sync_service \<Rightarrow> path set" where
  "state_files svc = {cs_generation_path svc, cs_fingerprint_path svc, cs_signing_key_path svc,
     cs_last_sync_path svc, cs_last_success_path svc}"

lemma faultless_honest: "faultless w \<Longrightarrow> honest w"
  by (simp add: faultless_def honest_def)

lemma read_optional_readable:
  assumes "readable p (fs w)" and "faultless w"
  shows "\<exists>x. read_optional p w = (Inr x, advance w)"
  using assms
  by (auto simp: read_optional_def readable_def sys_read_ok faultless_def os_err_def)

lemma read_optional_string_readable:
  assumes "readable p (fs w)" and "faultless w"
  shows "read_optional_string p w = (Inr (text_of (fs w) p), advance w)"
  using assms
  by (auto simp: read_optional_string_def read_optional_def readable_def sys_read_ok faultless_def os_err_def
      bind_io_def text_of_def Let_def)

lemma load_state_readable:
  assumes "state_readable svc (fs w)" and "faultless w"
  shows "load_state svc w = (Inr \<lparr>ps_generation = stored_generation svc (fs w),
     ps_fingerprint = stored_fingerprint svc (fs w), ps_signing_key = stored_pin svc (fs w)\<rparr>,
     advance (advance (advance w)))"
proof -
  have f: "faultless (advance v)" if "faultless v" for v using that by (simp add: faultless_def)
  have "read_generation svc w = (Inr (stored_generation svc (fs w)), advance w)"
    using assms read_optional_string_readable [of "cs_generation_path svc" w]
      text_of_trim [of "fs w" "cs_generation_path svc"]
    by (auto simp: read_generation_def state_readable_def bind_io_def stored_generation_def split: option.splits)
  moreover note read_optional_string_readable [of "cs_fingerprint_path svc" "advance w"]
    read_optional_string_readable [of "cs_signing_key_path svc" "advance (advance w)"]
  ultimately show ?thesis
    using assms f [OF assms(2)] f [OF f [OF assms(2)]]
    by (simp add: load_state_def bind_io_def state_readable_def stored_fingerprint_def stored_pin_def)
qed

text \<open>
  The instants the time crate formats as RFC 3339: the years 0 to 9999. What is relied on is that it
  formats these.
\<close>

definition RFC3339_MIN :: int where
  "RFC3339_MIN = - 62167219200 * 10 ^ 9"

definition RFC3339_MAX :: int where
  "RFC3339_MAX = 253402300800 * 10 ^ 9 - 1"

definition stamps :: "libs \<Rightarrow> bool" where
  "stamps L \<longleftrightarrow> (\<forall>t. RFC3339_MIN \<le> t \<and> t \<le> RFC3339_MAX \<longrightarrow> lib_rfc3339_format L t \<noteq> None)"

text \<open>
  On a calm machine with writable state files, whose clock shows such instants, every write of a
  pass succeeds.
\<close>

definition clock_formats :: "world \<Rightarrow> bool" where
  "clock_formats w \<longleftrightarrow> (\<forall>t. RFC3339_MIN \<le> clock w t \<and> clock w t \<le> RFC3339_MAX)"

definition sync_calm :: "ca_sync_service \<Rightarrow> world \<Rightarrow> bool" where
  "sync_calm svc w \<longleftrightarrow> calm w \<and> writable (state_files svc) (fs w) \<and> clock_formats w"

lemma sync_calm_same:
  "sync_calm svc w \<Longrightarrow> same_env w w' \<Longrightarrow> fs w' = fs w \<Longrightarrow> sync_calm svc w'"
  using calm_same [of w w'] by (simp add: sync_calm_def clock_formats_def same_env_def)

lemma sync_calm_faultless: "sync_calm svc w \<Longrightarrow> faultless w"
  by (simp add: sync_calm_def calm_def)

lemma sync_calm_advance [simp]: "sync_calm svc (advance w) \<longleftrightarrow> sync_calm svc w"
  by (simp add: sync_calm_def clock_formats_def)

lemma state_write_ok:
  assumes "sync_calm svc w" and "p \<in> state_files svc"
  obtains w' where "secure_write p c MODE_PUBLIC w = (Inr (), w')" "sync_calm svc w'" "same_env w w'"
    "fs w' = (fs w)(components p \<mapsto> NFile c MODE_PUBLIC (euid w))"
proof -
  have c: "calm w" "writable (state_files svc) (fs w)" "clock_formats w" using assms(1) by (simp_all add: sync_calm_def)
  from c(1,2) assms(2) obtain w' where "secure_write p c MODE_PUBLIC w = (Inr (), w')"
      "fs w' = (fs w)(components p \<mapsto> NFile c MODE_PUBLIC (euid w))" "calm w'" "writable (state_files svc) (fs w')" "same_env w w'"
    by (rule calm_write)
  with c(3) that show ?thesis by (simp add: sync_calm_def clock_formats_def same_env_def)
qed

lemma timestamp_ok:
  assumes "sync_calm svc w" and "p \<in> state_files svc" and "stamps L"
  obtains w' c where "write_timestamp L p w = (Inr (), w')" "sync_calm svc w'" "same_env w w'"
    "fs w' = (fs w)(components p \<mapsto> NFile c MODE_PUBLIC (euid w))"
proof -
  from assms(1,3) obtain s where s: "lib_rfc3339_format L (clock w (tick w)) = Some s"
    by (auto simp: stamps_def sync_calm_def clock_formats_def)
  have "sync_calm svc (advance w)" using assms(1) by simp
  from this assms(2) obtain w' where w': "secure_write p (utf8 (s @ [10])) MODE_PUBLIC (advance w) = (Inr (), w')"
      "sync_calm svc w'" "same_env (advance w) w'"
      "fs w' = (fs (advance w))(components p \<mapsto> NFile (utf8 (s @ [10])) MODE_PUBLIC (euid (advance w)))"
    by (rule state_write_ok)
  then show ?thesis
    using that [of w' "utf8 (s @ [10])"] s
    by (simp add: write_timestamp_def now_io_def clock_now_def bind_io_def same_env_def)
qed

lemma pin_ok:
  assumes "sync_calm svc w" and "readable (cs_signing_key_path svc) (fs w)"
  obtains w' where "persist_pin_if_needed svc b w = (Inr (), w')" "sync_calm svc w'" "same_env w w'"
proof -
  let ?p = "cs_signing_key_path svc"
  from read_optional_readable [OF assms(2) sync_calm_faultless [OF assms(1)]]
  obtain x where x: "read_optional ?p w = (Inr x, advance w)" by blast
  have c: "sync_calm svc (advance w)" using assms(1) by simp
  have in_files: "?p \<in> state_files svc" by (simp add: state_files_def)
  obtain w' where w': "secure_write ?p (utf8 (signing_public_key b @ [10])) MODE_PUBLIC (advance w) = (Inr (), w')"
      "sync_calm svc w'" "same_env (advance w) w'"
    using state_write_ok [OF c in_files] by blast
  have env: "same_env w (advance w)" by (simp add: same_env_def)
  show ?thesis
  proof (cases "cs_pinned_signing_key svc")
    case (Some k)
    then have "persist_pin_if_needed svc b w = (Inr (), w)" by (simp add: persist_pin_if_needed_def)
    with that assms(1) show ?thesis by simp
  next
    case None
    show ?thesis
    proof (cases x)
      case (Some bs)
      with None x have "persist_pin_if_needed svc b w = (Inr (), advance w)"
        by (simp add: persist_pin_if_needed_def bind_io_def)
      with that c env show ?thesis by blast
    next
      case x_None: None
      with None x w'(1) have "persist_pin_if_needed svc b w = (Inr (), w')"
        by (simp add: persist_pin_if_needed_def bind_io_def)
      with that w'(2) same_env_trans [OF env w'(3)] show ?thesis by blast
    qed
  qed
qed

lemma readable_other:
  "readable p m \<Longrightarrow> components q \<noteq> components p \<Longrightarrow> readable p (m(components q \<mapsto> n))"
  by (auto simp: readable_def)

lemma persist_after_apply_ok:
  assumes "sync_calm svc w" and "readable (cs_signing_key_path svc) (fs w)" and "state_paths_ok svc" and "stamps L"
  obtains w' where "persist_after_apply L svc b w = (Inr (), w')"
proof -
  have files: "cs_generation_path svc \<in> state_files svc" "cs_fingerprint_path svc \<in> state_files svc"
      "cs_last_success_path svc \<in> state_files svc" by (simp_all add: state_files_def)
  obtain w1 where w1: "write_generation svc (generation b) w = (Inr (), w1)" "sync_calm svc w1"
      "fs w1 = (fs w)(components (cs_generation_path svc) \<mapsto> NFile (utf8 (show_u64 (generation b) @ [10])) MODE_PUBLIC (euid w))"
    using state_write_ok [OF assms(1) files(1)] unfolding write_generation_def by blast
  obtain w2 where w2: "write_fingerprint svc (fingerprint b) w1 = (Inr (), w2)" "sync_calm svc w2"
      "fs w2 = (fs w1)(components (cs_fingerprint_path svc) \<mapsto> NFile (utf8 (fingerprint b @ [10])) MODE_PUBLIC (euid w1))"
    using state_write_ok [OF w1(2) files(2)] unfolding write_fingerprint_def by blast
  have "readable (cs_signing_key_path svc) (fs w2)"
    unfolding w1(3) w2(3) by (intro readable_other assms(2)) (use assms(3) in \<open>auto simp: state_paths_ok_def\<close>)
  from w2(2) this obtain w3 where w3: "persist_pin_if_needed svc b w2 = (Inr (), w3)" "sync_calm svc w3" by (rule pin_ok)
  obtain w4 where w4: "write_timestamp L (cs_last_success_path svc) w3 = (Inr (), w4)"
    using timestamp_ok [OF w3(2) files(3) assms(4)] by blast
  show ?thesis
    using that [of w4] w1(1) w2(1) w3(1) w4 by (simp add: persist_after_apply_def bind_io_def)
qed

section \<open>The server\<close>

definition can_sign :: "ca_sync_service \<Rightarrow> bool" where
  "can_sign svc \<longleftrightarrow> (\<exists>seed. prk_data (mk_key (cs_keypair svc)) = KdEd25519 seed)"

lemma sync_sign_ok:
  assumes "can_sign svc"
  obtains sg w' where "sync_sign L svc meth path body w = (Inr sg, w')" "fs w' = fs w" "same_env w w'"
  using assms that
  by (auto simp: can_sign_def sync_sign_def bind_io_def now_io_def clock_now_def nonce_io_def generate_nonce_def
      random_bytes_def sign_request_def keypair_sign_def Let_def same_env_def)

definition serves :: "(bytes \<Rightarrow> ca_bundle_response option) \<Rightarrow> ca_bundle_response \<Rightarrow> world \<Rightarrow> bool" where
  "serves dec raw w \<longleftrightarrow> (\<forall>tk rq. \<exists>rsp. http w tk GET rq = Some rsp \<and> resp_status rsp = 200
     \<and> bundle_from_json dec (resp_body rsp) = Inr raw)"

lemma fetch_ok:
  assumes "serves dec raw w" and "can_sign svc"
  obtains rsp w' where "fetch_bundle L svc f w = (Inr rsp, w')" "resp_status rsp = 200"
    "bundle_from_json dec (resp_body rsp) = Inr raw" "fs w' = fs w" "same_env w w'"
proof -
  obtain sg w1 where 1: "sync_sign L svc (lit ''GET'') CA_BUNDLE_PATH [] w = (Inr sg, w1)" "fs w1 = fs w" "same_env w w1"
    using sync_sign_ok [OF assms(2)] by blast
  let ?rq = "\<lparr>req_url = join_url (cs_server_url svc) CA_BUNDLE_PATH,
      req_headers = signing_headers sg @ (case f of Some f \<Rightarrow> [(HEADER_IF_NONE_MATCH, [34] @ f @ [34])] | None \<Rightarrow> []),
      req_body = []\<rparr>"
  have "http w1 = http w" using 1(3) by (simp add: same_env_def)
  with assms(1) obtain rsp where "http w1 (tick w1) GET ?rq = Some rsp" "resp_status rsp = 200"
      "bundle_from_json dec (resp_body rsp) = Inr raw"
    unfolding serves_def by metis
  with 1 show ?thesis
    using that [of rsp "(advance w1)\<lparr>trace := trace w1 @ [Sent GET ?rq]\<rparr>"]
    by (simp add: fetch_bundle_def bind_io_def bundle_get_def http_exchange_def Let_def same_env_def)
qed

lemma acknowledge_ok: "\<exists>acked w'. acknowledge L enc svc report w = (Inr acked, w')"
  by (auto simp: acknowledge_def split: prod.splits sum.splits)

section \<open>A pass installs a newer bundle\<close>

text \<open>An event of the run between two worlds.\<close>

definition since :: "world \<Rightarrow> world \<Rightarrow> event \<Rightarrow> bool" where
  "since w w' e \<longleftrightarrow> (\<exists>es. trace w' = trace w @ es \<and> e \<in> set es)"

lemma since_logged:
  "since v w e \<Longrightarrow> logged Q u v \<Longrightarrow> since u w e"
  "since u v e \<Longrightarrow> logged Q v w \<Longrightarrow> since u w e"
  unfolding since_def logged_def by (elim conjE exE, rule exI, (simp | intro conjI | blast)+)+

lemma sync_finish_ok:
  assumes "sync_calm svc w" and "readable (cs_signing_key_path svc) (fs w)" and "state_paths_ok svc" and "stamps L"
    and "trusted_ca_keys_parse (render_trusted_user_ca_keys b) = Inr ks"
    and "helper_ready hreq hresp a (render_trusted_user_ca_keys b) w"
  obtains acked w' token body where "sync_finish L enc (helper_apply hreq hresp a) svc b w
    = (Inr (SyncUpdated (generation b) (fingerprint b) acked), w')"
    "hreq (request_apply token (render_trusted_user_ca_keys b)) = Some body"
    "since w w' (HelperSent (hba_socket_path a) (frame body))"
proof -
  obtain w1 token body where w1: "helper_apply hreq hresp a (render_trusted_user_ca_keys b) w = (Inr BundleApplied, w1)"
      "fs w1 = fs w" "same_env w w1" "hreq (request_apply token (render_trusted_user_ca_keys b)) = Some body"
      "trace w1 = trace w @ [HelperSent (hba_socket_path a) (frame body)]"
    using helper_apply_ready [OF assms(6) sync_calm_faultless [OF assms(1)]] .
  have "readable (cs_signing_key_path svc) (fs w1)" using assms(2) w1(2) by simp
  with sync_calm_same [OF assms(1) w1(3,2)] obtain w2 where w2: "persist_after_apply L svc b w1 = (Inr (), w2)"
    using persist_after_apply_ok assms(3,4) by blast
  obtain acked w3 where w3: "acknowledge L enc svc \<lparr>ack_generation = generation b, ack_fingerprint = fingerprint b,
      ack_status = ACK_STATUS_APPLIED, ack_reason = None\<rparr> w2 = (Inr acked, w3)"
    using acknowledge_ok by blast
  have "since w w1 (HelperSent (hba_socket_path a) (frame body))" using w1(5) by (simp add: since_def)
  with logged_trans [OF logsD [OF logs_persist_after_apply w2] logsD [OF logs_acknowledge w3]]
  have "since w w3 (HelperSent (hba_socket_path a) (frame body))" by (rule since_logged(2) [rotated])
  then show ?thesis
    using that [of acked w3 token body] assms(5) w1(1,4) w2 w3
    by (simp add: sync_finish_def sync_apply_def bind_io_def Let_def)
qed

lemma sync_pass_ok:
  assumes "sync_calm svc w" and "state_paths_ok svc" and "state_readable svc (fs w)" and "can_sign svc" and "stamps L"
    and "serves dec raw w"
    and gate: "\<And>t. from_response L raw (clock w t) (case cs_pinned_signing_key svc of Some k \<Rightarrow> Some k
          | None \<Rightarrow> stored_pin svc (fs w)) = Inr b"
    and parses: "trusted_ca_keys_parse (render_trusted_user_ca_keys b) = Inr ks"
    and ready: "helper_ready hreq hresp a (render_trusted_user_ca_keys b) w"
    and "components (hba_token_path a) \<noteq> components (cs_last_sync_path svc)"
    and newer: "generation_level (stored_generation svc (fs w)) < unat (generation b)"
  obtains acked w' token body where "synchronize L dec enc (helper_apply hreq hresp a) svc w
    = (Inr (SyncUpdated (generation b) (fingerprint b) acked), w')"
    "hreq (request_apply token (render_trusted_user_ca_keys b)) = Some body"
    "since w w' (HelperSent (hba_socket_path a) (frame body))"
proof -
  let ?ps = "\<lparr>ps_generation = stored_generation svc (fs w), ps_fingerprint = stored_fingerprint svc (fs w),
      ps_signing_key = stored_pin svc (fs w)\<rparr>"
  let ?w1 = "advance (advance (advance w))"
  have e1: "same_env w ?w1" by (simp add: same_env_def)
  have "serves dec raw ?w1" using assms(6) by (simp add: serves_def)
  with assms(4) obtain rsp w2 where w2: "fetch_bundle L svc (stored_fingerprint svc (fs w)) ?w1 = (Inr rsp, w2)"
      "resp_status rsp = 200" "bundle_from_json dec (resp_body rsp) = Inr raw" "fs w2 = fs ?w1" "same_env ?w1 w2"
    using fetch_ok by blast
  have c2: "sync_calm svc w2" using sync_calm_same [OF _ w2(5,4)] assms(1) by simp
  have "cs_last_sync_path svc \<in> state_files svc" by (simp add: state_files_def)
  with c2 assms(5) obtain w3 c where w3: "write_timestamp L (cs_last_sync_path svc) w2 = (Inr (), w3)" "sync_calm svc w3"
      "same_env w2 w3" "fs w3 = (fs w2)(components (cs_last_sync_path svc) \<mapsto> NFile c MODE_PUBLIC (euid w2))"
    using timestamp_ok by blast
  have e3: "same_env w w3" using same_env_trans [OF same_env_trans [OF e1 w2(5)] w3(3)] .
  have fs3: "fs w3 = (fs w)(components (cs_last_sync_path svc) \<mapsto> NFile c MODE_PUBLIC (euid w2))"
    using w2(4) w3(4) by simp
  have rd: "readable (cs_signing_key_path svc) (fs w3)"
    using assms(2,3) fs3 readable_other by (auto simp: state_readable_def state_paths_ok_def)
  have hr: "helper_ready hreq hresp a (render_trusted_user_ca_keys b) (advance w3)"
    using ready assms(10) fs3 e3 by (simp add: helper_ready_def same_env_def)
  have c3: "sync_calm svc (advance w3)" using w3(2) by simp
  have rd': "readable (cs_signing_key_path svc) (fs (advance w3))" using rd by simp
  obtain acked w4 token body where w4: "sync_finish L enc (helper_apply hreq hresp a) svc b (advance w3)
      = (Inr (SyncUpdated (generation b) (fingerprint b) acked), w4)"
      "hreq (request_apply token (render_trusted_user_ca_keys b)) = Some body"
      "since (advance w3) w4 (HelperSent (hba_socket_path a) (frame body))"
    using sync_finish_ok [OF c3 rd' assms(2,5) parses hr] .
  have gated: "from_response L raw (clock w3 (tick w3)) (expected_signing_key svc ?ps) = Inr b"
    using gate [of "tick w3"] e3 by (simp add: expected_signing_key_def same_env_def cong: option.case_cong)
  have lv: "\<not> (case stored_generation svc (fs w) of Some prev \<Rightarrow> generation b < prev | None \<Rightarrow> False)"
      "stored_generation svc (fs w) \<noteq> Some (generation b)"
    using newer by (auto simp: generation_level_def word_less_nat_alt split: option.splits)
  have "sync_respond L dec enc (helper_apply hreq hresp a) svc ?ps rsp w2
      = sync_finish L enc (helper_apply hreq hresp a) svc b (advance w3)"
    using w2(2,3) w3(1) gated lv
    by (simp add: sync_respond_def bind_io_def now_io_def clock_now_def STATUS_NOT_MODIFIED_def is_success_def)
  with w2(1) load_state_readable [OF assms(3) sync_calm_faultless [OF assms(1)]] w4(1)
  have run: "synchronize L dec enc (helper_apply hreq hresp a) svc w
      = (Inr (SyncUpdated (generation b) (fingerprint b) acked), w4)"
    by (simp add: synchronize_def bind_io_def)
  have "logged (pass_request svc) w (advance w3)"
    using logged_trans [OF logged_trans [OF logsD [OF logs_fetch w2(1)] logsD [OF logs_write_timestamp w3(1)]] logged_advance]
    by (simp add: logged_def same_env_def)
  from that [OF run w4(2) since_logged(1) [OF w4(3) this]] show ?thesis .
qed

text \<open>
  C12. Progress: on a calm machine whose state files are readable and writable and whose clock shows an
  instant of the years 0 to 9999, when the server serves an authentic bundle that is newer
  than the stored one and the helper answers with success, the pass writes the complete apply
  request with the rendering of that bundle to the helper, reports the update, and leaves
  the bundle's generation and fingerprint stored.
\<close>

theorem newer_bundle_is_installed:
  assumes "sync_calm svc w" and "state_paths_ok svc" and "state_readable svc (fs w)" and "can_sign svc" and "stamps L"
    and "ssh_lines_ok L" and "hex_ok L" and "serves dec raw w"
    and "\<And>t. from_response L raw (clock w t) (case cs_pinned_signing_key svc of Some k \<Rightarrow> Some k
          | None \<Rightarrow> stored_pin svc (fs w)) = Inr b"
    and "helper_ready hreq hresp a (render_trusted_user_ca_keys b) w"
    and "components (hba_token_path a) \<noteq> components (cs_last_sync_path svc)"
    and "generation_level (stored_generation svc (fs w)) < unat (generation b)"
  shows "\<exists>acked w' es token body. synchronize L dec enc (helper_apply hreq hresp a) svc w
      = (Inr (SyncUpdated (generation b) (fingerprint b) acked), w')
    \<and> trace w' = trace w @ es \<and> HelperSent (hba_socket_path a) (frame body) \<in> set es
    \<and> hreq (request_apply token (render_trusted_user_ca_keys b)) = Some body
    \<and> stored_generation svc (fs w') = Some (generation b) \<and> stored_fingerprint svc (fs w') = Some (fingerprint b)"
proof -
  obtain acked w' token body where run: "synchronize L dec enc (helper_apply hreq hresp a) svc w
      = (Inr (SyncUpdated (generation b) (fingerprint b) acked), w')"
    and sent: "hreq (request_apply token (render_trusted_user_ca_keys b)) = Some body"
      "since w w' (HelperSent (hba_socket_path a) (frame body))"
    using sync_pass_ok [OF assms(1-5,8,9) rendered_parses [OF assms(6,7,9)] assms(10-12)] .
  have "honest w" using assms(1) by (intro faultless_honest sync_calm_faultless)
  from helper.synchronize_updated [OF assms(2) this assms(7) run] run sent show ?thesis
    unfolding since_def by blast
qed


end
