(* ===== verification/Trust_Protocol.thy ===== *)
theory Trust_Protocol
  imports Sync_Safety
begin

text \<open>
  What synchronisation promises, as an abstract protocol over two values, the generation
  taken over and the pinned key; and that the passes of \<open>CaSyncService\<close>, whole or cut off,
  refine it.
\<close>

section \<open>The protocol\<close>

record trust_state =
  ts_level :: nat
  ts_pin :: "str option"

text \<open>The key that bundles are checked against: the operator's, or else the pinned one.\<close>

abbreviation in_force :: "str option \<Rightarrow> trust_state \<Rightarrow> str option" where
  "in_force operator s \<equiv> (case operator of Some k \<Rightarrow> Some k | None \<Rightarrow> ts_pin s)"

text \<open>A key as the state file gives it back: none, if its text is blank.\<close>

definition key_text :: "str \<Rightarrow> str option" where
  "key_text k =
     (case from_utf8 (utf8 (k @ [10])) of
        Some t \<Rightarrow> if trim t = [] then None else Some (trim t)
      | None \<Rightarrow> None)"

text \<open>
  Two moves: take over a bundle accepted under the key in force, never below the level; and,
  without any key in force, pin the key of an accepted bundle (trust on first use).
\<close>

inductive trust_step ::
    "(str option \<Rightarrow> ca_bundle \<Rightarrow> bool) \<Rightarrow> str option \<Rightarrow> trust_state \<Rightarrow> trust_state \<Rightarrow> bool"
  for acc operator where
  take_over: "acc (in_force operator s) b \<Longrightarrow> ts_level s \<le> unat (generation b)
    \<Longrightarrow> trust_step acc operator s (s\<lparr>ts_level := unat (generation b)\<rparr>)"
| pin: "in_force operator s = None \<Longrightarrow> acc None b
    \<Longrightarrow> trust_step acc operator s (s\<lparr>ts_pin := key_text (signing_public_key b)\<rparr>)"

inductive_cases trust_stepE: "trust_step acc operator s s'"

interpretation trust: ratchet "trust_step acc operator" ts_level for acc operator
  by unfold_locales (auto elim: trust_stepE)

lemma key_stays_in_force:
  assumes "(trust_step acc operator)\<^sup>*\<^sup>* s s'" and "in_force operator s = Some k"
  shows "in_force operator s' = Some k"
  using assms by (induction rule: rtranclp_induct) (auto elim!: trust_stepE split: option.splits)

text \<open>With a key in force, the level only ever becomes that of a bundle accepted under it.\<close>

lemma level_under_key:
  assumes "(trust_step acc operator)\<^sup>*\<^sup>* s s'" and "in_force operator s = Some k"
  shows "ts_level s' = ts_level s \<or> (\<exists>b. acc (Some k) b \<and> ts_level s' = unat (generation b))"
  using assms(1)
proof (induction rule: rtranclp_induct)
  case (step y z)
  have "in_force operator y = Some k" using key_stays_in_force [OF step.hyps(1) assms(2)] .
  with step.hyps(2) step.IH show ?case by (elim trust_stepE) auto
qed simp

section \<open>The refinement\<close>

definition trust_of :: "ca_sync_service \<Rightarrow> fsmap \<Rightarrow> trust_state" where
  "trust_of svc m = \<lparr>ts_level = generation_level (stored_generation svc m), ts_pin = stored_pin svc m\<rparr>"

lemma key_in_force_trust: "key_in_force svc m = in_force (cs_pinned_signing_key svc) (trust_of svc m)"
  by (simp add: trust_of_def split: option.split)

lemma change_refines:
  assumes paths: "state_paths_ok svc" and links: "no_links svc m"
    and change: "fs_change (sync_writes svc (accepted L (key_in_force svc m)) (generation_level (stored_generation svc m))
        (\<not> (\<exists>c mo u. m (components (cs_signing_key_path svc)) = Some (NFile c mo u)))) m m'"
  shows "(trust_step (accepted L) (cs_pinned_signing_key svc))\<^sup>*\<^sup>* (trust_of svc m) (trust_of svc m')"
proof -
  let ?step = "trust_step (accepted L) (cs_pinned_signing_key svc)"
  let ?g = "components (cs_generation_path svc)" and ?k = "components (cs_signing_key_path svc)"
  let ?s = "trust_of svc m"
  let ?s1 = "?s\<lparr>ts_level := generation_level (stored_generation svc m')\<rparr>"
  have nt: "\<not> is_tmp ?g" "\<not> is_tmp ?k" and d: "?g \<noteq> ?k" using paths by (auto simp: state_paths_ok_def)
  have nl: "m ?g \<noteq> Some (NLink t u)" "m ?k \<noteq> Some (NLink t u)" for t u using links by (auto simp: no_links_def)
  have 1: "?step\<^sup>*\<^sup>* ?s ?s1"
  proof (cases "m' ?g = m ?g")
    case True
    with text_of_cong [of m "cs_generation_path svc" m'] nl(1) show ?thesis
      by (simp add: trust_of_def stored_generation_def)
  next
    case False
    with change nt(1) paths obtain b u where b: "accepted L (key_in_force svc m) b"
        "m' ?g = Some (NFile (utf8 (show_u64 (generation b) @ [10])) MODE_PUBLIC u)"
        "generation_level (stored_generation svc m) \<le> unat (generation b)"
      by (auto simp: fs_change_def sync_writes_def state_paths_ok_def)
    have "?step ?s (?s\<lparr>ts_level := unat (generation b)\<rparr>)"
      by (rule take_over) (use b(1,3) in \<open>simp_all add: key_in_force_trust\<close>, simp add: trust_of_def)
    moreover have "generation_level (stored_generation svc m') = unat (generation b)"
      using stored_generation_written [where m = m' and g = "generation b", OF b(2)] by (simp add: generation_level_def)
    ultimately show ?thesis by auto
  qed
  have "?step\<^sup>*\<^sup>* ?s1 (trust_of svc m')"
  proof (cases "m' ?k = m ?k")
    case True
    with text_of_cong [of m "cs_signing_key_path svc" m'] nl(2) show ?thesis
      by (simp add: trust_of_def stored_pin_def)
  next
    case False
    with change nt(2) paths obtain b u where b: "accepted L (key_in_force svc m) b"
        "m' ?k = Some (NFile (utf8 (signing_public_key b @ [10])) MODE_PUBLIC u)" "cs_pinned_signing_key svc = None"
        "\<nexists>c mo u. m ?k = Some (NFile c mo u)"
      by (auto simp: fs_change_def sync_writes_def state_paths_ok_def)
    have none: "stored_pin svc m = None"
      using b(4) nl(2) by (cases "m ?k" rule: option.exhaust; cases "the (m ?k)") (auto simp: stored_pin_def text_of_def)
    have "?step ?s1 (?s1\<lparr>ts_pin := key_text (signing_public_key b)\<rparr>)"
      by (rule pin) (use b none in \<open>simp_all add: trust_of_def\<close>)
    moreover have "stored_pin svc m' = key_text (signing_public_key b)"
      using b(2) by (simp add: stored_pin_def text_of_def key_text_def)
    ultimately show ?thesis by (auto simp: trust_of_def)
  qed
  with 1 show ?thesis by (rule rtranclp_trans)
qed

lemma pass_refines:
  assumes "state_paths_ok svc" "honest w" "no_links svc (fs w)"
    and "synchronize L dec enc (helper_apply hreq hresp a) svc w = (r, w')"
    and "m = fs w' \<or> (\<exists>es. trace w' = trace w @ es \<and> FsNow m \<in> set es)"
  shows "(trust_step (accepted L) (cs_pinned_signing_key svc))\<^sup>*\<^sup>* (trust_of svc (fs w)) (trust_of svc m)"
proof (rule change_refines [OF assms(1,3)])
  let ?pf = "\<not> (\<exists>c mo u. fs w (components (cs_signing_key_path svc)) = Some (NFile c mo u))"
  have "pin_kept svc ?pf w" using assms(2) by (auto simp: pin_kept_def)
  from helper.synchronize_within [OF assms(1,2) this assms(4)]
  show "fs_change (sync_writes svc (accepted L (key_in_force svc (fs w)))
      (generation_level (stored_generation svc (fs w))) ?pf) (fs w) m"
    using assms(5) by (auto elim!: confined_moments)
qed

interpretation passes: simulation "sync_step L dec enc hreq hresp a svc"
    "trust_step (accepted L) (cs_pinned_signing_key svc)" "\<lambda>w. trust_of svc (fs w)" for L dec enc hreq hresp a svc
proof
  fix w w'
  assume "sync_step L dec enc hreq hresp a svc w w'"
  then show "(trust_step (accepted L) (cs_pinned_signing_key svc))\<^sup>*\<^sup>* (trust_of svc (fs w)) (trust_of svc (fs w'))"
  proof cases
    case (pass r)
    from pass_refines [OF this] show ?thesis by blast
  next
    case (crash r w1 es)
    from pass_refines [OF crash(1-4)] crash(5,6,7) show ?thesis by blast
  qed simp
qed

text \<open>
  C3. Synchronisation refines the protocol: every run of passes, crashes in the middle of a pass
  and restarts, against any server, helper, clock and disk faults, is on the stored generation
  and pin a run of the two moves.
\<close>

theorem synchronisation_refines_trust:
  assumes "(sync_step L dec enc hreq hresp a svc)\<^sup>*\<^sup>* w w'"
  shows "(trust_step (accepted L) (cs_pinned_signing_key svc))\<^sup>*\<^sup>* (trust_of svc (fs w)) (trust_of svc (fs w'))"
  using assms by (rule passes.run_sim)

text \<open>
  C4. Once a key is in force it stays in force, and a stored generation that has changed is the
  generation of a bundle whose signature verified under that key.
\<close>

theorem stored_generation_is_authentic:
  assumes "(sync_step L dec enc hreq hresp a svc)\<^sup>*\<^sup>* w w'" and "key_in_force svc (fs w) = Some k"
  shows "key_in_force svc (fs w') = Some k
    \<and> (generation_level (stored_generation svc (fs w')) = generation_level (stored_generation svc (fs w))
       \<or> (\<exists>raw now. authentic L raw (Some k) \<and> well_formed L raw now
            \<and> generation_level (stored_generation svc (fs w')) = unat (generation (bundle_of L raw))))"
proof -
  note run = passes.run_sim [OF assms(1)]
  have k: "in_force (cs_pinned_signing_key svc) (trust_of svc (fs w)) = Some k"
    using assms(2) by (simp only: key_in_force_trust)
  from key_stays_in_force [OF run k] have "key_in_force svc (fs w') = Some k" by (simp only: key_in_force_trust)
  moreover have "accepted L (Some k) b \<Longrightarrow> \<exists>raw now. authentic L raw (Some k) \<and> well_formed L raw now \<and> b = bundle_of L raw" for b
    unfolding accepted_def using from_response_bundle by blast
  ultimately show ?thesis using level_under_key [OF run k] by (auto simp: trust_of_def)
qed

end
