(* ===== verification/Sync_Examples.thy ===== *)
theory Sync_Examples
  imports Sync_Liveness Trust_Protocol
begin

text \<open>
  Concrete passes: a machine with a state directory and a helper, a server that serves the
  sample bundle, and the properties of a pass applied to them.
\<close>

section \<open>The machine\<close>

definition sample_sync :: "str option \<Rightarrow> ca_sync_service" where
  "sample_sync pinned = ca_sync_service_new
     \<lparr>mk_key = \<lparr>prk_algorithm = AlgEd25519, prk_data = KdEd25519 [], prk_comment = []\<rparr>\<rparr>
     (lit ''m'') (lit ''https://h'') pinned (lit ''/s/g'') (lit ''/s/f'') (lit ''/s/k'') (lit ''/s/l'') (lit ''/s/m'')"

definition sample_applier :: helper_bundle_applier where
  "sample_applier = helper_applier_new (lit ''/h'') (lit ''/s/t'')"

definition in_s :: "string \<Rightarrow> fskey" where
  "in_s f = [RootDir, Normal (lit ''s''), Normal (lit f)]"

definition sample_conn :: helper_conn where
  "sample_conn = \<lparr>conn_timeouts = True, conn_capacity = None, conn_flush = True, conn_reply = (\<lambda>_. frame [])\<rparr>"

definition sync_world :: "fsmap \<Rightarrow> world" where
  "sync_world extra = (quiet_world (extra([RootDir, Normal (lit ''s'')] \<mapsto> NDir MODE_DIR 0,
       in_s ''t'' \<mapsto> NFile [] MODE_SECRET 0)))
     \<lparr>clock := (\<lambda>_. 2 * 10 ^ 9), http := (\<lambda>_ _ _. Some \<lparr>resp_status = 200, resp_body = []\<rparr>),
      helper := (\<lambda>_ _. Some sample_conn)\<rparr>"

definition sample_pass :: "str option \<Rightarrow> sync_outcome io" where
  "sample_pass pinned = synchronize sample_libs (\<lambda>_. Some sample_response) (\<lambda>_. Some [])
     (helper_apply (\<lambda>_. Some []) (\<lambda>_. Some (response_success OutOk)) sample_applier) (sample_sync pinned)"

lemma sync_paths:
  "components (lit ''/s/g'') = in_s ''g''" "components (lit ''/s/f'') = in_s ''f''" "components (lit ''/s/k'') = in_s ''k''"
  "components (lit ''/s/l'') = in_s ''l''" "components (lit ''/s/m'') = in_s ''m''" "components (lit ''/s/t'') = in_s ''t''"
  by (simp_all add: components_def segment_component_def lit_def in_s_def)

lemma in_s_simps [simp]:
  "in_s f \<noteq> [RootDir, Normal d]" "[RootDir, Normal d] \<noteq> in_s f" "butlast (in_s f) = [RootDir, Normal (lit ''s'')]"
  by (simp_all add: in_s_def)

lemma in_s_inject: "in_s f = in_s g \<longleftrightarrow> lit f = lit g"
  by (simp add: in_s_def)

lemma in_s_distinct:
  "distinct (map in_s [''g'', ''f'', ''k'', ''l'', ''m''])" "in_s ''t'' \<notin> in_s ` {''g'', ''f'', ''k'', ''l'', ''m''}"
  by (simp_all add: in_s_inject)

lemma in_s_token [simp]: "in_s ''t'' \<noteq> in_s ''g''" "in_s ''t'' \<noteq> in_s ''f''" "in_s ''t'' \<noteq> in_s ''k''"
  "in_s ''t'' \<noteq> in_s ''l''" "in_s ''t'' \<noteq> in_s ''m''" "in_s ''g'' \<noteq> in_s ''t''" "in_s ''f'' \<noteq> in_s ''t''"
  "in_s ''k'' \<noteq> in_s ''t''"
  by (simp_all add: in_s_inject)

lemma sample_sync_simps [simp]:
  "cs_generation_path (sample_sync p) = lit ''/s/g''" "cs_fingerprint_path (sample_sync p) = lit ''/s/f''"
  "cs_signing_key_path (sample_sync p) = lit ''/s/k''" "cs_last_sync_path (sample_sync p) = lit ''/s/l''"
  "cs_last_success_path (sample_sync p) = lit ''/s/m''" "cs_pinned_signing_key (sample_sync p) = p"
  "hba_token_path sample_applier = lit ''/s/t''" "hba_socket_path sample_applier = lit ''/h''"
  by (simp_all add: sample_sync_def ca_sync_service_new_def sample_applier_def helper_applier_new_def)

lemma in_s_not_tmp: "\<not> is_tmp (in_s [c])" "\<not> is_tmp [RootDir, Normal (lit ''s'')]"
  by (auto simp: in_s_def is_tmp_def tmp_prefix_def lit_def)

lemma sample_state_paths: "state_paths_ok (sample_sync p)"
  using in_s_distinct(1) by (simp add: state_paths_ok_def sync_paths in_s_not_tmp)

lemma sync_world_simps [simp]:
  "fault (sync_world e) = (\<lambda>_. None)" "trace (sync_world e) = []" "clock (sync_world e) = (\<lambda>_. 2 * 10 ^ 9)"
  "fs (sync_world e) = e([RootDir, Normal (lit ''s'')] \<mapsto> NDir MODE_DIR 0, in_s ''t'' \<mapsto> NFile [] MODE_SECRET 0)"
  by (simp_all add: sync_world_def)

lemma sync_world_honest: "honest (sync_world e)"
  by (simp add: honest_def)

text \<open>The pass on an empty state directory under the operator's pin installs the bundle.\<close>

lemma sample_parent: "parent_of (lit ''/s/g'') = Inr [RootDir, Normal (lit ''s'')]"
    "parent_of (lit ''/s/f'') = Inr [RootDir, Normal (lit ''s'')]" "parent_of (lit ''/s/k'') = Inr [RootDir, Normal (lit ''s'')]"
    "parent_of (lit ''/s/l'') = Inr [RootDir, Normal (lit ''s'')]" "parent_of (lit ''/s/m'') = Inr [RootDir, Normal (lit ''s'')]"
  by (simp_all add: parent_of_def sync_paths in_s_def)

lemma sync_world_calm:
  assumes "\<And>q. is_tmp q \<Longrightarrow> e q = None" and "\<And>k mo u. e k \<noteq> Some (NDir mo u)"
  shows "sync_calm (sample_sync p) (sync_world e)"
proof -
  have "calm (sync_world e)"
    using in_s_not_tmp assms(1) by (auto simp: calm_def faultless_def)
  moreover have "writable (state_files (sample_sync p)) (fs (sync_world e))"
    by (simp add: assms(2) writable_def state_files_def sync_paths in_s_not_tmp sample_parent)
  moreover have "clock_formats (sync_world e)"
    by (simp add: clock_formats_def RFC3339_MIN_def RFC3339_MAX_def)
  ultimately show ?thesis by (simp add: sync_calm_def)
qed

lemma sample_calm: "sync_calm (sample_sync p) (sync_world Map.empty)"
  by (rule sync_world_calm) simp_all

lemma sample_readable: "state_readable (sample_sync p) (fs (sync_world Map.empty))"
  using in_s_distinct(2) by (simp add: state_readable_def readable_def sync_paths text_of_def)

lemma sample_serves: "serves (\<lambda>_. Some sample_response) sample_response (sync_world e)"
  by (simp add: serves_def sync_world_def bundle_from_json_def)

lemma sample_helper: "helper_ready (\<lambda>_. Some []) (\<lambda>_. Some (response_success OutOk)) sample_applier content (sync_world e)"
  by (auto simp: helper_ready_def sync_paths sync_world_def helper_takes_def sample_conn_def response_success_def
      intro!: exI [of _ "[]"])

lemma sample_can: "can_sign (sample_sync p)" "stamps sample_libs"
  by (simp_all add: can_sign_def sample_sync_def ca_sync_service_new_def stamps_def sample_libs_def)

lemma sample_gate:
  "from_response sample_libs sample_response (clock (sync_world e) t) (case cs_pinned_signing_key (sample_sync (Some sample_key)) of
      Some k \<Rightarrow> Some k | None \<Rightarrow> x) = Inr (bundle_of sample_libs sample_response)"
  using sample_accepted by simp

lemma sample_newer:
  "generation_level (stored_generation (sample_sync p) (fs (sync_world Map.empty))) < unat (generation (bundle_of sample_libs sample_response))"
  by (simp add: stored_generation_def text_of_def sync_paths generation_level_def bundle_of_def sample_response_def)

lemma sample_token: "components (hba_token_path sample_applier) \<noteq> components (cs_last_sync_path (sample_sync p))"
  using in_s_distinct(2) by (auto simp: sync_paths)

lemma sample_updates:
  obtains acked w' bs where "sample_pass (Some sample_key) (sync_world Map.empty) = (Inr (SyncUpdated 7 (lit ''sha256:00'') acked), w')"
    "HelperSent (lit ''/h'') bs \<in> set (trace w')"
proof -
  obtain acked w' token body where "sample_pass (Some sample_key) (sync_world Map.empty)
      = (Inr (SyncUpdated (generation (bundle_of sample_libs sample_response)) (fingerprint (bundle_of sample_libs sample_response)) acked), w')"
      "since (sync_world Map.empty) w' (HelperSent (hba_socket_path sample_applier) (frame body))"
    unfolding sample_pass_def
    by (rule sync_pass_ok [OF sample_calm sample_state_paths sample_readable sample_can sample_serves sample_gate
          rendered_parses [OF sample_libs_ok sample_accepted] sample_helper sample_token sample_newer])
  moreover have "fingerprint (bundle_of sample_libs sample_response) = lit ''sha256:00''"
    by (simp add: bundle_of_def compute_fingerprint_def sample_libs_def FINGERPRINT_PREFIX_def lit_def)
  moreover have "generation (bundle_of sample_libs sample_response) = 7"
    by (simp add: bundle_of_def sample_response_def)
  ultimately show ?thesis using that by (auto simp: since_def)
qed

section \<open>The properties applied\<close>

theorem newer_bundle_is_installed_witness:
  "\<exists>acked w' body. sample_pass (Some sample_key) (sync_world Map.empty)
      = (Inr (SyncUpdated (generation (bundle_of sample_libs sample_response))
           (fingerprint (bundle_of sample_libs sample_response)) acked), w')
    \<and> HelperSent (lit ''/h'') (frame body) \<in> set (trace w')
    \<and> stored_generation (sample_sync (Some sample_key)) (fs w') = Some 7"
proof -
  have g: "generation (bundle_of sample_libs sample_response) = 7" by (simp add: bundle_of_def sample_response_def)
  from newer_bundle_is_installed [OF sample_calm sample_state_paths sample_readable sample_can sample_libs_ok
      sample_serves sample_gate sample_helper sample_token sample_newer, of "\<lambda>_. Some []"] g
  show ?thesis unfolding sample_pass_def by auto
qed

theorem updated_pass_persists_witness:
  "\<exists>acked w' body. sample_pass (Some sample_key) (sync_world Map.empty) = (Inr (SyncUpdated 7 (lit ''sha256:00'') acked), w')
    \<and> stored_generation (sample_sync (Some sample_key)) (fs w') = Some 7
    \<and> stored_fingerprint (sample_sync (Some sample_key)) (fs w') = Some (lit ''sha256:00'')
    \<and> HelperSent (lit ''/h'') (frame body) \<in> set (trace w')"
proof -
  obtain acked w' bs where run: "sample_pass (Some sample_key) (sync_world Map.empty)
      = (Inr (SyncUpdated 7 (lit ''sha256:00'') acked), w')" by (rule sample_updates)
  from updated_pass_persists [OF sample_state_paths sync_world_honest sample_libs_ok(2) run [unfolded sample_pass_def]]
  obtain before body later where "stored_generation (sample_sync (Some sample_key)) (fs w') = Some 7"
      "stored_fingerprint (sample_sync (Some sample_key)) (fs w') = Some (lit ''sha256:00'')"
      "trace w' = trace (sync_world Map.empty) @ before @ HelperSent (hba_socket_path sample_applier) (frame body) # later"
    by blast
  with run show ?thesis by (auto intro!: exI [of _ body])
qed

theorem helper_gets_authentic_bundles_only_witness:
  "\<exists>r w' bs raw. sample_pass (Some sample_key) (sync_world Map.empty) = (r, w')
    \<and> HelperSent (lit ''/h'') bs \<in> set (trace w') \<and> authentic sample_libs raw (Some sample_key)"
proof -
  obtain acked w' bs where run: "sample_pass (Some sample_key) (sync_world Map.empty)
      = (Inr (SyncUpdated 7 (lit ''sha256:00'') acked), w')" "HelperSent (lit ''/h'') bs \<in> set (trace w')"
    by (rule sample_updates)
  from helper_gets_authentic_bundles_only [OF sample_state_paths sync_world_honest run(1) [unfolded sample_pass_def]
      _ run(2)]
  obtain raw where "authentic sample_libs raw (Some sample_key)" by auto
  with run show ?thesis by blast
qed

theorem applied_only_if_confirmed_witness:
  "\<exists>w' body. helper_apply (\<lambda>_. Some []) (\<lambda>_. Some (response_success OutOk)) sample_applier (lit ''x'') (sync_world Map.empty)
      = (Inr BundleApplied, w') \<and> trace w' = [HelperSent (lit ''/h'') (frame body)]"
proof -
  have "faultless (sync_world Map.empty)" by (simp add: faultless_def)
  with sample_helper obtain w' where run: "helper_apply (\<lambda>_. Some []) (\<lambda>_. Some (response_success OutOk)) sample_applier
      (lit ''x'') (sync_world Map.empty) = (Inr BundleApplied, w')"
    using helper_apply_ready by blast
  from applied_only_if_confirmed [OF run] obtain body where "trace w' = [HelperSent (lit ''/h'') (frame body)]" by auto
  with run show ?thesis by blast
qed

text \<open>A run of one pass, which takes the stored generation from none to 7.\<close>

abbreviation sample_step :: "world \<Rightarrow> world \<Rightarrow> bool" where
  "sample_step \<equiv> sync_step sample_libs (\<lambda>_. Some sample_response) (\<lambda>_. Some []) (\<lambda>_. Some [])
        (\<lambda>_. Some (response_success OutOk)) sample_applier (sample_sync (Some sample_key))"

lemma sample_run:
  obtains w' where "sample_step\<^sup>*\<^sup>* (sync_world Map.empty) w'"
    "stored_generation (sample_sync (Some sample_key)) (fs (sync_world Map.empty)) = None"
    "stored_generation (sample_sync (Some sample_key)) (fs w') = Some 7"
proof -
  let ?w = "sync_world Map.empty"
  obtain acked w' bs where run: "sample_pass (Some sample_key) ?w = (Inr (SyncUpdated 7 (lit ''sha256:00'') acked), w')"
    by (rule sample_updates)
  have "no_links (sample_sync (Some sample_key)) (fs ?w)" by (simp add: no_links_def sync_paths)
  from sync_step.pass [OF sample_state_paths sync_world_honest this run [unfolded sample_pass_def]]
  have steps: "sample_step\<^sup>*\<^sup>* ?w w'" by (rule r_into_rtranclp)
  moreover have "stored_generation (sample_sync (Some sample_key)) (fs ?w) = None"
    by (simp add: stored_generation_def text_of_def sync_paths)
  ultimately show ?thesis
    using that helper.synchronize_updated [OF sample_state_paths sync_world_honest sample_libs_ok(2) run [unfolded sample_pass_def]]
    by blast
qed

theorem generation_never_regresses_witness:
  "\<exists>w w'. sample_step\<^sup>*\<^sup>* w w'
    \<and> generation_level (stored_generation (sample_sync (Some sample_key)) (fs w))
        \<le> generation_level (stored_generation (sample_sync (Some sample_key)) (fs w'))
    \<and> stored_generation (sample_sync (Some sample_key)) (fs w) \<noteq> stored_generation (sample_sync (Some sample_key)) (fs w')"
proof -
  obtain w' where run: "sample_step\<^sup>*\<^sup>* (sync_world Map.empty) w'"
    "stored_generation (sample_sync (Some sample_key)) (fs (sync_world Map.empty)) = None"
    "stored_generation (sample_sync (Some sample_key)) (fs w') = Some 7" by (rule sample_run)
  with generation_never_regresses [OF run(1)] show ?thesis by fastforce
qed

theorem synchronisation_refines_trust_witness:
  "\<exists>k. (trust_step (accepted sample_libs) (Some sample_key))\<^sup>*\<^sup>* \<lparr>ts_level = 0, ts_pin = None\<rparr> \<lparr>ts_level = 7, ts_pin = k\<rparr>"
proof -
  obtain w' where run: "sample_step\<^sup>*\<^sup>* (sync_world Map.empty) w'"
    "stored_generation (sample_sync (Some sample_key)) (fs (sync_world Map.empty)) = None"
    "stored_generation (sample_sync (Some sample_key)) (fs w') = Some 7" by (rule sample_run)
  have "stored_pin (sample_sync (Some sample_key)) (fs (sync_world Map.empty)) = None"
    by (simp add: stored_pin_def text_of_def sync_paths)
  with synchronisation_refines_trust [OF run(1)] run(2,3) show ?thesis
    by (auto simp: trust_of_def generation_level_def)
qed

theorem stored_generation_is_authentic_witness:
  "\<exists>raw now. authentic sample_libs raw (Some sample_key) \<and> well_formed sample_libs raw now
     \<and> unat (generation (bundle_of sample_libs raw)) = 7"
proof -
  obtain w' where run: "sample_step\<^sup>*\<^sup>* (sync_world Map.empty) w'"
    "stored_generation (sample_sync (Some sample_key)) (fs (sync_world Map.empty)) = None"
    "stored_generation (sample_sync (Some sample_key)) (fs w') = Some 7" by (rule sample_run)
  from stored_generation_is_authentic [OF run(1), of sample_key] run(2,3) show ?thesis
    by (auto simp: generation_level_def)
qed

text \<open>A pin from an earlier contact, and a pin file that is blank.\<close>

lemma key_world: "fs (sync_world [in_s ''k'' \<mapsto> n]) (components (cs_signing_key_path (sample_sync p))) = Some n"
  by (simp add: sync_paths)

theorem pin_never_changes_witness:
  "fs (snd (sample_pass None (sync_world [in_s ''k'' \<mapsto> NFile (utf8 sample_key) MODE_PUBLIC 0]))) (in_s ''k'')
     = Some (NFile (utf8 sample_key) MODE_PUBLIC 0)"
proof -
  let ?w = "sync_world [in_s ''k'' \<mapsto> NFile (utf8 sample_key) MODE_PUBLIC 0]"
  obtain r w' where run: "sample_pass None ?w = (r, w')" by fastforce
  obtain es where "trace w' = trace ?w @ es"
    using synchronize_trace [OF sample_state_paths sync_world_honest run [unfolded sample_pass_def]] .
  from pin_never_changes [OF sample_state_paths sync_world_honest key_world run [unfolded sample_pass_def] this, of "fs w'"]
  show ?thesis using run by (simp add: sync_paths)
qed

lemma from_response_unpinned:
  assumes "from_response L raw now (Some p) = Inr b"
  shows "from_response L raw now None = Inr b"
proof -
  have "authentic L raw None" using from_response_bundle(2) [OF assms] by (auto simp: authentic_def)
  with from_response_split [OF refl, of L raw now None] from_response_split [OF refl, of L raw now "Some p"] assms
  show ?thesis by (auto simp: envelope_errors_def)
qed


text \<open>A server that does not answer.\<close>

theorem failed_pass_keeps_state_witness:
  "\<exists>w'. sample_pass None ((sync_world Map.empty)\<lparr>http := \<lambda>_ _ _. None\<rparr>) = (Inl CaBundleTransport, w')
    \<and> fs w' (in_s ''g'') = None"
proof -
  let ?w = "(sync_world Map.empty)\<lparr>http := \<lambda>_ _ _. None\<rparr>"
  have "state_readable (sample_sync None) (fs ?w)" "faultless ?w" using sample_readable by (simp_all add: faultless_def)
  note load = load_state_readable [OF this]
  obtain sg w1 where sg: "sync_sign sample_libs (sample_sync None) (lit ''GET'') CA_BUNDLE_PATH [] (advance (advance (advance ?w)))
      = (Inr sg, w1)" "same_env (advance (advance (advance ?w))) w1"
    using sync_sign_ok [OF sample_can(1)] by blast
  have "http w1 = (\<lambda>_ _ _. None)" using sg(2) by (simp add: same_env_def)
  then obtain w' where run: "sample_pass None ?w = (Inl CaBundleTransport, w')"
    using load sg(1)
    by (simp add: sample_pass_def synchronize_def fetch_bundle_def bundle_get_def http_exchange_def bind_io_def Let_def)
  have "\<not> storage_error CaBundleTransport" by (simp add: storage_error_def)
  from failed_pass_keeps_state [OF run [unfolded sample_pass_def] this, of "in_s ''g''"] in_s_distinct(1)
  show ?thesis using run by (auto simp: in_s_not_tmp sync_paths)
qed

end
