(* ===== verification/Float64.thy ===== *)
theory Float64
  imports Prelude "HOL-Library.Log_Nat"
begin

text \<open>
  The binary64 arithmetic that the delays are computed with: finite values are rationals, a
  result is the exact result rounded to 53 significant bits (nearest, ties to even, with
  gradual underflow and overflow to infinity). The sign of zero is not kept: no operation
  used here tells the zeros apart. \<open>Duration\<close> is a number of nanoseconds below its limit,
  and the operations of the standard library that panic return \<open>None\<close>.
\<close>

section \<open>Rounding\<close>

definition round_even :: "rat \<Rightarrow> int" where
  "round_even x =
     (let f = \<lfloor>x\<rfloor>; r = x - of_int f
      in if r < 1 / 2 then f else if r > 1 / 2 then f + 1 else if even f then f else f + 1)"

text \<open>The exponent \<open>e\<close> with \<open>2 powi e \<le> x < 2 powi (e + 1)\<close>, from the lengths of numerator and denominator.\<close>

definition exponent_of :: "rat \<Rightarrow> int" where
  "exponent_of x =
     (case quotient_of x of (n, d) \<Rightarrow>
        let e = bitlen n - bitlen d in if 2 powi e \<le> x then e else e - 1)"

definition quantum :: "rat \<Rightarrow> int" where
  "quantum x = max (exponent_of x - 52) (- 1074)"

definition round_pos :: "rat \<Rightarrow> rat" where
  "round_pos x = of_int (round_even (x / 2 powi quantum x)) * 2 powi quantum x"

definition round53 :: "rat \<Rightarrow> rat" where
  "round53 x = (if x = 0 then 0 else if x > 0 then round_pos x else - round_pos (- x))"

datatype f64 = Fin rat | PInf | NInf | NaN

definition F_MAX :: rat where
  "F_MAX = 2 ^ 1024"

definition to_f64 :: "rat \<Rightarrow> f64" where
  "to_f64 x =
     (let r = round53 x in if r \<ge> F_MAX then PInf else if r \<le> - F_MAX then NInf else Fin r)"

section \<open>Rounding is monotone and exact on what it returns\<close>

lemma floor_le_round_even: "\<lfloor>x\<rfloor> \<le> round_even x" "round_even x \<le> \<lfloor>x\<rfloor> + 1"
  by (simp_all add: round_even_def Let_def)

lemma round_even_int [simp]: "round_even (of_int n) = n"
  by (simp add: round_even_def Let_def)

lemma round_even_mono:
  assumes "x \<le> y"
  shows "round_even x \<le> round_even y"
proof (cases "\<lfloor>x\<rfloor> = \<lfloor>y\<rfloor>")
  case True
  with assms show ?thesis by (auto simp: round_even_def Let_def)
next
  case False
  with floor_mono [OF assms] have "\<lfloor>x\<rfloor> + 1 \<le> \<lfloor>y\<rfloor>" by simp
  with floor_le_round_even [of x] floor_le_round_even [of y] show ?thesis by linarith
qed

lemma round_even_error: "\<bar>of_int (round_even x) - x\<bar> \<le> 1 / 2"
proof -
  have "of_int \<lfloor>x\<rfloor> \<le> x" "x < of_int \<lfloor>x\<rfloor> + 1" by linarith+
  then show ?thesis by (auto simp: round_even_def Let_def abs_le_iff)
qed

lemma powi2_pos [simp]: "(0 :: rat) < 2 powi e"
  by simp

lemma powi2_mono: "a \<le> b \<Longrightarrow> (2 :: rat) powi a \<le> 2 powi b"
  by (rule power_int_increasing) auto

lemma powi2_int: "0 \<le> e \<Longrightarrow> (2 :: rat) powi e = of_int (2 ^ nat e)"
  by (simp add: power_int_def)

lemma exponent_bounds:
  assumes "0 < x"
  shows "2 powi exponent_of x \<le> x \<and> x < 2 powi (exponent_of x + 1)"
proof -
  obtain n d where q: "quotient_of x = (n, d)" by fastforce
  then have d: "0 < d" and x: "x = of_int n / of_int d"
    using quotient_of_denom_pos quotient_of_div by blast+
  with assms have n: "0 < n" by (simp add: zero_less_divide_iff)
  have bn: "2 ^ nat (bitlen n - 1) \<le> n" "n < 2 ^ nat (bitlen n)" and bd: "2 ^ nat (bitlen d - 1) \<le> d" "d < 2 ^ nat (bitlen d)"
    using bitlen_bounds [OF n] bitlen_bounds [OF d] by auto
  have pos: "0 < bitlen n" "0 < bitlen d" using bitlen_bounds [OF n] bitlen_bounds [OF d] n d bitlen_nonneg [of n] bitlen_nonneg [of d] by (cases "bitlen n = 0"; cases "bitlen d = 0"; simp)+
  have N: "(2 :: rat) powi (bitlen n - 1) \<le> of_int n" "of_int n < (2 :: rat) powi bitlen n"
      and D: "(2 :: rat) powi (bitlen d - 1) \<le> of_int d" "of_int d < (2 :: rat) powi bitlen d"
    using bn bd pos by (simp_all add: powi2_int del: of_int_power flip: of_int_le_iff of_int_less_iff)
  have up: "x < 2 powi (bitlen n - bitlen d + 1)"
  proof -
    have "x \<le> of_int n / 2 powi (bitlen d - 1)"
      unfolding x using D(1) n d by (intro divide_left_mono) auto
    also have "\<dots> < 2 powi bitlen n / 2 powi (bitlen d - 1)"
      using N(2) by (intro divide_strict_right_mono) auto
    also have "\<dots> = 2 powi (bitlen n - bitlen d + 1)"
      by (simp add: power_int_diff [symmetric] algebra_simps)
    finally show ?thesis .
  qed
  have low: "2 powi (bitlen n - bitlen d - 1) \<le> x"
  proof -
    have "2 powi (bitlen n - bitlen d - 1) = (2 :: rat) powi (bitlen n - 1) / 2 powi bitlen d"
      by (simp add: power_int_diff [symmetric] algebra_simps)
    also have "\<dots> \<le> of_int n / 2 powi bitlen d"
      using N(1) by (intro divide_right_mono) auto
    also have "\<dots> \<le> of_int n / of_int d"
      using D(2) n d by (intro divide_left_mono) auto
    finally show ?thesis using x by simp
  qed
  show ?thesis
    using up low by (auto simp: exponent_of_def q Let_def not_le)
qed

lemma exponent_mono:
  assumes "0 < x" and "x \<le> y"
  shows "exponent_of x \<le> exponent_of y"
proof (rule ccontr)
  assume "\<not> ?thesis"
  then have "(2 :: rat) powi (exponent_of y + 1) \<le> 2 powi exponent_of x" by (intro powi2_mono) simp
  with exponent_bounds [of x] exponent_bounds [of y] assms show False by simp
qed

lemma quantum_mono: "0 < x \<Longrightarrow> x \<le> y \<Longrightarrow> quantum x \<le> quantum y"
  using exponent_mono [of x y] by (simp add: quantum_def max_def)

lemma powi2_ratio: "(2 :: rat) powi a / 2 powi b = 2 powi (a - b)"
  by (simp add: power_int_diff)

lemma round_pos_ge:
  assumes "0 < y" and "quantum y \<le> e" and "2 powi e \<le> y"
  shows "2 powi e \<le> round_pos y"
proof -
  have i: "(2 :: rat) powi (e - quantum y) = of_int (2 ^ nat (e - quantum y))"
    using assms(2) by (intro powi2_int) simp
  have "(2 :: rat) powi (e - quantum y) \<le> y / 2 powi quantum y"
    using assms(3) by (simp add: powi2_ratio [symmetric] divide_right_mono)
  then have "round_even (of_int (2 ^ nat (e - quantum y))) \<le> round_even (y / 2 powi quantum y)"
    unfolding i by (rule round_even_mono)
  then have "2 ^ nat (e - quantum y) \<le> round_even (y / 2 powi quantum y)"
    by (simp only: round_even_int)
  then have "(of_int (2 ^ nat (e - quantum y)) :: rat) \<le> of_int (round_even (y / 2 powi quantum y))"
    by (simp only: of_int_le_iff)
  then have "2 powi (e - quantum y) * 2 powi quantum y \<le> round_pos y"
    unfolding round_pos_def i [symmetric] by (intro mult_right_mono) auto
  moreover have "(2 :: rat) powi (e - quantum y) * 2 powi quantum y = 2 powi e"
    by (simp add: power_int_add [symmetric])
  ultimately show ?thesis by simp
qed

lemma round_pos_le:
  assumes "0 < x" and "quantum x \<le> e" and "x \<le> 2 powi e"
  shows "round_pos x \<le> 2 powi e"
proof -
  have i: "(2 :: rat) powi (e - quantum x) = of_int (2 ^ nat (e - quantum x))"
    using assms(2) by (intro powi2_int) simp
  have "x / 2 powi quantum x \<le> (2 :: rat) powi (e - quantum x)"
    using assms(3) by (simp add: powi2_ratio [symmetric] divide_right_mono)
  then have "round_even (x / 2 powi quantum x) \<le> round_even (of_int (2 ^ nat (e - quantum x)))"
    unfolding i by (rule round_even_mono)
  then have "round_even (x / 2 powi quantum x) \<le> 2 ^ nat (e - quantum x)"
    by (simp only: round_even_int)
  then have "(of_int (round_even (x / 2 powi quantum x)) :: rat) \<le> of_int (2 ^ nat (e - quantum x))"
    by (simp only: of_int_le_iff)
  then have "round_pos x \<le> 2 powi (e - quantum x) * 2 powi quantum x"
    unfolding round_pos_def i [symmetric] by (intro mult_right_mono) auto
  then show ?thesis by (simp add: power_int_add [symmetric])
qed

lemma round_pos_mono:
  assumes "0 < x" and "x \<le> y"
  shows "round_pos x \<le> round_pos y"
proof (cases "quantum x = quantum y")
  case True
  have "round_even (x / 2 powi quantum x) \<le> round_even (y / 2 powi quantum y)"
    unfolding True using assms(2) by (intro round_even_mono divide_right_mono) auto
  then show ?thesis
    unfolding round_pos_def True by (intro mult_right_mono) auto
next
  case False
  with quantum_mono [OF assms] have less: "quantum x < quantum y" by simp
  then have qy: "quantum y = exponent_of y - 52" and ex: "exponent_of x + 1 \<le> exponent_of y"
    and qx: "quantum x \<le> exponent_of y"
    by (auto simp: quantum_def max_def split: if_splits)
  have y: "0 < y" using assms by simp
  have "x < 2 powi (exponent_of x + 1)" using exponent_bounds [OF assms(1)] by simp
  also have "\<dots> \<le> 2 powi exponent_of y" using ex by (rule powi2_mono)
  finally have "round_pos x \<le> 2 powi exponent_of y"
    using assms(1) qx by (intro round_pos_le) auto
  also have "\<dots> \<le> round_pos y"
    using y qy exponent_bounds [OF y] by (intro round_pos_ge) auto
  finally show ?thesis .
qed

lemma round_pos_nonneg: "0 < x \<Longrightarrow> 0 \<le> round_pos x"
proof -
  assume "0 < x"
  then have "round_even (of_int 0) \<le> round_even (x / 2 powi quantum x)"
    by (intro round_even_mono) simp
  then have "0 \<le> round_even (x / 2 powi quantum x)" by (simp only: round_even_int)
  then show ?thesis by (simp add: round_pos_def)
qed

lemma round53_nonneg: "0 \<le> x \<Longrightarrow> 0 \<le> round53 x"
  using round_pos_nonneg by (auto simp: round53_def)

lemma round53_mono:
  assumes "x \<le> y"
  shows "round53 x \<le> round53 y"
  using assms round_pos_mono [of x y] round_pos_mono [of "- y" "- x"] round_pos_nonneg [of y]
    round_pos_nonneg [of "- x"]
  by (auto simp: round53_def)

text \<open>Representable values: what rounding returns unchanged.\<close>

definition representable :: "rat \<Rightarrow> bool" where
  "representable x \<longleftrightarrow> round53 x = x"

lemma round_pos_grid:
  assumes "0 < x" and "x = of_int n * 2 powi k" and "quantum x \<le> k"
  shows "round_pos x = x"
proof -
  have "x / 2 powi quantum x = of_int (n * 2 ^ nat (k - quantum x))"
  proof -
    have "x / 2 powi quantum x = of_int n * (2 powi k / 2 powi quantum x)" using assms(2) by simp
    also have "\<dots> = of_int n * of_int (2 ^ nat (k - quantum x))"
      unfolding powi2_ratio using assms(3) by (subst powi2_int) auto
    finally show ?thesis by simp
  qed
  then have "round_pos x = x / 2 powi quantum x * 2 powi quantum x"
    unfolding round_pos_def by (simp only: round_even_int)
  then show ?thesis by simp
qed

lemma exponent_unique:
  assumes "0 < x" and "x < 2 powi (e + 1)"
  shows "exponent_of x \<le> e"
proof (rule ccontr)
  assume "\<not> ?thesis"
  then have "(2 :: rat) powi (e + 1) \<le> 2 powi exponent_of x" by (intro powi2_mono) simp
  with exponent_bounds [OF assms(1)] assms(2) show False by simp
qed

lemma representable_int:
  assumes "0 \<le> n" and "n \<le> 2 ^ 53"
  shows "representable (of_int n)"
proof (cases "n = 0 \<or> n = 2 ^ 53")
  case True
  have "round_pos (2 ^ 53) = 2 ^ 53"
  proof -
    have "exponent_of (2 ^ 53) \<le> 53" by (rule exponent_unique) auto
    then have "quantum (2 ^ 53) \<le> 53" by (simp add: quantum_def)
    then show ?thesis using round_pos_grid [of "2 ^ 53" 1 53] by (simp add: power_int_def)
  qed
  with True show ?thesis by (auto simp: representable_def round53_def)
next
  case False
  with assms have n: "0 < n" "n < 2 ^ 53" by auto
  then have "(of_int n :: rat) < of_int (2 ^ 53)" by (simp only: of_int_less_iff)
  then have "exponent_of (of_int n) \<le> 52" using n by (intro exponent_unique) (auto simp: power_int_def)
  then have "quantum (of_int n) \<le> 0" by (simp add: quantum_def)
  then have "round_pos (of_int n) = of_int n" using n round_pos_grid [of "of_int n" n 0] by simp
  then show ?thesis using n by (simp add: representable_def round53_def)
qed

lemma round_pos_idem:
  assumes "0 < x" and "0 < round_pos x"
  shows "round_pos (round_pos x) = round_pos x"
proof -
  let ?r = "round_pos x" and ?e = "exponent_of x"
  have grid: "?r = of_int (round_even (x / 2 powi quantum x)) * 2 powi quantum x"
    by (simp add: round_pos_def)
  show ?thesis
  proof (cases "quantum x \<le> ?e + 1")
    case True
    have le: "?r \<le> 2 powi (?e + 1)"
      using assms(1) True exponent_bounds [OF assms(1)] by (intro round_pos_le) auto
    show ?thesis
    proof (cases "?r = 2 powi (?e + 1)")
      case eq: True
      have "exponent_of ?r \<le> ?e + 1"
        using assms(2) eq by (intro exponent_unique) (auto intro!: power_int_strict_increasing)
      then have "quantum ?r \<le> ?e + 1" using True by (auto simp: quantum_def)
      then show ?thesis
        using round_pos_grid [OF assms(2), of 1 "?e + 1"] eq by simp
    next
      case False
      with le have "?r < 2 powi (?e + 1)" by simp
      then have "exponent_of ?r \<le> ?e" using assms(2) by (intro exponent_unique)
      then have "quantum ?r \<le> quantum x" by (simp add: quantum_def max_def)
      then show ?thesis using round_pos_grid [OF assms(2) grid] by simp
    qed
  next
    case False
    then have q: "quantum x = - 1074" by (auto simp: quantum_def)
    have "x \<le> 2 powi quantum x"
      using exponent_bounds [OF assms(1)] powi2_mono [of "?e + 1" "quantum x"] False by simp
    then have "?r \<le> 2 powi quantum x" using assms(1) by (intro round_pos_le) auto
    moreover have "(2 :: rat) powi quantum x < 2 powi (- 1073 + 1)" unfolding q by (simp add: power_int_def)
    ultimately have "exponent_of ?r \<le> - 1073" using assms(2) by (intro exponent_unique) auto
    then have "quantum ?r \<le> quantum x" by (simp add: quantum_def max_def)
    then show ?thesis using round_pos_grid [OF assms(2) grid] by simp
  qed
qed

lemma representable_round: "representable (round53 x)"
proof -
  have "round_pos y = 0 \<or> round_pos (round_pos y) = round_pos y" if "0 < y" for y
    using round_pos_idem [OF that] round_pos_nonneg [OF that] by (cases "round_pos y = 0") auto
  from this [of x] this [of "- x"] round_pos_nonneg [of x] round_pos_nonneg [of "- x"]
  show ?thesis by (auto simp: representable_def round53_def)
qed

section \<open>How far a rounded value is from the exact one\<close>

lemma round_pos_error:
  assumes "0 < x"
  shows "\<bar>round_pos x - x\<bar> \<le> x / 2 ^ 53 + 1 / 2 ^ 200"
proof -
  let ?q = "2 powi quantum x :: rat"
  have q: "0 < ?q" by simp
  have "round_pos x - x = (of_int (round_even (x / ?q)) - x / ?q) * ?q"
    using q by (simp add: round_pos_def left_diff_distrib)
  then have "\<bar>round_pos x - x\<bar> = \<bar>of_int (round_even (x / ?q)) - x / ?q\<bar> * ?q"
    by (simp add: abs_mult)
  also have "\<dots> \<le> 1 / 2 * ?q" using round_even_error [of "x / ?q"] q by (intro mult_right_mono) auto
  also have "\<dots> \<le> x / 2 ^ 53 + 1 / 2 ^ 200"
  proof (cases "- 1074 \<le> exponent_of x - 52")
    case True
    then have "?q = 2 powi exponent_of x / 2 ^ 52"
      by (simp add: quantum_def power_int_diff)
    moreover have "2 powi exponent_of x \<le> x" using exponent_bounds [OF assms] by simp
    ultimately have "1 / 2 * ?q \<le> x / 2 ^ 53" by (simp add: divide_right_mono)
    moreover have "(0 :: rat) \<le> 1 / 2 ^ 200" by simp
    ultimately show ?thesis by linarith
  next
    case False
    then have "quantum x = - 1074" by (simp add: quantum_def)
    then have "?q = 2 powi (- 1074)" by (simp only:)
    also have "\<dots> \<le> 2 powi (- 200)" by (rule powi2_mono) simp
    also have "\<dots> = 1 / 2 ^ 200"
      by (simp add: power_int_def power_one_over inverse_eq_divide)
    finally have "1 / 2 * ?q \<le> 1 / 2 ^ 200" using q by linarith
    moreover have "0 \<le> x / 2 ^ 53" using assms by simp
    ultimately show ?thesis by linarith
  qed
  finally show ?thesis .
qed

lemma round53_error:
  assumes "0 \<le> x"
  shows "\<bar>round53 x - x\<bar> \<le> x / 2 ^ 53 + 1 / 2 ^ 200"
proof (cases "x = 0")
  case False
  with assms round_pos_error [of x] show ?thesis by (simp add: round53_def)
qed (simp add: round53_def)

section \<open>Operations\<close>

fun fadd :: "f64 \<Rightarrow> f64 \<Rightarrow> f64" where
  "fadd (Fin a) (Fin b) = to_f64 (a + b)"
| "fadd NaN _ = NaN"
| "fadd _ NaN = NaN"
| "fadd PInf NInf = NaN"
| "fadd NInf PInf = NaN"
| "fadd PInf _ = PInf"
| "fadd _ PInf = PInf"
| "fadd NInf _ = NInf"
| "fadd _ NInf = NInf"

definition finf :: "bool \<Rightarrow> f64" where
  "finf pos = (if pos then PInf else NInf)"

fun fmul :: "f64 \<Rightarrow> f64 \<Rightarrow> f64" where
  "fmul (Fin a) (Fin b) = to_f64 (a * b)"
| "fmul NaN _ = NaN"
| "fmul _ NaN = NaN"
| "fmul (Fin a) PInf = (if a = 0 then NaN else finf (a > 0))"
| "fmul (Fin a) NInf = (if a = 0 then NaN else finf (a < 0))"
| "fmul PInf (Fin b) = (if b = 0 then NaN else finf (b > 0))"
| "fmul NInf (Fin b) = (if b = 0 then NaN else finf (b < 0))"
| "fmul PInf PInf = PInf"
| "fmul NInf NInf = PInf"
| "fmul PInf NInf = NInf"
| "fmul NInf PInf = NInf"

text \<open>Division is used with a positive finite divisor only.\<close>

definition fdiv :: "f64 \<Rightarrow> rat \<Rightarrow> f64" where
  "fdiv x d = (case x of Fin a \<Rightarrow> to_f64 (a / d) | _ \<Rightarrow> x)"

fun fless :: "f64 \<Rightarrow> f64 \<Rightarrow> bool" where
  "fless (Fin a) (Fin b) = (a < b)"
| "fless (Fin a) PInf = True"
| "fless NInf (Fin b) = True"
| "fless NInf PInf = True"
| "fless _ _ = False"

text \<open>\<open>f64::min\<close> and \<open>f64::max\<close>: a NaN loses against a number.\<close>

definition fmin :: "f64 \<Rightarrow> f64 \<Rightarrow> f64" where
  "fmin a b = (if a = NaN then b else if b = NaN then a else if fless b a then b else a)"

definition fmax :: "f64 \<Rightarrow> f64 \<Rightarrow> f64" where
  "fmax a b = (if a = NaN then b else if b = NaN then a else if fless a b then b else a)"

definition is_finite :: "f64 \<Rightarrow> bool" where
  "is_finite x \<longleftrightarrow> (\<exists>a. x = Fin a)"

text \<open>\<open>f64::clamp\<close> between finite bounds.\<close>

definition fclamp :: "f64 \<Rightarrow> rat \<Rightarrow> rat \<Rightarrow> f64" where
  "fclamp x lo hi = (if fless x (Fin lo) then Fin lo else if fless (Fin hi) x then Fin hi else x)"

type_synonym duration = nat

definition NANOS_PER_SEC :: nat where
  "NANOS_PER_SEC = 1000000000"

definition DURATION_MAX :: duration where
  "DURATION_MAX = 2 ^ 64 * NANOS_PER_SEC - 1"

definition from_secs :: "u64 \<Rightarrow> duration" where
  "from_secs s = unat s * NANOS_PER_SEC"

definition as_secs_f64 :: "duration \<Rightarrow> f64" where
  "as_secs_f64 d =
     fadd (to_f64 (of_nat (d div NANOS_PER_SEC)))
       (fdiv (to_f64 (of_nat (d mod NANOS_PER_SEC))) (of_nat NANOS_PER_SEC))"

definition from_secs_f64 :: "f64 \<Rightarrow> duration option" where
  "from_secs_f64 x =
     (case x of
        Fin r \<Rightarrow>
          if r < 0 then None
          else (let n = nat (round_even (r * of_nat NANOS_PER_SEC))
                in if n > DURATION_MAX then None else Some n)
      | _ \<Rightarrow> None)"

definition duration_add :: "duration \<Rightarrow> duration \<Rightarrow> duration option" where
  "duration_add a b = (if a + b \<le> DURATION_MAX then Some (a + b) else None)"

section \<open>Facts the schedules use\<close>

lemma to_f64_bounded:
  assumes "0 \<le> x" and "x \<le> y" and "representable y" and "y < F_MAX"
  shows "\<exists>r. to_f64 x = Fin r \<and> 0 \<le> r \<and> r \<le> y \<and> representable r"
proof -
  have "round53 x \<le> y" using round53_mono [OF assms(2)] assms(3) by (simp add: representable_def)
  moreover have "0 \<le> round53 x" using round53_nonneg [OF assms(1)] .
  moreover have "0 < F_MAX" by (simp add: F_MAX_def)
  ultimately show ?thesis
    using assms(4) representable_round [of x] by (auto simp: to_f64_def Let_def)
qed

lemma to_f64_int:
  assumes "n \<le> 2 ^ 53"
  shows "to_f64 (of_nat n) = Fin (of_nat n)"
proof -
  have "representable (of_int (int n))"
    by (rule representable_int) (use assms in \<open>simp_all flip: of_nat_le_iff\<close>)
  moreover have "(of_nat n :: rat) \<le> 2 ^ 53" using assms by (simp flip: of_nat_le_iff)
  moreover have "(2 :: rat) ^ 53 < 2 ^ 1024" by (rule power_strict_increasing) auto
  ultimately show ?thesis
    by (simp add: to_f64_def Let_def representable_def F_MAX_def)
qed

lemma as_secs_whole:
  assumes "s \<le> 2 ^ 53"
  shows "as_secs_f64 (s * NANOS_PER_SEC) = Fin (of_nat s)"
proof -
  have "to_f64 0 = Fin 0" using to_f64_int [of 0] by simp
  then show ?thesis
    using to_f64_int [OF assms] by (simp add: as_secs_f64_def NANOS_PER_SEC_def fdiv_def)
qed

lemma from_secs_bounded:
  assumes "0 \<le> r" and "r \<le> of_nat s" and "s < 2 ^ 64"
  shows "\<exists>d. from_secs_f64 (Fin r) = Some d \<and> d \<le> s * NANOS_PER_SEC"
proof -
  have "round_even (r * of_nat NANOS_PER_SEC) \<le> round_even (of_int (int (s * NANOS_PER_SEC)))"
    using assms(2) by (intro round_even_mono) (simp add: mult_right_mono)
  then have le: "nat (round_even (r * of_nat NANOS_PER_SEC)) \<le> s * NANOS_PER_SEC"
    by (simp only: round_even_int)
  moreover have "s * NANOS_PER_SEC \<le> DURATION_MAX"
  proof -
    have "(s + 1) * NANOS_PER_SEC \<le> 2 ^ 64 * NANOS_PER_SEC" using assms(3) by (intro mult_right_mono) auto
    then show ?thesis by (simp add: DURATION_MAX_def NANOS_PER_SEC_def)
  qed
  ultimately show ?thesis using assms(1) by (simp add: from_secs_f64_def Let_def)
qed

lemma to_f64_error:
  assumes "0 \<le> x" and "to_f64 x = Fin r"
  shows "\<bar>r - x\<bar> \<le> x / 2 ^ 53 + 1 / 2 ^ 200"
  using assms round53_error [of x] by (auto simp: to_f64_def Let_def split: if_splits)

text \<open>The product of two rounded factors against the exact one.\<close>

lemma scaled_error:
  assumes "0 \<le> a" and "a \<le> of_nat s" and "0 \<le> q" and "q \<le> 1" and "fmul (Fin a) (Fin q) = Fin b"
  shows "\<bar>b - a * q\<bar> \<le> of_nat s / 2 ^ 53 + 1 / 2 ^ 200"
proof -
  have "a * q \<le> of_nat s * 1" using assms by (intro mult_mono) auto
  then have "a * q / 2 ^ 53 \<le> of_nat s / 2 ^ 53" by (intro divide_right_mono) simp_all
  moreover have "\<bar>b - a * q\<bar> \<le> a * q / 2 ^ 53 + 1 / 2 ^ 200"
    using assms by (intro to_f64_error) simp_all
  ultimately show ?thesis by simp
qed

lemma mult_error:
  assumes "\<bar>a - a'\<bar> \<le> e" and "\<bar>q - q'\<bar> \<le> f" and "0 \<le> q" and "q \<le> 1" and "0 \<le> a'" and "a' \<le> s" and "0 \<le> f"
  shows "\<bar>a * q - a' * q'\<bar> \<le> e + s * (f :: rat)"
proof -
  have "\<bar>a * q - a' * q'\<bar> = \<bar>(a - a') * q + a' * (q - q')\<bar>" by (simp add: algebra_simps)
  also have "\<dots> \<le> \<bar>a - a'\<bar> * q + a' * \<bar>q - q'\<bar>"
    using abs_triangle_ineq [of "(a - a') * q" "a' * (q - q')"] assms(3,5) by (simp add: abs_mult)
  also have "\<dots> \<le> e * 1 + s * f"
    using assms by (intro add_mono mult_mono) auto
  finally show ?thesis by simp
qed

lemma abs_chain: "\<bar>c - a\<bar> \<le> x \<Longrightarrow> \<bar>b - c\<bar> \<le> y \<Longrightarrow> \<bar>b - a\<bar> \<le> x + (y :: rat)"
  by linarith

lemma from_secs_error:
  assumes "from_secs_f64 (Fin b) = Some n" and "0 \<le> b"
  shows "\<bar>of_nat n - b * of_nat NANOS_PER_SEC\<bar> \<le> 1 / 2"
proof -
  have "n = nat (round_even (b * of_nat NANOS_PER_SEC))"
    using assms by (auto simp: from_secs_f64_def Let_def split: if_splits)
  moreover have "round_even (of_int 0) \<le> round_even (b * of_nat NANOS_PER_SEC)"
    using assms(2) by (intro round_even_mono) simp
  ultimately have "(of_nat n :: rat) = of_int (round_even (b * of_nat NANOS_PER_SEC))"
    by (simp only: round_even_int of_nat_nat)
  then show ?thesis using round_even_error [of "b * of_nat NANOS_PER_SEC"] by simp
qed

end
