(* ===== verification/Shutdown.thy ===== *)
theory Shutdown
  imports World Float64
begin

text \<open>
  \<open>src/service/shutdown.rs\<close>: the shutdown flag and the sleeper that wakes up early. The
  flag is set by signal handlers at any time, so it is one of the world's answers
  (\<open>stop_flag\<close> at the tick of the look); registering the handlers is a system call that may fail. The
  sleeping loop is a partial function, and that it returns is a theorem.
\<close>

section \<open>Definitions\<close>

definition DEFAULT_SLEEP_STEP :: duration where
  "DEFAULT_SLEEP_STEP = 500 * 1000000"

definition is_requested :: "world \<Rightarrow> bool \<times> world" where
  "is_requested w = stop_requested w"

text \<open>A request from inside the process: the flag is up from now on.\<close>

definition shutdown_request :: "world \<Rightarrow> world" where
  "shutdown_request w = w\<lparr>stop_flag := (\<lambda>t. tick w \<le> t \<or> stop_flag w t)\<rparr>"

record interruptible_sleeper =
  sl_step :: duration

definition sleeper_new :: interruptible_sleeper where
  "sleeper_new = \<lparr>sl_step = DEFAULT_SLEEP_STEP\<rparr>"

definition sleeper_with_step :: "duration \<Rightarrow> interruptible_sleeper" where
  "sleeper_with_step step = \<lparr>sl_step = max step 1000000\<rparr>"

definition thread_sleep :: "duration \<Rightarrow> world \<Rightarrow> world" where
  "thread_sleep d w = (advance w)\<lparr>trace := trace w @ [Slept d]\<rparr>"

partial_function (option) sleep_loop :: "duration \<Rightarrow> duration \<Rightarrow> world \<Rightarrow> world option" where
  "sleep_loop step remaining w =
     (if remaining = 0 then Some w
      else (case is_requested w of
              (requested, w1) \<Rightarrow>
                if requested then Some w1
                else sleep_loop step (remaining - min remaining step) (thread_sleep (min remaining step) w1)))"

definition interruptible_sleep :: "interruptible_sleeper \<Rightarrow> duration \<Rightarrow> world \<Rightarrow> world option" where
  "interruptible_sleep s d w = sleep_loop (sl_step s) d w"

text \<open>Registering a handler can fail like any system call; what a handler does is set the flag.\<close>

definition register_signal :: "(error, unit) comp" where
  "register_signal = map_err_io Io (sys_query (\<lambda>_. Inr ()))"

definition install_signal_handlers :: "unit io" where
  "install_signal_handlers = bind_io register_signal (\<lambda>_. register_signal)"

section \<open>Properties\<close>

lemma request_stands: "tick w \<le> tick w' \<Longrightarrow> stop_flag w' = stop_flag (shutdown_request w) \<Longrightarrow> fst (is_requested w')"
  by (simp add: is_requested_def stop_requested_def shutdown_request_def)

lemma keeps_install [intro]: "keeps P Q install_signal_handlers"
  unfolding install_signal_handlers_def register_signal_def by auto

lemma same_env_sleep: "same_env w (thread_sleep d (advance w))"
  by (simp add: same_env_def thread_sleep_def)

text \<open>
  What one call did: the chunks slept, none longer than the step; all of the duration
  unless the flag was seen, and no chunk after the flag.
\<close>

definition slept_properly :: "duration \<Rightarrow> duration \<Rightarrow> world \<Rightarrow> world \<Rightarrow> bool" where
  "slept_properly step d w w' \<longleftrightarrow> same_env w w' \<and> fs w' = fs w \<and> (\<exists>cs. trace w' = trace w @ map Slept cs
     \<and> (\<forall>c \<in> set cs. 0 < c \<and> c \<le> step) \<and> sum_list cs \<le> d
     \<and> (sum_list cs = d \<or> (\<exists>t. tick w \<le> t \<and> t < tick w' \<and> stop_flag w t))
     \<and> (\<forall>T. (\<forall>t \<ge> T. stop_flag w t) \<longrightarrow> length cs \<le> T - tick w))"

lemma sleep_loop_total:
  assumes "0 < step"
  shows "\<exists>w'. sleep_loop step d w = Some w' \<and> slept_properly step d w w'"
proof (induction d arbitrary: w rule: less_induct)
  case (less d)
  show ?case
  proof (cases "d = 0 \<or> stop_flag w (tick w)")
    case True
    then have "sleep_loop step d w = Some (if d = 0 then w else advance w)"
      by (subst sleep_loop.simps) (auto simp: is_requested_def stop_requested_def)
    moreover have "slept_properly step d w (if d = 0 then w else advance w)"
      unfolding slept_properly_def
      by (intro conjI exI [of _ "[]"]) (use True in \<open>auto simp: same_env_def\<close>)
    ultimately show ?thesis by blast
  next
    case False
    let ?c = "min d step" and ?w = "thread_sleep (min d step) (advance w)"
    have "d - ?c < d" using False assms by simp
    from less [OF this, of ?w] obtain w' where w': "sleep_loop step (d - ?c) ?w = Some w'"
        and sp: "slept_properly step (d - ?c) ?w w'" by blast
    have run: "sleep_loop step d w = Some w'"
      using False w' by (subst sleep_loop.simps) (auto simp: is_requested_def stop_requested_def Let_def)
    from sp obtain cs where cs: "trace w' = trace ?w @ map Slept cs" "\<forall>c \<in> set cs. 0 < c \<and> c \<le> step"
        "sum_list cs \<le> d - ?c" "sum_list cs = d - ?c \<or> (\<exists>t. tick ?w \<le> t \<and> t < tick w' \<and> stop_flag ?w t)"
        "\<forall>T. (\<forall>t \<ge> T. stop_flag ?w t) \<longrightarrow> length cs \<le> T - tick ?w"
        and env: "same_env ?w w'" "fs w' = fs ?w"
      by (auto simp: slept_properly_def)
    have facts: "tick ?w = Suc (Suc (tick w))" "stop_flag ?w = stop_flag w" "trace ?w = trace w @ [Slept ?c]"
        "fs ?w = fs w" by (simp_all add: thread_sleep_def)
    have T: "length (?c # cs) \<le> T - tick w" if "\<forall>t \<ge> T. stop_flag w t" for T
    proof -
      have "T > tick w" using that False by (metis not_le)
      moreover have "length cs \<le> T - Suc (Suc (tick w))" using cs(5) that facts by auto
      ultimately show ?thesis by simp
    qed
    have "slept_properly step d w w'"
      unfolding slept_properly_def
    proof (intro conjI exI [of _ "?c # cs"])
      show "same_env w w'" using same_env_trans [OF same_env_sleep env(1)] .
      show "trace w' = trace w @ map Slept (?c # cs)" using cs(1) facts by simp
      show "\<forall>c \<in> set (?c # cs). 0 < c \<and> c \<le> step" using cs(2) assms False by auto
      show "sum_list (?c # cs) \<le> d" using cs(3) by simp
      show "sum_list (?c # cs) = d \<or> (\<exists>t. tick w \<le> t \<and> t < tick w' \<and> stop_flag w t)"
        using cs(4) facts by (auto intro: exI dest: Suc_leD)
    qed (use T env facts in auto)
    with run show ?thesis by blast
  qed
qed

lemma sleeper_step_pos: "0 < sl_step (sleeper_with_step s)" "0 < sl_step sleeper_new"
  by (simp_all add: sleeper_with_step_def sleeper_new_def DEFAULT_SLEEP_STEP_def)

lemma sleeper_sleeps:
  "\<exists>w'. interruptible_sleep (sleeper_with_step step) d w = Some w' \<and> slept_properly (max step 1000000) d w w'"
  using sleep_loop_total [OF sleeper_step_pos(1), of step d w]
  by (simp add: interruptible_sleep_def sleeper_with_step_def)



end
