(* ===== verification/Scheduler.thy ===== *)
theory Scheduler
  imports Shutdown
begin

text \<open>
  \<open>src/service/scheduler.rs\<close>: the two jittered cadences and the polling loop. Instants and
  durations are nanoseconds; an addition that would leave the range of \<open>OffsetDateTime\<close> or
  \<open>Duration\<close> panics in Rust and is the value \<open>None\<close> (\<open>Panic\<close> for a run) here. The loop is a
  partial function: it runs as long as its caller wants.
\<close>

section \<open>Definitions\<close>

definition JITTER_RESOLUTION :: nat where
  "JITTER_RESOLUTION = 1000000"

definition from_le_bytes :: "bytes \<Rightarrow> u64" where
  "from_le_bytes bs = foldr (\<lambda>b n. push_bit 8 n OR ucast b) bs 0"

definition next_u64 :: "world \<Rightarrow> u64 \<times> world" where
  "next_u64 w = (case random_bytes 8 w of (bs, w') \<Rightarrow> (from_le_bytes bs, w'))"

text \<open>The random source of the tests gives the same value every time.\<close>

record fixed_random =
  fr_value :: u64

definition fixed_next_u64 :: "fixed_random \<Rightarrow> world \<Rightarrow> u64 \<times> world" where
  "fixed_next_u64 r w = (fr_value r, w)"

record jittered_interval =
  ji_base :: duration
  ji_ratio :: f64

definition jittered_interval_new :: "duration \<Rightarrow> f64 \<Rightarrow> jittered_interval" where
  "jittered_interval_new base ratio =
     \<lparr>ji_base = base, ji_ratio = (if is_finite ratio then fclamp ratio 0 1 else Fin 0)\<rparr>"

definition fle :: "f64 \<Rightarrow> f64 \<Rightarrow> bool" where
  "fle a b \<longleftrightarrow> a \<noteq> NaN \<and> b \<noteq> NaN \<and> \<not> fless b a"

definition jitter_fraction :: "u64 \<Rightarrow> f64" where
  "jitter_fraction r = fdiv (to_f64 (of_nat (unat r mod JITTER_RESOLUTION))) (of_nat JITTER_RESOLUTION)"

definition next_delay :: "jittered_interval \<Rightarrow> world \<Rightarrow> duration option \<times> world" where
  "next_delay ji w =
     (if fle (ji_ratio ji) (Fin 0) then (Some (ji_base ji), w)
      else (case next_u64 w of (r, w') \<Rightarrow>
              (let extra = fmul (fmul (as_secs_f64 (ji_base ji)) (ji_ratio ji)) (jitter_fraction r)
               in Option.bind (from_secs_f64 extra) (duration_add (ji_base ji)), w')))"

datatype poll_action = Heartbeat | BundleSync

record scheduler =
  sch_heartbeat :: jittered_interval
  sch_sync :: jittered_interval
  sch_heartbeat_due :: int
  sch_sync_due :: int

text \<open>The last instant of the year 9999, the end of the range of \<open>OffsetDateTime\<close>.\<close>

definition TIME_MAX :: int where
  "TIME_MAX = 253402300799999999999"

definition time_add :: "int \<Rightarrow> duration \<Rightarrow> int option" where
  "time_add t d = (if t + int d \<le> TIME_MAX then Some (t + int d) else None)"

definition due_after :: "int \<Rightarrow> jittered_interval \<Rightarrow> world \<Rightarrow> int option \<times> world" where
  "due_after now ji w = (case next_delay ji w of (d, w') \<Rightarrow> (Option.bind d (time_add now), w'))"

definition scheduler_new ::
    "int \<Rightarrow> jittered_interval \<Rightarrow> jittered_interval \<Rightarrow> world \<Rightarrow> scheduler option \<times> world" where
  "scheduler_new now hb sync w =
     (case due_after now hb w of
        (None, w1) \<Rightarrow> (None, w1)
      | (Some heartbeat_due, w1) \<Rightarrow>
          (case due_after now sync w1 of
             (None, w2) \<Rightarrow> (None, w2)
           | (Some sync_due, w2) \<Rightarrow>
               (Some \<lparr>sch_heartbeat = hb, sch_sync = sync, sch_heartbeat_due = heartbeat_due,
                      sch_sync_due = sync_due\<rparr>, w2)))"

definition next_due :: "scheduler \<Rightarrow> int" where
  "next_due s = min (sch_heartbeat_due s) (sch_sync_due s)"

definition take_due :: "int \<Rightarrow> scheduler \<Rightarrow> world \<Rightarrow> (poll_action list \<times> scheduler) option \<times> world" where
  "take_due now s w =
     (let step1 =
        (if now \<ge> sch_heartbeat_due s
         then (case due_after now (sch_heartbeat s) w of
                 (t, w1) \<Rightarrow> (map_option (\<lambda>t. ([Heartbeat], s\<lparr>sch_heartbeat_due := t\<rparr>)) t, w1))
         else (Some ([], s), w))
      in case step1 of
           (None, w1) \<Rightarrow> (None, w1)
         | (Some (due, s1), w1) \<Rightarrow>
             (if now \<ge> sch_sync_due s1
              then (case due_after now (sch_sync s1) w1 of
                      (t, w2) \<Rightarrow> (map_option (\<lambda>t. (due @ [BundleSync], s1\<lparr>sch_sync_due := t\<rparr>)) t, w2))
              else (Some (due, s1), w1)))"

text \<open>The closures of the caller, with the state they capture and mutate.\<close>

type_synonym 'c callback = "'c \<Rightarrow> world \<Rightarrow> unit res \<times> 'c \<times> world"

fun run_actions :: "'c callback \<Rightarrow> 'c callback \<Rightarrow> poll_action list \<Rightarrow> 'c \<Rightarrow> world \<Rightarrow> 'c \<times> world" where
  "run_actions on_heartbeat on_sync [] c w = (c, w)"
| "run_actions on_heartbeat on_sync (act # acts) c w =
     (case (case act of Heartbeat \<Rightarrow> on_heartbeat c w | BundleSync \<Rightarrow> on_sync c w) of
        (_, c', w') \<Rightarrow> run_actions on_heartbeat on_sync acts c' w')"

datatype 'a run = Finished 'a | Panic

definition poll_wait :: "(duration \<Rightarrow> world \<Rightarrow> world option) \<Rightarrow> scheduler \<Rightarrow> world \<Rightarrow> world option" where
  "poll_wait sleep s w =
     (case clock_now w of (now, w1) \<Rightarrow>
        let wait = next_due s - now in if wait > 0 then sleep (nat wait) w1 else Some w1)"

definition poll_due ::
    "'c callback \<Rightarrow> 'c callback \<Rightarrow> scheduler \<Rightarrow> 'c \<Rightarrow> world \<Rightarrow> scheduler run \<times> 'c \<times> world" where
  "poll_due on_heartbeat on_sync s c w =
     (case clock_now w of (now, w1) \<Rightarrow>
        (case take_due now s w1 of
           (None, w2) \<Rightarrow> (Panic, c, w2)
         | (Some (due, s'), w2) \<Rightarrow> (Finished s', run_actions on_heartbeat on_sync due c w2)))"

partial_function (option) run_polling ::
    "(duration \<Rightarrow> world \<Rightarrow> world option) \<Rightarrow> 'c callback \<Rightarrow> 'c callback \<Rightarrow> (u64 \<Rightarrow> world \<Rightarrow> bool \<times> world)
     \<Rightarrow> u64 \<Rightarrow> scheduler \<Rightarrow> 'c \<Rightarrow> world \<Rightarrow> (scheduler run \<times> 'c \<times> world) option" where
  "run_polling sleep on_heartbeat on_sync should_continue cycle s c w =
     (case should_continue cycle w of (go, w1) \<Rightarrow>
        if \<not> go then Some (Finished s, c, w1)
        else Option.bind (poll_wait sleep s w1) (\<lambda>w2.
          case poll_due on_heartbeat on_sync s c w2 of (r, c', w3) \<Rightarrow>
            (case r of
               Panic \<Rightarrow> Some (Panic, c', w3)
             | Finished s' \<Rightarrow>
                 run_polling sleep on_heartbeat on_sync should_continue (cycle + 1) s' c' w3)))"

section \<open>Delays\<close>

definition good_interval :: "jittered_interval \<Rightarrow> nat \<Rightarrow> bool" where
  "good_interval ji s \<longleftrightarrow> ji_base ji = s * NANOS_PER_SEC \<and> 0 < s \<and> s \<le> 2 ^ 53
     \<and> (\<exists>r. ji_ratio ji = Fin r \<and> 0 \<le> r \<and> r \<le> 1)"

lemma good_interval_new:
  assumes "0 < s" and "s \<le> 2 ^ 53"
  shows "good_interval (jittered_interval_new (s * NANOS_PER_SEC) ratio) s"
proof -
  have "\<exists>r. (if is_finite ratio then fclamp ratio 0 1 else Fin 0) = Fin r \<and> 0 \<le> r \<and> r \<le> 1"
    by (cases ratio) (auto simp: is_finite_def fclamp_def not_less)
  with assms show ?thesis by (simp add: good_interval_def jittered_interval_new_def)
qed

lemma fraction_bounds: "\<exists>q. jitter_fraction r = Fin q \<and> 0 \<le> q \<and> q \<le> 1"
proof -
  let ?n = "unat r mod JITTER_RESOLUTION"
  have n: "?n < JITTER_RESOLUTION" by (simp add: JITTER_RESOLUTION_def)
  then have "to_f64 (of_nat ?n) = Fin (of_nat ?n)"
    by (intro to_f64_int) (simp add: JITTER_RESOLUTION_def)
  moreover have "\<exists>q. to_f64 (of_nat ?n / of_nat JITTER_RESOLUTION) = Fin q \<and> 0 \<le> q \<and> q \<le> 1 \<and> representable q"
  proof (rule to_f64_bounded)
    show "representable 1" using representable_int [of 1] by simp
    show "of_nat ?n / of_nat JITTER_RESOLUTION \<le> (1 :: rat)"
      using n by (simp add: divide_le_eq JITTER_RESOLUTION_def)
  qed (simp_all add: JITTER_RESOLUTION_def F_MAX_def)
  ultimately show ?thesis by (auto simp: jitter_fraction_def fdiv_def)
qed

lemma scaled_bounds:
  assumes "0 \<le> a" and "a \<le> of_nat s" and "s \<le> 2 ^ 53" and "0 \<le> q" and "q \<le> 1"
  shows "\<exists>b. fmul (Fin a) (Fin q) = Fin b \<and> 0 \<le> b \<and> b \<le> of_nat s"
proof -
  have "a * q \<le> of_nat s * 1" using assms by (intro mult_mono) auto
  moreover have "representable (of_nat s)"
    using representable_int [of "int s"] assms(3) by (simp flip: of_nat_le_iff)
  moreover have "(of_nat s :: rat) < F_MAX"
  proof -
    have "(of_nat s :: rat) \<le> 2 ^ 53" using assms(3) by (simp flip: of_nat_le_iff)
    moreover have "(2 :: rat) ^ 53 < 2 ^ 1024" by (rule power_strict_increasing) auto
    ultimately show ?thesis by (simp add: F_MAX_def)
  qed
  ultimately have "\<exists>r. to_f64 (a * q) = Fin r \<and> 0 \<le> r \<and> r \<le> of_nat s \<and> representable r"
    using assms by (intro to_f64_bounded) auto
  then show ?thesis by auto
qed

lemma next_delay_bounds:
  assumes "good_interval ji s"
  shows "\<exists>d w'. next_delay ji w = (Some d, w') \<and> ji_base ji \<le> d \<and> d \<le> 2 * ji_base ji
    \<and> (w' = w \<or> w' = advance w)"
proof -
  from assms obtain r where base: "ji_base ji = s * NANOS_PER_SEC" and s: "0 < s" "s \<le> 2 ^ 53"
      and r: "ji_ratio ji = Fin r" "0 \<le> r" "r \<le> 1"
    by (auto simp: good_interval_def)
  show ?thesis
  proof (cases "fle (ji_ratio ji) (Fin 0)")
    case True
    then show ?thesis by (simp add: next_delay_def)
  next
    case False
    obtain u where u: "next_u64 w = (u, advance w)" by (simp add: next_u64_def random_bytes_def)
    obtain q where q: "jitter_fraction u = Fin q" "0 \<le> q" "q \<le> 1" using fraction_bounds by blast
    obtain a where a: "fmul (Fin (of_nat s)) (Fin r) = Fin a" "0 \<le> a" "a \<le> of_nat s"
      using scaled_bounds [of "of_nat s" s r] s r by auto
    obtain b where b: "fmul (Fin a) (Fin q) = Fin b" "0 \<le> b" "b \<le> of_nat s"
      using scaled_bounds [OF a(2,3) s(2) q(2,3)] by blast
    have s64: "s < 2 ^ 64" using s(2) by simp
    obtain d where d: "from_secs_f64 (Fin b) = Some d" "d \<le> s * NANOS_PER_SEC"
      using from_secs_bounded [OF b(2,3) s64] by blast
    have "2 * (s * NANOS_PER_SEC) \<le> DURATION_MAX"
    proof -
      have "2 * (s * NANOS_PER_SEC) \<le> 2 * (2 ^ 53 * NANOS_PER_SEC)" using s(2) by simp
      also have "\<dots> \<le> DURATION_MAX" by (simp add: DURATION_MAX_def NANOS_PER_SEC_def)
      finally show ?thesis .
    qed
    with d(2) have "duration_add (s * NANOS_PER_SEC) d = Some (s * NANOS_PER_SEC + d)"
      by (simp add: duration_add_def)
    with False u q(1) a(1) b(1) d base r(1) as_secs_whole [OF s(2)] show ?thesis
      by (auto simp: next_delay_def Let_def mult.commute)
  qed
qed

definition jitter_ratio :: "f64 \<Rightarrow> rat" where
  "jitter_ratio r = (case r of Fin q \<Rightarrow> min 1 (max 0 q) | _ \<Rightarrow> 0)"

lemma ratio_new: "ji_ratio (jittered_interval_new d r) = Fin (jitter_ratio r)"
  by (cases r) (auto simp: jittered_interval_new_def jitter_ratio_def is_finite_def fclamp_def)

lemma jitter_ratio_bounds: "0 \<le> jitter_ratio r" "jitter_ratio r \<le> 1"
  by (auto simp: jitter_ratio_def split: f64.splits)

text \<open>The part of a full turn that the draw stands for, in exact arithmetic.\<close>

definition draw_fraction :: "u64 \<Rightarrow> rat" where
  "draw_fraction r = of_nat (unat r mod 1000000) / 1000000"

lemma draw_fraction_bounds: "0 \<le> draw_fraction r" "draw_fraction r \<le> 1"
proof -
  have "unat r mod 1000000 \<le> 1000000" by simp
  then have "(of_nat (unat r mod 1000000) :: rat) \<le> 1000000" by (metis of_nat_le_iff of_nat_numeral)
  then show "draw_fraction r \<le> 1" by (simp add: draw_fraction_def)
qed (simp add: draw_fraction_def)

lemma fraction_error:
  assumes "jitter_fraction r = Fin q"
  shows "\<bar>q - draw_fraction r\<bar> \<le> 1 / 2 ^ 53 + 1 / 2 ^ 200"
proof -
  have "to_f64 (of_nat (unat r mod JITTER_RESOLUTION)) = Fin (of_nat (unat r mod JITTER_RESOLUTION))"
  proof (rule to_f64_int)
    have "unat r mod JITTER_RESOLUTION < JITTER_RESOLUTION" by (simp add: JITTER_RESOLUTION_def)
    then show "unat r mod JITTER_RESOLUTION \<le> 2 ^ 53" by (simp add: JITTER_RESOLUTION_def)
  qed
  with assms have "to_f64 (draw_fraction r) = Fin q"
    by (simp add: jitter_fraction_def fdiv_def draw_fraction_def JITTER_RESOLUTION_def)
  note to_f64_error [OF draw_fraction_bounds(1) this]
  also have "draw_fraction r / 2 ^ 53 + 1 / 2 ^ 200 \<le> 1 / 2 ^ 53 + 1 / 2 ^ 200"
    by (intro add_right_mono divide_right_mono draw_fraction_bounds) simp
  finally show ?thesis .
qed

lemma extra_error:
  assumes "s \<le> 2 ^ 53" and "0 \<le> p" and "p \<le> 1" and "jitter_fraction u = Fin q" and "0 \<le> q" and "q \<le> 1"
    and a: "fmul (Fin (of_nat s)) (Fin p) = Fin a" "0 \<le> a" "a \<le> of_nat s"
    and b: "fmul (Fin a) (Fin q) = Fin b"
  shows "\<bar>b - of_nat s * p * draw_fraction u\<bar> \<le> 3 * of_nat s / 2 ^ 53 + (of_nat s + 2) / 2 ^ 200"
proof -
  have "of_nat s * p \<le> of_nat s * 1" using assms(3) by (intro mult_left_mono) auto
  then have p: "0 \<le> of_nat s * p" "of_nat s * p \<le> of_nat s" using assms(2) by simp_all
  have 1: "\<bar>a - of_nat s * p\<bar> \<le> of_nat s / 2 ^ 53 + 1 / 2 ^ 200"
    using scaled_error [OF _ _ assms(2,3) a(1)] by simp
  have "\<bar>a * q - of_nat s * p * draw_fraction u\<bar>
      \<le> of_nat s / 2 ^ 53 + 1 / 2 ^ 200 + of_nat s * (1 / 2 ^ 53 + 1 / 2 ^ 200)"
    by (rule mult_error [OF 1 fraction_error [OF assms(4)] assms(5,6) p]) simp
  moreover have "\<bar>b - a * q\<bar> \<le> of_nat s / 2 ^ 53 + 1 / 2 ^ 200"
    using scaled_error [OF a(2,3) assms(5,6) b] .
  ultimately have "\<bar>b - of_nat s * p * draw_fraction u\<bar>
      \<le> of_nat s / 2 ^ 53 + 1 / 2 ^ 200 + of_nat s * (1 / 2 ^ 53 + 1 / 2 ^ 200) + (of_nat s / 2 ^ 53 + 1 / 2 ^ 200)"
    by (rule abs_chain)
  also have "\<dots> = 3 * of_nat s / 2 ^ 53 + (of_nat s + 2) / 2 ^ 200" by (simp add: field_simps)
  finally show ?thesis .
qed

lemma extra_nanos:
  assumes "\<bar>b - x\<bar> \<le> 3 * of_nat s / 2 ^ 53 + (of_nat s + 2) / 2 ^ 200" and "s \<le> 2 ^ 53"
    and "\<bar>of_nat n - b * of_nat NANOS_PER_SEC\<bar> \<le> (1 / 2 :: rat)"
  shows "\<bar>of_nat n - x * of_nat NANOS_PER_SEC\<bar> \<le> of_nat (s * NANOS_PER_SEC) / 2 ^ 51 + 1"
proof -
  have s: "(of_nat s :: rat) \<le> 2 ^ 53" using assms(2) by (metis of_nat_le_iff of_nat_numeral of_nat_power)
  have "\<bar>b - x\<bar> * of_nat NANOS_PER_SEC
      \<le> (3 * of_nat s / 2 ^ 53 + (of_nat s + 2) / 2 ^ 200) * of_nat NANOS_PER_SEC"
    using assms(1) by (rule mult_right_mono) simp
  also have "\<dots> \<le> of_nat (s * NANOS_PER_SEC) / 2 ^ 51 + 1 / 2"
    using s by (simp add: NANOS_PER_SEC_def field_simps)
  finally have "\<bar>b * of_nat NANOS_PER_SEC - x * of_nat NANOS_PER_SEC\<bar>
      \<le> of_nat (s * NANOS_PER_SEC) / 2 ^ 51 + 1 / 2"
    by (simp add: abs_mult flip: left_diff_distrib)
  from abs_chain [OF this assms(3)] show ?thesis by simp
qed

lemma next_delay_error:
  assumes "good_interval ji s" and "ji_ratio ji = Fin p" and "next_delay ji w = (Some d, w')" and "0 < p"
  shows "\<bar>of_nat d - of_nat (ji_base ji) * (1 + p * draw_fraction (fst (next_u64 w)))\<bar>
    \<le> of_nat (ji_base ji) / 2 ^ 51 + 1"
proof -
  from assms(1,2) have base: "ji_base ji = s * NANOS_PER_SEC" and s: "s \<le> 2 ^ 53" and p: "0 \<le> p" "p \<le> 1"
    by (auto simp: good_interval_def)
  obtain u w1 where u: "next_u64 w = (u, w1)" by fastforce
  obtain q where q: "jitter_fraction u = Fin q" "0 \<le> q" "q \<le> 1" using fraction_bounds by blast
  obtain a where a: "fmul (Fin (of_nat s)) (Fin p) = Fin a" "0 \<le> a" "a \<le> of_nat s"
    using scaled_bounds [of "of_nat s" s p] s p by auto
  obtain b where b: "fmul (Fin a) (Fin q) = Fin b" "0 \<le> b"
    using scaled_bounds [OF a(2,3) s q(2,3)] by blast
  have "\<not> fle (ji_ratio ji) (Fin 0)" using assms(2,4) by (simp add: fle_def)
  with assms(2,3) u q(1) a(1) b(1) base as_secs_whole [OF s]
  obtain n where n: "from_secs_f64 (Fin b) = Some n" "duration_add (s * NANOS_PER_SEC) n = Some d"
    by (auto simp: next_delay_def Let_def bind_eq_Some_conv)
  have d: "(of_nat d :: rat) = of_nat (s * NANOS_PER_SEC) + of_nat n"
    using n(2) by (auto simp: duration_add_def simp del: of_nat_mult split: if_splits)
  have "\<bar>of_nat n - of_nat s * p * draw_fraction u * of_nat NANOS_PER_SEC\<bar>
      \<le> of_nat (s * NANOS_PER_SEC) / 2 ^ 51 + (1 :: rat)"
    by (rule extra_nanos [OF extra_error [OF s p q a b(1)] s from_secs_error [OF n(1) b(2)]])
  moreover have "of_nat d - of_nat (s * NANOS_PER_SEC) * (1 + p * draw_fraction u)
      = of_nat n - of_nat s * p * draw_fraction u * of_nat NANOS_PER_SEC"
    unfolding d by (simp add: algebra_simps)
  ultimately show ?thesis using base u by simp
qed

text \<open>
  C38. The delay of a cadence follows the configured ratio: for a base of whole seconds, at least one and at
  most \<open>2 ^ 53\<close>, and any ratio given in the configuration, however strange, drawing a delay
  does not panic. The delay is the base times one plus the effective ratio (the configured one cut to the
  unit interval, zero if it is no number) times the drawn fraction, up to the rounding of the
  arithmetic, and it lies between the base and twice the base; with the effective ratio zero it
  is exactly the base and nothing is drawn.
\<close>

theorem next_delay_correct:
  assumes "0 < s" and "s \<le> 2 ^ 53"
  shows "\<exists>d w'. next_delay (jittered_interval_new (s * NANOS_PER_SEC) ratio) w = (Some d, w')
    \<and> s * NANOS_PER_SEC \<le> d \<and> d \<le> 2 * (s * NANOS_PER_SEC)
    \<and> \<bar>of_nat d - of_nat (s * NANOS_PER_SEC) * (1 + jitter_ratio ratio * draw_fraction (fst (next_u64 w)))\<bar>
        \<le> of_nat (s * NANOS_PER_SEC) / 2 ^ 51 + 1
    \<and> (jitter_ratio ratio = 0 \<longrightarrow> d = s * NANOS_PER_SEC \<and> w' = w)"
proof (cases "jitter_ratio ratio = 0")
  case True
  then show ?thesis using ratio_new [of "s * NANOS_PER_SEC" ratio]
    by (simp add: next_delay_def fle_def) (simp add: jittered_interval_new_def)
next
  case False
  let ?ji = "jittered_interval_new (s * NANOS_PER_SEC) ratio"
  have base: "ji_base ?ji = s * NANOS_PER_SEC" by (simp add: jittered_interval_new_def)
  have good: "good_interval ?ji s" using assms by (rule good_interval_new)
  from next_delay_bounds [OF this, of w] obtain d w' where d: "next_delay ?ji w = (Some d, w')"
      "s * NANOS_PER_SEC \<le> d" "d \<le> 2 * (s * NANOS_PER_SEC)"
    unfolding base by blast
  have "0 < jitter_ratio ratio" using False jitter_ratio_bounds(1) [of ratio] by simp
  from next_delay_error [OF good ratio_new d(1) this] d False show ?thesis unfolding base by blast
qed

theorem next_delay_correct_witness:
  "\<exists>d w'. next_delay (jittered_interval_new (30 * NANOS_PER_SEC) (Fin (1 / 2)))
      ((quiet_world Map.empty)\<lparr>os_random := \<lambda>_ _. [0x20, 0xA1, 0x07, 0, 0, 0, 0, 0]\<rparr>) = (Some d, w')
    \<and> 37499999999 \<le> d \<and> d \<le> 37500000001"
proof -
  let ?w = "(quiet_world Map.empty)\<lparr>os_random := \<lambda>_ _. [0x20, 0xA1, 0x07, 0, 0, 0, 0, 0]\<rparr>"
  have half: "draw_fraction (fst (next_u64 ?w)) = 1 / 2"
    by (simp add: next_u64_def random_bytes_def from_le_bytes_def draw_fraction_def)
  from next_delay_correct [of 30 "Fin (1 / 2)" ?w]
  obtain d w' where d: "next_delay (jittered_interval_new (30 * NANOS_PER_SEC) (Fin (1 / 2))) ?w = (Some d, w')"
    and e: "\<bar>of_nat d - of_nat (30 * NANOS_PER_SEC) * (1 + jitter_ratio (Fin (1 / 2)) * (1 / 2))\<bar>
      \<le> of_nat (30 * NANOS_PER_SEC) / 2 ^ 51 + (1 :: rat)"
    unfolding half by auto
  have "\<bar>of_nat d - 37500000000\<bar> < (2 :: rat)"
    using e by (simp add: NANOS_PER_SEC_def jitter_ratio_def)
  then have "(of_nat d :: rat) < of_nat 37500000002" "(of_nat 37499999998 :: rat) < of_nat d" by simp_all
  then have "d < 37500000002" "37499999998 < d" by (simp_all only: of_nat_less_iff)
  with d show ?thesis by auto
qed

section \<open>Due actions\<close>

lemma due_after_ok:
  assumes "good_interval ji s" and "now + 2 * int (ji_base ji) \<le> TIME_MAX"
  shows "\<exists>t w'. due_after now ji w = (Some t, w') \<and> now + int (ji_base ji) \<le> t \<and> t \<le> now + 2 * int (ji_base ji)
    \<and> (w' = w \<or> w' = advance w)"
proof -
  from next_delay_bounds [OF assms(1), of w] obtain d w' where d: "next_delay ji w = (Some d, w')"
      "ji_base ji \<le> d" "d \<le> 2 * ji_base ji" "w' = w \<or> w' = advance w"
    by blast
  then have "now + int d \<le> TIME_MAX" using assms(2) by linarith
  with d show ?thesis by (auto simp: due_after_def time_add_def)
qed

text \<open>
  C39. Taking the due actions: exactly the cadences whose time has come are returned,
  heartbeat before synchronisation; each of them is rescheduled from now by its base plus
  jitter, the other keeps its time, and afterwards nothing is due any more. The clock being
  within the years the library can represent, it never panics.
\<close>

theorem take_due_correct:
  assumes "good_interval (sch_heartbeat s) h" and "good_interval (sch_sync s) y"
    and "now + 2 * int (ji_base (sch_heartbeat s)) \<le> TIME_MAX" and "now + 2 * int (ji_base (sch_sync s)) \<le> TIME_MAX"
  shows "\<exists>s' w'. take_due now s w =
      (Some ((if sch_heartbeat_due s \<le> now then [Heartbeat] else [])
             @ (if sch_sync_due s \<le> now then [BundleSync] else []), s'), w')
    \<and> sch_heartbeat s' = sch_heartbeat s \<and> sch_sync s' = sch_sync s
    \<and> (if sch_heartbeat_due s \<le> now
       then now + int (ji_base (sch_heartbeat s)) \<le> sch_heartbeat_due s'
            \<and> sch_heartbeat_due s' \<le> now + 2 * int (ji_base (sch_heartbeat s))
       else sch_heartbeat_due s' = sch_heartbeat_due s)
    \<and> (if sch_sync_due s \<le> now
       then now + int (ji_base (sch_sync s)) \<le> sch_sync_due s'
            \<and> sch_sync_due s' \<le> now + 2 * int (ji_base (sch_sync s))
       else sch_sync_due s' = sch_sync_due s)
    \<and> now < next_due s' \<and> fs w' = fs w \<and> trace w' = trace w"
proof -
  have pos: "0 < ji_base (sch_heartbeat s)" "0 < ji_base (sch_sync s)"
    using assms(1,2) by (simp_all add: good_interval_def NANOS_PER_SEC_def)
  obtain t1 w1 where 1: "due_after now (sch_heartbeat s) w = (Some t1, w1)" "now + int (ji_base (sch_heartbeat s)) \<le> t1"
      "t1 \<le> now + 2 * int (ji_base (sch_heartbeat s))" "w1 = w \<or> w1 = advance w"
    using due_after_ok [OF assms(1,3)] by blast
  have 2: "\<exists>t2 w2. due_after now (sch_sync s) v = (Some t2, w2) \<and> now + int (ji_base (sch_sync s)) \<le> t2
      \<and> t2 \<le> now + 2 * int (ji_base (sch_sync s)) \<and> (w2 = v \<or> w2 = advance v)" for v
    using due_after_ok [OF assms(2,4)] .
  show ?thesis
  proof (cases "sch_heartbeat_due s \<le> now")
    case True
    obtain t2 w2 where "due_after now (sch_sync s) w1 = (Some t2, w2)" "now + int (ji_base (sch_sync s)) \<le> t2"
        "t2 \<le> now + 2 * int (ji_base (sch_sync s))" "w2 = w1 \<or> w2 = advance w1" using 2 by blast
    with True 1 pos show ?thesis by (auto simp: take_due_def next_due_def)
  next
    case False
    obtain t2 w2 where "due_after now (sch_sync s) w = (Some t2, w2)" "now + int (ji_base (sch_sync s)) \<le> t2"
        "t2 \<le> now + 2 * int (ji_base (sch_sync s))" "w2 = w \<or> w2 = advance w" using 2 by blast
    with False pos show ?thesis by (auto simp: take_due_def next_due_def)
  qed
qed

theorem take_due_correct_witness:
  "\<exists>s' w'. take_due 10
      \<lparr>sch_heartbeat = jittered_interval_new (30 * NANOS_PER_SEC) (Fin 0),
       sch_sync = jittered_interval_new (60 * NANOS_PER_SEC) (Fin 0), sch_heartbeat_due = 20, sch_sync_due = 5\<rparr>
      (quiet_world Map.empty) = (Some ([BundleSync], s'), w') \<and> sch_heartbeat_due s' = 20"
  using take_due_correct [of "\<lparr>sch_heartbeat = jittered_interval_new (30 * NANOS_PER_SEC) (Fin 0),
       sch_sync = jittered_interval_new (60 * NANOS_PER_SEC) (Fin 0), sch_heartbeat_due = 20, sch_sync_due = 5\<rparr>"
      30 60 10 "quiet_world Map.empty"]
    good_interval_new [of 30 "Fin 0"] good_interval_new [of 60 "Fin 0"]
  by (auto simp: jittered_interval_new_def NANOS_PER_SEC_def TIME_MAX_def)

section \<open>The loop stops\<close>

text \<open>What the loop needs of the code it calls: it passes on the world, it does not set back the tick.\<close>

definition well_behaved :: "'c callback \<Rightarrow> bool" where
  "well_behaved f \<longleftrightarrow> (\<forall>c w. same_env w (snd (snd (f c w))))"

lemma run_actions_env:
  "well_behaved hb \<Longrightarrow> well_behaved sy \<Longrightarrow> same_env w (snd (run_actions hb sy acts c w))"
proof (induction acts arbitrary: c w)
  case (Cons a acts)
  obtain r c' w' where f: "(case a of Heartbeat \<Rightarrow> hb c w | BundleSync \<Rightarrow> sy c w) = (r, c', w')"
    by (metis surj_pair)
  have "same_env w (snd (snd (case a of Heartbeat \<Rightarrow> hb c w | BundleSync \<Rightarrow> sy c w)))"
    using Cons.prems by (cases a) (auto simp: well_behaved_def)
  with f Cons.IH [OF Cons.prems, of w' c'] show ?case by (auto intro: same_env_trans)
qed simp

lemma due_after_env: "due_after now ji w = (t, w') \<Longrightarrow> same_env w w'"
  by (auto simp: due_after_def next_delay_def next_u64_def random_bytes_def same_env_def Let_def
      split: prod.splits if_splits)

lemma take_due_env:
  assumes "take_due now s w = (r, w')"
  shows "same_env w w'"
proof -
  obtain x w1 where s1: "(if now \<ge> sch_heartbeat_due s
         then (case due_after now (sch_heartbeat s) w of
                 (t, w1) \<Rightarrow> (map_option (\<lambda>t. ([Heartbeat], s\<lparr>sch_heartbeat_due := t\<rparr>)) t, w1))
         else (Some ([], s), w)) = (x, w1)" by fastforce
  then have 1: "same_env w w1" by (auto split: if_splits prod.splits dest: due_after_env)
  show ?thesis
  proof (cases x)
    case None
    with assms s1 1 show ?thesis by (simp add: take_due_def)
  next
    case (Some p)
    obtain due s2 where p: "p = (due, s2)" by fastforce
    have "same_env w1 w'"
      using assms s1 Some p by (auto simp: take_due_def split: if_splits prod.splits dest: due_after_env)
    with 1 show ?thesis by (rule same_env_trans)
  qed
qed

lemma poll_due_env:
  assumes "well_behaved hb" and "well_behaved sy" and "poll_due hb sy s c w = (r, c', w')"
  shows "same_env w w' \<and> tick w < tick w'"
proof -
  obtain x w2 where td: "take_due (clock w (tick w)) s (advance w) = (x, w2)" by fastforce
  have 1: "same_env (advance w) w2" using take_due_env [OF td] .
  have "same_env w2 w'"
    using assms td run_actions_env [OF assms(1,2), of w2 _ c]
    by (auto simp: poll_due_def clock_now_def split: option.splits) (metis snd_conv)
  with 1 have "same_env (advance w) w'" by (rule same_env_trans)
  then show ?thesis by (auto simp: same_env_def)
qed

text \<open>
  What holds of the captured state and the world, survives a look at the clock, and is kept by
  the two callbacks, holds when the loop ends.
\<close>

definition frame_step :: "world \<Rightarrow> world \<Rightarrow> bool" where
  "frame_step w w' \<longleftrightarrow> same_env w w' \<and> fs w' = fs w \<and> (\<exists>cs. trace w' = trace w @ map Slept cs)"

lemma frame_step_simps [simp]: "frame_step w w" "frame_step w (advance w)"
  by (simp_all add: frame_step_def same_env_def)

lemma frame_step_trans:
  assumes "frame_step u v" and "frame_step v w"
  shows "frame_step u w"
proof -
  from assms obtain cs cs' where "trace v = trace u @ map Slept cs" "trace w = trace v @ map Slept cs'"
    by (auto simp: frame_step_def)
  then have "trace w = trace u @ map Slept (cs @ cs')" by simp
  with assms show ?thesis unfolding frame_step_def by (metis same_env_trans)
qed

lemma frame_step_moments: "frame_step w w' \<Longrightarrow> fs_moments (trace w') = fs_moments (trace w)"
  by (auto simp: frame_step_def)

lemma due_after_frame: "due_after now ji w = (t, w') \<Longrightarrow> frame_step w w'"
  by (auto simp: due_after_def next_delay_def next_u64_def random_bytes_def Let_def split: prod.splits if_splits)

lemma take_due_frame:
  assumes "take_due now s w = (r, w')"
  shows "frame_step w w'"
proof -
  obtain x w1 where s1: "(if now \<ge> sch_heartbeat_due s
         then (case due_after now (sch_heartbeat s) w of
                 (t, w1) \<Rightarrow> (map_option (\<lambda>t. ([Heartbeat], s\<lparr>sch_heartbeat_due := t\<rparr>)) t, w1))
         else (Some ([], s), w)) = (x, w1)" by fastforce
  then have 1: "frame_step w w1" by (auto split: if_splits prod.splits dest: due_after_frame)
  show ?thesis
  proof (cases x)
    case None
    with assms s1 1 show ?thesis by (simp add: take_due_def)
  next
    case (Some p)
    obtain due s2 where p: "p = (due, s2)" by fastforce
    have "frame_step w1 w'"
      using assms s1 Some p by (auto simp: take_due_def split: if_splits prod.splits dest: due_after_frame)
    with 1 show ?thesis by (rule frame_step_trans)
  qed
qed

definition keeps_inv :: "('c \<Rightarrow> world \<Rightarrow> bool) \<Rightarrow> 'c callback \<Rightarrow> bool" where
  "keeps_inv I f \<longleftrightarrow> (\<forall>c w. I c w \<longrightarrow> (case f c w of (_, c', w') \<Rightarrow> I c' w'))"

lemma run_actions_inv:
  assumes "keeps_inv I hb" and "keeps_inv I sy"
  shows "I c w \<Longrightarrow> run_actions hb sy acts c w = (c', w') \<Longrightarrow> I c' w'"
proof (induction acts arbitrary: c w)
  case (Cons a acts)
  obtain r c1 w1 where f: "(case a of Heartbeat \<Rightarrow> hb c w | BundleSync \<Rightarrow> sy c w) = (r, c1, w1)"
    by (metis surj_pair)
  have "case (case a of Heartbeat \<Rightarrow> hb c w | BundleSync \<Rightarrow> sy c w) of (_, c', w') \<Rightarrow> I c' w'"
    using assms Cons.prems(1) by (cases a) (auto simp: keeps_inv_def)
  with f Cons show ?case by simp
qed simp

lemma poll_due_inv:
  assumes "poll_due hb sy s c w = (r, c', w')" and "I c w" and "keeps_inv I hb" and "keeps_inv I sy"
    and look: "\<And>c w w'. I c w \<Longrightarrow> frame_step w w' \<Longrightarrow> I c w'"
  shows "I c' w'"
proof -
  obtain x w2 where td: "take_due (clock w (tick w)) s (advance w) = (x, w2)" by fastforce
  have "I c w2"
    using look [OF assms(2)] frame_step_trans [OF frame_step_simps(2) take_due_frame [OF td]] by blast
  with td assms(1) run_actions_inv [OF assms(3,4) this] show ?thesis
    by (auto simp: poll_due_def clock_now_def split: option.splits)
qed

text \<open>
  The rule of the loop: \<open>J\<close> holds before every cycle if it survives a look at the clock and a
  sleep, and a cycle that does not panic restores it; \<open>K\<close> is what a panic leaves.
\<close>

lemma run_polling_rule:
  assumes "run_polling sleep hb sy go cycle s c w = Some (r, c', w')" and "J s c w"
    and cycle: "\<And>s c w x c' w'. J s c w \<Longrightarrow> poll_due hb sy s c w = (x, c', w')
      \<Longrightarrow> (case x of Finished s' \<Rightarrow> J s' c' w' | Panic \<Rightarrow> K c' w')"
    and look: "\<And>s c w w'. J s c w \<Longrightarrow> frame_step w w' \<Longrightarrow> J s c w'"
    and "\<And>d w w'. sleep d w = Some w' \<Longrightarrow> frame_step w w'"
    and "\<And>n w b w'. go n w = (b, w') \<Longrightarrow> frame_step w w'"
  shows "case r of Finished s' \<Rightarrow> J s' c' w' | Panic \<Rightarrow> K c' w'"
proof -
  let ?Q = "\<lambda>(r, c', w'). case r of Finished s' \<Rightarrow> J s' c' w' | Panic \<Rightarrow> K c' w'"
  let ?P = "\<lambda>sleep' hb' sy' go' cycle s c w res. sleep' = sleep \<longrightarrow> hb' = hb \<longrightarrow> sy' = sy \<longrightarrow> go' = go \<longrightarrow>
      J s c w \<longrightarrow> ?Q res"
  have "?P sleep hb sy go cycle s c w (r, c', w')"
    using assms(1)
  proof (rule run_polling.raw_induct [of ?P, rotated])
    fix rec sleep' hb' sy' go' cycle s c w res
    assume IH: "\<And>sleep' hb' sy' go' cycle s c w res. rec sleep' hb' sy' go' cycle s c w = Some res
        \<Longrightarrow> ?P sleep' hb' sy' go' cycle s c w res"
      and run: "(case go' cycle w of (g, w1) \<Rightarrow>
        if \<not> g then Some (Finished s, c, w1)
        else Option.bind (poll_wait sleep' s w1) (\<lambda>w2.
          case poll_due hb' sy' s c w2 of (r, c', w3) \<Rightarrow>
            (case r of
               Panic \<Rightarrow> Some (Panic, c', w3)
             | Finished s' \<Rightarrow> rec sleep' hb' sy' go' (cycle + 1) s' c' w3))) = Some res"
    show "?P sleep' hb' sy' go' cycle s c w res"
    proof (intro impI)
      assume eqs: "sleep' = sleep" "hb' = hb" "sy' = sy" "go' = go" and I: "J s c w"
      obtain g w1 where g: "go cycle w = (g, w1)" by fastforce
      have I1: "J s c w1" using look [OF I] assms(6) [OF g] by blast
      show "?Q res"
      proof (cases g)
        case False
        with run g eqs I1 show ?thesis by auto
      next
        case True
        with run g eqs obtain w2 where pw: "poll_wait sleep s w1 = Some w2"
          by (auto simp: bind_eq_Some_conv)
        have "frame_step w1 w2"
          using pw assms(5) frame_step_trans [OF frame_step_simps(2)]
          by (auto simp: poll_wait_def clock_now_def Let_def split: if_splits)
        with look I1 have I2: "J s c w2" by blast
        obtain x c3 w3 where pd: "poll_due hb sy s c w2 = (x, c3, w3)" by (metis surj_pair)
        note I3 = cycle [OF I2 pd]
        show ?thesis
        proof (cases x)
          case Panic
          with run g eqs True pw pd I3 show ?thesis by auto
        next
          case (Finished s')
          with run g eqs True pw pd have "rec sleep hb sy go (cycle + 1) s' c3 w3 = Some res" by simp
          from IH [OF this] I3 Finished show ?thesis by simp
        qed
      qed
    qed
  qed
  with assms(2) show ?thesis by simp
qed

lemma run_polling_inv:
  assumes "run_polling sleep hb sy go cycle s c w = Some (r, c', w')" and "I c w"
    and "keeps_inv I hb" and "keeps_inv I sy"
    and look: "\<And>c w w'. I c w \<Longrightarrow> frame_step w w' \<Longrightarrow> I c w'"
    and "\<And>d w w'. sleep d w = Some w' \<Longrightarrow> frame_step w w'"
    and "\<And>n w b w'. go n w = (b, w') \<Longrightarrow> frame_step w w'"
  shows "I c' w'"
proof -
  have "case r of Finished s' \<Rightarrow> I c' w' | Panic \<Rightarrow> I c' w'"
  proof (rule run_polling_rule [where J = "\<lambda>_. I" and K = I, OF assms(1,2) _ look assms(6,7)])
    fix s c w x c' w'
    assume "I c w" and "poll_due hb sy s c w = (x, c', w')"
    from poll_due_inv [OF this(2,1) assms(3,4) look] have "I c' w'" .
    then show "case x of Finished s' \<Rightarrow> I c' w' | Panic \<Rightarrow> I c' w'" by (simp split: run.split)
  qed
  then show ?thesis by (simp split: run.splits)
qed

section \<open>The loop does not panic\<close>

text \<open>Cadences of whole seconds, at most a day, and a clock that stays a jittered day within its range.\<close>

definition good_cadence :: "jittered_interval \<Rightarrow> bool" where
  "good_cadence ji \<longleftrightarrow> (\<exists>s. good_interval ji s \<and> s \<le> 86400)"

definition good_scheduler :: "scheduler \<Rightarrow> bool" where
  "good_scheduler s \<longleftrightarrow> good_cadence (sch_heartbeat s) \<and> good_cadence (sch_sync s)"

definition clock_in_range :: "world \<Rightarrow> bool" where
  "clock_in_range w \<longleftrightarrow> (\<forall>t. clock w t \<le> TIME_MAX - 2 * 86400 * 10 ^ 9)"

lemma clock_in_range_env: "clock_in_range w \<Longrightarrow> same_env w w' \<Longrightarrow> clock_in_range w'"
  by (simp add: clock_in_range_def same_env_def)

lemma due_after_good:
  assumes "good_cadence ji" and "now \<le> TIME_MAX - 2 * 86400 * 10 ^ 9"
  obtains t w' where "due_after now ji w = (Some t, w')"
proof -
  from assms(1) obtain s where s: "good_interval ji s" "s \<le> 86400" by (auto simp: good_cadence_def)
  then have "2 * int (ji_base ji) \<le> 2 * 86400 * 10 ^ 9" by (simp add: good_interval_def NANOS_PER_SEC_def)
  with assms(2) have "now + 2 * int (ji_base ji) \<le> TIME_MAX" by linarith
  with due_after_ok [OF s(1)] that show thesis by blast
qed

lemma scheduler_new_good:
  assumes "good_cadence hb" and "good_cadence sy" and "now \<le> TIME_MAX - 2 * 86400 * 10 ^ 9"
  obtains s w' where "scheduler_new now hb sy w = (Some s, w')" "good_scheduler s"
proof -
  obtain t v where 1: "due_after now hb w = (Some t, v)" using due_after_good [OF assms(1,3)] .
  obtain u x where 2: "due_after now sy v = (Some u, x)" using due_after_good [OF assms(2,3)] .
  with 1 that assms(1,2) show thesis by (simp add: scheduler_new_def good_scheduler_def)
qed

lemma take_due_good:
  assumes "good_scheduler s" and "now \<le> TIME_MAX - 2 * 86400 * 10 ^ 9"
  obtains due s' w' where "take_due now s w = (Some (due, s'), w')" "good_scheduler s'"
proof -
  have g: "good_cadence (sch_heartbeat s)" "good_cadence (sch_sync s)" using assms(1) by (simp_all add: good_scheduler_def)
  obtain t v where 1: "due_after now (sch_heartbeat s) w = (Some t, v)" using due_after_good [OF g(1) assms(2)] .
  obtain u x where 2: "due_after now (sch_sync s) v = (Some u, x)" using due_after_good [OF g(2) assms(2)] .
  obtain u' x' where 3: "due_after now (sch_sync s) w = (Some u', x')" using due_after_good [OF g(2) assms(2)] .
  from 1 2 3 g that show thesis
    by (cases "sch_heartbeat_due s \<le> now"; cases "sch_sync_due s \<le> now") (auto simp: take_due_def good_scheduler_def)
qed

lemma run_polling_no_panic:
  assumes "run_polling sleep hb sy go cycle s c w = Some (r, c', w')"
    and "good_scheduler s" and "clock_in_range w" and "well_behaved hb" and "well_behaved sy"
    and "\<And>d w w'. sleep d w = Some w' \<Longrightarrow> frame_step w w'"
    and "\<And>n w b w'. go n w = (b, w') \<Longrightarrow> frame_step w w'"
  shows "\<exists>s'. r = Finished s'"
proof -
  have "case r of Finished s' \<Rightarrow> good_scheduler s' \<and> clock_in_range w' | Panic \<Rightarrow> False"
  proof (rule run_polling_rule [where J = "\<lambda>s c w. good_scheduler s \<and> clock_in_range w", OF assms(1) conjI [OF assms(2,3)] _ _ assms(6,7)])
    fix s c w x c' w'
    assume J: "good_scheduler s \<and> clock_in_range w" and pd: "poll_due hb sy s c w = (x, c', w')"
    have "clock w (tick w) \<le> TIME_MAX - 2 * 86400 * 10 ^ 9" using J by (simp add: clock_in_range_def)
    with J obtain due s' v where "take_due (clock w (tick w)) s (advance w) = (Some (due, s'), v)" "good_scheduler s'"
      using take_due_good by blast
    moreover have "clock_in_range w'" using clock_in_range_env poll_due_env [OF assms(4,5) pd] J by blast
    ultimately show "case x of Finished s' \<Rightarrow> good_scheduler s' \<and> clock_in_range w' | Panic \<Rightarrow> False"
      using pd by (auto simp: poll_due_def clock_now_def)
  qed (auto simp: frame_step_def intro: clock_in_range_env)
  then show ?thesis by (auto split: run.splits)
qed

section \<open>The loop ends\<close>

lemma run_polling_ends:
  assumes "well_behaved on_heartbeat" and "well_behaved on_sync"
    and "0 < sl_step sleeper" and "\<forall>t \<ge> T. stop_flag w t"
  shows "\<exists>r c' w'. run_polling (interruptible_sleep sleeper) on_heartbeat on_sync
      (\<lambda>_ w. case is_requested w of (b, w') \<Rightarrow> (\<not> b, w')) cycle s c w = Some (r, c', w')"
  using assms(4)
proof (induction "T - tick w" arbitrary: w cycle s c rule: less_induct)
  case less
  let ?go = "\<lambda>(_ :: u64) w. case is_requested w of (b, w') \<Rightarrow> (\<not> b, w')"
  show ?case
  proof (cases "stop_flag w (tick w)")
    case True
    then show ?thesis
      by (subst run_polling.simps) (simp add: is_requested_def stop_requested_def)
  next
    case False
    then have T: "tick w < T" using less.prems by (metis not_le)
    obtain w2 where w2: "poll_wait (interruptible_sleep sleeper) s (advance w) = Some w2" "same_env (advance w) w2"
    proof (cases "next_due s - clock w (Suc (tick w)) > 0")
      case True
      from sleep_loop_total [OF assms(3), of "nat (next_due s - clock w (Suc (tick w)))" "advance (advance w)"]
      obtain v where "interruptible_sleep sleeper (nat (next_due s - clock w (Suc (tick w)))) (advance (advance w)) = Some v"
          "same_env (advance (advance w)) v"
        by (auto simp: interruptible_sleep_def slept_properly_def)
      with True that show ?thesis
        by (auto simp: poll_wait_def clock_now_def Let_def same_env_def)
    next
      case False
      with that show ?thesis by (auto simp: poll_wait_def clock_now_def Let_def same_env_def)
    qed
    obtain r c' w3 where w3: "poll_due on_heartbeat on_sync s c w2 = (r, c', w3)" by (metis surj_pair)
    note env = poll_due_env [OF assms(1,2) w3]
    show ?thesis
    proof (cases r)
      case Panic
      with w2 w3 False show ?thesis
        by (subst run_polling.simps) (simp add: is_requested_def stop_requested_def)
    next
      case (Finished s')
      have "tick w < tick w3" and "stop_flag w3 = stop_flag w"
        using w2(2) env by (auto simp: same_env_def)
      then have "T - tick w3 < T - tick w" and "\<forall>t \<ge> T. stop_flag w3 t" using T less.prems by auto
      from less.hyps [OF this, of "cycle + 1" s' c'] w2 w3 Finished False show ?thesis
        by (subst run_polling.simps) (simp add: is_requested_def stop_requested_def)
    qed
  qed
qed

text \<open>
  The polling loop honours shutdown: whatever the callbacks do (they may fail every
  time), once a shutdown request stands the loop ends.
\<close>

theorem run_polling_stops:
  assumes "well_behaved on_heartbeat" and "well_behaved on_sync"
    and "0 < sl_step sleeper" and "\<forall>t \<ge> T. stop_flag w t"
  shows "\<exists>r c' w'. run_polling (interruptible_sleep sleeper) on_heartbeat on_sync
      (\<lambda>_ w. case is_requested w of (b, w') \<Rightarrow> (\<not> b, w')) cycle s c w = Some (r, c', w')"
  using assms by (rule run_polling_ends)

theorem run_polling_stops_witness:
  "\<exists>r c' w'. run_polling (interruptible_sleep sleeper_new) (\<lambda>n w. (Inl HeartbeatTransport, n + 1, w))
      (\<lambda>n w. (Inr (), n, w))
      (\<lambda>_ w. case is_requested w of (b, w') \<Rightarrow> (\<not> b, w')) 0
      \<lparr>sch_heartbeat = jittered_interval_new (30 * NANOS_PER_SEC) (Fin 0),
       sch_sync = jittered_interval_new (60 * NANOS_PER_SEC) (Fin 0), sch_heartbeat_due = 20, sch_sync_due = 5\<rparr>
      (0 :: nat) ((quiet_world Map.empty)\<lparr>stop_flag := (\<lambda>t. 7 \<le> t)\<rparr>) = Some (r, c', w')"
  by (rule run_polling_stops [of _ _ _ 7]) (simp_all add: well_behaved_def sleeper_step_pos)

end
