(* ===== verification/Config.thy ===== *)
theory Config
  imports Keypair Float64
begin

text \<open>
  \<open>src/config.rs\<close>: the configuration, its defaults, the environment overrides and the
  validation. The TOML parser is an argument: it turns the text into the fields that are
  given (a missing required or an unknown field is its error); filling in the defaults and
  reading the intervals as whole seconds is modelled, as is the standard library's number
  parsing.
\<close>

section \<open>Numbers\<close>

text \<open>\<open>str::parse::<f64>\<close>: the grammar of the standard library, the value rounded correctly.\<close>

definition split_sign :: "str \<Rightarrow> bool \<times> str" where
  "split_sign s =
     (case s of c # cs \<Rightarrow> if c = 45 then (True, cs) else if c = 43 then (False, cs) else (False, s)
      | [] \<Rightarrow> (False, []))"

definition digits :: "str \<Rightarrow> bool" where
  "digits s \<longleftrightarrow> list_all is_ascii_digit s"

definition parse_exponent :: "str \<Rightarrow> int option" where
  "parse_exponent s =
     (case split_sign s of (neg, d) \<Rightarrow>
        if d = [] \<or> \<not> digits d then None
        else Some (if neg then - int (dec_val d) else int (dec_val d)))"

definition parse_mantissa :: "str \<Rightarrow> rat option" where
  "parse_mantissa s =
     (case (case split_once ((=) 46) s of None \<Rightarrow> (s, []) | Some p \<Rightarrow> p) of
        (whole, fraction) \<Rightarrow>
          if whole @ fraction = [] \<or> \<not> digits (whole @ fraction) then None
          else Some (of_nat (dec_val (whole @ fraction)) / 10 ^ length fraction))"

definition parse_decimal :: "str \<Rightarrow> rat option" where
  "parse_decimal s =
     (case split_once (\<lambda>c. c = 101 \<or> c = 69) s of
        None \<Rightarrow> parse_mantissa s
      | Some (m, e) \<Rightarrow>
          Option.bind (parse_mantissa m) (\<lambda>x.
          map_option (\<lambda>n. x * 10 powi n) (parse_exponent e)))"

definition std_parse_f64 :: "str \<Rightarrow> f64 option" where
  "std_parse_f64 s =
     (case split_sign s of (neg, d) \<Rightarrow>
        let word = to_ascii_lowercase d
        in if word = lit ''inf'' \<or> word = lit ''infinity'' then Some (if neg then NInf else PInf)
           else if word = lit ''nan'' then Some NaN
           else map_option (\<lambda>x. to_f64 (if neg then - x else x)) (parse_decimal d))"

section \<open>Definitions\<close>

definition DEFAULT_CONFIG_PATH :: path where
  "DEFAULT_CONFIG_PATH = lit ''/etc/mayfly-agent/config.toml''"

definition ENV_PREFIX :: str where
  "ENV_PREFIX = lit ''MAYFLY_AGENT_''"

definition DEFAULT_HEARTBEAT_SECS :: u64 where
  "DEFAULT_HEARTBEAT_SECS = 60"

definition DEFAULT_SYNC_SECS :: u64 where
  "DEFAULT_SYNC_SECS = 300"

definition MIN_INTERVAL_SECS :: u64 where
  "MIN_INTERVAL_SECS = 1"

definition MAX_INTERVAL_SECS :: u64 where
  "MAX_INTERVAL_SECS = 86400"

definition MAX_MACHINE_ID_LEN :: nat where
  "MAX_MACHINE_ID_LEN = 128"

definition DEFAULT_TRUSTED_CA_PATH :: path where
  "DEFAULT_TRUSTED_CA_PATH = lit ''/etc/ssh/mayfly/trusted_user_ca_keys''"

definition DEFAULT_SSHD_CONFIG_PATH :: path where
  "DEFAULT_SSHD_CONFIG_PATH = lit ''/etc/ssh/sshd_config.d/mayfly.conf''"

definition DEFAULT_STATE_DIR :: path where
  "DEFAULT_STATE_DIR = lit ''/var/lib/mayfly''"

definition DEFAULT_IDENTITY_DIR :: path where
  "DEFAULT_IDENTITY_DIR = lit ''/etc/mayfly-agent''"

definition DEFAULT_HELPER_SOCKET_PATH :: path where
  "DEFAULT_HELPER_SOCKET_PATH = lit ''/run/mayfly/helper.sock''"

definition DEFAULT_HELPER_TOKEN_PATH :: path where
  "DEFAULT_HELPER_TOKEN_PATH = lit ''/etc/mayfly-agent/helper.token''"

definition GENERATION_FILE :: str where
  "GENERATION_FILE = lit ''current_generation''"

definition BUNDLE_FINGERPRINT_FILE :: str where
  "BUNDLE_FINGERPRINT_FILE = lit ''current_bundle.sha256''"

definition LAST_SYNC_FILE :: str where
  "LAST_SYNC_FILE = lit ''last_sync''"

definition LAST_SUCCESS_FILE :: str where
  "LAST_SUCCESS_FILE = lit ''last_success''"

definition SIGNING_KEY_FILE :: str where
  "SIGNING_KEY_FILE = lit ''bundle_signing_key.pub''"

definition DEFAULT_POLL_JITTER_RATIO :: f64 where
  "DEFAULT_POLL_JITTER_RATIO = to_f64 (1 / 10)"

datatype log_level = LvlTrace | LvlDebug | LvlInfo | LvlWarn | LvlError

fun as_filter_str :: "log_level \<Rightarrow> string" where
  "as_filter_str LvlTrace = ''trace''"
| "as_filter_str LvlDebug = ''debug''"
| "as_filter_str LvlInfo = ''info''"
| "as_filter_str LvlWarn = ''warn''"
| "as_filter_str LvlError = ''error''"

definition log_level_parse :: "str \<Rightarrow> log_level option" where
  "log_level_parse s =
     (let v = to_ascii_lowercase (trim s)
      in if v = lit ''trace'' then Some LvlTrace
         else if v = lit ''debug'' then Some LvlDebug
         else if v = lit ''info'' then Some LvlInfo
         else if v = lit ''warn'' then Some LvlWarn
         else if v = lit ''error'' then Some LvlError
         else None)"

datatype log_format = FmtJson | FmtPretty

definition log_format_parse :: "str \<Rightarrow> log_format option" where
  "log_format_parse s =
     (let v = to_ascii_lowercase (trim s)
      in if v = lit ''json'' then Some FmtJson
         else if v = lit ''pretty'' then Some FmtPretty
         else None)"

record config =
  cfg_server_url :: str
  cfg_machine_id :: str
  cfg_heartbeat_interval :: duration
  cfg_sync_interval :: duration
  cfg_trusted_ca_path :: path
  cfg_sshd_config_path :: path
  cfg_state_dir :: path
  cfg_identity_dir :: path
  cfg_helper_socket_path :: path
  cfg_helper_token_path :: path
  cfg_bundle_signing_public_key :: "str option"
  cfg_poll_jitter_ratio :: f64
  cfg_log_level :: log_level
  cfg_log_format :: log_format
  cfg_allow_insecure_tls :: bool
  cfg_tls_ca_path :: "path option"

text \<open>What the TOML text gives: the two required fields, the others where present.\<close>

record raw_config =
  rc_server_url :: str
  rc_machine_id :: str
  rc_heartbeat_interval :: "u64 option"
  rc_sync_interval :: "u64 option"
  rc_trusted_ca_path :: "path option"
  rc_sshd_config_path :: "path option"
  rc_state_dir :: "path option"
  rc_identity_dir :: "path option"
  rc_helper_socket_path :: "path option"
  rc_helper_token_path :: "path option"
  rc_bundle_signing_public_key :: "str option"
  rc_poll_jitter_ratio :: "f64 option"
  rc_log_level :: "log_level option"
  rc_log_format :: "log_format option"
  rc_allow_insecure_tls :: "bool option"
  rc_tls_ca_path :: "path option"

definition duration_secs_deserialize :: "u64 \<Rightarrow> duration" where
  "duration_secs_deserialize secs = from_secs secs"

definition duration_secs_serialize :: "duration \<Rightarrow> u64" where
  "duration_secs_serialize d = of_nat (d div NANOS_PER_SEC)"

definition default_heartbeat :: duration where
  "default_heartbeat = from_secs DEFAULT_HEARTBEAT_SECS"

definition default_sync :: duration where
  "default_sync = from_secs DEFAULT_SYNC_SECS"

definition config_of_raw :: "raw_config \<Rightarrow> config" where
  "config_of_raw rc =
     \<lparr>cfg_server_url = rc_server_url rc, cfg_machine_id = rc_machine_id rc,
      cfg_heartbeat_interval =
        (case rc_heartbeat_interval rc of None \<Rightarrow> default_heartbeat | Some s \<Rightarrow> duration_secs_deserialize s),
      cfg_sync_interval =
        (case rc_sync_interval rc of None \<Rightarrow> default_sync | Some s \<Rightarrow> duration_secs_deserialize s),
      cfg_trusted_ca_path = unwrap_or (rc_trusted_ca_path rc) DEFAULT_TRUSTED_CA_PATH,
      cfg_sshd_config_path = unwrap_or (rc_sshd_config_path rc) DEFAULT_SSHD_CONFIG_PATH,
      cfg_state_dir = unwrap_or (rc_state_dir rc) DEFAULT_STATE_DIR,
      cfg_identity_dir = unwrap_or (rc_identity_dir rc) DEFAULT_IDENTITY_DIR,
      cfg_helper_socket_path = unwrap_or (rc_helper_socket_path rc) DEFAULT_HELPER_SOCKET_PATH,
      cfg_helper_token_path = unwrap_or (rc_helper_token_path rc) DEFAULT_HELPER_TOKEN_PATH,
      cfg_bundle_signing_public_key = rc_bundle_signing_public_key rc,
      cfg_poll_jitter_ratio = unwrap_or (rc_poll_jitter_ratio rc) DEFAULT_POLL_JITTER_RATIO,
      cfg_log_level = unwrap_or (rc_log_level rc) LvlInfo,
      cfg_log_format = unwrap_or (rc_log_format rc) FmtJson,
      cfg_allow_insecure_tls = unwrap_or (rc_allow_insecure_tls rc) False,
      cfg_tls_ca_path = rc_tls_ca_path rc\<rparr>"

text \<open>What the derived \<open>Serialize\<close> of the configuration writes: every field that has a value.\<close>

definition config_to_raw :: "config \<Rightarrow> raw_config" where
  "config_to_raw c =
     \<lparr>rc_server_url = cfg_server_url c, rc_machine_id = cfg_machine_id c,
      rc_heartbeat_interval = Some (duration_secs_serialize (cfg_heartbeat_interval c)),
      rc_sync_interval = Some (duration_secs_serialize (cfg_sync_interval c)),
      rc_trusted_ca_path = Some (cfg_trusted_ca_path c), rc_sshd_config_path = Some (cfg_sshd_config_path c),
      rc_state_dir = Some (cfg_state_dir c), rc_identity_dir = Some (cfg_identity_dir c),
      rc_helper_socket_path = Some (cfg_helper_socket_path c), rc_helper_token_path = Some (cfg_helper_token_path c),
      rc_bundle_signing_public_key = cfg_bundle_signing_public_key c,
      rc_poll_jitter_ratio = Some (cfg_poll_jitter_ratio c), rc_log_level = Some (cfg_log_level c),
      rc_log_format = Some (cfg_log_format c), rc_allow_insecure_tls = Some (cfg_allow_insecure_tls c),
      rc_tls_ca_path = cfg_tls_ca_path c\<rparr>"

definition config_key :: "string \<Rightarrow> str" where
  "config_key suffix = ENV_PREFIX @ lit suffix"

definition config_parse_u64 :: "string \<Rightarrow> str \<Rightarrow> u64 res" where
  "config_parse_u64 field value =
     ok_or (parse_u64 (trim value)) (config_invalid (lit (field @ '' must be a non-negative integer'')))"

definition config_parse_bool :: "string \<Rightarrow> str \<Rightarrow> bool res" where
  "config_parse_bool field value =
     (let v = to_ascii_lowercase (trim value)
      in if v \<in> set (map lit [''true'', ''1'', ''yes'', ''on'']) then Inr True
         else if v \<in> set (map lit [''false'', ''0'', ''no'', ''off'']) then Inr False
         else Inl (config_invalid (lit (field @ '' must be a boolean''))))"

definition config_parse_f64 :: "string \<Rightarrow> str \<Rightarrow> f64 res" where
  "config_parse_f64 field value =
     ok_or (std_parse_f64 (trim value)) (config_invalid (lit (field @ '' must be a number'')))"

text \<open>A word between quotes, for the messages that quote one.\<close>

definition quoted :: "string \<Rightarrow> str" where
  "quoted s = 39 # lit s @ [39]"

definition MSG_LOG_FORMAT :: str where
  "MSG_LOG_FORMAT = lit ''log_format must be '' @ quoted ''json'' @ lit '' or '' @ quoted ''pretty''"

definition MSG_MACHINE_ID :: str where
  "MSG_MACHINE_ID = lit ''machine_id may only contain ASCII letters, digits, '' @ quoted ''-'' @ lit '', ''
     @ quoted ''_'' @ lit '' and '' @ quoted ''.''"

definition non_empty :: "str \<Rightarrow> str option" where
  "non_empty v = (if trim v = [] then None else Some (trim v))"

text \<open>One override: a variable that is set replaces the field by what it parses to.\<close>

definition env_override ::
    "(str \<Rightarrow> str option) \<Rightarrow> string \<Rightarrow> (str \<Rightarrow> 'f res) \<Rightarrow> (('f \<Rightarrow> 'f) \<Rightarrow> config \<Rightarrow> config) \<Rightarrow> config \<Rightarrow> config res" where
  "env_override get_env name parse upd c =
     (case get_env (config_key name) of
        None \<Rightarrow> Inr c
      | Some v \<Rightarrow> bind_res (parse v) (\<lambda>x. Inr (upd (\<lambda>_. x) c)))"

definition parse_secs :: "string \<Rightarrow> str \<Rightarrow> duration res" where
  "parse_secs field v = bind_res (config_parse_u64 field v) (\<lambda>s. Inr (from_secs s))"

definition parse_level :: "str \<Rightarrow> log_level res" where
  "parse_level v = ok_or (log_level_parse v) (config_invalid (lit ''log_level is not a valid level''))"

definition parse_format :: "str \<Rightarrow> log_format res" where
  "parse_format v = ok_or (log_format_parse v) (config_invalid MSG_LOG_FORMAT)"

definition apply_env_overrides :: "(str \<Rightarrow> str option) \<Rightarrow> config \<Rightarrow> config res" where
  "apply_env_overrides env c0 =
     bind_res (env_override env ''SERVER_URL'' Inr cfg_server_url_update c0) (\<lambda>c.
     bind_res (env_override env ''MACHINE_ID'' Inr cfg_machine_id_update c) (\<lambda>c.
     bind_res (env_override env ''HEARTBEAT_INTERVAL'' (parse_secs ''heartbeat_interval'') cfg_heartbeat_interval_update c) (\<lambda>c.
     bind_res (env_override env ''SYNC_INTERVAL'' (parse_secs ''sync_interval'') cfg_sync_interval_update c) (\<lambda>c.
     bind_res (env_override env ''TRUSTED_CA_PATH'' Inr cfg_trusted_ca_path_update c) (\<lambda>c.
     bind_res (env_override env ''SSHD_CONFIG_PATH'' Inr cfg_sshd_config_path_update c) (\<lambda>c.
     bind_res (env_override env ''STATE_DIR'' Inr cfg_state_dir_update c) (\<lambda>c.
     bind_res (env_override env ''IDENTITY_DIR'' Inr cfg_identity_dir_update c) (\<lambda>c.
     bind_res (env_override env ''HELPER_SOCKET_PATH'' Inr cfg_helper_socket_path_update c) (\<lambda>c.
     bind_res (env_override env ''HELPER_TOKEN_PATH'' Inr cfg_helper_token_path_update c) (\<lambda>c.
     bind_res (env_override env ''BUNDLE_SIGNING_PUBLIC_KEY'' (\<lambda>v. Inr (non_empty v))
         cfg_bundle_signing_public_key_update c) (\<lambda>c.
     bind_res (env_override env ''POLL_JITTER_RATIO'' (config_parse_f64 ''poll_jitter_ratio'')
         cfg_poll_jitter_ratio_update c) (\<lambda>c.
     bind_res (env_override env ''LOG_LEVEL'' parse_level cfg_log_level_update c) (\<lambda>c.
     bind_res (env_override env ''LOG_FORMAT'' parse_format cfg_log_format_update c) (\<lambda>c.
     bind_res (env_override env ''ALLOW_INSECURE_TLS'' (config_parse_bool ''allow_insecure_tls'')
         cfg_allow_insecure_tls_update c) (\<lambda>c.
     env_override env ''TLS_CA_PATH'' (\<lambda>v. Inr (non_empty v)) cfg_tls_ca_path_update c)))))))))))))))"

definition config_validate_server_url :: "config \<Rightarrow> unit res" where
  "config_validate_server_url c =
     (let url = cfg_server_url c
      in if trim url = [] then Inl (config_invalid (lit ''server_url must not be empty''))
         else if trim url \<noteq> url
           then Inl (config_invalid (lit ''server_url must not have leading/trailing whitespace''))
         else case strip_prefix (lit ''https://'') url of
                Some host \<Rightarrow>
                  if host = [] then Inl (config_invalid (lit ''server_url must include a host'')) else Inr ()
              | None \<Rightarrow>
                  (case strip_prefix (lit ''http://'') url of
                     Some host \<Rightarrow>
                       if \<not> cfg_allow_insecure_tls c
                       then Inl (config_invalid (lit ''server_url must use https unless allow_insecure_tls is set''))
                       else if host = [] then Inl (config_invalid (lit ''server_url must include a host''))
                       else Inr ()
                   | None \<Rightarrow> Inl (config_invalid (lit ''server_url must use http or https''))))"

definition validate_jitter_ratio :: "f64 \<Rightarrow> unit res" where
  "validate_jitter_ratio ratio =
     (case ratio of
        Fin r \<Rightarrow>
          if \<not> (0 \<le> r \<and> r \<le> 1)
          then Inl (config_invalid (lit ''poll_jitter_ratio must be between 0.0 and 1.0'')) else Inr ()
      | _ \<Rightarrow> Inl (config_invalid (lit ''poll_jitter_ratio must be between 0.0 and 1.0'')))"

definition validate_optional_signing_key :: "libs \<Rightarrow> str option \<Rightarrow> unit res" where
  "validate_optional_signing_key L key =
     (case key of
        None \<Rightarrow> Inr ()
      | Some k \<Rightarrow>
          if trim k = [] then Inl (config_invalid (lit ''bundle_signing_public_key must not be empty when set''))
          else map_err (\<lambda>_. config_invalid (lit ''bundle_signing_public_key is not a valid Ed25519 key''))
                 (validate_ed25519_public_key L k))"

definition machine_id_char :: "rchar \<Rightarrow> bool" where
  "machine_id_char c \<longleftrightarrow> is_ascii_alphanumeric c \<or> c = 45 \<or> c = 95 \<or> c = 46"

definition validate_machine_id :: "str \<Rightarrow> unit res" where
  "validate_machine_id machine_id =
     (if machine_id = [] then Inl (config_invalid (lit ''machine_id must not be empty''))
      else if str_len machine_id > MAX_MACHINE_ID_LEN then Inl (config_invalid (lit ''machine_id is too long''))
      else if \<not> list_all machine_id_char machine_id then Inl (config_invalid MSG_MACHINE_ID)
      else Inr ())"

definition validate_interval :: "string \<Rightarrow> duration \<Rightarrow> unit res" where
  "validate_interval field value =
     (let secs = value div NANOS_PER_SEC
      in if value mod NANOS_PER_SEC \<noteq> 0 \<or> secs < unat MIN_INTERVAL_SECS
         then Inl (config_invalid (lit (field @ '' must be at least '') @ show_u64 MIN_INTERVAL_SECS @ lit '' second(s)''))
         else if secs > unat MAX_INTERVAL_SECS
         then Inl (config_invalid (lit (field @ '' must be at most '') @ show_u64 MAX_INTERVAL_SECS @ lit '' seconds''))
         else Inr ())"

definition validate_managed_path :: "string \<Rightarrow> path \<Rightarrow> unit res" where
  "validate_managed_path field p =
     (if p = [] then Inl (config_invalid (lit (field @ '' must not be empty'')))
      else if \<not> is_absolute p then Inl (config_invalid (lit (field @ '' must be an absolute path'')))
      else if ParentDir \<in> set (components p)
        then Inl (config_invalid (lit (field @ '' must not contain '') @ quoted ''..'' @ lit '' components''))
      else Inr ())"

definition config_validate :: "libs \<Rightarrow> config \<Rightarrow> unit res" where
  "config_validate L c =
     bind_res (config_validate_server_url c) (\<lambda>_.
     bind_res (validate_machine_id (cfg_machine_id c)) (\<lambda>_.
     bind_res (validate_interval ''heartbeat_interval'' (cfg_heartbeat_interval c)) (\<lambda>_.
     bind_res (validate_interval ''sync_interval'' (cfg_sync_interval c)) (\<lambda>_.
     bind_res (validate_managed_path ''trusted_ca_path'' (cfg_trusted_ca_path c)) (\<lambda>_.
     bind_res (validate_managed_path ''sshd_config_path'' (cfg_sshd_config_path c)) (\<lambda>_.
     bind_res (validate_managed_path ''state_dir'' (cfg_state_dir c)) (\<lambda>_.
     bind_res (validate_managed_path ''identity_dir'' (cfg_identity_dir c)) (\<lambda>_.
     bind_res (validate_managed_path ''helper_socket_path'' (cfg_helper_socket_path c)) (\<lambda>_.
     bind_res (validate_managed_path ''helper_token_path'' (cfg_helper_token_path c)) (\<lambda>_.
     bind_res (validate_jitter_ratio (cfg_poll_jitter_ratio c)) (\<lambda>_.
     bind_res (validate_optional_signing_key L (cfg_bundle_signing_public_key c)) (\<lambda>_.
     case cfg_tls_ca_path c of None \<Rightarrow> Inr () | Some p \<Rightarrow> validate_managed_path ''tls_ca_path'' p))))))))))))"

definition from_toml_with_env ::
    "libs \<Rightarrow> (str \<Rightarrow> str + raw_config) \<Rightarrow> str \<Rightarrow> (str \<Rightarrow> str option) \<Rightarrow> config res" where
  "from_toml_with_env L toml toml_str get_env =
     bind_res (map_err ConfigParse (toml toml_str)) (\<lambda>rc.
     bind_res (apply_env_overrides get_env (config_of_raw rc)) (\<lambda>c.
     bind_res (config_validate L c) (\<lambda>_. Inr c)))"

definition config_load ::
    "libs \<Rightarrow> (str \<Rightarrow> str + raw_config) \<Rightarrow> (str \<Rightarrow> str option) \<Rightarrow> path \<Rightarrow> config io" where
  "config_load L toml get_env p =
     bind_io (map_err_io ConfigRead (sys_read_to_string (components p))) (\<lambda>raw.
     lift_res (from_toml_with_env L toml raw get_env))"

definition config_generation_path :: "config \<Rightarrow> path" where
  "config_generation_path c = path_join (cfg_state_dir c) GENERATION_FILE"

definition config_bundle_fingerprint_path :: "config \<Rightarrow> path" where
  "config_bundle_fingerprint_path c = path_join (cfg_state_dir c) BUNDLE_FINGERPRINT_FILE"

definition config_last_sync_path :: "config \<Rightarrow> path" where
  "config_last_sync_path c = path_join (cfg_state_dir c) LAST_SYNC_FILE"

definition config_last_success_path :: "config \<Rightarrow> path" where
  "config_last_success_path c = path_join (cfg_state_dir c) LAST_SUCCESS_FILE"

definition config_bundle_signing_key_path :: "config \<Rightarrow> path" where
  "config_bundle_signing_key_path c = path_join (cfg_state_dir c) SIGNING_KEY_FILE"

section \<open>Validation\<close>

definition good_url :: "bool \<Rightarrow> str \<Rightarrow> bool" where
  "good_url insecure url \<longleftrightarrow> trim url = url
     \<and> (\<exists>host. host \<noteq> [] \<and> (url = lit ''https://'' @ host \<or> insecure \<and> url = lit ''http://'' @ host))"

definition good_machine_id :: "str \<Rightarrow> bool" where
  "good_machine_id i \<longleftrightarrow> 1 \<le> length i \<and> length i \<le> 128 \<and> (\<forall>c \<in> set i. machine_id_char c)"

definition good_poll_interval :: "duration \<Rightarrow> bool" where
  "good_poll_interval d \<longleftrightarrow> (\<exists>s. d = s * NANOS_PER_SEC \<and> 1 \<le> s \<and> s \<le> 86400)"

definition good_path :: "path \<Rightarrow> bool" where
  "good_path p \<longleftrightarrow> is_absolute p \<and> ParentDir \<notin> set (components p)"

definition good_signing_key :: "libs \<Rightarrow> str \<Rightarrow> bool" where
  "good_signing_key L k \<longleftrightarrow> trim k \<noteq> [] \<and> ed25519_line L k"

text \<open>The documented rules of a configuration.\<close>

definition good_config :: "libs \<Rightarrow> config \<Rightarrow> bool" where
  "good_config L c \<longleftrightarrow> good_url (cfg_allow_insecure_tls c) (cfg_server_url c)
     \<and> good_machine_id (cfg_machine_id c)
     \<and> good_poll_interval (cfg_heartbeat_interval c) \<and> good_poll_interval (cfg_sync_interval c)
     \<and> list_all good_path [cfg_trusted_ca_path c, cfg_sshd_config_path c, cfg_state_dir c, cfg_identity_dir c,
          cfg_helper_socket_path c, cfg_helper_token_path c]
     \<and> (\<exists>r. cfg_poll_jitter_ratio c = Fin r \<and> 0 \<le> r \<and> r \<le> 1)
     \<and> pred_option (good_signing_key L) (cfg_bundle_signing_public_key c)
     \<and> pred_option good_path (cfg_tls_ca_path c)"

interpretation interval_check: validator "validate_interval field" good_poll_interval for field
proof
  fix d
  have "d mod NANOS_PER_SEC = 0 \<longleftrightarrow> d = d div NANOS_PER_SEC * NANOS_PER_SEC"
    by (metis add.right_neutral div_mult_mod_eq mod_mult_self2_is_0)
  moreover have "good_poll_interval d \<longleftrightarrow> d = d div NANOS_PER_SEC * NANOS_PER_SEC
      \<and> 1 \<le> d div NANOS_PER_SEC \<and> d div NANOS_PER_SEC \<le> 86400"
    by (auto simp: good_poll_interval_def NANOS_PER_SEC_def)
  ultimately show "validate_interval field d = Inr () \<longleftrightarrow> good_poll_interval d"
    by (auto simp: validate_interval_def Let_def MIN_INTERVAL_SECS_def MAX_INTERVAL_SECS_def not_less)
qed

interpretation path_check: validator "validate_managed_path field" good_path for field
  by unfold_locales (auto simp: validate_managed_path_def good_path_def is_absolute_def)

interpretation jitter_check: validator validate_jitter_ratio "\<lambda>x. \<exists>r. x = Fin r \<and> 0 \<le> r \<and> r \<le> 1"
  by unfold_locales (auto simp: validate_jitter_ratio_def split: f64.splits)

interpretation signing_key_check: validator "validate_optional_signing_key L" "pred_option (good_signing_key L)" for L
  by unfold_locales
     (auto simp: validate_optional_signing_key_def good_signing_key_def validate_ed25519_public_key_iff
        split: option.splits)

lemma machine_id_char_ascii: "machine_id_char c \<Longrightarrow> c < 128"
  by (auto simp: machine_id_char_def is_ascii_alphanumeric_def is_ascii_digit_def)

interpretation machine_id_check: validator validate_machine_id good_machine_id
proof
  fix i
  show "validate_machine_id i = Inr () \<longleftrightarrow> good_machine_id i"
  proof (cases "\<forall>c \<in> set i. machine_id_char c")
    case True
    then have "str_len i = length i" using machine_id_char_ascii str_len_ascii by blast
    with True show ?thesis
      by (auto simp: validate_machine_id_def good_machine_id_def list_all_iff MAX_MACHINE_ID_LEN_def Suc_le_eq)
  qed (auto simp: validate_machine_id_def good_machine_id_def list_all_iff)
qed

lemma https_not_http: "lit ''https://'' @ a \<noteq> lit ''http://'' @ b"
  by (simp add: lit_def)

lemma server_url_iff:
  "config_validate_server_url c = Inr () \<longleftrightarrow> good_url (cfg_allow_insecure_tls c) (cfg_server_url c)"
proof -
  have ne: "lit ''https://'' @ h \<noteq> []" "lit ''http://'' @ h \<noteq> []" for h by (simp_all add: lit_def)
  show ?thesis
    unfolding config_validate_server_url_def good_url_def Let_def
    using https_not_http ne
    by (auto simp: strip_prefix_Some strip_prefix_None split: option.splits)
qed

lemma good_config_iff: "config_validate L c = Inr () \<longleftrightarrow> good_config L c"
  by (auto simp: config_validate_def good_config_def bind_res_eq_Inr server_url_iff machine_id_check.check_iff
      interval_check.check_iff path_check.check_iff jitter_check.check_iff signing_key_check.check_iff
      split: option.splits)

text \<open>
  C35. A configuration passes validation exactly when it obeys the documented rules: an
  https URL with a host (http only when insecure TLS is allowed), an identifier of 1 to 128
  safe characters, intervals of whole seconds up to a day, managed paths that are absolute
  without parent components, a jitter ratio between 0 and 1, an Ed25519 key if one is pinned.
\<close>

theorem config_validate_correct: "config_validate L c = Inr () \<longleftrightarrow> good_config L c"
  by (rule good_config_iff)

section \<open>Environment overrides\<close>

text \<open>A field has the value its variable spells, or keeps its value if the variable is not set.\<close>

definition set_by :: "(str \<Rightarrow> str option) \<Rightarrow> string \<Rightarrow> (str \<Rightarrow> 'f res) \<Rightarrow> 'f \<Rightarrow> 'f \<Rightarrow> bool" where
  "set_by env name parse old new \<longleftrightarrow>
     (case env (lit ''MAYFLY_AGENT_'' @ lit name) of None \<Rightarrow> new = old | Some v \<Rightarrow> parse v = Inr new)"

definition overridden :: "(str \<Rightarrow> str option) \<Rightarrow> config \<Rightarrow> config \<Rightarrow> bool" where
  "overridden env d c \<longleftrightarrow>
     set_by env ''SERVER_URL'' Inr (cfg_server_url d) (cfg_server_url c)
     \<and> set_by env ''MACHINE_ID'' Inr (cfg_machine_id d) (cfg_machine_id c)
     \<and> set_by env ''HEARTBEAT_INTERVAL'' (parse_secs ''heartbeat_interval'') (cfg_heartbeat_interval d) (cfg_heartbeat_interval c)
     \<and> set_by env ''SYNC_INTERVAL'' (parse_secs ''sync_interval'') (cfg_sync_interval d) (cfg_sync_interval c)
     \<and> set_by env ''TRUSTED_CA_PATH'' Inr (cfg_trusted_ca_path d) (cfg_trusted_ca_path c)
     \<and> set_by env ''SSHD_CONFIG_PATH'' Inr (cfg_sshd_config_path d) (cfg_sshd_config_path c)
     \<and> set_by env ''STATE_DIR'' Inr (cfg_state_dir d) (cfg_state_dir c)
     \<and> set_by env ''IDENTITY_DIR'' Inr (cfg_identity_dir d) (cfg_identity_dir c)
     \<and> set_by env ''HELPER_SOCKET_PATH'' Inr (cfg_helper_socket_path d) (cfg_helper_socket_path c)
     \<and> set_by env ''HELPER_TOKEN_PATH'' Inr (cfg_helper_token_path d) (cfg_helper_token_path c)
     \<and> set_by env ''BUNDLE_SIGNING_PUBLIC_KEY'' (\<lambda>v. Inr (non_empty v)) (cfg_bundle_signing_public_key d) (cfg_bundle_signing_public_key c)
     \<and> set_by env ''POLL_JITTER_RATIO'' (config_parse_f64 ''poll_jitter_ratio'') (cfg_poll_jitter_ratio d) (cfg_poll_jitter_ratio c)
     \<and> set_by env ''LOG_LEVEL'' parse_level (cfg_log_level d) (cfg_log_level c)
     \<and> set_by env ''LOG_FORMAT'' parse_format (cfg_log_format d) (cfg_log_format c)
     \<and> set_by env ''ALLOW_INSECURE_TLS'' (config_parse_bool ''allow_insecure_tls'') (cfg_allow_insecure_tls d) (cfg_allow_insecure_tls c)
     \<and> set_by env ''TLS_CA_PATH'' (\<lambda>v. Inr (non_empty v)) (cfg_tls_ca_path d) (cfg_tls_ca_path c)"

lemma env_override_step:
  assumes "upd (\<lambda>_. get c) c = c"
  shows "env_override env name parse upd c = Inr c' \<longleftrightarrow>
    (\<exists>new. set_by env name parse (get c) new \<and> c' = upd (\<lambda>_. new) c)"
  using assms
  by (auto simp: env_override_def set_by_def config_key_def ENV_PREFIX_def bind_res_eq_Inr split: option.splits)

lemma env_override_bind:
  assumes "upd (\<lambda>_. get c) c = c"
  shows "bind_res (env_override env name parse upd c) k = Inr c' \<longleftrightarrow>
    (\<exists>new. set_by env name parse (get c) new \<and> k (upd (\<lambda>_. new) c) = Inr c')"
proof -
  have "env_override env name parse upd c = Inr a \<longleftrightarrow> (\<exists>new. set_by env name parse (get c) new \<and> a = upd (\<lambda>_. new) c)" for a
    by (rule env_override_step) (rule assms)
  then show ?thesis by (auto simp: bind_res_eq_Inr)
qed

lemmas override_steps =
  env_override_bind [where upd = cfg_server_url_update and get = cfg_server_url]
  env_override_bind [where upd = cfg_machine_id_update and get = cfg_machine_id]
  env_override_bind [where upd = cfg_heartbeat_interval_update and get = cfg_heartbeat_interval]
  env_override_bind [where upd = cfg_sync_interval_update and get = cfg_sync_interval]
  env_override_bind [where upd = cfg_trusted_ca_path_update and get = cfg_trusted_ca_path]
  env_override_bind [where upd = cfg_sshd_config_path_update and get = cfg_sshd_config_path]
  env_override_bind [where upd = cfg_state_dir_update and get = cfg_state_dir]
  env_override_bind [where upd = cfg_identity_dir_update and get = cfg_identity_dir]
  env_override_bind [where upd = cfg_helper_socket_path_update and get = cfg_helper_socket_path]
  env_override_bind [where upd = cfg_helper_token_path_update and get = cfg_helper_token_path]
  env_override_bind [where upd = cfg_bundle_signing_public_key_update and get = cfg_bundle_signing_public_key]
  env_override_bind [where upd = cfg_poll_jitter_ratio_update and get = cfg_poll_jitter_ratio]
  env_override_bind [where upd = cfg_log_level_update and get = cfg_log_level]
  env_override_bind [where upd = cfg_log_format_update and get = cfg_log_format]
  env_override_bind [where upd = cfg_allow_insecure_tls_update and get = cfg_allow_insecure_tls]
  env_override_step [where upd = cfg_tls_ca_path_update and get = cfg_tls_ca_path]

lemma apply_env_overrides_Inr: "apply_env_overrides env d = Inr c \<longleftrightarrow> overridden env d c"
proof -
  obtain f0 f1 f2 f3 f4 f5 f6 f7 f8 f9 f10 f11 f12 f13 f14 f15 where c: "c = \<lparr>cfg_server_url = f0, cfg_machine_id = f1, cfg_heartbeat_interval = f2, cfg_sync_interval = f3, cfg_trusted_ca_path = f4, cfg_sshd_config_path = f5, cfg_state_dir = f6, cfg_identity_dir = f7, cfg_helper_socket_path = f8, cfg_helper_token_path = f9, cfg_bundle_signing_public_key = f10, cfg_poll_jitter_ratio = f11, cfg_log_level = f12, cfg_log_format = f13, cfg_allow_insecure_tls = f14, cfg_tls_ca_path = f15\<rparr>"
    by (cases c)
  show ?thesis
    unfolding apply_env_overrides_def overridden_def c
    by (cases d) (simp add: override_steps)
qed

text \<open>
  C36. What loading a configuration gives: the fields of the file, each replaced by its
  \<open>MAYFLY_AGENT_\<close> variable where one is set, and only if the result obeys the rules.
\<close>

theorem from_toml_with_env_correct:
  "from_toml_with_env L toml text env = Inr c \<longleftrightarrow>
     (\<exists>rc. toml text = Inr rc \<and> overridden env (config_of_raw rc) c) \<and> good_config L c"
  by (auto simp: from_toml_with_env_def bind_res_eq_Inr apply_env_overrides_Inr good_config_iff)

section \<open>Error messages\<close>

definition interval_reasons :: "string \<Rightarrow> str list" where
  "interval_reasons field = [lit (field @ '' must be a non-negative integer''),
     lit (field @ '' must be at least 1 second(s)''), lit (field @ '' must be at most 86400 seconds'')]"

definition path_reasons :: "string \<Rightarrow> str list" where
  "path_reasons field = [lit (field @ '' must not be empty''), lit (field @ '' must be an absolute path''),
     lit (field @ '' must not contain '') @ quoted ''..'' @ lit '' components'']"

definition plain_reasons :: "str list" where
  "plain_reasons =
     map lit [''server_url must not be empty'', ''server_url must not have leading/trailing whitespace'',
       ''server_url must include a host'', ''server_url must use https unless allow_insecure_tls is set'',
       ''server_url must use http or https'', ''machine_id must not be empty'', ''machine_id is too long'',
       ''poll_jitter_ratio must be a number'', ''poll_jitter_ratio must be between 0.0 and 1.0'',
       ''bundle_signing_public_key must not be empty when set'',
       ''bundle_signing_public_key is not a valid Ed25519 key'', ''log_level is not a valid level'',
       ''allow_insecure_tls must be a boolean'']
     @ [MSG_MACHINE_ID, MSG_LOG_FORMAT]"

text \<open>Every reason a configuration is refused with. None depends on the configuration.\<close>

definition config_reasons :: "str list" where
  "config_reasons = plain_reasons
     @ interval_reasons ''heartbeat_interval'' @ interval_reasons ''sync_interval''
     @ path_reasons ''trusted_ca_path'' @ path_reasons ''sshd_config_path'' @ path_reasons ''state_dir''
     @ path_reasons ''identity_dir'' @ path_reasons ''helper_socket_path'' @ path_reasons ''helper_token_path''
     @ path_reasons ''tls_ca_path''"

lemma plain_reason: "r \<in> set plain_reasons \<Longrightarrow> r \<in> set config_reasons"
  by (simp add: config_reasons_def)

lemma interval_reason:
  "r \<in> set (interval_reasons f) \<Longrightarrow> f \<in> {''heartbeat_interval'', ''sync_interval''} \<Longrightarrow> r \<in> set config_reasons"
  by (auto simp only: config_reasons_def set_append insert_iff empty_iff)

definition fixed_errors :: "'a res \<Rightarrow> bool" where
  "fixed_errors r \<longleftrightarrow> (case r of Inl e \<Rightarrow> e \<in> ConfigInvalid ` set config_reasons | Inr _ \<Rightarrow> True)"

lemma fixed_Inr [simp]: "fixed_errors (Inr a)"
  by (simp add: fixed_errors_def)

lemma fixed_Inl: "r \<in> set config_reasons \<Longrightarrow> fixed_errors (Inl (config_invalid r))"
  by (simp add: fixed_errors_def config_invalid_def)

lemma fixed_bind: "fixed_errors r \<Longrightarrow> (\<And>a. fixed_errors (k a)) \<Longrightarrow> fixed_errors (bind_res r k)"
  by (cases r) (auto simp: fixed_errors_def)

lemma fixed_ok_or: "r \<in> set config_reasons \<Longrightarrow> fixed_errors (ok_or x (config_invalid r))"
  by (cases x) (auto intro: fixed_Inl)

lemma fixed_override: "(\<And>v. fixed_errors (parse v)) \<Longrightarrow> fixed_errors (env_override env name parse upd c)"
  by (auto simp: env_override_def intro: fixed_bind split: option.splits)

lemmas fixed_plain = fixed_Inl [OF plain_reason] fixed_ok_or [OF plain_reason]

lemma fixed_secs:
  assumes "f \<in> {''heartbeat_interval'', ''sync_interval''}"
  shows "fixed_errors (parse_secs f v)"
proof -
  have "lit (f @ '' must be a non-negative integer'') \<in> set (interval_reasons f)"
    by (simp add: interval_reasons_def)
  from fixed_ok_or [OF interval_reason [OF this assms]] show ?thesis
    unfolding parse_secs_def config_parse_u64_def by (intro fixed_bind fixed_Inr)
qed

lemma fixed_parsers:
  "fixed_errors (parse_secs ''heartbeat_interval'' v)" "fixed_errors (parse_secs ''sync_interval'' v)"
  "fixed_errors (config_parse_f64 ''poll_jitter_ratio'' v)" "fixed_errors (parse_level v)"
  "fixed_errors (parse_format v)" "fixed_errors (config_parse_bool ''allow_insecure_tls'' v)"
  by (simp_all add: fixed_secs)
     (auto intro!: fixed_plain simp: config_parse_f64_def parse_level_def parse_format_def config_parse_bool_def
        Let_def plain_reasons_def)

lemma fixed_overrides: "fixed_errors (apply_env_overrides env c)"
  unfolding apply_env_overrides_def
  by (intro fixed_bind fixed_override fixed_parsers fixed_Inr)

lemma fixed_path:
  assumes "set (path_reasons field) \<subseteq> set config_reasons"
  shows "fixed_errors (validate_managed_path field p)"
  using assms by (auto simp: validate_managed_path_def path_reasons_def intro!: fixed_Inl)

lemma fixed_interval:
  assumes "set (interval_reasons field) \<subseteq> set config_reasons"
  shows "fixed_errors (validate_interval field d)"
proof -
  have "show_u64 MIN_INTERVAL_SECS = lit ''1''" "show_u64 MAX_INTERVAL_SECS = lit ''86400''"
    by (simp_all add: show_u64_def MIN_INTERVAL_SECS_def MAX_INTERVAL_SECS_def show_nat.simps lit_def)
  then have "lit (field @ '' must be at least '') @ show_u64 MIN_INTERVAL_SECS @ lit '' second(s)''
        = lit (field @ '' must be at least 1 second(s)'')"
      "lit (field @ '' must be at most '') @ show_u64 MAX_INTERVAL_SECS @ lit '' seconds''
        = lit (field @ '' must be at most 86400 seconds'')"
    by (simp_all flip: lit_append)
  then show ?thesis
    using assms by (auto simp: validate_interval_def Let_def interval_reasons_def intro!: fixed_Inl)
qed

lemma fixed_validate: "fixed_errors (config_validate L c)"
proof -
  have url: "fixed_errors (config_validate_server_url c)"
    by (simp add: config_validate_server_url_def Let_def fixed_plain plain_reasons_def split: option.split)
  have id: "fixed_errors (validate_machine_id i)" for i
    unfolding validate_machine_id_def by (auto intro!: fixed_plain simp: plain_reasons_def)
  have jitter: "fixed_errors (validate_jitter_ratio x)" for x
    unfolding validate_jitter_ratio_def by (auto intro!: fixed_plain simp: plain_reasons_def split: f64.splits)
  have key: "fixed_errors (validate_optional_signing_key L k)" for k
    unfolding validate_optional_signing_key_def
    by (auto intro!: fixed_plain simp: plain_reasons_def map_err_def split: option.splits sum.splits)
  have path: "fixed_errors (validate_managed_path f p)" if "f \<in> {''trusted_ca_path'', ''sshd_config_path'',
      ''state_dir'', ''identity_dir'', ''helper_socket_path'', ''helper_token_path'', ''tls_ca_path''}" for f p
    by (rule fixed_path) (use that in \<open>unfold config_reasons_def set_append, blast\<close>)
  have interval: "fixed_errors (validate_interval f d)" if "f \<in> {''heartbeat_interval'', ''sync_interval''}" for f d
    by (rule fixed_interval) (use that in \<open>unfold config_reasons_def set_append, blast\<close>)
  have tls: "fixed_errors (case x of None \<Rightarrow> Inr () | Some p \<Rightarrow> validate_managed_path ''tls_ca_path'' p)" for x
    using path [of "''tls_ca_path''"] by (cases x) simp_all
  show ?thesis
    unfolding config_validate_def
    by (intro fixed_bind url id jitter key path interval tls) simp_all
qed

text \<open>
  A configuration is refused with the parser's own error or with one of a fixed list of
  reasons: no value of the file or of the environment, neither a path nor a secret, gets
  into a validation error.
\<close>

theorem config_errors_fixed:
  "case from_toml_with_env L toml text env of
     Inr _ \<Rightarrow> True
   | Inl e \<Rightarrow> (\<exists>m. toml text = Inl m \<and> e = ConfigParse m) \<or> e \<in> ConfigInvalid ` set config_reasons"
proof (cases "toml text")
  case (Inl m)
  then show ?thesis by (simp add: from_toml_with_env_def)
next
  case (Inr rc)
  have "fixed_errors (from_toml_with_env L toml text env)"
    unfolding from_toml_with_env_def Inr map_err_simps bind_res_simps
    by (intro fixed_bind fixed_overrides fixed_validate fixed_Inr)
  then show ?thesis by (auto simp: fixed_errors_def split: sum.splits)
qed

section \<open>Writing a configuration back\<close>

lemma interval_round_trip: "good_poll_interval d \<Longrightarrow> duration_secs_deserialize (duration_secs_serialize d) = d"
proof -
  assume "good_poll_interval d"
  then obtain s where s: "d = s * NANOS_PER_SEC" "s \<le> 86400" by (auto simp: good_poll_interval_def)
  have "unat (of_nat s :: u64) = s" using s(2) by (simp add: unat_of_nat)
  with s(1) show ?thesis
    by (simp add: duration_secs_serialize_def duration_secs_deserialize_def from_secs_def NANOS_PER_SEC_def)
qed

text \<open>A configuration that was accepted survives being written and read: its intervals are whole seconds.\<close>

lemma accepted_config_round_trip:
  assumes "config_validate L c = Inr ()"
  shows "config_of_raw (config_to_raw c) = c"
proof -
  have "good_poll_interval (cfg_heartbeat_interval c)" "good_poll_interval (cfg_sync_interval c)"
    using assms by (simp_all add: good_config_iff good_config_def)
  then show ?thesis by (simp add: config_of_raw_def config_to_raw_def interval_round_trip)
qed

end
