(* ===== verification/Machine.thy ===== *)
theory Machine
  imports Signing Float64
begin

text \<open>
  \<open>src/identity/machine.rs\<close>: the identity of an enrolled machine and the record of it on
  disk. The JSON encoder and decoder (\<open>serde_json\<close>) are arguments.
\<close>

section \<open>Definitions\<close>

record machine_identity =
  mi_machine_id :: str
  mi_hostname :: str
  mi_public_key :: str
  mi_private_key_path :: path
  mi_public_key_path :: path
  mi_enrolled_at :: int
  mi_server_url :: str
  mi_heartbeat_interval :: duration
  mi_sync_interval :: duration

record machine_record =
  mr_machine_id :: str
  mr_hostname :: str
  mr_server_url :: str
  mr_heartbeat_interval_secs :: u64
  mr_sync_interval_secs :: u64
  mr_enrolled_at_unix :: int

text \<open>The range of \<open>OffsetDateTime::from_unix_timestamp\<close>: the years -9999 to 9999.\<close>

definition MIN_TIMESTAMP :: int where
  "MIN_TIMESTAMP = -377705116800"

definition MAX_TIMESTAMP :: int where
  "MAX_TIMESTAMP = 253402300799"

definition from_unix_timestamp :: "int \<Rightarrow> int option" where
  "from_unix_timestamp s =
     (if MIN_TIMESTAMP \<le> s \<and> s \<le> MAX_TIMESTAMP then Some (s * 1000000000) else None)"

definition as_secs :: "duration \<Rightarrow> u64" where
  "as_secs d = of_nat (d div NANOS_PER_SEC)"

definition record_load :: "(bytes \<Rightarrow> str + machine_record) \<Rightarrow> path \<Rightarrow> machine_record io" where
  "record_load dec p =
     bind_io (map_err_io Io (sys_read (components p))) (\<lambda>bs.
     lift_res (map_err MachineRecordParse (dec bs)))"

definition record_save :: "(machine_record \<Rightarrow> str + bytes) \<Rightarrow> machine_record \<Rightarrow> path \<Rightarrow> unit io" where
  "record_save enc r p =
     bind_io (lift_res (map_err MachineRecordSerialize (enc r))) (\<lambda>json.
     secure_write p (json @ [10]) MODE_PUBLIC)"

definition into_identity :: "machine_record \<Rightarrow> str \<Rightarrow> path \<Rightarrow> path \<Rightarrow> machine_identity res" where
  "into_identity r public_key private_key_path public_key_path =
     bind_res (ok_or (from_unix_timestamp (mr_enrolled_at_unix r)) MachineRecordInvalid) (\<lambda>enrolled_at.
     Inr \<lparr>mi_machine_id = mr_machine_id r, mi_hostname = mr_hostname r, mi_public_key = public_key,
          mi_private_key_path = private_key_path, mi_public_key_path = public_key_path,
          mi_enrolled_at = enrolled_at, mi_server_url = mr_server_url r,
          mi_heartbeat_interval = from_secs (mr_heartbeat_interval_secs r),
          mi_sync_interval = from_secs (mr_sync_interval_secs r)\<rparr>)"

definition to_record :: "machine_identity \<Rightarrow> machine_record" where
  "to_record i =
     \<lparr>mr_machine_id = mi_machine_id i, mr_hostname = mi_hostname i, mr_server_url = mi_server_url i,
      mr_heartbeat_interval_secs = as_secs (mi_heartbeat_interval i),
      mr_sync_interval_secs = as_secs (mi_sync_interval i),
      mr_enrolled_at_unix = unix_timestamp (mi_enrolled_at i)\<rparr>"

section \<open>Properties\<close>

lemma as_secs_from_secs [simp]: "as_secs (from_secs s) = s"
  by (simp add: as_secs_def from_secs_def NANOS_PER_SEC_def)

lemma unix_timestamp_roundtrip: "from_unix_timestamp s = Some t \<Longrightarrow> unix_timestamp t = s"
  by (auto simp: from_unix_timestamp_def unix_timestamp_def split: if_splits)

text \<open>The record of an identity built from a record is that record.\<close>

lemma to_record_into_identity:
  "into_identity r k p q = Inr i \<Longrightarrow> to_record i = r"
  by (auto simp: into_identity_def to_record_def bind_res_eq_Inr unix_timestamp_roundtrip)

text \<open>
  The identity rebuilt from its own record: everything comes back, the time of enrollment
  to the second.
\<close>

definition whole_second :: "int \<Rightarrow> int" where
  "whole_second t = t div 1000000000 * 1000000000"

definition representable_time :: "int \<Rightarrow> bool" where
  "representable_time t \<longleftrightarrow> MIN_TIMESTAMP \<le> t div 1000000000 \<and> t div 1000000000 \<le> MAX_TIMESTAMP"

lemma into_identity_to_record:
  assumes "representable_time (mi_enrolled_at i)"
    and "mi_heartbeat_interval i = from_secs h" and "mi_sync_interval i = from_secs s"
  shows "into_identity (to_record i) (mi_public_key i) (mi_private_key_path i) (mi_public_key_path i)
    = Inr (i\<lparr>mi_enrolled_at := whole_second (mi_enrolled_at i)\<rparr>)"
  using assms
  by (simp add: into_identity_def to_record_def from_unix_timestamp_def representable_time_def
      unix_timestamp_def whole_second_def)

lemma record_save_keeps:
  assumes "\<And>json u. enc r = Inr json \<Longrightarrow> P (components p) (Some (NFile (json @ [10]) MODE_PUBLIC u))"
  shows "keeps P Q (record_save enc r p)"
proof (cases "enc r")
  case (Inl e)
  then show ?thesis by (auto simp: record_save_def keeps_def bind_io_def)
next
  case (Inr json)
  have "keeps P Q (secure_write p (json @ [10]) MODE_PUBLIC)"
    by (rule secure_write_keeps) (use assms Inr in blast)
  with Inr show ?thesis by (simp add: record_save_def keeps_def bind_io_def)
qed

text \<open>A record that was saved is the record that is loaded.\<close>

lemma record_save_load:
  assumes "record_save enc r p w = (Inr (), w')"
    and reads_back: "\<And>json. enc r = Inr json \<Longrightarrow> dec (json @ [10]) = Inr r"
    and "fs v (components p) = fs w' (components p)" and "fault v (tick v) = None"
  shows "record_load dec p v = (Inr r, advance v)"
proof -
  from assms(1) obtain json where json: "enc r = Inr json"
      and sw: "secure_write p (json @ [10]) MODE_PUBLIC w = (Inr (), w')"
    by (cases "enc r") (auto simp: record_save_def bind_io_def)
  from sw have "\<exists>m u. fs w' (components p) = Some (NFile (json @ [10]) m u)"
    by (auto dest!: secure_write_result elim!: write_resultE)
  with assms(3) obtain m u where "fs v (components p) = Some (NFile (json @ [10]) m u)" by auto
  then show ?thesis
    using reads_back [OF json] assms(4)
    by (simp add: record_load_def bind_io_def map_err_io_def sys_read_ok)
qed

end
