(* ===== verification/App_State.thy ===== *)
theory App_State
  imports Scheduler Config Machine
begin

text \<open>
  \<open>src/clock.rs\<close>, \<open>src/state.rs\<close> and \<open>src/service/agent.rs\<close>: the clocks, the shared state
  stamped with the time of the start, and the orchestrator's accessors. A clock is what the
  trait \<open>Clock\<close> is, a source of the time now; its contract is the locale \<open>clock_source\<close>.
\<close>

section \<open>Clocks\<close>

type_synonym clock_fun = "world \<Rightarrow> int \<times> world"

definition system_clock_now :: clock_fun where
  "system_clock_now w = clock_now w"

record fixed_clock =
  fc_instant :: int

definition fixed_clock_new :: "int \<Rightarrow> fixed_clock" where
  "fixed_clock_new instant = \<lparr>fc_instant = instant\<rparr>"

text \<open>Out of the representable range there is no clock but a panic.\<close>

definition fixed_clock_from_unix :: "int \<Rightarrow> fixed_clock option" where
  "fixed_clock_from_unix s = map_option fixed_clock_new (from_unix_timestamp s)"

definition fixed_clock_now :: "fixed_clock \<Rightarrow> clock_fun" where
  "fixed_clock_now c w = (fc_instant c, w)"

record mock_clock =
  mc_current :: int

definition mock_clock_new :: "int \<Rightarrow> mock_clock" where
  "mock_clock_new start = \<lparr>mc_current = start\<rparr>"

definition mock_clock_from_unix :: "int \<Rightarrow> mock_clock option" where
  "mock_clock_from_unix s = map_option mock_clock_new (from_unix_timestamp s)"

text \<open>Adding past the end of the year 9999 panics; a poisoned lock does not.\<close>

definition mock_clock_advance :: "duration \<Rightarrow> mock_clock \<Rightarrow> mock_clock option" where
  "mock_clock_advance d c = map_option (\<lambda>t. c\<lparr>mc_current := t\<rparr>) (time_add (mc_current c) d)"

definition mock_clock_set :: "int \<Rightarrow> mock_clock \<Rightarrow> mock_clock" where
  "mock_clock_set instant c = c\<lparr>mc_current := instant\<rparr>"

definition mock_clock_now :: "mock_clock \<Rightarrow> clock_fun" where
  "mock_clock_now c w = (mc_current c, w)"

section \<open>The shared state and the agent\<close>

record app_state =
  as_config :: config
  as_startup_time :: int

definition app_state_new :: "clock_fun \<Rightarrow> config \<Rightarrow> world \<Rightarrow> app_state \<times> world" where
  "app_state_new now c w = (case now w of (t, w') \<Rightarrow> (\<lparr>as_config = c, as_startup_time = t\<rparr>, w'))"

definition app_uptime :: "clock_fun \<Rightarrow> app_state \<Rightarrow> world \<Rightarrow> duration \<times> world" where
  "app_uptime now st w =
     (case now w of (t, w') \<Rightarrow>
        let delta = t - as_startup_time st in (if delta < 0 then 0 else nat (abs delta), w'))"

record agent =
  ag_state :: app_state

definition agent_new :: "app_state \<Rightarrow> agent" where
  "agent_new st = \<lparr>ag_state = st\<rparr>"

definition agent_uptime :: "clock_fun \<Rightarrow> agent \<Rightarrow> world \<Rightarrow> duration \<times> world" where
  "agent_uptime now a w = app_uptime now (ag_state a) w"

section \<open>The contract of a clock\<close>

locale clock_source =
  fixes now :: clock_fun
  assumes looks_only: "now w = (t, w') \<Longrightarrow> frame_step w w' \<and> trace w' = trace w"
begin

lemma app_state_new_frame: "app_state_new now c w = (st, w') \<Longrightarrow> frame_step w w'"
  by (auto simp: app_state_new_def split: prod.splits dest: looks_only)

text \<open>The uptime is the time since the start, and zero when the clock has gone back.\<close>

lemma uptime_value:
  assumes "app_uptime now st w = (d, w')"
  shows "int d = max 0 (fst (now w) - as_startup_time st) \<and> frame_step w w'"
  using assms by (auto simp: app_uptime_def Let_def split: prod.splits if_splits dest: looks_only)

end

interpretation system_clock: clock_source system_clock_now
  by unfold_locales (auto simp: system_clock_now_def clock_now_def)

interpretation fixed_clock: clock_source "fixed_clock_now c" for c
  by unfold_locales (auto simp: fixed_clock_now_def)

interpretation mock_clock: clock_source "mock_clock_now c" for c
  by unfold_locales (auto simp: mock_clock_now_def)

text \<open>A mock clock shows exactly the time it was advanced to.\<close>

lemma mock_uptime:
  assumes "app_state_new (mock_clock_now c) cfg w = (st, w1)" and "mock_clock_advance d c = Some c'"
  shows "agent_uptime (mock_clock_now c') (agent_new st) w2 = (d, w2)"
  using assms
  by (auto simp: app_state_new_def mock_clock_now_def mock_clock_advance_def time_add_def agent_uptime_def
      agent_new_def app_uptime_def Let_def split: if_splits)

end
