(* ===== verification/Tls.thy ===== *)
theory Tls
  imports Config
begin

text \<open>
  \<open>src/tls.rs\<close> and the construction of the HTTP transports: reading the extra trust anchors
  of \<open>tls_ca_path\<close>. Parsing PEM and building a client are \<open>reqwest\<close>'s, a record of functions.
  A built transport has no state of its own; its exchanges are the world's.
\<close>

record tls_lib =
  tl_pem_bundle :: "bytes \<Rightarrow> bytes list option"
  tl_builds :: "bool \<Rightarrow> bytes list \<Rightarrow> bool"

definition load_root_certs :: "tls_lib \<Rightarrow> path \<Rightarrow> bytes list io" where
  "load_root_certs T p =
     bind_io (map_err_io Io (sys_read (components p))) (\<lambda>pem.
     bind_io (lift_res (ok_or (tl_pem_bundle T pem)
         (config_invalid (lit ''tls_ca_path is not a valid PEM certificate bundle'')))) (\<lambda>certs.
     lift_res (if certs = [] then Inl (config_invalid (lit ''tls_ca_path contains no certificates'')) else Inr certs)))"

definition build_transport :: "tls_lib \<Rightarrow> error \<Rightarrow> bool \<Rightarrow> path option \<Rightarrow> unit io" where
  "build_transport T e allow_insecure_tls tls_ca_path =
     bind_io (case tls_ca_path of None \<Rightarrow> return_io [] | Some p \<Rightarrow> load_root_certs T p) (\<lambda>certs.
     lift_res (if tl_builds T allow_insecure_tls certs then Inr () else Inl e))"

definition reqwest_transport_new :: "tls_lib \<Rightarrow> bool \<Rightarrow> path option \<Rightarrow> unit io" where
  "reqwest_transport_new T = build_transport T HeartbeatTransport"

definition reqwest_enrollment_new :: "tls_lib \<Rightarrow> bool \<Rightarrow> path option \<Rightarrow> unit io" where
  "reqwest_enrollment_new T = build_transport T EnrollmentTransport"

lemma keeps_load_root_certs [intro]: "keeps P Q (load_root_certs T p)"
  unfolding load_root_certs_def by auto

lemma keeps_build_transport [intro]: "keeps P Q (build_transport T e b p)"
  unfolding build_transport_def by (intro keeps_bind keeps_lift) (auto split: option.splits)

lemma keeps_transports [intro]: "keeps P Q (reqwest_transport_new T b p)" "keeps P Q (reqwest_enrollment_new T b p)"
  by (auto simp: reqwest_transport_new_def reqwest_enrollment_new_def)

text \<open>A pinned authority is never silently dropped: without a readable, non-empty bundle no transport is built.\<close>

lemma pinned_transport:
  assumes "build_transport T e b (Some p) w = (Inr (), w')"
  shows "\<exists>pem certs. read_of (fs w) (components p) = Inr pem \<and> tl_pem_bundle T pem = Some certs \<and> certs \<noteq> []"
  using assms
  by (auto simp: build_transport_def load_root_certs_def bind_io_Inr map_err_io_def split: prod.splits if_splits
      dest!: sys_read_Inr)

end
