(* ===== verification/Runtime_State.thy ===== *)
theory Runtime_State
  imports Ca_Sync Config Calm
begin

text \<open>
  \<open>src/service/runtime_state.rs\<close>: the status file, the recovery of the applied generation, the
  pin taken from an enrollment, and the creation of the state directory. The JSON encoder
  and decoder of the status are arguments.
\<close>

section \<open>Directories\<close>

text \<open>
  \<open>mkdir\<close> and \<open>DirBuilder\<close> with \<open>recursive\<close>, as in the standard library; \<open>dmode\<close> is what the
  process's umask leaves of 0777. A name without a directory is relative to the working
  directory, which exists.
\<close>

definition sys_mkdir :: "fskey \<Rightarrow> u32 \<Rightarrow> u32 \<Rightarrow> (io_error, unit) comp" where
  "sys_mkdir k mode uid = sys_update (\<lambda>m.
     (case m k of
        Some _ \<Rightarrow> Inl (os_err AlreadyExists)
      | None \<Rightarrow>
          if butlast k = [] then Inr (m(k \<mapsto> NDir mode uid))
          else (case stat_of m (butlast k) of
                  Inl e \<Rightarrow> Inl e
                | Inr (NDir _ _) \<Rightarrow> Inr (m(k \<mapsto> NDir mode uid))
                | Inr _ \<Rightarrow> Inl (os_err NotADirectory))))"

definition or_is_dir :: "fskey \<Rightarrow> io_error \<Rightarrow> (io_error, unit) comp" where
  "or_is_dir k e w = (case sys_is_dir k w of (b, w') \<Rightarrow> (if b then Inr () else Inl e, w'))"

fun create_dirs :: "u32 \<Rightarrow> component list \<Rightarrow> (io_error, unit) comp" where
  "create_dirs dmode [] w = (Inr (), w)"
| "create_dirs dmode (c # up) w =
     (let k = rev (c # up)
      in case sys_mkdir k dmode (euid w) w of
           (Inr _, w1) \<Rightarrow> (Inr (), w1)
         | (Inl e, w1) \<Rightarrow>
             if ioe_kind e \<noteq> NotFound then or_is_dir k e w1
             else if up = [] \<and> c = RootDir then (Inl (IoErr OtherIo (lit ''failed to create whole tree'')), w1)
             else (case create_dirs dmode up w1 of
                     (Inl e', w2) \<Rightarrow> (Inl e', w2)
                   | (Inr _, w2) \<Rightarrow>
                       (case sys_mkdir k dmode (euid w2) w2 of
                          (Inr _, w3) \<Rightarrow> (Inr (), w3)
                        | (Inl e', w3) \<Rightarrow> or_is_dir k e' w3)))"

definition create_dir_all :: "u32 \<Rightarrow> fskey \<Rightarrow> (io_error, unit) comp" where
  "create_dir_all dmode k = create_dirs dmode (rev k)"

text \<open>\<open>fs::set_permissions\<close> follows links.\<close>

definition sys_set_permissions :: "fskey \<Rightarrow> u32 \<Rightarrow> (io_error, unit) comp" where
  "sys_set_permissions k mode = sys_update (\<lambda>m.
     (case follow max_links m k of
        None \<Rightarrow> Inl (os_err OtherIo)
      | Some k' \<Rightarrow>
          (case m k' of None \<Rightarrow> Inl (os_err NotFound) | Some n \<Rightarrow> Inr (m(k' \<mapsto> chmod_node mode n)))))"

section \<open>Definitions\<close>

definition RUNTIME_STATUS_FILE :: str where
  "RUNTIME_STATUS_FILE = lit ''runtime_status.json''"

record runtime_status =
  st_agent_version :: str
  st_machine_id :: str
  st_started_at_unix :: int
  st_last_heartbeat_unix :: "int option"
  st_last_heartbeat_ok :: "bool option"
  st_last_sync_unix :: "int option"
  st_last_sync_outcome :: "str option"
  st_current_generation :: u64
  st_clean_shutdown :: bool

definition runtime_status_default :: runtime_status where
  "runtime_status_default =
     \<lparr>st_agent_version = [], st_machine_id = [], st_started_at_unix = 0, st_last_heartbeat_unix = None,
      st_last_heartbeat_ok = None, st_last_sync_unix = None, st_last_sync_outcome = None,
      st_current_generation = 0, st_clean_shutdown = False\<rparr>"

definition status_path :: "config \<Rightarrow> path" where
  "status_path c = path_join (cfg_state_dir c) RUNTIME_STATUS_FILE"

definition status_load :: "(bytes \<Rightarrow> str + runtime_status) \<Rightarrow> config \<Rightarrow> runtime_status option io" where
  "status_load dec c w =
     (case sys_read (components (status_path c)) w of
        (Inr bs, w') \<Rightarrow> (bind_res (map_err MachineRecordParse (dec bs)) (\<lambda>st. Inr (Some st)), w')
      | (Inl e, w') \<Rightarrow> (if ioe_kind e = NotFound then (Inr None, w') else (Inl (Io e), w')))"

definition status_save :: "(runtime_status \<Rightarrow> str + bytes) \<Rightarrow> runtime_status \<Rightarrow> config \<Rightarrow> unit io" where
  "status_save enc st c =
     bind_io (lift_res (map_err MachineRecordSerialize (enc st))) (\<lambda>json.
     secure_write (status_path c) (json @ [10]) MODE_PUBLIC)"

definition ensure_state_dir :: "u32 \<Rightarrow> path \<Rightarrow> unit io" where
  "ensure_state_dir dmode dir =
     bind_io (map_err_io Io (create_dir_all dmode (components dir))) (\<lambda>_.
     bind_io (ensure_not_symlink dir) (\<lambda>_.
     map_err_io Io (sys_set_permissions (components dir) MODE_DIR)))"

definition runtime_read_optional_string :: "path \<Rightarrow> str option io" where
  "runtime_read_optional_string p w =
     (case sys_read (components p) w of
        (Inr bs, w') \<Rightarrow>
          (bind_res (ok_or (from_utf8 bs) MachineRecordInvalid) (\<lambda>text.
             Inr (if trim text \<noteq> [] then Some (trim text) else None)), w')
      | (Inl e, w') \<Rightarrow> (if ioe_kind e = NotFound then (Inr None, w') else (Inl (Io e), w')))"

definition read_generation :: "config \<Rightarrow> u64 io" where
  "read_generation c =
     bind_io (runtime_read_optional_string (config_generation_path c)) (\<lambda>x.
       case x of
         None \<Rightarrow> return_io 0
       | Some text \<Rightarrow> lift_res (ok_or (parse_u64 (trim text)) MachineRecordInvalid))"

definition pin_bundle_signing_key :: "config \<Rightarrow> str option \<Rightarrow> bool io" where
  "pin_bundle_signing_key c key =
     (if cfg_bundle_signing_public_key c \<noteq> None then return_io False
      else case key of
             None \<Rightarrow> return_io False
           | Some k \<Rightarrow>
               bind_io (runtime_read_optional_string (config_bundle_signing_key_path c)) (\<lambda>x.
               if x \<noteq> None then return_io False
               else bind_io (secure_write (config_bundle_signing_key_path c) (utf8 (trim k @ [10])) MODE_PUBLIC) (\<lambda>_.
                    return_io True)))"

section \<open>Reading back what synchronisation wrote\<close>

lemma map_err_io_Inr: "map_err_io f m w = (Inr a, w') \<longleftrightarrow> m w = (Inr a, w')"
  by (auto simp: map_err_io_def split: prod.splits)

text \<open>The two modules read an optional string alike.\<close>

lemma runtime_read_eq: "runtime_read_optional_string p = read_optional_string p"
proof
  fix w
  show "runtime_read_optional_string p w = read_optional_string p w"
    by (auto simp: runtime_read_optional_string_def read_optional_string_def read_optional_def bind_io_def
        Let_def split: prod.splits sum.splits option.splits if_splits)
qed

lemma runtime_read_generation_Inr:
  assumes "honest w" and "read_generation c w = (Inr g, w')" and "cs_generation_path svc = config_generation_path c"
  shows "g = unwrap_or (stored_generation svc (fs w)) 0" and "fs w' = fs w"
proof -
  from assms(2) obtain x w1 where 1: "read_optional_string (config_generation_path c) w = (Inr x, w1)"
      and 2: "(case x of None \<Rightarrow> return_io 0
        | Some text \<Rightarrow> lift_res (ok_or (parse_u64 (trim text)) MachineRecordInvalid)) w1 = (Inr g, w')"
    by (auto simp: read_generation_def runtime_read_eq bind_io_Inr)
  note r = read_optional_string_Inr [OF assms(1) 1]
  show "fs w' = fs w" using r 2 by (auto split: option.splits)
  show "g = unwrap_or (stored_generation svc (fs w)) 0"
    using r 2 text_of_trim [of "fs w" "config_generation_path c"]
    by (auto simp: stored_generation_def assms(3) split: option.splits)
qed

lemma status_save_load:
  assumes "status_save enc st c w = (Inr (), w')"
    and "\<And>json. enc st = Inr json \<Longrightarrow> dec (json @ [10]) = Inr st"
    and "fs v (components (status_path c)) = fs w' (components (status_path c))" and "fault v (tick v) = None"
  shows "status_load dec c v = (Inr (Some st), advance v)"
proof -
  from assms(1) obtain json where json: "enc st = Inr json"
      and sw: "secure_write (status_path c) (json @ [10]) MODE_PUBLIC w = (Inr (), w')"
    by (cases "enc st") (auto simp: status_save_def bind_io_def)
  from secure_write_fs [OF sw] assms(3)
  have "fs v (components (status_path c)) = Some (NFile (json @ [10]) MODE_PUBLIC (euid w))" by simp
  with assms(2) [OF json] assms(4) show ?thesis by (simp add: status_load_def sys_read_ok)
qed

lemma status_save_keeps:
  assumes "\<And>json u. P (components (status_path c)) (Some (NFile json MODE_PUBLIC u))"
  shows "keeps P Q (status_save enc st c)"
  unfolding status_save_def by (intro keeps_bind keeps_lift secure_write_keeps assms)

section \<open>The state directory\<close>

definition dir_at :: "fsmap \<Rightarrow> fskey \<Rightarrow> bool" where
  "dir_at m k \<longleftrightarrow> (\<exists>mo u. stat_of m k = Inr (NDir mo u))"

lemma sys_mkdir_Inr: "sys_mkdir k mode uid w = (Inr (), w') \<Longrightarrow> dir_at (fs w') k"
  unfolding sys_mkdir_def
  by (elim sys_update_cases) (auto simp: dir_at_def stat_of_dir split: option.splits if_splits sum.splits node.splits)

lemma or_is_dir_Inr: "or_is_dir k e w = (Inr (), w') \<Longrightarrow> dir_at (fs w') k"
  by (auto simp: or_is_dir_def sys_is_dir_def sys_stat_def sys_query_def dir_at_def
      split: prod.splits if_splits sum.splits node.splits option.splits)

lemma create_dirs_Inr:
  "create_dirs dmode ks w = (Inr (), w') \<Longrightarrow> ks \<noteq> [] \<Longrightarrow> dir_at (fs w') (rev ks)"
  by (cases ks)
     (auto simp: Let_def split: prod.splits sum.splits if_splits dest: sys_mkdir_Inr or_is_dir_Inr)

lemma ensure_not_symlink_honest:
  assumes "honest w" and "ensure_not_symlink p w = (Inr (), w')"
  shows "fs w' = fs w" and "fs w (components p) \<noteq> Some (NLink t u)"
  using assms unfolding ensure_not_symlink_def is_symlink_def sys_lstat_def honest_def
  by (auto simp: sys_query_def elim!: bind_io_cases split: prod.splits if_splits sum.splits option.splits)

lemma dir_at_no_link:
  assumes "dir_at m k" and "\<And>t u. m k \<noteq> Some (NLink t u)"
  shows "\<exists>mo u. m k = Some (NDir mo u)" and "follow max_links m k = Some k"
proof -
  show f: "follow max_links m k = Some k"
    using assms(2) by (cases "m k") (auto simp: max_links_def numeral_eq_Suc split: node.splits)
  with assms(1) show "\<exists>mo u. m k = Some (NDir mo u)"
    by (cases "m k") (auto simp: dir_at_def stat_of_def)
qed

text \<open>Making a directory changes names no longer than its own.\<close>

definition short :: "nat \<Rightarrow> fskey \<Rightarrow> node option \<Rightarrow> bool" where
  "short n k v \<longleftrightarrow> length k \<le> n"

lemma mkdir_short: "length k \<le> n \<Longrightarrow> sys_mkdir k mode uid w = (r, w') \<Longrightarrow> confined (short n) Q w w'"
proof -
  assume "length k \<le> n" "sys_mkdir k mode uid w = (r, w')"
  moreover from this have "confined (short n) Q w (snd (sys_mkdir k mode uid w))"
    unfolding sys_mkdir_def
    by (intro sys_update_within)
       (auto simp: fs_change_def short_def split: option.splits if_splits sum.splits node.splits)
  ultimately show "confined (short n) Q w w'" by simp
qed

lemma or_is_dir_confined: "or_is_dir k e w = (r, w') \<Longrightarrow> confined P Q w w'"
  by (auto simp: or_is_dir_def sys_is_dir_def sys_stat_def sys_query_def split: prod.splits option.splits)

lemma create_dirs_confined:
  "length ks \<le> n \<Longrightarrow> create_dirs dmode ks w = (r, w') \<Longrightarrow> confined (short n) Q w w'"
proof (induction dmode ks w arbitrary: r w' rule: create_dirs.induct)
  case (2 dmode c up w)
  have len: "length (rev (c # up)) \<le> n" using "2.prems"(1) by simp
  obtain x w1 where m: "sys_mkdir (rev (c # up)) dmode (euid w) w = (x, w1)" by fastforce
  note e1 = mkdir_short [OF len m]
  show ?case
  proof (cases "\<exists>e. x = Inl e \<and> ioe_kind e = NotFound \<and> \<not> (up = [] \<and> c = RootDir)")
    case False
    with "2.prems"(2) m e1 show ?thesis
      by (auto simp: Let_def split: sum.splits if_splits dest: or_is_dir_confined intro: confined_trans)
  next
    case True
    then obtain e where x: "x = Inl e" "ioe_kind e = NotFound" "\<not> (up = [] \<and> c = RootDir)" by blast
    obtain y w2 where d: "create_dirs dmode up w1 = (y, w2)" by fastforce
    have e2: "confined (short n) Q w1 w2"
      using "2.IH" [OF refl m [symmetric] x(1) _ x(3) _ d] x(2) "2.prems"(1) by simp
    note e12 = confined_trans [OF e1 e2]
    obtain z w3 where m3: "sys_mkdir (rev (c # up)) dmode (euid w2) w2 = (z, w3)" by fastforce
    note e3 = confined_trans [OF e12 mkdir_short [OF len m3]]
    show ?thesis
      using "2.prems"(2) m x d m3 e12 e3
      by (auto simp: Let_def split: sum.splits if_splits dest: or_is_dir_confined intro: confined_trans)
  qed
qed simp

lemma create_dirs_env: "create_dirs dmode ks w = (r, w') \<Longrightarrow> same_env w w'"
  using confined_env [OF create_dirs_confined [OF order_refl]] .

text \<open>
  A start whose state directory is secured has it as a plain directory of mode 0700, also
  when some of its parents had to be made, and never behind a link.
\<close>

theorem ensure_state_dir_correct:
  assumes "honest w" and "components p \<noteq> []" and "ensure_state_dir dmode p w = (Inr (), w')"
  shows "\<exists>u. fs w' (components p) = Some (NDir MODE_DIR u)"
proof -
  let ?k = "components p"
  from assms(3) obtain w1 w2 where 1: "create_dirs dmode (rev ?k) w = (Inr (), w1)"
      and 2: "ensure_not_symlink p w1 = (Inr (), w2)" and 3: "sys_set_permissions ?k MODE_DIR w2 = (Inr (), w')"
    by (auto simp: ensure_state_dir_def bind_io_Inr map_err_io_Inr create_dir_all_def)
  have "dir_at (fs w1) ?k" using create_dirs_Inr [OF 1] assms(2) by simp
  moreover have "honest w1" using honest_env [OF assms(1) create_dirs_env [OF 1]] .
  note link = ensure_not_symlink_honest [OF this 2]
  ultimately have "dir_at (fs w2) ?k" "\<And>t u. fs w2 ?k \<noteq> Some (NLink t u)" by simp_all
  from dir_at_no_link [OF this] obtain mo u where d: "fs w2 ?k = Some (NDir mo u)" "follow max_links (fs w2) ?k = Some ?k"
    by blast
  show ?thesis
    using 3 unfolding sys_set_permissions_def
    by (elim sys_update_cases) (use d in \<open>auto simp: chmod_node_def\<close>)
qed

lemma quiet_honest [simp]: "honest (quiet_world m)"
  by (simp add: honest_def)

theorem ensure_state_dir_correct_witness:
  "\<exists>u. fs (snd (ensure_state_dir 0x1ED (lit ''/s/t'') (quiet_world [[RootDir] \<mapsto> NDir 0x1ED 0])))
     [RootDir, Normal (lit ''s''), Normal (lit ''t'')] = Some (NDir MODE_DIR u)"
proof -
  let ?w = "quiet_world [[RootDir] \<mapsto> NDir 0x1ED 0]"
  have c: "components (lit ''/s/t'') = [RootDir, Normal (lit ''s''), Normal (lit ''t'')]"
    by (simp add: components_def segment_component_def lit_def)
  have "fst (ensure_state_dir 0x1ED (lit ''/s/t'') ?w) = Inr ()"
    by (simp add: Let_def ensure_state_dir_def c create_dir_all_def bind_io_def map_err_io_def sys_mkdir_def sys_update_def
        stat_of_def max_links_def numeral_eq_Suc ensure_not_symlink_def is_symlink_def sys_lstat_def sys_query_def
        sys_set_permissions_def os_err_def)
  then have "ensure_state_dir 0x1ED (lit ''/s/t'') ?w = (Inr (), snd (ensure_state_dir 0x1ED (lit ''/s/t'') ?w))"
    by (metis prod.collapse)
  from ensure_state_dir_correct [OF _ _ this] show ?thesis by (simp add: c)
qed

section \<open>The pin of an enrollment\<close>

text \<open>
  Pinning is exact: the key of an enrollment response is written exactly when the operator
  configured no key, the server sent one and no pin is stored yet; otherwise nothing changes.
  An established pin is never replaced.
\<close>

theorem pin_bundle_signing_key_correct:
  assumes "honest w" and "pin_bundle_signing_key c key w = (Inr b, w')"
  shows "b = (cfg_bundle_signing_public_key c = None \<and> key \<noteq> None
            \<and> text_of (fs w) (config_bundle_signing_key_path c) = None)
    \<and> fs w' = (if b then (fs w)(components (config_bundle_signing_key_path c)
                  \<mapsto> NFile (utf8 (trim (the key) @ [10])) MODE_PUBLIC (euid w)) else fs w)"
proof (cases "cfg_bundle_signing_public_key c = None \<and> key \<noteq> None")
  case False
  with assms(2) show ?thesis by (auto simp: pin_bundle_signing_key_def split: if_splits option.splits)
next
  case True
  then obtain k where k: "key = Some k" by blast
  let ?p = "config_bundle_signing_key_path c"
  from assms(2) True k obtain x w1 where 1: "read_optional_string ?p w = (Inr x, w1)"
      and 2: "(if x \<noteq> None then return_io False
        else bind_io (secure_write ?p (utf8 (trim k @ [10])) MODE_PUBLIC) (\<lambda>_. return_io True)) w1 = (Inr b, w')"
    by (auto simp: pin_bundle_signing_key_def runtime_read_eq bind_io_Inr)
  note r = read_optional_string_Inr [OF assms(1) 1]
  then have "euid w1 = euid w" by (simp add: same_env_def)
  with r 2 True k show ?thesis
    by (auto simp: bind_io_Inr split: if_splits dest: secure_write_fs)
qed

theorem pin_bundle_signing_key_correct_witness:
  "\<exists>w'. pin_bundle_signing_key
      (config_of_raw \<lparr>rc_server_url = [], rc_machine_id = [], rc_heartbeat_interval = None, rc_sync_interval = None,
         rc_trusted_ca_path = None, rc_sshd_config_path = None, rc_state_dir = None, rc_identity_dir = None,
         rc_helper_socket_path = None, rc_helper_token_path = None, rc_bundle_signing_public_key = Some sample_key,
         rc_poll_jitter_ratio = None, rc_log_level = None, rc_log_format = None, rc_allow_insecure_tls = None,
         rc_tls_ca_path = None\<rparr>) (Some sample_key) (quiet_world Map.empty) = (Inr False, w')
    \<and> fs w' = Map.empty"
  (is "\<exists>w'. pin_bundle_signing_key ?c ?k ?w = (Inr False, w') \<and> _")
proof -
  have run: "pin_bundle_signing_key ?c ?k ?w = (Inr False, ?w)"
    by (simp add: pin_bundle_signing_key_def config_of_raw_def)
  from pin_bundle_signing_key_correct [OF _ run] run show ?thesis by simp
qed

end
