(* ===== verification/Linux.thy ===== *)
theory Linux
  imports World
begin

text \<open>
  \<open>src/platform/linux.rs\<close> and \<open>src/platform/systemd.rs\<close>: read-only facts about the host. What the
  kernel and the compiler answer is a record; the UDP probe is the three calls of the source.
\<close>

section \<open>Definitions\<close>

record host_env =
  he_os :: str
  he_arch :: str
  he_version :: str
  he_nodename :: bytes
  he_release :: bytes
  he_udp_bind :: bool
  he_udp_connect :: bool
  he_local_addr :: "(bool \<times> str) option"

record host_facts =
  hf_hostname :: str
  hf_os :: str
  hf_kernel :: str
  hf_arch :: str
  hf_ip :: str

text \<open>
  \<open>CStr::to_string_lossy\<close>: what is not UTF-8 becomes U+FFFD, one for every maximal
  beginning of a character.
\<close>

definition REPLACEMENT :: rchar where
  "REPLACEMENT = 0xFFFD"

definition second_ok :: "u8 \<Rightarrow> u8 \<Rightarrow> bool" where
  "second_ok a b \<longleftrightarrow> is_cont b \<and> 0xE0 \<le> unat a \<and> unat a \<le> 0xF4
     \<and> (unat a = 0xE0 \<longrightarrow> 0xA0 \<le> unat b) \<and> (unat a = 0xED \<longrightarrow> unat b \<le> 0x9F)
     \<and> (unat a = 0xF0 \<longrightarrow> 0x90 \<le> unat b) \<and> (unat a = 0xF4 \<longrightarrow> unat b \<le> 0x8F)"

fun invalid_len :: "bytes \<Rightarrow> nat" where
  "invalid_len (a # b # d # r) =
     (if \<not> second_ok a b then 1 else if 0xF0 \<le> unat a \<and> is_cont d then 3 else 2)"
| "invalid_len [a, b] = (if second_ok a b then 2 else 1)"
| "invalid_len _ = 1"

definition first_char :: "bytes \<Rightarrow> (rchar \<times> nat) option" where
  "first_char bs =
     (case List.find (\<lambda>n. n \<le> length bs \<and> from_utf8 (take n bs) \<noteq> None) [1, 2, 3, 4] of
        None \<Rightarrow> None
      | Some n \<Rightarrow> (case from_utf8 (take n bs) of Some [c] \<Rightarrow> Some (c, n) | _ \<Rightarrow> None))"

lemma invalid_len_pos [simp]: "0 < invalid_len bs"
  by (induction bs rule: invalid_len.induct) auto

lemma first_char_pos: "first_char bs = Some (c, n) \<Longrightarrow> 0 < n"
  by (auto simp: first_char_def split: option.splits list.splits if_splits)

function from_utf8_lossy :: "bytes \<Rightarrow> str" where
  "from_utf8_lossy bs =
     (if bs = [] then []
      else case first_char bs of
             Some (c, n) \<Rightarrow> c # from_utf8_lossy (drop n bs)
           | None \<Rightarrow> REPLACEMENT # from_utf8_lossy (drop (invalid_len bs) bs))"
  by pat_completeness auto

termination
  by (relation "measure length") (auto dest: first_char_pos)

declare from_utf8_lossy.simps [simp del]

definition cstr_to_string :: "bytes \<Rightarrow> str" where
  "cstr_to_string value = from_utf8_lossy value"

definition local_ip :: "host_env \<Rightarrow> str option" where
  "local_ip env =
     (if \<not> he_udp_bind env then None
      else if \<not> he_udp_connect env then None
      else case he_local_addr env of
             None \<Rightarrow> None
           | Some (unspecified, ip) \<Rightarrow> if unspecified then None else Some ip)"

definition gather_host_facts :: "host_env \<Rightarrow> host_facts" where
  "gather_host_facts env =
     \<lparr>hf_hostname = cstr_to_string (he_nodename env), hf_os = he_os env,
      hf_kernel = cstr_to_string (he_release env), hf_arch = he_arch env,
      hf_ip = unwrap_or (local_ip env) (lit ''0.0.0.0'')\<rparr>"

definition effective_uid :: "world \<Rightarrow> u32" where
  "effective_uid w = euid w"

definition validate_root :: "world \<Rightarrow> unit res" where
  "validate_root w = (let euid = effective_uid w in if euid = 0 then Inr () else Inl NotRoot)"

definition SYSTEMD_RUNTIME_MARKER :: path where
  "SYSTEMD_RUNTIME_MARKER = lit ''/run/systemd/system''"

definition is_systemd :: "world \<Rightarrow> bool \<times> world" where
  "is_systemd w = sys_is_dir (components SYSTEMD_RUNTIME_MARKER) w"

section \<open>Properties\<close>

text \<open>A name of ASCII characters is reported as it is.\<close>

lemma from_utf8_lossy_ascii: "\<forall>b \<in> set bs. unat b < 128 \<Longrightarrow> from_utf8_lossy bs = map unat bs"
proof (induction bs)
  case (Cons b bs)
  then have "first_char (b # bs) = Some (unat b, 1)" by (simp add: first_char_def)
  with Cons show ?case by (subst from_utf8_lossy.simps) simp
qed (simp add: from_utf8_lossy.simps)

lemma validate_root_iff: "validate_root w = Inr () \<longleftrightarrow> euid w = 0"
  by (simp add: validate_root_def effective_uid_def)

lemma is_systemd_frame: "is_systemd w = (b, w') \<Longrightarrow> fs w' = fs w \<and> trace w' = trace w \<and> same_env w w'"
  by (auto simp: is_systemd_def sys_is_dir_def sys_stat_def sys_query_def same_env_def
      split: prod.splits option.splits)

end
