(* ===== verification/Sshd_Config.thy ===== *)
theory Sshd_Config
  imports Errors
begin

text \<open>
  \<open>src/ssh/sshd_config.rs\<close>: does the main sshd configuration include the drop-in
  directory? The two nested loops of the source are the two recursive functions.
\<close>

section \<open>Definitions\<close>

definition DROPIN_DIR :: str where
  "DROPIN_DIR = lit ''/etc/ssh/sshd_config.d''"

definition pattern_dir :: "str \<Rightarrow> str" where
  "pattern_dir pattern = unwrap_or (map_option fst (rsplit_once 47 pattern)) pattern"

fun any_pattern :: "str \<Rightarrow> str list \<Rightarrow> bool" where
  "any_pattern needle [] = False"
| "any_pattern needle (pattern # rest) =
     (if trim_end_matches 47 (pattern_dir pattern) = needle then True else any_pattern needle rest)"

fun scan_lines :: "str \<Rightarrow> str list \<Rightarrow> bool" where
  "scan_lines needle [] = False"
| "scan_lines needle (line # rest) =
     (let trimmed = trim line
      in if trimmed = [] \<or> hd trimmed = 35 then scan_lines needle rest
         else (case split_once is_whitespace trimmed of
                 None \<Rightarrow> scan_lines needle rest
               | Some (keyword, args) \<Rightarrow>
                   if \<not> eq_ignore_ascii_case keyword (lit ''Include'') then scan_lines needle rest
                   else if any_pattern needle (split_whitespace args) then True
                   else scan_lines needle rest))"

definition includes_dropin_dir :: "str \<Rightarrow> str \<Rightarrow> bool" where
  "includes_dropin_dir config_text dropin_dir =
     scan_lines (trim_end_matches 47 dropin_dir) (lines config_text)"

section \<open>The directives that count\<close>

text \<open>
  An \<open>Include\<close> directive for a directory: the keyword in any case, white space, and among
  the arguments a pattern whose directory part is that directory, up to trailing slashes.
\<close>

definition include_of :: "str \<Rightarrow> str \<Rightarrow> bool" where
  "include_of dir line \<longleftrightarrow> (\<exists>kw w args pat. trim line = kw @ w # args
     \<and> (\<forall>c \<in> set kw. \<not> is_whitespace c) \<and> is_whitespace w
     \<and> to_ascii_lowercase kw = lit ''include'' \<and> pat \<in> set (split_whitespace args)
     \<and> trim_end_matches 47 (pattern_dir pat) = trim_end_matches 47 dir)"

lemma split_once_Some:
  "split_once p s = Some (a, b) \<longleftrightarrow> (\<exists>c. s = a @ c # b \<and> p c \<and> (\<forall>x \<in> set a. \<not> p x))"
proof (induction s arbitrary: a)
  case (Cons y s)
  show ?case
  proof (cases "p y")
    case True
    then show ?thesis by (cases a) auto
  next
    case False
    with Cons show ?thesis by (cases a) auto
  qed
qed simp

text \<open>The directory part of a pattern is what stands before its last slash.\<close>

lemma pattern_dir_slash:
  assumes "47 \<notin> set f"
  shows "pattern_dir (d @ 47 # f) = d"
proof -
  have "split_once ((=) 47) (rev (d @ 47 # f)) = Some (rev f, rev d)"
    unfolding split_once_Some using assms by auto
  then show ?thesis by (simp add: pattern_dir_def rsplit_once_def)
qed

lemma any_pattern_iff:
  "any_pattern needle ps \<longleftrightarrow> (\<exists>p \<in> set ps. trim_end_matches 47 (pattern_dir p) = needle)"
  by (induction ps) auto

lemma lower_Include: "to_ascii_lowercase (lit ''Include'') = lit ''include''"
  by (simp add: to_ascii_lowercase_def lit_def to_ascii_lower_def)

lemma include_hd:
  assumes "trim line = kw @ w # args" and "to_ascii_lowercase kw = lit ''include''"
  shows "trim line \<noteq> [] \<and> hd (trim line) \<noteq> 35"
  using assms by (cases kw) (auto simp: to_ascii_lowercase_def lit_def to_ascii_lower_def split: if_splits)

lemma include_of_alt:
  "include_of dir line \<longleftrightarrow> (case split_once is_whitespace (trim line) of
      None \<Rightarrow> False
    | Some (kw, args) \<Rightarrow> eq_ignore_ascii_case kw (lit ''Include'')
        \<and> any_pattern (trim_end_matches 47 dir) (split_whitespace args))"
proof (cases "split_once is_whitespace (trim line)")
  case None
  then have "\<not> (\<exists>w. trim line = kw @ w # args \<and> is_whitespace w \<and> (\<forall>c \<in> set kw. \<not> is_whitespace c))"
    for kw args using split_once_Some [of is_whitespace "trim line" kw args] by auto
  with None show ?thesis unfolding include_of_def by auto
next
  case (Some p)
  obtain kw args where p: "p = (kw, args)" by fastforce
  then have "split_once is_whitespace (trim line) = Some (kw', args') \<longleftrightarrow> kw' = kw \<and> args' = args" for kw' args'
    using Some by auto
  then have at: "(\<exists>w. trim line = kw' @ w # args' \<and> is_whitespace w \<and> (\<forall>c \<in> set kw'. \<not> is_whitespace c))
      \<longleftrightarrow> kw' = kw \<and> args' = args" for kw' args'
    unfolding split_once_Some .
  then have "include_of dir line \<longleftrightarrow> to_ascii_lowercase kw = lit ''include''
      \<and> (\<exists>pat \<in> set (split_whitespace args). trim_end_matches 47 (pattern_dir pat) = trim_end_matches 47 dir)"
    unfolding include_of_def using at [of kw args] at by metis
  then show ?thesis
    using Some p by (simp add: any_pattern_iff eq_ignore_ascii_case_def lower_Include)
qed

lemma scan_lines_iff:
  "scan_lines (trim_end_matches 47 dir) ls \<longleftrightarrow> (\<exists>line \<in> set ls. include_of dir line)"
proof (induction ls)
  case (Cons l ls)
  have "\<not> include_of dir l" if "trim l = [] \<or> hd (trim l) = 35"
    using that include_hd unfolding include_of_def by blast
  with Cons show ?case
    by (auto simp: Let_def include_of_alt split: option.splits)
qed simp

text \<open>
  The check answers yes exactly when some line of the configuration is an \<open>Include\<close>
  directive for the drop-in directory; comments, blank lines and other keywords never count.
\<close>

theorem includes_dropin_dir_correct:
  "includes_dropin_dir config_text dropin_dir \<longleftrightarrow>
     (\<exists>line \<in> set (lines config_text). include_of dropin_dir line)"
  by (simp add: includes_dropin_dir_def scan_lines_iff)

end
