(* ===== verification/Validation.thy ===== *)
theory Validation
  imports Ipc_Client Config Linux Sshd_Config
begin

text \<open>
  \<open>src/service/validation.rs\<close>: the checks before the daemon starts. Each check is its own
  function; logging a report is not modelled, turning it into a result is.
\<close>

section \<open>Definitions\<close>

datatype severity = SevOk | SevWarn | SevFail

record startup_check =
  ck_name :: string
  ck_severity :: severity
  ck_detail :: "string option"

definition ck_ok :: "string \<Rightarrow> startup_check" where
  "ck_ok name = \<lparr>ck_name = name, ck_severity = SevOk, ck_detail = None\<rparr>"

definition ck_warn :: "string \<Rightarrow> string \<Rightarrow> startup_check" where
  "ck_warn name detail = \<lparr>ck_name = name, ck_severity = SevWarn, ck_detail = Some detail\<rparr>"

definition ck_fail :: "string \<Rightarrow> string \<Rightarrow> startup_check" where
  "ck_fail name detail = \<lparr>ck_name = name, ck_severity = SevFail, ck_detail = Some detail\<rparr>"

record validation_report =
  rep_checks :: "startup_check list"

definition has_failures :: "validation_report \<Rightarrow> bool" where
  "has_failures r \<longleftrightarrow> list_ex (\<lambda>c. ck_severity c = SevFail) (rep_checks r)"

fun join_names :: "string list \<Rightarrow> string" where
  "join_names [] = []"
| "join_names [n] = n"
| "join_names (n # m # ns) = n @ '', '' @ join_names (m # ns)"

definition into_result :: "validation_report \<Rightarrow> unit res" where
  "into_result r =
     (let failed = map ck_name (filter (\<lambda>c. ck_severity c = SevFail) (rep_checks r))
      in if failed = [] then Inr ()
         else Inl (config_invalid (lit (''startup validation failed: '' @ join_names failed))))"

definition dir_check :: "string \<Rightarrow> path \<Rightarrow> severity \<Rightarrow> string \<Rightarrow> world \<Rightarrow> startup_check \<times> world" where
  "dir_check name p missing detail w =
     (case sys_is_dir (components p) w of (b, w') \<Rightarrow>
        (if b then ck_ok name else \<lparr>ck_name = name, ck_severity = missing, ck_detail = Some detail\<rparr>, w'))"

definition read_nonempty :: "path \<Rightarrow> bool io" where
  "read_nonempty p w =
     (case sys_read_to_string (components p) w of
        (Inr text, w') \<Rightarrow> (Inr (trim text \<noteq> []), w')
      | (Inl e, w') \<Rightarrow> (if ioe_kind e = NotFound then (Inr False, w') else (Inl (Io e), w')))"

definition helper_token_check :: "config \<Rightarrow> world \<Rightarrow> startup_check \<times> world" where
  "helper_token_check c w =
     (case read_nonempty (cfg_helper_token_path c) w of
        (Inr True, w') \<Rightarrow> (ck_ok ''helper_token'', w')
      | (Inr False, w') \<Rightarrow> (ck_warn ''helper_token'' ''helper token file is empty'', w')
      | (Inl _, w') \<Rightarrow> (ck_warn ''helper_token'' ''helper token file is unreadable'', w'))"

definition helper_check ::
    "(ipc_request \<Rightarrow> bytes option) \<Rightarrow> (bytes \<Rightarrow> ipc_response option) \<Rightarrow> config
     \<Rightarrow> world \<Rightarrow> startup_check \<times> world" where
  "helper_check hreq hresp c w =
     (case from_paths (cfg_helper_socket_path c) (cfg_helper_token_path c) w of
        (Inl _, w') \<Rightarrow> (ck_warn ''helper'' ''helper token unavailable'', w')
      | (Inr client, w') \<Rightarrow>
          (case helper_ping hreq hresp client w' of
             (Inr _, w'') \<Rightarrow> (ck_ok ''helper'', w'')
           | (Inl _, w'') \<Rightarrow> (ck_warn ''helper'' ''helper is not reachable'', w'')))"

definition systemd_check :: "world \<Rightarrow> startup_check \<times> world" where
  "systemd_check w =
     (case is_systemd w of (b, w') \<Rightarrow>
        (if b then ck_ok ''systemd'' else ck_warn ''systemd'' ''host is not systemd-managed'', w'))"

definition SSHD_CONFIG :: path where
  "SSHD_CONFIG = lit ''/etc/ssh/sshd_config''"

definition ssh_compat_check :: "world \<Rightarrow> startup_check \<times> world" where
  "ssh_compat_check w =
     (case sys_read_to_string (components SSHD_CONFIG) w of
        (Inr text, w') \<Rightarrow>
          (if includes_dropin_dir text DROPIN_DIR then ck_ok ''ssh_compatibility''
           else ck_warn ''ssh_compatibility'' ''sshd_config does not Include the drop-in directory'', w')
      | (Inl _, w') \<Rightarrow> (ck_warn ''ssh_compatibility'' ''sshd_config is unreadable'', w'))"

definition configuration_check :: "libs \<Rightarrow> config \<Rightarrow> startup_check" where
  "configuration_check L c =
     (case config_validate L c of
        Inr _ \<Rightarrow> ck_ok ''configuration''
      | Inl _ \<Rightarrow> ck_fail ''configuration'' ''configuration is invalid'')"

definition validate_startup ::
    "libs \<Rightarrow> (ipc_request \<Rightarrow> bytes option) \<Rightarrow> (bytes \<Rightarrow> ipc_response option) \<Rightarrow> config
     \<Rightarrow> world \<Rightarrow> validation_report \<times> world" where
  "validate_startup L hreq hresp c w0 =
     (case dir_check ''identity'' (cfg_identity_dir c) SevFail ''identity directory is missing'' w0 of
        (c_identity, w1) \<Rightarrow>
      case dir_check ''state_dir'' (cfg_state_dir c) SevWarn ''state directory is missing'' w1 of
        (c_state, w2) \<Rightarrow>
      case helper_token_check c w2 of (c_token, w3) \<Rightarrow>
      case helper_check hreq hresp c w3 of (c_helper, w4) \<Rightarrow>
      case systemd_check w4 of (c_systemd, w5) \<Rightarrow>
      case ssh_compat_check w5 of (c_ssh, w6) \<Rightarrow>
        (\<lparr>rep_checks = [configuration_check L c, c_identity, c_state, c_token, c_helper, c_systemd, c_ssh]\<rparr>, w6))"

section \<open>What aborts a start\<close>

lemma into_result_iff: "into_result r = Inr () \<longleftrightarrow> \<not> has_failures r"
  by (auto simp: into_result_def has_failures_def Let_def filter_empty_conv list_ex_iff)

lemma dir_check_cases:
  "dir_check n p s d w = (ck, w') \<Longrightarrow> ck = (if fst (sys_is_dir (components p) w) then ck_ok n
      else \<lparr>ck_name = n, ck_severity = s, ck_detail = Some d\<rparr>)"
  by (auto simp: dir_check_def split: prod.splits)

lemma survivable:
  "helper_token_check c w = (ck, w') \<Longrightarrow> ck_severity ck \<noteq> SevFail"
  "helper_check hreq hresp c w = (ck, w') \<Longrightarrow> ck_severity ck \<noteq> SevFail"
  "systemd_check w = (ck, w') \<Longrightarrow> ck_severity ck \<noteq> SevFail"
  "ssh_compat_check w = (ck, w') \<Longrightarrow> ck_severity ck \<noteq> SevFail"
  by (auto simp: helper_token_check_def helper_check_def systemd_check_def ssh_compat_check_def ck_ok_def ck_warn_def
      split: prod.splits sum.splits bool.splits if_splits)

lemma startup_result:
  "into_result (fst (validate_startup L hreq hresp c w)) =
     (let bad = (if good_config L c then [] else [''configuration''])
            @ (if fst (sys_is_dir (components (cfg_identity_dir c)) w) then [] else [''identity''])
      in if bad = [] then Inr ()
         else Inl (ConfigInvalid (lit (''startup validation failed: '' @ join_names bad))))"
proof -
  obtain c_identity w1 where 1: "dir_check ''identity'' (cfg_identity_dir c) SevFail ''identity directory is missing'' w = (c_identity, w1)"
    by fastforce
  obtain c_state w2 where 2: "dir_check ''state_dir'' (cfg_state_dir c) SevWarn ''state directory is missing'' w1 = (c_state, w2)"
    by fastforce
  obtain c_token w3 where 3: "helper_token_check c w2 = (c_token, w3)" by fastforce
  obtain c_helper w4 where 4: "helper_check hreq hresp c w3 = (c_helper, w4)" by fastforce
  obtain c_systemd w5 where 5: "systemd_check w4 = (c_systemd, w5)" by fastforce
  obtain c_ssh w6 where 6: "ssh_compat_check w5 = (c_ssh, w6)" by fastforce
  have cfg: "configuration_check L c = (if good_config L c then ck_ok ''configuration''
      else ck_fail ''configuration'' ''configuration is invalid'')"
    using good_config_iff [of L c] by (auto simp: configuration_check_def split: sum.splits)
  have "ck_severity c_state \<noteq> SevFail" using dir_check_cases [OF 2] by (simp add: ck_ok_def)
  with 1 2 3 4 5 6 cfg dir_check_cases [OF 1] survivable(1) [OF 3] survivable(2) [OF 4] survivable(3) [OF 5]
    survivable(4) [OF 6]
  show ?thesis
    by (simp add: validate_startup_def into_result_def ck_ok_def ck_fail_def config_invalid_def)
qed

lemma keeps_is_dir: "sys_is_dir k w = (b, w') \<Longrightarrow> confined P Q w w'"
  by (auto simp: sys_is_dir_def sys_stat_def sys_query_def split: prod.splits option.splits)

text \<open>The checks write no file; to the outside they send at most one ping.\<close>

definition ping_sends :: "(ipc_request \<Rightarrow> bytes option) \<Rightarrow> config \<Rightarrow> event \<Rightarrow> bool" where
  "ping_sends hreq c e \<longleftrightarrow> (\<exists>token. frame_sent hreq (cfg_helper_socket_path c) (request_new token Ping) e)"

lemma helper_check_confined:
  assumes "helper_check hreq hresp c w = (ck, w')"
  shows "confined (\<lambda>_ _. False) (ping_sends hreq c) w w'"
proof -
  obtain x w1 where fp: "from_paths (cfg_helper_socket_path c) (cfg_helper_token_path c) w = (x, w1)" by fastforce
  have 1: "confined (\<lambda>_ _. False) (ping_sends hreq c) w w1" using keepsD [OF from_paths_keeps fp] .
  show ?thesis
  proof (cases x)
    case (Inl e)
    with assms fp 1 show ?thesis by (simp add: helper_check_def)
  next
    case (Inr client)
    then have s: "hc_socket_path client = cfg_helper_socket_path c"
      using fp by (auto simp: from_paths_def helper_client_new_def bind_io_Inr)
    have "keeps (\<lambda>_ _. False) (ping_sends hreq c) (helper_call hreq hresp client (request_new (hc_token client) Ping))"
      by (rule keeps_mono [OF helper_call_keeps]) (auto simp: ping_sends_def s)
    then have "keeps (\<lambda>_ _. False) (ping_sends hreq c) (helper_ping hreq hresp client)"
      unfolding helper_ping_def by (intro keeps_bind keeps_lift)
    from keepsD [OF this] assms fp Inr have "confined (\<lambda>_ _. False) (ping_sends hreq c) w1 w'"
      by (auto simp: helper_check_def split: prod.splits sum.splits)
    with 1 show ?thesis by (rule confined_trans)
  qed
qed

lemma validate_startup_confined:
  assumes "validate_startup L hreq hresp c w = (rep, w')"
  shows "confined (\<lambda>_ _. False) (ping_sends hreq c) w w'"
proof -
  let ?C = "confined (\<lambda>_ _. False) (ping_sends hreq c)"
  have rd: "?C v v'" if "sys_read_to_string k v = (x, v')" for k v x v'
    using keepsD [OF keeps_read(2) that] .
  have dir: "?C v v'" if "dir_check n p s d v = (ck, v')" for n p s d v ck v'
    using that by (auto simp: dir_check_def split: prod.splits intro: keeps_is_dir)
  have tok: "?C v v'" if "helper_token_check c v = (ck, v')" for v ck v'
    using that by (auto simp: helper_token_check_def read_nonempty_def split: prod.splits sum.splits bool.splits if_splits
        dest!: rd)
  have sysd: "?C v v'" if "systemd_check v = (ck, v')" for v ck v'
    using that by (auto simp: systemd_check_def is_systemd_def split: prod.splits intro: keeps_is_dir)
  have ssh: "?C v v'" if "ssh_compat_check v = (ck, v')" for v ck v'
    using that by (auto simp: ssh_compat_check_def split: prod.splits sum.splits dest!: rd)
  from assms obtain a b c' d e f w1 w2 w3 w4 w5 where
      "dir_check ''identity'' (cfg_identity_dir c) SevFail ''identity directory is missing'' w = (a, w1)"
      "dir_check ''state_dir'' (cfg_state_dir c) SevWarn ''state directory is missing'' w1 = (b, w2)"
      "helper_token_check c w2 = (c', w3)" "helper_check hreq hresp c w3 = (d, w4)"
      "systemd_check w4 = (e, w5)" "ssh_compat_check w5 = (f, w')"
    by (auto simp: validate_startup_def split: prod.splits)
  note steps = this
  from confined_trans [OF dir [OF steps(1)] confined_trans [OF dir [OF steps(2)] confined_trans [OF tok [OF steps(3)]
      confined_trans [OF helper_check_confined [OF steps(4)] confined_trans [OF sysd [OF steps(5)] ssh [OF steps(6)]]]]]]
  show ?thesis .
qed

text \<open>
  C9. A start is aborted exactly for an invalid configuration or an identity directory that is not seen
  as a directory; a missing state directory, helper, token, systemd or sshd set-up never aborts it.
  The error lists the failed checks in order and nothing else, so it holds no path. The checks
  are read-only: at no moment is a file changed (temporary ones aside), and all that is sent are
  ping frames to the helper's socket.
\<close>

theorem startup_validation_correct:
  assumes "validate_startup L hreq hresp c w = (rep, w')"
  shows "into_result rep =
     (let bad = (if good_config L c then [] else [''configuration''])
            @ (if fst (sys_is_dir (components (cfg_identity_dir c)) w) then [] else [''identity''])
      in if bad = [] then Inr ()
         else Inl (ConfigInvalid (lit (''startup validation failed: '' @ join_names bad))))
    \<and> (\<exists>es. trace w' = trace w @ es \<and> (\<forall>e \<in> set es. case e of
         FsNow m \<Rightarrow> (\<forall>k. \<not> is_tmp k \<longrightarrow> m k = fs w k)
       | _ \<Rightarrow> (\<exists>token. frame_sent hreq (cfg_helper_socket_path c) (request_new token Ping) e)))"
proof -
  from validate_startup_confined [OF assms] obtain es where "trace w' = trace w @ es"
      "\<forall>e \<in> set es. event_ok (\<lambda>_ _. False) (ping_sends hreq c) (fs w) e" by (auto simp: confined_def)
  moreover have "case e of FsNow m \<Rightarrow> (\<forall>k. \<not> is_tmp k \<longrightarrow> m k = fs w k)
       | _ \<Rightarrow> (\<exists>token. frame_sent hreq (cfg_helper_socket_path c) (request_new token Ping) e)"
    if "event_ok (\<lambda>_ _. False) (ping_sends hreq c) (fs w) e" for e
    using that by (cases e) (auto simp: event_ok_def fs_change_def ping_sends_def)
  ultimately show ?thesis using startup_result [of L hreq hresp c w] assms by (auto simp: Let_def)
qed

theorem startup_validation_correct_witness:
  "\<exists>rep w'. validate_startup sample_libs (\<lambda>_. None) (\<lambda>_. None)
       (config_of_raw \<lparr>rc_server_url = [], rc_machine_id = [], rc_heartbeat_interval = None, rc_sync_interval = None,
         rc_trusted_ca_path = None, rc_sshd_config_path = None, rc_state_dir = None, rc_identity_dir = None,
         rc_helper_socket_path = None, rc_helper_token_path = None, rc_bundle_signing_public_key = None,
         rc_poll_jitter_ratio = None, rc_log_level = None, rc_log_format = None, rc_allow_insecure_tls = None,
         rc_tls_ca_path = None\<rparr>) (quiet_world Map.empty) = (rep, w')
     \<and> into_result rep = Inl (ConfigInvalid (lit ''startup validation failed: configuration, identity''))"
  (is "\<exists>rep w'. validate_startup ?L ?e ?d ?c ?w = _ \<and> _")
proof -
  obtain rep w' where run: "validate_startup ?L ?e ?d ?c ?w = (rep, w')" by fastforce
  have "\<not> good_config ?L ?c"
    by (simp add: good_config_def good_url_def config_of_raw_def lit_def)
  moreover have "\<not> fst (sys_is_dir k ?w)" for k
    by (simp add: sys_is_dir_def sys_stat_def sys_query_def stat_of_def quiet_world_def max_links_def numeral_eq_Suc)
  moreover note startup_validation_correct [OF run]
  ultimately have "into_result rep = Inl (ConfigInvalid (lit (''startup validation failed: '' @ join_names [''configuration'', ''identity''])))"
    by (simp add: Let_def)
  with run show ?thesis by simp
qed

end
