(* ===== verification/Enrollment.thy ===== *)
theory Enrollment
  imports Machine Linux
begin

text \<open>
  \<open>src/identity/enrollment.rs\<close>: the checks of everything that goes into an enrollment or comes
  back from the server, the service that owns the machine's key files and record, and the
  deterministic client of the tests. The transport is the trait \<open>MayflyApiClient\<close>: a function
  from a request and the client's own state, with the locale \<open>api_client\<close> as its contract.
\<close>

section \<open>Definitions\<close>

definition TOKEN_PREFIX :: str where
  "TOKEN_PREFIX = lit ''mf_enroll_''"

definition PRIVATE_KEY_FILE :: str where
  "PRIVATE_KEY_FILE = lit ''machine_ed25519''"

definition PUBLIC_KEY_FILE :: str where
  "PUBLIC_KEY_FILE = lit ''machine_ed25519.pub''"

definition MACHINE_RECORD_FILE :: str where
  "MACHINE_RECORD_FILE = lit ''machine.json''"

definition MAX_TOKEN_LEN :: nat where
  "MAX_TOKEN_LEN = 256"

definition MAX_HOSTNAME_LEN :: nat where
  "MAX_HOSTNAME_LEN = 253"

definition MAX_LABEL_LEN :: nat where
  "MAX_LABEL_LEN = 63"

definition MAX_MACHINE_ID_LEN :: nat where
  "MAX_MACHINE_ID_LEN = 128"

definition MIN_INTERVAL_SECS :: u64 where
  "MIN_INTERVAL_SECS = 1"

definition MAX_INTERVAL_SECS :: u64 where
  "MAX_INTERVAL_SECS = 86400"

record enrollment_request =
  er_enrollment_token :: str
  er_hostname :: str
  er_os :: str
  er_arch :: str
  er_agent_version :: str
  er_public_key :: str

text \<open>The fields \<open>Debug\<close> prints, by name.\<close>

definition request_debug :: "enrollment_request \<Rightarrow> (str \<times> str) list" where
  "request_debug rq =
     [(lit ''enrollment_token'', lit ''<redacted>''), (lit ''hostname'', er_hostname rq), (lit ''os'', er_os rq),
      (lit ''arch'', er_arch rq), (lit ''agent_version'', er_agent_version rq),
      (lit ''public_key'', er_public_key rq)]"

record enrollment_response =
  en_machine_id :: str
  en_heartbeat_interval :: u64
  en_sync_interval :: u64
  en_server_identity :: str
  en_bundle_signing_key :: "str option"

definition validate_token :: "str \<Rightarrow> unit res" where
  "validate_token token =
     (if str_len token > MAX_TOKEN_LEN \<or> (\<exists>c \<in> set token. is_control c) then Inl InvalidToken
      else case strip_prefix TOKEN_PREFIX token of
             None \<Rightarrow> Inl InvalidToken
           | Some suffix \<Rightarrow>
               if suffix = [] \<or> \<not> list_all (\<lambda>c. is_ascii_alphanumeric c \<or> c = 95) suffix
               then Inl InvalidToken else Inr ())"

fun check_labels :: "str list \<Rightarrow> unit res" where
  "check_labels [] = Inr ()"
| "check_labels (label # labels) =
     (if label = [] \<or> str_len label > MAX_LABEL_LEN then Inl InvalidHostname
      else if hd label = 45 \<or> last label = 45 then Inl InvalidHostname
      else if \<not> list_all (\<lambda>c. is_ascii_alphanumeric c \<or> c = 45) label then Inl InvalidHostname
      else check_labels labels)"

definition validate_hostname :: "str \<Rightarrow> unit res" where
  "validate_hostname hostname =
     (if hostname = [] \<or> str_len hostname > MAX_HOSTNAME_LEN then Inl InvalidHostname
      else check_labels (split_char 46 hostname))"

definition validate_server_url :: "str \<Rightarrow> unit res" where
  "validate_server_url url =
     (if url \<noteq> trim url then Inl InvalidServerUrl
      else case strip_prefix (lit ''https://'') url of
             Some host \<Rightarrow> if host \<noteq> [] then Inr () else Inl InvalidServerUrl
           | None \<Rightarrow> Inl InvalidServerUrl)"

definition is_valid_interval :: "u64 \<Rightarrow> bool" where
  "is_valid_interval secs \<longleftrightarrow> MIN_INTERVAL_SECS \<le> secs \<and> secs \<le> MAX_INTERVAL_SECS"

definition id_char :: "rchar \<Rightarrow> bool" where
  "id_char c \<longleftrightarrow> is_ascii_alphanumeric c \<or> c = 45 \<or> c = 95 \<or> c = 46"

definition validate_enrollment_response :: "libs \<Rightarrow> enrollment_response \<Rightarrow> unit res" where
  "validate_enrollment_response L response =
     (if en_machine_id response = [] then Inl (InvalidServerResponse EmptyMachineId)
      else if str_len (en_machine_id response) > MAX_MACHINE_ID_LEN \<or> \<not> list_all id_char (en_machine_id response)
        then Inl (InvalidServerResponse InvalidMachineId)
      else if \<not> is_valid_interval (en_heartbeat_interval response)
              \<or> \<not> is_valid_interval (en_sync_interval response)
        then Inl (InvalidServerResponse IntervalOutOfRange)
      else bind_res (map_err (\<lambda>_. InvalidServerResponse InvalidServerIdentity)
             (validate_ed25519_public_key L (en_server_identity response))) (\<lambda>_.
           case en_bundle_signing_key response of
             None \<Rightarrow> Inr ()
           | Some key \<Rightarrow> map_err (\<lambda>_. InvalidServerResponse InvalidBundleSigningKey)
               (validate_ed25519_public_key L key)))"

type_synonym 'c client_call = "enrollment_request \<Rightarrow> 'c \<Rightarrow> world \<Rightarrow> enrollment_response res \<times> 'c \<times> world"

datatype mock_enroll_outcome = MockSuccess enrollment_response | MockRejected | MockTransport

record mock_client =
  mc_outcome :: mock_enroll_outcome
  mc_requests :: "enrollment_request list"

definition mock_new :: "mock_enroll_outcome \<Rightarrow> mock_client" where
  "mock_new outcome = \<lparr>mc_outcome = outcome, mc_requests = []\<rparr>"

definition mock_success :: "enrollment_response \<Rightarrow> mock_client" where
  "mock_success response = mock_new (MockSuccess response)"

definition mock_rejected :: mock_client where
  "mock_rejected = mock_new MockRejected"

definition mock_transport_failure :: mock_client where
  "mock_transport_failure = mock_new MockTransport"

definition captured_requests :: "mock_client \<Rightarrow> enrollment_request list" where
  "captured_requests c = mc_requests c"

definition mock_enroll :: "mock_client client_call" where
  "mock_enroll request c w =
     ((case mc_outcome c of
         MockSuccess response \<Rightarrow> Inr response
       | MockRejected \<Rightarrow> Inl EnrollmentRejected
       | MockTransport \<Rightarrow> Inl EnrollmentTransport),
      c\<lparr>mc_requests := mc_requests c @ [request]\<rparr>, w)"

record enrollment_service =
  es_private_key_path :: path
  es_public_key_path :: path
  es_record_path :: path

definition enrollment_service_new :: "path \<Rightarrow> enrollment_service" where
  "enrollment_service_new dir =
     \<lparr>es_private_key_path = path_join dir PRIVATE_KEY_FILE, es_public_key_path = path_join dir PUBLIC_KEY_FILE,
      es_record_path = path_join dir MACHINE_RECORD_FILE\<rparr>"

definition is_enrolled :: "enrollment_service \<Rightarrow> world \<Rightarrow> bool \<times> world" where
  "is_enrolled svc w = sys_is_file (components (es_record_path svc)) w"

definition path_exists :: "path \<Rightarrow> (error, bool) comp" where
  "path_exists p w =
     (case sys_lstat (components p) w of (Inr _, w') \<Rightarrow> (Inr True, w') | (Inl _, w') \<Rightarrow> (Inr False, w'))"

definition write_keypair :: "libs \<Rightarrow> enrollment_service \<Rightarrow> machine_keypair \<Rightarrow> unit io" where
  "write_keypair L svc kp =
     bind_io (lift_res (to_openssh_private L kp)) (\<lambda>private_pem.
     bind_io (secure_write (es_private_key_path svc) (utf8 private_pem) MODE_SECRET) (\<lambda>_.
     bind_io (lift_res (public_key_openssh L kp)) (\<lambda>public_line.
     secure_write (es_public_key_path svc) (utf8 (public_line @ [10])) MODE_PUBLIC)))"

definition generate_machine_keypair :: "libs \<Rightarrow> enrollment_service \<Rightarrow> machine_keypair io" where
  "generate_machine_keypair L svc =
     bind_io (path_exists (es_private_key_path svc)) (\<lambda>a.
     bind_io (if a then return_io True else path_exists (es_public_key_path svc)) (\<lambda>b.
     if b then lift_res (Inl KeyAlreadyExists)
     else bind_io (keypair_generate L) (\<lambda>kp.
          bind_io (write_keypair L svc kp) (\<lambda>_. return_io kp))))"

definition validate_private_key_security :: "enrollment_service \<Rightarrow> unit io" where
  "validate_private_key_security svc =
     bind_io (ensure_not_symlink (es_private_key_path svc)) (\<lambda>_.
     bind_io (\<lambda>w. validate_owner (es_private_key_path svc) (effective_uid w) w) (\<lambda>_.
     bind_io (ensure_not_group_or_world_writable (es_private_key_path svc)) (\<lambda>_.
     validate_mode_at_most (es_private_key_path svc) MODE_SECRET)))"

definition read_keypair :: "libs \<Rightarrow> enrollment_service \<Rightarrow> machine_keypair io" where
  "read_keypair L svc =
     bind_io (validate_private_key_security svc) (\<lambda>_.
     bind_io (map_err_io Io (sys_read_to_string (components (es_private_key_path svc)))) (\<lambda>pem.
     lift_res (from_openssh_private L pem)))"

definition load_machine_keypair :: "libs \<Rightarrow> enrollment_service \<Rightarrow> machine_keypair io" where
  "load_machine_keypair L svc = read_keypair L svc"

definition load_machine_identity ::
    "libs \<Rightarrow> (bytes \<Rightarrow> str + machine_record) \<Rightarrow> enrollment_service \<Rightarrow> machine_identity io" where
  "load_machine_identity L dec svc =
     bind_io (read_keypair L svc) (\<lambda>kp.
     bind_io (lift_res (public_key_openssh L kp)) (\<lambda>public_key.
     bind_io (record_load dec (es_record_path svc)) (\<lambda>r.
     lift_res (into_identity r public_key (es_private_key_path svc) (es_public_key_path svc)))))"

definition load_or_generate_keypair :: "libs \<Rightarrow> enrollment_service \<Rightarrow> machine_keypair io" where
  "load_or_generate_keypair L svc =
     bind_io (path_exists (es_private_key_path svc)) (\<lambda>b.
     if b then read_keypair L svc else generate_machine_keypair L svc)"

definition create_enrollment_request ::
    "libs \<Rightarrow> host_env \<Rightarrow> str \<Rightarrow> str \<Rightarrow> machine_keypair \<Rightarrow> enrollment_request res" where
  "create_enrollment_request L env token hostname kp =
     bind_res (validate_token token) (\<lambda>_.
     bind_res (validate_hostname hostname) (\<lambda>_.
     bind_res (public_key_openssh L kp) (\<lambda>public_key.
     bind_res (validate_ed25519_public_key L public_key) (\<lambda>_.
     Inr \<lparr>er_enrollment_token = token, er_hostname = hostname, er_os = he_os env, er_arch = he_arch env,
          er_agent_version = he_version env, er_public_key = public_key\<rparr>))))"

definition persist_machine_identity ::
    "libs \<Rightarrow> (machine_record \<Rightarrow> str + bytes) \<Rightarrow> enrollment_service \<Rightarrow> str \<Rightarrow> str \<Rightarrow> machine_keypair
     \<Rightarrow> enrollment_response \<Rightarrow> machine_identity io" where
  "persist_machine_identity L enc svc server_url hostname kp response =
     bind_io (lift_res (validate_server_url server_url)) (\<lambda>_.
     bind_io (lift_res (validate_hostname hostname)) (\<lambda>_.
     bind_io (lift_res (validate_enrollment_response L response)) (\<lambda>_.
     bind_io (lift_res (public_key_openssh L kp)) (\<lambda>public_key.
     bind_io now_io (\<lambda>now.
     let identity = \<lparr>mi_machine_id = en_machine_id response, mi_hostname = hostname, mi_public_key = public_key,
           mi_private_key_path = es_private_key_path svc, mi_public_key_path = es_public_key_path svc,
           mi_enrolled_at = now, mi_server_url = server_url,
           mi_heartbeat_interval = from_secs (en_heartbeat_interval response),
           mi_sync_interval = from_secs (en_sync_interval response)\<rparr>
     in bind_io (record_save enc (to_record identity) (es_record_path svc)) (\<lambda>_. return_io identity))))))"

text \<open>The part of \<open>enroll\<close> before the request is sent.\<close>

definition enroll_prepare ::
    "libs \<Rightarrow> host_env \<Rightarrow> enrollment_service \<Rightarrow> str \<Rightarrow> str \<Rightarrow> str \<Rightarrow> (machine_keypair \<times> enrollment_request) io" where
  "enroll_prepare L env svc server_url token hostname =
     bind_io (lift_res (validate_server_url server_url)) (\<lambda>_.
     bind_io (lift_res (validate_token token)) (\<lambda>_.
     bind_io (lift_res (validate_hostname hostname)) (\<lambda>_.
     bind_io (load_or_generate_keypair L svc) (\<lambda>kp.
     bind_io (lift_res (create_enrollment_request L env token hostname kp)) (\<lambda>rq.
     return_io (kp, rq))))))"

definition enroll ::
    "libs \<Rightarrow> host_env \<Rightarrow> (machine_record \<Rightarrow> str + bytes) \<Rightarrow> 'c client_call \<Rightarrow> enrollment_service
     \<Rightarrow> str \<Rightarrow> str \<Rightarrow> str \<Rightarrow> 'c \<Rightarrow> world \<Rightarrow> machine_identity res \<times> 'c \<times> world" where
  "enroll L env enc call svc server_url token hostname c w0 =
     (case is_enrolled svc w0 of (enrolled, w1) \<Rightarrow>
        if enrolled then (Inl AlreadyEnrolled, c, w1)
        else case enroll_prepare L env svc server_url token hostname w1 of
               (Inl e, w2) \<Rightarrow> (Inl e, c, w2)
             | (Inr (kp, request), w2) \<Rightarrow>
                 (case call request c w2 of
                    (Inl e, c', w3) \<Rightarrow> (Inl e, c', w3)
                  | (Inr response, c', w3) \<Rightarrow>
                      (case persist_machine_identity L enc svc server_url hostname kp response w3 of
                         (r, w4) \<Rightarrow> (r, c', w4))))"

section \<open>The checks accept what they should\<close>

definition token_char :: "rchar \<Rightarrow> bool" where
  "token_char c \<longleftrightarrow> is_ascii_alphanumeric c \<or> c = 95"

definition good_token :: "str \<Rightarrow> bool" where
  "good_token token \<longleftrightarrow> (\<exists>suffix. token = lit ''mf_enroll_'' @ suffix
     \<and> 1 \<le> length suffix \<and> length suffix \<le> 246 \<and> (\<forall>c \<in> set suffix. token_char c))"

definition good_label :: "str \<Rightarrow> bool" where
  "good_label l \<longleftrightarrow> 1 \<le> length l \<and> length l \<le> 63 \<and> hd l \<noteq> 45 \<and> last l \<noteq> 45
     \<and> (\<forall>c \<in> set l. is_ascii_alphanumeric c \<or> c = 45)"

text \<open>A host name is one or more labels joined by dots, at most 253 characters in all.\<close>

definition good_hostname :: "str \<Rightarrow> bool" where
  "good_hostname h \<longleftrightarrow> length h \<le> 253
     \<and> (\<exists>labels. labels \<noteq> [] \<and> h = join_char 46 labels \<and> (\<forall>l \<in> set labels. good_label l))"

definition good_server_url :: "str \<Rightarrow> bool" where
  "good_server_url url \<longleftrightarrow> trim url = url \<and> (\<exists>host. host \<noteq> [] \<and> url = lit ''https://'' @ host)"

definition good_enrollment_response :: "libs \<Rightarrow> enrollment_response \<Rightarrow> bool" where
  "good_enrollment_response L r \<longleftrightarrow>
     1 \<le> length (en_machine_id r) \<and> length (en_machine_id r) \<le> 128 \<and> (\<forall>c \<in> set (en_machine_id r). id_char c)
     \<and> 1 \<le> unat (en_heartbeat_interval r) \<and> unat (en_heartbeat_interval r) \<le> 86400
     \<and> 1 \<le> unat (en_sync_interval r) \<and> unat (en_sync_interval r) \<le> 86400
     \<and> ed25519_line L (en_server_identity r)
     \<and> (case en_bundle_signing_key r of Some k \<Rightarrow> ed25519_line L k | None \<Rightarrow> True)"

lemma alphanumeric_bounds: "is_ascii_alphanumeric c \<Longrightarrow> 48 \<le> c \<and> c \<le> 122"
  by (auto simp: is_ascii_alphanumeric_def is_ascii_digit_def)

lemma plain_not_control: "48 \<le> c \<and> c \<le> 122 \<Longrightarrow> \<not> is_control c" for c :: rchar
  by (auto simp: is_control_def)

lemma token_char_plain: "token_char c \<Longrightarrow> c < 128 \<and> \<not> is_control c"
  by (auto simp: token_char_def is_control_def dest: alphanumeric_bounds)

lemma id_char_plain: "id_char c \<Longrightarrow> c < 128"
  by (auto simp: id_char_def dest: alphanumeric_bounds)

interpretation token_check: validator validate_token good_token
proof
  fix token
  have len: "length (lit ''mf_enroll_'') = 10" by simp
  have ascii: "str_len (lit ''mf_enroll_'' @ s) = 10 + length s"
      "\<forall>c \<in> set (lit ''mf_enroll_'' @ s). \<not> is_control c" if "\<forall>c \<in> set s. token_char c" for s
  proof -
    have pre: "\<forall>c \<in> set (lit ''mf_enroll_''). c < 128 \<and> \<not> is_control c"
      by (simp add: lit_def is_control_def)
    then show "\<forall>c \<in> set (lit ''mf_enroll_'' @ s). \<not> is_control c"
      using that token_char_plain by (metis Un_iff set_append)
    have "\<forall>c \<in> set (lit ''mf_enroll_'' @ s). c < 128"
      using that token_char_plain pre by (metis Un_iff set_append)
    then have "str_len (lit ''mf_enroll_'' @ s) = length (lit ''mf_enroll_'' @ s)" by (rule str_len_ascii)
    then show "str_len (lit ''mf_enroll_'' @ s) = 10 + length s" by simp
  qed
  show "validate_token token = Inr () \<longleftrightarrow> good_token token"
  proof
    assume a: "validate_token token = Inr ()"
    then obtain s where s: "token = lit ''mf_enroll_'' @ s" "s \<noteq> []" "\<forall>c \<in> set s. token_char c"
        "str_len token \<le> 256"
      by (auto simp: validate_token_def TOKEN_PREFIX_def MAX_TOKEN_LEN_def strip_prefix_Some token_char_def
          list_all_iff not_less split: if_splits option.splits)
    with ascii(1) [OF s(3)] show "good_token token"
      by (auto simp: good_token_def Suc_le_eq)
  next
    assume "good_token token"
    then obtain s where s: "token = lit ''mf_enroll_'' @ s" "1 \<le> length s" "length s \<le> 246"
        "\<forall>c \<in> set s. token_char c" by (auto simp: good_token_def)
    with ascii [OF s(4)] show "validate_token token = Inr ()"
      by (auto simp: validate_token_def TOKEN_PREFIX_def MAX_TOKEN_LEN_def token_char_def list_all_iff)
  qed
qed

lemma label_ascii: "\<forall>c \<in> set l. is_ascii_alphanumeric c \<or> c = 45 \<Longrightarrow> \<forall>c \<in> set l. c < 128 \<and> c \<noteq> 46"
  using alphanumeric_bounds by fastforce

lemma check_label:
  "(l \<noteq> [] \<and> str_len l \<le> MAX_LABEL_LEN \<and> hd l \<noteq> 45 \<and> last l \<noteq> 45
     \<and> list_all (\<lambda>c. is_ascii_alphanumeric c \<or> c = 45) l) \<longleftrightarrow> good_label l"
proof (cases "\<forall>c \<in> set l. is_ascii_alphanumeric c \<or> c = 45")
  case True
  then have "str_len l = length l" using label_ascii str_len_ascii by blast
  then show ?thesis by (auto simp: good_label_def list_all_iff MAX_LABEL_LEN_def Suc_le_eq)
qed (auto simp: good_label_def list_all_iff)

lemma check_labels_iff: "check_labels ls = Inr () \<longleftrightarrow> (\<forall>l \<in> set ls. good_label l)"
proof (induction ls)
  case (Cons l ls)
  have "check_labels (l # ls) = Inr () \<longleftrightarrow> (l \<noteq> [] \<and> str_len l \<le> MAX_LABEL_LEN \<and> hd l \<noteq> 45 \<and> last l \<noteq> 45
     \<and> list_all (\<lambda>c. is_ascii_alphanumeric c \<or> c = 45) l) \<and> check_labels ls = Inr ()" by auto
  with Cons show ?case unfolding check_label by simp
qed simp

lemma split_join:
  "ls \<noteq> [] \<Longrightarrow> (\<forall>l \<in> set ls. sep \<notin> set l) \<Longrightarrow> split_char sep (join_char sep ls) = ls"
proof (induction sep ls rule: join_char.induct)
  case (3 sep p q rest)
  then show ?case by (simp add: split_char_append)
qed (simp_all add: split_char_none)

lemma join_set: "c \<in> set (join_char sep ls) \<Longrightarrow> c = sep \<or> (\<exists>l \<in> set ls. c \<in> set l)"
  by (induction sep ls rule: join_char.induct) auto

interpretation hostname_check: validator validate_hostname good_hostname
proof
  fix h
  have no_dot: "46 \<notin> set l" if "good_label l" for l
    using that label_ascii [of l] by (auto simp: good_label_def)
  have ascii: "str_len h = length h" if "h = join_char 46 ls" "\<forall>l \<in> set ls. good_label l" for ls
  proof (rule str_len_ascii, rule ballI)
    fix c assume "c \<in> set h"
    with that(1) have "c = 46 \<or> (\<exists>l \<in> set ls. c \<in> set l)" using join_set by blast
    with that(2) show "c < 128" using label_ascii by (fastforce simp: good_label_def)
  qed
  show "validate_hostname h = Inr () \<longleftrightarrow> good_hostname h"
  proof
    assume a: "validate_hostname h = Inr ()"
    then have ls: "\<forall>l \<in> set (split_char 46 h). good_label l" and len: "str_len h \<le> 253"
      by (auto simp: validate_hostname_def check_labels_iff MAX_HOSTNAME_LEN_def split: if_splits)
    have h: "h = join_char 46 (split_char 46 h)" by (simp add: join_split_char)
    with ascii [OF h ls] len ls show "good_hostname h"
      unfolding good_hostname_def by (metis split_char_nonempty)
  next
    assume "good_hostname h"
    then obtain ls where ls: "ls \<noteq> []" "h = join_char 46 ls" "\<forall>l \<in> set ls. good_label l" "length h \<le> 253"
      by (auto simp: good_hostname_def)
    then have sp: "split_char 46 h = ls" using split_join no_dot by blast
    have "h \<noteq> []"
    proof
      assume "h = []"
      with sp have "ls = [[]]" by simp
      with ls(3) show False by (simp add: good_label_def)
    qed
    with ascii [OF ls(2,3)] ls sp show "validate_hostname h = Inr ()"
      by (simp add: validate_hostname_def check_labels_iff MAX_HOSTNAME_LEN_def)
  qed
qed

interpretation server_url_check: validator validate_server_url good_server_url
  by unfold_locales
     (auto simp: validate_server_url_def good_server_url_def strip_prefix_Some strip_prefix_None
        split: option.splits)

interpretation response_check: validator "validate_enrollment_response L" "good_enrollment_response L" for L
proof
  fix r :: enrollment_response
  have iv: "is_valid_interval s \<longleftrightarrow> 1 \<le> unat s \<and> unat s \<le> 86400" for s
    by (simp add: is_valid_interval_def MIN_INTERVAL_SECS_def MAX_INTERVAL_SECS_def word_le_nat_alt)
  have id: "(en_machine_id r \<noteq> [] \<and> str_len (en_machine_id r) \<le> MAX_MACHINE_ID_LEN \<and> list_all id_char (en_machine_id r))
      \<longleftrightarrow> 1 \<le> length (en_machine_id r) \<and> length (en_machine_id r) \<le> 128 \<and> (\<forall>c \<in> set (en_machine_id r). id_char c)"
  proof (cases "\<forall>c \<in> set (en_machine_id r). id_char c")
    case True
    then have "str_len (en_machine_id r) = length (en_machine_id r)"
      using id_char_plain str_len_ascii by blast
    with True show ?thesis by (auto simp: list_all_iff MAX_MACHINE_ID_LEN_def Suc_le_eq)
  qed (auto simp: list_all_iff)
  have "validate_enrollment_response L r = Inr () \<longleftrightarrow>
      (en_machine_id r \<noteq> [] \<and> str_len (en_machine_id r) \<le> MAX_MACHINE_ID_LEN \<and> list_all id_char (en_machine_id r))
      \<and> is_valid_interval (en_heartbeat_interval r) \<and> is_valid_interval (en_sync_interval r)
      \<and> ed25519_line L (en_server_identity r)
      \<and> (case en_bundle_signing_key r of Some k \<Rightarrow> ed25519_line L k | None \<Rightarrow> True)"
    by (auto simp: validate_enrollment_response_def bind_res_eq_Inr validate_ed25519_public_key_iff
        split: option.splits if_splits)
  then show "validate_enrollment_response L r = Inr () \<longleftrightarrow> good_enrollment_response L r"
    unfolding id iv good_enrollment_response_def by blast
qed

text \<open>
  C37. The inputs of an enrollment are checked exactly: a token is the prefix with 1 to 246
  letters, digits or underscores; a host name is a sequence of RFC 1123 labels; a server URL
  is https with a host and no outer white space; a response has an identifier of 1 to 128
  safe characters, both intervals between a second and a day, and Ed25519 keys.
\<close>

theorem enrollment_checks_correct:
  "(validate_token token = Inr () \<longleftrightarrow> good_token token)
   \<and> (validate_hostname hostname = Inr () \<longleftrightarrow> good_hostname hostname)
   \<and> (validate_server_url url = Inr () \<longleftrightarrow> good_server_url url)
   \<and> (validate_enrollment_response L response = Inr () \<longleftrightarrow> good_enrollment_response L response)"
  by (simp add: token_check.check_iff hostname_check.check_iff server_url_check.check_iff
      response_check.check_iff)

end
