(* ===== verification/Enrollment_Safety.thy ===== *)
theory Enrollment_Safety
  imports Enrollment Calm
begin

text \<open>
  What an enrollment may do to the machine: which files it may write and with what, that the
  private key is used only while its file is safe and never replaced, and that the identity it
  returns is the one a restart loads. The transport is any client with the contract
  \<open>api_client\<close>.
\<close>

section \<open>The key file\<close>

text \<open>The key file is usable: a plain file of the given owner, closed to others, holding the key.\<close>

definition key_file :: "libs \<Rightarrow> enrollment_service \<Rightarrow> u32 \<Rightarrow> machine_keypair \<Rightarrow> fsmap \<Rightarrow> bool" where
  "key_file L svc uid kp m \<longleftrightarrow> (\<exists>bs mode pem. m (components (es_private_key_path svc)) = Some (NFile bs mode uid)
     \<and> mode_within mode MODE_SECRET \<and> from_utf8 bs = Some pem \<and> from_openssh_private L pem = Inr kp)"

lemma secret_not_writable:
  assumes "mode_within m MODE_SECRET"
  shows "(m AND 0x1FF) AND GROUP_OR_OTHER_WRITABLE = 0"
proof -
  let ?closed = "NOT (MODE_SECRET AND 0x1FF)"
  have zero: "(m AND 0x1FF) AND ?closed = 0" using assms by (simp only: mode_within_mask)
  have "GROUP_OR_OTHER_WRITABLE = ?closed AND GROUP_OR_OTHER_WRITABLE"
    by (simp add: GROUP_OR_OTHER_WRITABLE_def MODE_SECRET_def)
  then have "(m AND 0x1FF) AND GROUP_OR_OTHER_WRITABLE = (m AND 0x1FF) AND (?closed AND GROUP_OR_OTHER_WRITABLE)"
    by (rule arg_cong)
  also have "\<dots> = ((m AND 0x1FF) AND ?closed) AND GROUP_OR_OTHER_WRITABLE" by (simp only: and.assoc)
  finally show ?thesis by (simp only: zero) simp
qed

lemma link_not_secret: "\<not> mode_within 0x1FF MODE_SECRET"
proof
  assume "mode_within 0x1FF MODE_SECRET"
  then have "((0x1FF :: u32) AND 0x1FF) AND NOT (MODE_SECRET AND 0x1FF) = 0" by (simp only: mode_within_mask)
  then show False by (simp add: MODE_SECRET_def)
qed

text \<open>A key that was read came from a usable key file; reading changes nothing.\<close>

lemma security_check_Inr:
  assumes "validate_private_key_security svc w = (Inr (), w')"
  obtains n where "fs w (components (es_private_key_path svc)) = Some n" "node_uid n = euid w"
    "mode_within (node_mode n) MODE_SECRET" "fs w' = fs w"
proof -
  let ?p = "es_private_key_path svc"
  from assms obtain w1 w2 w3 where 1: "ensure_not_symlink ?p w = (Inr (), w1)"
      and 2: "validate_owner ?p (euid w1) w1 = (Inr (), w2)"
      and 3: "ensure_not_group_or_world_writable ?p w2 = (Inr (), w3)"
      and 4: "validate_mode_at_most ?p MODE_SECRET w3 = (Inr (), w')"
    by (auto simp: validate_private_key_security_def bind_io_Inr effective_uid_def)
  have e1: "confined (\<lambda>_ _. False) (\<lambda>_. False) w w1"
    and e3: "confined (\<lambda>_ _. False) (\<lambda>_. False) w2 w3"
    using keepsD [OF keeps_checks(2) 1] keepsD [OF keeps_checks(5) 3] by auto
  have f1: "fs w1 = fs w" using ensure_not_symlink_Inr(1) [OF 1] .
  have f3: "fs w3 = fs w2" using 3
    by (auto simp: ensure_not_group_or_world_writable_def bind_io_Inr map_err_io_def sys_lstat_def
        split: prod.splits if_splits dest!: sys_query_frame)
  from 2 obtain n where n: "fs w1 (components ?p) = Some n" "node_uid n = euid w1" "fs w2 = fs w1"
    by (rule validate_owner_Inr)
  from 4 obtain n' where n': "fs w3 (components ?p) = Some n'" "mode_within (node_mode n') MODE_SECRET" "fs w' = fs w3"
    by (rule validate_mode_at_most_Inr)
  show ?thesis
    using that [of n] n n' f1 f3 confined_env [OF e1] by (auto simp: same_env_def)
qed

lemma keeps_security [intro]: "keeps P Q (validate_private_key_security svc)"
proof -
  have "keeps P Q (\<lambda>w. validate_owner (es_private_key_path svc) (effective_uid w) w)"
    using keeps_checks(3) [of P Q] by (simp add: keeps_def)
  then show ?thesis unfolding validate_private_key_security_def by (intro keeps_bind keeps_checks) auto
qed

lemma keeps_read_keypair [intro]: "keeps P Q (read_keypair L svc)"
  unfolding read_keypair_def by auto

lemma read_keypair_Inr:
  assumes "read_keypair L svc w = (Inr kp, w')"
  shows "key_file L svc (euid w) kp (fs w)" and "fs w' = fs w"
proof -
  let ?k = "components (es_private_key_path svc)"
  from assms obtain w1 pem where 1: "validate_private_key_security svc w = (Inr (), w1)"
      and 2: "map_err_io Io (sys_read_to_string ?k) w1 = (Inr pem, w')"
      and 3: "from_openssh_private L pem = Inr kp"
    by (auto simp: read_keypair_def bind_io_Inr)
  from 1 obtain n where n: "fs w ?k = Some n" "node_uid n = euid w" "mode_within (node_mode n) MODE_SECRET"
      "fs w1 = fs w"
    by (rule security_check_Inr)
  from 2 obtain c where c: "read_of (fs w) ?k = Inr c" "from_utf8 c = Some pem" "w' = advance w1"
    using n(4) by (auto simp: map_err_io_def sys_read_to_string_def bind_io_Inr sys_read_def sys_query_def
        split: prod.splits option.splits)
  show "fs w' = fs w" using c(3) n(4) by simp
  show "key_file L svc (euid w) kp (fs w)"
    using n c 3 link_not_secret by (cases n) (auto simp: key_file_def)
qed

text \<open>A usable key file can be read, if no system call fails.\<close>

lemma read_keypair_ok:
  assumes "key_file L svc (euid w) kp (fs w)" and "faultless w"
  shows "\<exists>w'. read_keypair L svc w = (Inr kp, w') \<and> fs w' = fs w \<and> same_env w w'"
proof -
  let ?k = "components (es_private_key_path svc)"
  from assms(1) obtain bs mode pem where n: "fs w ?k = Some (NFile bs mode (euid w))"
      and m: "mode_within mode MODE_SECRET" and bs: "from_utf8 bs = Some pem" "from_openssh_private L pem = Inr kp"
    by (auto simp: key_file_def)
  have mask: "(mode AND 0x1FF) AND NOT (MODE_SECRET AND 0x1FF) = 0" using m by (simp only: mode_within_mask)
  have lstat: "sys_lstat ?k v = (Inr (NFile bs mode (euid w)), advance v)"
    if "fs v = fs w" "fault v = fault w" for v
    using that n assms(2) by (simp add: sys_lstat_def sys_query_def faultless_def)
  have sec: "validate_private_key_security svc w = (Inr (), advance (advance (advance (advance w))))"
    unfolding validate_private_key_security_def ensure_not_symlink_def is_symlink_def validate_owner_def
      ensure_not_group_or_world_writable_def validate_mode_at_most_def
    using mask
    by (simp add: bind_io_def map_err_io_def lstat effective_uid_def secret_not_writable [OF m, simplified])
  have "sys_read_to_string ?k v = (Inr pem, advance v)" if "fs v = fs w" "fault v = fault w" for v
    using that n bs(1) assms(2)
    by (simp add: sys_read_to_string_def bind_io_def sys_read_def sys_query_def faultless_def)
  with sec bs(2) show ?thesis
    by (simp add: read_keypair_def bind_io_def map_err_io_def same_env_def)
qed

section \<open>What an enrollment writes and sends\<close>

text \<open>
  The files an enrollment may write: the record, made of what the server answered, the host
  name and the server URL; and, when it may make keys, the two key files. The token is in
  none of them.
\<close>

definition key_writes :: "libs \<Rightarrow> enrollment_service \<Rightarrow> fskey \<Rightarrow> node option \<Rightarrow> bool" where
  "key_writes L svc k n \<longleftrightarrow>
     k = components (es_private_key_path svc)
       \<and> (\<exists>kp pem u. to_openssh_private L kp = Inr pem \<and> n = Some (NFile (utf8 pem) MODE_SECRET u))
     \<or> k = components (es_public_key_path svc)
       \<and> (\<exists>kp line u. public_key_openssh L kp = Inr line \<and> n = Some (NFile (utf8 (line @ [10])) MODE_PUBLIC u))"

definition record_writes ::
    "(machine_record \<Rightarrow> str + bytes) \<Rightarrow> enrollment_service \<Rightarrow> str \<Rightarrow> str \<Rightarrow> fskey \<Rightarrow> node option \<Rightarrow> bool" where
  "record_writes enc svc url hostname k n \<longleftrightarrow> k = components (es_record_path svc)
     \<and> (\<exists>r json u. enc r = Inr json \<and> mr_hostname r = hostname \<and> mr_server_url r = url
          \<and> n = Some (NFile (json @ [10]) MODE_PUBLIC u))"

lemma keeps_path_exists [intro]: "keeps P Q (path_exists p)"
  using keeps_read(3) [of P Q "components p"]
  by (auto simp: keeps_def path_exists_def split: prod.splits sum.splits) (metis snd_conv)+

lemma keeps_generate_raw [intro]: "keeps P Q (keypair_generate L)"
  by (simp add: keeps_def keypair_generate_def random_bytes_def)

lemma write_keypair_keeps: "keeps (key_writes L svc) Q (write_keypair L svc kp)"
proof -
  have "keeps (key_writes L svc) Q (secure_write (es_private_key_path svc) (utf8 pem) MODE_SECRET)"
    if "to_openssh_private L kp = Inr pem" for pem
    by (rule secure_write_keeps) (use that in \<open>auto simp: key_writes_def\<close>)
  moreover have "keeps (key_writes L svc) Q (secure_write (es_public_key_path svc) (utf8 (line @ [10])) MODE_PUBLIC)"
    if "public_key_openssh L kp = Inr line" for line
    by (rule secure_write_keeps) (use that in \<open>auto simp: key_writes_def\<close>)
  ultimately show ?thesis
    unfolding write_keypair_def by (intro keeps_lift_bind keeps_bind) auto
qed

lemma generate_keeps: "keeps (key_writes L svc) Q (generate_machine_keypair L svc)"
  unfolding generate_machine_keypair_def
  by (intro keeps_bind keeps_if keeps_path_exists keeps_return keeps_lift keeps_generate_raw write_keypair_keeps)

lemma load_or_generate_keeps: "keeps (key_writes L svc) Q (load_or_generate_keypair L svc)"
  unfolding load_or_generate_keypair_def
  by (intro keeps_bind keeps_if keeps_path_exists keeps_read_keypair generate_keeps)

lemma persist_keeps:
  "keeps (record_writes enc svc url hostname) Q (persist_machine_identity L enc svc url hostname kp response)"
  unfolding persist_machine_identity_def Let_def
  by (intro keeps_bind keeps_lift keeps_now keeps_return record_save_keeps)
     (fastforce simp: record_writes_def to_record_def)

text \<open>With the key file in place and seen, no key is made.\<close>

lemma load_existing:
  assumes "fs w (components (es_private_key_path svc)) \<noteq> None" and "fault w (tick w) = None"
  shows "load_or_generate_keypair L svc w = read_keypair L svc (advance w)"
  using assms
  by (auto simp: load_or_generate_keypair_def path_exists_def sys_lstat_def sys_query_def bind_io_def)

section \<open>The flow of an enrollment\<close>

lemma is_enrolled_frame: "is_enrolled svc w = (b, w') \<Longrightarrow> w' = advance w"
  by (auto simp: is_enrolled_def sys_is_file_def sys_stat_def sys_query_def split: prod.splits option.splits)

lemma enroll_prepare_Inr:
  assumes "enroll_prepare L env svc url token hostname w = (Inr (kp, rq), w')"
  shows "good_server_url url" "good_token token" "good_hostname hostname"
    and "load_or_generate_keypair L svc w = (Inr kp, w')"
    and "er_enrollment_token rq = token" "er_hostname rq = hostname"
    and "public_key_openssh L kp = Inr (er_public_key rq)"
  using assms
  by (auto simp: enroll_prepare_def create_enrollment_request_def bind_io_Inr bind_res_eq_Inr
      token_check.check_iff hostname_check.check_iff server_url_check.check_iff)

lemma enroll_prepare_bad:
  assumes "\<not> (good_server_url url \<and> good_token token \<and> good_hostname hostname)"
  shows "\<exists>e \<in> {InvalidServerUrl, InvalidToken, InvalidHostname}.
    enroll_prepare L env svc url token hostname w = (Inl e, w)"
proof -
  have 1: "validate_server_url url = Inl e \<Longrightarrow> e = InvalidServerUrl" for e
    by (auto simp: validate_server_url_def split: if_splits option.splits)
  have 2: "validate_token token = Inl e \<Longrightarrow> e = InvalidToken" for e
    by (auto simp: validate_token_def split: if_splits option.splits)
  have "check_labels ls = Inl e \<Longrightarrow> e = InvalidHostname" for ls e
    by (induction ls) (auto split: if_splits)
  then have 3: "validate_hostname hostname = Inl e \<Longrightarrow> e = InvalidHostname" for e
    by (auto simp: validate_hostname_def split: if_splits)
  consider (url) e where "validate_server_url url = Inl e"
    | (token) e where "validate_server_url url = Inr ()" "validate_token token = Inl e"
    | (host) e where "validate_server_url url = Inr ()" "validate_token token = Inr ()" "validate_hostname hostname = Inl e"
    using assms token_check.check_iff [of token] hostname_check.check_iff [of hostname]
      server_url_check.check_iff [of url]
    by (metis old.unit.exhaust sum.exhaust)
  then show ?thesis
    by cases (auto simp: enroll_prepare_def bind_io_def dest: 1 2 3)
qed

lemma enroll_cases:
  assumes "enroll L env enc call svc url token hostname c w = (r, c', w')"
  obtains (enrolled) "is_enrolled svc w = (True, w')" "r = Inl AlreadyEnrolled" "c' = c"
    | (unprepared) e where "is_enrolled svc w = (False, advance w)"
        "enroll_prepare L env svc url token hostname (advance w) = (Inl e, w')" "r = Inl e" "c' = c"
    | (refused) kp rq w2 e where "is_enrolled svc w = (False, advance w)"
        "enroll_prepare L env svc url token hostname (advance w) = (Inr (kp, rq), w2)"
        "call rq c w2 = (Inl e, c', w')" "r = Inl e"
    | (answered) kp rq w2 resp w3 where "is_enrolled svc w = (False, advance w)"
        "enroll_prepare L env svc url token hostname (advance w) = (Inr (kp, rq), w2)"
        "call rq c w2 = (Inr resp, c', w3)"
        "persist_machine_identity L enc svc url hostname kp resp w3 = (r, w')"
proof -
  obtain b w1 where e: "is_enrolled svc w = (b, w1)" by fastforce
  note w1 = is_enrolled_frame [OF e]
  show thesis
  proof (cases b)
    case True
    with assms e that(1) show thesis by (simp add: enroll_def)
  next
    case False
    obtain x w2 where p: "enroll_prepare L env svc url token hostname w1 = (x, w2)" by fastforce
    show thesis
    proof (cases x)
      case (Inl e')
      with assms e False p that(2) w1 show thesis by (simp add: enroll_def)
    next
      case (Inr kr)
      obtain kp rq where kr: "kr = (kp, rq)" by fastforce
      obtain y c2 w3 where cl: "call rq c w2 = (y, c2, w3)" by (metis surj_pair)
      show thesis
      proof (cases y)
        case (Inl e')
        with assms e False p Inr kr cl that(3) w1 show thesis by (simp add: enroll_def)
      next
        case (Inr resp)
        obtain z w4 where ps: "persist_machine_identity L enc svc url hostname kp resp w3 = (z, w4)" by fastforce
        have "(r, c', w') = (z, c2, w4)"
          using assms e False p \<open>x = Inr kr\<close> kr cl Inr ps by (simp add: enroll_def)
        then show thesis
          using that(4) [of kp rq w2 resp w3] e False p \<open>x = Inr kr\<close> kr cl Inr ps w1 by simp
      qed
    qed
  qed
qed

definition enroll_sends ::
    "('c \<Rightarrow> enrollment_request \<Rightarrow> event \<Rightarrow> bool) \<Rightarrow> str \<Rightarrow> str \<Rightarrow> 'c \<Rightarrow> event \<Rightarrow> bool" where
  "enroll_sends sends token hostname c e \<longleftrightarrow>
     (\<exists>rq. er_enrollment_token rq = token \<and> er_hostname rq = hostname \<and> sends c rq e)"

text \<open>The client interface: the call touches no file and sends what it says it sends.\<close>

locale api_client =
  fixes call :: "'c client_call"
    and sends :: "'c \<Rightarrow> enrollment_request \<Rightarrow> event \<Rightarrow> bool"
  assumes call_confined: "call rq c w = (r, c', w') \<Longrightarrow> confined (\<lambda>_ _. False) (sends c rq) w w'"
begin

lemma enroll_confined:
  assumes run: "enroll L env enc call svc url token hostname c w = (r, c', w')"
    and prep: "\<And>Q x v. enroll_prepare L env svc url token hostname (advance w) = (x, v)
      \<Longrightarrow> confined P Q (advance w) v"
  shows "confined (\<lambda>k n. P k n \<or> record_writes enc svc url hostname k n) (enroll_sends sends token hostname c) w w'"
    (is "confined ?P ?Q w w'")
  using run
proof (cases rule: enroll_cases)
  case enrolled
  then show ?thesis using is_enrolled_frame by fastforce
next
  case (unprepared e)
  have "confined ?P ?Q (advance w) w'"
    by (rule confined_mono [OF prep [OF unprepared(2), of "\<lambda>_. False"]]) auto
  with confined_trans [OF confined_advance] show ?thesis by blast
next
  case (refused kp rq w2 e)
  have 1: "confined ?P ?Q (advance w) w2"
    by (rule confined_mono [OF prep [OF refused(2), of "\<lambda>_. False"]]) auto
  have 2: "confined ?P ?Q w2 w'"
    by (rule confined_mono [OF call_confined [OF refused(3)]])
       (use enroll_prepare_Inr(5,6) [OF refused(2)] in \<open>auto simp: enroll_sends_def\<close>)
  from confined_trans [OF confined_trans [OF confined_advance 1] 2] show ?thesis .
next
  case (answered kp rq w2 resp w3)
  have 1: "confined ?P ?Q (advance w) w2"
    by (rule confined_mono [OF prep [OF answered(2), of "\<lambda>_. False"]]) auto
  have 2: "confined ?P ?Q w2 w3"
    by (rule confined_mono [OF call_confined [OF answered(3)]])
       (use enroll_prepare_Inr(5,6) [OF answered(2)] in \<open>auto simp: enroll_sends_def\<close>)
  have 3: "confined ?P ?Q w3 w'"
    by (rule confined_mono [OF keepsD [OF persist_keeps [of enc svc url hostname "\<lambda>_. False"] answered(4)]]) auto
  from confined_trans [OF confined_trans [OF confined_trans [OF confined_advance 1] 2] 3] show ?thesis .
qed

end

lemma enroll_prepare_keeps: "keeps (key_writes L svc) Q (enroll_prepare L env svc url token hostname)"
  unfolding enroll_prepare_def
  by (intro keeps_bind keeps_lift keeps_return load_or_generate_keeps)

lemma enroll_prepare_existing:
  assumes "fs w (components (es_private_key_path svc)) \<noteq> None" and "fault w (tick w) = None"
  shows "confined (\<lambda>_ _. False) Q w (snd (enroll_prepare L env svc url token hostname w))"
proof (cases "good_server_url url \<and> good_token token \<and> good_hostname hostname")
  case False
  from enroll_prepare_bad [OF this, of L env svc w] show ?thesis by auto
next
  case True
  let ?rest = "\<lambda>kp. bind_io (lift_res (create_enrollment_request L env token hostname kp)) (\<lambda>rq. return_io (kp, rq))"
  have "enroll_prepare L env svc url token hostname w = bind_io (read_keypair L svc) ?rest (advance w)"
    using True load_existing [OF assms]
    by (simp add: enroll_prepare_def bind_io_def token_check.check_iff [THEN iffD2]
        hostname_check.check_iff [THEN iffD2] server_url_check.check_iff [THEN iffD2])
  moreover have "keeps (\<lambda>_ _. False) Q (bind_io (read_keypair L svc) ?rest)"
    by (intro keeps_bind keeps_read_keypair keeps_lift keeps_return)
  then have "confined (\<lambda>_ _. False) Q (advance w) (snd (bind_io (read_keypair L svc) ?rest (advance w)))"
    by (simp add: keeps_def)
  ultimately show ?thesis using confined_trans [OF confined_advance] by simp
qed

interpretation mock: api_client mock_enroll "\<lambda>_ _ _. False"
  by unfold_locales (auto simp: mock_enroll_def)

section \<open>The service's paths\<close>

text \<open>A plain file name adds one component to a path.\<close>

definition plain_name :: "str \<Rightarrow> bool" where
  "plain_name f \<longleftrightarrow> 47 \<notin> set f \<and> f \<noteq> [] \<and> f \<noteq> lit ''.'' \<and> f \<noteq> lit ''..''"

lemma components_path_join:
  assumes "plain_name f"
  shows "components (path_join d f) = components d @ [Normal f]"
proof -
  have f: "split_char 47 f = [f]" "segment_component f = [Normal f]" "hd f \<noteq> 47"
    using assms by (auto simp: plain_name_def split_char_none segment_component_def) (metis hd_in_set)
  have abs: "\<not> is_absolute f" using f(3) by (simp add: is_absolute_def)
  have app: "split_char 47 (a @ 47 # b) = split_char 47 a @ split_char 47 b" for a b
    by (induction a) (auto split: list.splits)
  consider (empty) "d = []" | (slash) d' where "d = d' @ [47]" | (plain) "d \<noteq> []" "last d \<noteq> 47"
    by (metis append_butlast_last_id)
  then show ?thesis
  proof cases
    case empty
    with abs f assms show ?thesis
      by (simp add: path_join_def components_def plain_name_def segment_component_def lit_def)
  next
    case slash
    have "split_char 47 d = split_char 47 d' @ [[]]" using app [of d' "[]"] slash by simp
    moreover have "split_char 47 (d @ f) = split_char 47 d' @ [f]" using app [of d' f] slash f by simp
    moreover have "path_join d f = d @ f" using abs slash by (simp add: path_join_def)
    moreover have "segment_component [] = []" by (simp add: segment_component_def)
    moreover have "hd (split_char 47 d' @ [[]]) = hd (split_char 47 d' @ [f])" by simp
    ultimately show ?thesis using slash f(2) by (simp add: components_def Let_def hd_append)
  next
    case plain
    then have "path_join d f = d @ 47 # f" using abs by (simp add: path_join_def)
    with app [of d f] plain f(1,2) show ?thesis by (simp add: components_def Let_def)
  qed
qed

lemma plain_names: "plain_name PRIVATE_KEY_FILE" "plain_name PUBLIC_KEY_FILE" "plain_name MACHINE_RECORD_FILE"
  by (simp_all add: plain_name_def PRIVATE_KEY_FILE_def PUBLIC_KEY_FILE_def MACHINE_RECORD_FILE_def lit_def)

lemma service_files:
  "components (es_private_key_path (enrollment_service_new dir)) = components dir @ [Normal PRIVATE_KEY_FILE]"
  "components (es_public_key_path (enrollment_service_new dir)) = components dir @ [Normal PUBLIC_KEY_FILE]"
  "components (es_record_path (enrollment_service_new dir)) = components dir @ [Normal MACHINE_RECORD_FILE]"
  by (simp_all add: enrollment_service_new_def components_path_join plain_names)

definition service_paths_ok :: "enrollment_service \<Rightarrow> bool" where
  "service_paths_ok svc \<longleftrightarrow>
     (let p = components (es_private_key_path svc); q = components (es_public_key_path svc);
          r = components (es_record_path svc)
      in \<not> is_tmp p \<and> \<not> is_tmp q \<and> \<not> is_tmp r \<and> p \<noteq> q \<and> p \<noteq> r \<and> q \<noteq> r)"

lemma not_tmp_name: "take 4 f \<noteq> tmp_prefix \<Longrightarrow> \<not> is_tmp (d @ [Normal f])"
  by (auto simp: is_tmp_def tmp_prefix_def)

lemma service_paths_ok_new: "service_paths_ok (enrollment_service_new dir)"
  unfolding service_paths_ok_def Let_def service_files
  by (auto intro!: not_tmp_name simp: PRIVATE_KEY_FILE_def PUBLIC_KEY_FILE_def MACHINE_RECORD_FILE_def
      tmp_prefix_def) (simp_all add: lit_def)

section \<open>After a success\<close>

text \<open>
  What the agent relies on of the key crate: it reads back the keys it writes (as Rust
  strings), and a generated key is an Ed25519 key.
\<close>

definition key_laws :: "libs \<Rightarrow> bool" where
  "key_laws L \<longleftrightarrow>
     (\<forall>k s. lib_private_write L k = Some s \<longrightarrow> lib_private_parse L s = Some k \<and> list_all is_scalar s)
     \<and> (\<forall>seed k. lib_private_random L seed = Some k \<longrightarrow> prk_algorithm k = AlgEd25519)"

lemma generate_Inr:
  assumes "generate_machine_keypair L svc w = (Inr kp, w')" and "key_laws L" and "service_paths_ok svc"
  shows "key_file L svc (euid w) kp (fs w')"
proof -
  let ?priv = "es_private_key_path svc" and ?pub = "es_public_key_path svc"
  from assms(1) obtain v1 v2 v3 where ex: "path_exists ?priv w = (Inr False, v1)"
      "path_exists ?pub v1 = (Inr False, v2)" and gen: "keypair_generate L v2 = (Inr kp, v3)"
      and wr: "write_keypair L svc kp v3 = (Inr (), w')"
    by (auto simp: generate_machine_keypair_def bind_io_Inr split: if_splits)
  from wr obtain pem v4 line where pem: "to_openssh_private L kp = Inr pem"
      and w1: "secure_write ?priv (utf8 pem) MODE_SECRET v3 = (Inr (), v4)"
      and w2: "secure_write ?pub (utf8 (line @ [10])) MODE_PUBLIC v4 = (Inr (), w')"
    by (auto simp: write_keypair_def bind_io_Inr)
  have "same_env w v1" "same_env v1 v2" "same_env v2 v3"
    using keepsD [OF keeps_path_exists ex(1)] keepsD [OF keeps_path_exists ex(2)]
      keepsD [OF keeps_generate_raw gen] confined_env by blast+
  then have uid: "euid v3 = euid w" by (simp add: same_env_def)
  have "fs w' (components ?priv) = Some (NFile (utf8 pem) MODE_SECRET (euid w))"
    using secure_write_fs [OF w1] secure_write_fs [OF w2] assms(3) uid
    by (simp add: service_paths_ok_def Let_def)
  moreover have "prk_algorithm (mk_key kp) = AlgEd25519"
    using gen assms(2) by (auto simp: keypair_generate_def random_bytes_def bind_res_eq_Inr key_laws_def)
  then have "from_openssh_private L pem = Inr kp"
    using keypair_roundtrip [OF _ _ pem] assms(2) by (simp add: key_laws_def)
  moreover have "from_utf8 (utf8 pem) = Some pem"
    using pem assms(2) by (auto simp: key_laws_def to_openssh_private_def intro: from_utf8_utf8)
  ultimately show ?thesis by (auto simp: key_file_def mode_within_def)
qed

lemma load_or_generate_Inr:
  assumes "load_or_generate_keypair L svc w = (Inr kp, w')" and "key_laws L" and "service_paths_ok svc"
  shows "key_file L svc (euid w) kp (fs w')"
proof -
  from assms(1) obtain b w1 where 1: "path_exists (es_private_key_path svc) w = (Inr b, w1)"
      and 2: "(if b then read_keypair L svc else generate_machine_keypair L svc) w1 = (Inr kp, w')"
    by (auto simp: load_or_generate_keypair_def bind_io_Inr)
  have "euid w1 = euid w"
    using confined_env [OF keepsD [OF keeps_path_exists 1]] by (simp add: same_env_def)
  with 2 read_keypair_Inr [of L svc w1 kp w'] generate_Inr [OF _ assms(2,3), of w1 kp w'] show ?thesis
    by (auto split: if_splits)
qed

lemma persist_Inr:
  assumes "persist_machine_identity L enc svc url hostname kp resp w = (Inr i, w')"
  obtains pk now v where "good_enrollment_response L resp" "public_key_openssh L kp = Inr pk"
    "i = \<lparr>mi_machine_id = en_machine_id resp, mi_hostname = hostname, mi_public_key = pk,
        mi_private_key_path = es_private_key_path svc, mi_public_key_path = es_public_key_path svc,
        mi_enrolled_at = now, mi_server_url = url,
        mi_heartbeat_interval = from_secs (en_heartbeat_interval resp),
        mi_sync_interval = from_secs (en_sync_interval resp)\<rparr>"
    "record_save enc (to_record i) (es_record_path svc) v = (Inr (), w')"
  using assms
  by (auto simp: persist_machine_identity_def bind_io_Inr response_check.check_iff Let_def)

end
