(* ===== verification/Api_Client.thy ===== *)
theory Api_Client
  imports Enrollment_Safety Heartbeat Ca_Bundle
begin

text \<open>
  \<open>src/identity/api_client.rs\<close>: the production enrollment client over HTTP, and the
  properties of an enrollment as the agent runs it. Building the \<open>reqwest\<close> client is not
  modelled; an exchange is one \<open>POST\<close> of the world, and every failure of it is the transport
  error, as in the source.
\<close>

section \<open>Definitions\<close>

definition ENROLL_PATH :: str where
  "ENROLL_PATH = lit ''/api/v1/machines/enroll''"

record http_enrollment_client =
  hec_server_url :: str
  hec_last_response :: "enrollment_response option"

definition http_client_new :: "str \<Rightarrow> http_enrollment_client" where
  "http_client_new server_url = \<lparr>hec_server_url = server_url, hec_last_response = None\<rparr>"

definition post_json :: "str \<Rightarrow> bytes \<Rightarrow> http_response io" where
  "post_json url body = http_exchange POST
     \<lparr>req_url = url, req_headers = [(lit ''content-type'', lit ''application/json'')], req_body = body\<rparr>
     EnrollmentTransport"

definition http_enroll ::
    "(enrollment_request \<Rightarrow> bytes option) \<Rightarrow> (bytes \<Rightarrow> enrollment_response option)
     \<Rightarrow> http_enrollment_client client_call" where
  "http_enroll jenc jdec request c w =
     (case jenc request of
        None \<Rightarrow> (Inl EnrollmentTransport, c, w)
      | Some body \<Rightarrow>
          (case post_json (join_url (hec_server_url c) ENROLL_PATH) body w of
             (Inl e, w') \<Rightarrow> (Inl e, c, w')
           | (Inr response, w') \<Rightarrow>
               if \<not> is_success (resp_status response) then (Inl EnrollmentRejected, c, w')
               else (case jdec (resp_body response) of
                       None \<Rightarrow> (Inl EnrollmentRejected, c, w')
                     | Some parsed \<Rightarrow> (Inr parsed, c\<lparr>hec_last_response := Some parsed\<rparr>, w'))))"

section \<open>The contract of the client\<close>

text \<open>The one request a call may send: the encoded request, to the enrollment path of the server.\<close>

definition enroll_post ::
    "(enrollment_request \<Rightarrow> bytes option) \<Rightarrow> http_enrollment_client \<Rightarrow> enrollment_request \<Rightarrow> event \<Rightarrow> bool" where
  "enroll_post jenc c rq e \<longleftrightarrow> (\<exists>body. jenc rq = Some body \<and> e = Sent POST
     \<lparr>req_url = join_url (hec_server_url c) ENROLL_PATH,
      req_headers = [(lit ''content-type'', lit ''application/json'')], req_body = body\<rparr>)"

lemma post_json_confined:
  assumes "post_json url body w = (r, w')"
  shows "confined P (\<lambda>e. e = Sent POST \<lparr>req_url = url,
      req_headers = [(lit ''content-type'', lit ''application/json'')], req_body = body\<rparr>) w w'"
  using keepsD [OF keeps_exchange assms [unfolded post_json_def]] by simp

interpretation http: api_client "http_enroll jenc jdec" "enroll_post jenc" for jenc jdec
proof
  fix rq c w r c' w'
  assume run: "http_enroll jenc jdec rq c w = (r, c', w')"
  show "confined (\<lambda>_ _. False) (enroll_post jenc c rq) w w'"
  proof (cases "jenc rq")
    case None
    with run show ?thesis by (simp add: http_enroll_def)
  next
    case (Some body)
    obtain x v where x: "post_json (join_url (hec_server_url c) ENROLL_PATH) body w = (x, v)" by fastforce
    have "v = w'" using run Some x by (auto simp: http_enroll_def split: sum.splits if_splits option.splits)
    moreover have "confined (\<lambda>_ _. False) (enroll_post jenc c rq) w v"
      by (rule confined_mono [OF post_json_confined [OF x]]) (use Some in \<open>auto simp: enroll_post_def\<close>)
    ultimately show ?thesis by simp
  qed
qed

lemma http_enroll_messages:
  assumes "http_enroll jenc jdec rq c w = (r, c', w')"
  shows "messages (trace w') = messages (trace w)
    \<or> (\<exists>e. enroll_post jenc c rq e \<and> messages (trace w') = messages (trace w) @ [e])"
proof (cases "jenc rq")
  case None
  with assms show ?thesis by (simp add: http_enroll_def)
next
  case (Some body)
  with assms have "messages (trace w') = messages (trace w) @ [Sent POST
      \<lparr>req_url = join_url (hec_server_url c) ENROLL_PATH,
       req_headers = [(lit ''content-type'', lit ''application/json'')], req_body = body\<rparr>]"
    by (auto simp: http_enroll_def post_json_def http_exchange_def split: sum.splits if_splits option.splits prod.splits)
  with Some show ?thesis by (auto simp: enroll_post_def)
qed

section \<open>What an enrollment does to the machine\<close>

lemma enroll_messages:
  assumes "enroll L env enc (http_enroll jenc jdec) svc url token hostname c w = (r, c', w')"
  shows "messages (trace w') = messages (trace w)
    \<or> (\<exists>rq e. er_enrollment_token rq = token \<and> er_hostname rq = hostname \<and> enroll_post jenc c rq e
         \<and> messages (trace w') = messages (trace w) @ [e])"
  using assms
proof (cases rule: enroll_cases)
  case enrolled
  then show ?thesis using is_enrolled_frame by fastforce
next
  case (unprepared e)
  with confined_silent [OF keepsD [OF enroll_prepare_keeps unprepared(2)]] show ?thesis by simp
next
  case (refused kp rq w2 e)
  with confined_silent [OF keepsD [OF enroll_prepare_keeps refused(2)]] http_enroll_messages [OF refused(3)]
    enroll_prepare_Inr(5,6) [OF refused(2)]
  show ?thesis by auto
next
  case (answered kp rq w2 resp w3)
  with confined_silent [OF keepsD [OF enroll_prepare_keeps answered(2)]] http_enroll_messages [OF answered(3)]
    enroll_prepare_Inr(5,6) [OF answered(2)] confined_silent [OF keepsD [OF persist_keeps answered(4)]]
  show ?thesis by auto
qed

text \<open>
  C23. An enrollment, whatever the server answers and whichever system call fails, changes no file
  but the two key files and the record: at every moment each of them is as before or complete,
  the private key with mode 0600, the others with what the key, the host name, the URL and the
  answer give, so never with the token. It sends nothing, or one request, to the enrollment
  path of the configured server, and that request is where the token goes.
\<close>

theorem enroll_touches_only_its_files:
  assumes "enroll L env enc (http_enroll jenc jdec) svc url token hostname c w = (r, c', w')"
  shows "\<exists>es. trace w' = trace w @ es
    \<and> (\<forall>m k. m = fs w' \<or> FsNow m \<in> set es \<longrightarrow> \<not> is_tmp k
         \<longrightarrow> m k = fs w k \<or> key_writes L svc k (m k) \<or> record_writes enc svc url hostname k (m k))
    \<and> (messages es = [] \<or> (\<exists>rq e. er_enrollment_token rq = token \<and> er_hostname rq = hostname
         \<and> enroll_post jenc c rq e \<and> messages es = [e]))"
proof -
  have "confined (\<lambda>k n. key_writes L svc k n \<or> record_writes enc svc url hostname k n)
      (enroll_sends (enroll_post jenc) token hostname c) w w'"
    by (rule http.enroll_confined [OF assms keepsD [OF enroll_prepare_keeps]])
  then obtain es where es: "trace w' = trace w @ es"
      "\<And>m. m = fs w' \<or> FsNow m \<in> set es \<Longrightarrow>
         fs_change (\<lambda>k n. key_writes L svc k n \<or> record_writes enc svc url hostname k n) (fs w) m"
    by (rule confined_moments) blast
  with enroll_messages [OF assms] show ?thesis
    by (intro exI [of _ es]) (auto simp: fs_change_def)
qed

text \<open>
  A key that is in place survives every enrollment: as long as looking at its file does not
  fail, no file but the record is written, so neither half of the key is replaced.
\<close>

theorem enroll_keeps_existing_key:
  assumes "enroll L env enc (http_enroll jenc jdec) (enrollment_service_new dir) url token hostname c w = (r, c', w')"
    and "fs w (components dir @ [Normal PRIVATE_KEY_FILE]) \<noteq> None" and "fault w (Suc (tick w)) = None"
    and "k \<noteq> components dir @ [Normal MACHINE_RECORD_FILE]" and "\<not> is_tmp k"
  shows "fs w' k = fs w k"
proof -
  let ?svc = "enrollment_service_new dir"
  have "confined (\<lambda>k n. False \<or> record_writes enc ?svc url hostname k n)
      (enroll_sends (enroll_post jenc) token hostname c) w w'"
  proof (rule http.enroll_confined [OF assms(1)])
    fix Q x v assume "enroll_prepare L env ?svc url token hostname (advance w) = (x, v)"
    with enroll_prepare_existing [of "advance w" ?svc Q L env url token hostname] assms(2,3)
    show "confined (\<lambda>_ _. False) Q (advance w) v" by (simp add: service_files)
  qed
  from confined_fs [OF this assms(5)] assms(4) show ?thesis
    by (auto simp: record_writes_def service_files)
qed

text \<open>
  Input that does not have the documented form enrolls nothing: no file is written, nothing is
  sent and the client is untouched. In particular a server URL with the scheme http is refused,
  which the configuration accepts when insecure TLS is allowed.
\<close>

theorem enroll_rejects_bad_input:
  assumes "\<not> (good_server_url url \<and> good_token token \<and> good_hostname hostname)"
  shows "\<exists>e \<in> {AlreadyEnrolled, InvalidServerUrl, InvalidToken, InvalidHostname}.
    enroll L env enc call svc url token hostname c w = (Inl e, c, advance w)"
proof -
  obtain b w1 where e: "is_enrolled svc w = (b, w1)" by fastforce
  obtain x where x: "x \<in> {InvalidServerUrl, InvalidToken, InvalidHostname}"
      "enroll_prepare L env svc url token hostname (advance w) = (Inl x, advance w)"
    using enroll_prepare_bad [OF assms] by blast
  show ?thesis
  proof (cases b)
    case True
    with e is_enrolled_frame [OF e] show ?thesis by (simp add: enroll_def)
  next
    case False
    with e is_enrolled_frame [OF e] x(2) have "enroll L env enc call svc url token hostname c w = (Inl x, c, advance w)"
      by (simp add: enroll_def)
    with x(1) show ?thesis by blast
  qed
qed

text \<open>
  C26. A key is used only while its file is safe: a plain file, no link, owned by the agent's user,
  with no permission beyond 0600, holding an Ed25519 key. Loading writes nothing.
\<close>

theorem key_used_only_if_secure:
  assumes "load_machine_identity L dec svc w = (Inr i, w')"
  shows "(\<exists>kp. key_file L svc (euid w) kp (fs w) \<and> public_key_openssh L kp = Inr (mi_public_key i)) \<and> fs w' = fs w"
proof -
  from assms obtain kp w1 r where 1: "read_keypair L svc w = (Inr kp, w1)"
      and pk: "public_key_openssh L kp = Inr (mi_public_key i)"
      and 2: "record_load dec (es_record_path svc) w1 = (Inr r, w')"
    by (auto simp: load_machine_identity_def bind_io_Inr into_identity_def bind_res_eq_Inr)
  have "fs w' = fs w1"
    using 2 by (auto simp: record_load_def bind_io_Inr map_err_io_def split: prod.splits dest!: sys_read_frame)
  with read_keypair_Inr [OF 1] pk show ?thesis by auto
qed

section \<open>A restart finds the enrolled identity\<close>

lemma key_file_cong:
  "key_file L svc uid kp m \<Longrightarrow> m' (components (es_private_key_path svc)) = m (components (es_private_key_path svc))
   \<Longrightarrow> key_file L svc uid kp m'"
  by (simp add: key_file_def)

lemma enroll_Inr:
  assumes "enroll L env enc (http_enroll jenc jdec) svc url token hostname c w = (Inr i, c', w')"
    and "key_laws L" and "service_paths_ok svc"
  obtains kp resp v where "key_file L svc (euid w) kp (fs w')" "public_key_openssh L kp = Inr (mi_public_key i)"
    "good_enrollment_response L resp" "mi_machine_id i = en_machine_id resp"
    "mi_heartbeat_interval i = from_secs (en_heartbeat_interval resp)"
    "mi_sync_interval i = from_secs (en_sync_interval resp)"
    "mi_private_key_path i = es_private_key_path svc" "mi_public_key_path i = es_public_key_path svc"
    "record_save enc (to_record i) (es_record_path svc) v = (Inr (), w')"
  using assms(1)
proof (cases rule: enroll_cases)
  case (answered kp rq w2 resp w3)
  let ?priv = "components (es_private_key_path svc)"
  have "key_file L svc (euid w) kp (fs w2)"
    using load_or_generate_Inr [OF enroll_prepare_Inr(4) [OF answered(2)] assms(2,3)] by simp
  moreover have "fs w3 ?priv = fs w2 ?priv"
    using confined_fs [OF http.call_confined [OF answered(3)]] assms(3) by (auto simp: service_paths_ok_def Let_def)
  moreover have "fs w' ?priv = fs w3 ?priv"
    using confined_fs [OF keepsD [OF persist_keeps answered(4)], of ?priv] assms(3)
    by (auto simp: service_paths_ok_def Let_def record_writes_def)
  ultimately have kf: "key_file L svc (euid w) kp (fs w')" by (auto intro: key_file_cong)
  from answered(4) show thesis by (rule persist_Inr) (use that [OF kf] in auto)
qed auto

lemma enroll_record_file:
  assumes "enroll L env enc (http_enroll jenc jdec) svc url token hostname c w = (Inr i, c', w')"
  shows "\<exists>json u. enc (to_record i) = Inr json \<and> fs w' (components (es_record_path svc)) = Some (NFile (json @ [10]) MODE_PUBLIC u)"
  using assms
proof (cases rule: enroll_cases)
  case (answered kp rq w2 resp w3)
  from answered(4) obtain v where "record_save enc (to_record i) (es_record_path svc) v = (Inr (), w')" by (rule persist_Inr)
  then obtain json where "enc (to_record i) = Inr json" "secure_write (es_record_path svc) (json @ [10]) MODE_PUBLIC v = (Inr (), w')"
    by (cases "enc (to_record i)") (auto simp: record_save_def bind_io_def)
  then show ?thesis by (auto dest!: secure_write_result elim!: write_resultE)
qed auto

text \<open>
  C25. The identity a successful enrollment returns is the identity every later start loads from
  the disk, with the time of enrollment cut to the second: the key file passes the checks and
  the record reads back, provided the crates read what they write.
\<close>

theorem enroll_then_load:
  assumes "key_laws L" and json: "\<And>r json. enc r = Inr json \<Longrightarrow> dec (json @ [10]) = Inr r"
    and run: "enroll L env enc (http_enroll jenc jdec) (enrollment_service_new dir) url token hostname c w
        = (Inr i, c', w')"
    and "representable_time (mi_enrolled_at i)"
    and later: "faultless v" "fs v = fs w'" "euid v = euid w"
  shows "fst (load_machine_identity L dec (enrollment_service_new dir) v)
    = Inr (i\<lparr>mi_enrolled_at := whole_second (mi_enrolled_at i)\<rparr>)"
proof -
  let ?svc = "enrollment_service_new dir"
  from run assms(1) service_paths_ok_new obtain kp resp u
    where kf: "key_file L ?svc (euid w) kp (fs w')" and pk: "public_key_openssh L kp = Inr (mi_public_key i)"
      and "good_enrollment_response L resp" "mi_machine_id i = en_machine_id resp"
      and iv: "mi_heartbeat_interval i = from_secs (en_heartbeat_interval resp)"
        "mi_sync_interval i = from_secs (en_sync_interval resp)"
      and paths: "mi_private_key_path i = es_private_key_path ?svc" "mi_public_key_path i = es_public_key_path ?svc"
      and saved: "record_save enc (to_record i) (es_record_path ?svc) u = (Inr (), w')"
    by (rule enroll_Inr)
  from kf later obtain v1 where v1: "read_keypair L ?svc v = (Inr kp, v1)" "fs v1 = fs v" "same_env v v1"
    using read_keypair_ok [of L ?svc v kp] by auto
  have "record_load dec (es_record_path ?svc) v1 = (Inr (to_record i), advance v1)"
    by (rule record_save_load [OF saved]) (use v1 later json in \<open>auto simp: faultless_def same_env_def\<close>)
  with v1(1) pk into_identity_to_record [OF assms(4) iv] paths show ?thesis
    by (simp add: load_machine_identity_def bind_io_def)
qed

section \<open>A fresh machine is enrolled\<close>

text \<open>What the key crate has to deliver for that: a key it can write and whose line is an Ed25519 line.\<close>

definition key_maker :: "libs \<Rightarrow> bool" where
  "key_maker L \<longleftrightarrow> (\<forall>seed. \<exists>k s p. lib_private_random L seed = Some k
     \<and> lib_private_write L (k\<lparr>prk_comment := KEY_COMMENT\<rparr>) = Some s
     \<and> lib_public_write L (k\<lparr>prk_comment := KEY_COMMENT\<rparr>) = Some p \<and> ed25519_line L p)"

definition service_paths :: "enrollment_service \<Rightarrow> path set" where
  "service_paths svc = {es_private_key_path svc, es_public_key_path svc, es_record_path svc}"

definition fresh_machine :: "enrollment_service \<Rightarrow> world \<Rightarrow> bool" where
  "fresh_machine svc w \<longleftrightarrow> calm w \<and> writable (service_paths svc) (fs w)
     \<and> (\<forall>p \<in> service_paths svc. fs w (components p) = None)"

lemma path_exists_None: "calm w \<Longrightarrow> fs w (components p) = None \<Longrightarrow> path_exists p w = (Inr False, advance w)"
  by (simp add: path_exists_def sys_lstat_def sys_query_def calm_def faultless_def)

lemma fresh_keypair:
  assumes "fresh_machine svc w" and "key_maker L" and "service_paths_ok svc"
  obtains kp line w' where "load_or_generate_keypair L svc w = (Inr kp, w')"
    "public_key_openssh L kp = Inr line" "ed25519_line L line"
    "calm w'" "writable (service_paths svc) (fs w')" "same_env w w'"
proof -
  let ?priv = "es_private_key_path svc" and ?pub = "es_public_key_path svc"
  have calm: "calm w" and wr: "writable (service_paths svc) (fs w)"
    and none: "fs w (components ?priv) = None" "fs w (components ?pub) = None"
    using assms(1) by (simp_all add: fresh_machine_def service_paths_def)
  let ?w4 = "advance (advance (advance (advance w)))"
  from assms(2) obtain k s line where k: "lib_private_random L (os_random w (Suc (Suc (Suc (tick w)))) 32) = Some k"
      "lib_private_write L (k\<lparr>prk_comment := KEY_COMMENT\<rparr>) = Some s"
      "lib_public_write L (k\<lparr>prk_comment := KEY_COMMENT\<rparr>) = Some line" "ed25519_line L line"
    unfolding key_maker_def by meson
  let ?kp = "\<lparr>mk_key = k\<lparr>prk_comment := KEY_COMMENT\<rparr>\<rparr>"
  have in_paths: "?priv \<in> service_paths svc" "?pub \<in> service_paths svc" by (simp_all add: service_paths_def)
  have c4: "calm ?w4" using calm by simp
  obtain w5 where w5: "secure_write ?priv (utf8 s) MODE_SECRET ?w4 = (Inr (), w5)" "calm w5"
      "writable (service_paths svc) (fs w5)" "same_env ?w4 w5"
    by (rule calm_write [OF c4 _ in_paths(1), of "utf8 s" MODE_SECRET]) (use wr in auto)
  obtain w6 where w6: "secure_write ?pub (utf8 (line @ [10])) MODE_PUBLIC w5 = (Inr (), w6)" "calm w6"
      "writable (service_paths svc) (fs w6)" "same_env w5 w6"
    by (rule calm_write [OF w5(2,3) in_paths(2), of "utf8 (line @ [10])" MODE_PUBLIC]) auto
  have "load_or_generate_keypair L svc w = (Inr ?kp, w6)"
    using calm none w5(1) w6(1) k
    by (simp add: load_or_generate_keypair_def generate_machine_keypair_def bind_io_def path_exists_None
        keypair_generate_def random_bytes_def write_keypair_def to_openssh_private_def public_key_openssh_def)
  moreover have "same_env w ?w4" by (simp add: same_env_def)
  ultimately show ?thesis
    using that [of ?kp w6 line] k(3,4) w6(2-4) w5(4) by (auto simp: public_key_openssh_def intro: same_env_trans)
qed

text \<open>A server that answers every enrollment of the form with the given response.\<close>

definition enrolling_server ::
    "(enrollment_request \<Rightarrow> bytes option) \<Rightarrow> (bytes \<Rightarrow> enrollment_response option) \<Rightarrow> str \<Rightarrow> str \<Rightarrow> str
     \<Rightarrow> enrollment_response \<Rightarrow> world \<Rightarrow> bool" where
  "enrolling_server jenc jdec server_url token hostname resp w \<longleftrightarrow>
     (\<forall>rq. er_enrollment_token rq = token \<longrightarrow> er_hostname rq = hostname \<longrightarrow>
        (\<exists>body. jenc rq = Some body \<and> (\<forall>t. \<exists>status out.
           http w t POST \<lparr>req_url = join_url server_url ENROLL_PATH,
               req_headers = [(lit ''content-type'', lit ''application/json'')], req_body = body\<rparr>
             = Some \<lparr>resp_status = status, resp_body = out\<rparr> \<and> is_success status \<and> jdec out = Some resp)))"

lemma enrolling_call:
  assumes "enrolling_server jenc jdec (hec_server_url c) token hostname resp w"
    and "er_enrollment_token rq = token" and "er_hostname rq = hostname"
  obtains w' where "http_enroll jenc jdec rq c w = (Inr resp, c\<lparr>hec_last_response := Some resp\<rparr>, w')"
    "fs w' = fs w" "same_env w w'"
proof -
  from assms obtain body status out where b: "jenc rq = Some body" "is_success status" "jdec out = Some resp"
      "http w (tick w) POST \<lparr>req_url = join_url (hec_server_url c) ENROLL_PATH,
               req_headers = [(lit ''content-type'', lit ''application/json'')], req_body = body\<rparr>
             = Some \<lparr>resp_status = status, resp_body = out\<rparr>"
    unfolding enrolling_server_def by blast
  then show ?thesis
    using that by (simp add: http_enroll_def post_json_def http_exchange_def same_env_def)
qed

text \<open>The identity carries what the server answered and what the agent asked with.\<close>

definition enrolled_as :: "enrollment_response \<Rightarrow> str \<Rightarrow> str \<Rightarrow> machine_identity \<Rightarrow> bool" where
  "enrolled_as resp hostname url i \<longleftrightarrow> mi_machine_id i = en_machine_id resp \<and> mi_hostname i = hostname
     \<and> mi_server_url i = url \<and> mi_heartbeat_interval i = from_secs (en_heartbeat_interval resp)
     \<and> mi_sync_interval i = from_secs (en_sync_interval resp)"

lemma fresh_enrolls:
  assumes fresh: "fresh_machine (enrollment_service_new dir) w" and "key_maker L"
    and good: "good_server_url url" "good_token token" "good_hostname hostname" "good_enrollment_response L resp"
    and server: "enrolling_server jenc jdec (hec_server_url c) token hostname resp w"
    and enc: "\<And>i t. mi_enrolled_at i = clock w t \<Longrightarrow> enrolled_as resp hostname url i \<Longrightarrow> \<exists>json. enc (to_record i) = Inr json"
  shows "\<exists>i w'. enroll L env enc (http_enroll jenc jdec) (enrollment_service_new dir) url token hostname c w
      = (Inr i, c\<lparr>hec_last_response := Some resp\<rparr>, w')
    \<and> enrolled_as resp hostname url i \<and> (\<exists>t. mi_enrolled_at i = clock w t) \<and> same_env w w' \<and> calm w'"
proof -
  let ?svc = "enrollment_service_new dir"
  have calm: "calm w" and norec: "fs w (components (es_record_path ?svc)) = None"
    using fresh by (simp_all add: fresh_machine_def service_paths_def)
  have e: "is_enrolled ?svc w = (False, advance w)"
    using calm norec
    by (simp add: is_enrolled_def sys_is_file_def sys_stat_def sys_query_def calm_def faultless_def stat_of_def
        max_links_def numeral_eq_Suc)
  have "fresh_machine ?svc (advance w)" using fresh by (simp add: fresh_machine_def)
  from this \<open>key_maker L\<close> service_paths_ok_new obtain kp line w2
    where g: "load_or_generate_keypair L ?svc (advance w) = (Inr kp, w2)" "public_key_openssh L kp = Inr line"
      "ed25519_line L line" "calm w2" "writable (service_paths ?svc) (fs w2)" "same_env (advance w) w2"
    by (rule fresh_keypair)
  let ?rq = "\<lparr>er_enrollment_token = token, er_hostname = hostname, er_os = he_os env, er_arch = he_arch env,
      er_agent_version = he_version env, er_public_key = line\<rparr>"
  have inputs: "validate_server_url url = Inr ()" "validate_token token = Inr ()" "validate_hostname hostname = Inr ()"
      "validate_enrollment_response L resp = Inr ()" "validate_ed25519_public_key L line = Inr ()"
    using good g(3) by (simp_all add: server_url_check.check_iff token_check.check_iff hostname_check.check_iff
        response_check.check_iff validate_ed25519_public_key_iff)
  have p: "enroll_prepare L env ?svc url token hostname (advance w) = (Inr (kp, ?rq), w2)"
    using g(1,2) inputs by (simp add: enroll_prepare_def create_enrollment_request_def bind_io_def)
  have env2: "same_env w w2" using g(6) by (auto simp: same_env_def)
  have "enrolling_server jenc jdec (hec_server_url c) token hostname resp w2"
    using server env2 by (simp add: enrolling_server_def same_env_def)
  then obtain w3 where call: "http_enroll jenc jdec ?rq c w2 = (Inr resp, c\<lparr>hec_last_response := Some resp\<rparr>, w3)"
      "fs w3 = fs w2" "same_env w2 w3"
    by (rule enrolling_call) auto
  let ?i = "\<lparr>mi_machine_id = en_machine_id resp, mi_hostname = hostname, mi_public_key = line,
      mi_private_key_path = es_private_key_path ?svc, mi_public_key_path = es_public_key_path ?svc,
      mi_enrolled_at = clock w3 (tick w3), mi_server_url = url,
      mi_heartbeat_interval = from_secs (en_heartbeat_interval resp),
      mi_sync_interval = from_secs (en_sync_interval resp)\<rparr>"
  have clk: "clock w3 = clock w" using env2 call(3) by (simp add: same_env_def)
  have "enrolled_as resp hostname url ?i" by (simp add: enrolled_as_def)
  then obtain json where json: "enc (to_record ?i) = Inr json" using enc [of ?i "tick w3"] clk by auto
  have "calm (advance w3)" using calm_same [OF g(4) call(3,2)] by simp
  moreover have "writable (service_paths ?svc) (fs (advance w3))" using g(5) call(2) by simp
  ultimately obtain w4 where w4: "secure_write (es_record_path ?svc) (json @ [10]) MODE_PUBLIC (advance w3) = (Inr (), w4)"
      "same_env (advance w3) w4" "calm w4"
    by (rule calm_write [where p = "es_record_path ?svc"]) (auto simp: service_paths_def)
  have "persist_machine_identity L enc ?svc url hostname kp resp w3 = (Inr ?i, w4)"
    using inputs g(2) json w4(1)
    by (simp add: persist_machine_identity_def bind_io_def now_io_def clock_now_def record_save_def Let_def)
  then have "enroll L env enc (http_enroll jenc jdec) ?svc url token hostname c w
      = (Inr ?i, c\<lparr>hec_last_response := Some resp\<rparr>, w4)"
    using e p call(1) by (simp add: enroll_def)
  moreover have "same_env w w4" using env2 call(3) w4(2) by (auto simp: same_env_def)
  ultimately show ?thesis using clk w4(3) by (intro exI [of _ ?i] exI [of _ w4]) (auto simp: enrolled_as_def)
qed

text \<open>
  A fresh machine with valid input and a server that accepts it is enrolled: the identity
  carries what the server sent, and the client has captured the response.
\<close>

theorem fresh_machine_enrolls:
  assumes "fresh_machine (enrollment_service_new dir) w" and "key_maker L"
    and "good_server_url url" "good_token token" "good_hostname hostname" "good_enrollment_response L resp"
    and "enrolling_server jenc jdec (hec_server_url c) token hostname resp w"
    and "\<And>r. \<exists>json. enc r = Inr json"
  shows "\<exists>i w'. enroll L env enc (http_enroll jenc jdec) (enrollment_service_new dir) url token hostname c w
      = (Inr i, c\<lparr>hec_last_response := Some resp\<rparr>, w') \<and> enrolled_as resp hostname url i"
  using fresh_enrolls [OF assms(1-7), of enc env] assms(8) by blast

section \<open>Concrete enrollments\<close>

definition sample_env :: host_env where
  "sample_env = \<lparr>he_os = lit ''linux'', he_arch = lit ''x86_64'', he_version = lit ''0.1.0'', he_nodename = [104],
     he_release = [54], he_udp_bind = False, he_udp_connect = False, he_local_addr = None\<rparr>"

definition sample_answer :: enrollment_response where
  "sample_answer = \<lparr>en_machine_id = lit ''m'', en_heartbeat_interval = 60, en_sync_interval = 300,
     en_server_identity = sample_key, en_bundle_signing_key = None\<rparr>"

definition sample_host :: world where
  "sample_host = (quiet_world [[RootDir, Normal (lit ''d'')] \<mapsto> NDir MODE_DIR 0])
     \<lparr>http := (\<lambda>_ _ _. Some \<lparr>resp_status = 200, resp_body = []\<rparr>)\<rparr>"

definition sample_service :: enrollment_service where
  "sample_service = enrollment_service_new (lit ''/d'')"

abbreviation sample_enroll where
  "sample_enroll enc \<equiv> enroll sample_libs sample_env enc (http_enroll (\<lambda>_. Some []) (\<lambda>_. Some sample_answer))
     (enrollment_service_new (lit ''/d'')) (lit ''https://h'') (lit ''mf_enroll_a'') (lit ''h'')
     (http_client_new (lit ''https://h''))"

lemma sample_dir_key: "components (lit ''/d'') = [RootDir, Normal (lit ''d'')]"
  by (simp add: components_def segment_component_def lit_def)

lemma sample_inputs: "good_server_url (lit ''https://h'')" "good_token (lit ''mf_enroll_a'')" "good_hostname (lit ''h'')"
    "good_enrollment_response sample_libs sample_answer"
proof -
  show "good_server_url (lit ''https://h'')"
    by (simp add: good_server_url_def lit_def trim_def trim_start_def trim_end_def is_whitespace_def)
  show "good_token (lit ''mf_enroll_a'')"
    unfolding good_token_def
    by (rule exI [of _ "lit ''a''"]) (simp add: lit_def token_char_def is_ascii_alphanumeric_def)
  have "good_label (lit ''h'')"
    by (simp add: good_label_def lit_def is_ascii_alphanumeric_def)
  then show "good_hostname (lit ''h'')"
    unfolding good_hostname_def by (intro conjI exI [of _ "[lit ''h'']"]) (simp_all add: lit_def)
  show "good_enrollment_response sample_libs sample_answer"
    using sample_key_ok(1)
    by (simp add: good_enrollment_response_def sample_answer_def lit_def id_char_def is_ascii_alphanumeric_def)
qed

lemma sample_key_maker: "key_maker sample_libs"
  using sample_key_ok(1)
  by (auto simp: key_maker_def sample_libs_def ed25519_line_def KEY_COMMENT_def sample_key_def list_all_iff lit_def is_scalar_def)

lemma sample_fresh: "fresh_machine (enrollment_service_new (lit ''/d'')) sample_host"
proof -
  let ?svc = "enrollment_service_new (lit ''/d'')" and ?d = "[RootDir, Normal (lit ''d'')]"
  have at: "parent_of p = Inr ?d \<and> components p \<noteq> ?d \<and> \<not> is_tmp (components p)" if "p \<in> service_paths ?svc" for p
  proof -
    have "\<not> is_tmp (components p)"
      using that service_paths_ok_new [of "lit ''/d''"] by (auto simp: service_paths_def service_paths_ok_def Let_def)
    moreover from that obtain f where f: "p = path_join (lit ''/d'') f" "plain_name f"
      by (auto simp: service_paths_def enrollment_service_new_def plain_names)
    moreover have "components p = ?d @ [Normal f]" using components_path_join [OF f(2)] f(1) by (simp add: sample_dir_key)
    ultimately show ?thesis by (simp add: parent_of_def)
  qed
  have fs: "fs sample_host = [?d \<mapsto> NDir MODE_DIR 0]" "fault sample_host t = None" for t
    by (simp_all add: sample_host_def)
  have "\<not> is_tmp ?d" by (simp add: is_tmp_def tmp_prefix_def lit_def)
  with at show ?thesis by (auto simp: fresh_machine_def calm_def faultless_def writable_def fs)
qed

lemma sample_server: "enrolling_server (\<lambda>_. Some []) (\<lambda>_. Some sample_answer) (lit ''https://h'') tok host sample_answer sample_host"
  by (simp add: enrolling_server_def sample_host_def is_success_def)

theorem fresh_machine_enrolls_witness:
  "\<exists>i c' w'. sample_enroll (\<lambda>_. Inr []) sample_host = (Inr i, c', w') \<and> mi_machine_id i = lit ''m''"
  using fresh_machine_enrolls [OF sample_fresh sample_key_maker sample_inputs, of "\<lambda>_. Some []" "\<lambda>_. Some sample_answer"
      "http_client_new (lit ''https://h'')" "\<lambda>_. Inr []" sample_env] sample_server
  by (auto simp: http_client_new_def enrolled_as_def sample_answer_def)

definition sample_record :: machine_record where
  "sample_record = \<lparr>mr_machine_id = lit ''m'', mr_hostname = lit ''h'', mr_server_url = lit ''https://h'',
     mr_heartbeat_interval_secs = 60, mr_sync_interval_secs = 300, mr_enrolled_at_unix = 0\<rparr>"

definition sample_enc :: "machine_record \<Rightarrow> str + bytes" where
  "sample_enc r = (if r = sample_record then Inr [] else Inl [])"

lemma sample_enrolled:
  obtains i c' w' where "sample_enroll sample_enc sample_host = (Inr i, c', w')" "mi_enrolled_at i = 0"
    "same_env sample_host w'"
proof -
  have "\<exists>json. sample_enc (to_record i) = Inr json"
    if "mi_enrolled_at i = clock sample_host t" "enrolled_as sample_answer (lit ''h'') (lit ''https://h'') i" for i t
    using that
    by (simp add: sample_enc_def sample_record_def to_record_def enrolled_as_def sample_answer_def sample_host_def
        unix_timestamp_def)
  from fresh_enrolls [OF sample_fresh sample_key_maker sample_inputs, of "\<lambda>_. Some []" "\<lambda>_. Some sample_answer"
      "http_client_new (lit ''https://h'')" sample_enc sample_env, OF _ this] sample_server that
  show thesis by (auto simp: http_client_new_def sample_host_def)
qed

lemma sample_key_laws: "key_laws sample_libs"
  by (auto simp: key_laws_def sample_libs_def split: if_splits)

theorem enroll_then_load_witness:
  "\<exists>i c' w'. sample_enroll sample_enc sample_host = (Inr i, c', w')
    \<and> fst (load_machine_identity sample_libs (\<lambda>_. Inr sample_record) (enrollment_service_new (lit ''/d'')) w')
        = Inr (i\<lparr>mi_enrolled_at := whole_second (mi_enrolled_at i)\<rparr>)"
proof -
  obtain i c' w' where run: "sample_enroll sample_enc sample_host = (Inr i, c', w')" "mi_enrolled_at i = 0"
      "same_env sample_host w'" by (rule sample_enrolled)
  have "faultless w'" "euid w' = euid sample_host"
    using run(3) faultless_env [OF _ run(3)] by (simp_all add: same_env_def sample_host_def faultless_def)
  moreover have "representable_time (mi_enrolled_at i)"
    using run(2) by (simp add: representable_time_def MIN_TIMESTAMP_def MAX_TIMESTAMP_def)
  ultimately have "fst (load_machine_identity sample_libs (\<lambda>_. Inr sample_record) (enrollment_service_new (lit ''/d'')) w')
        = Inr (i\<lparr>mi_enrolled_at := whole_second (mi_enrolled_at i)\<rparr>)"
    by (intro enroll_then_load [OF sample_key_laws _ run(1)]) (auto simp: sample_enc_def split: if_splits)
  with run(1) show ?thesis by blast
qed

theorem enroll_touches_only_its_files_witness:
  "length (messages (trace (snd (snd (sample_enroll sample_enc sample_host))))) \<le> 1
   \<and> fs (snd (snd (sample_enroll sample_enc sample_host))) [RootDir, Normal (lit ''d'')] = Some (NDir MODE_DIR 0)"
proof -
  obtain r c' w' where run: "sample_enroll sample_enc sample_host = (r, c', w')" by (metis surj_pair)
  have svc: "components (es_private_key_path (enrollment_service_new (lit ''/d''))) \<noteq> [RootDir, Normal (lit ''d'')]"
    "components (es_public_key_path (enrollment_service_new (lit ''/d''))) \<noteq> [RootDir, Normal (lit ''d'')]"
    "components (es_record_path (enrollment_service_new (lit ''/d''))) \<noteq> [RootDir, Normal (lit ''d'')]"
    by (simp_all add: service_files sample_dir_key)
  have "\<not> is_tmp [RootDir, Normal (lit ''d'')]" by (simp add: is_tmp_def tmp_prefix_def lit_def)
  moreover have "trace sample_host = []" "fs sample_host [RootDir, Normal (lit ''d'')] = Some (NDir MODE_DIR 0)"
    by (simp_all add: sample_host_def)
  moreover from enroll_touches_only_its_files [OF run] obtain es where es: "trace w' = trace sample_host @ es"
      and at: "\<forall>m k. m = fs w' \<or> FsNow m \<in> set es \<longrightarrow> \<not> is_tmp k \<longrightarrow> m k = fs sample_host k
        \<or> key_writes sample_libs (enrollment_service_new (lit ''/d'')) k (m k)
        \<or> record_writes sample_enc (enrollment_service_new (lit ''/d'')) (lit ''https://h'') (lit ''h'') k (m k)"
      and sent: "messages es = [] \<or> (\<exists>rq e. er_enrollment_token rq = lit ''mf_enroll_a'' \<and> er_hostname rq = lit ''h''
        \<and> enroll_post (\<lambda>_. Some []) (http_client_new (lit ''https://h'')) rq e \<and> messages es = [e])"
    by blast
  moreover note spec [OF spec [OF at, of "fs w'"], of "[RootDir, Normal (lit ''d'')]"]
  moreover have "length (messages es) \<le> 1" using sent by (elim disjE exE conjE) simp_all
  ultimately show ?thesis using run svc by (simp add: key_writes_def record_writes_def)
qed

definition keyed_host :: world where
  "keyed_host = sample_host\<lparr>fs := (fs sample_host)(
     [RootDir, Normal (lit ''d''), Normal PRIVATE_KEY_FILE] \<mapsto> NFile [104] MODE_SECRET 0,
     [RootDir, Normal (lit ''d''), Normal MACHINE_RECORD_FILE] \<mapsto> NFile [] MODE_PUBLIC 0)\<rparr>"

lemma file_names_differ: "PRIVATE_KEY_FILE \<noteq> MACHINE_RECORD_FILE" "MACHINE_RECORD_FILE \<noteq> PRIVATE_KEY_FILE"
  by (simp_all add: PRIVATE_KEY_FILE_def MACHINE_RECORD_FILE_def lit_def)

lemma keyed_simps: "fault keyed_host t = None" "euid keyed_host = 0"
    "fs keyed_host [RootDir, Normal (lit ''d''), Normal PRIVATE_KEY_FILE] = Some (NFile [104] MODE_SECRET 0)"
    "fs keyed_host [RootDir, Normal (lit ''d''), Normal MACHINE_RECORD_FILE] = Some (NFile [] MODE_PUBLIC 0)"
  by (simp_all add: keyed_host_def sample_host_def file_names_differ)

theorem enroll_keeps_existing_key_witness:
  "fs (snd (snd (sample_enroll sample_enc keyed_host))) [RootDir, Normal (lit ''d''), Normal PRIVATE_KEY_FILE]
     = Some (NFile [104] MODE_SECRET 0)"
proof -
  obtain r c' w' where run: "sample_enroll sample_enc keyed_host = (r, c', w')" by (metis surj_pair)
  have "\<not> is_tmp [RootDir, Normal (lit ''d''), Normal PRIVATE_KEY_FILE]"
    using not_tmp_name [of PRIVATE_KEY_FILE "[RootDir, Normal (lit ''d'')]"]
    by (simp add: PRIVATE_KEY_FILE_def tmp_prefix_def lit_def)
  with enroll_keeps_existing_key [OF run, of "[RootDir, Normal (lit ''d''), Normal PRIVATE_KEY_FILE]"] run
  show ?thesis by (simp add: sample_dir_key keyed_simps file_names_differ)
qed

theorem enroll_rejects_bad_input_witness:
  "\<exists>e. enroll sample_libs sample_env sample_enc mock_enroll (enrollment_service_new (lit ''/d'')) (lit ''http://h'')
      (lit ''mf_enroll_a'') (lit ''h'') (mock_new MockRejected) sample_host = (Inl e, mock_new MockRejected, advance sample_host)"
proof -
  have "\<not> good_server_url (lit ''http://h'')" by (simp add: good_server_url_def lit_def)
  then show ?thesis
    using enroll_rejects_bad_input [of "lit ''http://h''" "lit ''mf_enroll_a''" "lit ''h''" sample_libs sample_env sample_enc
        mock_enroll "enrollment_service_new (lit ''/d'')" "mock_new MockRejected" sample_host] by blast
qed

theorem key_used_only_if_secure_witness:
  "\<exists>i w'. load_machine_identity sample_libs (\<lambda>_. Inr sample_record) (enrollment_service_new (lit ''/d'')) keyed_host
      = (Inr i, w') \<and> fs w' = fs keyed_host"
proof -
  let ?svc = "enrollment_service_new (lit ''/d'')"
  let ?kp = "\<lparr>mk_key = \<lparr>prk_algorithm = AlgEd25519, prk_data = KdEd25519 [], prk_comment = [104]\<rparr>\<rparr>"
  have "from_utf8 [104] = Some [104]" by (simp add: is_cont_def)
  then have "key_file sample_libs ?svc (euid keyed_host) ?kp (fs keyed_host)"
    by (auto simp: key_file_def service_files sample_dir_key keyed_simps from_openssh_private_def sample_libs_def
        mode_within_def)
  then obtain w1 where 1: "read_keypair sample_libs ?svc keyed_host = (Inr ?kp, w1)" "fs w1 = fs keyed_host"
      "same_env keyed_host w1"
    using read_keypair_ok [of sample_libs ?svc keyed_host ?kp] keyed_simps(1) by (auto simp: faultless_def)
  have "sys_read (components (es_record_path ?svc)) w1 = (Inr [], advance w1)"
    using 1 by (simp add: sys_read_ok same_env_def keyed_simps service_files sample_dir_key)
  then obtain i where "load_machine_identity sample_libs (\<lambda>_. Inr sample_record) ?svc keyed_host = (Inr i, advance w1)"
    using 1(1)
    by (auto simp: load_machine_identity_def bind_io_def public_key_openssh_def record_load_def map_err_io_def
        into_identity_def sample_libs_def sample_record_def from_unix_timestamp_def MIN_TIMESTAMP_def MAX_TIMESTAMP_def)
  from this key_used_only_if_secure [OF this] show ?thesis by blast
qed

end
