(* ===== verification/Backoff.thy ===== *)
theory Backoff
  imports Scheduler
begin

text \<open>
  \<open>src/service/backoff.rs\<close>: retrying with exponential backoff. Rust leaves the precision of
  \<open>f64::powi\<close> open, so the power is an argument, about which nothing is assumed: the cap
  makes the delay independent of its quality.
\<close>

section \<open>Definitions\<close>

record backoff_policy =
  bp_initial :: duration
  bp_max :: duration
  bp_multiplier :: f64
  bp_jitter_ratio :: f64

definition backoff_default :: backoff_policy where
  "backoff_default = \<lparr>bp_initial = 2 * NANOS_PER_SEC, bp_max = 60 * NANOS_PER_SEC, bp_multiplier = to_f64 2,
     bp_jitter_ratio = to_f64 (1 / 5)\<rparr>"

text \<open>\<open>(attempt - 1)\<close>, saturating, reinterpreted as an \<open>i32\<close>.\<close>

definition backoff_exponent :: "u32 \<Rightarrow> int" where
  "backoff_exponent attempt = sint (if attempt = 0 then 0 else attempt - 1)"

definition backoff_delay ::
    "(f64 \<Rightarrow> int \<Rightarrow> f64) \<Rightarrow> backoff_policy \<Rightarrow> u32 \<Rightarrow> world \<Rightarrow> duration option \<times> world" where
  "backoff_delay pw policy attempt w =
     (let factor = pw (bp_multiplier policy) (backoff_exponent attempt);
          base = fmul (as_secs_f64 (bp_initial policy)) factor;
          capped = fmax (fmin base (as_secs_f64 (bp_max policy))) (Fin 0)
      in if fless (Fin 0) (bp_jitter_ratio policy)
         then (case next_u64 w of (r, w') \<Rightarrow>
                 (from_secs_f64 (fadd capped (fmul (fmul capped (bp_jitter_ratio policy)) (jitter_fraction r))), w'))
         else (from_secs_f64 (fadd capped (Fin 0)), w))"

definition saturating_add1 :: "u32 \<Rightarrow> u32" where
  "saturating_add1 n = (if n = - 1 then n else n + 1)"

text \<open>
  The retry loop, with the state the operation captures. A panic of the delay computation ends the run; otherwise the result is
  the first success, or the last error once the caller wants to stop.
\<close>

partial_function (option) retry_loop ::
    "(f64 \<Rightarrow> int \<Rightarrow> f64) \<Rightarrow> backoff_policy \<Rightarrow> (duration \<Rightarrow> world \<Rightarrow> world option)
     \<Rightarrow> (world \<Rightarrow> bool \<times> world) \<Rightarrow> (u32 \<Rightarrow> 'c \<Rightarrow> world \<Rightarrow> 'a res \<times> 'c \<times> world)
     \<Rightarrow> u32 \<Rightarrow> error option \<Rightarrow> 'c \<Rightarrow> world \<Rightarrow> ('a res run \<times> 'c \<times> world) option" where
  "retry_loop pw policy sleep should_continue oper attempt last_err c w =
     (case should_continue w of (go, w1) \<Rightarrow>
        if \<not> go then Some (Finished (Inl (unwrap_or last_err EnrollmentTransport)), c, w1)
        else (case oper (saturating_add1 attempt) c w1 of (r, c', w2) \<Rightarrow>
          (case r of
             Inr v \<Rightarrow> Some (Finished (Inr v), c', w2)
           | Inl e \<Rightarrow>
               (case should_continue w2 of (go2, w3) \<Rightarrow>
                  if \<not> go2 then Some (Finished (Inl e), c', w3)
                  else (case backoff_delay pw policy (saturating_add1 attempt) w3 of (d, w4) \<Rightarrow>
                    (case d of
                       None \<Rightarrow> Some (Panic, c', w4)
                     | Some delay \<Rightarrow>
                         Option.bind (sleep delay w4) (\<lambda>w5.
                         retry_loop pw policy sleep should_continue oper (saturating_add1 attempt) (Some e) c' w5)))))))"

definition retry_with_backoff ::
    "(f64 \<Rightarrow> int \<Rightarrow> f64) \<Rightarrow> backoff_policy \<Rightarrow> (duration \<Rightarrow> world \<Rightarrow> world option)
     \<Rightarrow> (world \<Rightarrow> bool \<times> world) \<Rightarrow> (u32 \<Rightarrow> 'c \<Rightarrow> world \<Rightarrow> 'a res \<times> 'c \<times> world)
     \<Rightarrow> 'c \<Rightarrow> world \<Rightarrow> ('a res run \<times> 'c \<times> world) option" where
  "retry_with_backoff pw policy sleep should_continue oper =
     retry_loop pw policy sleep should_continue oper 0 None"

section \<open>Delays\<close>

lemma fmin_max_bounds:
  assumes "0 \<le> m"
  shows "\<exists>c. fmax (fmin x (Fin m)) (Fin 0) = Fin c \<and> 0 \<le> c \<and> c \<le> m"
  using assms by (cases x) (auto simp: fmin_def fmax_def)

lemma representable_whole: "s \<le> 2 ^ 53 \<Longrightarrow> representable (of_nat s)"
  using representable_int [of "int s"] by (simp flip: of_nat_le_iff)

lemma whole_less_max: "s \<le> 2 ^ 53 \<Longrightarrow> (of_nat s :: rat) < F_MAX"
proof -
  assume "s \<le> 2 ^ 53"
  then have "(of_nat s :: rat) \<le> 2 ^ 53" by (simp flip: of_nat_le_iff)
  moreover have "(2 :: rat) ^ 53 < 2 ^ 1024" by (rule power_strict_increasing) auto
  ultimately show ?thesis by (simp add: F_MAX_def)
qed

lemma sum_bounds:
  assumes "0 \<le> a" "a \<le> of_nat s" "0 \<le> b" "b \<le> of_nat s" and "2 * s \<le> 2 ^ 53"
  shows "\<exists>c. fadd (Fin a) (Fin b) = Fin c \<and> 0 \<le> c \<and> c \<le> of_nat (2 * s)"
  using to_f64_bounded [of "a + b" "of_nat (2 * s)"] assms representable_whole [OF assms(5)]
    whole_less_max [OF assms(5)]
  by auto

lemma delay_bounds:
  assumes "bp_max policy = s * NANOS_PER_SEC" and "2 * s \<le> 2 ^ 53"
    and "bp_jitter_ratio policy = Fin j" and "0 \<le> j" and "j \<le> 1"
  shows "\<exists>d w'. backoff_delay pw policy attempt w = (Some d, w') \<and> d \<le> 2 * bp_max policy
    \<and> (j = 0 \<longrightarrow> d \<le> bp_max policy) \<and> (w' = w \<or> w' = advance w)"
proof -
  have s: "s \<le> 2 ^ 53" "s < 2 ^ 64" "2 * s < 2 ^ 64" using assms(2) by auto
  have "as_secs_f64 (bp_max policy) = Fin (of_nat s)" using as_secs_whole [OF s(1)] assms(1) by simp
  then obtain c where c: "fmax (fmin (fmul (as_secs_f64 (bp_initial policy))
      (pw (bp_multiplier policy) (backoff_exponent attempt))) (as_secs_f64 (bp_max policy))) (Fin 0) = Fin c"
      "0 \<le> c" "c \<le> of_nat s"
    using fmin_max_bounds [of "of_nat s"] by auto
  show ?thesis
  proof (cases "j = 0")
    case True
    have "fadd (Fin c) (Fin 0) = to_f64 c" by simp
    then obtain r where r: "fadd (Fin c) (Fin 0) = Fin r" "0 \<le> r" "r \<le> of_nat s"
      using to_f64_bounded [OF c(2,3) representable_whole [OF s(1)] whole_less_max [OF s(1)]] by auto
    obtain d where "from_secs_f64 (Fin r) = Some d" "d \<le> s * NANOS_PER_SEC"
      using from_secs_bounded [OF r(2,3) s(2)] by blast
    with True c(1) r(1) assms(1,3) show ?thesis by (simp add: backoff_delay_def Let_def)
  next
    case False
    obtain u where u: "next_u64 w = (u, advance w)" by (simp add: next_u64_def random_bytes_def)
    obtain q where q: "jitter_fraction u = Fin q" "0 \<le> q" "q \<le> 1" using fraction_bounds by blast
    obtain a where a: "fmul (Fin c) (Fin j) = Fin a" "0 \<le> a" "a \<le> of_nat s"
      using scaled_bounds [OF c(2,3) s(1) assms(4,5)] by blast
    obtain b where b: "fmul (Fin a) (Fin q) = Fin b" "0 \<le> b" "b \<le> of_nat s"
      using scaled_bounds [OF a(2,3) s(1) q(2,3)] by blast
    obtain r where r: "fadd (Fin c) (Fin b) = Fin r" "0 \<le> r" "r \<le> of_nat (2 * s)"
      using sum_bounds [OF c(2,3) b(2,3) assms(2)] by blast
    obtain d where d: "from_secs_f64 (Fin r) = Some d" "d \<le> 2 * s * NANOS_PER_SEC"
      using from_secs_bounded [OF r(2,3) s(3)] by blast
    have "fless (Fin 0) (bp_jitter_ratio policy)" using False assms(3,4) by simp
    with u q(1) a(1) b(1) r(1) c(1) d assms(1,3) False show ?thesis
      by (simp add: backoff_delay_def Let_def del: fadd.simps fmul.simps)
  qed
qed

text \<open>
  Backoff delays are bounded whatever the multiplier, the attempt (also after the
  counter saturates or its exponent turns negative) and the quality of the power function: for
  a maximum of whole seconds and a jitter ratio in [0, 1], computing a delay never panics
  and gives at most twice the maximum; without jitter at most the maximum.
\<close>

theorem backoff_delay_bounded:
  assumes "bp_max policy = s * NANOS_PER_SEC" and "2 * s \<le> 2 ^ 53"
    and "bp_jitter_ratio policy = Fin j" and "0 \<le> j" and "j \<le> 1"
  shows "\<exists>d w'. backoff_delay pw policy attempt w = (Some d, w') \<and> d \<le> 2 * bp_max policy
    \<and> (j = 0 \<longrightarrow> d \<le> bp_max policy) \<and> (w' = w \<or> w' = advance w)"
  using delay_bounds [OF assms] .

theorem backoff_delay_bounded_witness:
  "\<exists>d w'. backoff_delay (\<lambda>_ _. NaN) \<lparr>bp_initial = 2 * NANOS_PER_SEC, bp_max = 60 * NANOS_PER_SEC,
      bp_multiplier = Fin 2, bp_jitter_ratio = Fin (1 / 4)\<rparr> 3 (quiet_world Map.empty) = (Some d, w')
    \<and> d \<le> 120 * NANOS_PER_SEC"
  using backoff_delay_bounded [of "\<lparr>bp_initial = 2 * NANOS_PER_SEC, bp_max = 60 * NANOS_PER_SEC,
      bp_multiplier = Fin 2, bp_jitter_ratio = Fin (1 / 4)\<rparr>" 60 "1 / 4" "\<lambda>_ _. NaN" 3 "quiet_world Map.empty"]
  by auto

section \<open>The loop\<close>

definition good_policy :: "backoff_policy \<Rightarrow> bool" where
  "good_policy policy \<longleftrightarrow> (\<exists>s j. bp_max policy = s * NANOS_PER_SEC \<and> 2 * s \<le> 2 ^ 53
     \<and> bp_jitter_ratio policy = Fin j \<and> 0 \<le> j \<and> j \<le> 1)"

lemma good_policy_delay:
  assumes "good_policy policy"
  shows "\<exists>d w'. backoff_delay pw policy attempt w = (Some d, w') \<and> same_env w w'"
proof -
  from assms obtain s j where a: "bp_max policy = s * NANOS_PER_SEC" "2 * s \<le> 2 ^ 53"
      "bp_jitter_ratio policy = Fin j" "0 \<le> j" "j \<le> 1"
    by (auto simp: good_policy_def)
  show ?thesis using delay_bounds [OF a, of pw attempt w] by (auto simp: same_env_def)
qed

lemma good_policy_default: "good_policy backoff_default"
proof -
  have "(1 / 5 :: rat) \<le> 1" by simp
  moreover have "representable 1" using representable_int [of 1] by simp
  ultimately obtain j where "to_f64 (1 / 5) = Fin j" "0 \<le> j" "j \<le> 1"
    using to_f64_bounded [of "1 / 5" 1] by (auto simp: F_MAX_def)
  then show ?thesis by (auto simp: good_policy_def backoff_default_def)
qed

definition oper_well_behaved :: "(u32 \<Rightarrow> 'c \<Rightarrow> world \<Rightarrow> 'a res \<times> 'c \<times> world) \<Rightarrow> bool" where
  "oper_well_behaved oper \<longleftrightarrow> (\<forall>a c w. same_env w (snd (snd (oper a c w))))"

abbreviation not_requested :: "world \<Rightarrow> bool \<times> world" where
  "not_requested w \<equiv> (case is_requested w of (b, w') \<Rightarrow> (\<not> b, w'))"

lemma retry_loop_stops:
  assumes "good_policy policy" and "oper_well_behaved oper" and "0 < sl_step sleeper"
    and "\<forall>t \<ge> T. stop_flag w t"
  shows "\<exists>res c' w'. retry_loop pw policy (interruptible_sleep sleeper) not_requested oper attempt last_err c w
        = Some (Finished res, c', w') \<and> same_env w w'
      \<and> ((\<exists>a c1 w1 c2 w2. oper a c1 w1 = (res, c2, w2)) \<or> res = Inl (unwrap_or last_err EnrollmentTransport))"
  using assms(4)
proof (induction "T - tick w" arbitrary: w attempt last_err c rule: less_induct)
  case less
  have adv: "same_env v (advance v)" for v by (simp add: same_env_def)
  show ?case
  proof (cases "stop_flag w (tick w)")
    case True
    then show ?thesis
      by (subst retry_loop.simps) (simp add: is_requested_def stop_requested_def adv)
  next
    case False
    then have T: "tick w < T" using less.prems by (metis not_le)
    let ?n = "saturating_add1 attempt"
    obtain r c2 w2 where op: "oper ?n c (advance w) = (r, c2, w2)" by (metis surj_pair)
    have env2: "same_env (advance w) w2"
      using assms(2) op by (metis oper_well_behaved_def snd_conv)
    have res: "\<exists>a c1 w1 c2 w2. oper a c1 w1 = (r, c2, w2)" using op by blast
    have to2: "same_env w w2" using same_env_trans [OF adv env2] .
    show ?thesis
    proof (cases r)
      case (Inr v)
      with op False res to2 show ?thesis
        by (subst retry_loop.simps) (auto simp: is_requested_def stop_requested_def)
    next
      case (Inl e)
      show ?thesis
      proof (cases "stop_flag w2 (tick w2)")
        case True
        with op Inl False res same_env_trans [OF to2 adv] show ?thesis
          by (subst retry_loop.simps) (auto simp: is_requested_def stop_requested_def)
      next
        case go: False
        obtain d w4 where d: "backoff_delay pw policy ?n (advance w2) = (Some d, w4)" "same_env (advance w2) w4"
          using good_policy_delay [OF assms(1)] by blast
        obtain w5 where w5: "interruptible_sleep sleeper d w4 = Some w5" "same_env w4 w5"
          using sleep_loop_total [OF assms(3), of d w4] by (auto simp: interruptible_sleep_def slept_properly_def)
        have "tick w < tick w5" and "stop_flag w5 = stop_flag w"
          using env2 d(2) w5(2) by (auto simp: same_env_def)
        then have "T - tick w5 < T - tick w" and "\<forall>t \<ge> T. stop_flag w5 t" using T less.prems by auto
        from less.hyps [OF this, of ?n "Some e" c2]
        obtain res c' w' where res: "retry_loop pw policy (interruptible_sleep sleeper) not_requested oper ?n (Some e) c2 w5
              = Some (Finished res, c', w')" "same_env w5 w'" "(\<exists>a c1 w1 c2 w2. oper a c1 w1 = (res, c2, w2)) \<or> res = Inl e"
          unfolding unwrap_or_simps by blast
        then have "\<exists>a c1 w1 c2 w2. oper a c1 w1 = (res, c2, w2)" using op Inl by blast
        moreover have "same_env w w'"
          using same_env_trans [OF same_env_trans [OF same_env_trans [OF to2 adv] d(2)] same_env_trans [OF w5(2) res(2)]] .
        ultimately show ?thesis using res(1) op Inl False go d w5
          by (subst retry_loop.simps) (auto simp: is_requested_def stop_requested_def)
      qed
    qed
  qed
qed

text \<open>
  What holds of the captured state and the world, survives a look at the clock, and is kept by
  the operation, holds when the loop ends; and a success is one of the operation's.
\<close>

lemma backoff_delay_frame: "backoff_delay pw policy attempt w = (d, w') \<Longrightarrow> frame_step w w'"
  by (auto simp: backoff_delay_def next_u64_def random_bytes_def Let_def split: prod.splits if_splits)

lemma retry_loop_inv:
  assumes "retry_loop pw policy sleep go oper attempt last_err c w = Some (x, c', w')" and "I c w"
    and oper: "\<And>a c w r c' w'. I c w \<Longrightarrow> oper a c w = (r, c', w') \<Longrightarrow> I c' w' \<and> (\<forall>v. r = Inr v \<longrightarrow> R v)"
    and look: "\<And>c w w'. I c w \<Longrightarrow> frame_step w w' \<Longrightarrow> I c w'"
    and sleep: "\<And>d w w'. sleep d w = Some w' \<Longrightarrow> frame_step w w'"
    and go: "\<And>w b w'. go w = (b, w') \<Longrightarrow> frame_step w w'"
  shows "I c' w' \<and> (\<forall>v. x = Finished (Inr v) \<longrightarrow> R v)"
proof -
  let ?P = "\<lambda>pw' policy' sleep' go' oper' (attempt :: u32) (last_err :: error option) c w res.
      pw' = pw \<longrightarrow> policy' = policy \<longrightarrow> sleep' = sleep \<longrightarrow> go' = go \<longrightarrow> oper' = oper \<longrightarrow>
      I c w \<longrightarrow> I (fst (snd res)) (snd (snd res)) \<and> (\<forall>v. fst res = Finished (Inr v) \<longrightarrow> R v)"
  have "?P pw policy sleep go oper attempt last_err c w (x, c', w')"
    using assms(1)
  proof (rule retry_loop.raw_induct [of ?P, rotated])
    fix rec pw' policy' sleep' go' oper' attempt last_err c w res
    assume IH: "\<And>pw' policy' sleep' go' oper' attempt last_err c w res.
        rec pw' policy' sleep' go' oper' attempt last_err c w = Some res
        \<Longrightarrow> ?P pw' policy' sleep' go' oper' attempt last_err c w res"
      and run: "(case go' w of (g, w1) \<Rightarrow>
        if \<not> g then Some (Finished (Inl (unwrap_or last_err EnrollmentTransport)), c, w1)
        else (case oper' (saturating_add1 attempt) c w1 of (r, c', w2) \<Rightarrow>
          (case r of
             Inr v \<Rightarrow> Some (Finished (Inr v), c', w2)
           | Inl e \<Rightarrow>
               (case go' w2 of (go2, w3) \<Rightarrow>
                  if \<not> go2 then Some (Finished (Inl e), c', w3)
                  else (case backoff_delay pw' policy' (saturating_add1 attempt) w3 of (d, w4) \<Rightarrow>
                    (case d of
                       None \<Rightarrow> Some (Panic, c', w4)
                     | Some delay \<Rightarrow>
                         Option.bind (sleep' delay w4) (\<lambda>w5.
                         rec pw' policy' sleep' go' oper' (saturating_add1 attempt) (Some e) c' w5))))))) = Some res"
    show "?P pw' policy' sleep' go' oper' attempt last_err c w res"
    proof (intro impI)
      assume eqs: "pw' = pw" "policy' = policy" "sleep' = sleep" "go' = go" "oper' = oper" and I: "I c w"
      let ?n = "saturating_add1 attempt"
      obtain g w1 where g: "go w = (g, w1)" by fastforce
      have I1: "I c w1" using look [OF I go [OF g]] .
      obtain r c2 w2 where op: "oper ?n c w1 = (r, c2, w2)" by (metis surj_pair)
      note I2 = oper [OF I1 op]
      obtain g2 w3 where g2: "go w2 = (g2, w3)" by fastforce
      have I3: "I c2 w3" using look [OF conjunct1 [OF I2] go [OF g2]] .
      obtain d w4 where d: "backoff_delay pw policy ?n w3 = (d, w4)" by fastforce
      have I4: "I c2 w4" using look [OF I3 backoff_delay_frame [OF d]] .
      show "I (fst (snd res)) (snd (snd res)) \<and> (\<forall>v. fst res = Finished (Inr v) \<longrightarrow> R v)"
      proof (cases "g \<and> (\<exists>e. r = Inl e) \<and> g2 \<and> d \<noteq> None")
        case False
        with run eqs g I1 op I2 g2 I3 d I4 show ?thesis by (cases r; cases d) (auto split: if_splits)
      next
        case True
        then obtain e delay where e: "g" "r = Inl e" "g2" "d = Some delay" by auto
        with run eqs g op g2 d obtain w5 where w5: "sleep delay w4 = Some w5"
            "rec pw policy sleep go oper ?n (Some e) c2 w5 = Some res"
          by (auto simp: bind_eq_Some_conv)
        from IH [OF w5(2)] look [OF I4 sleep [OF w5(1)]] show ?thesis by simp
      qed
    qed
  qed
  with assms(2) show ?thesis by simp
qed

text \<open>
  Retrying is cancellable: with the default policy, whatever the operation does, once a
  shutdown request stands the retry loop ends without panicking, and its result is one the
  operation returned, or the transport error if it was never tried.
\<close>

theorem retry_with_backoff_stops:
  assumes "oper_well_behaved oper" and "0 < sl_step sleeper" and "\<forall>t \<ge> T. stop_flag w t"
  shows "\<exists>res c' w'. retry_with_backoff pw backoff_default (interruptible_sleep sleeper)
        (\<lambda>w. case is_requested w of (b, w') \<Rightarrow> (\<not> b, w')) oper c w = Some (Finished res, c', w')
      \<and> ((\<exists>a c1 w1 c2 w2. oper a c1 w1 = (res, c2, w2)) \<or> res = Inl EnrollmentTransport)"
  using retry_loop_stops [OF good_policy_default assms, of pw 0 None c]
  by (simp add: retry_with_backoff_def) blast

theorem retry_with_backoff_stops_witness:
  "\<exists>res c' w'. retry_with_backoff (\<lambda>_ _. Fin 1) backoff_default (interruptible_sleep sleeper_new)
      (\<lambda>w. case is_requested w of (b, w') \<Rightarrow> (\<not> b, w')) (\<lambda>_ n w. (Inl InvalidToken :: unit res, n + 1, w))
      (0 :: nat) ((quiet_world Map.empty)\<lparr>stop_flag := (\<lambda>t. 9 \<le> t)\<rparr>) = Some (Finished res, c', w')"
  using retry_with_backoff_stops [of "\<lambda>_ n w. (Inl InvalidToken :: unit res, n + 1 :: nat, w)" sleeper_new 9
      "(quiet_world Map.empty)\<lparr>stop_flag := (\<lambda>t. 9 \<le> t)\<rparr>" "\<lambda>_ _. Fin 1" 0]
  by (auto simp: oper_well_behaved_def sleeper_step_pos)

end
