(* ===== verification/Daemon.thy ===== *)
theory Daemon
  imports App_State Tls Runtime_State Validation Api_Client Backoff Sync_Safety
begin

text \<open>
  \<open>src/service/daemon.rs\<close> and \<open>src/main.rs\<close>: start-up, enrollment or recovery, and the poll
  loop, composed of the components as the code composes them. The daemon runs with the system
  clock, so every look at the clock is the world's. What may wait for ever is an option (its
  value \<open>None\<close> would be a run that does not return), a panic of the delay arithmetic is a value.
  Logging is not modelled.
\<close>

section \<open>Definitions\<close>

text \<open>The JSON and TOML codecs of the wire and file formats (\<open>serde_json\<close>, \<open>toml\<close>).\<close>

record codecs =
  cd_toml :: "str \<Rightarrow> str + raw_config"
  cd_enroll_request :: "enrollment_request \<Rightarrow> bytes option"
  cd_enroll_response :: "bytes \<Rightarrow> enrollment_response option"
  cd_record_enc :: "machine_record \<Rightarrow> str + bytes"
  cd_record_dec :: "bytes \<Rightarrow> str + machine_record"
  cd_status_enc :: "runtime_status \<Rightarrow> str + bytes"
  cd_status_dec :: "bytes \<Rightarrow> str + runtime_status"
  cd_heartbeat_request :: "heartbeat_request \<Rightarrow> bytes option"
  cd_heartbeat_response :: "bytes \<Rightarrow> heartbeat_response option"
  cd_bundle :: "bytes \<Rightarrow> ca_bundle_response option"
  cd_ack :: "ack_report \<Rightarrow> bytes option"
  cd_ipc_request :: "ipc_request \<Rightarrow> bytes option"
  cd_ipc_response :: "bytes \<Rightarrow> ipc_response option"

text \<open>The crates, the host and the build: what does not change during a run.\<close>

record platform =
  pl_libs :: libs
  pl_codecs :: codecs
  pl_tls :: tls_lib
  pl_host :: host_env
  pl_powi :: "f64 \<Rightarrow> int \<Rightarrow> f64"
  pl_dir_mode :: u32
  pl_env :: "str \<Rightarrow> str option"

definition ENROLLMENT_TOKEN_ENV :: str where
  "ENROLLMENT_TOKEN_ENV = lit ''MAYFLY_AGENT_ENROLLMENT_TOKEN''"

definition enroll_attempt ::
    "platform \<Rightarrow> enrollment_service \<Rightarrow> str \<Rightarrow> str \<Rightarrow> str \<Rightarrow> u32 \<Rightarrow> http_enrollment_client \<Rightarrow> world
     \<Rightarrow> machine_identity res \<times> http_enrollment_client \<times> world" where
  "enroll_attempt pl svc server_url token hostname attempt client w =
     (case enroll (pl_libs pl) (pl_host pl) (cd_record_enc (pl_codecs pl))
         (http_enroll (cd_enroll_request (pl_codecs pl)) (cd_enroll_response (pl_codecs pl)))
         svc server_url token hostname client w of
        (r, client', w1) \<Rightarrow>
          if r = Inl AlreadyEnrolled
          then (case load_machine_identity (pl_libs pl) (cd_record_dec (pl_codecs pl)) svc w1 of
                  (r', w2) \<Rightarrow> (r', client', w2))
          else (r, client', w1))"

text \<open>The retries of \<open>ensure_enrolled\<close>.\<close>

definition enroll_with_retry ::
    "platform \<Rightarrow> interruptible_sleeper \<Rightarrow> enrollment_service \<Rightarrow> config \<Rightarrow> str \<Rightarrow> str \<Rightarrow> world
     \<Rightarrow> (machine_identity res run \<times> http_enrollment_client \<times> world) option" where
  "enroll_with_retry pl sleeper svc c token hostname =
     retry_with_backoff (pl_powi pl) backoff_default (interruptible_sleep sleeper) not_requested
       (enroll_attempt pl svc (cfg_server_url c) token hostname) (http_client_new (cfg_server_url c))"

text \<open>The pin taken from the captured response, when there is one.\<close>

definition pin_captured ::
    "config \<Rightarrow> http_enrollment_client \<Rightarrow> unit io" where
  "pin_captured c client =
     (case hec_last_response client of
        None \<Rightarrow> return_io ()
      | Some response \<Rightarrow>
          bind_io (pin_bundle_signing_key c (en_bundle_signing_key response)) (\<lambda>_. return_io ()))"

definition ensure_enrolled ::
    "platform \<Rightarrow> interruptible_sleeper \<Rightarrow> config \<Rightarrow> enrollment_service \<Rightarrow> host_facts \<Rightarrow> world
     \<Rightarrow> (machine_identity res run \<times> world) option" where
  "ensure_enrolled pl sleeper c svc host w0 =
     (case is_enrolled svc w0 of (enrolled, w1) \<Rightarrow>
        if enrolled
        then (case load_machine_identity (pl_libs pl) (cd_record_dec (pl_codecs pl)) svc w1 of
                (r, w2) \<Rightarrow> Some (Finished r, w2))
        else (case pl_env pl ENROLLMENT_TOKEN_ENV of
                None \<Rightarrow> Some (Finished (Inl InvalidToken), w1)
              | Some token \<Rightarrow>
          (case validate_token token of
             Inl e \<Rightarrow> Some (Finished (Inl e), w1)
           | Inr _ \<Rightarrow>
          (case reqwest_enrollment_new (pl_tls pl) (cfg_allow_insecure_tls c) (cfg_tls_ca_path c) w1 of
             (Inl e, w2) \<Rightarrow> Some (Finished (Inl e), w2)
           | (Inr _, w2) \<Rightarrow>
               Option.bind (enroll_with_retry pl sleeper svc c token (hf_hostname host) w2) (\<lambda>(x, client, w3).
                 case x of
                   Finished (Inr identity) \<Rightarrow>
                     (case pin_captured c client w3 of
                        (Inr _, w4) \<Rightarrow> Some (Finished (Inr identity), w4)
                      | (Inl e, w4) \<Rightarrow> Some (Finished (Inl e), w4))
                 | _ \<Rightarrow> Some (x, w3))))))"

text \<open>\<open>Duration::whole_seconds\<close> truncates toward zero; negative uptimes count as zero.\<close>

definition whole_seconds :: "int \<Rightarrow> int" where
  "whole_seconds d = (if d < 0 then - ((- d) div 1000000000) else d div 1000000000)"

definition uptime_seconds :: "int \<Rightarrow> int \<Rightarrow> u64" where
  "uptime_seconds now startup = of_int (max (whole_seconds (now - startup)) 0)"

definition persist_status :: "codecs \<Rightarrow> runtime_status \<Rightarrow> config \<Rightarrow> world \<Rightarrow> world" where
  "persist_status C st c w = snd (status_save (cd_status_enc C) st c w)"

definition heartbeat_now ::
    "platform \<Rightarrow> host_facts \<Rightarrow> int \<Rightarrow> runtime_status \<Rightarrow> int \<Rightarrow> heartbeat_request" where
  "heartbeat_now pl host startup st now =
     \<lparr>hb_agent_version = he_version (pl_host pl), hb_hostname = hf_hostname host, hb_os = hf_os host,
      hb_kernel = hf_kernel host, hb_ip = hf_ip host, hb_current_generation = st_current_generation st,
      hb_uptime_seconds = uptime_seconds now startup\<rparr>"

definition record_heartbeat ::
    "platform \<Rightarrow> heartbeat_client \<Rightarrow> host_facts \<Rightarrow> int \<Rightarrow> config \<Rightarrow> runtime_status callback" where
  "record_heartbeat pl client host startup c st w =
     (case clock_now w of (now, w1) \<Rightarrow>
       (case send_heartbeat (pl_libs pl) (cd_heartbeat_request (pl_codecs pl)) (cd_heartbeat_response (pl_codecs pl))
           client (heartbeat_now pl host startup st now) w1 of
          (result, w2) \<Rightarrow>
            (let st' = st\<lparr>st_last_heartbeat_unix := Some (unix_timestamp now),
                          st_last_heartbeat_ok := Some (\<not> isl result)\<rparr>
             in (bind_res result (\<lambda>_. Inr ()), st', persist_status (pl_codecs pl) st' c w2))))"

definition outcome_label :: "sync_outcome \<Rightarrow> string \<times> u64" where
  "outcome_label out =
     (case out of
        SyncNotModified g \<Rightarrow> (''not_modified'', g)
      | SyncUnchanged g \<Rightarrow> (''unchanged'', g)
      | SyncUpdated g _ _ \<Rightarrow> (''updated'', g))"

definition record_sync ::
    "platform \<Rightarrow> helper_bundle_applier \<Rightarrow> ca_sync_service \<Rightarrow> config \<Rightarrow> runtime_status callback" where
  "record_sync pl a svc c st w =
     (case synchronize (pl_libs pl) (cd_bundle (pl_codecs pl)) (cd_ack (pl_codecs pl))
         (helper_apply (cd_ipc_request (pl_codecs pl)) (cd_ipc_response (pl_codecs pl)) a) svc w of
        (result, w1) \<Rightarrow>
      case clock_now w1 of (now, w2) \<Rightarrow>
        (let st1 = st\<lparr>st_last_sync_unix := Some (unix_timestamp now)\<rparr>;
             st' = (case result of
                      Inr out \<Rightarrow> (case outcome_label out of (label, g) \<Rightarrow>
                        st1\<lparr>st_last_sync_outcome := Some (lit label), st_current_generation := g\<rparr>)
                    | Inl _ \<Rightarrow> st1\<lparr>st_last_sync_outcome := Some (lit ''error'')\<rparr>)
         in (bind_res result (\<lambda>_. Inr ()), st', persist_status (pl_codecs pl) st' c w2)))"

definition run_poll_loop ::
    "platform \<Rightarrow> interruptible_sleeper \<Rightarrow> heartbeat_client \<Rightarrow> helper_bundle_applier \<Rightarrow> ca_sync_service \<Rightarrow> host_facts
     \<Rightarrow> config \<Rightarrow> int \<Rightarrow> scheduler \<Rightarrow> runtime_status \<Rightarrow> world \<Rightarrow> (scheduler run \<times> runtime_status \<times> world) option" where
  "run_poll_loop pl sleeper client a svc host c startup =
     run_polling (interruptible_sleep sleeper) (record_heartbeat pl client host startup c) (record_sync pl a svc c)
       (\<lambda>_. not_requested) 0"

text \<open>What the main thread holds once everything is loaded.\<close>

record workers =
  wk_heartbeat :: heartbeat_client
  wk_applier :: helper_bundle_applier
  wk_sync :: ca_sync_service
  wk_generation :: u64

definition sync_service_of :: "config \<Rightarrow> machine_identity \<Rightarrow> machine_keypair \<Rightarrow> ca_sync_service" where
  "sync_service_of c identity kp =
     ca_sync_service_new kp (mi_machine_id identity) (mi_server_url identity) (cfg_bundle_signing_public_key c)
       (config_generation_path c) (config_bundle_fingerprint_path c) (config_bundle_signing_key_path c)
       (config_last_sync_path c) (config_last_success_path c)"

definition build_workers ::
    "platform \<Rightarrow> config \<Rightarrow> enrollment_service \<Rightarrow> machine_identity \<Rightarrow> workers io" where
  "build_workers pl c svc identity =
     bind_io (load_machine_keypair (pl_libs pl) svc) (\<lambda>hb_keypair.
     bind_io (load_machine_keypair (pl_libs pl) svc) (\<lambda>sync_keypair.
     bind_io (Runtime_State.read_generation c) (\<lambda>g.
     bind_io (status_load (cd_status_dec (pl_codecs pl)) c) (\<lambda>_.
     bind_io (reqwest_transport_new (pl_tls pl) (cfg_allow_insecure_tls c) (cfg_tls_ca_path c)) (\<lambda>_.
     bind_io (reqwest_transport_new (pl_tls pl) (cfg_allow_insecure_tls c) (cfg_tls_ca_path c)) (\<lambda>_.
     return_io \<lparr>wk_heartbeat = heartbeat_client_new (mi_machine_id identity) hb_keypair (mi_server_url identity),
       wk_applier = helper_applier_new (cfg_helper_socket_path c) (cfg_helper_token_path c),
       wk_sync = sync_service_of c identity sync_keypair, wk_generation = g\<rparr>))))))"

definition initial_status :: "platform \<Rightarrow> machine_identity \<Rightarrow> int \<Rightarrow> u64 \<Rightarrow> runtime_status" where
  "initial_status pl identity startup g =
     runtime_status_default\<lparr>st_agent_version := he_version (pl_host pl), st_machine_id := mi_machine_id identity,
       st_started_at_unix := unix_timestamp startup, st_current_generation := g, st_clean_shutdown := False\<rparr>"

text \<open>The work itself: first contact, the loop, and the record of a clean stop.\<close>

definition daemon_serve ::
    "platform \<Rightarrow> interruptible_sleeper \<Rightarrow> config \<Rightarrow> host_facts \<Rightarrow> int \<Rightarrow> machine_identity \<Rightarrow> workers \<Rightarrow> scheduler
     \<Rightarrow> world \<Rightarrow> (unit res run \<times> world) option" where
  "daemon_serve pl sleeper c host startup identity wk sched w0 =
     (let status0 = initial_status pl identity startup (wk_generation wk)
      in case status_save (cd_status_enc (pl_codecs pl)) status0 c w0 of
           (Inl e, w1) \<Rightarrow> Some (Finished (Inl e), w1)
         | (Inr _, w1) \<Rightarrow>
      (case record_heartbeat pl (wk_heartbeat wk) host startup c status0 w1 of (_, status1, w2) \<Rightarrow>
      (case record_sync pl (wk_applier wk) (wk_sync wk) c status1 w2 of (_, status2, w3) \<Rightarrow>
        Option.bind (run_poll_loop pl sleeper (wk_heartbeat wk) (wk_applier wk) (wk_sync wk) host c startup sched status2 w3)
          (\<lambda>(r, status3, w4).
             case r of
               Panic \<Rightarrow> Some (Panic, w4)
             | Finished _ \<Rightarrow>
                 (case status_save (cd_status_enc (pl_codecs pl)) (status3\<lparr>st_clean_shutdown := True\<rparr>) c w4 of
                    (r', w5) \<Rightarrow> Some (Finished r', w5))))))"

definition daemon_work ::
    "platform \<Rightarrow> interruptible_sleeper \<Rightarrow> app_state \<Rightarrow> host_facts \<Rightarrow> enrollment_service \<Rightarrow> machine_identity
     \<Rightarrow> world \<Rightarrow> (unit res run \<times> world) option" where
  "daemon_work pl sleeper st host svc identity w0 =
     (let c = as_config st in
      case build_workers pl c svc identity w0 of
        (Inl e, w1) \<Rightarrow> Some (Finished (Inl e), w1)
      | (Inr wk, w1) \<Rightarrow>
          (case clock_now w1 of (now, w2) \<Rightarrow>
          (case scheduler_new now (jittered_interval_new (mi_heartbeat_interval identity) (cfg_poll_jitter_ratio c))
               (jittered_interval_new (mi_sync_interval identity) (cfg_poll_jitter_ratio c)) w2 of
             (None, w3) \<Rightarrow> Some (Panic, w3)
           | (Some sched, w3) \<Rightarrow> daemon_serve pl sleeper c host (as_startup_time st) identity wk sched w3)))"

definition log_startup_diagnostics :: "world \<Rightarrow> world" where
  "log_startup_diagnostics w = snd (is_systemd w)"

definition daemon_setup :: "platform \<Rightarrow> config \<Rightarrow> unit io" where
  "daemon_setup pl c w =
     bind_io (ensure_state_dir (pl_dir_mode pl) (cfg_state_dir c)) (\<lambda>_. install_signal_handlers)
       (log_startup_diagnostics w)"

definition daemon_run :: "platform \<Rightarrow> app_state \<Rightarrow> world \<Rightarrow> (unit res run \<times> world) option" where
  "daemon_run pl st w0 =
     (let c = as_config st; sleeper = sleeper_new in
      case daemon_setup pl c w0 of
        (Inl e, w1) \<Rightarrow> Some (Finished (Inl e), w1)
      | (Inr _, w1) \<Rightarrow>
          (let host = gather_host_facts (pl_host pl); svc = enrollment_service_new (cfg_identity_dir c) in
           Option.bind (ensure_enrolled pl sleeper c svc host w1) (\<lambda>(x, w2).
             case x of
               Panic \<Rightarrow> Some (Panic, w2)
             | Finished (Inl e) \<Rightarrow> Some (Finished (Inl e), w2)
             | Finished (Inr identity) \<Rightarrow>
                 (case is_requested w2 of (requested, w3) \<Rightarrow>
                    if requested then Some (Finished (Inr ()), w3)
                    else daemon_work pl sleeper st host svc identity w3))))"

section \<open>The program\<close>

definition config_path :: "platform \<Rightarrow> path" where
  "config_path pl = unwrap_or (pl_env pl (lit ''MAYFLY_AGENT_CONFIG'')) DEFAULT_CONFIG_PATH"

definition run_agent :: "platform \<Rightarrow> config \<Rightarrow> world \<Rightarrow> (unit res run \<times> world) option" where
  "run_agent pl c w0 =
     (case validate_startup (pl_libs pl) (cd_ipc_request (pl_codecs pl)) (cd_ipc_response (pl_codecs pl)) c w0 of
        (report, w1) \<Rightarrow>
      case into_result report of
        Inl e \<Rightarrow> Some (Finished (Inl e), w1)
      | Inr _ \<Rightarrow>
          (case app_state_new system_clock_now c w1 of (st, w2) \<Rightarrow> daemon_run pl st w2))"

datatype exit_code = ExitSuccess | ExitFailure

definition main_program :: "platform \<Rightarrow> world \<Rightarrow> (exit_code run \<times> world) option" where
  "main_program pl w0 =
     (case config_load (pl_libs pl) (cd_toml (pl_codecs pl)) (pl_env pl) (config_path pl) w0 of
        (Inl _, w1) \<Rightarrow> Some (Finished ExitFailure, w1)
      | (Inr c, w1) \<Rightarrow>
          Option.bind (run_agent pl c w1) (\<lambda>(x, w2).
            Some (case x of Panic \<Rightarrow> Panic | Finished (Inr _) \<Rightarrow> Finished ExitSuccess
                          | Finished (Inl _) \<Rightarrow> Finished ExitFailure, w2)))"

end
