(* ===== verification/Daemon_Safety.thy ===== *)
theory Daemon_Safety
  imports Daemon
begin

text \<open>
  What the composed daemon guarantees: it stops when asked to, it enrolls at most when it is
  not enrolled, and the status it reports and persists is never ahead of what is applied.
\<close>

section \<open>Every part passes the environment on\<close>

abbreviation anything :: "('e, 'a) comp \<Rightarrow> bool" where
  "anything m \<equiv> keeps (\<lambda>_ _. True) (\<lambda>_. True) m"

lemma anything_env: "anything m \<Longrightarrow> m w = (r, w') \<Longrightarrow> same_env w w'"
  using keepsD confined_env by blast

lemma anything_secure_write [intro]: "anything (secure_write p c mode)"
  by (rule secure_write_keeps) simp

lemma anything_status_save [intro]: "anything (status_save enc st c)"
  by (rule status_save_keeps) simp

lemma persist_status_env: "same_env w (persist_status C st c w)"
  unfolding persist_status_def by (rule anything_env [OF anything_status_save]) (rule surjective_pairing)

lemma anything_write_timestamp [intro]: "anything (write_timestamp L p)"
  by (rule keeps_write_timestamp) simp

lemma anything_persist_pin [intro]: "anything (persist_pin_if_needed svc b)"
  unfolding persist_pin_if_needed_def by (intro keeps_if keeps_return keeps_bind keeps_read_optional) auto

lemma anything_acknowledge [intro]: "anything (acknowledge L enc svc rep)"
  by (rule keeps_acknowledge) simp

lemma anything_helper_apply: "anything (helper_apply enc dec a body)"
  by (rule keeps_mono [OF helper.apply_keeps]) auto

lemma anything_sync_finish [intro]: "anything (sync_finish L enc (helper_apply hreq hresp a) svc b)"
  unfolding sync_finish_def sync_apply_def persist_after_apply_def write_generation_def write_fingerprint_def Let_def
  by (intro keeps_bind keeps_lift keeps_return anything_helper_apply)
     (auto split: apply_result.splits intro!: keeps_bind)

lemma anything_sync_respond [intro]: "anything (sync_respond L dec enc (helper_apply hreq hresp a) svc ps resp)"
  unfolding sync_respond_def
  by (intro keeps_bind keeps_if keeps_lift keeps_return keeps_now anything_write_timestamp anything_persist_pin
      anything_sync_finish)

lemma anything_synchronize: "anything (synchronize L dec enc (helper_apply hreq hresp a) svc)"
  unfolding synchronize_def
  by (intro keeps_bind keeps_load_state anything_sync_respond keeps_fetch) simp

lemma send_heartbeat_env:
  assumes "send_heartbeat L enc dec client rq w = (r, w')"
  shows "same_env w w'"
proof (cases "enc rq")
  case None
  with assms show ?thesis by (simp add: send_heartbeat_def)
next
  case (Some body)
  let ?w = "advance (advance w)"
  have w: "same_env w ?w" by (simp add: same_env_def)
  let ?m = "\<lambda>now nonce. bind_io (lift_res (sign_request L (hbc_keypair client) (hbc_machine_id client)
                 (unix_timestamp now) nonce (lit ''POST'') HEARTBEAT_PATH body)) (\<lambda>sg.
             bind_io (heartbeat_post \<lparr>req_url = join_url (hbc_server_url client) HEARTBEAT_PATH,
                 req_headers = build_headers sg, req_body = body\<rparr>) (\<lambda>response.
             if \<not> is_success (resp_status response) then lift_res (Inl HeartbeatRejected)
             else lift_res (bind_res (ok_or (dec (resp_body response)) InvalidHeartbeatResponse) (\<lambda>parsed.
               bind_res (Heartbeat.validate_response parsed) (\<lambda>_. Inr parsed)))))"
  have "anything (?m now nonce)" for now nonce
    unfolding heartbeat_post_def by (intro keeps_bind keeps_if keeps_lift keeps_exchange) simp
  moreover obtain now nonce where "?m now nonce ?w = (r, w')"
    using assms Some by (auto simp: send_heartbeat_def clock_now_def generate_nonce_def random_bytes_def)
  ultimately have "same_env ?w w'" by (rule anything_env)
  with w show ?thesis by (rule same_env_trans)
qed

lemma send_heartbeat_still:
  assumes "send_heartbeat L enc dec client rq w = (r, w')"
  shows "same_env w w' \<and> fs w' = fs w \<and> fs_moments (trace w') = fs_moments (trace w)"
  using send_heartbeat_result [OF assms] send_heartbeat_env [OF assms] by (auto split: option.splits)

lemma record_heartbeat_env: "well_behaved (record_heartbeat pl client host startup c)"
  unfolding well_behaved_def
proof (intro allI)
  fix st w
  obtain r w2 where s: "send_heartbeat (pl_libs pl) (cd_heartbeat_request (pl_codecs pl)) (cd_heartbeat_response (pl_codecs pl))
      client (heartbeat_now pl host startup st (clock w (tick w))) (advance w) = (r, w2)" by fastforce
  have "same_env w w2" using send_heartbeat_env [OF s] by (auto simp: same_env_def)
  with same_env_trans [OF this persist_status_env] s
  show "same_env w (snd (snd (record_heartbeat pl client host startup c st w)))"
    by (simp add: record_heartbeat_def clock_now_def Let_def)
qed

lemma record_sync_env: "well_behaved (record_sync pl a svc c)"
  unfolding well_behaved_def
proof (intro allI)
  fix st w
  obtain r w1 where s: "synchronize (pl_libs pl) (cd_bundle (pl_codecs pl)) (cd_ack (pl_codecs pl))
         (helper_apply (cd_ipc_request (pl_codecs pl)) (cd_ipc_response (pl_codecs pl)) a) svc w = (r, w1)" by fastforce
  have "same_env w (advance w1)" using anything_env [OF anything_synchronize s] by (auto simp: same_env_def)
  with same_env_trans [OF this persist_status_env] s
  show "same_env w (snd (snd (record_sync pl a svc c st w)))"
    by (simp add: record_sync_def clock_now_def Let_def)
qed

lemma keeps_load_identity [intro]: "keeps P Q (load_machine_identity L dec svc)"
  unfolding load_machine_identity_def record_load_def
  by (intro keeps_bind keeps_read_keypair keeps_lift keeps_map_err keeps_read)

lemma http_enroll_confined:
  assumes "enroll L env enc (http_enroll jenc jdec) svc url token hostname c w = (r, c', w')"
  shows "confined (\<lambda>k n. key_writes L svc k n \<or> record_writes enc svc url hostname k n)
      (enroll_sends (enroll_post jenc) token hostname c) w w'"
  by (rule http.enroll_confined [OF assms keepsD [OF enroll_prepare_keeps]])

lemma enroll_attempt_env: "oper_well_behaved (enroll_attempt pl svc url token hostname)"
  unfolding oper_well_behaved_def
proof (intro allI)
  fix a c w
  obtain r c' w1 where e: "enroll (pl_libs pl) (pl_host pl) (cd_record_enc (pl_codecs pl))
         (http_enroll (cd_enroll_request (pl_codecs pl)) (cd_enroll_response (pl_codecs pl)))
         svc url token hostname c w = (r, c', w1)" by (metis surj_pair)
  note e1 = confined_env [OF http_enroll_confined [OF e]]
  obtain r' w2 where l: "load_machine_identity (pl_libs pl) (cd_record_dec (pl_codecs pl)) svc w1 = (r', w2)" by fastforce
  have "same_env w1 w2" using confined_env [OF keepsD [OF keeps_load_identity l]] .
  with same_env_trans [OF e1 this] e e1 l
  show "same_env w (snd (snd (enroll_attempt pl svc url token hostname a c w)))"
    by (simp add: enroll_attempt_def)
qed

lemma anything_pin_key [intro]: "anything (pin_bundle_signing_key c key)"
  unfolding pin_bundle_signing_key_def
  by (auto simp: runtime_read_eq split: option.splits intro!: keeps_bind keeps_if)

lemma anything_pin_captured: "anything (pin_captured c client)"
  unfolding pin_captured_def by (auto split: option.splits intro!: keeps_bind)

lemma anything_status_load [intro]: "anything (status_load dec c)"
  unfolding keeps_def
proof
  fix w
  obtain r w' where s: "sys_read (components (status_path c)) w = (r, w')" by fastforce
  have "confined (\<lambda>_ _. True) (\<lambda>_. True) w w'" using keepsD [OF keeps_read(1) s] .
  with s show "confined (\<lambda>_ _. True) (\<lambda>_. True) w (snd (status_load dec c w))"
    by (simp add: status_load_def split: sum.splits)
qed

lemma keeps_runtime_generation [intro]: "keeps P Q (Runtime_State.read_generation c)"
  unfolding Runtime_State.read_generation_def runtime_read_eq
  by (intro keeps_bind keeps_read_optional_string) (auto split: option.splits)

lemma anything_build_workers: "anything (build_workers pl c svc i)"
  unfolding build_workers_def load_machine_keypair_def
  by (intro keeps_bind keeps_read_keypair keeps_runtime_generation anything_status_load keeps_transports keeps_return)

lemma ensure_state_dir_env: "ensure_state_dir dmode p w = (r, w') \<Longrightarrow> same_env w w'"
proof -
  assume e: "ensure_state_dir dmode p w = (r, w')"
  obtain x w1 where d: "create_dirs dmode (rev (components p)) w = (x, w1)" by fastforce
  note e1 = create_dirs_env [OF d]
  have perm: "anything (sys_set_permissions k m)" for k m
    unfolding keeps_def sys_set_permissions_def by (intro allI sys_update_within) (simp add: fs_change_def)
  have "anything (bind_io (ensure_not_symlink p) (\<lambda>_. map_err_io Io (sys_set_permissions (components p) MODE_DIR)))"
    by (intro keeps_bind keeps_checks keeps_map_err perm)
  from anything_env [OF this] e d e1 show ?thesis
    by (auto simp: ensure_state_dir_def bind_io_def map_err_io_def create_dir_all_def split: sum.splits prod.splits
        intro: same_env_trans)
qed

lemma daemon_setup_env:
  assumes "daemon_setup pl c w = (r, w')"
  shows "same_env w w'"
proof -
  let ?v = "log_startup_diagnostics w"
  have "same_env w ?v"
    using is_systemd_frame [of w] by (simp add: log_startup_diagnostics_def) (metis prod.collapse)
  moreover obtain x w1 where e: "ensure_state_dir (pl_dir_mode pl) (cfg_state_dir c) ?v = (x, w1)" by fastforce
  note ensure_state_dir_env [OF e]
  moreover have "same_env w1 w'"
    using assms e anything_env [OF keeps_install] by (cases x) (auto simp: daemon_setup_def bind_io_def)
  ultimately show ?thesis by (blast intro: same_env_trans)
qed

section \<open>The daemon stops\<close>

text \<open>A stop request stands in a world from some tick on, and then in every later world.\<close>

definition stops_from :: "nat \<Rightarrow> world \<Rightarrow> bool" where
  "stops_from T w \<longleftrightarrow> (\<forall>t \<ge> T. stop_flag w t)"

lemma stops_from_env: "stops_from T w \<Longrightarrow> same_env w w' \<Longrightarrow> stops_from T w'"
  by (simp add: stops_from_def same_env_def)

lemma serve_stops:
  assumes "stops_from T w"
  shows "\<exists>x w'. daemon_serve pl sleeper_new c host startup i wk sched w = Some (x, w')"
proof -
  let ?st0 = "initial_status pl i startup (wk_generation wk)"
  obtain r w1 where 1: "status_save (cd_status_enc (pl_codecs pl)) ?st0 c w = (r, w1)" by fastforce
  have s1: "stops_from T w1" using stops_from_env [OF assms anything_env [OF anything_status_save 1]] .
  obtain r2 st2 w2 where 2: "record_heartbeat pl (wk_heartbeat wk) host startup c ?st0 w1 = (r2, st2, w2)" by (metis surj_pair)
  have "same_env w1 w2" using record_heartbeat_env 2 unfolding well_behaved_def by (metis snd_conv)
  note s2 = stops_from_env [OF s1 this]
  obtain r3 st3 w3 where 3: "record_sync pl (wk_applier wk) (wk_sync wk) c st2 w2 = (r3, st3, w3)" by (metis surj_pair)
  have "same_env w2 w3" using record_sync_env 3 unfolding well_behaved_def by (metis snd_conv)
  note s3 = stops_from_env [OF s2 this]
  have "\<exists>x st4 w4. run_poll_loop pl sleeper_new (wk_heartbeat wk) (wk_applier wk) (wk_sync wk) host c startup sched st3 w3
      = Some (x, st4, w4)"
    unfolding run_poll_loop_def
    by (rule run_polling_ends [OF record_heartbeat_env record_sync_env sleeper_step_pos(2) s3 [unfolded stops_from_def]])
  then obtain x st4 w4 where 4: "run_poll_loop pl sleeper_new (wk_heartbeat wk) (wk_applier wk) (wk_sync wk) host c startup
      sched st3 w3 = Some (x, st4, w4)" by blast
  show ?thesis
    using 1 2 3 4 by (cases r; cases x) (auto simp: daemon_serve_def Let_def split: prod.splits)
qed

lemma scheduler_new_env: "scheduler_new now hb sync w = (s, w') \<Longrightarrow> same_env w w'"
  by (auto simp: scheduler_new_def split: prod.splits option.splits dest: due_after_env intro: same_env_trans)

lemma work_stops:
  assumes "stops_from T w"
  shows "\<exists>x w'. daemon_work pl sleeper_new st host svc i w = Some (x, w')"
proof -
  obtain r w1 where 1: "build_workers pl (as_config st) svc i w = (r, w1)" by fastforce
  have "stops_from T (advance w1)"
    using stops_from_env [OF assms anything_env [OF anything_build_workers 1]] by (simp add: stops_from_def)
  moreover obtain s w2 where 2: "scheduler_new (clock w1 (tick w1))
      (jittered_interval_new (mi_heartbeat_interval i) (cfg_poll_jitter_ratio (as_config st)))
      (jittered_interval_new (mi_sync_interval i) (cfg_poll_jitter_ratio (as_config st))) (advance w1) = (s, w2)" by fastforce
  ultimately have "stops_from T w2" using stops_from_env scheduler_new_env by blast
  from 1 2 serve_stops [OF this] show ?thesis
    by (cases r; cases s) (auto simp: daemon_work_def clock_now_def Let_def)
qed

lemma ensure_enrolled_stops:
  assumes "stops_from T w"
  shows "\<exists>x w'. ensure_enrolled pl sleeper_new c svc host w = Some (x, w') \<and> same_env w w'"
proof -
  obtain b w1 where 1: "is_enrolled svc w = (b, w1)" by fastforce
  have e1: "same_env w w1" using is_enrolled_frame [OF 1] by (simp add: same_env_def)
  obtain r w2 where 2: "load_machine_identity (pl_libs pl) (cd_record_dec (pl_codecs pl)) svc w1 = (r, w2)" by fastforce
  have e2: "same_env w w2" using same_env_trans [OF e1 anything_env [OF keeps_load_identity 2]] .
  obtain t w3 where 3: "reqwest_enrollment_new (pl_tls pl) (cfg_allow_insecure_tls c) (cfg_tls_ca_path c) w1 = (t, w3)"
    by fastforce
  have e3: "same_env w w3" using same_env_trans [OF e1 anything_env [OF keeps_transports(2) 3]] .
  have s3: "\<forall>t\<ge>T. stop_flag w3 t" using stops_from_env [OF assms e3] by (simp add: stops_from_def)
  have "\<exists>res cl w4. enroll_with_retry pl sleeper_new svc c token (hf_hostname host) w3 = Some (Finished res, cl, w4)
      \<and> same_env w3 w4" for token
    using retry_loop_stops [OF good_policy_default enroll_attempt_env sleeper_step_pos(2) s3]
    unfolding enroll_with_retry_def retry_with_backoff_def by blast
  then obtain res cl w4 where 4: "\<And>token. enroll_with_retry pl sleeper_new svc c token (hf_hostname host) w3
      = Some (Finished (res token), cl token, w4 token)" "\<And>token. same_env w3 (w4 token)"
    by metis
  have e4: "same_env w (w4 token)" for token using same_env_trans [OF e3 4(2)] .
  have pin: "same_env w w5" if "pin_captured c (cl token) (w4 token) = (x, w5)" for token x w5
    using same_env_trans [OF e4 anything_env [OF anything_pin_captured that]] .
  show ?thesis
  proof (cases b)
    case True
    with 1 2 e2 show ?thesis by (simp add: ensure_enrolled_def)
  next
    case notyet: False
    show ?thesis
    proof (cases "\<exists>token. pl_env pl ENROLLMENT_TOKEN_ENV = Some token \<and> validate_token token = Inr () \<and> t = Inr ()")
      case False
      with 1 3 e1 e3 notyet show ?thesis
        by (cases t) (auto simp: ensure_enrolled_def split: option.splits sum.splits)
    next
      case True
      then obtain token where tok: "pl_env pl ENROLLMENT_TOKEN_ENV = Some token" "validate_token token = Inr ()" "t = Inr ()"
        by blast
      obtain x w5 where 5: "pin_captured c (cl token) (w4 token) = (x, w5)" by fastforce
      from 1 3 4(1) [of token] 5 tok notyet e4 [of token] pin [OF 5] show ?thesis
        by (cases "res token"; cases x) (simp_all add: ensure_enrolled_def)
    qed
  qed
qed

lemma daemon_run_ends:
  assumes "stops_from T w"
  shows "\<exists>x w'. daemon_run pl st w = Some (x, w')"
proof -
  let ?c = "as_config st" and ?host = "gather_host_facts (pl_host pl)"
  let ?svc = "enrollment_service_new (cfg_identity_dir (as_config st))"
  obtain r w1 where 1: "daemon_setup pl ?c w = (r, w1)" by fastforce
  note s1 = stops_from_env [OF assms daemon_setup_env [OF 1]]
  obtain x w2 where 2: "ensure_enrolled pl sleeper_new ?c ?svc ?host w1 = Some (x, w2)" "same_env w1 w2"
    using ensure_enrolled_stops [OF s1] by blast
  have "stops_from T (advance w2)" using stops_from_env [OF s1 2(2)] by (simp add: stops_from_def)
  from work_stops [OF this] 1 2(1) show ?thesis
    by (auto simp: daemon_run_def Let_def is_requested_def stop_requested_def split: sum.splits run.splits)
qed

lemma program_stops:
  assumes "stops_from T w"
  shows "\<exists>code w'. main_program pl w = Some (code, w')"
proof -
  note s = assms
  obtain r w1 where 1: "config_load (pl_libs pl) (cd_toml (pl_codecs pl)) (pl_env pl) (config_path pl) w = (r, w1)" by fastforce
  have "anything (config_load L tm ev p)" for L tm ev p
    unfolding config_load_def by (intro keeps_bind keeps_map_err keeps_read keeps_lift)
  note s1 = stops_from_env [OF s anything_env [OF this 1]]
  show ?thesis
  proof (cases r)
    case (Inl e)
    with 1 show ?thesis by (simp add: main_program_def)
  next
    case (Inr c)
    obtain report w2 where 2: "validate_startup (pl_libs pl) (cd_ipc_request (pl_codecs pl)) (cd_ipc_response (pl_codecs pl)) c w1
        = (report, w2)" by fastforce
    note s2 = stops_from_env [OF s1 confined_env [OF validate_startup_confined [OF 2]]]
    obtain st w3 where 3: "app_state_new system_clock_now c w2 = (st, w3)" by fastforce
    have "stops_from T w3"
      using stops_from_env [OF s2] system_clock.app_state_new_frame [OF 3] by (simp add: frame_step_def)
    from daemon_run_ends [OF this, of pl st] obtain x w4 where "daemon_run pl st w3 = Some (x, w4)" by blast
    with 1 2 3 Inr show ?thesis
      by (auto simp: main_program_def run_agent_def split: sum.splits)
  qed
qed

text \<open>
  C21. The agent stops when asked to: from any start, with any configuration, server, helper, disk
  and clock, also in the middle of retrying an enrollment, the program ends once a termination
  signal stands.
\<close>

theorem agent_stops:
  assumes "\<forall>t \<ge> T. stop_flag w t"
  shows "\<exists>code w'. main_program pl w = Some (code, w')"
  using assms by (intro program_stops) (simp add: stops_from_def)

theorem agent_stops_witness:
  "\<forall>pl. \<exists>code w'. main_program pl ((quiet_world Map.empty)\<lparr>stop_flag := (\<lambda>t. 7 \<le> t)\<rparr>) = Some (code, w')"
  using agent_stops [of 7 "(quiet_world Map.empty)\<lparr>stop_flag := (\<lambda>t. 7 \<le> t)\<rparr>"] by simp

section \<open>Enrollment happens once\<close>

lemma is_enrolled_file:
  assumes "fault w (tick w) = None" and "fs w (components (es_record_path svc)) = Some (NFile bs mo u)"
  shows "is_enrolled svc w = (True, advance w)"
  using assms
  by (simp add: is_enrolled_def sys_is_file_def sys_stat_def sys_query_def stat_of_def max_links_def numeral_eq_Suc)

text \<open>
  C28. A machine with a record is not enrolled again: the start reads no token, sends nothing,
  writes nothing (so it also stores no pin, even if an earlier start was cut off between the
  record and the pin), and its identity is the stored one.
\<close>

theorem enrolled_start_is_passive:
  assumes "fault w (tick w) = None" and "fs w (components (es_record_path svc)) = Some (NFile bs mo u)"
  shows "\<exists>r w'. ensure_enrolled pl sleeper c svc host w = Some (Finished r, w')
    \<and> load_machine_identity (pl_libs pl) (cd_record_dec (pl_codecs pl)) svc (advance w) = (r, w')
    \<and> (\<forall>k. \<not> is_tmp k \<longrightarrow> fs w' k = fs w k) \<and> messages (trace w') = messages (trace w)"
proof -
  obtain r w' where l: "load_machine_identity (pl_libs pl) (cd_record_dec (pl_codecs pl)) svc (advance w) = (r, w')" by fastforce
  have k: "confined (\<lambda>_ _. False) (\<lambda>_. False) (advance w) w'" by (rule keepsD [OF keeps_load_identity l])
  have "ensure_enrolled pl sleeper c svc host w = Some (Finished r, w')"
    using is_enrolled_file [OF assms] l by (simp add: ensure_enrolled_def)
  with l confined_fs [OF k] confined_silent [OF k] show ?thesis by simp
qed

lemma sleep_frame: "0 < sl_step s \<Longrightarrow> interruptible_sleep s d w = Some w' \<Longrightarrow> frame_step w w'"
  using sleep_loop_total [of "sl_step s" d w]
  by (auto simp: interruptible_sleep_def slept_properly_def frame_step_def)

lemma http_not_https: "\<not> good_server_url (lit ''http://'' @ rest)"
  using https_not_http by (metis good_server_url_def)

lemma is_enrolled_none:
  assumes "fs w (components (es_record_path svc)) = None"
  shows "is_enrolled svc w = (False, advance w)"
proof -
  have "stat_of (fs w) (components (es_record_path svc)) = Inl (os_err NotFound)"
    using assms by (simp add: stat_of_def max_links_def numeral_eq_Suc)
  then show ?thesis
    by (simp add: is_enrolled_def sys_is_file_def sys_stat_def sys_query_def split: option.split)
qed

lemma unenrollable_attempt:
  assumes "\<not> good_server_url url" and "m (components (es_record_path svc)) = None"
    and "fs w = m" and "enroll_attempt pl svc url token hostname a cl w = (r, cl', w')"
  shows "fs w' = m \<and> (\<forall>v. r \<noteq> Inr v)"
proof -
  have e: "is_enrolled svc w = (False, advance w)" using assms(2,3) by (simp add: is_enrolled_none)
  have "\<not> (good_server_url url \<and> good_token token \<and> good_hostname hostname)" using assms(1) by simp
  from bexE [OF enroll_prepare_bad [OF this, of "pl_libs pl" "pl_host pl" svc "advance w"]]
  obtain x where x: "x \<in> {InvalidServerUrl, InvalidToken, InvalidHostname}"
      "enroll_prepare (pl_libs pl) (pl_host pl) svc url token hostname (advance w) = (Inl x, advance w)" .
  from e x(2) have "enroll (pl_libs pl) (pl_host pl) (cd_record_enc (pl_codecs pl))
      (http_enroll (cd_enroll_request (pl_codecs pl)) (cd_enroll_response (pl_codecs pl))) svc url token hostname cl w
      = (Inl x, cl, advance w)"
    by (simp add: enroll_def)
  moreover have "Inl x \<noteq> (Inl AlreadyEnrolled :: machine_identity res)" using x(1) by auto
  ultimately have "(r, cl', w') = (Inl x, cl, advance w)" using assms(4) by (simp add: enroll_attempt_def)
  then show ?thesis using assms(3) by simp
qed

text \<open>
  C27. A plaintext server URL that the configuration accepts (scheme http with insecure TLS allowed)
  can never be enrolled with: every attempt fails before the network is used, and the start
  only ever ends with an error, leaving every file as it was.
\<close>

theorem plaintext_url_never_enrolls:
  assumes "cfg_server_url c = lit ''http://'' @ rest"
    and "fs w (components (es_record_path svc)) = None"
    and "ensure_enrolled pl sleeper_new c svc host w = Some (x, w')"
  shows "fs w' = fs w \<and> (\<forall>i. x \<noteq> Finished (Inr i))"
proof -
  have bad: "\<not> good_server_url (cfg_server_url c)" using assms(1) http_not_https by simp
  let ?w1 = "advance w"
  obtain t w2 where 2: "reqwest_enrollment_new (pl_tls pl) (cfg_allow_insecure_tls c) (cfg_tls_ca_path c) ?w1 = (t, w2)"
    by fastforce
  have f2: "fs w2 = fs w"
    using 2
    by (auto simp: reqwest_enrollment_new_def build_transport_def load_root_certs_def bind_io_def map_err_io_def
        split: option.splits prod.splits sum.splits dest!: sys_read_frame)
  have retry: "fs w3 = fs w \<and> (\<forall>i. y \<noteq> Finished (Inr i))"
    if "enroll_with_retry pl sleeper_new svc c token (hf_hostname host) w2 = Some (y, cl, w3)" for token y cl w3
  proof -
    have "fs w3 = fs w \<and> (\<forall>v. y = Finished (Inr v) \<longrightarrow> False)"
    proof (rule retry_loop_inv [where I = "\<lambda>_ v. fs v = fs w"])
      show "retry_loop (pl_powi pl) backoff_default (interruptible_sleep sleeper_new) not_requested
          (enroll_attempt pl svc (cfg_server_url c) token (hf_hostname host)) 0 None (http_client_new (cfg_server_url c)) w2
          = Some (y, cl, w3)"
        using that by (simp add: enroll_with_retry_def retry_with_backoff_def)
    next
      fix a c' v r c'' v'
      assume "fs v = fs w" "enroll_attempt pl svc (cfg_server_url c) token (hf_hostname host) a c' v = (r, c'', v')"
      from unenrollable_attempt [OF bad assms(2) this] show "fs v' = fs w \<and> (\<forall>i. r = Inr i \<longrightarrow> False)" by blast
    next
      fix d v v'
      show "interruptible_sleep sleeper_new d v = Some v' \<Longrightarrow> frame_step v v'"
        by (rule sleep_frame [OF sleeper_step_pos(2)])
    qed (use f2 in \<open>auto simp: frame_step_def is_requested_def stop_requested_def same_env_def\<close>)
    then show ?thesis by blast
  qed
  show ?thesis
  proof (cases "\<exists>token. pl_env pl ENROLLMENT_TOKEN_ENV = Some token \<and> validate_token token = Inr () \<and> t = Inr ()")
    case False
    with assms(3) is_enrolled_none [OF assms(2)] 2 f2 show ?thesis
      by (cases t) (auto simp: ensure_enrolled_def split: option.splits sum.splits)
  next
    case True
    then obtain token where tok: "pl_env pl ENROLLMENT_TOKEN_ENV = Some token" "validate_token token = Inr ()" "t = Inr ()"
      by blast
    with assms(3) is_enrolled_none [OF assms(2)] 2 obtain y cl w3
      where y: "enroll_with_retry pl sleeper_new svc c token (hf_hostname host) w2 = Some (y, cl, w3)"
      by (auto simp: ensure_enrolled_def bind_eq_Some_conv)
    note r = retry [OF y]
    then have "y = Panic \<or> (\<exists>e. y = Finished (Inl e))" by (cases y) (auto, metis sum.exhaust)
    then have "(x, w') = (y, w3)"
      using assms(3) is_enrolled_none [OF assms(2)] 2 tok y by (auto simp: ensure_enrolled_def)
    with r show ?thesis by simp
  qed
qed

section \<open>The reported generation is applied\<close>

text \<open>The files in the state directory have different names.\<close>

lemma state_dir_files:
  "components (config_generation_path c) = components (cfg_state_dir c) @ [Normal GENERATION_FILE]"
  "components (config_bundle_fingerprint_path c) = components (cfg_state_dir c) @ [Normal BUNDLE_FINGERPRINT_FILE]"
  "components (config_bundle_signing_key_path c) = components (cfg_state_dir c) @ [Normal SIGNING_KEY_FILE]"
  "components (config_last_sync_path c) = components (cfg_state_dir c) @ [Normal LAST_SYNC_FILE]"
  "components (config_last_success_path c) = components (cfg_state_dir c) @ [Normal LAST_SUCCESS_FILE]"
  "components (status_path c) = components (cfg_state_dir c) @ [Normal RUNTIME_STATUS_FILE]"
proof -
  have "plain_name GENERATION_FILE" "plain_name BUNDLE_FINGERPRINT_FILE" "plain_name SIGNING_KEY_FILE"
    "plain_name LAST_SYNC_FILE" "plain_name LAST_SUCCESS_FILE" "plain_name RUNTIME_STATUS_FILE"
    by (simp_all add: plain_name_def GENERATION_FILE_def BUNDLE_FINGERPRINT_FILE_def SIGNING_KEY_FILE_def
        LAST_SYNC_FILE_def LAST_SUCCESS_FILE_def RUNTIME_STATUS_FILE_def lit_def)
  then show
    "components (config_generation_path c) = components (cfg_state_dir c) @ [Normal GENERATION_FILE]"
    "components (config_bundle_fingerprint_path c) = components (cfg_state_dir c) @ [Normal BUNDLE_FINGERPRINT_FILE]"
    "components (config_bundle_signing_key_path c) = components (cfg_state_dir c) @ [Normal SIGNING_KEY_FILE]"
    "components (config_last_sync_path c) = components (cfg_state_dir c) @ [Normal LAST_SYNC_FILE]"
    "components (config_last_success_path c) = components (cfg_state_dir c) @ [Normal LAST_SUCCESS_FILE]"
    "components (status_path c) = components (cfg_state_dir c) @ [Normal RUNTIME_STATUS_FILE]"
    by (simp_all add: config_generation_path_def config_bundle_fingerprint_path_def config_bundle_signing_key_path_def
        config_last_sync_path_def config_last_success_path_def status_path_def components_path_join)
qed

lemma state_names_distinct:
  "distinct [GENERATION_FILE, BUNDLE_FINGERPRINT_FILE, SIGNING_KEY_FILE, LAST_SYNC_FILE, LAST_SUCCESS_FILE, RUNTIME_STATUS_FILE]"
  by (simp add: GENERATION_FILE_def BUNDLE_FINGERPRINT_FILE_def SIGNING_KEY_FILE_def
        LAST_SYNC_FILE_def LAST_SUCCESS_FILE_def RUNTIME_STATUS_FILE_def)

lemma state_names_not_tmp:
  "f \<in> {GENERATION_FILE, BUNDLE_FINGERPRINT_FILE, SIGNING_KEY_FILE, LAST_SYNC_FILE, LAST_SUCCESS_FILE, RUNTIME_STATUS_FILE}
   \<Longrightarrow> \<not> is_tmp (d @ [Normal f])"
  by (rule not_tmp_name) (auto simp: GENERATION_FILE_def BUNDLE_FINGERPRINT_FILE_def SIGNING_KEY_FILE_def
        LAST_SYNC_FILE_def LAST_SUCCESS_FILE_def RUNTIME_STATUS_FILE_def tmp_prefix_def lit_def)

lemma sync_service_paths [simp]:
  "cs_generation_path (sync_service_of c i kp) = config_generation_path c"
  "cs_fingerprint_path (sync_service_of c i kp) = config_bundle_fingerprint_path c"
  "cs_signing_key_path (sync_service_of c i kp) = config_bundle_signing_key_path c"
  "cs_last_sync_path (sync_service_of c i kp) = config_last_sync_path c"
  "cs_last_success_path (sync_service_of c i kp) = config_last_success_path c"
  "cs_pinned_signing_key (sync_service_of c i kp) = cfg_bundle_signing_public_key c"
  by (simp_all add: sync_service_of_def ca_sync_service_new_def)

lemma sync_service_paths_ok: "state_paths_ok (sync_service_of c i kp)"
  using state_names_distinct by (simp add: state_paths_ok_def state_dir_files state_names_not_tmp)

text \<open>
  What holds at every moment the daemon's status is used: the environment reports no file as
  missing that is there, the generation file is no link, and the generation in the status is
  not ahead of the one in the state directory.
\<close>

definition generation_sound :: "ca_sync_service \<Rightarrow> runtime_status \<Rightarrow> world \<Rightarrow> bool" where
  "generation_sound svc st w \<longleftrightarrow> honest w \<and> (\<forall>t u. fs w (components (cs_generation_path svc)) \<noteq> Some (NLink t u))
     \<and> unat (st_current_generation st) \<le> generation_level (stored_generation svc (fs w))"

lemma generation_sound_still:
  "generation_sound svc st w \<Longrightarrow> same_env w w' \<Longrightarrow> fs w' = fs w \<Longrightarrow> generation_sound svc st w'"
  by (auto simp: generation_sound_def honest_env)

lemma generation_sound_frame: "generation_sound svc st w \<Longrightarrow> frame_step w w' \<Longrightarrow> generation_sound svc st w'"
  by (auto simp: frame_step_def intro: generation_sound_still)

lemma stored_generation_cong:
  "fs w' (components (cs_generation_path svc)) = fs w (components (cs_generation_path svc))
   \<Longrightarrow> (\<And>t u. fs w (components (cs_generation_path svc)) \<noteq> Some (NLink t u))
   \<Longrightarrow> stored_generation svc (fs w') = stored_generation svc (fs w)"
  using text_of_cong [of "fs w" "cs_generation_path svc" "fs w'"] by (simp add: stored_generation_def)

lemma generation_sound_persist:
  assumes "generation_sound (sync_service_of c i kp) st w"
  shows "generation_sound (sync_service_of c i kp) st (persist_status C st' c w)"
proof -
  let ?svc = "sync_service_of c i kp" and ?w = "persist_status C st' c w"
  have "keeps (\<lambda>k _. k = components (status_path c)) (\<lambda>_. True) (status_save (cd_status_enc C) st' c)"
    by (rule status_save_keeps) simp
  then have k: "confined (\<lambda>k _. k = components (status_path c)) (\<lambda>_. True) w ?w"
    by (simp add: keeps_def persist_status_def)
  have "fs ?w (components (cs_generation_path ?svc)) = fs w (components (cs_generation_path ?svc))"
    using confined_fs [OF k] state_names_distinct state_names_not_tmp by (fastforce simp: state_dir_files)
  with assms stored_generation_cong [of ?w ?svc w] honest_env [OF _ confined_env [OF k]] show ?thesis
    by (simp add: generation_sound_def)
qed

lemma heartbeat_keeps_sound: "keeps_inv (generation_sound (sync_service_of c i kp)) (record_heartbeat pl client host startup c)"
  unfolding keeps_inv_def
proof (intro allI impI)
  fix st w
  let ?svc = "sync_service_of c i kp"
  assume s: "generation_sound ?svc st w"
  obtain r w2 where h: "send_heartbeat (pl_libs pl) (cd_heartbeat_request (pl_codecs pl)) (cd_heartbeat_response (pl_codecs pl))
      client (heartbeat_now pl host startup st (clock w (tick w))) (advance w) = (r, w2)" by fastforce
  have "same_env w w2" "fs w2 = fs w" using send_heartbeat_still [OF h] by (auto simp: same_env_def)
  then have "generation_sound ?svc st w2" by (rule generation_sound_still [OF s])
  then have "generation_sound ?svc (st\<lparr>st_last_heartbeat_unix := a, st_last_heartbeat_ok := b\<rparr>) w2" for a b
    by (simp add: generation_sound_def)
  from generation_sound_persist [OF this] h
  show "case record_heartbeat pl client host startup c st w of (_, st', w') \<Rightarrow> generation_sound ?svc st' w'"
    by (simp add: record_heartbeat_def clock_now_def Let_def)
qed

lemma pass_generation:
  assumes "state_paths_ok svc" and "honest w" and "\<And>t u. fs w (components (cs_generation_path svc)) \<noteq> Some (NLink t u)"
    and "synchronize L dec enc (helper_apply hreq hresp a) svc w = (r, w')"
  shows "honest w'" and "fs w' (components (cs_generation_path svc)) \<noteq> Some (NLink t u)"
    and "generation_level (stored_generation svc (fs w)) \<le> generation_level (stored_generation svc (fs w'))"
proof -
  let ?P = "sync_writes svc (accepted L (key_in_force svc (fs w))) (generation_level (stored_generation svc (fs w))) True"
  have "pin_kept svc True w" by (simp add: pin_kept_def)
  note win = helper.synchronize_within [OF assms(1,2) this assms(4)]
  show "honest w'" using honest_env [OF assms(2) confined_env [OF win]] .
  have change: "fs_change ?P (fs w) (fs w')" using win by (simp add: confined_def)
  show "generation_level (stored_generation svc (fs w)) \<le> generation_level (stored_generation svc (fs w'))"
    by (rule generation_after_change [OF assms(1,3) change])
  have "\<not> is_tmp (components (cs_generation_path svc))" using assms(1) by (simp add: state_paths_ok_def)
  with change have "fs w' (components (cs_generation_path svc)) = fs w (components (cs_generation_path svc))
      \<or> ?P (components (cs_generation_path svc)) (fs w' (components (cs_generation_path svc)))"
    by (simp add: fs_change_def)
  with assms(1,3) show "fs w' (components (cs_generation_path svc)) \<noteq> Some (NLink t u)"
    by (auto simp: sync_writes_def state_paths_ok_def)
qed

text \<open>The generation a successful pass reports is the stored one.\<close>

lemma outcome_generation:
  assumes "state_paths_ok svc" and "honest w" and link: "\<And>t u. fs w (components (cs_generation_path svc)) \<noteq> Some (NLink t u)"
    and run: "synchronize L dec enc (helper_apply hreq hresp a) svc w = (Inr out, w')"
  shows "unat (snd (outcome_label out)) = generation_level (stored_generation svc (fs w'))"
proof -
  let ?ps = "\<lparr>ps_generation = stored_generation svc (fs w), ps_fingerprint = stored_fingerprint svc (fs w),
      ps_signing_key = stored_pin svc (fs w)\<rparr>"
  obtain resp w2 where r: "sync_respond L dec enc (helper_apply hreq hresp a) svc ?ps resp w2 = (Inr out, w')"
      and c: "changes_only {} w w2"
    using helper.synchronize_Inr [OF assms(2) run] .
  have same: "stored_generation svc (fs w') = stored_generation svc (fs w)"
    if "changes_only S w2 w'" "components (cs_generation_path svc) \<notin> components ` S" for S
  proof (rule stored_generation_cong [OF _ link])
    have "\<not> is_tmp (components (cs_generation_path svc))" using assms(1) by (simp add: state_paths_ok_def)
    with c that show "fs w' (components (cs_generation_path svc)) = fs w (components (cs_generation_path svc))"
      by (simp add: changes_only_def)
  qed
  from r show ?thesis
  proof (cases rule: helper.sync_respond_Inr)
    case not_modified
    have "components (cs_generation_path svc) \<notin> components ` {cs_last_sync_path svc, cs_last_success_path svc}"
      using assms(1) by (simp add: state_paths_ok_def)
    with same [OF not_modified(3)] not_modified(2) show ?thesis
      by (simp add: outcome_label_def generation_level_def split: option.splits)
  next
    case (unchanged raw now b)
    have "components (cs_generation_path svc) \<notin> components ` {cs_last_sync_path svc, cs_last_success_path svc, cs_signing_key_path svc}"
      using assms(1) by (simp add: state_paths_ok_def)
    with same [OF unchanged(5)] unchanged(2,4) show ?thesis
      by (simp add: outcome_label_def generation_level_def)
  next
    case (updated raw now b w1)
    from updated(2) obtain acked u where "out = SyncUpdated (generation b) (fingerprint b) acked"
        "fs w' (components (cs_generation_path svc)) = Some (NFile (utf8 (show_u64 (generation b) @ [10])) MODE_PUBLIC u)"
      by (rule helper.sync_finish_updated [OF assms(1)]) blast
    with stored_generation_written show ?thesis by (simp add: outcome_label_def generation_level_def)
  qed
qed

lemma record_sync_sound:
  assumes s: "generation_sound (sync_service_of c i kp) st w"
    and run: "record_sync pl a (sync_service_of c i kp) c st w = (r, st', w')"
  shows "generation_sound (sync_service_of c i kp) st' w'"
    and "r = Inr () \<Longrightarrow> unat (st_current_generation st')
      = generation_level (stored_generation (sync_service_of c i kp) (fs w'))"
proof -
  let ?svc = "sync_service_of c i kp" and ?k = "components (config_generation_path c)"
  obtain x w1 where sy: "synchronize (pl_libs pl) (cd_bundle (pl_codecs pl)) (cd_ack (pl_codecs pl))
         (helper_apply (cd_ipc_request (pl_codecs pl)) (cd_ipc_response (pl_codecs pl)) a) ?svc w = (x, w1)" by fastforce
  have h: "honest w" "\<And>t u. fs w (components (cs_generation_path ?svc)) \<noteq> Some (NLink t u)"
    using s by (simp_all add: generation_sound_def)
  note p = pass_generation [OF sync_service_paths_ok h sy]
  have w': "w' = persist_status (pl_codecs pl) st' c (advance w1)"
    and r: "r = bind_res x (\<lambda>_. Inr ())"
    using run sy by (auto simp: record_sync_def clock_now_def Let_def)
  have gen: "st_current_generation st' = (case x of Inr out \<Rightarrow> snd (outcome_label out) | Inl _ \<Rightarrow> st_current_generation st)"
    using run sy by (auto simp: record_sync_def clock_now_def Let_def split: sum.splits prod.splits)
  have "unat (st_current_generation st') \<le> generation_level (stored_generation ?svc (fs w1))"
  proof (cases x)
    case (Inl e)
    with gen s p(3) show ?thesis by (simp add: generation_sound_def)
  next
    case (Inr out)
    with gen outcome_generation [OF sync_service_paths_ok h sy [unfolded Inr]] show ?thesis by simp
  qed
  then have "generation_sound ?svc st' w1" using p(1,2) by (simp add: generation_sound_def)
  then have s1: "generation_sound ?svc st' (advance w1)" by (rule generation_sound_frame) simp
  show "generation_sound ?svc st' w'" unfolding w' by (rule generation_sound_persist [OF s1])
  assume "r = Inr ()"
  then obtain out where out: "x = Inr out" using r by (cases x) auto
  have "keeps (\<lambda>k _. k = components (status_path c)) (\<lambda>_. True) (status_save (cd_status_enc (pl_codecs pl)) st' c)"
    by (rule status_save_keeps) simp
  then have "confined (\<lambda>k _. k = components (status_path c)) (\<lambda>_. True) (advance w1) w'"
    unfolding w' by (simp add: keeps_def persist_status_def)
  from confined_fs [OF this, of ?k] have "fs w' ?k = fs w1 ?k"
    using state_names_distinct state_names_not_tmp by (auto simp: state_dir_files)
  with stored_generation_cong [of w' ?svc w1] p(2) gen out
    outcome_generation [OF sync_service_paths_ok h sy [unfolded out]]
  show "unat (st_current_generation st') = generation_level (stored_generation ?svc (fs w'))" by simp
qed

lemma sync_keeps_sound: "keeps_inv (generation_sound (sync_service_of c i kp)) (record_sync pl a (sync_service_of c i kp) c)"
  unfolding keeps_inv_def
proof (intro allI impI)
  fix st w
  obtain r st' w' where run: "record_sync pl a (sync_service_of c i kp) c st w = (r, st', w')" by (metis surj_pair)
  assume "generation_sound (sync_service_of c i kp) st w"
  from record_sync_sound(1) [OF this run] run
  show "case record_sync pl a (sync_service_of c i kp) c st w of (_, st', w') \<Rightarrow> generation_sound (sync_service_of c i kp) st' w'"
    by simp
qed

lemma poll_loop_sound:
  assumes "generation_sound (sync_service_of c i kp) st w"
    and "run_poll_loop pl sleeper_new client a (sync_service_of c i kp) host c startup sched st w = Some (r, st', w')"
  shows "generation_sound (sync_service_of c i kp) st' w'"
  using assms(2) unfolding run_poll_loop_def
proof (rule run_polling_inv [where I = "generation_sound (sync_service_of c i kp)"])
  show "frame_step v v'" if "interruptible_sleep sleeper_new d v = Some v'" for d v v'
    using sleep_frame [OF sleeper_step_pos(2) that] .
  show "frame_step v v'" if "not_requested v = (b, v')" for v b v'
    using that by (auto simp: is_requested_def stop_requested_def)
qed (use assms(1) heartbeat_keeps_sound sync_keeps_sound generation_sound_frame in blast)+

text \<open>
  One recorded pass: the status never gets ahead of the state directory, whatever the pass ends
  with, and after a successful pass it names exactly the stored generation.
\<close>

theorem record_sync_reports_stored:
  assumes "generation_sound (sync_service_of c i kp) st w"
    and "record_sync pl a (sync_service_of c i kp) c st w = (r, st', w')"
  shows "generation_sound (sync_service_of c i kp) st' w'
    \<and> (r = Inr () \<longrightarrow> unat (st_current_generation st')
          = generation_level (stored_generation (sync_service_of c i kp) (fs w')))"
  using record_sync_sound [OF assms] by blast

section \<open>A clean stop is on record\<close>

lemma heartbeat_sound:
  assumes "generation_sound (sync_service_of c i kp) st w"
    and "record_heartbeat pl client host startup c st w = (r, st', w')"
  shows "generation_sound (sync_service_of c i kp) st' w'"
proof -
  have "case record_heartbeat pl client host startup c st w of (_, st', w') \<Rightarrow> generation_sound (sync_service_of c i kp) st' w'"
    using heartbeat_keeps_sound [of c i kp pl client host startup] assms(1) by (simp add: keeps_inv_def)
  with assms(2) show ?thesis by simp
qed

lemma serve_sound:
  assumes "generation_sound (sync_service_of c i kp) (initial_status pl i startup (wk_generation wk)) w"
    and "wk_sync wk = sync_service_of c i kp"
    and "daemon_serve pl sleeper_new c host startup i wk sched w = Some (Finished (Inr ()), w')"
  obtains st w4 where "status_save (cd_status_enc (pl_codecs pl)) (st\<lparr>st_clean_shutdown := True\<rparr>) c w4 = (Inr (), w')"
    "generation_sound (sync_service_of c i kp) (st\<lparr>st_clean_shutdown := True\<rparr>) w'"
proof -
  let ?svc = "sync_service_of c i kp" and ?st0 = "initial_status pl i startup (wk_generation wk)"
  obtain x w1 where 1: "status_save (cd_status_enc (pl_codecs pl)) ?st0 c w = (x, w1)" by fastforce
  have x: "x = Inr ()" using assms(3) 1 by (cases x) (auto simp: daemon_serve_def Let_def)
  have w1: "w1 = persist_status (pl_codecs pl) ?st0 c w" using 1 by (simp add: persist_status_def)
  have s1: "generation_sound ?svc ?st0 w1"
    unfolding w1 using assms(1) by (simp add: generation_sound_persist)
  obtain r2 st2 w2 where 2: "record_heartbeat pl (wk_heartbeat wk) host startup c ?st0 w1 = (r2, st2, w2)" by (metis surj_pair)
  note s2 = heartbeat_sound [OF s1 2]
  obtain r3 st3 w3 where 3: "record_sync pl (wk_applier wk) (wk_sync wk) c st2 w2 = (r3, st3, w3)" by (metis surj_pair)
  have s3: "generation_sound ?svc st3 w3" using record_sync_sound(1) [OF s2] 3 assms(2) by simp
  let ?loop = "run_poll_loop pl sleeper_new (wk_heartbeat wk) (wk_applier wk) (wk_sync wk) host c startup sched st3 w3"
  have "daemon_serve pl sleeper_new c host startup i wk sched w = Option.bind ?loop (\<lambda>(r, status3, w4).
             case r of
               Panic \<Rightarrow> Some (Panic, w4)
             | Finished _ \<Rightarrow>
                 (case status_save (cd_status_enc (pl_codecs pl)) (status3\<lparr>st_clean_shutdown := True\<rparr>) c w4 of
                    (r', w5) \<Rightarrow> Some (Finished r', w5)))"
    using 1 x 2 3 by (simp add: daemon_serve_def Let_def)
  with assms(3) obtain y st4 w4 where 4: "?loop = Some (y, st4, w4)"
      and rest: "(case y of
               Panic \<Rightarrow> Some (Panic, w4)
             | Finished _ \<Rightarrow>
                 (case status_save (cd_status_enc (pl_codecs pl)) (st4\<lparr>st_clean_shutdown := True\<rparr>) c w4 of
                    (r', w5) \<Rightarrow> Some (Finished r', w5))) = Some (Finished (Inr ()), w')"
    by (cases ?loop) auto
  from rest have 5: "status_save (cd_status_enc (pl_codecs pl)) (st4\<lparr>st_clean_shutdown := True\<rparr>) c w4 = (Inr (), w')"
    by (cases y) (simp_all split: prod.splits)
  have "generation_sound ?svc st4 w4" using poll_loop_sound [OF s3] 4 assms(2) by simp
  then have "generation_sound ?svc (st4\<lparr>st_clean_shutdown := True\<rparr>) w4" by (simp add: generation_sound_def)
  moreover have "w' = persist_status (pl_codecs pl) (st4\<lparr>st_clean_shutdown := True\<rparr>) c w4"
    using 5 by (simp add: persist_status_def)
  ultimately have "generation_sound ?svc (st4\<lparr>st_clean_shutdown := True\<rparr>) w'"
    using generation_sound_persist by blast
  with that 5 show ?thesis by blast
qed

lemma build_workers_Inr:
  assumes "build_workers pl c svc i w = (Inr wk, w')" and "honest w"
  obtains kp where "wk_sync wk = sync_service_of c i kp" "fs w' = fs w" "honest w'"
    "wk_generation wk = unwrap_or (stored_generation (sync_service_of c i kp) (fs w)) 0"
proof -
  let ?tls = "reqwest_transport_new (pl_tls pl) (cfg_allow_insecure_tls c) (cfg_tls_ca_path c)"
  from assms(1) obtain hk w1 sk w2 g w3 x w4 w5 where
      1: "read_keypair (pl_libs pl) svc w = (Inr hk, w1)" and 2: "read_keypair (pl_libs pl) svc w1 = (Inr sk, w2)"
      and 3: "Runtime_State.read_generation c w2 = (Inr g, w3)"
      and 4: "status_load (cd_status_dec (pl_codecs pl)) c w3 = (Inr x, w4)"
      and 5: "?tls w4 = (Inr (), w5)" and 6: "?tls w5 = (Inr (), w')"
      and wk: "wk_sync wk = sync_service_of c i sk" "wk_generation wk = g"
    unfolding build_workers_def load_machine_keypair_def bind_io_Inr by auto
  have f12: "fs w1 = fs w" "fs w2 = fs w1" using read_keypair_Inr(2) [OF 1] read_keypair_Inr(2) [OF 2] by simp_all
  have h2: "honest w2"
    using honest_env [OF honest_env [OF assms(2) anything_env [OF keeps_read_keypair 1]] anything_env [OF keeps_read_keypair 2]] .
  have tls: "fs v' = fs v" if "?tls v = (Inr (), v')" for v v'
    using that
    by (auto simp: reqwest_transport_new_def build_transport_def load_root_certs_def bind_io_Inr map_err_io_def
        split: option.splits prod.splits dest!: sys_read_frame)
  have g: "g = unwrap_or (stored_generation (sync_service_of c i sk) (fs w2)) 0" "fs w3 = fs w2"
    using runtime_read_generation_Inr [OF h2 3, of "sync_service_of c i sk"] by simp_all
  have "fs w4 = fs w3" using 4 by (auto simp: status_load_def split: prod.splits sum.splits if_splits dest!: sys_read_frame)
  with f12 g tls [OF 5] tls [OF 6] have "fs w' = fs w" by simp
  moreover have "honest w'" using honest_env [OF assms(2) anything_env [OF anything_build_workers assms(1)]] .
  ultimately show ?thesis using that [OF wk(1)] wk(2) g(1) f12 by simp
qed

text \<open>
  C22. When the daemon's work ends without an error, the status file the next start reads says that
  the stop was clean, and its generation is not ahead of the one in the state directory.
\<close>

theorem clean_stop_recorded:
  assumes "honest w" and "\<And>t u. fs w (components (config_generation_path (as_config st))) \<noteq> Some (NLink t u)"
    and "daemon_work pl sleeper_new st host svc i w = Some (Finished (Inr ()), w')"
    and json: "\<And>rs bs. cd_status_enc (pl_codecs pl) rs = Inr bs \<Longrightarrow> cd_status_dec (pl_codecs pl) (bs @ [10]) = Inr rs"
    and later: "faultless v" "fs v = fs w'"
  shows "\<exists>rs v'. status_load (cd_status_dec (pl_codecs pl)) (as_config st) v = (Inr (Some rs), v') \<and> st_clean_shutdown rs
    \<and> (\<exists>kp. unat (st_current_generation rs) \<le> generation_level (stored_generation (sync_service_of (as_config st) i kp) (fs v)))"
proof -
  let ?c = "as_config st"
  obtain x w1 where b: "build_workers pl ?c svc i w = (x, w1)" by fastforce
  with assms(3) obtain wk where x: "x = Inr wk" by (cases x) (auto simp: daemon_work_def Let_def)
  obtain kp where wk: "wk_sync wk = sync_service_of ?c i kp" "fs w1 = fs w" "honest w1"
      "wk_generation wk = unwrap_or (stored_generation (sync_service_of ?c i kp) (fs w)) 0"
    using build_workers_Inr [OF b [unfolded x] assms(1)] .
  obtain s w2 where s: "scheduler_new (clock w1 (tick w1))
      (jittered_interval_new (mi_heartbeat_interval i) (cfg_poll_jitter_ratio ?c))
      (jittered_interval_new (mi_sync_interval i) (cfg_poll_jitter_ratio ?c)) (advance w1) = (s, w2)" by fastforce
  have "frame_step (advance w1) w2"
    using s by (auto simp: scheduler_new_def split: prod.splits option.splits dest!: due_after_frame intro: frame_step_trans)
  then have f: "frame_step w1 w2" using frame_step_trans [OF frame_step_simps(2)] by blast
  from assms(3) b x s obtain sched where serve: "daemon_serve pl sleeper_new ?c host (as_startup_time st) i wk sched w2
      = Some (Finished (Inr ()), w')"
    by (cases s) (auto simp: daemon_work_def clock_now_def Let_def)
  have "generation_sound (sync_service_of ?c i kp) (initial_status pl i (as_startup_time st) (wk_generation wk)) w1"
    using wk assms(2) by (auto simp: generation_sound_def initial_status_def generation_level_def split: option.splits)
  from serve_sound [OF generation_sound_frame [OF this f] wk(1) serve] obtain rs w4
    where save: "status_save (cd_status_enc (pl_codecs pl)) (rs\<lparr>st_clean_shutdown := True\<rparr>) ?c w4 = (Inr (), w')"
      and snd: "generation_sound (sync_service_of ?c i kp) (rs\<lparr>st_clean_shutdown := True\<rparr>) w'" .
  have "status_load (cd_status_dec (pl_codecs pl)) ?c v = (Inr (Some (rs\<lparr>st_clean_shutdown := True\<rparr>)), advance v)"
    by (rule status_save_load [OF save]) (use json later in \<open>auto simp: faultless_def\<close>)
  moreover have "unat (st_current_generation (rs\<lparr>st_clean_shutdown := True\<rparr>))
      \<le> generation_level (stored_generation (sync_service_of ?c i kp) (fs v))"
    using snd later(2) by (simp add: generation_sound_def)
  ultimately show ?thesis by (intro exI conjI) (assumption, simp_all)
qed

end
