(* ===== verification/Daemon_Trust.thy ===== *)
theory Daemon_Trust
  imports Daemon_Safety Trust_Protocol
begin

text \<open>
  The running daemon refines the trust protocol: its passes move the generation and the pin as the
  protocol allows, and between its passes nothing it does (heartbeats, status files, waiting)
  touches them; at the end of the run and at every moment of it.
\<close>

section \<open>The trust state of a configuration\<close>

text \<open>The state of the synchronisation service depends on the configuration only.\<close>

definition agent_trust :: "config \<Rightarrow> fsmap \<Rightarrow> trust_state" where
  "agent_trust c m =
     \<lparr>ts_level = generation_level (Option.bind (text_of m (config_generation_path c)) parse_u64),
      ts_pin = text_of m (config_bundle_signing_key_path c)\<rparr>"

abbreviation state_file_keys :: "config \<Rightarrow> fskey set" where
  "state_file_keys c \<equiv> components ` {config_generation_path c, config_bundle_fingerprint_path c, config_bundle_signing_key_path c}"

text \<open>None of the state files is a link.\<close>

definition plain_state :: "config \<Rightarrow> fsmap \<Rightarrow> bool" where
  "plain_state c m \<longleftrightarrow> (\<forall>k \<in> state_file_keys c. \<forall>t u. m k \<noteq> Some (NLink t u))"

lemma agent_trust_service [simp]: "trust_of (sync_service_of c i kp) m = agent_trust c m"
  by (simp add: trust_of_def agent_trust_def stored_generation_def stored_pin_def)

lemma plain_state_service: "no_links (sync_service_of c i kp) m \<longleftrightarrow> plain_state c m"
  by (auto simp: no_links_def plain_state_def split: option.splits elim!: is_link.elims)

lemma state_files_not_tmp: "k \<in> state_file_keys c \<Longrightarrow> \<not> is_tmp k"
  by (auto simp: state_dir_files state_names_not_tmp)

lemma same_state_files:
  assumes "\<And>k. k \<in> state_file_keys c \<Longrightarrow> m' k = m k" and "plain_state c m"
  shows "plain_state c m'" and "agent_trust c m' = agent_trust c m"
proof -
  show "plain_state c m'" using assms by (simp add: plain_state_def)
  have "text_of m' p = text_of m p" if "components p \<in> state_file_keys c" for p
    using assms(1) [OF that] assms(2) that by (intro text_of_cong) (auto simp: plain_state_def)
  then show "agent_trust c m' = agent_trust c m" by (simp add: agent_trust_def)
qed

section \<open>Moves\<close>

text \<open>
  What a part of a run may do to the trust state: from plain state files it goes, at the end and
  at every moment, through plain state files and along the steps \<open>R\<close>.
\<close>

definition moves :: "(trust_state \<Rightarrow> trust_state \<Rightarrow> bool) \<Rightarrow> config \<Rightarrow> world \<Rightarrow> world \<Rightarrow> bool" where
  "moves R c w w' \<longleftrightarrow> same_env w w' \<and> (honest w \<longrightarrow> plain_state c (fs w) \<longrightarrow>
     (\<exists>ms. fs_moments (trace w') = fs_moments (trace w) @ ms
       \<and> (\<forall>m \<in> insert (fs w') (set ms). plain_state c m \<and> R\<^sup>*\<^sup>* (agent_trust c (fs w)) (agent_trust c m))))"

lemma moves_refl [simp]: "moves R c w w"
  by (auto simp: moves_def)

lemma moves_still:
  "same_env w w' \<Longrightarrow> fs w' = fs w \<Longrightarrow> fs_moments (trace w') = fs_moments (trace w) \<Longrightarrow> moves R c w w'"
  by (auto simp: moves_def)

lemma moves_frame [intro]: "frame_step w w' \<Longrightarrow> moves R c w w'"
  by (rule moves_still) (simp_all add: frame_step_moments, simp_all add: frame_step_def)

lemma moves_advance [simp]: "moves R c w (advance w)"
  by (rule moves_frame) simp

lemma moves_trans:
  assumes "moves R c u v" and "moves R c v w"
  shows "moves R c u w"
  unfolding moves_def
proof (intro conjI impI)
  show "same_env u w" using assms by (auto simp: moves_def intro: same_env_trans)
  assume h: "honest u" "plain_state c (fs u)"
  with assms(1) obtain ms where ms: "fs_moments (trace v) = fs_moments (trace u) @ ms"
      "\<forall>m \<in> insert (fs v) (set ms). plain_state c m \<and> R\<^sup>*\<^sup>* (agent_trust c (fs u)) (agent_trust c m)"
    by (auto simp: moves_def)
  have "honest v" using h(1) honest_env assms(1) by (auto simp: moves_def)
  with assms(2) ms(2) obtain ms' where ms': "fs_moments (trace w) = fs_moments (trace v) @ ms'"
      "\<forall>m \<in> insert (fs w) (set ms'). plain_state c m \<and> R\<^sup>*\<^sup>* (agent_trust c (fs v)) (agent_trust c m)"
    by (auto simp: moves_def)
  have "R\<^sup>*\<^sup>* (agent_trust c (fs u)) (agent_trust c (fs v))" using ms(2) by simp
  with ms ms' show "\<exists>ms. fs_moments (trace w) = fs_moments (trace u) @ ms
       \<and> (\<forall>m \<in> insert (fs w) (set ms). plain_state c m \<and> R\<^sup>*\<^sup>* (agent_trust c (fs u)) (agent_trust c m))"
    by (intro exI [of _ "ms @ ms'"]) (auto dest: rtranclp_trans [of R])
qed

lemma moves_mono:
  assumes "moves R c w w'" and "\<And>s s'. R s s' \<Longrightarrow> S s s'"
  shows "moves S c w w'"
proof -
  have "R\<^sup>*\<^sup>* s s' \<Longrightarrow> S\<^sup>*\<^sup>* s s'" for s s' using assms(2) mono_rtranclp by metis
  with assms(1) show ?thesis unfolding moves_def by blast
qed

text \<open>A confined computation whose every moment is in order.\<close>

lemma moves_confined:
  assumes "confined P Q w w'"
    and "\<And>m. honest w \<Longrightarrow> plain_state c (fs w) \<Longrightarrow> fs_change P (fs w) m
      \<Longrightarrow> plain_state c m \<and> R\<^sup>*\<^sup>* (agent_trust c (fs w)) (agent_trust c m)"
  shows "moves R c w w'"
  unfolding moves_def
proof (intro conjI impI)
  show "same_env w w'" using confined_env [OF assms(1)] .
  assume h: "honest w" "plain_state c (fs w)"
  from assms(1) obtain es where es: "trace w' = trace w @ es"
      "\<And>m. m = fs w' \<or> FsNow m \<in> set es \<Longrightarrow> fs_change P (fs w) m"
    by (rule confined_moments) blast
  show "\<exists>ms. fs_moments (trace w') = fs_moments (trace w) @ ms
       \<and> (\<forall>m \<in> insert (fs w') (set ms). plain_state c m \<and> R\<^sup>*\<^sup>* (agent_trust c (fs w)) (agent_trust c m))"
    by (rule exI [of _ "fs_moments es"]) (use es assms(2) [OF h] in \<open>auto simp: set_fs_moments\<close>)
qed

lemma moves_elsewhere:
  assumes "confined P Q w w'" and "\<And>k n. k \<in> state_file_keys c \<Longrightarrow> \<not> P k n"
  shows "moves R c w w'"
proof (rule moves_confined [OF assms(1)])
  fix m
  assume "plain_state c (fs w)" "fs_change P (fs w) m"
  moreover have "m k = fs w k" if "k \<in> state_file_keys c" for k
    using \<open>fs_change P (fs w) m\<close> state_files_not_tmp [OF that] assms(2) [OF that] by (auto simp: fs_change_def)
  ultimately show "plain_state c m \<and> R\<^sup>*\<^sup>* (agent_trust c (fs w)) (agent_trust c m)"
    using same_state_files [of c m "fs w"] by simp
qed

lemma moves_keeps: "keeps (\<lambda>_ _. False) (\<lambda>_. True) m \<Longrightarrow> m w = (r, w') \<Longrightarrow> moves R c w w'"
  using moves_elsewhere [OF keepsD] by fast

lemma moves_honest: "moves R c w w' \<Longrightarrow> honest w \<Longrightarrow> honest w'"
  by (auto simp: moves_def intro: honest_env)

section \<open>The work of the daemon\<close>

abbreviation daemon_step :: "platform \<Rightarrow> config \<Rightarrow> trust_state \<Rightarrow> trust_state \<Rightarrow> bool" where
  "daemon_step pl c \<equiv> trust_step (accepted (pl_libs pl)) (cfg_bundle_signing_public_key c)"

lemma moves_save:
  assumes "status_save enc st c w = (r, w')"
  shows "moves R c w w'"
proof -
  have "keeps (\<lambda>k _. k = components (status_path c)) (\<lambda>_. True) (status_save enc st c)"
    by (rule status_save_keeps) simp
  from keepsD [OF this assms] show ?thesis
    by (rule moves_elsewhere) (use state_names_distinct in \<open>auto simp: state_dir_files\<close>)
qed

lemma moves_persist: "moves R c w (persist_status C st c w)"
  unfolding persist_status_def by (rule moves_save) (rule prod.collapse [symmetric])

lemma moves_heartbeat:
  assumes "record_heartbeat pl client host startup c st w = (r, st', w')"
  shows "moves R c w w'"
proof -
  obtain x w2 where h: "send_heartbeat (pl_libs pl) (cd_heartbeat_request (pl_codecs pl)) (cd_heartbeat_response (pl_codecs pl))
      client (heartbeat_now pl host startup st (clock w (tick w))) (advance w) = (x, w2)" by fastforce
  have "moves R c w w2" using send_heartbeat_still [OF h] by (intro moves_still) (auto simp: same_env_def)
  then have "moves R c w (persist_status (pl_codecs pl) s c w2)" for s by (rule moves_trans [OF _ moves_persist])
  with assms h show ?thesis by (auto simp: record_heartbeat_def clock_now_def Let_def)
qed

text \<open>Also a pass that is cut off leaves plain state files.\<close>

lemma pass_no_links:
  assumes "state_paths_ok svc" "no_links svc m"
    and "fs_change (sync_writes svc acc lo pf) m m'"
  shows "no_links svc m'"
proof -
  have "case m' (components p) of Some n \<Rightarrow> \<not> is_link n | None \<Rightarrow> True"
    if "p \<in> {cs_generation_path svc, cs_fingerprint_path svc, cs_signing_key_path svc}" for p
  proof -
    have "\<not> is_tmp (components p)" using that assms(1) by (auto simp: state_paths_ok_def)
    with assms(3) have "m' (components p) = m (components p) \<or> sync_writes svc acc lo pf (components p) (m' (components p))"
      by (simp add: fs_change_def)
    with that assms(1,2) show ?thesis
      by (auto simp: no_links_def sync_writes_def state_paths_ok_def)
  qed
  then show ?thesis by (simp add: no_links_def)
qed

lemma moves_pass:
  assumes "synchronize (pl_libs pl) dec enc (helper_apply hreq hresp a) (sync_service_of c i kp) w = (r, w')"
    and "honest w"
  shows "moves (daemon_step pl c) c w w'"
proof -
  let ?svc = "sync_service_of c i kp"
  let ?pf = "\<not> (\<exists>bs mo u. fs w (components (cs_signing_key_path ?svc)) = Some (NFile bs mo u))"
  note paths = sync_service_paths_ok [of c i kp]
  have "pin_kept ?svc ?pf w" using assms(2) by (auto simp: pin_kept_def)
  from helper.synchronize_within [OF paths assms(2) this assms(1)] show ?thesis
  proof (rule moves_confined)
    fix m
    assume "plain_state c (fs w)" and change: "fs_change (sync_writes ?svc (accepted (pl_libs pl) (key_in_force ?svc (fs w)))
        (generation_level (stored_generation ?svc (fs w))) ?pf) (fs w) m"
    then have "no_links ?svc (fs w)" by (simp add: plain_state_service)
    from pass_no_links [OF paths this change] change_refines [OF paths this change]
    show "plain_state c m \<and> (daemon_step pl c)\<^sup>*\<^sup>* (agent_trust c (fs w)) (agent_trust c m)"
      by (simp add: plain_state_service)
  qed
qed

lemma moves_sync:
  assumes "record_sync pl a (sync_service_of c i kp) c st w = (r, st', w')"
  shows "moves (daemon_step pl c) c w w'"
proof -
  obtain x w1 where sy: "synchronize (pl_libs pl) (cd_bundle (pl_codecs pl)) (cd_ack (pl_codecs pl))
         (helper_apply (cd_ipc_request (pl_codecs pl)) (cd_ipc_response (pl_codecs pl)) a) (sync_service_of c i kp) w = (x, w1)"
    by fastforce
  have "moves (daemon_step pl c) c w w1"
  proof (cases "honest w")
    case False
    then show ?thesis using anything_env [OF anything_synchronize sy] by (simp add: moves_def)
  qed (rule moves_pass [OF sy])
  then have "moves (daemon_step pl c) c w (persist_status (pl_codecs pl) s c (advance w1))" for s
    by (rule moves_trans [OF _ moves_trans [OF moves_advance moves_persist]])
  with sy assms show ?thesis by (auto simp: record_sync_def clock_now_def Let_def)
qed

lemma moves_loop:
  assumes "run_poll_loop pl sleeper_new client a (sync_service_of c i kp) host c startup sched st w = Some (r, st', w')"
  shows "moves (daemon_step pl c) c w w'"
proof (rule run_polling_inv [OF assms [unfolded run_poll_loop_def], where I = "\<lambda>_. moves (daemon_step pl c) c w"])
  show "frame_step v v'" if "interruptible_sleep sleeper_new d v = Some v'" for d v v'
    using sleep_frame [OF sleeper_step_pos(2) that] .
  show "frame_step v v'" if "not_requested v = (b, v')" for v b v'
    using that by (auto simp: is_requested_def stop_requested_def)
  show "keeps_inv (\<lambda>_. moves (daemon_step pl c) c w) (record_heartbeat pl client host startup c)"
    by (auto simp: keeps_inv_def intro: moves_trans moves_heartbeat)
  show "keeps_inv (\<lambda>_. moves (daemon_step pl c) c w) (record_sync pl a (sync_service_of c i kp) c)"
    by (auto simp: keeps_inv_def intro: moves_trans moves_sync)
qed (auto intro: moves_trans)

text \<open>
  The poll loop refines the trust protocol: whatever the server, the helper, the clock and the
  disk do, and however many cycles it runs, generation and pin move only as the protocol allows.
\<close>

theorem poll_loop_refines_trust:
  assumes "honest w" and "no_links (sync_service_of c i kp) (fs w)"
    and "run_poll_loop pl sleeper_new client a (sync_service_of c i kp) host c startup sched st w = Some (r, st', w')"
  shows "(trust_step (accepted (pl_libs pl)) (cfg_bundle_signing_public_key c))\<^sup>*\<^sup>*
    (trust_of (sync_service_of c i kp) (fs w)) (trust_of (sync_service_of c i kp) (fs w'))"
  using moves_loop [OF assms(3)] assms(1,2) by (auto simp: moves_def plain_state_service)

end
