(* ===== verification/Daemon_Reports.thy ===== *)
theory Daemon_Reports
  imports Daemon_Safety
begin

text \<open>
  What the running daemon tells the server. The trace of the poll loop is replayed with \<open>History\<close>,
  so that a heartbeat can be compared with the state directory at the moment it is sent.
\<close>

section \<open>Truthful heartbeats\<close>

text \<open>
  Every heartbeat in a trace that starts from the files \<open>m\<close> is the encoding of one whose generation is
  not ahead of the generation in the state directory at that point of the trace.
\<close>

definition heartbeats_truthful :: "platform \<Rightarrow> ca_sync_service \<Rightarrow> heartbeat_client \<Rightarrow> fsmap \<Rightarrow> event list \<Rightarrow> bool" where
  "heartbeats_truthful pl svc client m es \<longleftrightarrow>
     (\<forall>before rq after. es = before @ Sent POST rq # after \<longrightarrow> req_url rq = join_url (hbc_server_url client) HEARTBEAT_PATH
        \<longrightarrow> (\<exists>hb. cd_heartbeat_request (pl_codecs pl) hb = Some (req_body rq)
              \<and> unat (hb_current_generation hb) \<le> generation_level (stored_generation svc (fs_after m before))))"

lemma heartbeats_truthful_append:
  assumes "heartbeats_truthful pl svc client m es" and "heartbeats_truthful pl svc client (fs_after m es) es'"
  shows "heartbeats_truthful pl svc client m (es @ es')"
  unfolding heartbeats_truthful_def
proof (intro allI impI)
  fix before rq after
  assume "es @ es' = before @ Sent POST rq # after" and url: "req_url rq = join_url (hbc_server_url client) HEARTBEAT_PATH"
  then consider us where "es = before @ Sent POST rq # us" | us where "before = es @ us" "es' = us @ Sent POST rq # after"
    by (auto simp: append_eq_append_conv2 append_eq_Cons_conv)
  then show "\<exists>hb. cd_heartbeat_request (pl_codecs pl) hb = Some (req_body rq)
              \<and> unat (hb_current_generation hb) \<le> generation_level (stored_generation svc (fs_after m before))"
    using assms url unfolding heartbeats_truthful_def by cases (blast, force)
qed

lemma no_heartbeats_truthful:
  "(\<And>rq. Sent POST rq \<in> set es \<Longrightarrow> req_url rq \<noteq> join_url (hbc_server_url client) HEARTBEAT_PATH)
   \<Longrightarrow> heartbeats_truthful pl svc client m es"
  unfolding heartbeats_truthful_def by fastforce

text \<open>A run whose log is truthful.\<close>

definition tells_truth :: "platform \<Rightarrow> ca_sync_service \<Rightarrow> heartbeat_client \<Rightarrow> world \<Rightarrow> world \<Rightarrow> bool" where
  "tells_truth pl svc client w w' \<longleftrightarrow>
     (\<exists>es. trace w' = trace w @ es \<and> fs w' = fs_after (fs w) es \<and> heartbeats_truthful pl svc client (fs w) es)"

lemma tells_truth_refl [simp]: "tells_truth pl svc client w w"
  by (simp add: tells_truth_def heartbeats_truthful_def)

lemma tells_truth_trans:
  assumes "tells_truth pl svc client u v" and "tells_truth pl svc client v w"
  shows "tells_truth pl svc client u w"
proof -
  from assms obtain es es' where "trace v = trace u @ es" "fs v = fs_after (fs u) es" "heartbeats_truthful pl svc client (fs u) es"
      "trace w = trace v @ es'" "fs w = fs_after (fs v) es'" "heartbeats_truthful pl svc client (fs v) es'"
    by (auto simp: tells_truth_def)
  then show ?thesis
    unfolding tells_truth_def by (intro exI [of _ "es @ es'"]) (simp add: heartbeats_truthful_append)
qed

lemma tells_truth_logged:
  assumes "logged Q w w'" and "\<And>rq. Q (Sent POST rq) \<Longrightarrow> req_url rq \<noteq> join_url (hbc_server_url client) HEARTBEAT_PATH"
  shows "tells_truth pl svc client w w'"
proof -
  from assms(1) obtain es where es: "trace w' = trace w @ es" "fs w' = fs_after (fs w) es" "\<forall>e \<in> set es. is_message e \<longrightarrow> Q e"
    by (auto simp: logged_def)
  have "heartbeats_truthful pl svc client (fs w) es"
    using es(3) assms(2) by (intro no_heartbeats_truthful) fastforce
  with es show ?thesis by (auto simp: tells_truth_def)
qed

lemma fs_after_slept [simp]: "fs_after m (map Slept cs) = m"
  by (induction cs) simp_all

lemma tells_truth_frame: "frame_step w w' \<Longrightarrow> tells_truth pl svc client w w'"
  unfolding tells_truth_def frame_step_def by (auto intro!: no_heartbeats_truthful)

lemma ack_is_no_heartbeat: "join_url s CA_BUNDLE_ACK_PATH \<noteq> join_url t HEARTBEAT_PATH"
proof
  assume "join_url s CA_BUNDLE_ACK_PATH = join_url t HEARTBEAT_PATH"
  then have "last (join_url s CA_BUNDLE_ACK_PATH) = last (join_url t HEARTBEAT_PATH)" by simp
  then show False by (simp add: join_url_def CA_BUNDLE_ACK_PATH_def HEARTBEAT_PATH_def lit_def)
qed

section \<open>The two callbacks\<close>

lemma status_save_truthful: "tells_truth pl svc client w (persist_status C st c w)"
proof (rule tells_truth_logged [where Q = "\<lambda>_. False"])
  have "logs (\<lambda>_. False) (status_save (cd_status_enc C) st c)"
    unfolding status_save_def by (intro logs_bind logs_lift logs_secure_write)
  then show "logged (\<lambda>_. False) w (persist_status C st c w)" by (simp add: logs_def persist_status_def)
qed simp

lemma signed_post_body: "signed_post L client now nonce body = Some rq \<Longrightarrow> req_body rq = body"
  by (cases "prk_data (mk_key (hbc_keypair client))") (auto simp: signed_post_def)

lemma send_heartbeat_truthful:
  assumes "send_heartbeat L (cd_heartbeat_request (pl_codecs pl)) dec client hb w = (r, w')"
    and "unat (hb_current_generation hb) \<le> generation_level (stored_generation svc (fs w))"
  shows "tells_truth pl svc client w w'"
proof (cases "Option.bind (cd_heartbeat_request (pl_codecs pl) hb) (signed_post L client (clock w (tick w))
            (lib_hex L (os_random w (Suc (tick w)) 16)))")
  case None
  with send_heartbeat_result [OF assms(1)] show ?thesis by (auto simp: tells_truth_def heartbeats_truthful_def)
next
  case (Some rq)
  then have body: "cd_heartbeat_request (pl_codecs pl) hb = Some (req_body rq)"
    by (auto simp: bind_eq_Some_conv dest: signed_post_body)
  from send_heartbeat_result [OF assms(1)] Some have w': "trace w' = trace w @ [Sent POST rq]" "fs w' = fs w" by simp_all
  have "heartbeats_truthful pl svc client (fs w) [Sent POST rq]"
    using body assms(2) by (auto simp: heartbeats_truthful_def Cons_eq_append_conv)
  with w' show ?thesis unfolding tells_truth_def by (intro exI [of _ "[Sent POST rq]"]) simp
qed

lemma record_heartbeat_truthful:
  assumes "generation_sound svc st w" and "record_heartbeat pl client host startup c st w = (r, st', w')"
  shows "tells_truth pl svc client w w'"
proof -
  obtain x w2 where h: "send_heartbeat (pl_libs pl) (cd_heartbeat_request (pl_codecs pl)) (cd_heartbeat_response (pl_codecs pl))
      client (heartbeat_now pl host startup st (clock w (tick w))) (advance w) = (x, w2)" by fastforce
  have "tells_truth pl svc client (advance w) w2"
    by (rule send_heartbeat_truthful [OF h]) (use assms(1) in \<open>simp add: generation_sound_def heartbeat_now_def\<close>)
  then have "tells_truth pl svc client w (persist_status (pl_codecs pl) s c w2)" for s
    by (meson tells_truth_trans tells_truth_frame frame_step_simps(2) status_save_truthful)
  with assms(2) h show ?thesis by (auto simp: record_heartbeat_def clock_now_def Let_def)
qed

lemma record_sync_truthful:
  assumes "record_sync pl a svc c st w = (r, st', w')"
  shows "tells_truth pl svc client w w'"
proof -
  obtain x w1 where sy: "synchronize (pl_libs pl) (cd_bundle (pl_codecs pl)) (cd_ack (pl_codecs pl))
         (helper_apply (cd_ipc_request (pl_codecs pl)) (cd_ipc_response (pl_codecs pl)) a) svc w = (x, w1)"
    by fastforce
  have "tells_truth pl svc client w w1"
    by (rule tells_truth_logged [OF logsD [OF logs_pass sy]]) (simp add: pass_request_def ack_is_no_heartbeat)
  then have "tells_truth pl svc client w (persist_status (pl_codecs pl) s c (advance w1))" for s
    by (meson tells_truth_trans tells_truth_frame frame_step_simps(2) status_save_truthful)
  with sy assms show ?thesis by (auto simp: record_sync_def clock_now_def Let_def)
qed

section \<open>The loop\<close>

lemma poll_loop_truthful:
  assumes "generation_sound (sync_service_of c i kp) st w"
    and "run_poll_loop pl sleeper_new client a (sync_service_of c i kp) host c startup sched st w = Some (r, st', w')"
  shows "generation_sound (sync_service_of c i kp) st' w' \<and> tells_truth pl (sync_service_of c i kp) client w w'"
proof -
  let ?svc = "sync_service_of c i kp"
  let ?I = "\<lambda>s v. generation_sound ?svc s v \<and> tells_truth pl ?svc client w v"
  show ?thesis
  proof (rule run_polling_inv [OF assms(2) [unfolded run_poll_loop_def], where I = ?I])
    show "?I st w" using assms(1) by simp
    show "keeps_inv ?I (record_heartbeat pl client host startup c)"
      using heartbeat_keeps_sound record_heartbeat_truthful tells_truth_trans
      by (fastforce simp: keeps_inv_def split: prod.splits)
    show "keeps_inv ?I (record_sync pl a ?svc c)"
      using record_sync_sound(1) record_sync_truthful tells_truth_trans
      by (fastforce simp: keeps_inv_def split: prod.splits)
    show "?I s v'" if "?I s v" "frame_step v v'" for s v v'
      using that generation_sound_frame tells_truth_trans tells_truth_frame by blast
    show "frame_step v v'" if "interruptible_sleep sleeper_new d v = Some v'" for d v v'
      using sleep_frame [OF sleeper_step_pos(2) that] .
    show "frame_step v v'" if "not_requested v = (b, v')" for v b v'
      using that by (auto simp: is_requested_def stop_requested_def)
  qed
qed

text \<open>
  C20. The invariant of the running daemon: over the whole poll loop, however many heartbeats and
  passes it makes and however they end, every heartbeat sent reports a generation that is not ahead
  of the one in the state directory at the moment of sending, and the status the loop ends with is
  not ahead of the state directory either.
\<close>

theorem poll_loop_never_ahead:
  assumes "generation_sound (sync_service_of c i kp) st w"
    and "run_poll_loop pl sleeper_new client a (sync_service_of c i kp) host c startup sched st w = Some (r, st', w')"
  shows "unat (st_current_generation st') \<le> generation_level (stored_generation (sync_service_of c i kp) (fs w'))
    \<and> (\<exists>es. trace w' = trace w @ es \<and> fs w' = fs_after (fs w) es
         \<and> (\<forall>before rq after. es = before @ Sent POST rq # after
              \<longrightarrow> req_url rq = join_url (hbc_server_url client) HEARTBEAT_PATH
              \<longrightarrow> (\<exists>hb. cd_heartbeat_request (pl_codecs pl) hb = Some (req_body rq)
                    \<and> unat (hb_current_generation hb)
                        \<le> generation_level (stored_generation (sync_service_of c i kp) (fs_after (fs w) before)))))"
  using poll_loop_truthful [OF assms] by (simp add: generation_sound_def tells_truth_def heartbeats_truthful_def)

end
