(* ===== verification/Daemon_Examples.thy ===== *)
theory Daemon_Examples
  imports Daemon_Trust Daemon_Reports
begin

text \<open>
  A concrete host on which the daemon's properties are applied: an identity directory with a
  usable key, a state directory, a server that does not answer, and a stop request.
\<close>

section \<open>The host\<close>

definition sample_config :: config where
  "sample_config = config_of_raw
     \<lparr>rc_server_url = lit ''http://h'', rc_machine_id = lit ''m'', rc_heartbeat_interval = None, rc_sync_interval = None,
      rc_trusted_ca_path = None, rc_sshd_config_path = None, rc_state_dir = Some (lit ''/s''),
      rc_identity_dir = Some (lit ''/d''), rc_helper_socket_path = None, rc_helper_token_path = None,
      rc_bundle_signing_public_key = None, rc_poll_jitter_ratio = Some (Fin 0), rc_log_level = None,
      rc_log_format = None, rc_allow_insecure_tls = Some True, rc_tls_ca_path = None\<rparr>"

definition sample_identity :: machine_identity where
  "sample_identity = \<lparr>mi_machine_id = lit ''m'', mi_hostname = lit ''h'', mi_public_key = sample_key,
     mi_private_key_path = lit ''/d/machine_ed25519'', mi_public_key_path = lit ''/d/machine_ed25519.pub'',
     mi_enrolled_at = 0, mi_server_url = lit ''http://h'', mi_heartbeat_interval = from_secs 60,
     mi_sync_interval = from_secs 300\<rparr>"

text \<open>The two statuses a run without contact saves, and codecs that know them.\<close>

definition first_status :: runtime_status where
  "first_status = runtime_status_default\<lparr>st_agent_version := lit ''0.1.0'', st_machine_id := lit ''m''\<rparr>"

definition last_status :: runtime_status where
  "last_status = first_status\<lparr>st_last_heartbeat_unix := Some 0, st_last_heartbeat_ok := Some False,
     st_last_sync_unix := Some 0, st_last_sync_outcome := Some (lit ''error''), st_clean_shutdown := True\<rparr>"

definition sample_codecs :: codecs where
  "sample_codecs =
     \<lparr>cd_toml = (\<lambda>_. Inl []), cd_enroll_request = (\<lambda>_. Some []), cd_enroll_response = (\<lambda>_. Some sample_answer),
      cd_record_enc = sample_enc, cd_record_dec = (\<lambda>_. Inr sample_record),
      cd_status_enc = (\<lambda>st. if st = first_status then Inr [0] else if st = last_status then Inr [1] else Inl []),
      cd_status_dec = (\<lambda>bs. if bs = [0, 10] then Inr first_status else Inr last_status),
      cd_heartbeat_request = (\<lambda>_. Some []), cd_heartbeat_response = (\<lambda>_. None),
      cd_bundle = (\<lambda>_. None), cd_ack = (\<lambda>_. None), cd_ipc_request = (\<lambda>_. None), cd_ipc_response = (\<lambda>_. None)\<rparr>"

definition sample_platform :: platform where
  "sample_platform =
     \<lparr>pl_libs = sample_libs, pl_codecs = sample_codecs,
      pl_tls = \<lparr>tl_pem_bundle = (\<lambda>_. None), tl_builds = (\<lambda>_ _. True)\<rparr>, pl_host = sample_env,
      pl_powi = (\<lambda>_ _. Fin 1), pl_dir_mode = 0x1ED, pl_env = (\<lambda>_. Some (lit ''mf_enroll_a''))\<rparr>"

definition daemon_host :: world where
  "daemon_host = (quiet_world
     [[RootDir, Normal (lit ''d'')] \<mapsto> NDir MODE_DIR 0, [RootDir, Normal (lit ''s'')] \<mapsto> NDir MODE_DIR 0,
      [RootDir, Normal (lit ''d''), Normal PRIVATE_KEY_FILE] \<mapsto> NFile [104] MODE_SECRET 0])
     \<lparr>stop_flag := (\<lambda>t. 200 \<le> t)\<rparr>"

lemma daemon_host_simps [simp]: "fault daemon_host = (\<lambda>_. None)" "euid daemon_host = 0" "clock daemon_host = (\<lambda>_. 0)"
    "http daemon_host = (\<lambda>_ _ _. None)" "stop_flag daemon_host = (\<lambda>t. 200 \<le> t)" "tick daemon_host = 0"
  by (simp_all add: daemon_host_def)

lemma state_dir_key: "components (cfg_state_dir sample_config) = [RootDir, Normal (lit ''s'')]"
  by (simp add: sample_config_def config_of_raw_def components_def segment_component_def lit_def)

lemma sample_config_simps [simp]: "cfg_identity_dir sample_config = lit ''/d''" "cfg_server_url sample_config = lit ''http://h''"
    "cfg_tls_ca_path sample_config = None" "cfg_poll_jitter_ratio sample_config = Fin 0"
    "cfg_bundle_signing_public_key sample_config = None"
  by (simp_all add: sample_config_def config_of_raw_def)

lemma sample_config_valid: "config_validate sample_libs sample_config = Inr ()"
  unfolding good_config_iff
  by (simp add: good_config_def sample_config_def config_of_raw_def good_url_def good_machine_id_def good_poll_interval_def
      good_path_def default_heartbeat_def default_sync_def DEFAULT_HEARTBEAT_SECS_def DEFAULT_SYNC_SECS_def from_secs_def
      NANOS_PER_SEC_def DEFAULT_TRUSTED_CA_PATH_def DEFAULT_SSHD_CONFIG_PATH_def DEFAULT_HELPER_SOCKET_PATH_def
      DEFAULT_HELPER_TOKEN_PATH_def is_absolute_def)
     (simp add: lit_def components_def segment_component_def machine_id_char_def is_ascii_alphanumeric_def trim_def
        trim_start_def trim_end_def is_whitespace_def)


section \<open>Enrollment\<close>

theorem enrolled_start_is_passive_witness:
  "\<exists>r w'. ensure_enrolled sample_platform sleeper_new sample_config (enrollment_service_new (lit ''/d'')) (gather_host_facts sample_env) keyed_host = Some (Finished r, w') \<and> messages (trace w') = []"
proof -
  have "fs keyed_host (components (es_record_path (enrollment_service_new (lit ''/d'')))) = Some (NFile [] MODE_PUBLIC 0)"
    by (simp add: service_files sample_dir_key keyed_simps)
  from enrolled_start_is_passive [OF keyed_simps(1) this, of sample_platform sleeper_new sample_config
      "gather_host_facts sample_env"]
  obtain r w' where "ensure_enrolled sample_platform sleeper_new sample_config (enrollment_service_new (lit ''/d''))
      (gather_host_facts sample_env) keyed_host = Some (Finished r, w')" "messages (trace w') = messages (trace keyed_host)"
    by blast
  moreover have "messages (trace keyed_host) = []" by (simp add: keyed_host_def sample_host_def)
  ultimately show ?thesis by auto
qed

lemma daemon_stops: "stops_from 200 daemon_host"
  by (simp add: stops_from_def)

text \<open>The configuration passes every check, and yet the machine cannot be enrolled with it.\<close>

theorem plaintext_url_never_enrolls_witness:
  "config_validate sample_libs sample_config = Inr ()
   \<and> (\<exists>x w'. ensure_enrolled sample_platform sleeper_new sample_config (enrollment_service_new (cfg_identity_dir sample_config))
         (gather_host_facts sample_env) daemon_host = Some (x, w')
       \<and> (\<forall>i. x \<noteq> Finished (Inr i)))"
proof -
  have url: "cfg_server_url sample_config = lit ''http://'' @ lit ''h''" by (simp add: lit_def)
  have none: "fs daemon_host (components (es_record_path (enrollment_service_new (cfg_identity_dir sample_config)))) = None"
    by (simp add: daemon_host_def service_files sample_dir_key file_names_differ)
  obtain x w' where run: "ensure_enrolled sample_platform sleeper_new sample_config
      (enrollment_service_new (cfg_identity_dir sample_config)) (gather_host_facts sample_env)
      daemon_host = Some (x, w')"
    using ensure_enrolled_stops [OF daemon_stops] by blast
  with sample_config_valid plaintext_url_never_enrolls [OF url none run] show ?thesis by blast
qed

section \<open>The running daemon\<close>

abbreviation sample_sync_service :: "machine_keypair \<Rightarrow> ca_sync_service" where
  "sample_sync_service \<equiv> sync_service_of sample_config sample_identity"

lemma generation_key: "components (config_generation_path sample_config)
    = [RootDir, Normal (lit ''s''), Normal GENERATION_FILE]"
  by (simp add: state_dir_files state_dir_key)

lemma daemon_host_fs: "fs daemon_host [RootDir, Normal (lit ''s''), Normal f] = None"
    "fs daemon_host [RootDir, Normal (lit ''s'')] = Some (NDir MODE_DIR 0)"
    "fs daemon_host [RootDir, Normal (lit ''d''), Normal PRIVATE_KEY_FILE] = Some (NFile [104] MODE_SECRET 0)"
  by (simp_all add: daemon_host_def quiet_world_def lit_def)

lemma start_sound: "generation_sound (sample_sync_service kp) runtime_status_default daemon_host"
  by (simp add: generation_sound_def honest_def generation_key daemon_host_fs runtime_status_default_def)

theorem record_sync_reports_stored_witness:
  "\<forall>kp. \<exists>r st w'. record_sync sample_platform (helper_applier_new [] []) (sample_sync_service kp) sample_config
      runtime_status_default daemon_host = (r, st, w')
    \<and> unat (st_current_generation st) \<le> generation_level (stored_generation (sample_sync_service kp) (fs w'))"
proof
  fix kp
  obtain r st w' where run: "record_sync sample_platform (helper_applier_new [] []) (sample_sync_service kp) sample_config
      runtime_status_default daemon_host = (r, st, w')" by (metis surj_pair)
  from run record_sync_reports_stored [OF start_sound run]
  show "\<exists>r st w'. record_sync sample_platform (helper_applier_new [] []) (sample_sync_service kp) sample_config
      runtime_status_default daemon_host = (r, st, w')
    \<and> unat (st_current_generation st) \<le> generation_level (stored_generation (sample_sync_service kp) (fs w'))"
    by (simp add: generation_sound_def)
qed

lemma sample_loop_ends:
  "\<exists>r st w'. run_poll_loop sample_platform sleeper_new (heartbeat_client_new [] kp []) (helper_applier_new [] [])
      (sample_sync_service kp) (gather_host_facts sample_env) sample_config 0 sched
      runtime_status_default daemon_host = Some (r, st, w')"
  unfolding run_poll_loop_def
  by (rule run_polling_ends [OF record_heartbeat_env record_sync_env sleeper_step_pos(2), where T = 200]) simp

abbreviation sample_kp :: machine_keypair where
  "sample_kp \<equiv> \<lparr>mk_key = \<lparr>prk_algorithm = AlgEd25519, prk_data = KdEd25519 [], prk_comment = [104]\<rparr>\<rparr>"

text \<open>
  The same host with generation 7 on disk, a heartbeat that is due, and a stop request that arrives while
  it is sent.
\<close>

definition reporting_platform :: platform where
  "reporting_platform = sample_platform\<lparr>pl_codecs := sample_codecs
     \<lparr>cd_heartbeat_request := (\<lambda>hb. Some (utf8 (show_u64 (hb_current_generation hb))))\<rparr>\<rparr>"

definition reporting_host :: world where
  "reporting_host = daemon_host\<lparr>stop_flag := (\<lambda>t. 3 \<le> t),
     fs := (fs daemon_host)([RootDir, Normal (lit ''s''), Normal GENERATION_FILE] \<mapsto> NFile (utf8 (show_u64 7 @ [10])) MODE_PUBLIC 0)\<rparr>"

definition reporting_status :: runtime_status where
  "reporting_status = runtime_status_default\<lparr>st_current_generation := 7\<rparr>"

definition heartbeat_due :: scheduler where
  "heartbeat_due = \<lparr>sch_heartbeat = jittered_interval_new (from_secs 60) (Fin 0),
     sch_sync = jittered_interval_new (from_secs 300) (Fin 0), sch_heartbeat_due = 0, sch_sync_due = 300000000000\<rparr>"

lemma reporting_host_generation: "stored_generation (sample_sync_service kp) (fs reporting_host) = Some 7"
  by (rule stored_generation_written) (simp add: reporting_host_def generation_key)

lemma reporting_sound: "generation_sound (sample_sync_service kp) reporting_status reporting_host"
  using reporting_host_generation [of kp]
  by (simp add: generation_sound_def honest_def generation_key reporting_status_def generation_level_def)
     (simp add: reporting_host_def)

lemma persist_unknown: "st \<noteq> first_status \<Longrightarrow> st \<noteq> last_status \<Longrightarrow> persist_status sample_codecs st c w = w"
  by (simp add: persist_status_def status_save_def sample_codecs_def bind_io_def map_err_def)

lemma reporting_heartbeat:
  assumes "clock w = (\<lambda>_. 0)" and "http w = (\<lambda>_ _ _. None)" and "prk_data (mk_key kp) = KdEd25519 seed"
  obtains r st w' rq where "record_heartbeat reporting_platform (heartbeat_client_new [] kp []) host 0 sample_config reporting_status w
      = (r, st, w')" "trace w' = trace w @ [Sent POST rq]" "req_url rq = join_url [] HEARTBEAT_PATH"
      "req_body rq = utf8 (show_u64 7)" "same_env w w'"
proof -
  let ?client = "heartbeat_client_new [] kp []"
  let ?C = "pl_codecs reporting_platform"
  obtain x w2 where h: "send_heartbeat sample_libs (cd_heartbeat_request ?C) (cd_heartbeat_response ?C)
      ?client (heartbeat_now reporting_platform host 0 reporting_status 0) (advance w) = (x, w2)" by fastforce
  obtain rq where rq: "signed_post sample_libs ?client 0 (lib_hex sample_libs (os_random w (Suc (Suc (tick w))) 16)) (utf8 (show_u64 7)) = Some rq"
    using assms(3) by (simp add: signed_post_def heartbeat_client_new_def)
  have 2: "trace w2 = trace w @ [Sent POST rq]" "isl x"
    using send_heartbeat_result [OF h] rq assms(1,2)
    by (simp_all add: reporting_platform_def heartbeat_now_def reporting_status_def)
  have url: "req_url rq = join_url [] HEARTBEAT_PATH" and body: "req_body rq = utf8 (show_u64 7)"
    using rq assms(3) by (auto simp: signed_post_def heartbeat_client_new_def)
  let ?st = "reporting_status\<lparr>st_last_heartbeat_unix := Some 0, st_last_heartbeat_ok := Some False\<rparr>"
  have differ: "?st \<noteq> first_status" "?st \<noteq> last_status"
    by (simp_all add: reporting_status_def first_status_def last_status_def runtime_status_default_def lit_def)
  have enc: "persist_status ?C s c v = persist_status sample_codecs s c v" for s c v
    by (simp add: persist_status_def reporting_platform_def)
  have "record_heartbeat reporting_platform ?client host 0 sample_config reporting_status w = (bind_res x (\<lambda>_. Inr ()), ?st, w2)"
    using h 2(2) assms(1) enc persist_unknown [OF differ]
    by (simp add: record_heartbeat_def clock_now_def Let_def unix_timestamp_def) (simp add: reporting_platform_def sample_platform_def)
  moreover have "same_env w w2" using send_heartbeat_env [OF h] by (auto simp: same_env_def)
  ultimately show ?thesis using that 2(1) url body by blast
qed

lemma reporting_loop:
  assumes "prk_data (mk_key kp) = KdEd25519 seed"
  obtains r st w' rq where "run_poll_loop reporting_platform sleeper_new (heartbeat_client_new [] kp []) (helper_applier_new [] [])
      (sample_sync_service kp) (gather_host_facts sample_env) sample_config 0 heartbeat_due reporting_status reporting_host
      = Some (r, st, w')" "trace w' = [Sent POST rq]" "req_url rq = join_url [] HEARTBEAT_PATH" "req_body rq = utf8 (show_u64 7)"
proof -
  let ?hb = "record_heartbeat reporting_platform (heartbeat_client_new [] kp []) (gather_host_facts sample_env) 0 sample_config"
  let ?sy = "record_sync reporting_platform (helper_applier_new [] []) (sample_sync_service kp) sample_config"
  let ?w3 = "advance (advance (advance reporting_host))"
  have host: "clock reporting_host = (\<lambda>_. 0)" "http reporting_host = (\<lambda>_ _ _. None)" "tick reporting_host = 0"
      "stop_flag reporting_host = (\<lambda>t. 3 \<le> t)" "trace reporting_host = []"
    by (simp_all add: reporting_host_def) (simp add: daemon_host_def quiet_world_def)
  obtain s where s: "take_due 0 heartbeat_due ?w3 = (Some ([Heartbeat], s), ?w3)"
    by (simp add: take_due_def heartbeat_due_def due_after_def next_delay_def jittered_interval_new_def fclamp_def
        fle_def time_add_def from_secs_def TIME_MAX_def NANOS_PER_SEC_def Let_def)
  obtain r st v rq where v: "?hb reporting_status ?w3 = (r, st, v)" "trace v = [Sent POST rq]"
      "req_url rq = join_url [] HEARTBEAT_PATH" "req_body rq = utf8 (show_u64 7)" "same_env ?w3 v"
    by (rule reporting_heartbeat [OF _ _ assms, of ?w3]) (simp_all add: host)
  have stop: "stop_flag v (tick v)" using v(5) by (simp add: same_env_def host)
  have "run_polling (interruptible_sleep sleeper_new) ?hb ?sy (\<lambda>_. not_requested) 1 s st v = Some (Finished s, st, advance v)"
    using stop by (subst run_polling.simps) (simp add: is_requested_def stop_requested_def)
  then have "run_polling (interruptible_sleep sleeper_new) ?hb ?sy (\<lambda>_. not_requested) 0 heartbeat_due reporting_status reporting_host
      = Some (Finished s, st, advance v)"
    using s v(1) host
    by (subst run_polling.simps)
       (simp add: is_requested_def stop_requested_def poll_wait_def poll_due_def clock_now_def next_due_def heartbeat_due_def Let_def)
  with that v(2-4) show ?thesis by (simp add: run_poll_loop_def)
qed

theorem poll_loop_never_ahead_witness:
  "\<exists>r st w' rq hb. run_poll_loop reporting_platform sleeper_new (heartbeat_client_new [] sample_kp []) (helper_applier_new [] [])
      (sample_sync_service sample_kp) (gather_host_facts sample_env) sample_config 0 heartbeat_due reporting_status reporting_host
      = Some (r, st, w')
    \<and> trace w' = [Sent POST rq] \<and> req_url rq = join_url [] HEARTBEAT_PATH
    \<and> req_body rq = utf8 (show_u64 7) \<and> cd_heartbeat_request (pl_codecs reporting_platform) hb = Some (req_body rq)
    \<and> unat (hb_current_generation hb) \<le> 7
    \<and> unat (st_current_generation st) \<le> generation_level (stored_generation (sample_sync_service sample_kp) (fs w'))"
proof -
  obtain r st w' rq where run: "run_poll_loop reporting_platform sleeper_new (heartbeat_client_new [] sample_kp [])
      (helper_applier_new [] []) (sample_sync_service sample_kp) (gather_host_facts sample_env) sample_config 0 heartbeat_due
      reporting_status reporting_host = Some (r, st, w')"
      and rq: "trace w' = [Sent POST rq]" "req_url rq = join_url [] HEARTBEAT_PATH" "req_body rq = utf8 (show_u64 7)"
    by (rule reporting_loop [of sample_kp "[]"]) simp_all
  have "trace reporting_host = []" by (simp add: reporting_host_def daemon_host_def quiet_world_def)
  with rq(1) have all: "trace w' = trace reporting_host @ es \<Longrightarrow> es = [] @ Sent POST rq # []" for es by simp
  have url: "hbc_server_url (heartbeat_client_new [] sample_kp []) = []" by (simp add: heartbeat_client_new_def)
  from poll_loop_never_ahead [OF reporting_sound run] all rq(2) obtain hb
    where "cd_heartbeat_request (pl_codecs reporting_platform) hb = Some (req_body rq)"
      "unat (hb_current_generation hb) \<le> generation_level (stored_generation (sample_sync_service sample_kp)
          (fs_after (fs reporting_host) []))"
      "unat (st_current_generation st) \<le> generation_level (stored_generation (sample_sync_service sample_kp) (fs w'))"
    unfolding url by blast
  with run rq show ?thesis by (auto simp: reporting_host_generation generation_level_def)
qed

theorem poll_loop_refines_trust_witness:
  "\<forall>kp sched. \<exists>r st w'. run_poll_loop sample_platform sleeper_new (heartbeat_client_new [] kp []) (helper_applier_new [] [])
      (sample_sync_service kp) (gather_host_facts sample_env) sample_config 0 sched
      runtime_status_default daemon_host = Some (r, st, w')
    \<and> (trust_step (accepted sample_libs) None)\<^sup>*\<^sup>* \<lparr>ts_level = 0, ts_pin = None\<rparr> (trust_of (sample_sync_service kp) (fs w'))"
proof (intro allI)
  fix kp sched
  let ?run = "run_poll_loop sample_platform sleeper_new (heartbeat_client_new [] kp []) (helper_applier_new [] [])
      (sample_sync_service kp) (gather_host_facts sample_env) sample_config 0 sched
      runtime_status_default daemon_host"
  obtain r st w' where run: "?run = Some (r, st, w')" using sample_loop_ends by blast
  have "honest daemon_host" "no_links (sample_sync_service kp) (fs daemon_host)"
    by (simp_all add: honest_def no_links_def state_dir_files state_dir_key daemon_host_fs)
  from poll_loop_refines_trust [OF this run] run
  show "\<exists>r st w'. ?run = Some (r, st, w')
    \<and> (trust_step (accepted sample_libs) None)\<^sup>*\<^sup>* \<lparr>ts_level = 0, ts_pin = None\<rparr> (trust_of (sample_sync_service kp) (fs w'))"
    by (simp add: trust_of_def stored_generation_def stored_pin_def text_of_def state_dir_files state_dir_key daemon_host_fs
        generation_level_def sample_platform_def)
qed

section \<open>A clean stop\<close>

text \<open>Without a network a heartbeat and a pass fail and leave every file alone.\<close>

lemma offline_heartbeat:
  assumes "http w = (\<lambda>_ _ _. None)" and "send_heartbeat L enc dec client rq w = (r, w')"
  shows "isl r \<and> fs w' = fs w"
  using send_heartbeat_result [OF assms(2)] assms(1) by (auto split: option.splits)

lemma read_optional_string_fs: "read_optional_string p w = (r, w') \<Longrightarrow> fs w' = fs w"
  by (auto simp: read_optional_string_def read_optional_def bind_io_def Let_def
      split: prod.splits sum.splits option.splits if_splits dest!: sys_read_frame)

lemma load_state_fs: "load_state svc w = (r, w') \<Longrightarrow> fs w' = fs w \<and> same_env w w'"
  using anything_env [OF keeps_load_state]
  by (auto simp: load_state_def Ca_Sync.read_generation_def bind_io_def split: prod.splits sum.splits option.splits
      dest!: read_optional_string_fs)

lemma offline_fetch:
  assumes "http w = (\<lambda>_ _ _. None)" and "fetch_bundle L svc f w = (r, w')"
  shows "\<exists>e. r = Inl e \<and> fs w' = fs w"
  using assms
  by (auto simp: fetch_bundle_def sync_sign_def now_io_def nonce_io_def clock_now_def generate_nonce_def random_bytes_def
      bundle_get_def http_exchange_def bind_io_def Let_def split: prod.splits sum.splits)

lemma offline_pass:
  assumes "http w = (\<lambda>_ _ _. None)" and "synchronize L dec enc A svc w = (r, w')"
  shows "\<exists>e. r = Inl e \<and> fs w' = fs w"
proof -
  obtain x w1 where l: "load_state svc w = (x, w1)" by fastforce
  have w1: "http w1 = (\<lambda>_ _ _. None)" "fs w1 = fs w" using load_state_fs [OF l] assms(1) by (auto simp: same_env_def)
  show ?thesis
  proof (cases x)
    case (Inl e)
    with assms(2) l w1 show ?thesis by (auto simp: synchronize_def bind_io_def)
  next
    case (Inr ps)
    obtain y w2 where f: "fetch_bundle L svc (ps_fingerprint ps) w1 = (y, w2)" by fastforce
    from offline_fetch [OF w1(1) f] Inr l f w1 assms(2) show ?thesis
      by (auto simp: synchronize_def bind_io_def)
  qed
qed

definition stop_host :: world where
  "stop_host = daemon_host\<lparr>stop_flag := (\<lambda>_. True)\<rparr>"

text \<open>A world of the run: the files \<open>m\<close>, and the environment of the host.\<close>

definition at_stop_host :: "fsmap \<Rightarrow> world \<Rightarrow> bool" where
  "at_stop_host m w \<longleftrightarrow> fs w = m \<and> same_env stop_host w"

lemma at_stop_host_env: "at_stop_host m w \<Longrightarrow> same_env w w' \<Longrightarrow> at_stop_host (fs w') w'"
  by (auto simp: at_stop_host_def intro: same_env_trans)

lemma at_stop_host_simps:
  assumes "at_stop_host m w"
  shows "clock w = (\<lambda>_. 0)" "http w = (\<lambda>_ _ _. None)" "stop_flag w = (\<lambda>_. True)" "fault w = (\<lambda>_. None)" "euid w = 0"
    "fs w = m"
  using assms by (auto simp: at_stop_host_def same_env_def stop_host_def)

abbreviation met_status :: runtime_status where
  "met_status \<equiv> first_status\<lparr>st_last_heartbeat_unix := Some 0, st_last_heartbeat_ok := Some False\<rparr>"

abbreviation met_synced_status :: runtime_status where
  "met_synced_status \<equiv> met_status\<lparr>st_last_sync_unix := Some 0, st_last_sync_outcome := Some (lit ''error'')\<rparr>"

lemma statuses_differ: "met_status \<noteq> first_status" "met_status \<noteq> last_status"
    "met_synced_status \<noteq> first_status" "met_synced_status \<noteq> last_status" "first_status \<noteq> last_status"
    "met_synced_status\<lparr>st_clean_shutdown := True\<rparr> = last_status"
  by (simp_all add: first_status_def last_status_def runtime_status_default_def lit_def)

lemma stop_heartbeat:
  assumes "at_stop_host m w" and "record_heartbeat sample_platform client host startup c first_status w = (r, st, w')"
  shows "st = met_status \<and> at_stop_host m w'"
proof -
  note s = at_stop_host_simps [OF assms(1)]
  obtain x w2 where h: "send_heartbeat sample_libs (cd_heartbeat_request sample_codecs) (cd_heartbeat_response sample_codecs)
      client (heartbeat_now sample_platform host startup first_status 0) (advance w) = (x, w2)" by fastforce
  have "isl x" "fs w2 = m" using offline_heartbeat [OF _ h] s by simp_all
  moreover have "at_stop_host (fs w2) w2"
    using at_stop_host_env [OF assms(1)] send_heartbeat_env [OF h] by (auto simp: same_env_def)
  ultimately show ?thesis
    using assms(2) h s(1) by (auto simp: record_heartbeat_def clock_now_def sample_platform_def Let_def unix_timestamp_def
        persist_unknown statuses_differ)
qed

lemma stop_pass:
  assumes "at_stop_host m w" and "record_sync sample_platform a svc c met_status w = (r, st, w')"
  shows "st = met_synced_status \<and> at_stop_host m w'"
proof -
  note s = at_stop_host_simps [OF assms(1)]
  obtain x w1 where h: "synchronize sample_libs (cd_bundle sample_codecs) (cd_ack sample_codecs)
         (helper_apply (cd_ipc_request sample_codecs) (cd_ipc_response sample_codecs) a) svc w = (x, w1)" by fastforce
  obtain e where "x = Inl e" "fs w1 = m" using offline_pass [OF _ h] s by auto
  moreover have "at_stop_host (fs w1) w1" using at_stop_host_env [OF assms(1) anything_env [OF anything_synchronize h]] .
  moreover from this have "at_stop_host (fs w1) (advance w1)" "clock w1 = (\<lambda>_. 0)"
    by (auto simp: at_stop_host_def same_env_def stop_host_def)
  ultimately show ?thesis
    using assms(2) h by (auto simp: record_sync_def clock_now_def sample_platform_def Let_def unix_timestamp_def
        persist_unknown statuses_differ)
qed


definition sample_app :: app_state where
  "sample_app = \<lparr>as_config = sample_config, as_startup_time = 0\<rparr>"

lemma status_key: "components (status_path sample_config) = [RootDir, Normal (lit ''s''), Normal RUNTIME_STATUS_FILE]"
  by (simp add: state_dir_files state_dir_key)

lemma stop_host_fs: "fs stop_host = fs daemon_host"
  by (simp add: stop_host_def)

lemma at_stop_start: "at_stop_host (fs daemon_host) stop_host"
  by (simp add: at_stop_host_def stop_host_def)

lemma stop_keypair:
  assumes "at_stop_host (fs daemon_host) w"
  shows "\<exists>w'. read_keypair sample_libs (enrollment_service_new (lit ''/d'')) w = (Inr sample_kp, w')
    \<and> at_stop_host (fs daemon_host) w'"
proof -
  note s = at_stop_host_simps [OF assms]
  have "from_utf8 [104] = Some [104]" by (simp add: is_cont_def)
  then have "key_file sample_libs (enrollment_service_new (lit ''/d'')) (euid w) sample_kp (fs w)"
    by (auto simp: key_file_def service_files sample_dir_key s daemon_host_fs from_openssh_private_def sample_libs_def
        mode_within_def)
  from read_keypair_ok [OF this] s obtain w' where "read_keypair sample_libs (enrollment_service_new (lit ''/d'')) w
      = (Inr sample_kp, w')" "fs w' = fs w" "same_env w w'" by (auto simp: faultless_def)
  then show ?thesis using at_stop_host_env [OF assms] s(6) by force
qed

lemma stop_workers:
  "\<exists>wk w'. build_workers sample_platform sample_config (enrollment_service_new (lit ''/d'')) i stop_host = (Inr wk, w')
     \<and> wk_generation wk = 0 \<and> at_stop_host (fs daemon_host) w'"
proof -
  obtain w1 where 1: "read_keypair sample_libs (enrollment_service_new (lit ''/d'')) stop_host = (Inr sample_kp, w1)"
      "at_stop_host (fs daemon_host) w1" using stop_keypair [OF at_stop_start] by blast
  obtain w2 where 2: "read_keypair sample_libs (enrollment_service_new (lit ''/d'')) w1 = (Inr sample_kp, w2)"
      "at_stop_host (fs daemon_host) w2" using stop_keypair [OF 1(2)] by blast
  note s = at_stop_host_simps [OF 2(2)]
  have none: "sys_read [RootDir, Normal (lit ''s''), Normal f] v = (Inl (os_err NotFound), advance v)"
    if "fs v = fs daemon_host" "fault v = (\<lambda>_. None)" for f v
    using that by (simp add: sys_read_def sys_query_def daemon_host_fs)
  have "Runtime_State.read_generation sample_config w2 = (Inr 0, advance w2)"
    using none [of w2] s
    by (simp add: Runtime_State.read_generation_def runtime_read_optional_string_def bind_io_def generation_key os_err_def)
  moreover have "status_load (cd_status_dec sample_codecs) sample_config (advance w2) = (Inr None, advance (advance w2))"
    using none [of "advance w2"] s by (simp add: status_load_def status_key os_err_def)
  moreover have "reqwest_transport_new (pl_tls sample_platform) b None v = (Inr (), v)" for b v
    by (simp add: reqwest_transport_new_def build_transport_def bind_io_def sample_platform_def)
  moreover have "at_stop_host (fs daemon_host) (advance (advance w2))"
    using 2(2) by (auto simp: at_stop_host_def same_env_def)
  moreover have "pl_libs sample_platform = sample_libs" "pl_codecs sample_platform = sample_codecs"
    by (simp_all add: sample_platform_def)
  ultimately show ?thesis
    using 1(1) 2(1) by (simp add: build_workers_def load_machine_keypair_def bind_io_def)
qed

text \<open>The status is written where the files allow it.\<close>

lemma stop_save:
  assumes "at_stop_host m w" and "calm w" and "writable {status_path sample_config} m" and "st = first_status \<or> st = last_status"
  obtains w' where "status_save (cd_status_enc sample_codecs) st sample_config w = (Inr (), w')"
    "calm w'" "at_stop_host (fs w') w'" "writable {status_path sample_config} (fs w')"
proof -
  obtain json where json: "cd_status_enc sample_codecs st = Inr json"
    using assms(4) statuses_differ(5) by (auto simp: sample_codecs_def)
  have "writable {status_path sample_config} (fs w)" using assms(1,3) by (simp add: at_stop_host_def)
  from calm_write [OF assms(2) this singletonI, of "json @ [10]" MODE_PUBLIC]
  obtain w' where w': "secure_write (status_path sample_config) (json @ [10]) MODE_PUBLIC w = (Inr (), w')" "calm w'"
      "writable {status_path sample_config} (fs w')" "same_env w w'" by blast
  have "status_save (cd_status_enc sample_codecs) st sample_config w = (Inr (), w')"
    using w'(1) json by (simp add: status_save_def bind_io_def map_err_def)
  with that w' at_stop_host_env [OF assms(1) w'(4)] show thesis by blast
qed


lemma at_stop_calm: "at_stop_host m w \<Longrightarrow> at_stop_host m w' \<Longrightarrow> calm w \<Longrightarrow> calm w'"
  by (simp add: calm_def faultless_def at_stop_host_simps)

lemma stop_start_calm: "at_stop_host (fs daemon_host) w \<Longrightarrow> calm w"
    "writable {status_path sample_config} (fs daemon_host)"
proof -
  have "\<not> is_tmp [RootDir, Normal (lit ''d'')]" "\<not> is_tmp [RootDir, Normal (lit ''s'')]"
      "\<not> is_tmp [RootDir, Normal (lit ''d''), Normal PRIVATE_KEY_FILE]"
    using not_tmp_name [of PRIVATE_KEY_FILE "[RootDir, Normal (lit ''d'')]"]
    by (simp_all add: is_tmp_def tmp_prefix_def lit_def PRIVATE_KEY_FILE_def)
  then show "calm w" if "at_stop_host (fs daemon_host) w"
    using at_stop_host_simps [OF that]
    by (auto simp: calm_def faultless_def daemon_host_def quiet_world_def split: if_splits)
  have "\<not> is_tmp (components (status_path sample_config))"
    using state_names_not_tmp [of RUNTIME_STATUS_FILE] by (simp add: state_dir_files)
  moreover have "parent_of (status_path sample_config) = Inr [RootDir, Normal (lit ''s'')]"
    by (simp add: parent_of_def status_key)
  ultimately show "writable {status_path sample_config} (fs daemon_host)"
    by (auto simp: writable_def status_key daemon_host_fs)
qed

lemma stop_serves:
  assumes "at_stop_host (fs daemon_host) w" and "wk_generation wk = 0"
  shows "\<exists>w'. daemon_serve sample_platform sleeper_new sample_config host 0 sample_identity wk sched w
    = Some (Finished (Inr ()), w')"
proof -
  have st0: "initial_status sample_platform sample_identity 0 (wk_generation wk) = first_status"
    by (simp add: initial_status_def assms(2) sample_platform_def sample_env_def sample_identity_def first_status_def
        runtime_status_default_def unix_timestamp_def)
  have pl: "pl_codecs sample_platform = sample_codecs" by (simp add: sample_platform_def)
  obtain w1 where 1: "status_save (cd_status_enc sample_codecs) first_status sample_config w = (Inr (), w1)"
      "calm w1" "at_stop_host (fs w1) w1" "writable {status_path sample_config} (fs w1)"
    using stop_save [OF assms(1) stop_start_calm(1) [OF assms(1)] stop_start_calm(2)] by blast
  obtain r2 st2 w2 where 2: "record_heartbeat sample_platform (wk_heartbeat wk) host 0 sample_config first_status w1 = (r2, st2, w2)"
    by (metis surj_pair)
  note h = stop_heartbeat [OF 1(3) 2]
  obtain r3 st3 w3 where 3: "record_sync sample_platform (wk_applier wk) (wk_sync wk) sample_config met_status w2 = (r3, st3, w3)"
    by (metis surj_pair)
  note p = stop_pass [OF conjunct2 [OF h] 3]
  have a3: "at_stop_host (fs w1) (advance w3)" using p by (auto simp: at_stop_host_def same_env_def)
  have 4: "run_poll_loop sample_platform sleeper_new (wk_heartbeat wk) (wk_applier wk) (wk_sync wk) host sample_config 0 sched
      met_synced_status w3 = Some (Finished sched, met_synced_status, advance w3)"
    using at_stop_host_simps(3) [OF conjunct2 [OF p]] unfolding run_poll_loop_def
    by (subst run_polling.simps) (simp add: is_requested_def stop_requested_def)
  obtain w5 where "status_save (cd_status_enc sample_codecs) last_status sample_config (advance w3) = (Inr (), w5)"
    using stop_save [OF a3 at_stop_calm [OF 1(3) a3 1(2)] 1(4)] by blast
  with 1(1) 2 3 4 h p show ?thesis
    by (simp add: daemon_serve_def st0 pl Let_def statuses_differ(6))
qed

lemma stop_work:
  "\<exists>w'. daemon_work sample_platform sleeper_new sample_app host (enrollment_service_new (lit ''/d'')) sample_identity stop_host
    = Some (Finished (Inr ()), w')"
proof -
  obtain wk w1 where 1: "build_workers sample_platform sample_config (enrollment_service_new (lit ''/d'')) sample_identity stop_host
      = (Inr wk, w1)" "wk_generation wk = 0" "at_stop_host (fs daemon_host) w1"
    using stop_workers by blast
  let ?hb = "jittered_interval_new (from_secs 60) (Fin 0)" and ?sy = "jittered_interval_new (from_secs 300) (Fin 0)"
  have now: "clock w1 = (\<lambda>_. 0)" using at_stop_host_simps [OF 1(3)] by simp
  have good: "good_interval ?hb 60" "good_interval ?sy 300"
    using good_interval_new [of 60 "Fin 0"] good_interval_new [of 300 "Fin 0"] by (simp_all add: from_secs_def)
  have "0 + 2 * int (ji_base ?hb) \<le> TIME_MAX" "0 + 2 * int (ji_base ?sy) \<le> TIME_MAX"
    by (simp_all add: jittered_interval_new_def from_secs_def TIME_MAX_def NANOS_PER_SEC_def)
  note max = this
  obtain t v where 2: "due_after 0 ?hb (advance w1) = (Some t, v)" using due_after_ok [OF good(1) max(1)] by blast
  obtain t' w2 where "due_after 0 ?sy v = (Some t', w2)" using due_after_ok [OF good(2) max(2)] by blast
  with 2 obtain s where 2: "scheduler_new 0 ?hb ?sy (advance w1) = (Some s, w2)" by (simp add: scheduler_new_def)
  have "same_env (advance w1) w2" using scheduler_new_env [OF 2] .
  moreover have "fs w2 = fs w1"
    using 2 by (auto simp: scheduler_new_def frame_step_def split: prod.splits option.splits dest!: due_after_frame)
  ultimately have "at_stop_host (fs daemon_host) w2" using 1(3) by (auto simp: at_stop_host_def same_env_def)
  from stop_serves [OF this 1(2)] 1(1) 2 now show ?thesis
    by (simp add: daemon_work_def sample_app_def sample_identity_def clock_now_def Let_def)
qed

theorem clean_stop_recorded_witness:
  "\<exists>w' rs v'. daemon_work sample_platform sleeper_new sample_app (gather_host_facts sample_env)
      (enrollment_service_new (lit ''/d'')) sample_identity stop_host = Some (Finished (Inr ()), w')
    \<and> status_load (cd_status_dec sample_codecs) sample_config (w'\<lparr>fault := (\<lambda>_. None)\<rparr>) = (Inr (Some rs), v')
    \<and> st_clean_shutdown rs"
proof -
  obtain w' where run: "daemon_work sample_platform sleeper_new sample_app (gather_host_facts sample_env)
      (enrollment_service_new (lit ''/d'')) sample_identity stop_host = Some (Finished (Inr ()), w')"
    using stop_work by blast
  have conf: "as_config sample_app = sample_config" and pl: "pl_codecs sample_platform = sample_codecs"
    by (simp_all add: sample_app_def sample_platform_def)
  have honest: "honest stop_host" by (simp add: honest_def stop_host_def)
  have link: "fs stop_host (components (config_generation_path (as_config sample_app))) \<noteq> Some (NLink t u)" for t u
    by (simp add: conf generation_key stop_host_fs daemon_host_fs)
  have json: "cd_status_dec (pl_codecs sample_platform) (bs @ [10]) = Inr rs"
    if "cd_status_enc (pl_codecs sample_platform) rs = Inr bs" for rs bs
    using that by (auto simp: pl sample_codecs_def split: if_splits)
  have later: "faultless (w'\<lparr>fault := (\<lambda>_. None)\<rparr>)" "fs (w'\<lparr>fault := (\<lambda>_. None)\<rparr>) = fs w'"
    by (simp_all add: faultless_def)
  from clean_stop_recorded [OF honest link run json later] run show ?thesis
    unfolding conf pl by blast
qed

end
