(* ===== verification/Program_Trust.thy ===== *)
theory Program_Trust
  imports Daemon_Trust
begin

text \<open>
  The whole program refines the trust protocol. A life of the agent is one run of \<open>main\<close>:
  configuration, start-up checks, enrollment or recovery, the poll loop. It may be cut off at any
  moment; then the next life starts from the files it left. What enrollment adds to the protocol
  is one move, the pin of a key the server sent with the enrollment.
\<close>

section \<open>The protocol of the program\<close>

inductive agent_step ::
    "(str option \<Rightarrow> ca_bundle \<Rightarrow> bool) \<Rightarrow> (str \<Rightarrow> bool) \<Rightarrow> str option \<Rightarrow> trust_state \<Rightarrow> trust_state \<Rightarrow> bool"
  for acc offered operator where
  serve: "trust_step acc operator s s' \<Longrightarrow> agent_step acc offered operator s s'"
| enrolled: "in_force operator s = None \<Longrightarrow> offered k
    \<Longrightarrow> agent_step acc offered operator s (s\<lparr>ts_pin := key_text (trim k)\<rparr>)"

inductive_cases agent_stepE: "agent_step acc offered operator s s'"

interpretation agent_levels: ratchet "agent_step acc offered operator" ts_level for acc offered operator
  by unfold_locales (auto elim!: agent_stepE trust_stepE)

lemma agent_key_stays:
  assumes "(agent_step acc offered operator)\<^sup>*\<^sup>* s s'" and "in_force operator s = Some k"
  shows "in_force operator s' = Some k"
  using assms(1)
proof (induction rule: rtranclp_induct)
  case (step y z)
  from step.hyps(2) step.IH key_stays_in_force [OF r_into_rtranclp] show ?case by (auto elim!: agent_stepE)
qed (rule assms(2))

text \<open>With a key in force, every move is one of the poll loop's protocol.\<close>

lemma agent_step_under_key:
  assumes "(agent_step acc offered operator)\<^sup>*\<^sup>* s s'" and "in_force operator s = Some k"
  shows "(trust_step acc operator)\<^sup>*\<^sup>* s s'"
  using assms(1)
proof (induction rule: rtranclp_induct)
  case (step y z)
  have "in_force operator y = Some k" using agent_key_stays [OF step.hyps(1) assms(2)] .
  with step.hyps(2) have "trust_step acc operator y z" by (auto elim: agent_stepE)
  with step.IH show ?case by (rule rtranclp.rtrancl_into_rtrancl)
qed simp

section \<open>Start-up\<close>

text \<open>The keys the server may offer: those in the answers it gives to enrollment requests.\<close>

definition offers :: "platform \<Rightarrow> world \<Rightarrow> str \<Rightarrow> bool" where
  "offers pl w k \<longleftrightarrow> (\<exists>t rq resp answer. http w t POST rq = Some resp
     \<and> cd_enroll_response (pl_codecs pl) (resp_body resp) = Some answer \<and> en_bundle_signing_key answer = Some k)"

abbreviation life_step :: "platform \<Rightarrow> (str \<Rightarrow> bool) \<Rightarrow> config \<Rightarrow> trust_state \<Rightarrow> trust_state \<Rightarrow> bool" where
  "life_step pl offered c \<equiv> agent_step (accepted (pl_libs pl)) offered (cfg_bundle_signing_public_key c)"

lemma short_elsewhere: "k \<in> state_file_keys c \<Longrightarrow> \<not> short (length (components (cfg_state_dir c))) k n"
  by (auto simp: short_def state_dir_files)

lemma moves_ensure_dir:
  assumes "ensure_state_dir dmode (cfg_state_dir c) w = (r, w')"
  shows "moves R c w w'"
proof (cases "honest w")
  case False
  then show ?thesis using ensure_state_dir_env [OF assms] by (simp add: moves_def)
next
  case True
  let ?k = "components (cfg_state_dir c)"
  let ?C = "confined (short (length ?k)) (\<lambda>_. True)"
  obtain x w1 where 1: "create_dirs dmode (rev ?k) w = (x, w1)" by fastforce
  have c1: "?C w w1" by (rule create_dirs_confined [OF _ 1]) simp
  obtain y w2 where 2: "ensure_not_symlink (cfg_state_dir c) w1 = (y, w2)" by fastforce
  have c2: "?C w w2" using confined_trans [OF c1 keepsD [OF keeps_checks(2) 2]] .
  obtain z w3 where 3: "sys_set_permissions ?k MODE_DIR w2 = (z, w3)" by fastforce
  have c3: "?C w2 w3" if "y = Inr ()"
  proof -
    have "\<And>t u. fs w2 ?k \<noteq> Some (NLink t u)"
      using ensure_not_symlink_honest [OF honest_env [OF True create_dirs_env [OF 1]], of "cfg_state_dir c" w2] 2 that
      by simp
    then have f: "follow max_links (fs w2) ?k = Some ?k"
      by (cases "fs w2 ?k") (auto simp: max_links_def numeral_eq_Suc split: node.splits)
    have "?C w2 (snd (sys_set_permissions ?k MODE_DIR w2))"
      unfolding sys_set_permissions_def
      by (rule sys_update_within) (use f in \<open>auto simp: fs_change_def short_def split: option.splits\<close>)
    with 3 show ?thesis by simp
  qed
  have "?C w w'"
    using assms 1 2 3 c1 c2 confined_trans [OF c2 c3]
    by (cases x; cases y) (auto simp: ensure_state_dir_def bind_io_def map_err_io_def create_dir_all_def split: prod.splits)
  then show ?thesis by (rule moves_elsewhere) (rule short_elsewhere)
qed

lemma moves_setup:
  assumes "daemon_setup pl c w = (r, w')"
  shows "moves R c w w'"
proof -
  have "moves R c w (log_startup_diagnostics w)"
    using is_systemd_frame [of w "fst (is_systemd w)" "snd (is_systemd w)"]
    by (intro moves_frame) (simp add: log_startup_diagnostics_def frame_step_def)
  moreover obtain x w1 where e: "ensure_state_dir (pl_dir_mode pl) (cfg_state_dir c) (log_startup_diagnostics w) = (x, w1)"
    by fastforce
  note moves_ensure_dir [OF e]
  moreover have "moves R c w1 w'" if "x = Inr u" for u
    using assms e that moves_keeps [OF keeps_install] by (auto simp: daemon_setup_def bind_io_def)
  ultimately show ?thesis
    using assms e by (cases x) (auto simp: daemon_setup_def bind_io_def intro: moves_trans)
qed

section \<open>Enrollment\<close>

lemma enrollment_elsewhere:
  assumes "key_writes L (enrollment_service_new dir) k n \<or> record_writes enc (enrollment_service_new dir) url hostname k n"
  shows "k \<notin> state_file_keys c"
proof -
  have "{PRIVATE_KEY_FILE, PUBLIC_KEY_FILE, MACHINE_RECORD_FILE} \<inter> {GENERATION_FILE, BUNDLE_FINGERPRINT_FILE, SIGNING_KEY_FILE} = {}"
    by (simp add: PRIVATE_KEY_FILE_def PUBLIC_KEY_FILE_def MACHINE_RECORD_FILE_def GENERATION_FILE_def
        BUNDLE_FINGERPRINT_FILE_def SIGNING_KEY_FILE_def)
  with assms show ?thesis by (auto simp: key_writes_def record_writes_def service_files state_dir_files)
qed

text \<open>The client keeps only answers the server gave.\<close>

definition from_server :: "platform \<Rightarrow> world \<Rightarrow> http_enrollment_client \<Rightarrow> bool" where
  "from_server pl w client \<longleftrightarrow>
     (\<forall>answer k. hec_last_response client = Some answer \<longrightarrow> en_bundle_signing_key answer = Some k \<longrightarrow> offers pl w k)"

lemma offers_env: "same_env w w' \<Longrightarrow> offers pl w' = offers pl w"
  by (simp add: fun_eq_iff offers_def same_env_def)

lemma from_server_env: "same_env w w' \<Longrightarrow> from_server pl w' client = from_server pl w client"
  by (simp add: from_server_def offers_env)

lemma offersI:
  "http w t POST rq = Some resp \<Longrightarrow> cd_enroll_response (pl_codecs pl) (resp_body resp) = Some answer
   \<Longrightarrow> en_bundle_signing_key answer = Some k \<Longrightarrow> offers pl w k"
  unfolding offers_def by blast

lemma http_enroll_from_server:
  assumes "http_enroll jenc (cd_enroll_response (pl_codecs pl)) rq client w = (r, client', w')" and "from_server pl w client"
  shows "from_server pl w client'"
  using assms
  by (auto simp: http_enroll_def post_json_def http_exchange_def from_server_def
      split: option.splits sum.splits if_splits prod.splits intro: offersI)

lemma enroll_from_server:
  assumes "enroll L env enc (http_enroll jenc (cd_enroll_response (pl_codecs pl))) svc url token hostname client w = (r, client', w')"
    and "from_server pl w client"
  shows "from_server pl w client'"
  using assms(1)
proof (cases rule: enroll_cases)
  case (refused kp rq w2 e)
  have "same_env w w2"
    using confined_env [OF keepsD [OF enroll_prepare_keeps refused(2)]] by (auto simp: same_env_def)
  with http_enroll_from_server [OF refused(3)] assms(2) show ?thesis by (simp add: from_server_env)
next
  case (answered kp rq w2 resp w3)
  have "same_env w w2"
    using confined_env [OF keepsD [OF enroll_prepare_keeps answered(2)]] by (auto simp: same_env_def)
  with http_enroll_from_server [OF answered(3)] assms(2) show ?thesis by (simp add: from_server_env)
qed (use assms(2) in simp_all)

lemma moves_enroll_attempt:
  assumes "enroll_attempt pl (enrollment_service_new dir) url token hostname a client w = (r, client', w')"
    and "from_server pl w client"
  shows "moves R c w w'" and "from_server pl w' client'"
proof -
  let ?svc = "enrollment_service_new dir"
  obtain x client1 w1 where e: "enroll (pl_libs pl) (pl_host pl) (cd_record_enc (pl_codecs pl))
         (http_enroll (cd_enroll_request (pl_codecs pl)) (cd_enroll_response (pl_codecs pl)))
         ?svc url token hostname client w = (x, client1, w1)" by (metis surj_pair)
  obtain y w2 where l: "load_machine_identity (pl_libs pl) (cd_record_dec (pl_codecs pl)) ?svc w1 = (y, w2)" by fastforce
  have 1: "moves R c w w1"
    by (rule moves_elsewhere [OF http_enroll_confined [OF e]]) (use enrollment_elsewhere in blast)
  have 2: "moves R c w1 w2" by (rule moves_keeps [OF keeps_load_identity l])
  note 3 = moves_trans [OF 1 2]
  have w': "w' = (if x = Inl AlreadyEnrolled then w2 else w1)" "client' = client1"
    using assms(1) e l by (auto simp: enroll_attempt_def split: if_splits)
  with 1 3 show m: "moves R c w w'" by simp
  from enroll_from_server [OF e assms(2)] w'(2) m show "from_server pl w' client'"
    using from_server_env [of w w'] by (simp add: moves_def)
qed

lemma moves_retry:
  assumes "enroll_with_retry pl sleeper_new (enrollment_service_new dir) c token hostname w = Some (x, client, w')"
  shows "moves R c w w'" and "from_server pl w' client"
proof -
  let ?I = "\<lambda>cl v. moves R c w v \<and> from_server pl v cl"
  have "?I client w' \<and> (\<forall>i. x = Finished (Inr i) \<longrightarrow> True)"
  proof (rule retry_loop_inv [OF assms [unfolded enroll_with_retry_def retry_with_backoff_def], where I = ?I])
    show "?I (http_client_new (cfg_server_url c)) w" by (simp add: from_server_def http_client_new_def)
    show "?I cl' v' \<and> (\<forall>i. r = Inr i \<longrightarrow> True)"
      if "?I cl v" "enroll_attempt pl (enrollment_service_new dir) (cfg_server_url c) token hostname a cl v = (r, cl', v')"
      for a cl v r cl' v'
      using that moves_enroll_attempt [OF that(2)] moves_trans by blast
    show "?I cl v'" if "?I cl v" "frame_step v v'" for cl v v'
      using that moves_trans [OF _ moves_frame [OF that(2)]] from_server_env by (auto simp: frame_step_def)
    show "frame_step v v'" if "interruptible_sleep sleeper_new d v = Some v'" for d v v'
      using sleep_frame [OF sleeper_step_pos(2) that] .
  qed (auto simp: is_requested_def stop_requested_def)
  then show "moves R c w w'" "from_server pl w' client" by simp_all
qed

text \<open>The pin of an enrollment: a move only where no key is in force.\<close>

definition pin_writes :: "config \<Rightarrow> str \<Rightarrow> fskey \<Rightarrow> node option \<Rightarrow> bool" where
  "pin_writes c k key n \<longleftrightarrow> key = components (config_bundle_signing_key_path c)
     \<and> (\<exists>u. n = Some (NFile (utf8 (trim k @ [10])) MODE_PUBLIC u))"

lemma pin_change:
  assumes "plain_state c m" and "fs_change (pin_writes c k) m m'"
    and "cfg_bundle_signing_public_key c = None" and "text_of m (config_bundle_signing_key_path c) = None" and "offered k"
  shows "plain_state c m' \<and> (life_step pl offered c)\<^sup>*\<^sup>* (agent_trust c m) (agent_trust c m')"
proof -
  let ?g = "components (config_generation_path c)" and ?k = "components (config_bundle_signing_key_path c)"
  have ch: "m' q = m q \<or> pin_writes c k q (m' q)" if "q \<in> state_file_keys c" for q
    using assms(2) state_files_not_tmp [OF that] by (auto simp: fs_change_def)
  have plain: "plain_state c m'"
    unfolding plain_state_def
  proof (intro ballI allI)
    fix q t u
    assume q: "q \<in> state_file_keys c"
    with assms(1) have "m q \<noteq> Some (NLink t u)" unfolding plain_state_def by blast
    with ch [OF q] show "m' q \<noteq> Some (NLink t u)" by (auto simp: pin_writes_def)
  qed
  have "?g \<noteq> ?k" using state_names_distinct by (simp add: state_dir_files)
  with ch [of ?g] have "m' ?g = m ?g" by (auto simp: pin_writes_def)
  with text_of_cong [of m' "config_generation_path c" m] plain
  have lvl: "ts_level (agent_trust c m') = ts_level (agent_trust c m)"
    by (auto simp: agent_trust_def plain_state_def)
  show ?thesis
  proof (cases "m' ?k = m ?k")
    case True
    with text_of_cong [of m' "config_bundle_signing_key_path c" m] plain
    have "ts_pin (agent_trust c m') = ts_pin (agent_trust c m)" by (auto simp: agent_trust_def plain_state_def)
    with lvl have "agent_trust c m' = agent_trust c m" by simp
    with plain show ?thesis by simp
  next
    case False
    with ch [of ?k] obtain u where "m' ?k = Some (NFile (utf8 (trim k @ [10])) MODE_PUBLIC u)" by (auto simp: pin_writes_def)
    then have "ts_pin (agent_trust c m') = key_text (trim k)" by (simp add: agent_trust_def text_of_def key_text_def)
    with lvl have "agent_trust c m' = (agent_trust c m)\<lparr>ts_pin := key_text (trim k)\<rparr>" by simp
    moreover have "life_step pl offered c (agent_trust c m) ((agent_trust c m)\<lparr>ts_pin := key_text (trim k)\<rparr>)"
      by (rule enrolled) (use assms(3-5) in \<open>simp_all add: agent_trust_def\<close>)
    ultimately show ?thesis using plain by auto
  qed
qed

lemma moves_pin:
  assumes "pin_bundle_signing_key c key w = (r, w')" and "\<And>k. key = Some k \<Longrightarrow> offered k"
  shows "moves (life_step pl offered c) c w w'"
proof -
  let ?p = "config_bundle_signing_key_path c"
  consider (none) "w' = w" | (some) k where "cfg_bundle_signing_public_key c = None" "key = Some k"
    using assms(1) by (cases "cfg_bundle_signing_public_key c"; cases key) (auto simp: pin_bundle_signing_key_def)
  then show ?thesis
  proof cases
    case (some k)
    obtain x w1 where 1: "read_optional_string ?p w = (x, w1)" by fastforce
    have m1: "moves (life_step pl offered c) c w w1" by (rule moves_keeps [OF keeps_read_optional_string 1])
    obtain y w2 where 2: "secure_write ?p (utf8 (trim k @ [10])) MODE_PUBLIC w1 = (y, w2)" by fastforce
    have "keeps (pin_writes c k) (\<lambda>_. True) (secure_write ?p (utf8 (trim k @ [10])) MODE_PUBLIC)"
      by (rule secure_write_keeps) (simp add: pin_writes_def)
    note c2 = keepsD [OF this 2]
    have m2: "moves (life_step pl offered c) c w1 w2" if x: "x = Inr None" and h: "honest w"
    proof (rule moves_confined [OF c2])
      fix m
      assume "plain_state c (fs w1)" "fs_change (pin_writes c k) (fs w1) m"
      moreover have "text_of (fs w1) ?p = None" using read_optional_string_Inr [OF h 1 [unfolded x]] by simp
      ultimately show "plain_state c m \<and> (life_step pl offered c)\<^sup>*\<^sup>* (agent_trust c (fs w1)) (agent_trust c m)"
        using pin_change some assms(2) by blast
    qed
    have w': "w' = (if x = Inr None then w2 else w1)"
      using assms(1) some 1 2
      by (cases x) (auto simp: pin_bundle_signing_key_def runtime_read_eq bind_io_def split: sum.splits option.splits)
    show ?thesis
    proof (cases "honest w")
      case False
      moreover have "same_env w w'" using m1 confined_env [OF c2] w' by (auto simp: moves_def intro: same_env_trans)
      ultimately show ?thesis by (simp add: moves_def)
    next
      case True
      with w' m1 m2 moves_trans [OF m1] show ?thesis by simp
    qed
  qed simp
qed

lemma moves_captured:
  assumes "pin_captured c client w = (r, w')" and "from_server pl w client"
  shows "moves (life_step pl (offers pl w) c) c w w'"
proof (cases "hec_last_response client")
  case None
  with assms(1) show ?thesis by (simp add: pin_captured_def)
next
  case (Some answer)
  obtain x v where p: "pin_bundle_signing_key c (en_bundle_signing_key answer) w = (x, v)" by fastforce
  have "w' = v" using assms(1) Some p by (cases x) (auto simp: pin_captured_def bind_io_def)
  moreover have "offers pl w k" if "en_bundle_signing_key answer = Some k" for k
    using assms(2) Some that by (simp add: from_server_def)
  ultimately show ?thesis using moves_pin [OF p] by simp
qed

lemma moves_enrolled:
  assumes "ensure_enrolled pl sleeper_new c (enrollment_service_new dir) host w = Some (x, w')"
  shows "moves (life_step pl (offers pl w) c) c w w'"
proof -
  let ?svc = "enrollment_service_new dir" and ?M = "moves (life_step pl (offers pl w) c) c"
  obtain b w1 where 1: "is_enrolled ?svc w = (b, w1)" by fastforce
  have m1: "?M w w1" using is_enrolled_frame [OF 1] by simp
  obtain y w2 where 2: "load_machine_identity (pl_libs pl) (cd_record_dec (pl_codecs pl)) ?svc w1 = (y, w2)" by fastforce
  have m2: "?M w w2" by (rule moves_trans [OF m1 moves_keeps [OF keeps_load_identity 2]])
  obtain z w3 where 3: "reqwest_enrollment_new (pl_tls pl) (cfg_allow_insecure_tls c) (cfg_tls_ca_path c) w1 = (z, w3)"
    by fastforce
  have m3: "?M w w3" by (rule moves_trans [OF m1 moves_keeps [OF keeps_transports(2) 3]])
  have retry: "?M w w4 \<and> (pin_captured c client w4 = (v, w5) \<longrightarrow> ?M w w5)"
    if "enroll_with_retry pl sleeper_new ?svc c token (hf_hostname host) w3 = Some (res, client, w4)"
    for token res client w4 v w5
  proof -
    have m4: "?M w w4" by (rule moves_trans [OF m3 moves_retry(1) [OF that]])
    then have "offers pl w4 = offers pl w" by (simp add: moves_def offers_env)
    with moves_captured [OF _ moves_retry(2) [OF that]] have "?M w4 w5" if "pin_captured c client w4 = (v, w5)"
      using that by simp
    with m4 show ?thesis by (auto intro: moves_trans)
  qed
  show ?thesis
  proof (cases "\<exists>token. \<not> b \<and> pl_env pl ENROLLMENT_TOKEN_ENV = Some token \<and> validate_token token = Inr () \<and> z = Inr ()")
    case False
    with assms 1 2 3 m1 m2 m3 show ?thesis
      by (cases b; cases z) (auto simp: ensure_enrolled_def split: option.splits sum.splits)
  next
    case True
    then obtain token where tok: "\<not> b" "pl_env pl ENROLLMENT_TOKEN_ENV = Some token" "validate_token token = Inr ()"
        "z = Inr ()" by blast
    with assms 1 3 obtain res client w4
      where 4: "enroll_with_retry pl sleeper_new ?svc c token (hf_hostname host) w3 = Some (res, client, w4)"
      by (auto simp: ensure_enrolled_def bind_eq_Some_conv)
    obtain v w5 where 5: "pin_captured c client w4 = (v, w5)" by fastforce
    have "w' = (case res of Finished (Inr _) \<Rightarrow> w5 | _ \<Rightarrow> w4)"
      using assms 1 3 tok 4 5 by (auto simp: ensure_enrolled_def split: run.splits sum.splits)
    with retry [OF 4] 5 show ?thesis by (auto split: run.split sum.split)
  qed
qed

section \<open>The run\<close>

lemma moves_serve:
  assumes "daemon_serve pl sleeper_new c host startup i wk sched w = Some (x, w')"
    and "wk_sync wk = sync_service_of c i kp"
  shows "moves (daemon_step pl c) c w w'"
proof -
  let ?st0 = "initial_status pl i startup (wk_generation wk)" and ?M = "moves (daemon_step pl c) c"
  obtain r w1 where 1: "status_save (cd_status_enc (pl_codecs pl)) ?st0 c w = (r, w1)" by fastforce
  note m1 = moves_save [OF 1, of "daemon_step pl c"]
  obtain r2 st2 w2 where 2: "record_heartbeat pl (wk_heartbeat wk) host startup c ?st0 w1 = (r2, st2, w2)" by (metis surj_pair)
  note m2 = moves_trans [OF m1 moves_heartbeat [OF 2]]
  obtain r3 st3 w3 where 3: "record_sync pl (wk_applier wk) (wk_sync wk) c st2 w2 = (r3, st3, w3)" by (metis surj_pair)
  note m3 = moves_trans [OF m2 moves_sync [OF 3 [unfolded assms(2)]]]
  show ?thesis
  proof (cases r)
    case (Inl e)
    with assms(1) 1 m1 show ?thesis by (auto simp: daemon_serve_def Let_def)
  next
    case (Inr u)
    with assms(1) 1 2 3 obtain y st4 w4 where 4: "run_poll_loop pl sleeper_new (wk_heartbeat wk) (wk_applier wk) (wk_sync wk)
        host c startup sched st3 w3 = Some (y, st4, w4)"
      by (auto simp: daemon_serve_def Let_def bind_eq_Some_conv)
    note m4 = moves_trans [OF m3 moves_loop [OF 4 [unfolded assms(2)]]]
    from moves_trans [OF m4 moves_save] m4 assms(1) 1 2 3 4 Inr show ?thesis
      by (auto simp: daemon_serve_def Let_def split: prod.splits run.splits)
  qed
qed

lemma build_workers_sync:
  assumes "build_workers pl c svc i w = (Inr wk, w')"
  shows "\<exists>kp. wk_sync wk = sync_service_of c i kp"
  using assms unfolding build_workers_def bind_io_Inr by auto

lemma moves_workers:
  assumes "build_workers pl c svc i w = (r, w')"
  shows "moves R c w w'"
proof -
  have "keeps (\<lambda>_ _. False) (\<lambda>_. True) (status_load dec c)" for dec
    using keeps_read(1) by (auto simp: keeps_def status_load_def split: prod.splits sum.splits) (metis snd_conv)+
  then have "keeps (\<lambda>_ _. False) (\<lambda>_. True) (build_workers pl c svc i)"
    unfolding build_workers_def load_machine_keypair_def
    by (intro keeps_bind keeps_read_keypair keeps_runtime_generation keeps_transports keeps_return)
  from moves_keeps [OF this] assms show ?thesis by simp
qed

lemma moves_work:
  assumes "daemon_work pl sleeper_new st host svc i w = Some (x, w')"
  shows "moves (daemon_step pl (as_config st)) (as_config st) w w'"
proof -
  let ?c = "as_config st"
  let ?M = "moves (daemon_step pl ?c) ?c"
  obtain r w1 where 1: "build_workers pl ?c svc i w = (r, w1)" by fastforce
  have m1: "?M w w1" using moves_workers [OF 1] .
  obtain s w2 where 2: "scheduler_new (clock w1 (tick w1))
      (jittered_interval_new (mi_heartbeat_interval i) (cfg_poll_jitter_ratio ?c))
      (jittered_interval_new (mi_sync_interval i) (cfg_poll_jitter_ratio ?c)) (advance w1) = (s, w2)" by fastforce
  have "frame_step (advance w1) w2"
    using 2 by (auto simp: scheduler_new_def split: prod.splits option.splits dest!: due_after_frame intro: frame_step_trans)
  then have m2: "?M w w2" using moves_trans [OF m1 moves_trans [OF moves_advance moves_frame]] by blast
  show ?thesis
  proof (cases r)
    case (Inl e)
    with assms 1 m1 show ?thesis by (auto simp: daemon_work_def Let_def)
  next
    case (Inr wk)
    then obtain kp where wk: "wk_sync wk = sync_service_of ?c i kp" using build_workers_sync 1 by blast
    from assms 1 2 Inr m2 moves_trans [OF m2 moves_serve [OF _ wk]] show ?thesis
      by (cases s) (auto simp: daemon_work_def clock_now_def Let_def)
  qed
qed

lemma moves_run:
  assumes "daemon_run pl st w = Some (x, w')"
  shows "moves (life_step pl (offers pl w) (as_config st)) (as_config st) w w'"
proof -
  let ?c = "as_config st" and ?host = "gather_host_facts (pl_host pl)"
  let ?svc = "enrollment_service_new (cfg_identity_dir (as_config st))"
  let ?M = "moves (life_step pl (offers pl w) ?c) ?c"
  obtain r w1 where 1: "daemon_setup pl ?c w = (r, w1)" by fastforce
  have m1: "?M w w1" using moves_setup [OF 1] .
  then have o1: "offers pl w1 = offers pl w" by (simp add: moves_def offers_env)
  show ?thesis
  proof (cases r)
    case (Inl e)
    with assms 1 m1 show ?thesis by (simp add: daemon_run_def Let_def)
  next
    case (Inr u)
    with assms 1 obtain y w2 where 2: "ensure_enrolled pl sleeper_new ?c ?svc ?host w1 = Some (y, w2)"
      by (auto simp: daemon_run_def Let_def bind_eq_Some_conv)
    have m2: "?M w w2" using moves_trans [OF m1] moves_enrolled [OF 2] o1 by simp
    have "?M (advance w2) w'" if "daemon_work pl sleeper_new st ?host ?svc i (advance w2) = Some (x, w')" for i
      by (rule moves_mono [OF moves_work [OF that]]) (rule serve)
    then have "?M w w'" if "daemon_work pl sleeper_new st ?host ?svc i (advance w2) = Some (x, w')" for i
      using that moves_trans [OF m2 moves_trans [OF moves_advance]] by blast
    with assms 1 2 Inr m2 moves_trans [OF m2 moves_advance] show ?thesis
      by (auto simp: daemon_run_def Let_def is_requested_def stop_requested_def split: run.splits sum.splits if_splits)
  qed
qed

lemma keeps_config_load [intro]: "keeps P Q (config_load L toml env p)"
  unfolding config_load_def by (intro keeps_bind keeps_map_err keeps_read keeps_lift)

lemma moves_program:
  assumes "config_load (pl_libs pl) (cd_toml (pl_codecs pl)) (pl_env pl) (config_path pl) w = (Inr c, v)"
    and "main_program pl w = Some (x, w')"
  shows "moves (life_step pl (offers pl w) c) c w w'"
proof -
  let ?M = "moves (life_step pl (offers pl w) c) c"
  have m0: "?M w v" by (rule moves_keeps [OF keeps_config_load assms(1)])
  obtain report w1 where 1: "validate_startup (pl_libs pl) (cd_ipc_request (pl_codecs pl)) (cd_ipc_response (pl_codecs pl)) c v
      = (report, w1)" by fastforce
  have m1: "?M w w1" by (rule moves_trans [OF m0 moves_elsewhere [OF validate_startup_confined [OF 1]]]) simp
  obtain st w2 where 2: "app_state_new system_clock_now c w1 = (st, w2)" by fastforce
  have m2: "?M w w2" using moves_trans [OF m1 moves_frame [OF system_clock.app_state_new_frame [OF 2]]] .
  have c: "as_config st = c" using 2 by (auto simp: app_state_new_def split: prod.splits)
  have "offers pl w2 = offers pl w" using m2 by (simp add: moves_def offers_env)
  with c moves_trans [OF m2] moves_run [of pl st w2] have "?M w w3" if "daemon_run pl st w2 = Some (y, w3)" for y w3
    using that by fastforce
  with assms 1 2 m1 show ?thesis
    by (auto simp: main_program_def run_agent_def bind_eq_Some_conv split: sum.splits)
qed

section \<open>Lives\<close>

text \<open>The file system states of a run: the last one and those in its trace.\<close>

definition moment_of :: "world \<Rightarrow> world \<Rightarrow> fsmap \<Rightarrow> bool" where
  "moment_of w w' m \<longleftrightarrow> m = fs w' \<or> (\<exists>es. trace w' = trace w @ es \<and> FsNow m \<in> set es)"

lemma moves_moment:
  assumes "moves R c w w'" and "honest w" and "plain_state c (fs w)" and "moment_of w w' m"
  shows "plain_state c m \<and> R\<^sup>*\<^sup>* (agent_trust c (fs w)) (agent_trust c m)"
proof -
  from assms(1-3) obtain ms where ms: "fs_moments (trace w') = fs_moments (trace w) @ ms"
      "\<forall>m \<in> insert (fs w') (set ms). plain_state c m \<and> R\<^sup>*\<^sup>* (agent_trust c (fs w)) (agent_trust c m)"
    by (auto simp: moves_def)
  have "m \<in> insert (fs w') (set ms)"
    using assms(4) ms(1) by (auto simp: moment_of_def simp flip: set_fs_moments)
  with ms(2) show ?thesis by blast
qed

text \<open>
  One life: a run of \<open>main\<close> under the configuration \<open>c\<close>, up to its end or to any moment of it. The
  next life starts from those files, in whatever environment.
\<close>

inductive agent_life :: "platform \<Rightarrow> config \<Rightarrow> world \<Rightarrow> world \<Rightarrow> bool" for pl c where
  life: "config_load (pl_libs pl) (cd_toml (pl_codecs pl)) (pl_env pl) (config_path pl) w = (Inr c, v)
    \<Longrightarrow> honest w \<Longrightarrow> main_program pl w = Some (x, w') \<Longrightarrow> moment_of w w' (fs w'')
    \<Longrightarrow> agent_life pl c w w''"

abbreviation lives_step :: "platform \<Rightarrow> config \<Rightarrow> trust_state \<Rightarrow> trust_state \<Rightarrow> bool" where
  "lives_step pl c \<equiv> life_step pl (\<lambda>_. True) c"

lemma life_refines:
  assumes "agent_life pl c w w'" and "plain_state c (fs w)"
  shows "plain_state c (fs w')" and "(lives_step pl c)\<^sup>*\<^sup>* (agent_trust c (fs w)) (agent_trust c (fs w'))"
proof -
  from assms(1) obtain v x w1 where run: "config_load (pl_libs pl) (cd_toml (pl_codecs pl)) (pl_env pl) (config_path pl) w
      = (Inr c, v)" "main_program pl w = Some (x, w1)" and h: "honest w" "moment_of w w1 (fs w')"
    by (auto elim: agent_life.cases)
  have "moves (lives_step pl c) c w w1"
    by (rule moves_mono [OF moves_program [OF run]]) (auto elim!: agent_stepE intro: agent_step.intros)
  from moves_moment [OF this h(1) assms(2) h(2)]
  show "plain_state c (fs w')" "(lives_step pl c)\<^sup>*\<^sup>* (agent_trust c (fs w)) (agent_trust c (fs w'))" by simp_all
qed

interpretation lives: simulation "\<lambda>w w'. plain_state c (fs w) \<and> agent_life pl c w w'" "lives_step pl c"
    "\<lambda>w. agent_trust c (fs w)" for pl c
  by unfold_locales (use life_refines(2) in blast)

lemma lives_plain:
  assumes "(agent_life pl c)\<^sup>*\<^sup>* w w'" and "plain_state c (fs w)"
  shows "(\<lambda>w w'. plain_state c (fs w) \<and> agent_life pl c w w')\<^sup>*\<^sup>* w w' \<and> plain_state c (fs w')"
  using assms(1)
proof (induction rule: rtranclp_induct)
  case (step y z)
  with life_refines(1) rtranclp.rtrancl_into_rtrancl [of _ w y z] show ?case by blast
qed (simp add: assms(2))

lemma lives_refine:
  assumes "(agent_life pl c)\<^sup>*\<^sup>* w w'" and "plain_state c (fs w)"
  shows "(lives_step pl c)\<^sup>*\<^sup>* (agent_trust c (fs w)) (agent_trust c (fs w'))"
  using lives_plain [OF assms] by (blast intro: lives.run_sim)

section \<open>The theorems\<close>

text \<open>
  C1. The program refines the trust protocol: in one run of \<open>main\<close>, from the configuration file to
  its exit, whatever the server, the helper, the clock and the disk do, generation and pin are at
  the end and at every moment where the protocol can lead; a key is pinned only while none is in
  force, and then one of an accepted bundle or one the server sent with the enrollment.
\<close>

theorem program_refines_trust:
  assumes "config_load (pl_libs pl) (cd_toml (pl_codecs pl)) (pl_env pl) (config_path pl) w = (Inr c, v)"
    and "honest w" and "plain_state c (fs w)"
    and "main_program pl w = Some (x, w')" and "moment_of w w' m"
  shows "(agent_step (accepted (pl_libs pl)) (offers pl w) (cfg_bundle_signing_public_key c))\<^sup>*\<^sup>*
    (agent_trust c (fs w)) (agent_trust c m)"
  using moves_moment [OF moves_program [OF assms(1,4)] assms(2,3,5)] by simp

text \<open>
  C2. Across restarts and crashes: over any number of lives, each cut off at any moment and followed
  by one in a different environment, the generation taken over never goes back; a key in force
  stays in force for ever, and from then on only bundles accepted under it are taken over.
\<close>

theorem lives_keep_trust:
  assumes "(agent_life pl c)\<^sup>*\<^sup>* w w'" and "plain_state c (fs w)"
  shows "ts_level (agent_trust c (fs w)) \<le> ts_level (agent_trust c (fs w'))
    \<and> (\<forall>k. in_force (cfg_bundle_signing_public_key c) (agent_trust c (fs w)) = Some k \<longrightarrow>
         in_force (cfg_bundle_signing_public_key c) (agent_trust c (fs w')) = Some k
         \<and> (ts_level (agent_trust c (fs w')) = ts_level (agent_trust c (fs w))
            \<or> (\<exists>b. accepted (pl_libs pl) (Some k) b \<and> ts_level (agent_trust c (fs w')) = unat (generation b))))"
proof -
  note run = lives_refine [OF assms]
  have "in_force (cfg_bundle_signing_public_key c) (agent_trust c (fs w')) = Some k
         \<and> (ts_level (agent_trust c (fs w')) = ts_level (agent_trust c (fs w))
            \<or> (\<exists>b. accepted (pl_libs pl) (Some k) b \<and> ts_level (agent_trust c (fs w')) = unat (generation b)))"
    if "in_force (cfg_bundle_signing_public_key c) (agent_trust c (fs w)) = Some k" for k
    using agent_key_stays [OF run that] level_under_key [OF agent_step_under_key [OF run that] that] by blast
  with agent_levels.run_le [OF run] show ?thesis by blast
qed

end
