(* ===== verification/Daemon_Bounds.thy ===== *)
theory Daemon_Bounds
  imports Daemon_Safety
begin

text \<open>
  The identity type and what rests on it: an enrollment returns only well-formed identities,
  and a daemon that works with a well-formed identity never panics, since its cadences keep
  the arithmetic of delays and due times in range. An identity loaded from the record is not
  checked again; with an interval out of range the daemon panics when it makes its scheduler.
\<close>

section \<open>Well-formed identities\<close>

definition well_formed_identity :: "libs \<Rightarrow> enrollment_service \<Rightarrow> machine_identity \<Rightarrow> bool" where
  "well_formed_identity L svc i \<longleftrightarrow>
     1 \<le> length (mi_machine_id i) \<and> length (mi_machine_id i) \<le> 128 \<and> (\<forall>c \<in> set (mi_machine_id i). id_char c)
     \<and> good_hostname (mi_hostname i) \<and> good_server_url (mi_server_url i) \<and> ed25519_line L (mi_public_key i)
     \<and> good_poll_interval (mi_heartbeat_interval i) \<and> good_poll_interval (mi_sync_interval i)
     \<and> mi_private_key_path i = es_private_key_path svc \<and> mi_public_key_path i = es_public_key_path svc"

lemma enroll_prepare_key:
  "enroll_prepare L env svc url token hostname w = (Inr (kp, rq), w') \<Longrightarrow> ed25519_line L (er_public_key rq)"
  by (auto simp: enroll_prepare_def create_enrollment_request_def bind_io_Inr bind_res_eq_Inr validate_ed25519_public_key_iff)

text \<open>
  C17. Whatever client is used and whatever the server answers, an enrollment that succeeds returns
  a well-formed identity: a legal machine id, the host name and URL it was given, an Ed25519
  key line, and intervals of whole seconds between one and a day.
\<close>

theorem enrolled_identity_well_formed:
  assumes "enroll L env enc call svc url token hostname c w = (Inr i, c', w')"
  shows "well_formed_identity L svc i \<and> mi_hostname i = hostname \<and> mi_server_url i = url"
  using assms
proof (cases rule: enroll_cases)
  case (answered kp rq w2 resp w3)
  have good: "good_poll_interval (from_secs s)" if "1 \<le> unat s" "unat s \<le> 86400" for s
    using that by (auto simp: good_poll_interval_def from_secs_def intro!: exI [of _ "unat s"])
  from answered(4) obtain pk now v where "good_enrollment_response L resp" "public_key_openssh L kp = Inr pk"
    "i = \<lparr>mi_machine_id = en_machine_id resp, mi_hostname = hostname, mi_public_key = pk,
        mi_private_key_path = es_private_key_path svc, mi_public_key_path = es_public_key_path svc,
        mi_enrolled_at = now, mi_server_url = url,
        mi_heartbeat_interval = from_secs (en_heartbeat_interval resp),
        mi_sync_interval = from_secs (en_sync_interval resp)\<rparr>"
    by (rule persist_Inr)
  with enroll_prepare_Inr [OF answered(2)] enroll_prepare_key [OF answered(2)] show ?thesis
    by (simp add: well_formed_identity_def good_enrollment_response_def good)
qed auto

theorem enrolled_identity_well_formed_witness:
  "\<exists>i c' w'. sample_enroll sample_enc sample_host = (Inr i, c', w')
    \<and> well_formed_identity sample_libs (enrollment_service_new (lit ''/d'')) i"
proof -
  obtain i c' w' where run: "sample_enroll sample_enc sample_host = (Inr i, c', w')" by (rule sample_enrolled)
  from run enrolled_identity_well_formed [OF run] show ?thesis by blast
qed

section \<open>No panic\<close>

lemma good_cadence_new:
  assumes "good_poll_interval d"
  shows "good_cadence (jittered_interval_new d ratio)"
proof -
  from assms obtain s where s: "d = s * NANOS_PER_SEC" "1 \<le> s" "s \<le> 86400" by (auto simp: good_poll_interval_def)
  have "s \<le> 2 ^ 53" using s(3) by simp
  with good_interval_new [of s ratio] s have "good_interval (jittered_interval_new d ratio) s" by simp
  with s(3) show ?thesis by (auto simp: good_cadence_def)
qed

lemma serve_no_panic:
  assumes "daemon_serve pl sleeper_new c host startup i wk sched w = Some (x, w')"
    and "good_scheduler sched" and "clock_in_range w"
  shows "\<exists>r. x = Finished r"
proof -
  let ?st0 = "initial_status pl i startup (wk_generation wk)"
  obtain r w1 where 1: "status_save (cd_status_enc (pl_codecs pl)) ?st0 c w = (r, w1)" by fastforce
  have c1: "clock_in_range w1" using clock_in_range_env [OF assms(3) anything_env [OF anything_status_save 1]] .
  obtain r2 st2 w2 where 2: "record_heartbeat pl (wk_heartbeat wk) host startup c ?st0 w1 = (r2, st2, w2)" by (metis surj_pair)
  have "same_env w1 w2" using record_heartbeat_env 2 unfolding well_behaved_def by (metis snd_conv)
  note c2 = clock_in_range_env [OF c1 this]
  obtain r3 st3 w3 where 3: "record_sync pl (wk_applier wk) (wk_sync wk) c st2 w2 = (r3, st3, w3)" by (metis surj_pair)
  have "same_env w2 w3" using record_sync_env 3 unfolding well_behaved_def by (metis snd_conv)
  note c3 = clock_in_range_env [OF c2 this]
  let ?loop = "run_poll_loop pl sleeper_new (wk_heartbeat wk) (wk_applier wk) (wk_sync wk) host c startup sched st3 w3"
  have loop: "\<exists>s'. y = Finished s'" if "?loop = Some (y, st4, w4)" for y st4 w4
    by (rule run_polling_no_panic [OF that [unfolded run_poll_loop_def] assms(2) c3 record_heartbeat_env record_sync_env
          sleep_frame [OF sleeper_step_pos(2)]])
       (auto simp: frame_step_def is_requested_def stop_requested_def same_env_def)
  show ?thesis
  proof (cases r)
    case (Inl e)
    with assms(1) 1 show ?thesis by (auto simp: daemon_serve_def Let_def)
  next
    case (Inr u)
    with assms(1) 1 2 3 obtain y st4 w4 where 4: "?loop = Some (y, st4, w4)"
      by (auto simp: daemon_serve_def Let_def bind_eq_Some_conv)
    with loop obtain s' where "y = Finished s'" by blast
    with assms(1) 1 2 3 4 Inr show ?thesis by (auto simp: daemon_serve_def Let_def split: prod.splits)
  qed
qed

text \<open>
  C18. The daemon does not panic: with intervals between one second and a day, which every enrolled
  identity has, and a clock before the last two days of the year 9999, no addition of a delay
  or to a due time leaves its range, however often the loop runs.
\<close>

theorem daemon_never_panics:
  assumes "good_poll_interval (mi_heartbeat_interval i)" and "good_poll_interval (mi_sync_interval i)"
    and "clock_in_range w" and "daemon_work pl sleeper_new st host svc i w = Some (x, w')"
  shows "\<exists>r. x = Finished r"
proof -
  let ?c = "as_config st"
  obtain b w1 where 1: "build_workers pl ?c svc i w = (b, w1)" by fastforce
  have c1: "clock_in_range w1" using clock_in_range_env [OF assms(3) anything_env [OF anything_build_workers 1]] .
  let ?hb = "jittered_interval_new (mi_heartbeat_interval i) (cfg_poll_jitter_ratio ?c)"
  let ?sy = "jittered_interval_new (mi_sync_interval i) (cfg_poll_jitter_ratio ?c)"
  have now: "clock w1 (tick w1) \<le> TIME_MAX - 2 * 86400 * 10 ^ 9" using c1 by (simp add: clock_in_range_def)
  obtain s w2 where 2: "scheduler_new (clock w1 (tick w1)) ?hb ?sy (advance w1) = (Some s, w2)" "good_scheduler s"
    using scheduler_new_good [OF good_cadence_new [OF assms(1)] good_cadence_new [OF assms(2)] now] .
  have "clock_in_range (advance w1)" using c1 by (simp add: clock_in_range_def)
  note c2 = clock_in_range_env [OF this scheduler_new_env [OF 2(1)]]
  show ?thesis
  proof (cases b)
    case (Inl e)
    with assms(4) 1 show ?thesis by (auto simp: daemon_work_def Let_def)
  next
    case (Inr wk)
    with assms(4) 1 2(1) have "daemon_serve pl sleeper_new ?c host (as_startup_time st) i wk s w2 = Some (x, w')"
      by (simp add: daemon_work_def clock_now_def Let_def)
    from serve_no_panic [OF this 2(2) c2] show ?thesis .
  qed
qed

section \<open>Where it panics\<close>

text \<open>A jittered delay is never shorter than its base, so a base past the end of time has no due time.\<close>

lemma next_delay_ge: "next_delay ji w = (Some d, w') \<Longrightarrow> ji_base ji \<le> d"
  by (auto simp: next_delay_def duration_add_def Let_def bind_eq_Some_conv split: if_splits prod.splits)

lemma due_after_past: "TIME_MAX < now + int (ji_base ji) \<Longrightarrow> \<exists>w'. due_after now ji w = (None, w')"
proof -
  assume late: "TIME_MAX < now + int (ji_base ji)"
  obtain d w' where d: "next_delay ji w = (d, w')" by fastforce
  have "Option.bind d (time_add now) = None"
    using next_delay_ge [of ji w] d late by (cases d) (auto simp: time_add_def)
  with d show ?thesis by (simp add: due_after_def)
qed

text \<open>A daemon with such an interval panics when it makes its scheduler.\<close>

lemma late_interval_panics:
  assumes "build_workers pl (as_config st) svc i w = (Inr wk, w1)"
    and "TIME_MAX < clock w1 (tick w1) + int (max (mi_heartbeat_interval i) (mi_sync_interval i))"
  shows "\<exists>w'. daemon_work pl sleeper st host svc i w = Some (Panic, w')"
proof -
  let ?hb = "jittered_interval_new (mi_heartbeat_interval i) (cfg_poll_jitter_ratio (as_config st))"
  let ?sy = "jittered_interval_new (mi_sync_interval i) (cfg_poll_jitter_ratio (as_config st))"
  have "\<exists>w'. scheduler_new (clock w1 (tick w1)) ?hb ?sy (advance w1) = (None, w')"
  proof (cases "TIME_MAX < clock w1 (tick w1) + int (mi_heartbeat_interval i)")
    case True
    with due_after_past [of "clock w1 (tick w1)" ?hb "advance w1"] show ?thesis
      by (auto simp: scheduler_new_def jittered_interval_new_def)
  next
    case False
    with assms(2) have late: "TIME_MAX < clock w1 (tick w1) + int (ji_base ?sy)"
      by (auto simp: jittered_interval_new_def max_def split: if_splits)
    obtain t w2 where 1: "due_after (clock w1 (tick w1)) ?hb (advance w1) = (t, w2)" by fastforce
    from due_after_past [OF late, of w2] 1 show ?thesis by (cases t) (auto simp: scheduler_new_def)
  qed
  with assms(1) show ?thesis by (auto simp: daemon_work_def clock_now_def Let_def)
qed

end
