(* ===== verification/First_Start.thy ===== *)
theory First_Start
  imports Program_Trust Sync_Liveness
begin

text \<open>
  The first start of a machine, from enrollment to the pin: on a fresh, calm machine with a
  token and a server that answers, the first attempt enrolls it, and the key the server sent
  with the answer is the one in force afterwards.
\<close>

section \<open>The pin on a calm machine\<close>

lemma pin_on_calm:
  assumes "calm w" and "writable {config_bundle_signing_key_path c} (fs w)"
    and "fs w (components (config_bundle_signing_key_path c)) = None" and "cfg_bundle_signing_public_key c = None"
  shows "\<exists>b w'. pin_bundle_signing_key c key w = (Inr b, w')
    \<and> text_of (fs w') (config_bundle_signing_key_path c) = Option.bind key (\<lambda>k. key_text (trim k))
    \<and> (\<forall>k. k \<noteq> components (config_bundle_signing_key_path c) \<longrightarrow> fs w' k = fs w k)"
proof (cases key)
  case None
  with assms show ?thesis by (auto simp: pin_bundle_signing_key_def text_of_def)
next
  case (Some k)
  let ?p = "config_bundle_signing_key_path c"
  have r: "read_optional_string ?p w = (Inr None, advance w)"
    using read_optional_string_readable [of ?p w] assms(1,3) by (simp add: readable_def text_of_def calm_def)
  have "calm (advance w)" "writable {?p} (fs (advance w))" using assms(1,2) by simp_all
  from calm_write [OF this singletonI, of "utf8 (trim k @ [10])" MODE_PUBLIC]
  obtain w' where w': "secure_write ?p (utf8 (trim k @ [10])) MODE_PUBLIC (advance w) = (Inr (), w')"
      "fs w' = (fs (advance w))(components ?p \<mapsto> NFile (utf8 (trim k @ [10])) MODE_PUBLIC (euid (advance w)))"
    by blast
  have "pin_bundle_signing_key c key w = (Inr True, w')"
    using Some assms(4) r w'(1) by (simp add: pin_bundle_signing_key_def runtime_read_eq bind_io_def)
  moreover have "text_of (fs w') ?p = key_text (trim k)" using w'(2) by (simp add: text_of_def key_text_def)
  ultimately show ?thesis using Some w'(2) by auto
qed

lemma retry_at_once:
  assumes "oper (saturating_add1 0) c (advance w) = (Inr v, c', w')" and "\<not> stop_flag w (tick w)"
  shows "retry_with_backoff pw policy sleep not_requested oper c w = Some (Finished (Inr v), c', w')"
  unfolding retry_with_backoff_def using assms
  by (subst retry_loop.simps) (simp add: is_requested_def stop_requested_def)

section \<open>The first start\<close>

text \<open>
  C24. A first start succeeds at its first attempt, if nothing goes wrong: the identity carries what the
  server sent, the record of that identity is on disk as the encoder writes it, and the pin on
  disk is the key of the answer, or none if it has none.
\<close>

theorem first_start_enrolls_and_pins:
  assumes fresh: "fresh_machine (enrollment_service_new dir) w" and "key_maker (pl_libs pl)"
    and pin: "cfg_bundle_signing_public_key c = None" "writable {config_bundle_signing_key_path c} (fs w)"
      "fs w (components (config_bundle_signing_key_path c)) = None"
    and good: "good_server_url (cfg_server_url c)" "good_hostname (hf_hostname host)"
      "good_enrollment_response (pl_libs pl) resp"
    and token: "pl_env pl ENROLLMENT_TOKEN_ENV = Some token" "good_token token"
    and tls: "cfg_tls_ca_path c = None" "tl_builds (pl_tls pl) (cfg_allow_insecure_tls c) []"
    and server: "enrolling_server (cd_enroll_request (pl_codecs pl)) (cd_enroll_response (pl_codecs pl))
      (cfg_server_url c) token (hf_hostname host) resp w"
    and enc: "\<And>r. \<exists>json. cd_record_enc (pl_codecs pl) r = Inr json"
    and going: "\<And>t. \<not> stop_flag w t"
  shows "\<exists>i w'. ensure_enrolled pl sleeper c (enrollment_service_new dir) host w = Some (Finished (Inr i), w')
    \<and> enrolled_as resp (hf_hostname host) (cfg_server_url c) i
    \<and> (\<exists>json u. cd_record_enc (pl_codecs pl) (to_record i) = Inr json
        \<and> fs w' (components (es_record_path (enrollment_service_new dir))) = Some (NFile (json @ [10]) MODE_PUBLIC u))
    \<and> text_of (fs w') (config_bundle_signing_key_path c) = Option.bind (en_bundle_signing_key resp) (\<lambda>k. key_text (trim k))"
proof -
  let ?svc = "enrollment_service_new dir" and ?p = "config_bundle_signing_key_path c"
  let ?w1 = "advance w" and ?w2 = "advance (advance w)"
  have calm: "calm w" and norec: "fs w (components (es_record_path ?svc)) = None"
    using fresh by (simp_all add: fresh_machine_def service_paths_def)
  have e: "is_enrolled ?svc w = (False, ?w1)"
    using calm norec
    by (simp add: is_enrolled_def sys_is_file_def sys_stat_def sys_query_def calm_def faultless_def stat_of_def
        max_links_def numeral_eq_Suc)
  have t: "reqwest_enrollment_new (pl_tls pl) (cfg_allow_insecure_tls c) (cfg_tls_ca_path c) ?w1 = (Inr (), ?w1)"
    using tls by (simp add: reqwest_enrollment_new_def build_transport_def bind_io_def)
  have "fresh_machine ?svc ?w2" using fresh by (simp add: fresh_machine_def)
  moreover have "enrolling_server (cd_enroll_request (pl_codecs pl)) (cd_enroll_response (pl_codecs pl))
      (hec_server_url (http_client_new (cfg_server_url c))) token (hf_hostname host) resp ?w2"
    using server by (simp add: enrolling_server_def http_client_new_def)
  ultimately obtain i w3 where en: "enroll (pl_libs pl) (pl_host pl) (cd_record_enc (pl_codecs pl))
      (http_enroll (cd_enroll_request (pl_codecs pl)) (cd_enroll_response (pl_codecs pl))) ?svc (cfg_server_url c) token
      (hf_hostname host) (http_client_new (cfg_server_url c)) ?w2
      = (Inr i, (http_client_new (cfg_server_url c))\<lparr>hec_last_response := Some resp\<rparr>, w3)"
    and i: "enrolled_as resp (hf_hostname host) (cfg_server_url c) i" and w3: "calm w3"
    using fresh_enrolls [of dir ?w2 "pl_libs pl" "cfg_server_url c" token "hf_hostname host" resp] assms(2) good token(2) enc
    by blast
  let ?cl = "(http_client_new (cfg_server_url c))\<lparr>hec_last_response := Some resp\<rparr>"
  have "enroll_with_retry pl sleeper ?svc c token (hf_hostname host) ?w1 = Some (Finished (Inr i), ?cl, w3)"
    unfolding enroll_with_retry_def by (rule retry_at_once) (use en going in \<open>simp_all add: enroll_attempt_def\<close>)
  moreover have "calm w3 \<and> writable {?p} (fs w3) \<and> fs w3 (components ?p) = None"
  proof -
    have change: "fs w3 k = fs w k" if k: "\<not> is_tmp k" "fs w k \<noteq> None \<or> k \<in> state_file_keys c" for k
    proof (rule ccontr)
      assume "fs w3 k \<noteq> fs w k"
      with confined_fs [OF http_enroll_confined [OF en] k(1)]
      have wr: "key_writes (pl_libs pl) ?svc k (fs w3 k)
          \<or> record_writes (cd_record_enc (pl_codecs pl)) ?svc (cfg_server_url c) (hf_hostname host) k (fs w3 k)" by simp
      then have "k \<in> components ` service_paths ?svc" by (auto simp: key_writes_def record_writes_def service_paths_def)
      with fresh have "fs w k = None" by (auto simp: fresh_machine_def)
      moreover from wr have "k \<notin> state_file_keys c" by (rule enrollment_elsewhere)
      ultimately show False using k(2) by simp
    qed
    from pin(2) obtain d mo u where d: "parent_of ?p = Inr d" "fs w d = Some (NDir mo u)" "\<not> is_tmp (components ?p)"
      by (auto simp: writable_def)
    then have "\<not> is_tmp d" using calm by (auto simp: calm_def)
    with change [of d] d(2) have "fs w3 d = Some (NDir mo u)" by simp
    moreover have "fs w3 (components ?p) = None" using change [OF d(3)] pin(3) by simp
    ultimately show ?thesis using w3 d(1,3) by (auto simp: writable_def)
  qed
  ultimately obtain b w4 where p4: "pin_bundle_signing_key c (en_bundle_signing_key resp) w3 = (Inr b, w4)"
      "text_of (fs w4) ?p = Option.bind (en_bundle_signing_key resp) (\<lambda>k. key_text (trim k))"
      "\<forall>k. k \<noteq> components ?p \<longrightarrow> fs w4 k = fs w3 k"
    using pin_on_calm [of w3 c "en_bundle_signing_key resp"] pin(1) by blast
  have "components (es_record_path ?svc) \<noteq> components ?p"
    by (simp add: service_files state_dir_files MACHINE_RECORD_FILE_def SIGNING_KEY_FILE_def lit_def)
  with enroll_record_file [OF en] p4(3) have rec: "\<exists>json u. cd_record_enc (pl_codecs pl) (to_record i) = Inr json
      \<and> fs w4 (components (es_record_path ?svc)) = Some (NFile (json @ [10]) MODE_PUBLIC u)"
    by simp
  have "ensure_enrolled pl sleeper c ?svc host w = Some (Finished (Inr i), w4)"
    using e t token \<open>enroll_with_retry pl sleeper ?svc c token (hf_hostname host) ?w1 = Some (Finished (Inr i), ?cl, w3)\<close> p4(1)
    by (simp add: ensure_enrolled_def token_check.check_iff [THEN iffD2] pin_captured_def bind_io_def)
  with i p4(2) rec show ?thesis by blast
qed

end
