(* ===== verification/Stored_Record.thy ===== *)
theory Stored_Record
  imports Daemon_Bounds First_Start
begin

text \<open>
  Starting from the record on disk: a machine whose key, record and state files can be read starts
  with the identity of its record, whatever intervals the record holds, and with an interval
  past the end of time its daemon panics.
\<close>

section \<open>What a start needs\<close>

text \<open>
  No fault, a safe key file, a generation file that is absent or holds a number, a status file that is
  absent or decodes, and a TLS configuration without a certificate file that the library accepts.
\<close>

definition can_work :: "platform \<Rightarrow> config \<Rightarrow> enrollment_service \<Rightarrow> world \<Rightarrow> bool" where
  "can_work pl c svc w \<longleftrightarrow> faultless w
     \<and> (\<exists>kp pk. key_file (pl_libs pl) svc (euid w) kp (fs w) \<and> public_key_openssh (pl_libs pl) kp = Inr pk)
     \<and> readable (config_generation_path c) (fs w)
     \<and> (\<forall>t. text_of (fs w) (config_generation_path c) = Some t \<longrightarrow> parse_u64 t \<noteq> None)
     \<and> (fs w (components (status_path c)) = None
        \<or> (\<exists>bs mo u st. fs w (components (status_path c)) = Some (NFile bs mo u)
             \<and> cd_status_dec (pl_codecs pl) bs = Inr st))
     \<and> cfg_tls_ca_path c = None \<and> tl_builds (pl_tls pl) (cfg_allow_insecure_tls c) []"

lemma can_work_later: "can_work pl c svc w \<Longrightarrow> same_env w w' \<Longrightarrow> fs w' = fs w \<Longrightarrow> can_work pl c svc w'"
  unfolding can_work_def by (auto simp: same_env_def faultless_def)

lemma status_load_ok:
  assumes "can_work pl c svc w"
  shows "\<exists>x. status_load (cd_status_dec (pl_codecs pl)) c w = (Inr x, advance w)"
  using assms
  by (auto simp: can_work_def status_load_def sys_read_ok faultless_def sys_read_def sys_query_def read_of_def stat_of_def
      max_links_def numeral_eq_Suc os_err_def)

lemma generation_reads:
  assumes "can_work pl c svc w"
  shows "\<exists>g. Runtime_State.read_generation c w = (Inr g, advance w)"
proof -
  from assms have r: "readable (config_generation_path c) (fs w)" "faultless w"
    and g: "text_of (fs w) (config_generation_path c) = Some t \<Longrightarrow> parse_u64 t \<noteq> None" for t
    by (auto simp: can_work_def)
  show ?thesis
    using read_optional_string_readable [OF r] g text_of_trim [of "fs w" "config_generation_path c"]
    by (cases "text_of (fs w) (config_generation_path c)")
       (auto simp: Runtime_State.read_generation_def runtime_read_eq bind_io_def split: option.splits)
qed

lemma keypair_loads:
  assumes "can_work pl c svc w"
  obtains kp pk w' where "read_keypair (pl_libs pl) svc w = (Inr kp, w')" "public_key_openssh (pl_libs pl) kp = Inr pk"
    "fs w' = fs w" "same_env w w'" "can_work pl c svc w'"
proof -
  from assms obtain kp pk where k: "key_file (pl_libs pl) svc (euid w) kp (fs w)"
      "public_key_openssh (pl_libs pl) kp = Inr pk" and "faultless w"
    by (auto simp: can_work_def)
  from read_keypair_ok [OF k(1) this(3)] obtain w' where "read_keypair (pl_libs pl) svc w = (Inr kp, w')" "fs w' = fs w"
      "same_env w w'" by blast
  with that k(2) can_work_later [OF assms] show ?thesis by blast
qed

lemma build_workers_ok:
  assumes "can_work pl c svc w"
  obtains wk w' where "build_workers pl c svc i w = (Inr wk, w')" "same_env w w'"
proof -
  obtain k1 p1 w1 where 1: "read_keypair (pl_libs pl) svc w = (Inr k1, w1)" "same_env w w1" "can_work pl c svc w1"
    using keypair_loads [OF assms] .
  obtain k2 p2 w2 where 2: "read_keypair (pl_libs pl) svc w1 = (Inr k2, w2)" "same_env w1 w2" "can_work pl c svc w2"
    using keypair_loads [OF 1(3)] .
  obtain g where g: "Runtime_State.read_generation c w2 = (Inr g, advance w2)" using generation_reads [OF 2(3)] by blast
  have "can_work pl c svc (advance w2)" by (rule can_work_later [OF 2(3)]) (simp_all add: same_env_def)
  then obtain x where x: "status_load (cd_status_dec (pl_codecs pl)) c (advance w2) = (Inr x, advance (advance w2))"
    using status_load_ok by blast
  have t: "reqwest_transport_new (pl_tls pl) (cfg_allow_insecure_tls c) (cfg_tls_ca_path c) v = (Inr (), v)" for v
    using assms by (simp add: can_work_def reqwest_transport_new_def build_transport_def bind_io_def)
  have "same_env w (advance (advance w2))" using same_env_trans [OF 1(2) 2(2)] by (auto simp: same_env_def)
  with that 1(1) 2(1) g x t show ?thesis
    by (simp add: build_workers_def load_machine_keypair_def bind_io_def)
qed

text \<open>The identity comes from the record as it is: the intervals are not looked at.\<close>

lemma stored_identity_loads:
  assumes "can_work pl c svc w" and "fs w (components (es_record_path svc)) = Some (NFile bs mo u)"
    and "cd_record_dec (pl_codecs pl) bs = Inr r"
    and "MIN_TIMESTAMP \<le> mr_enrolled_at_unix r" and "mr_enrolled_at_unix r \<le> MAX_TIMESTAMP"
  obtains i w' where "load_machine_identity (pl_libs pl) (cd_record_dec (pl_codecs pl)) svc w = (Inr i, w')"
    "mi_heartbeat_interval i = from_secs (mr_heartbeat_interval_secs r)"
    "mi_sync_interval i = from_secs (mr_sync_interval_secs r)" "same_env w w'" "can_work pl c svc w'"
proof -
  obtain kp pk w1 where 1: "read_keypair (pl_libs pl) svc w = (Inr kp, w1)" "public_key_openssh (pl_libs pl) kp = Inr pk"
      "fs w1 = fs w" "same_env w w1" "can_work pl c svc w1"
    using keypair_loads [OF assms(1)] .
  have "record_load (cd_record_dec (pl_codecs pl)) (es_record_path svc) w1 = (Inr r, advance w1)"
    using assms(2,3) 1(3,5)
    by (simp add: record_load_def bind_io_def map_err_io_def sys_read_ok can_work_def faultless_def)
  moreover obtain i where i: "into_identity r pk (es_private_key_path svc) (es_public_key_path svc) = Inr i"
      "mi_heartbeat_interval i = from_secs (mr_heartbeat_interval_secs r)"
      "mi_sync_interval i = from_secs (mr_sync_interval_secs r)"
    using assms(4,5) by (simp add: into_identity_def from_unix_timestamp_def)
  ultimately have "load_machine_identity (pl_libs pl) (cd_record_dec (pl_codecs pl)) svc w = (Inr i, advance w1)"
    using 1(1,2) by (simp add: load_machine_identity_def bind_io_def)
  moreover have "same_env w (advance w1)" using 1(4) by (auto simp: same_env_def)
  moreover have "can_work pl c svc (advance w1)" by (rule can_work_later [OF 1(5)]) (simp_all add: same_env_def)
  ultimately show ?thesis using that i(2,3) by blast
qed

section \<open>An interval past the end of time\<close>

text \<open>
  C19. The intervals of a stored record are not checked when it is loaded: an enrolled machine that has
  passed its set-up, whose key and state files are in order, and whose record decodes, with a
  time of enrollment in range but with an interval that leads past the year 9999, takes the identity of
  the record, and then its daemon panics (when it makes its scheduler, before the first heartbeat)
  instead of ending with an error.
\<close>

theorem oversized_interval_panics:
  assumes ready: "daemon_setup pl (as_config st) w0 = (Inr (), w)"
    and "can_work pl (as_config st) (enrollment_service_new (cfg_identity_dir (as_config st))) w"
    and stored: "fs w (components (es_record_path (enrollment_service_new (cfg_identity_dir (as_config st)))))
        = Some (NFile bs mo u)"
      "cd_record_dec (pl_codecs pl) bs = Inr r"
    and time: "MIN_TIMESTAMP \<le> mr_enrolled_at_unix r" "mr_enrolled_at_unix r \<le> MAX_TIMESTAMP"
    and late: "\<And>t. TIME_MAX < clock w t
        + int (max (unat (mr_heartbeat_interval_secs r)) (unat (mr_sync_interval_secs r)) * NANOS_PER_SEC)"
    and going: "\<And>t. \<not> stop_flag w t"
  shows "\<exists>w'. daemon_run pl st w0 = Some (Panic, w')"
proof -
  let ?c = "as_config st" and ?host = "gather_host_facts (pl_host pl)"
  let ?svc = "enrollment_service_new (cfg_identity_dir (as_config st))"
  have f: "faultless w" using assms(2) by (simp add: can_work_def)
  have a: "can_work pl ?c ?svc (advance w)" by (rule can_work_later [OF assms(2)]) (simp_all add: same_env_def)
  have recd: "fs (advance w) (components (es_record_path ?svc)) = Some (NFile bs mo u)" using stored(1) by simp
  obtain i w1 where l: "load_machine_identity (pl_libs pl) (cd_record_dec (pl_codecs pl)) ?svc (advance w) = (Inr i, w1)"
      and iv: "mi_heartbeat_interval i = from_secs (mr_heartbeat_interval_secs r)"
        "mi_sync_interval i = from_secs (mr_sync_interval_secs r)"
      and w1: "same_env (advance w) w1" "can_work pl ?c ?svc w1"
    using stored_identity_loads [OF a recd stored(2) time] .
  have "is_enrolled ?svc w = (True, advance w)"
    using is_enrolled_file [OF _ stored(1)] f by (simp add: faultless_def)
  with l have e: "ensure_enrolled pl sleeper_new ?c ?svc ?host w = Some (Finished (Inr i), w1)"
    by (simp add: ensure_enrolled_def)
  have w1a: "can_work pl ?c ?svc (advance w1)" by (rule can_work_later [OF w1(2)]) (simp_all add: same_env_def)
  obtain wk w2 where b: "build_workers pl ?c ?svc i (advance w1) = (Inr wk, w2)" "same_env (advance w1) w2"
    using build_workers_ok [OF w1a] .
  have "max (mi_heartbeat_interval i) (mi_sync_interval i)
      = max (unat (mr_heartbeat_interval_secs r)) (unat (mr_sync_interval_secs r)) * NANOS_PER_SEC"
    by (simp add: iv from_secs_def nat_mult_max_left)
  moreover have "clock w2 = clock w" using w1(1) b(2) by (simp add: same_env_def)
  ultimately have "TIME_MAX < clock w2 (tick w2) + int (max (mi_heartbeat_interval i) (mi_sync_interval i))"
    using late [of "tick w2"] by (simp only:)
  from late_interval_panics [OF b(1) this] obtain w3
    where "daemon_work pl sleeper_new st ?host ?svc i (advance w1) = Some (Panic, w3)" by blast
  moreover have "is_requested w1 = (False, advance w1)"
    using going w1(1) by (simp add: is_requested_def stop_requested_def same_env_def)
  ultimately show ?thesis using ready e by (simp add: daemon_run_def Let_def)
qed

end
