(* ===== verification/Program_Examples.thy ===== *)
theory Program_Examples
  imports Daemon_Examples Program_Trust Daemon_Bounds First_Start Stored_Record
begin

text \<open>
  Concrete runs of the whole program: an enrolled host with a configuration file, a pinned key
  and a stop request, on which the properties of the program are applied.
\<close>

section \<open>The host\<close>

definition sample_raw :: raw_config where
  "sample_raw = \<lparr>rc_server_url = lit ''http://h'', rc_machine_id = lit ''m'', rc_heartbeat_interval = None, rc_sync_interval = None,
      rc_trusted_ca_path = None, rc_sshd_config_path = None, rc_state_dir = Some (lit ''/s''),
      rc_identity_dir = Some (lit ''/d''), rc_helper_socket_path = None, rc_helper_token_path = None,
      rc_bundle_signing_public_key = None, rc_poll_jitter_ratio = Some (Fin 0), rc_log_level = None,
      rc_log_format = None, rc_allow_insecure_tls = Some True, rc_tls_ca_path = None\<rparr>"

definition program_platform :: platform where
  "program_platform = sample_platform\<lparr>pl_codecs := sample_codecs\<lparr>cd_toml := (\<lambda>_. Inr sample_raw)\<rparr>, pl_env := (\<lambda>_. None)\<rparr>"

definition program_host :: world where
  "program_host = daemon_host\<lparr>fs := (fs daemon_host)
     (components DEFAULT_CONFIG_PATH \<mapsto> NFile [] MODE_PUBLIC 0,
      [RootDir, Normal (lit ''d''), Normal MACHINE_RECORD_FILE] \<mapsto> NFile [] MODE_PUBLIC 0,
      [RootDir, Normal (lit ''s''), Normal SIGNING_KEY_FILE] \<mapsto> NFile [107, 10] MODE_PUBLIC 0)\<rparr>"

lemma program_host_env: "honest program_host" "stops_from 200 program_host" "fault program_host = (\<lambda>_. None)"
  by (simp_all add: program_host_def honest_def stops_from_def)

lemma config_key: "components DEFAULT_CONFIG_PATH
    = [RootDir, Normal (lit ''etc''), Normal (lit ''mayfly-agent''), Normal (lit ''config.toml'')]"
  by (simp add: DEFAULT_CONFIG_PATH_def components_def segment_component_def lit_def)

lemma program_host_fs:
  "fs program_host (components DEFAULT_CONFIG_PATH) = Some (NFile [] MODE_PUBLIC 0)"
  "f \<noteq> SIGNING_KEY_FILE \<Longrightarrow> fs program_host [RootDir, Normal (lit ''s''), Normal f] = None"
  "fs program_host [RootDir, Normal (lit ''s''), Normal SIGNING_KEY_FILE] = Some (NFile [107, 10] MODE_PUBLIC 0)"
  by (simp_all add: program_host_def config_key daemon_host_fs)

lemma program_config:
  "config_load (pl_libs program_platform) (cd_toml (pl_codecs program_platform)) (pl_env program_platform)
      (config_path program_platform) program_host = (Inr sample_config, advance program_host)"
proof -
  have "apply_env_overrides (\<lambda>_. None) (config_of_raw sample_raw) = Inr sample_config"
    by (simp add: apply_env_overrides_def env_override_def sample_config_def sample_raw_def)
  moreover have "sys_read_to_string (components DEFAULT_CONFIG_PATH) program_host = (Inr [], advance program_host)"
    using program_host_fs(1) sys_read_ok [of program_host] program_host_env(3)
    by (simp add: sys_read_to_string_def bind_io_def)
  ultimately show ?thesis
    by (simp add: config_load_def bind_io_def map_err_io_def config_path_def program_platform_def sample_platform_def
        from_toml_with_env_def sample_config_valid)
qed

lemma program_plain: "plain_state sample_config (fs program_host)"
  by (simp add: plain_state_def state_dir_files state_dir_key program_host_fs)
     (simp add: program_host_fs GENERATION_FILE_def SIGNING_KEY_FILE_def BUNDLE_FINGERPRINT_FILE_def)

lemma program_ends: "\<exists>x w'. main_program program_platform program_host = Some (x, w')"
  using program_stops [OF program_host_env(2)] by blast

section \<open>The properties, applied\<close>

text \<open>What the host's key file says is in force, before any run and after any.\<close>

lemma program_trust: "agent_trust sample_config (fs program_host) = \<lparr>ts_level = 0, ts_pin = Some [107]\<rparr>"
proof -
  have "from_utf8 [107, 10] = Some [107, 10]" "GENERATION_FILE \<noteq> SIGNING_KEY_FILE"
    by (simp_all add: is_cont_def GENERATION_FILE_def SIGNING_KEY_FILE_def)
  then show ?thesis
    by (simp add: agent_trust_def text_of_def state_dir_files state_dir_key program_host_fs generation_level_def
        trim_def trim_start_def trim_end_def is_whitespace_def)
qed

text \<open>The run, and the life that ends where it ends.\<close>

theorem program_refines_trust_witness:
  "\<exists>x w'. main_program program_platform program_host = Some (x, w')
    \<and> (agent_step (accepted sample_libs) (offers program_platform program_host) None)\<^sup>*\<^sup>*
        \<lparr>ts_level = 0, ts_pin = Some [107]\<rparr> (agent_trust sample_config (fs w'))"
proof -
  obtain x w' where run: "main_program program_platform program_host = Some (x, w')" using program_ends by blast
  have "moment_of program_host w' (fs w')" by (simp add: moment_of_def)
  from program_refines_trust [OF program_config program_host_env(1) program_plain run this] run show ?thesis
    by (auto simp: program_trust program_platform_def sample_platform_def)
qed

theorem lives_keep_trust_witness:
  "\<exists>w'. (agent_life program_platform sample_config)\<^sup>*\<^sup>* program_host w'
    \<and> ts_pin (agent_trust sample_config (fs w')) = Some [107]
    \<and> (\<exists>x. main_program program_platform program_host = Some (x, w'))"
proof -
  obtain x w' where run: "main_program program_platform program_host = Some (x, w')" using program_ends by blast
  have "moment_of program_host w' (fs w')" by (simp add: moment_of_def)
  from life [OF program_config program_host_env(1) run this]
  have lives: "(agent_life program_platform sample_config)\<^sup>*\<^sup>* program_host w'" by (rule r_into_rtranclp)
  from lives_keep_trust [OF lives program_plain] have "ts_pin (agent_trust sample_config (fs w')) = Some [107]"
    by (simp add: program_trust)
  with lives run show ?thesis by blast
qed

theorem daemon_never_panics_witness:
  "\<exists>r w'. daemon_work sample_platform sleeper_new sample_app (gather_host_facts sample_env)
      (enrollment_service_new (lit ''/d'')) sample_identity daemon_host = Some (Finished r, w')"
proof -
  obtain x w' where run: "daemon_work sample_platform sleeper_new sample_app (gather_host_facts sample_env)
      (enrollment_service_new (lit ''/d'')) sample_identity daemon_host = Some (x, w')"
    using work_stops [OF daemon_stops] by blast
  have "good_poll_interval (mi_heartbeat_interval sample_identity)" "good_poll_interval (mi_sync_interval sample_identity)"
    by (auto simp: sample_identity_def good_poll_interval_def from_secs_def)
  from daemon_never_panics [OF this _ run] run show ?thesis by (auto simp: clock_in_range_def TIME_MAX_def)
qed

text \<open>A host whose record holds a sync interval of ten thousand years.\<close>

definition late_platform :: platform where
  "late_platform = sample_platform\<lparr>pl_codecs := sample_codecs
     \<lparr>cd_record_dec := (\<lambda>_. Inr (sample_record\<lparr>mr_sync_interval_secs := 300000000000\<rparr>))\<rparr>\<rparr>"

definition late_host :: world where
  "late_host = quiet_world
     [[RootDir, Normal (lit ''d'')] \<mapsto> NDir MODE_DIR 0, [RootDir, Normal (lit ''s'')] \<mapsto> NDir MODE_DIR 0,
      [RootDir, Normal (lit ''d''), Normal PRIVATE_KEY_FILE] \<mapsto> NFile [104] MODE_SECRET 0,
      [RootDir, Normal (lit ''d''), Normal MACHINE_RECORD_FILE] \<mapsto> NFile [] MODE_PUBLIC 0]"

lemma late_fs: "fs late_host [RootDir, Normal (lit ''s''), Normal f] = None"
    "fs late_host [RootDir, Normal (lit ''s'')] = Some (NDir MODE_DIR 0)"
    "fs late_host [RootDir, Normal (lit ''d''), Normal PRIVATE_KEY_FILE] = Some (NFile [104] MODE_SECRET 0)"
    "fs late_host [RootDir, Normal (lit ''d''), Normal MACHINE_RECORD_FILE] = Some (NFile [] MODE_PUBLIC 0)"
  by (simp_all add: late_host_def quiet_world_def lit_def PRIVATE_KEY_FILE_def MACHINE_RECORD_FILE_def)

lemma late_env: "fault late_host = (\<lambda>_. None)" "euid late_host = 0" "clock late_host = (\<lambda>_. 0)" "stop_flag late_host = (\<lambda>_. False)"
  by (simp_all add: late_host_def quiet_world_def)

lemma late_setup:
  obtains w where "daemon_setup late_platform sample_config late_host = (Inr (), w)" "fs w = fs late_host" "same_env late_host w"
proof -
  let ?d = "[RootDir, Normal (lit ''s'')]" and ?w1 = "advance late_host"
  have 1: "log_startup_diagnostics late_host = ?w1"
    by (simp add: log_startup_diagnostics_def is_systemd_def sys_is_dir_def sys_stat_def sys_query_def late_env)
  have "create_dir_all 0x1ED ?d ?w1 = (Inr (), advance (advance ?w1))"
    by (simp add: create_dir_all_def sys_mkdir_def sys_update_def or_is_dir_def late_env late_fs os_err_def sys_is_dir_def
        sys_stat_def sys_query_def stat_of_def max_links_def numeral_eq_Suc Let_def)
  moreover have "ensure_not_symlink (cfg_state_dir sample_config) (advance (advance ?w1))
      = (Inr (), advance (advance (advance ?w1)))"
    by (simp add: ensure_not_symlink_def is_symlink_def sys_lstat_def sys_query_def state_dir_key late_env late_fs bind_io_def)
  moreover have "\<exists>v. sys_set_permissions ?d MODE_DIR (advance (advance (advance ?w1))) = (Inr (), v) \<and> fs v = fs late_host
      \<and> same_env late_host v"
    using fun_upd_idem [of "fs late_host" ?d "Some (NDir MODE_DIR 0)", OF late_fs(2)]
    by (simp add: sys_set_permissions_def sys_update_def late_env late_fs max_links_def numeral_eq_Suc chmod_node_def
        same_env_def)
  ultimately obtain v where v: "ensure_state_dir (pl_dir_mode late_platform) (cfg_state_dir sample_config) ?w1 = (Inr (), v)"
      "fs v = fs late_host" "same_env late_host v"
    by (auto simp: ensure_state_dir_def bind_io_def map_err_io_def state_dir_key late_platform_def sample_platform_def)
  have "fault v = (\<lambda>_. None)" using v(3) late_env by (simp add: same_env_def)
  then have "daemon_setup late_platform sample_config late_host = (Inr (), advance (advance v))"
    using 1 v(1) by (simp add: daemon_setup_def bind_io_def install_signal_handlers_def register_signal_def map_err_io_def sys_query_def)
  moreover have "same_env late_host (advance (advance v))" using v(3) by (auto simp: same_env_def)
  ultimately show ?thesis using that v(2) by simp
qed

theorem oversized_interval_panics_witness: "\<exists>w'. daemon_run late_platform sample_app late_host = Some (Panic, w')"
proof -
  let ?svc = "enrollment_service_new (lit ''/d'')"
  obtain w where w: "daemon_setup late_platform sample_config late_host = (Inr (), w)" "fs w = fs late_host" "same_env late_host w"
    by (rule late_setup)
  have c: "as_config sample_app = sample_config" by (simp add: sample_app_def)
  have env: "fault w = (\<lambda>_. None)" "euid w = 0" "clock w = (\<lambda>_. 0)" "stop_flag w = (\<lambda>_. False)"
    using w(3) by (simp_all add: same_env_def late_env)
  have pl: "pl_libs late_platform = sample_libs" "tl_builds (pl_tls late_platform) b cs"
      "cd_record_dec (pl_codecs late_platform) = (\<lambda>_. Inr (sample_record\<lparr>mr_sync_interval_secs := 300000000000\<rparr>))" for b cs
    by (simp_all add: late_platform_def sample_platform_def)
  have "from_utf8 [104] = Some [104]" by (simp add: is_cont_def)
  then have "key_file sample_libs ?svc (euid w) sample_kp (fs w)"
    by (auto simp: key_file_def service_files sample_dir_key env w(2) late_fs from_openssh_private_def sample_libs_def mode_within_def)
  moreover have "public_key_openssh sample_libs sample_kp = Inr (lit ''ssh-ed25519 AAAA'')"
    by (simp add: public_key_openssh_def sample_libs_def)
  ultimately have "can_work late_platform sample_config ?svc w"
    using env by (auto simp: can_work_def pl faultless_def readable_def text_of_def generation_key status_key w(2) late_fs)
  moreover have "fs w (components (es_record_path ?svc)) = Some (NFile [] MODE_PUBLIC 0)"
    by (simp add: service_files sample_dir_key w(2) late_fs)
  moreover have "TIME_MAX < clock w t + int (max (unat (mr_heartbeat_interval_secs (sample_record\<lparr>mr_sync_interval_secs := 300000000000\<rparr>)))
      (unat (mr_sync_interval_secs (sample_record\<lparr>mr_sync_interval_secs := 300000000000\<rparr>))) * NANOS_PER_SEC)" for t
    by (simp add: env TIME_MAX_def sample_record_def NANOS_PER_SEC_def)
  moreover have "MIN_TIMESTAMP \<le> mr_enrolled_at_unix (sample_record\<lparr>mr_sync_interval_secs := 300000000000\<rparr>)"
      "mr_enrolled_at_unix (sample_record\<lparr>mr_sync_interval_secs := 300000000000\<rparr>) \<le> MAX_TIMESTAMP"
    by (simp_all add: sample_record_def MIN_TIMESTAMP_def MAX_TIMESTAMP_def)
  ultimately show ?thesis
    using oversized_interval_panics [of late_platform sample_app late_host w] w(1) env pl unfolding c by simp
qed

section \<open>A first start\<close>

definition first_host :: world where
  "first_host = sample_host\<lparr>fs := (fs sample_host)([RootDir, Normal (lit ''s'')] \<mapsto> NDir MODE_DIR 0)\<rparr>"

definition first_config :: config where
  "first_config = sample_config\<lparr>cfg_server_url := lit ''https://h''\<rparr>"

definition first_answer :: enrollment_response where
  "first_answer = sample_answer\<lparr>en_bundle_signing_key := Some sample_key\<rparr>"

definition first_platform :: platform where
  "first_platform = sample_platform\<lparr>pl_codecs := sample_codecs
     \<lparr>cd_enroll_response := (\<lambda>_. Some first_answer), cd_record_enc := (\<lambda>_. Inr [])\<rparr>\<rparr>"

lemma first_fs: "fs sample_host = [[RootDir, Normal (lit ''d'')] \<mapsto> NDir MODE_DIR 0]"
  by (simp add: sample_host_def)

lemma first_fresh: "fresh_machine (enrollment_service_new (lit ''/d'')) first_host"
proof -
  let ?svc = "enrollment_service_new (lit ''/d'')" and ?s = "[RootDir, Normal (lit ''s'')]"
  have old: "calm sample_host" "writable (service_paths ?svc) (fs sample_host)"
    using sample_fresh by (simp_all add: fresh_machine_def)
  have other: "?s \<notin> components ` service_paths ?svc" "fs sample_host ?s = None"
    by (auto simp: service_paths_def service_files sample_dir_key) (simp add: first_fs lit_def)
  have "\<not> is_tmp ?s" by (simp add: is_tmp_def tmp_prefix_def lit_def)
  then have "calm first_host" using old(1) by (auto simp: calm_def faultless_def first_host_def)
  moreover have "writable (service_paths ?svc) (fs first_host)"
    using writable_add [OF old(2) other(2,1)] by (simp add: first_host_def)
  moreover have "fs first_host (components p) = None" if "p \<in> service_paths ?svc" for p
  proof -
    have "components p \<noteq> ?s" using other(1) that by (metis imageI)
    then show ?thesis using sample_fresh that by (simp add: fresh_machine_def first_host_def)
  qed
  ultimately show ?thesis by (simp add: fresh_machine_def)
qed

lemma sample_key_text: "key_text (trim sample_key) = Some sample_key"
proof -
  have "list_all is_scalar (sample_key @ [10])" by (simp add: sample_key_def lit_def is_scalar_def)
  then have "from_utf8 (utf8 (sample_key @ [10])) = Some (sample_key @ [10])" by (rule from_utf8_utf8)
  moreover have "trim (sample_key @ [10]) = sample_key" using sample_key_ok(2) by (simp add: is_whitespace_def trim_append_ws)
  moreover have "sample_key \<noteq> []" by (simp add: sample_key_def lit_def)
  ultimately show ?thesis by (simp add: key_text_def sample_key_ok(2))
qed

theorem first_start_enrolls_and_pins_witness:
  "\<exists>i w'. ensure_enrolled first_platform sleeper_new first_config (enrollment_service_new (lit ''/d''))
      ((gather_host_facts sample_env)\<lparr>hf_hostname := lit ''h''\<rparr>) first_host = Some (Finished (Inr i), w')
    \<and> mi_machine_id i = lit ''m''
    \<and> (\<exists>u. fs w' (components (es_record_path (enrollment_service_new (lit ''/d'')))) = Some (NFile [10] MODE_PUBLIC u))
    \<and> ts_pin (agent_trust first_config (fs w')) = Some sample_key"
proof -
  let ?host = "(gather_host_facts sample_env)\<lparr>hf_hostname := lit ''h''\<rparr>" and ?p = "config_bundle_signing_key_path first_config"
  have url: "cfg_server_url first_config = lit ''https://h''" "cfg_bundle_signing_public_key first_config = None"
      "cfg_tls_ca_path first_config = None" "hf_hostname ?host = lit ''h''"
    by (simp_all add: first_config_def)
  have key: "components ?p = [RootDir, Normal (lit ''s''), Normal SIGNING_KEY_FILE]"
    using state_dir_key by (simp add: state_dir_files first_config_def)
  have absent: "fs first_host (components ?p) = None" by (simp add: key first_host_def first_fs)
  have "parent_of ?p = Inr [RootDir, Normal (lit ''s'')]" by (simp add: parent_of_def key)
  moreover have "\<not> is_tmp (components ?p)"
    by (simp add: state_dir_files state_names_not_tmp)
  ultimately have wr: "writable {?p} (fs first_host)" using absent by (simp add: writable_def first_host_def)
  have libs: "pl_libs first_platform = sample_libs" "cd_enroll_request (pl_codecs first_platform) = (\<lambda>_. Some [])"
      "cd_enroll_response (pl_codecs first_platform) = (\<lambda>_. Some first_answer)"
      "cd_record_enc (pl_codecs first_platform) = (\<lambda>_. Inr [])"
      "pl_env first_platform ENROLLMENT_TOKEN_ENV = Some (lit ''mf_enroll_a'')"
      "tl_builds (pl_tls first_platform) b cs"
    for b cs by (simp_all add: first_platform_def sample_platform_def sample_codecs_def)
  have good: "good_enrollment_response sample_libs first_answer"
    using sample_inputs(4) sample_key_ok(1) by (simp add: good_enrollment_response_def first_answer_def)
  have server: "enrolling_server (\<lambda>_. Some []) (\<lambda>_. Some first_answer) (lit ''https://h'') tok h first_answer first_host" for tok h
    by (simp add: enrolling_server_def first_host_def sample_host_def is_success_def)
  have going: "\<not> stop_flag first_host t" for t by (simp add: first_host_def sample_host_def)
  have "\<exists>i w'. ensure_enrolled first_platform sleeper_new first_config (enrollment_service_new (lit ''/d'')) ?host first_host
      = Some (Finished (Inr i), w') \<and> enrolled_as first_answer (hf_hostname ?host) (cfg_server_url first_config) i
    \<and> (\<exists>json u. cd_record_enc (pl_codecs first_platform) (to_record i) = Inr json
        \<and> fs w' (components (es_record_path (enrollment_service_new (lit ''/d'')))) = Some (NFile (json @ [10]) MODE_PUBLIC u))
    \<and> text_of (fs w') ?p = Option.bind (en_bundle_signing_key first_answer) (\<lambda>k. key_text (trim k))"
    by (rule first_start_enrolls_and_pins [OF first_fresh _ url(2) wr absent _ _ _ libs(5)])
       (use sample_key_maker sample_inputs good server going url libs in simp_all)
  then show ?thesis
    by (auto simp: libs(4) enrolled_as_def first_answer_def sample_answer_def sample_key_text agent_trust_def)
qed

end
