(* ===== verification/Golden_Vectors.thy ===== *)
theory Golden_Vectors
  imports Heartbeat Ipc_Protocol
begin

text \<open>
  \<open>src/golden_vectors.rs\<close> with \<open>tests/vectors/protocol-vectors.json\<close>: the protocol vectors that
  server and agent both recompute. Each check of the file is a definition here, applied to
  the vectors; that the checks hold says that the model computes byte for byte what the
  agent computes.
\<close>

section \<open>The vectors\<close>

record bundle_vectors =
  bv_bundle_version :: u32
  bv_generation :: u64
  bv_created_at :: str
  bv_expires_at :: str
  bv_signature_algorithm :: str
  bv_keys :: "ca_bundle_key list"
  bv_fingerprint_payload :: str
  bv_fingerprint :: str
  bv_etag :: str
  bv_signing_key :: str
  bv_signing_payload :: str
  bv_signature :: str

record request_signing_vectors =
  rv_machine_id :: str
  rv_timestamp :: int
  rv_nonce :: str
  rv_method :: str
  rv_path :: str
  rv_body :: str
  rv_body_sha256 :: str
  rv_canonical_string :: str
  rv_minimal_canonical_string :: str

record helper_ipc_vectors =
  hv_max_body_bytes :: nat
  hv_request_json :: str
  hv_framed :: bytes

record vectors =
  vec_signing_domain :: str
  vec_bundle :: bundle_vectors
  vec_request_signing :: request_signing_vectors
  vec_helper_ipc :: helper_ipc_vectors

definition golden_key_1 :: ca_bundle_key where
  "golden_key_1 = \<lparr>key_id = lit ''ca-01'',
     public_key = lit ''ssh-ed25519 AAAAC3NzaC1lZDI1NTE5AAAAIIqI4910CfGV/VLbLTy6XXLKZwm/HZQSG/N0iAG0D29c ca-01''\<rparr>"

definition golden_key_2 :: ca_bundle_key where
  "golden_key_2 = \<lparr>key_id = lit ''ca-02'',
     public_key = lit ''ssh-ed25519 AAAAC3NzaC1lZDI1NTE5AAAAIIE5dw6ofRdfVqNUZsNMfszLjYqRtO43ol32D1uPybOU ca-02''\<rparr>"

definition golden_bundle :: bundle_vectors where
  "golden_bundle = \<lparr>bv_bundle_version = 1,
     bv_generation = 42,
     bv_created_at = lit ''2026-01-01T00:00:00Z'',
     bv_expires_at = lit ''2026-02-01T00:00:00Z'',
     bv_signature_algorithm = lit ''ssh-ed25519'',
     bv_keys = [golden_key_1, golden_key_2],
     bv_fingerprint_payload = lit ''{\"generation\":42,\"keys\":[{\"key_id\":\"ca-01\",\"public_key\":\"ssh-ed25519 AAAAC3NzaC1lZDI1NTE5''
      @ lit ''AAAAIIqI4910CfGV/VLbLTy6XXLKZwm/HZQSG/N0iAG0D29c ca-01\"},{\"key_id\":\"ca-02\",\"public_key\":\"ssh''
      @ lit ''-ed25519 AAAAC3NzaC1lZDI1NTE5AAAAIIE5dw6ofRdfVqNUZsNMfszLjYqRtO43ol32D1uPybOU ca-02\"}]}'',
     bv_fingerprint = lit ''sha256:1b932dea3b97e300d8477414f3eefcf51a7e935044aa719476e8a6c0c6099b24'',
     bv_etag = lit ''\"sha256:1b932dea3b97e300d8477414f3eefcf51a7e935044aa719476e8a6c0c6099b24\"'',
     bv_signing_key = lit ''ssh-ed25519 AAAAC3NzaC1lZDI1NTE5AAAAIOpKbGPinFIKvvVQexMuxfmVR3auvr57kkIe6mkURtIs bundle-signing'',
     bv_signing_payload = lit ''{\"bundle_version\":1,\"created_at\":\"2026-01-01T00:00:00Z\",\"expires_at\":\"2026-02-01T00:00:00Z''
      @ lit ''\",\"fingerprint\":\"sha256:1b932dea3b97e300d8477414f3eefcf51a7e935044aa719476e8a6c0c6099b24\",\"gen''
      @ lit ''eration\":42,\"keys\":[{\"key_id\":\"ca-01\",\"public_key\":\"ssh-ed25519 AAAAC3NzaC1lZDI1NTE5AAAAII''
      @ lit ''qI4910CfGV/VLbLTy6XXLKZwm/HZQSG/N0iAG0D29c ca-01\"},{\"key_id\":\"ca-02\",\"public_key\":\"ssh-ed255''
      @ lit ''19 AAAAC3NzaC1lZDI1NTE5AAAAIIE5dw6ofRdfVqNUZsNMfszLjYqRtO43ol32D1uPybOU ca-02\"}]}'',
     bv_signature = lit ''FnSXGrgthUUxQj7hNPbT+oRSA1iDj/AYBYA/m8za9COEetFnvhq4UdPwUePvRwuT4wFQ1zAl6yBDwQ7adk3pAA==''\<rparr>"

definition golden_request_signing :: request_signing_vectors where
  "golden_request_signing = \<lparr>rv_machine_id = lit ''srv-golden'',
     rv_timestamp = 1700000000,
     rv_nonce = lit ''00112233445566778899aabbccddeeff'',
     rv_method = lit ''POST'',
     rv_path = lit ''/api/v1/agent/heartbeat'',
     rv_body = lit ''{\"agent_version\":\"0.1.0\"}'',
     rv_body_sha256 = lit ''cea5c058f1eeab327f68a42c4c6e63350dfc9d5b9e08d5332697e7f6b172b126'',
     rv_canonical_string = lit ''mayfly-agent-auth-v1'' @ [10] @ lit ''srv-golden'' @ [10] @ lit ''1700000000'' @ [10] @ lit ''00112233445566778899aabbccddeeff'' @ [10] @ lit ''POST'' @ [10] @ lit ''/api/v1/agent/heartbeat'' @ [10] @ lit ''cea5c058f1eeab327f68a42c4c6e63350dfc9d5b9e08d5332697e7f6b172b126'',
     rv_minimal_canonical_string = lit ''mayfly-agent-auth-v1'' @ [10] @ lit ''m'' @ [10] @ lit ''5'' @ [10] @ lit ''n'' @ [10] @ lit ''POST'' @ [10] @ lit ''/p'' @ [10] @ lit ''deadbeef''\<rparr>"

definition golden_helper_ipc :: helper_ipc_vectors where
  "golden_helper_ipc = \<lparr>hv_max_body_bytes = 1048576,
     hv_request_json = lit ''{\"protocol_version\":1,\"token\":\"golden-test-token\",\"op\":\"ping\"}'',
     hv_framed = [0x00, 0x00, 0x00, 0x3E, 0x7B, 0x22, 0x70, 0x72, 0x6F, 0x74, 0x6F, 0x63, 0x6F, 0x6C, 0x5F,
        0x76, 0x65, 0x72, 0x73, 0x69, 0x6F, 0x6E, 0x22, 0x3A, 0x31, 0x2C, 0x22, 0x74, 0x6F, 0x6B,
        0x65, 0x6E, 0x22, 0x3A, 0x22, 0x67, 0x6F, 0x6C, 0x64, 0x65, 0x6E, 0x2D, 0x74, 0x65, 0x73,
        0x74, 0x2D, 0x74, 0x6F, 0x6B, 0x65, 0x6E, 0x22, 0x2C, 0x22, 0x6F, 0x70, 0x22, 0x3A, 0x22,
        0x70, 0x69, 0x6E, 0x67, 0x22, 0x7D]\<rparr>"

definition golden :: vectors where
  "golden = \<lparr>vec_signing_domain = lit ''mayfly-agent-auth-v1'', vec_bundle = golden_bundle,
     vec_request_signing = golden_request_signing, vec_helper_ipc = golden_helper_ipc\<rparr>"

section \<open>The checks\<close>

definition signing_domain_matches :: "vectors \<Rightarrow> bool" where
  "signing_domain_matches v \<longleftrightarrow> vec_signing_domain v = SIGNING_DOMAIN"

definition bundle_fingerprint_payload_matches :: "bundle_vectors \<Rightarrow> bool" where
  "bundle_fingerprint_payload_matches b \<longleftrightarrow> canonical_json (bv_generation b) (bv_keys b) = bv_fingerprint_payload b"

definition bundle_fingerprint_and_etag_match :: "libs \<Rightarrow> bundle_vectors \<Rightarrow> bool" where
  "bundle_fingerprint_and_etag_match L b \<longleftrightarrow>
     (let fp = compute_fingerprint L (bv_generation b) (bv_keys b)
      in fp = bv_fingerprint b \<and> [34] @ fp @ [34] = bv_etag b)"

definition bundle_signing_payload_matches :: "bundle_vectors \<Rightarrow> bool" where
  "bundle_signing_payload_matches b \<longleftrightarrow>
     bv_bundle_version b = 1 \<and> bv_signature_algorithm b = lit ''ssh-ed25519''
     \<and> canonical_signing_payload (bv_bundle_version b) (bv_generation b) (bv_fingerprint b) (bv_created_at b)
         (bv_expires_at b) (bv_keys b) = bv_signing_payload b"

definition request_signing_canonical_strings_match :: "libs \<Rightarrow> request_signing_vectors \<Rightarrow> bool" where
  "request_signing_canonical_strings_match L r \<longleftrightarrow>
     body_sha256_hex L (utf8 (rv_body r)) = rv_body_sha256 r
     \<and> canonical_string (rv_machine_id r) (rv_timestamp r) (rv_nonce r) (rv_method r) (rv_path r) (rv_body_sha256 r)
         = rv_canonical_string r
     \<and> canonical_string (lit ''m'') 5 (lit ''n'') (lit ''POST'') (lit ''/p'') (lit ''deadbeef'') = rv_minimal_canonical_string r"

definition helper_ipc_framing_matches ::
    "(ipc_request \<Rightarrow> bytes option) \<Rightarrow> (bytes \<Rightarrow> ipc_request option) \<Rightarrow> helper_ipc_vectors \<Rightarrow> bool" where
  "helper_ipc_framing_matches enc dec h \<longleftrightarrow>
     hv_max_body_bytes h = MAX_BODY_BYTES
     \<and> (let req = request_new (lit ''golden-test-token'') Ping
        in case encode_request enc req of
             Inl _ \<Rightarrow> False
           | Inr body \<Rightarrow>
               body = utf8 (hv_request_json h)
               \<and> (let framed = to_be_bytes (of_nat (length body)) @ body
                  in framed = hv_framed h
                     \<and> bind_res (read_frame framed) (\<lambda>(body', _). decode_request dec body') = Inr req))"

text \<open>The signed example, its parsed form, and the crates' answers about the vectors.\<close>

definition golden_response :: ca_bundle_response where
  "golden_response =
     \<lparr>raw_bundle_version = Some (bv_bundle_version golden_bundle), raw_generation = Some (bv_generation golden_bundle),
      raw_fingerprint = Some (bv_fingerprint golden_bundle), raw_created_at = Some (bv_created_at golden_bundle),
      raw_expires_at = Some (bv_expires_at golden_bundle), raw_keys = bv_keys golden_bundle,
      raw_signature_algorithm = Some (bv_signature_algorithm golden_bundle),
      raw_signature = Some (bv_signature golden_bundle),
      raw_bundle_signing_public_key = Some (bv_signing_key golden_bundle)\<rparr>"

definition golden_now :: int where
  "golden_now = 1768435200 * 10 ^ 9"

definition golden_bundle_digest :: bytes where
  "golden_bundle_digest = [0x1B, 0x93, 0x2D, 0xEA, 0x3B, 0x97, 0xE3, 0x00, 0xD8, 0x47, 0x74, 0x14, 0xF3, 0xEE, 0xFC,
        0xF5, 0x1A, 0x7E, 0x93, 0x50, 0x44, 0xAA, 0x71, 0x94, 0x76, 0xE8, 0xA6, 0xC0, 0xC6, 0x09,
        0x9B, 0x24]"

definition golden_body_digest :: bytes where
  "golden_body_digest = [0xCE, 0xA5, 0xC0, 0x58, 0xF1, 0xEE, 0xAB, 0x32, 0x7F, 0x68, 0xA4, 0x2C, 0x4C, 0x6E, 0x63,
        0x35, 0x0D, 0xFC, 0x9D, 0x5B, 0x9E, 0x08, 0xD5, 0x33, 0x26, 0x97, 0xE7, 0xF6, 0xB1, 0x72,
        0xB1, 0x26]"

definition golden_signing_key_bytes :: bytes where
  "golden_signing_key_bytes = [0xEA, 0x4A, 0x6C, 0x63, 0xE2, 0x9C, 0x52, 0x0A, 0xBE, 0xF5, 0x50, 0x7B, 0x13, 0x2E, 0xC5,
        0xF9, 0x95, 0x47, 0x76, 0xAE, 0xBE, 0xBE, 0x7B, 0x92, 0x42, 0x1E, 0xEA, 0x69, 0x14, 0x46,
        0xD2, 0x2C]"

definition golden_signature_bytes :: bytes where
  "golden_signature_bytes = [0x16, 0x74, 0x97, 0x1A, 0xB8, 0x2D, 0x85, 0x45, 0x31, 0x42, 0x3E, 0xE1, 0x34, 0xF6, 0xD3,
        0xFA, 0x84, 0x52, 0x03, 0x58, 0x83, 0x8F, 0xF0, 0x18, 0x05, 0x80, 0x3F, 0x9B, 0xCC, 0xDA,
        0xF4, 0x23, 0x84, 0x7A, 0xD1, 0x67, 0xBE, 0x1A, 0xB8, 0x51, 0xD3, 0xF0, 0x51, 0xE3, 0xEF,
        0x47, 0x0B, 0x93, 0xE3, 0x01, 0x50, 0xD7, 0x30, 0x25, 0xEB, 0x20, 0x43, 0xC1, 0x0E, 0xDA,
        0x76, 0x4D, 0xE9, 0x00]"

definition zero_signature :: str where
  "zero_signature = replicate 86 65 @ lit ''==''"

text \<open>
  The crates as the vectors show them: the two digests, the three key lines, the signature
  over the signed payload, the two instants; everything else is refused.
\<close>

definition hex_of :: "bytes \<Rightarrow> str" where
  "hex_of bs = concat (map (\<lambda>b. [hex_digit (unat b div 16), hex_digit (unat b mod 16)]) bs)"

definition golden_libs :: libs where
  "golden_libs = sample_libs
     \<lparr>lib_sha256 := (\<lambda>bs. if bs = utf8 (bv_fingerprint_payload golden_bundle) then golden_bundle_digest
                       else if bs = utf8 (rv_body golden_request_signing) then golden_body_digest else []),
      lib_hex := hex_of,
      lib_b64_decode := (\<lambda>s. if s = bv_signature golden_bundle then Some golden_signature_bytes
                          else if s = zero_signature then Some (replicate 64 0) else None),
      lib_ssh_public := (\<lambda>s. if s = bv_signing_key golden_bundle
                          then Some \<lparr>spk_algorithm = AlgEd25519, spk_ed25519 = Some golden_signing_key_bytes\<rparr>
                          else if s = public_key golden_key_1 \<or> s = public_key golden_key_2
                          then Some \<lparr>spk_algorithm = AlgEd25519, spk_ed25519 = Some []\<rparr> else None),
      lib_verifying_key := (\<lambda>k. k = golden_signing_key_bytes),
      lib_verify_strict := (\<lambda>k m s. k = golden_signing_key_bytes \<and> m = utf8 (bv_signing_payload golden_bundle)
                              \<and> s = golden_signature_bytes),
      lib_rfc3339_parse := (\<lambda>s. if s = bv_created_at golden_bundle then Some (1767225600 * 10 ^ 9)
                              else if s = bv_expires_at golden_bundle then Some (1769904000 * 10 ^ 9) else None)\<rparr>"

definition signed_bundle_example_verifies_end_to_end :: "libs \<Rightarrow> ca_bundle_response \<Rightarrow> bundle_vectors \<Rightarrow> bool" where
  "signed_bundle_example_verifies_end_to_end L raw b \<longleftrightarrow>
     (case from_response L raw golden_now (Some (bv_signing_key b)) of
        Inl _ \<Rightarrow> False
      | Inr bundle \<Rightarrow> generation bundle = bv_generation b \<and> fingerprint bundle = bv_fingerprint b)"

definition signed_bundle_example_rejects_wrong_pin :: "libs \<Rightarrow> ca_bundle_response \<Rightarrow> bundle_vectors \<Rightarrow> bool" where
  "signed_bundle_example_rejects_wrong_pin L raw b \<longleftrightarrow>
     from_response L raw golden_now (Some (public_key (hd (bv_keys b)))) = Inl SigningKeyMismatch"

definition signed_bundle_example_rejects_tampered_signature :: "libs \<Rightarrow> ca_bundle_response \<Rightarrow> bundle_vectors \<Rightarrow> bool" where
  "signed_bundle_example_rejects_tampered_signature L raw b \<longleftrightarrow>
     from_response L (raw\<lparr>raw_signature := Some zero_signature\<rparr>) golden_now (Some (bv_signing_key b))
       = Inl SignatureInvalid"

section \<open>The model reproduces the vectors\<close>

lemma signing_domain_ok: "signing_domain_matches golden"
  by (simp add: signing_domain_matches_def golden_def SIGNING_DOMAIN_def)

lemma fingerprint_payload_ok: "bundle_fingerprint_payload_matches golden_bundle"
  by code_simp

lemma signing_payload_ok: "bundle_signing_payload_matches golden_bundle"
  by code_simp

lemma request_bytes: "utf8 (hv_request_json golden_helper_ipc) = drop 4 (hv_framed golden_helper_ipc)"
  by (simp add: golden_helper_ipc_def lit_def utf8_def utf8_char_def)

lemma framing_bytes:
  "to_be_bytes (of_nat (length (utf8 (hv_request_json golden_helper_ipc)))) @ utf8 (hv_request_json golden_helper_ipc)
     = hv_framed golden_helper_ipc"
  unfolding request_bytes by (simp add: golden_helper_ipc_def to_be_bytes_def)

lemma digests: "hex_of golden_bundle_digest = drop 7 (bv_fingerprint golden_bundle)"
    "hex_of golden_body_digest = rv_body_sha256 golden_request_signing"
  by code_simp+

lemma canonical_strings:
  "canonical_string (rv_machine_id golden_request_signing) (rv_timestamp golden_request_signing) (rv_nonce golden_request_signing)
     (rv_method golden_request_signing) (rv_path golden_request_signing) (rv_body_sha256 golden_request_signing)
     = rv_canonical_string golden_request_signing"
  "canonical_string (lit ''m'') 5 (lit ''n'') (lit ''POST'') (lit ''/p'') (lit ''deadbeef'')
     = rv_minimal_canonical_string golden_request_signing"
  by (simp_all add: canonical_string_def golden_request_signing_def SIGNING_DOMAIN_def lit_def show_int_def show_nat.simps)


lemma digest_tables: "lib_hex golden_libs (lib_sha256 golden_libs (utf8 (bv_fingerprint_payload golden_bundle)))
      = drop 7 (bv_fingerprint golden_bundle)"
    "body_sha256_hex golden_libs (utf8 (rv_body golden_request_signing)) = rv_body_sha256 golden_request_signing"
proof -
  have "length (bv_fingerprint_payload golden_bundle) \<noteq> length (rv_body golden_request_signing)"
    by (simp add: golden_bundle_def golden_request_signing_def lit_def)
  show "lib_hex golden_libs (lib_sha256 golden_libs (utf8 (bv_fingerprint_payload golden_bundle)))
      = drop 7 (bv_fingerprint golden_bundle)"
    by (simp add: golden_libs_def digests)
  have "rv_body golden_request_signing \<noteq> bv_fingerprint_payload golden_bundle"
    by (simp add: golden_bundle_def golden_request_signing_def lit_def)
  moreover have "list_all is_scalar (rv_body golden_request_signing)" "list_all is_scalar (bv_fingerprint_payload golden_bundle)"
    by (simp_all add: golden_bundle_def golden_request_signing_def lit_def is_scalar_def)
  ultimately have "utf8 (rv_body golden_request_signing) \<noteq> utf8 (bv_fingerprint_payload golden_bundle)"
    using from_utf8_utf8 by (metis option.inject)
  then show "body_sha256_hex golden_libs (utf8 (rv_body golden_request_signing)) = rv_body_sha256 golden_request_signing"
    by (simp add: body_sha256_hex_def golden_libs_def digests)
qed


lemma golden_fingerprint:
  "compute_fingerprint golden_libs (bv_generation golden_bundle) (bv_keys golden_bundle) = bv_fingerprint golden_bundle"
proof -
  have "lit ''sha256:'' @ drop 7 (bv_fingerprint golden_bundle) = bv_fingerprint golden_bundle"
    by (simp add: golden_bundle_def lit_def)
  with fingerprint_payload_ok digest_tables(1) show ?thesis
    by (simp add: compute_fingerprint_def bundle_fingerprint_payload_matches_def FINGERPRINT_PREFIX_def)
qed

lemma golden_payload: "claimed_payload golden_response = utf8 (bv_signing_payload golden_bundle)"
  using signing_payload_ok by (auto simp: bundle_signing_payload_matches_def claimed_payload_def golden_response_def)

lemma golden_lines:
  "ed25519_line golden_libs (bv_signing_key golden_bundle)"
  "ed25519_line golden_libs (public_key golden_key_1)" "ed25519_line golden_libs (public_key golden_key_2)"
proof -
  have "\<forall>c \<in> set (bv_signing_key golden_bundle). \<not> is_control c"
    by (simp add: golden_bundle_def lit_def is_control_def)
  then show "ed25519_line golden_libs (bv_signing_key golden_bundle)" by (simp add: ed25519_line_def golden_libs_def)
  have "\<forall>c \<in> set (public_key golden_key_1). \<not> is_control c" "\<forall>c \<in> set (public_key golden_key_2). \<not> is_control c"
    by (simp_all add: golden_key_1_def golden_key_2_def lit_def is_control_def)
  then show "ed25519_line golden_libs (public_key golden_key_1)" "ed25519_line golden_libs (public_key golden_key_2)"
    by (simp_all add: ed25519_line_def golden_libs_def)
qed

lemma golden_trims: "trim (bv_signing_key golden_bundle) \<noteq> []" "trim (bv_fingerprint golden_bundle) \<noteq> []"
    "trim (bv_signature golden_bundle) = bv_signature golden_bundle" "trim zero_signature = zero_signature"
proof -
  show "trim (bv_signing_key golden_bundle) \<noteq> []" "trim (bv_fingerprint golden_bundle) \<noteq> []"
    by (simp_all add: golden_bundle_def lit_def trim_def trim_start_def trim_end_def is_whitespace_def)
  show "trim (bv_signature golden_bundle) = bv_signature golden_bundle" "trim zero_signature = zero_signature"
    by (rule trim_no_ws; simp add: golden_bundle_def zero_signature_def lit_def is_whitespace_def)+
qed


lemma golden_signatures:
  "signed_by golden_libs (bv_signing_key golden_bundle) (bv_signature golden_bundle) (claimed_payload golden_response)"
  "\<not> signed_by golden_libs (bv_signing_key golden_bundle) zero_signature m"
proof -
  have "length golden_signature_bytes = 64" "hd golden_signature_bytes \<noteq> hd (replicate 64 0)"
    by (simp_all add: golden_signature_bytes_def)
  moreover from this(2) have "golden_signature_bytes \<noteq> replicate 64 0" by metis
  moreover have "hd zero_signature = 65" by (simp add: zero_signature_def)
  moreover have "hd (bv_signature golden_bundle) = 70" by (simp add: golden_bundle_def lit_def)
  moreover from calculation have "zero_signature \<noteq> bv_signature golden_bundle" by fastforce
  ultimately show
    "signed_by golden_libs (bv_signing_key golden_bundle) (bv_signature golden_bundle) (claimed_payload golden_response)"
    "\<not> signed_by golden_libs (bv_signing_key golden_bundle) zero_signature m"
    by (simp_all add: signed_by_def golden_trims golden_payload golden_libs_def)
qed

lemma golden_materials:
  "\<exists>blob. key_material (bv_signing_key golden_bundle) = Some (lit ''ssh-ed25519'', blob) \<and> take 26 blob = lit ''AAAAC3NzaC1lZDI1NTE5AAAAIO''"
  "\<exists>blob. key_material (public_key golden_key_1) = Some (lit ''ssh-ed25519'', blob) \<and> take 26 blob = lit ''AAAAC3NzaC1lZDI1NTE5AAAAII''"
  by (simp_all add: golden_bundle_def golden_key_1_def key_material_def lit_def split_whitespace_def is_whitespace_def)

lemma golden_authentic: "authentic golden_libs golden_response (Some (bv_signing_key golden_bundle))"
proof -
  have "public_keys_equal (bv_signing_key golden_bundle) (bv_signing_key golden_bundle)"
    using golden_materials(1) by (auto simp: public_keys_equal_def)
  moreover have "bv_bundle_version golden_bundle = 1" "bv_signature_algorithm golden_bundle = lit ''ssh-ed25519''"
    by (simp_all add: golden_bundle_def)
  ultimately show ?thesis
    using golden_lines(1) golden_trims(1,2) golden_signatures(1)
    by (simp add: authentic_def) (simp add: golden_response_def)
qed

lemma golden_well_formed: "well_formed golden_libs golden_response golden_now"
proof -
  have "bv_created_at golden_bundle \<noteq> bv_expires_at golden_bundle" by (simp add: golden_bundle_def lit_def)
  then have times: "lib_rfc3339_parse golden_libs (bv_created_at golden_bundle) = Some (1767225600 * 10 ^ 9)"
      "lib_rfc3339_parse golden_libs (bv_expires_at golden_bundle) = Some (1769904000 * 10 ^ 9)"
    by (auto simp: golden_libs_def)
  have keys: "bv_keys golden_bundle = [golden_key_1, golden_key_2]" "bv_generation golden_bundle = 42"
    by (simp_all add: golden_bundle_def)
  have "good_key golden_libs golden_key_1" "good_key golden_libs golden_key_2"
    using golden_lines(2,3)
    by (simp_all add: good_key_def good_key_id_def golden_key_1_def golden_key_2_def lit_def is_ascii_graphic_def)
  moreover have "key_id golden_key_1 \<noteq> key_id golden_key_2" "public_key golden_key_1 \<noteq> public_key golden_key_2"
    by (simp_all add: golden_key_1_def golden_key_2_def lit_def)
  ultimately show ?thesis
    using golden_fingerprint times keys by (simp add: well_formed_def golden_response_def golden_now_def)
qed

lemma golden_accepted:
  "from_response golden_libs golden_response golden_now (Some (bv_signing_key golden_bundle)) = Inr (bundle_of golden_libs golden_response)"
  using from_response_split [OF refl, of golden_libs golden_response golden_now "Some (bv_signing_key golden_bundle)"]
    check_content_iff [of golden_libs golden_response golden_now] golden_authentic golden_well_formed by metis

lemma golden_wrong_pin:
  "from_response golden_libs golden_response golden_now (Some (public_key golden_key_1)) = Inl SigningKeyMismatch"
proof -
  have "\<not> public_keys_equal (public_key golden_key_1) (bv_signing_key golden_bundle)"
    using golden_materials by (auto simp: public_keys_equal_def lit_def)
  moreover have "bv_bundle_version golden_bundle = 1" "bv_signature_algorithm golden_bundle = lit ''ssh-ed25519''"
    by (simp_all add: golden_bundle_def)
  ultimately show ?thesis
    using golden_lines(1) golden_trims(1)
    by (simp add: from_response_def golden_response_def SUPPORTED_BUNDLE_VERSION_def SIGNATURE_ALGORITHM_def Let_def
        validate_ed25519_public_key_iff)
qed


lemma golden_tampered:
  "from_response golden_libs (golden_response\<lparr>raw_signature := Some zero_signature\<rparr>) golden_now (Some (bv_signing_key golden_bundle))
     = Inl SignatureInvalid"
proof -
  have "public_keys_equal (bv_signing_key golden_bundle) (bv_signing_key golden_bundle)"
    using golden_materials(1) by (auto simp: public_keys_equal_def)
  moreover have "bv_bundle_version golden_bundle = 1" "bv_signature_algorithm golden_bundle = lit ''ssh-ed25519''"
    by (simp_all add: golden_bundle_def)
  moreover have "verify_signature golden_libs m zero_signature (bv_signing_key golden_bundle) = Inl SignatureInvalid" for m
  proof -
    have "verify_signature golden_libs m zero_signature (bv_signing_key golden_bundle) \<noteq> Inr ()"
      using golden_signatures(2) [of m] by (simp add: verify_signature_iff)
    then show ?thesis using verify_signature_err by (metis old.unit.exhaust sum.exhaust)
  qed
  ultimately show ?thesis
    using golden_lines(1) golden_trims(1,2)
    by (simp add: from_response_def golden_response_def SUPPORTED_BUNDLE_VERSION_def SIGNATURE_ALGORITHM_def Let_def
        validate_ed25519_public_key_iff)
qed

text \<open>
  Conformance: with the two documented SHA-256 digests and the documented JSON of a ping, the
  model's domain, fingerprint payload, fingerprint, entity tag, signed payload, canonical
  strings and helper frame are those of the vectors the agent and the server share.
\<close>

theorem golden_vectors_reproduced:
  assumes "lib_hex L (lib_sha256 L (utf8 (bv_fingerprint_payload golden_bundle))) = drop 7 (bv_fingerprint golden_bundle)"
    and "body_sha256_hex L (utf8 (rv_body golden_request_signing)) = rv_body_sha256 golden_request_signing"
    and "enc (request_new (lit ''golden-test-token'') Ping) = Some (utf8 (hv_request_json golden_helper_ipc))"
    and "dec (utf8 (hv_request_json golden_helper_ipc)) = Some (request_new (lit ''golden-test-token'') Ping)"
  shows "signing_domain_matches golden \<and> bundle_fingerprint_payload_matches golden_bundle
    \<and> bundle_fingerprint_and_etag_match L golden_bundle \<and> bundle_signing_payload_matches golden_bundle
    \<and> request_signing_canonical_strings_match L golden_request_signing
    \<and> helper_ipc_framing_matches enc dec golden_helper_ipc"
proof (intro conjI)
  have prefix: "lit ''sha256:'' @ drop 7 (bv_fingerprint golden_bundle) = bv_fingerprint golden_bundle"
    by (simp add: golden_bundle_def lit_def)
  have "[34] @ bv_fingerprint golden_bundle @ [34] = bv_etag golden_bundle" by (simp add: golden_bundle_def lit_def)
  with prefix assms(1) fingerprint_payload_ok show "bundle_fingerprint_and_etag_match L golden_bundle"
    by (simp add: bundle_fingerprint_and_etag_match_def compute_fingerprint_def bundle_fingerprint_payload_matches_def
        FINGERPRINT_PREFIX_def)
  show "request_signing_canonical_strings_match L golden_request_signing"
    using assms(2) canonical_strings by (simp add: request_signing_canonical_strings_match_def)
  have len: "length (utf8 (hv_request_json golden_helper_ipc)) \<le> MAX_BODY_BYTES"
    unfolding request_bytes by (simp add: golden_helper_ipc_def MAX_BODY_BYTES_def)
  have "read_frame (hv_framed golden_helper_ipc) = Inr (utf8 (hv_request_json golden_helper_ipc), [])"
    using read_frame_frame [OF len, of "[]"] framing_bytes by (simp add: frame_def)
  moreover have "hv_max_body_bytes golden_helper_ipc = MAX_BODY_BYTES"
    by (simp add: golden_helper_ipc_def MAX_BODY_BYTES_def)
  ultimately show "helper_ipc_framing_matches enc dec golden_helper_ipc"
    using assms(3,4) framing_bytes
    by (simp add: helper_ipc_framing_matches_def encode_request_def decode_request_def Let_def)
qed (rule signing_domain_ok fingerprint_payload_ok signing_payload_ok)+

theorem golden_vectors_reproduced_witness:
  "bundle_fingerprint_and_etag_match golden_libs golden_bundle
   \<and> request_signing_canonical_strings_match golden_libs golden_request_signing"
  using golden_vectors_reproduced [of golden_libs "\<lambda>_. Some (utf8 (hv_request_json golden_helper_ipc))"
      "\<lambda>_. Some (request_new (lit ''golden-test-token'') Ping)"] digest_tables by blast

text \<open>The signed example verifies end to end, and not under another pin or with another signature.\<close>

theorem golden_signed_example:
  "signed_bundle_example_verifies_end_to_end golden_libs golden_response golden_bundle
   \<and> signed_bundle_example_rejects_wrong_pin golden_libs golden_response golden_bundle
   \<and> signed_bundle_example_rejects_tampered_signature golden_libs golden_response golden_bundle"
proof -
  have "hd (bv_keys golden_bundle) = golden_key_1" "bv_generation golden_bundle = 42" by (simp_all add: golden_bundle_def)
  moreover have "fingerprint (bundle_of golden_libs golden_response) = bv_fingerprint golden_bundle"
      "generation (bundle_of golden_libs golden_response) = bv_generation golden_bundle"
    using golden_fingerprint by (simp_all add: bundle_of_def golden_response_def)
  ultimately show ?thesis
    using golden_accepted golden_wrong_pin golden_tampered
    by (simp add: signed_bundle_example_verifies_end_to_end_def signed_bundle_example_rejects_wrong_pin_def
        signed_bundle_example_rejects_tampered_signature_def)
qed

end
