(* ===== verification/Logging.thy ===== *)
theory Logging
  imports Config Enrollment
begin

text \<open>
  \<open>src/logging.rs\<close>, the choice and the installation of the log subscriber, and \<open>block_on\<close> of
  \<open>src/service/mod.rs\<close>, which drives the one asynchronous call of the agent. The filter syntax is the
  \<open>tracing_subscriber\<close> crate's, a record of functions; the global subscriber is an optional value,
  installed once. What is logged is not modelled.
\<close>

section \<open>Logging\<close>

record 'f tracing_lib =
  tr_from_env :: "str \<Rightarrow> 'f option"
  tr_new :: "str \<Rightarrow> 'f"

record 'f subscriber =
  sub_filter :: 'f
  sub_format :: log_format
  sub_target :: bool

text \<open>\<open>EnvFilter::try_from_default_env\<close>: an unset or malformed variable is an error.\<close>

definition log_filter :: "'f tracing_lib \<Rightarrow> (str \<Rightarrow> str option) \<Rightarrow> log_level \<Rightarrow> 'f" where
  "log_filter T env level =
     (case Option.bind (env (lit ''RUST_LOG'')) (tr_from_env T) of
        Some f \<Rightarrow> f
      | None \<Rightarrow> tr_new T (lit (as_filter_str level)))"

text \<open>\<open>try_init\<close> fails, and changes nothing, when a subscriber is installed.\<close>

definition try_init :: "'f subscriber \<Rightarrow> 'f subscriber option \<Rightarrow> bool \<times> 'f subscriber option" where
  "try_init s global = (case global of None \<Rightarrow> (True, Some s) | Some _ \<Rightarrow> (False, global))"

definition log_init ::
    "'f tracing_lib \<Rightarrow> (str \<Rightarrow> str option) \<Rightarrow> log_level \<Rightarrow> log_format \<Rightarrow> 'f subscriber option
     \<Rightarrow> bool \<times> 'f subscriber option" where
  "log_init T env level format =
     try_init \<lparr>sub_filter = log_filter T env level, sub_format = format, sub_target = False\<rparr>"

definition init_from_config ::
    "'f tracing_lib \<Rightarrow> (str \<Rightarrow> str option) \<Rightarrow> config \<Rightarrow> 'f subscriber option \<Rightarrow> bool \<times> 'f subscriber option" where
  "init_from_config T env c = log_init T env (cfg_log_level c) (cfg_log_format c)"

text \<open>The first initialisation wins: it reports success, and every later one fails and keeps it.\<close>

lemma log_init_first:
  assumes "log_init T env level format None = (b, g)"
  shows "b \<and> (\<exists>s. g = Some s \<and> sub_format s = format) \<and> log_init T env' level' format' g = (False, g)"
  using assms by (auto simp: log_init_def try_init_def)

lemma log_filter_default: "env (lit ''RUST_LOG'') = None \<Longrightarrow> log_filter T env level = tr_new T (lit (as_filter_str level))"
  by (simp add: log_filter_def)

section \<open>Blocking on a future\<close>

text \<open>
  A future is its state and the function that polls it; a poll that is ready gives the output, a
  pending one the next state. The waker does nothing, so the loop polls again at once, and a future
  that is never ready is polled for ever.
\<close>

datatype ('a, 's) poll = Ready 'a | Pending 's

type_synonym ('a, 's) future = "'s \<Rightarrow> world \<Rightarrow> ('a, 's) poll \<times> world"

partial_function (option) block_on :: "('a, 's) future \<Rightarrow> 's \<Rightarrow> world \<Rightarrow> ('a \<times> world) option" where
  "block_on fut s w =
     (case fut s w of
        (Ready a, w') \<Rightarrow> Some (a, w')
      | (Pending s', w') \<Rightarrow> block_on fut s' w')"

lemma block_on_ready: "fut s w = (Ready a, w') \<Longrightarrow> block_on fut s w = Some (a, w')"
  by (subst block_on.simps) simp

text \<open>It returns if a measure of the future's state goes down with every pending poll.\<close>

lemma block_on_returns:
  fixes size_of :: "'s \<Rightarrow> nat"
  assumes "\<And>s w s' w'. fut s w = (Pending s', w') \<Longrightarrow> size_of s' < size_of s"
  shows "\<exists>a w'. block_on fut s w = Some (a, w')"
proof (induction "size_of s" arbitrary: s w rule: less_induct)
  case less
  obtain p w' where p: "fut s w = (p, w')" by fastforce
  show ?case
  proof (cases p)
    case (Ready a)
    with p have "block_on fut s w = Some (a, w')" by (simp add: block_on_ready)
    then show ?thesis by blast
  next
    case (Pending s')
    with p have step: "fut s w = (Pending s', w')" by simp
    note assms [OF step]
    from less [OF this, of w'] obtain a v where "block_on fut s' w' = Some (a, v)" by blast
    with step have "block_on fut s w = Some (a, v)" by (simp add: block_on.simps [of fut s w])
    then show ?thesis by blast
  qed
qed

lemma block_on_pending:
  assumes "\<And>s w. \<exists>s' w'. fut s w = (Pending s', w')"
  shows "block_on fut s w = None"
proof -
  let ?P = "\<lambda>f s w y. f \<noteq> fut"
  have "?P fut s w y" if "block_on fut s w = Some y" for y
  proof (rule block_on.raw_induct [of ?P, OF _ that])
    fix rec f s w y
    assume IH: "\<And>f s w y. rec f s w = Some y \<Longrightarrow> ?P f s w y"
      and run: "(case f s w of (Ready a, w') \<Rightarrow> Some (a, w') | (Pending s', w') \<Rightarrow> rec f s' w') = Some y"
    obtain s' w' where "fut s w = (Pending s', w')" using assms by blast
    with run IH [of fut s' w' y] show "?P f s w y" by auto
  qed
  then show ?thesis by (cases "block_on fut s w") auto
qed

text \<open>
  The production client answers at its first poll, with its state carried along; so blocking on an
  enrollment is the enrollment, which is how the daemon's model composes it.
\<close>

definition enroll_future ::
    "libs \<Rightarrow> host_env \<Rightarrow> (machine_record \<Rightarrow> str + bytes) \<Rightarrow> 'c client_call \<Rightarrow> enrollment_service
     \<Rightarrow> str \<Rightarrow> str \<Rightarrow> str \<Rightarrow> (machine_identity res \<times> 'c, 'c) future" where
  "enroll_future L env enc call svc url token hostname c w =
     (case enroll L env enc call svc url token hostname c w of (r, c', w') \<Rightarrow> (Ready (r, c'), w'))"

lemma block_on_enroll:
  "block_on (enroll_future L env enc call svc url token hostname) c w
   = (case enroll L env enc call svc url token hostname c w of (r, c', w') \<Rightarrow> Some ((r, c'), w'))"
  by (auto simp: enroll_future_def intro!: block_on_ready split: prod.splits)

end
