(* ===== verification/Test_Support.thy ===== *)
theory Test_Support
  imports Enrollment_Safety
begin

text \<open>
  What the translated unit tests share: \<open>str::contains\<close>, \<open>str::starts_with\<close>, facts on prefixes and
  tokens, and the tests that work in a temporary directory. Such a test is a computation in a
  world, so that \<open>unwrap\<close> is sequencing; it passes when it ends with its assertions true.
\<close>

definition str_contains :: "str \<Rightarrow> str \<Rightarrow> bool" where
  "str_contains s part \<longleftrightarrow> list_ex (\<lambda>n. take (length part) (drop n s) = part) [0..<Suc (length s)]"

definition starts_with :: "str \<Rightarrow> str \<Rightarrow> bool" where
  "starts_with s prefix \<longleftrightarrow> take (length prefix) s = prefix"

lemma starts_with_iff: "starts_with s p \<longleftrightarrow> (\<exists>t. s = p @ t)"
  unfolding starts_with_def by (metis append_eq_conv_conj append_take_drop_id)

lemma starts_with_append: "starts_with s p \<Longrightarrow> starts_with (s @ t) p"
  by (auto simp: starts_with_iff)

lemma str_contains_Nil: "str_contains [] p \<longleftrightarrow> p = []"
  by (auto simp: str_contains_def)

lemma str_contains_Cons: "str_contains (c # s) p \<longleftrightarrow> take (length p) (c # s) = p \<or> str_contains s p"
proof -
  have "list_ex P [0..<Suc (Suc n)] \<longleftrightarrow> P 0 \<or> list_ex (\<lambda>i. P (Suc i)) [0..<Suc n]" for P and n :: nat
    by (auto simp: list_ex_iff less_Suc_eq_0_disj simp del: upt_Suc)
  from this [of "\<lambda>n. take (length p) (drop n (c # s)) = p"] show ?thesis
    by (simp add: str_contains_def del: upt_Suc)
qed

lemma str_contains_part [intro]: "str_contains (a @ p @ b) p"
  unfolding str_contains_def list_ex_iff by (intro bexI [of _ "length a"]) simp_all

lemma str_contains_set: "str_contains s part \<Longrightarrow> set part \<subseteq> set s"
  unfolding str_contains_def list_ex_iff by (metis in_set_dropD in_set_takeD subsetI)

lemma take_prefix: "take (length p) (p @ s) = p"
  by simp

lemma split_ws_acc_append:
  "is_whitespace w \<Longrightarrow> split_ws_acc cur (s @ w # t) = split_ws_acc cur s @ split_ws_acc [] t"
  by (induction cur s rule: split_ws_acc.induct) auto

lemma split_whitespace_append:
  "is_whitespace w \<Longrightarrow> split_whitespace (s @ w # t) = split_whitespace s @ split_whitespace t"
  by (simp add: split_whitespace_def split_ws_acc_append)

section \<open>Tests that work in a directory\<close>

definition passes :: "bool io \<Rightarrow> world \<Rightarrow> bool" where
  "passes test w \<longleftrightarrow> fst (test w) = Inr True"

text \<open>\<open>unwrap_err\<close>, an observation that cannot fail, and the test's own changes of the directory.\<close>

definition failure :: "'a io \<Rightarrow> error option io" where
  "failure m w = (case m w of (Inl e, w') \<Rightarrow> (Inr (Some e), w') | (Inr _, w') \<Rightarrow> (Inr None, w'))"

definition observe :: "(world \<Rightarrow> 'a \<times> world) \<Rightarrow> 'a io" where
  "observe f w = (case f w of (a, w') \<Rightarrow> (Inr a, w'))"

definition read_file :: "path \<Rightarrow> bytes io" where
  "read_file p = map_err_io Io (sys_read (components p))"

definition read_text :: "path \<Rightarrow> str io" where
  "read_text p = map_err_io Io (sys_read_to_string (components p))"

definition metadata :: "path \<Rightarrow> node io" where
  "metadata p = map_err_io Io (sys_stat (components p))"

definition symlink_metadata :: "path \<Rightarrow> node io" where
  "symlink_metadata p = map_err_io Io (sys_lstat (components p))"

definition file_exists :: "path \<Rightarrow> world \<Rightarrow> bool \<times> world" where
  "file_exists p w = (case sys_stat (components p) w of (r, w') \<Rightarrow> (\<not> isl r, w'))"

definition fs_write :: "path \<Rightarrow> bytes \<Rightarrow> unit io" where
  "fs_write p contents w = map_err_io Io (sys_update (\<lambda>m. Inr (m(components p \<mapsto> NFile contents 0x1A4 (euid w))))) w"

definition fs_symlink :: "path \<Rightarrow> path \<Rightarrow> unit io" where
  "fs_symlink target p w = map_err_io Io (sys_update (\<lambda>m. Inr (m(components p \<mapsto> NLink (components target) (euid w))))) w"

definition set_permissions :: "path \<Rightarrow> u32 \<Rightarrow> unit io" where
  "set_permissions p mode = map_err_io Io (sys_chmod (components p) mode)"

lemmas running = passes_def failure_def observe_def read_file_def read_text_def metadata_def symlink_metadata_def file_exists_def
  fs_write_def fs_symlink_def set_permissions_def bind_io_def map_err_io_def return_io_def lift_res_def sys_chmod_def
  chmod_node_def sys_update_def sys_query_def sys_lstat_def sys_stat_def sys_read_def sys_read_to_string_def read_of_def stat_of_file

lemma calm_query: "calm w \<Longrightarrow> sys_query f w = (f (fs w), advance w)"
  by (simp add: sys_query_def calm_def faultless_def)

lemma stat_missing: "m k = None \<Longrightarrow> stat_of m k = Inl (os_err NotFound)"
  by (simp add: stat_of_def max_links_def numeral_eq_Suc)

text \<open>An empty directory in a calm world.\<close>

definition empty_dir :: "path \<Rightarrow> world \<Rightarrow> bool" where
  "empty_dir dir w \<longleftrightarrow> calm w \<and> components dir \<noteq> [] \<and> (\<exists>mo u. fs w (components dir) = Some (NDir mo u))
     \<and> (\<forall>c rest. fs w (components dir @ c # rest) = None)"

lemma empty_dir_advance [simp]: "empty_dir dir (advance w) \<longleftrightarrow> empty_dir dir w"
  by (simp add: empty_dir_def)

lemma empty_dir_faults: "empty_dir dir w \<Longrightarrow> fault w t = None"
  by (simp add: empty_dir_def calm_def faultless_def)

lemma in_dir:
  assumes "plain_name f" and "components dir \<noteq> []"
  shows "parent_of (path_join dir f) = Inr (components dir)" "components (path_join dir f) = components dir @ [Normal f]"
  using components_path_join [OF assms(1), of dir] assms(2) by (simp_all add: parent_of_def)

lemma empty_dir_writable:
  assumes "empty_dir dir w" and "\<forall>p \<in> S. \<exists>f. p = path_join dir f \<and> plain_name f \<and> take 4 f \<noteq> tmp_prefix"
  shows "writable S (fs w)"
  using assms in_dir not_tmp_name unfolding writable_def empty_dir_def by fastforce

end
