(* ===== verification/Bundle_Tests.thy ===== *)
theory Bundle_Tests
  imports Ca_Bundle Test_Support
begin

text \<open>
  The unit tests of \<open>src/protocol/ca_bundle.rs\<close>, as predicates of the crates, of the throw-away
  signer and of the random keys they draw; and that the model passes them for every crates that
  sign, encode and parse as documented, whatever the keys drawn.
\<close>

section \<open>The fixtures\<close>

text \<open>A signer: its public line, its key, and its signatures; random keys are a sequence of lines.\<close>

record signer25519 =
  sg_public :: str
  sg_key :: bytes
  sg_raw_sign :: "bytes \<Rightarrow> bytes"

definition sg_sign :: "libs \<Rightarrow> signer25519 \<Rightarrow> bytes \<Rightarrow> str" where
  "sg_sign L sg payload = lib_b64_encode L (sg_raw_sign sg payload)"

definition test_key :: "str \<Rightarrow> str \<Rightarrow> ca_bundle_key" where
  "test_key i pk = \<lparr>key_id = i, public_key = pk\<rparr>"

definition test_now :: int where
  "test_now = 1700000000 * 10 ^ 9"

abbreviation secs :: "int \<Rightarrow> int" where
  "secs n \<equiv> n * 10 ^ 9"

definition rfc3339 :: "libs \<Rightarrow> int \<Rightarrow> str" where
  "rfc3339 L t = unwrap_or (lib_rfc3339_format L t) []"

definition raw_signed ::
    "libs \<Rightarrow> signer25519 \<Rightarrow> u64 \<Rightarrow> str \<Rightarrow> ca_bundle_key list \<Rightarrow> str \<Rightarrow> str \<Rightarrow> ca_bundle_response" where
  "raw_signed L sg gen fpr keys created expires =
     \<lparr>raw_bundle_version = Some SUPPORTED_BUNDLE_VERSION, raw_generation = Some gen, raw_fingerprint = Some fpr,
      raw_created_at = Some created, raw_expires_at = Some expires, raw_keys = keys,
      raw_signature_algorithm = Some SIGNATURE_ALGORITHM,
      raw_signature = Some (sg_sign L sg (utf8 (canonical_signing_payload SUPPORTED_BUNDLE_VERSION gen fpr
        created expires keys))),
      raw_bundle_signing_public_key = Some (sg_public sg)\<rparr>"

definition signed_raw ::
    "libs \<Rightarrow> signer25519 \<Rightarrow> u64 \<Rightarrow> ca_bundle_key list \<Rightarrow> int \<Rightarrow> int \<Rightarrow> ca_bundle_response" where
  "signed_raw L sg gen keys created expires =
     raw_signed L sg gen (compute_fingerprint L gen keys) keys (rfc3339 L created) (rfc3339 L expires)"

definition valid_raw :: "libs \<Rightarrow> signer25519 \<Rightarrow> u64 \<Rightarrow> ca_bundle_key list \<Rightarrow> ca_bundle_response" where
  "valid_raw L sg gen keys = signed_raw L sg gen keys (test_now - secs 3600) (test_now + secs 3600)"

definition ca_01 :: str where
  "ca_01 = lit ''ca-01''"

text \<open>\<open>{i:02}\<close> and \<open>{i:03}\<close>.\<close>

definition padded :: "nat \<Rightarrow> nat \<Rightarrow> str" where
  "padded width i = replicate (width - length (show_nat i)) 48 @ show_nat i"

definition numbered_keys :: "nat \<Rightarrow> (nat \<Rightarrow> str) \<Rightarrow> nat \<Rightarrow> ca_bundle_key list" where
  "numbered_keys width pks n = map (\<lambda>i. test_key (lit ''ca-'' @ padded width i) (pks i)) [0..<n]"

section \<open>The tests\<close>

definition canonical_json_layout_is_exact_and_stable :: bool where
  "canonical_json_layout_is_exact_and_stable \<longleftrightarrow>
     canonical_json 42 [test_key (lit ''ca-02'') (lit ''ssh-ed25519 BBBB''), test_key ca_01 (lit ''ssh-ed25519 AAAA'')]
     = lit ''{\"generation\":42,\"keys\":[{\"key_id\":\"ca-01\",\"public_key\":\"ssh-ed25519 AAAA\"},{\"key_id\":\"ca-02\",\"public_key\":\"ssh-ed25519 BBBB\"}]}''"

definition canonical_signing_payload_layout_is_exact_and_stable :: bool where
  "canonical_signing_payload_layout_is_exact_and_stable \<longleftrightarrow>
     canonical_signing_payload 1 42 (lit ''sha256:ab'') (lit ''2026-01-01T00:00:00Z'') (lit ''2026-02-01T00:00:00Z'')
       [test_key ca_01 (lit ''ssh-ed25519 AAAA'')]
     = lit ''{\"bundle_version\":1,\"created_at\":\"2026-01-01T00:00:00Z\",\"expires_at\":\"2026-02-01T00:00:00Z\",\"fingerprint\":\"sha256:ab\",\"generation\":42,\"keys\":[{\"key_id\":\"ca-01\",\"public_key\":\"ssh-ed25519 AAAA\"}]}''"

definition validates_signed_minimal_bundle :: "libs \<Rightarrow> signer25519 \<Rightarrow> (nat \<Rightarrow> str) \<Rightarrow> bool" where
  "validates_signed_minimal_bundle L sg pks \<longleftrightarrow>
     (case from_response L (valid_raw L sg 7 [test_key ca_01 (pks 0)]) test_now None of
        Inl _ \<Rightarrow> False
      | Inr b \<Rightarrow> generation b = 7 \<and> bundle_version b = 1 \<and> take 7 (fingerprint b) = lit ''sha256:'')"

definition accepts_maximum_keys :: "libs \<Rightarrow> signer25519 \<Rightarrow> (nat \<Rightarrow> str) \<Rightarrow> bool" where
  "accepts_maximum_keys L sg pks \<longleftrightarrow>
     (case from_response L (valid_raw L sg 1 (numbered_keys 2 pks MAX_KEYS)) test_now None of
        Inl _ \<Rightarrow> False
      | Inr b \<Rightarrow> length (bundle_keys b) = MAX_KEYS)"

definition rejects_unsupported_version :: "libs \<Rightarrow> signer25519 \<Rightarrow> (nat \<Rightarrow> str) \<Rightarrow> bool" where
  "rejects_unsupported_version L sg pks \<longleftrightarrow>
     from_response L ((valid_raw L sg 1 [test_key ca_01 (pks 0)])\<lparr>raw_bundle_version := Some 2\<rparr>) test_now None
     = Inl UnsupportedVersion"

definition rejects_unsupported_signature_algorithm :: "libs \<Rightarrow> signer25519 \<Rightarrow> (nat \<Rightarrow> str) \<Rightarrow> bool" where
  "rejects_unsupported_signature_algorithm L sg pks \<longleftrightarrow>
     from_response L ((valid_raw L sg 1 [test_key ca_01 (pks 0)])
       \<lparr>raw_signature_algorithm := Some (lit ''rsa-sha2-512'')\<rparr>) test_now None
     = Inl UnsupportedSignatureAlgorithm"

definition rejects_tampered_keys :: "libs \<Rightarrow> signer25519 \<Rightarrow> (nat \<Rightarrow> str) \<Rightarrow> bool" where
  "rejects_tampered_keys L sg pks \<longleftrightarrow>
     from_response L ((valid_raw L sg 1 [test_key ca_01 (pks 0)])\<lparr>raw_keys := [test_key ca_01 (pks 1)]\<rparr>) test_now None
     = Inl SignatureInvalid"

definition rejects_tampered_generation :: "libs \<Rightarrow> signer25519 \<Rightarrow> (nat \<Rightarrow> str) \<Rightarrow> bool" where
  "rejects_tampered_generation L sg pks \<longleftrightarrow>
     from_response L ((valid_raw L sg 1 [test_key ca_01 (pks 0)])\<lparr>raw_generation := Some 999\<rparr>) test_now None
     = Inl SignatureInvalid"

definition rejects_bad_signature :: "libs \<Rightarrow> signer25519 \<Rightarrow> (nat \<Rightarrow> str) \<Rightarrow> bool" where
  "rejects_bad_signature L sg pks \<longleftrightarrow>
     from_response L ((valid_raw L sg 1 [test_key ca_01 (pks 0)])
       \<lparr>raw_signature := Some (lib_b64_encode L (replicate 64 0))\<rparr>) test_now None
     = Inl SignatureInvalid"

definition rejects_signing_key_mismatch_against_pin :: "libs \<Rightarrow> signer25519 \<Rightarrow> (nat \<Rightarrow> str) \<Rightarrow> bool" where
  "rejects_signing_key_mismatch_against_pin L sg pks \<longleftrightarrow>
     from_response L (valid_raw L sg 1 [test_key ca_01 (pks 0)]) test_now (Some (pks 1)) = Inl SigningKeyMismatch"

definition accepts_matching_pinned_signing_key :: "libs \<Rightarrow> signer25519 \<Rightarrow> (nat \<Rightarrow> str) \<Rightarrow> bool" where
  "accepts_matching_pinned_signing_key L sg pks \<longleftrightarrow>
     \<not> isl (from_response L (valid_raw L sg 1 [test_key ca_01 (pks 0)]) test_now (Some (sg_public sg)))"

definition rejects_expired_bundle :: "libs \<Rightarrow> signer25519 \<Rightarrow> (nat \<Rightarrow> str) \<Rightarrow> bool" where
  "rejects_expired_bundle L sg pks \<longleftrightarrow>
     from_response L (signed_raw L sg 1 [test_key ca_01 (pks 0)] (test_now - secs 7200) (test_now - secs 3600)) test_now None
     = Inl Expired"

definition rejects_not_yet_valid_bundle :: "libs \<Rightarrow> signer25519 \<Rightarrow> (nat \<Rightarrow> str) \<Rightarrow> bool" where
  "rejects_not_yet_valid_bundle L sg pks \<longleftrightarrow>
     from_response L (signed_raw L sg 1 [test_key ca_01 (pks 0)] (test_now + secs 3600) (test_now + secs 7200)) test_now None
     = Inl NotYetValid"

definition accepts_bundle_created_within_skew_grace :: "libs \<Rightarrow> signer25519 \<Rightarrow> (nat \<Rightarrow> str) \<Rightarrow> bool" where
  "accepts_bundle_created_within_skew_grace L sg pks \<longleftrightarrow>
     \<not> isl (from_response L (signed_raw L sg 1 [test_key ca_01 (pks 0)] (test_now + secs 30) (test_now + secs 7200)) test_now None)"

definition rejects_lying_fingerprint_even_when_signed :: "libs \<Rightarrow> signer25519 \<Rightarrow> (nat \<Rightarrow> str) \<Rightarrow> bool" where
  "rejects_lying_fingerprint_even_when_signed L sg pks \<longleftrightarrow>
     from_response L (raw_signed L sg 1 (FINGERPRINT_PREFIX @ replicate 64 48) [test_key ca_01 (pks 0)]
       (rfc3339 L (test_now - secs 3600)) (rfc3339 L (test_now + secs 3600))) test_now None
     = Inl FingerprintMismatch"

definition rejects_inverted_validity_window :: "libs \<Rightarrow> signer25519 \<Rightarrow> (nat \<Rightarrow> str) \<Rightarrow> bool" where
  "rejects_inverted_validity_window L sg pks \<longleftrightarrow>
     from_response L (signed_raw L sg 1 [test_key ca_01 (pks 0)] (test_now + secs 7200) (test_now + secs 3600)) test_now None
     = Inl InvalidTimestamp"

definition rejects_unparseable_timestamp :: "libs \<Rightarrow> signer25519 \<Rightarrow> (nat \<Rightarrow> str) \<Rightarrow> bool" where
  "rejects_unparseable_timestamp L sg pks \<longleftrightarrow>
     (let keys = [test_key ca_01 (pks 0)]
      in from_response L (raw_signed L sg 1 (compute_fingerprint L 1 keys) keys (lit ''not-a-time'') (lit ''also-bad''))
           test_now None
         = Inl InvalidTimestamp)"

definition rejects_empty_bundle :: "libs \<Rightarrow> signer25519 \<Rightarrow> bool" where
  "rejects_empty_bundle L sg \<longleftrightarrow> from_response L (valid_raw L sg 1 []) test_now None = Inl BundleEmpty"

definition rejects_too_many_keys :: "libs \<Rightarrow> signer25519 \<Rightarrow> (nat \<Rightarrow> str) \<Rightarrow> bool" where
  "rejects_too_many_keys L sg pks \<longleftrightarrow>
     from_response L (valid_raw L sg 1 (numbered_keys 3 pks (Suc MAX_KEYS))) test_now None = Inl TooManyKeys"

definition rejects_duplicate_key_id :: "libs \<Rightarrow> signer25519 \<Rightarrow> (nat \<Rightarrow> str) \<Rightarrow> bool" where
  "rejects_duplicate_key_id L sg pks \<longleftrightarrow>
     from_response L (valid_raw L sg 1 [test_key (lit ''dup'') (pks 0), test_key (lit ''dup'') (pks 1)]) test_now None
     = Inl DuplicateKeyId"

definition rejects_duplicate_public_key :: "libs \<Rightarrow> signer25519 \<Rightarrow> (nat \<Rightarrow> str) \<Rightarrow> bool" where
  "rejects_duplicate_public_key L sg pks \<longleftrightarrow>
     from_response L (valid_raw L sg 1 [test_key ca_01 (pks 0), test_key (lit ''ca-02'') (pks 0)]) test_now None
     = Inl DuplicatePublicKey"

definition rejects_invalid_public_key :: "libs \<Rightarrow> signer25519 \<Rightarrow> bool" where
  "rejects_invalid_public_key L sg \<longleftrightarrow>
     from_response L (valid_raw L sg 1 [test_key ca_01 (lit ''ssh-ed25519 not-base64!!'')]) test_now None = Inl InvalidKey"

definition renders_managed_trusted_user_ca_keys :: "libs \<Rightarrow> signer25519 \<Rightarrow> (nat \<Rightarrow> str) \<Rightarrow> bool" where
  "renders_managed_trusted_user_ca_keys L sg pks \<longleftrightarrow>
     (case from_response L (valid_raw L sg 9 [test_key ca_01 (pks 0)]) test_now None of
        Inl _ \<Rightarrow> False
      | Inr b \<Rightarrow>
          (let rendered = render_trusted_user_ca_keys b;
               header = lit ''# Managed by mayfly-agent. DO NOT EDIT.'' @ [10]
           in take (length header) rendered = header
              \<and> str_contains rendered (lit ''# bundle_version: 1'' @ [10])
              \<and> str_contains rendered (lit ''# generation: 9'' @ [10])
              \<and> str_contains rendered (lit ''# fingerprint: '' @ fingerprint b @ [10])
              \<and> last rendered = 10
              \<and> (case split_whitespace (pks 0) of
                   algo # blob # _ \<Rightarrow> str_contains rendered (algo @ [32] @ blob @ lit '' mayfly:ca-01'' @ [10])
                 | _ \<Rightarrow> False)))"

definition from_json_rejects_garbage :: "(bytes \<Rightarrow> ca_bundle_response option) \<Rightarrow> bool" where
  "from_json_rejects_garbage parse \<longleftrightarrow>
     bundle_from_json parse (utf8 (lit ''not json'')) = Inl (InvalidCaBundle InvalidKey)"

definition public_keys_equal_ignores_comment :: "signer25519 \<Rightarrow> bool" where
  "public_keys_equal_ignores_comment sg \<longleftrightarrow>
     public_keys_equal (sg_public sg) (trim (sg_public sg) @ lit '' a-different-comment'')"

definition verify_signature_accepts_valid_ed25519_signature :: "libs \<Rightarrow> signer25519 \<Rightarrow> bool" where
  "verify_signature_accepts_valid_ed25519_signature L sg \<longleftrightarrow>
     (let payload = utf8 (lit ''mayfly-bundle-canonical-payload'')
      in verify_signature L payload (sg_sign L sg payload) (sg_public sg) = Inr ())"

definition verify_signature_rejects_payload_mismatch :: "libs \<Rightarrow> signer25519 \<Rightarrow> bool" where
  "verify_signature_rejects_payload_mismatch L sg \<longleftrightarrow>
     verify_signature L (utf8 (lit ''tampered-payload'')) (sg_sign L sg (utf8 (lit ''original-payload''))) (sg_public sg)
     = Inl SignatureInvalid"


definition fingerprint_matches_known_vector :: "libs \<Rightarrow> bool" where
  "fingerprint_matches_known_vector L \<longleftrightarrow>
     compute_fingerprint L 1 [test_key ca_01 (lit ''ssh-ed25519 AAAA'')]
     = lit ''sha256:aaa4a001b964adfb2217ef11e804f8334ae417719f25e44b1978e3220f722d23''"

text \<open>The identity of the curve as a public key, and the line that \<open>ssh_key\<close> writes for it.\<close>

definition identity_point :: bytes where
  "identity_point = 1 # replicate 31 0"

definition verify_strict_rejects_small_order_signing_key_forgery :: "libs \<Rightarrow> (bytes \<Rightarrow> str) \<Rightarrow> bool" where
  "verify_strict_rejects_small_order_signing_key_forgery L openssh_from_raw \<longleftrightarrow>
     verify_signature L (utf8 (lit ''any-payload'')) (lib_b64_encode L (replicate 64 0)) (openssh_from_raw identity_point)
     = Inl SignatureInvalid"

definition from_response_rejects_small_order_signer ::
    "libs \<Rightarrow> (bytes \<Rightarrow> str) \<Rightarrow> (nat \<Rightarrow> str) \<Rightarrow> bool" where
  "from_response_rejects_small_order_signer L openssh_from_raw pks \<longleftrightarrow>
     (let keys = [test_key ca_01 (pks 0)]
      in from_response L \<lparr>raw_bundle_version = Some SUPPORTED_BUNDLE_VERSION, raw_generation = Some 1,
           raw_fingerprint = Some (compute_fingerprint L 1 keys), raw_created_at = Some (rfc3339 L (test_now - secs 3600)),
           raw_expires_at = Some (rfc3339 L (test_now + secs 3600)), raw_keys = keys,
           raw_signature_algorithm = Some SIGNATURE_ALGORITHM, raw_signature = Some (lib_b64_encode L (replicate 64 0)),
           raw_bundle_signing_public_key = Some (openssh_from_raw identity_point)\<rparr> test_now None
         = Inl SignatureInvalid)"

section \<open>What the crates promise about the fixtures\<close>

text \<open>
  Random keys are Ed25519 lines of at least two tokens, all different; the signer's line is
  another one and reads back as its key; its signatures verify. Instants are written and read
  back. What does not verify is said of the four messages the tests tamper with only.
\<close>

definition test_keys_ok :: "libs \<Rightarrow> signer25519 \<Rightarrow> (nat \<Rightarrow> str) \<Rightarrow> bool" where
  "test_keys_ok L sg pks \<longleftrightarrow> inj pks
     \<and> (\<forall>i. ed25519_line L (pks i) \<and> key_material (pks i) \<noteq> None \<and> key_material (pks i) \<noteq> key_material (sg_public sg))
     \<and> lib_ssh_public L (lit ''ssh-ed25519 not-base64!!'') = None"

definition test_signer_ok :: "libs \<Rightarrow> signer25519 \<Rightarrow> bool" where
  "test_signer_ok L sg \<longleftrightarrow>
     ed25519_line L (sg_public sg) \<and> key_material (sg_public sg) \<noteq> None
     \<and> (\<exists>k. lib_ssh_public L (sg_public sg) = Some k \<and> spk_ed25519 k = Some (sg_key sg)) \<and> lib_verifying_key L (sg_key sg)
     \<and> (\<forall>m. length (sg_raw_sign sg m) = 64 \<and> lib_verify_strict L (sg_key sg) m (sg_raw_sign sg m))
     \<and> (\<forall>b. trim (lib_b64_encode L b) = lib_b64_encode L b \<and> lib_b64_decode L (lib_b64_encode L b) = Some b)"

definition test_time_ok :: "libs \<Rightarrow> bool" where
  "test_time_ok L \<longleftrightarrow>
     (\<forall>d \<in> {-7200, -3600, 30, 3600, 7200}. lib_rfc3339_parse L (rfc3339 L (test_now + secs d)) = Some (test_now + secs d))
     \<and> lib_rfc3339_parse L (lit ''not-a-time'') = None"

definition untampered :: "libs \<Rightarrow> (nat \<Rightarrow> str) \<Rightarrow> ca_bundle_key list \<Rightarrow> u64 \<Rightarrow> bytes" where
  "untampered L pks keys gen = utf8 (canonical_signing_payload SUPPORTED_BUNDLE_VERSION gen
     (compute_fingerprint L 1 [test_key ca_01 (pks 0)]) (rfc3339 L (test_now - secs 3600)) (rfc3339 L (test_now + secs 3600)) keys)"

definition forgeries_fail :: "libs \<Rightarrow> signer25519 \<Rightarrow> (nat \<Rightarrow> str) \<Rightarrow> bool" where
  "forgeries_fail L sg pks \<longleftrightarrow>
     (\<forall>(m, sig) \<in> {(untampered L pks [test_key ca_01 (pks 1)] 1, sg_raw_sign sg (untampered L pks [test_key ca_01 (pks 0)] 1)),
        (untampered L pks [test_key ca_01 (pks 0)] 999, sg_raw_sign sg (untampered L pks [test_key ca_01 (pks 0)] 1)),
        (untampered L pks [test_key ca_01 (pks 0)] 1, replicate 64 0),
        (utf8 (lit ''tampered-payload''), sg_raw_sign sg (utf8 (lit ''original-payload'')))}.
        \<not> lib_verify_strict L (sg_key sg) m sig)"

definition test_digests_ok :: "libs \<Rightarrow> (nat \<Rightarrow> str) \<Rightarrow> bool" where
  "test_digests_ok L pks \<longleftrightarrow>
     lib_hex L (lib_sha256 L (utf8 (lit ''{\"generation\":1,\"keys\":[{\"key_id\":\"ca-01\",\"public_key\":\"ssh-ed25519 AAAA\"}]}'')))
       = lit ''aaa4a001b964adfb2217ef11e804f8334ae417719f25e44b1978e3220f722d23''
     \<and> utf8 (lib_hex L (lib_sha256 L (utf8 (canonical_json 1 [test_key ca_01 (pks 0)])))) \<noteq> utf8 (replicate 64 48)"

definition small_order_ok :: "libs \<Rightarrow> (bytes \<Rightarrow> str) \<Rightarrow> bool" where
  "small_order_ok L openssh_from_raw \<longleftrightarrow> ed25519_line L (openssh_from_raw identity_point)
     \<and> (\<exists>k. lib_ssh_public L (openssh_from_raw identity_point) = Some k \<and> spk_ed25519 k = Some identity_point)
     \<and> (\<forall>m sig. \<not> lib_verify_strict L identity_point m sig)"

section \<open>The gate on a signed response\<close>

lemma fingerprint_not_blank: "trim (compute_fingerprint L g ks) \<noteq> []" "trim (FINGERPRINT_PREFIX @ s) \<noteq> []"
  by (simp_all add: compute_fingerprint_def FINGERPRINT_PREFIX_def trim_eq_Nil lit_def is_whitespace_def)

lemma material_not_blank: "key_material s \<noteq> None \<Longrightarrow> trim s \<noteq> []"
  using split_whitespace_trim [of s] by (auto simp: key_material_def)

lemma signed_verifies:
  assumes "test_signer_ok L sg"
  shows "signed_by L (sg_public sg) (sg_sign L sg m) m"
  using assms by (auto simp: test_signer_ok_def signed_by_def sg_sign_def)

lemma signed_only:
  assumes "test_signer_ok L sg" and "\<not> lib_verify_strict L (sg_key sg) m sig"
  shows "verify_signature L m (lib_b64_encode L sig) (sg_public sg) = Inl SignatureInvalid"
proof -
  have "\<not> signed_by L (sg_public sg) (lib_b64_encode L sig) m"
    using assms by (auto simp: test_signer_ok_def signed_by_def)
  then show ?thesis
    by (cases "verify_signature L m (lib_b64_encode L sig) (sg_public sg)")
       (auto simp: verify_signature_iff [symmetric] dest: verify_signature_err)
qed

lemma gate_signed:
  assumes "test_signer_ok L sg" and "trim f \<noteq> []" and "\<forall>p. pin = Some p \<longrightarrow> public_keys_equal p (sg_public sg)"
  shows "from_response L (raw_signed L sg gen f keys c x) now pin
    = check_content L (raw_signed L sg gen f keys c x) now 1 gen f c x (sg_public sg)"
proof -
  let ?raw = "raw_signed L sg gen f keys c x"
  have "authentic L ?raw pin"
    using assms signed_verifies [OF assms(1), of "claimed_payload ?raw"] material_not_blank [of "sg_public sg"]
    by (auto simp: authentic_def raw_signed_def test_signer_ok_def claimed_payload_def SUPPORTED_BUNDLE_VERSION_def
        SIGNATURE_ALGORITHM_def)
  then show ?thesis
    using from_response_split [OF refl, of L ?raw now pin]
    by (auto simp: raw_signed_def)
qed

lemma content_signed:
  assumes "gen \<noteq> 0" and "keys \<noteq> []" "length keys \<le> MAX_KEYS" "\<forall>k \<in> set keys. good_key L k"
    and "distinct (map key_id keys)" "distinct (map public_key keys)"
    and "lib_rfc3339_parse L c = Some cr" "lib_rfc3339_parse L x = Some ex" and "raw_keys raw = keys"
  shows "check_content L raw now 1 gen (compute_fingerprint L gen keys) c x pk
    = (if ex \<le> cr then Inl InvalidTimestamp else if now \<ge> ex then Inl Expired
       else if cr - now > CLOCK_SKEW_GRACE then Inl NotYetValid
       else Inr \<lparr>bundle_version = 1, generation = gen, fingerprint = compute_fingerprint L gen keys,
         created_at = cr, expires_at = ex, bundle_keys = sort_key key_id keys, signing_public_key = pk\<rparr>)"
proof -
  have v: "validate_keys L keys = Inr ()" "check_duplicates keys = Inr ()"
    using assms by (simp_all add: keys_check.check_iff dup_check.check_iff)
  have "\<not> length keys < MIN_KEYS" using assms(2) by (cases keys) (simp_all add: MIN_KEYS_def)
  with assms v show ?thesis by (simp add: check_content_def)
qed

lemma good_ids: "good_key_id ca_01" "good_key_id (lit ''ca-02'')" "good_key_id (lit ''dup'')"
  by (simp_all add: good_key_id_def ca_01_def lit_def is_ascii_graphic_def)

lemma one_key:
  assumes "test_keys_ok L sg pks"
  shows "good_key L (test_key ca_01 (pks i))"
  using assms good_ids by (simp add: test_keys_ok_def good_key_def test_key_def)

lemma gate_times:
  assumes "test_signer_ok L sg" "test_keys_ok L sg pks" "test_time_ok L"
    and "\<forall>p. pin = Some p \<longrightarrow> public_keys_equal p (sg_public sg)"
    and "dc \<in> {-7200, -3600, 30, 3600, 7200}" "dx \<in> {-7200, -3600, 30, 3600, 7200}" and "gen \<noteq> 0"
    and "keys \<noteq> []" "length keys \<le> MAX_KEYS" "\<forall>k \<in> set keys. good_key L k"
    and "distinct (map key_id keys)" "distinct (map public_key keys)"
  shows "from_response L (signed_raw L sg gen keys (test_now + secs dc) (test_now + secs dx)) test_now pin
    = (if dx \<le> dc then Inl InvalidTimestamp else if dx \<le> 0 then Inl Expired else if dc > 60 then Inl NotYetValid
       else Inr \<lparr>bundle_version = 1, generation = gen, fingerprint = compute_fingerprint L gen keys,
         created_at = test_now + secs dc, expires_at = test_now + secs dx, bundle_keys = sort_key key_id keys,
         signing_public_key = sg_public sg\<rparr>)"
  unfolding signed_raw_def gate_signed [OF assms(1) fingerprint_not_blank(1) assms(4)]
  by (subst content_signed [of gen keys L _ "test_now + secs dc" _ "test_now + secs dx"])
     (use assms in \<open>auto simp: test_time_ok_def raw_signed_def CLOCK_SKEW_GRACE_def\<close>)

section \<open>The tests hold\<close>

lemma layouts_exact: "canonical_json_layout_is_exact_and_stable" "canonical_signing_payload_layout_is_exact_and_stable"
  by code_simp+

lemma vector_known:
  assumes "test_digests_ok L pks"
  shows "fingerprint_matches_known_vector L"
proof -
  have "canonical_json 1 [test_key ca_01 (lit ''ssh-ed25519 AAAA'')]
      = lit ''{\"generation\":1,\"keys\":[{\"key_id\":\"ca-01\",\"public_key\":\"ssh-ed25519 AAAA\"}]}''"
    by code_simp
  moreover have "FINGERPRINT_PREFIX @ lit ''aaa4a001b964adfb2217ef11e804f8334ae417719f25e44b1978e3220f722d23''
      = lit ''sha256:aaa4a001b964adfb2217ef11e804f8334ae417719f25e44b1978e3220f722d23''"
    by (simp add: FINGERPRINT_PREFIX_def lit_def)
  ultimately show ?thesis using assms by (simp add: fingerprint_matches_known_vector_def compute_fingerprint_def test_digests_ok_def)
qed

lemma padded_val: "dec_val (padded w i) = i"
proof -
  have "dec_val (replicate n 48 @ s) = dec_val s" for n s by (induction n) (simp_all add: dec_val_def)
  then show ?thesis by (simp add: padded_def dec_val_show_nat)
qed

lemma short_numbers: "i < 100 \<Longrightarrow> length (show_nat i) \<le> 2"
  by (cases "i < 10") (simp_all add: show_nat.simps [of i] show_nat.simps [of "i div 10"])

lemma numbered_ok:
  assumes "test_keys_ok L sg pks" and "n < 100" "w \<le> 10"
  shows "\<forall>k \<in> set (numbered_keys w pks n). good_key L k" "distinct (map key_id (numbered_keys w pks n))"
    "distinct (map public_key (numbered_keys w pks n))" "length (numbered_keys w pks n) = n"
proof -
  have g: "good_key_id (lit ''ca-'' @ padded w i)" if "i < 100" for i
  proof -
    have "33 \<le> c \<and> c \<le> 126" if "c \<in> set (show_nat i)" for c using show_nat_set [OF that] by simp
    then show ?thesis
      using short_numbers [OF that] assms(3)
      by (auto simp: good_key_id_def padded_def lit_def is_ascii_graphic_def split: if_splits)
  qed
  show "\<forall>k \<in> set (numbered_keys w pks n). good_key L k"
    using assms(1,2) g by (auto simp: numbered_keys_def good_key_def test_key_def test_keys_ok_def)
  have "inj (\<lambda>i. lit ''ca-'' @ padded w i)" by (rule injI) (metis padded_val same_append_eq)
  then show "distinct (map key_id (numbered_keys w pks n))"
    by (simp add: numbered_keys_def test_key_def comp_def distinct_map inj_on_subset [OF _ subset_UNIV])
  show "distinct (map public_key (numbered_keys w pks n))"
    using assms(1) by (simp add: numbered_keys_def test_key_def comp_def distinct_map test_keys_ok_def inj_on_subset [OF _ subset_UNIV])
qed (simp add: numbered_keys_def)


definition test_fixtures :: "libs \<Rightarrow> signer25519 \<Rightarrow> (nat \<Rightarrow> str) \<Rightarrow> (bytes \<Rightarrow> str) \<Rightarrow> bool" where
  "test_fixtures L sg pks openssh_from_raw \<longleftrightarrow> test_signer_ok L sg \<and> test_keys_ok L sg pks \<and> test_time_ok L
     \<and> forgeries_fail L sg pks \<and> test_digests_ok L pks \<and> small_order_ok L openssh_from_raw"

lemma single_times:
  assumes "test_fixtures L sg pks ow"
    and "\<forall>p. pin = Some p \<longrightarrow> public_keys_equal p (sg_public sg)"
    and "dc \<in> {-7200, -3600, 30, 3600, 7200}" "dx \<in> {-7200, -3600, 30, 3600, 7200}" and "gen \<noteq> 0"
  shows "from_response L (signed_raw L sg gen [test_key ca_01 (pks i)] (test_now + secs dc) (test_now + secs dx)) test_now pin
    = (if dx \<le> dc then Inl InvalidTimestamp else if dx \<le> 0 then Inl Expired else if dc > 60 then Inl NotYetValid
       else Inr \<lparr>bundle_version = 1, generation = gen, fingerprint = compute_fingerprint L gen [test_key ca_01 (pks i)],
         created_at = test_now + secs dc, expires_at = test_now + secs dx, bundle_keys = [test_key ca_01 (pks i)],
         signing_public_key = sg_public sg\<rparr>)"
  using assms one_key
  by (subst gate_times [of L sg pks]) (auto simp: test_fixtures_def MAX_KEYS_def)

lemma valid_at: "valid_raw L sg gen keys = signed_raw L sg gen keys (test_now + secs (-3600)) (test_now + secs 3600)"
  by (simp add: valid_raw_def)

lemma accepting_tests:
  assumes "test_fixtures L sg pks ow"
  shows "validates_signed_minimal_bundle L sg pks" "accepts_maximum_keys L sg pks"
    "accepts_matching_pinned_signing_key L sg pks" "accepts_bundle_created_within_skew_grace L sg pks"
proof -
  show "validates_signed_minimal_bundle L sg pks"
    unfolding validates_signed_minimal_bundle_def valid_at
    by (subst single_times [OF assms]) (simp_all add: compute_fingerprint_def FINGERPRINT_PREFIX_def lit_def)
  have ok: "test_keys_ok L sg pks" using assms by (simp add: test_fixtures_def)
  note n = numbered_ok [OF ok, of MAX_KEYS 2]
  show "accepts_maximum_keys L sg pks"
    unfolding accepts_maximum_keys_def valid_at
    using assms n by (subst gate_times [of L sg pks]) (auto simp: test_fixtures_def MAX_KEYS_def)
  have "public_keys_equal (sg_public sg) (sg_public sg)"
    using assms by (auto simp: public_keys_equal_def test_fixtures_def test_signer_ok_def)
  then show "accepts_matching_pinned_signing_key L sg pks"
    unfolding accepts_matching_pinned_signing_key_def valid_at by (subst single_times [OF assms]) simp_all
  have "secs 30 = secs 30" ..
  show "accepts_bundle_created_within_skew_grace L sg pks"
    unfolding accepts_bundle_created_within_skew_grace_def
    using single_times [OF assms, of None 30 7200 1 0] by simp
qed

lemma time_tests:
  assumes "test_fixtures L sg pks ow"
  shows "rejects_expired_bundle L sg pks" "rejects_not_yet_valid_bundle L sg pks" "rejects_inverted_validity_window L sg pks"
  using single_times [OF assms, of None "-7200" "-3600" 1 0] single_times [OF assms, of None 3600 7200 1 0]
    single_times [OF assms, of None 7200 3600 1 0]
  by (simp_all add: rejects_expired_bundle_def rejects_not_yet_valid_bundle_def rejects_inverted_validity_window_def)

text \<open>Tampered envelopes: the version, the algorithm, the signing key, the signature.\<close>

lemma signed_envelope:
  assumes "test_fixtures L sg pks ow" and "\<not> public_keys_equal p (sg_public sg)"
  shows "from_response L (valid_raw L sg 1 keys) now (Some p) = Inl SigningKeyMismatch"
proof -
  have "trim (sg_public sg) \<noteq> []" "validate_ed25519_public_key L (sg_public sg) = Inr ()"
    using assms(1) material_not_blank [of "sg_public sg"]
    by (simp_all add: test_fixtures_def test_signer_ok_def pubkey.check_iff)
  with assms(2) show ?thesis by (simp add: valid_raw_def signed_raw_def raw_signed_def from_response_def Let_def)
qed

lemma tampered:
  assumes "test_fixtures L sg pks ow"
    and "\<not> lib_verify_strict L (sg_key sg) (untampered L pks keys gen) sig"
  shows "from_response L ((valid_raw L sg 1 [test_key ca_01 (pks 0)])\<lparr>raw_keys := keys, raw_generation := Some gen,
      raw_signature := Some (lib_b64_encode L sig)\<rparr>) now None = Inl SignatureInvalid"
proof -
  have s: "test_signer_ok L sg" using assms(1) by (simp add: test_fixtures_def)
  then have "trim (sg_public sg) \<noteq> []" "validate_ed25519_public_key L (sg_public sg) = Inr ()"
    using material_not_blank [of "sg_public sg"] by (simp_all add: test_signer_ok_def pubkey.check_iff)
  with signed_only [OF s assms(2)] fingerprint_not_blank(1) show ?thesis
    by (simp add: valid_raw_def signed_raw_def raw_signed_def from_response_def Let_def untampered_def)
qed

lemma untampered_signature:
  "raw_signature (valid_raw L sg 1 [test_key ca_01 (pks 0)])
    = Some (lib_b64_encode L (sg_raw_sign sg (untampered L pks [test_key ca_01 (pks 0)] 1)))"
  "raw_keys (valid_raw L sg 1 ks) = ks" "raw_generation (valid_raw L sg 1 ks) = Some 1"
  by (simp_all add: valid_raw_def signed_raw_def raw_signed_def sg_sign_def untampered_def)

lemma envelope_tests:
  assumes "test_fixtures L sg pks ow"
  shows "rejects_unsupported_version L sg pks" "rejects_unsupported_signature_algorithm L sg pks"
    "rejects_tampered_keys L sg pks" "rejects_tampered_generation L sg pks" "rejects_bad_signature L sg pks"
    "rejects_signing_key_mismatch_against_pin L sg pks"
proof -
  let ?k = "[test_key ca_01 (pks 0)]" and ?raw = "valid_raw L sg 1 [test_key ca_01 (pks 0)]"
  show "rejects_unsupported_version L sg pks"
    by (simp add: rejects_unsupported_version_def from_response_def valid_raw_def signed_raw_def raw_signed_def
        SUPPORTED_BUNDLE_VERSION_def)
  show "rejects_unsupported_signature_algorithm L sg pks"
    by (simp add: rejects_unsupported_signature_algorithm_def from_response_def valid_raw_def signed_raw_def raw_signed_def
        SUPPORTED_BUNDLE_VERSION_def SIGNATURE_ALGORITHM_def)
  have sig: "raw_signature ?raw = Some (lib_b64_encode L (sg_raw_sign sg (untampered L pks ?k 1)))"
    by (rule untampered_signature(1))
  let ?sig = "sg_raw_sign sg (untampered L pks ?k 1)"
  have f: "\<not> lib_verify_strict L (sg_key sg) (untampered L pks [test_key ca_01 (pks 1)] 1) ?sig"
      "\<not> lib_verify_strict L (sg_key sg) (untampered L pks ?k 999) ?sig"
      "\<not> lib_verify_strict L (sg_key sg) (untampered L pks ?k 1) (replicate 64 0)"
    using assms by (simp_all add: test_fixtures_def forgeries_fail_def)
  have "?raw\<lparr>raw_keys := [test_key ca_01 (pks 1)]\<rparr> = ?raw\<lparr>raw_keys := [test_key ca_01 (pks 1)], raw_generation := Some 1,
      raw_signature := Some (lib_b64_encode L (sg_raw_sign sg (untampered L pks ?k 1)))\<rparr>"
    using untampered_signature by (intro ca_bundle_response.equality) (simp_all add: untampered_signature)
  then show "rejects_tampered_keys L sg pks"
    unfolding rejects_tampered_keys_def by (rule ssubst) (rule tampered [OF assms f(1)])
  have "?raw\<lparr>raw_generation := Some 999\<rparr> = ?raw\<lparr>raw_keys := ?k, raw_generation := Some 999,
      raw_signature := Some (lib_b64_encode L (sg_raw_sign sg (untampered L pks ?k 1)))\<rparr>"
    by (intro ca_bundle_response.equality) (simp_all add: untampered_signature)
  then show "rejects_tampered_generation L sg pks"
    unfolding rejects_tampered_generation_def by (rule ssubst) (rule tampered [OF assms f(2)])
  have "?raw\<lparr>raw_signature := Some (lib_b64_encode L (replicate 64 0))\<rparr> = ?raw\<lparr>raw_keys := ?k, raw_generation := Some 1,
      raw_signature := Some (lib_b64_encode L (replicate 64 0))\<rparr>"
    by (intro ca_bundle_response.equality) (simp_all add: untampered_signature)
  then show "rejects_bad_signature L sg pks"
    unfolding rejects_bad_signature_def by (rule ssubst) (rule tampered [OF assms f(3)])
  have "\<not> public_keys_equal (pks 1) (sg_public sg)"
    using assms by (auto simp: public_keys_equal_def test_fixtures_def test_keys_ok_def split: option.splits)
  then show "rejects_signing_key_mismatch_against_pin L sg pks"
    using signed_envelope [OF assms] by (simp add: rejects_signing_key_mismatch_against_pin_def)
qed

text \<open>Signed by the right key, but wrong in content.\<close>

declare validate_keys.simps [simp del]

lemma signed_content:
  assumes "test_fixtures L sg pks ow" and "trim f \<noteq> []"
  shows "from_response L (raw_signed L sg gen f keys c x) now None
    = check_content L (raw_signed L sg gen f keys c x) now 1 gen f c x (sg_public sg)"
  using assms by (intro gate_signed) (simp_all add: test_fixtures_def)

lemma valid_content:
  assumes "test_fixtures L sg pks ow" and "check_content L (valid_raw L sg 1 keys) test_now 1 1 (compute_fingerprint L 1 keys)
    (rfc3339 L (test_now - secs 3600)) (rfc3339 L (test_now + secs 3600)) (sg_public sg) = r"
  shows "from_response L (valid_raw L sg 1 keys) test_now None = r"
  using assms(2) unfolding valid_raw_def signed_raw_def signed_content [OF assms(1) fingerprint_not_blank(1)] .

lemma content_tests:
  assumes "test_fixtures L sg pks ow"
  shows "rejects_lying_fingerprint_even_when_signed L sg pks" "rejects_unparseable_timestamp L sg pks"
    "rejects_empty_bundle L sg" "rejects_too_many_keys L sg pks" "rejects_duplicate_key_id L sg pks"
    "rejects_duplicate_public_key L sg pks" "rejects_invalid_public_key L sg"
proof -
  let ?k = "[test_key ca_01 (pks 0)]"
  have ks: "test_keys_ok L sg pks" using assms by (simp add: test_fixtures_def)
  have v: "validate_keys L ?k = Inr ()" "check_duplicates ?k = Inr ()"
    using one_key [OF ks] by (simp_all add: keys_check.check_iff dup_check.check_iff)
  have sizes: "\<not> Suc 0 < MIN_KEYS" "\<not> MAX_KEYS < Suc 0" "\<not> Suc (Suc 0) < MIN_KEYS" "\<not> MAX_KEYS < Suc (Suc 0)" "0 < MAX_KEYS"
    by (simp_all add: MIN_KEYS_def MAX_KEYS_def)
  have "utf8 (compute_fingerprint L 1 ?k) \<noteq> utf8 (FINGERPRINT_PREFIX @ replicate 64 48)"
    using assms by (simp add: compute_fingerprint_def utf8_append test_fixtures_def test_digests_ok_def)
  then show "rejects_lying_fingerprint_even_when_signed L sg pks"
    unfolding rejects_lying_fingerprint_even_when_signed_def signed_content [OF assms fingerprint_not_blank(2)]
    using v sizes by (simp add: check_content_def raw_signed_def)
  have "lib_rfc3339_parse L (lit ''not-a-time'') = None" using assms by (simp add: test_fixtures_def test_time_ok_def)
  then show "rejects_unparseable_timestamp L sg pks"
    unfolding rejects_unparseable_timestamp_def Let_def signed_content [OF assms fingerprint_not_blank(1)]
    using v sizes by (simp add: check_content_def raw_signed_def)
  show "rejects_empty_bundle L sg"
    unfolding rejects_empty_bundle_def
    by (rule valid_content [OF assms]) (simp add: check_content_def untampered_signature MIN_KEYS_def)
  have "length (numbered_keys 3 pks (Suc MAX_KEYS)) = Suc MAX_KEYS" by (simp add: numbered_keys_def)
  then show "rejects_too_many_keys L sg pks"
    unfolding rejects_too_many_keys_def
    by (intro valid_content [OF assms]) (simp add: check_content_def untampered_signature MIN_KEYS_def)
  let ?dup = "[test_key (lit ''dup'') (pks 0), test_key (lit ''dup'') (pks 1)]"
    and ?two = "[test_key ca_01 (pks 0), test_key (lit ''ca-02'') (pks 0)]"
  have "validate_keys L ?dup = Inr ()" "validate_keys L ?two = Inr ()"
    using ks good_ids by (simp_all add: keys_check.check_iff good_key_def test_key_def test_keys_ok_def)
  moreover have "check_duplicates ?dup = Inl DuplicateKeyId"
    unfolding check_duplicates_def Let_def windows_ids by (simp add: test_key_def)
  moreover have "ca_01 \<noteq> lit ''ca-02''" by (simp add: ca_01_def)
  then have "check_duplicates ?two = Inl DuplicatePublicKey"
    unfolding check_duplicates_def Let_def windows_ids windows_keys by (simp add: test_key_def)
  ultimately show "rejects_duplicate_key_id L sg pks" "rejects_duplicate_public_key L sg pks"
    unfolding rejects_duplicate_key_id_def rejects_duplicate_public_key_def
    by (intro valid_content [OF assms], simp add: check_content_def untampered_signature sizes)+
  let ?bad = "[test_key ca_01 (lit ''ssh-ed25519 not-base64!!'')]"
  have "\<not> (\<forall>k \<in> set ?bad. good_key L k)" using ks by (simp add: good_key_def ed25519_line_def test_key_def test_keys_ok_def)
  then have "validate_keys L ?bad = Inl InvalidKey" using keys_check.check_bad [of ?bad L] validate_keys_err by blast
  then show "rejects_invalid_public_key L sg"
    unfolding rejects_invalid_public_key_def
    by (intro valid_content [OF assms]) (simp add: check_content_def untampered_signature sizes)
qed

lemma signature_tests:
  assumes "test_fixtures L sg pks ow"
  shows "verify_signature_accepts_valid_ed25519_signature L sg" "verify_signature_rejects_payload_mismatch L sg"
    "verify_strict_rejects_small_order_signing_key_forgery L ow" "from_response_rejects_small_order_signer L ow pks"
proof -
  have sg: "test_signer_ok L sg" using assms by (simp add: test_fixtures_def)
  show "verify_signature_accepts_valid_ed25519_signature L sg"
    using signed_verifies [OF sg] by (simp add: verify_signature_accepts_valid_ed25519_signature_def verify_signature_iff)
  have "\<not> lib_verify_strict L (sg_key sg) (utf8 (lit ''tampered-payload'')) (sg_raw_sign sg (utf8 (lit ''original-payload'')))"
    using assms by (simp add: test_fixtures_def forgeries_fail_def)
  from signed_only [OF sg this] show "verify_signature_rejects_payload_mismatch L sg"
    by (simp add: verify_signature_rejects_payload_mismatch_def sg_sign_def)
  have v: "verify_signature L m s (ow identity_point) = Inl SignatureInvalid" for m s
  proof -
    have "\<not> signed_by L (ow identity_point) s m"
      using assms by (auto simp: test_fixtures_def small_order_ok_def signed_by_def)
    then show ?thesis
      by (cases "verify_signature L m s (ow identity_point)")
         (auto simp: verify_signature_iff [symmetric] dest: verify_signature_err)
  qed
  then show "verify_strict_rejects_small_order_signing_key_forgery L ow"
    by (simp add: verify_strict_rejects_small_order_signing_key_forgery_def)
  show "from_response_rejects_small_order_signer L ow pks"
    using v fingerprint_not_blank(1)
    by (auto simp: from_response_rejects_small_order_signer_def Let_def from_response_def SUPPORTED_BUNDLE_VERSION_def
        SIGNATURE_ALGORITHM_def)
qed

lemma two_tokens: "key_material s \<noteq> None \<Longrightarrow> \<exists>a b rest. split_whitespace s = a # b # rest"
  by (auto simp: key_material_def split: list.splits)

lemma rendering_test:
  assumes "test_fixtures L sg pks ow"
  shows "renders_managed_trusted_user_ca_keys L sg pks"
proof -
  let ?k = "test_key ca_01 (pks 0)"
  obtain b where b: "from_response L (valid_raw L sg 9 [?k]) test_now None = Inr b" "bundle_version b = 1" "generation b = 9"
      "bundle_keys b = [?k]"
    using single_times [OF assms, of None "-3600" 3600 9 0] by (simp add: valid_raw_def)
  obtain algo blob rest where t: "split_whitespace (pks 0) = algo # blob # rest"
    using two_tokens [of "pks 0"] assms by (auto simp: test_fixtures_def test_keys_ok_def)
  let ?h0 = "lit ''# Managed by mayfly-agent. DO NOT EDIT.'' @ [10]" and ?h1 = "lit ''# bundle_version: 1'' @ [10]"
    and ?h2 = "lit ''# generation: 9'' @ [10]" and ?h3 = "lit ''# fingerprint: '' @ fingerprint b @ [10]"
    and ?l = "algo @ [32] @ blob @ lit '' mayfly:ca-01'' @ [10]"
  have r: "render_trusted_user_ca_keys b = ?h0 @ ?h1 @ ?h2 @ ?h3 @ ?l"
    using b(2-4) by (simp add: render_trusted_user_ca_keys_def render_key_line_def t test_key_def ca_01_def
        lit_append [symmetric] show_u32_def show_u64_def lit_def show_nat.simps)
  have "str_contains (?h0 @ ?h1 @ ?h2 @ ?h3 @ ?l) ?h1" "str_contains ((?h0 @ ?h1) @ ?h2 @ ?h3 @ ?l) ?h2"
      "str_contains ((?h0 @ ?h1 @ ?h2) @ ?h3 @ ?l) ?h3" "str_contains ((?h0 @ ?h1 @ ?h2 @ ?h3) @ ?l @ []) ?l"
    by (rule str_contains_part)+
  moreover have "last (?h0 @ ?h1 @ ?h2 @ ?h3 @ ?l) = 10" by simp
  moreover have "take (length ?h0) (?h0 @ u) = ?h0" for u by (rule take_prefix)
  ultimately show ?thesis
    unfolding renders_managed_trusted_user_ca_keys_def b(1) sum.case Let_def r t list.case
    by (simp only: append_assoc append_Nil2 simp_thms)
qed

lemma comment_test:
  assumes "test_fixtures L sg pks ow"
  shows "public_keys_equal_ignores_comment sg"
proof -
  have m: "key_material (sg_public sg) \<noteq> None" using assms by (simp add: test_fixtures_def test_signer_ok_def)
  obtain a b rest where t: "split_whitespace (sg_public sg) = a # b # rest" using two_tokens [OF m] by blast
  have "split_whitespace (trim (sg_public sg) @ 32 # lit ''a-different-comment'') = a # b # rest @ split_whitespace (lit ''a-different-comment'')"
    by (subst split_whitespace_append) (simp_all add: is_whitespace_def split_whitespace_trim t)
  then show ?thesis
    by (simp add: public_keys_equal_ignores_comment_def public_keys_equal_def key_material_def t lit_def)
qed

section \<open>The whole suite\<close>

definition ca_bundle_tests_pass ::
    "libs \<Rightarrow> signer25519 \<Rightarrow> (nat \<Rightarrow> str) \<Rightarrow> (bytes \<Rightarrow> str) \<Rightarrow> (bytes \<Rightarrow> ca_bundle_response option) \<Rightarrow> bool" where
  "ca_bundle_tests_pass L sg pks openssh_from_raw parse \<longleftrightarrow>
     canonical_json_layout_is_exact_and_stable \<and> canonical_signing_payload_layout_is_exact_and_stable
     \<and> fingerprint_matches_known_vector L \<and> validates_signed_minimal_bundle L sg pks \<and> accepts_maximum_keys L sg pks
     \<and> rejects_unsupported_version L sg pks \<and> rejects_unsupported_signature_algorithm L sg pks
     \<and> rejects_tampered_keys L sg pks \<and> rejects_tampered_generation L sg pks \<and> rejects_bad_signature L sg pks
     \<and> rejects_signing_key_mismatch_against_pin L sg pks \<and> accepts_matching_pinned_signing_key L sg pks
     \<and> rejects_expired_bundle L sg pks \<and> rejects_not_yet_valid_bundle L sg pks
     \<and> accepts_bundle_created_within_skew_grace L sg pks \<and> rejects_lying_fingerprint_even_when_signed L sg pks
     \<and> rejects_inverted_validity_window L sg pks \<and> rejects_unparseable_timestamp L sg pks
     \<and> rejects_empty_bundle L sg \<and> rejects_too_many_keys L sg pks \<and> rejects_duplicate_key_id L sg pks
     \<and> rejects_duplicate_public_key L sg pks \<and> rejects_invalid_public_key L sg
     \<and> renders_managed_trusted_user_ca_keys L sg pks \<and> from_json_rejects_garbage parse
     \<and> public_keys_equal_ignores_comment sg \<and> verify_signature_accepts_valid_ed25519_signature L sg
     \<and> verify_signature_rejects_payload_mismatch L sg
     \<and> verify_strict_rejects_small_order_signing_key_forgery L openssh_from_raw
     \<and> from_response_rejects_small_order_signer L openssh_from_raw pks"

theorem ca_bundle_suite_passes:
  assumes "test_fixtures L sg pks openssh_from_raw" and "parse (utf8 (lit ''not json'')) = None"
  shows "ca_bundle_tests_pass L sg pks openssh_from_raw parse"
proof -
  have "test_digests_ok L pks" using assms(1) by (simp add: test_fixtures_def)
  then have "fingerprint_matches_known_vector L" by (rule vector_known)
  moreover have "from_json_rejects_garbage parse"
    using assms(2) by (simp add: from_json_rejects_garbage_def bundle_from_json_def)
  ultimately show ?thesis
    unfolding ca_bundle_tests_pass_def
    using layouts_exact accepting_tests [OF assms(1)] time_tests [OF assms(1)] envelope_tests [OF assms(1)]
      content_tests [OF assms(1)] signature_tests [OF assms(1)] rendering_test [OF assms(1)] comment_test [OF assms(1)]
    by blast
qed

section \<open>Crates on which the suite runs\<close>

definition suite_sign :: "bytes \<Rightarrow> bytes" where
  "suite_sign m = 1 # of_nat (length m) # (case m of [] \<Rightarrow> 0 | b # _ \<Rightarrow> b) # replicate 61 0"

definition suite_signer :: signer25519 where
  "suite_signer = \<lparr>sg_public = lit ''ssh-ed25519 BBBB'', sg_key = [1], sg_raw_sign = suite_sign\<rparr>"

definition suite_key :: "nat \<Rightarrow> str" where
  "suite_key i = lit ''ssh-ed25519'' @ 32 # replicate (Suc i) 65"

definition suite_libs :: libs where
  "suite_libs = sample_libs\<lparr>lib_sha256 := (\<lambda>bs. bs),
     lib_hex := (\<lambda>bs. if bs = utf8 (lit ''{\"generation\":1,\"keys\":[{\"key_id\":\"ca-01\",\"public_key\":\"ssh-ed25519 AAAA\"}]}'')
       then lit ''aaa4a001b964adfb2217ef11e804f8334ae417719f25e44b1978e3220f722d23'' else lit ''00''),
     lib_b64_encode := map (\<lambda>b. unat b + 256), lib_b64_decode := (\<lambda>s. Some (map (\<lambda>c. of_nat (c - 256)) s)),
     lib_ssh_public := (\<lambda>s. case split_whitespace s of
         [algo, blob] \<Rightarrow> if algo \<noteq> lit ''ssh-ed25519'' then None
           else if blob = lit ''BBBB'' then Some \<lparr>spk_algorithm = AlgEd25519, spk_ed25519 = Some [1]\<rparr>
           else if blob = lit ''CCCC'' then Some \<lparr>spk_algorithm = AlgEd25519, spk_ed25519 = Some identity_point\<rparr>
           else if list_all (\<lambda>c. c = 65) blob then Some \<lparr>spk_algorithm = AlgEd25519, spk_ed25519 = Some []\<rparr> else None
       | _ \<Rightarrow> None),
     lib_verify_strict := (\<lambda>k m sig. k = [1] \<and> sig = suite_sign m)\<rparr>"

definition suite_openssh :: "bytes \<Rightarrow> str" where
  "suite_openssh raw = lit ''ssh-ed25519 CCCC''"

lemma suite_lines:
  "split_whitespace (suite_key i) = [lit ''ssh-ed25519'', replicate (Suc i) 65]"
  "split_whitespace (lit ''ssh-ed25519 BBBB'') = [lit ''ssh-ed25519'', lit ''BBBB'']"
  "split_whitespace (lit ''ssh-ed25519 CCCC'') = [lit ''ssh-ed25519'', lit ''CCCC'']"
  "split_whitespace (lit ''ssh-ed25519 not-base64!!'') = [lit ''ssh-ed25519'', lit ''not-base64!!'']"
proof -
  have s: "split_whitespace (lit ''ssh-ed25519'') = [lit ''ssh-ed25519'']"
    by (rule split_whitespace_single) (simp_all add: lit_def is_whitespace_def)
  have "split_whitespace (replicate (Suc i) 65) = [replicate (Suc i) 65]"
    by (rule split_whitespace_single) (simp_all add: is_whitespace_def)
  with s show "split_whitespace (suite_key i) = [lit ''ssh-ed25519'', replicate (Suc i) 65]"
    by (simp add: suite_key_def split_whitespace_append is_whitespace_def)
qed (simp_all add: lit_def split_whitespace_def is_whitespace_def)

lemma suite_keys: "test_keys_ok suite_libs suite_signer suite_key"
proof -
  have "replicate (Suc i) 65 \<noteq> lit ''BBBB''" "replicate (Suc i) 65 \<noteq> lit ''CCCC''" for i by (simp_all add: lit_def)
  moreover have "\<forall>c \<in> set (suite_key i). \<not> is_control c" for i
    by (auto simp: suite_key_def lit_def is_control_def)
  moreover have "inj suite_key" by (rule injI) (auto simp: suite_key_def dest: arg_cong [of _ _ length])
  ultimately show ?thesis
    by (simp add: test_keys_ok_def ed25519_line_def suite_libs_def suite_lines key_material_def suite_signer_def list_all_iff)
       (simp add: lit_def)
qed

lemma suite_signs: "test_signer_ok suite_libs suite_signer"
proof -
  have "\<forall>c \<in> set (lit ''ssh-ed25519 BBBB''). \<not> is_control c" by (simp add: lit_def is_control_def)
  moreover have "\<not> is_whitespace (unat (b :: u8) + 256)" for b
  proof -
    have "unat b < 2 ^ LENGTH(8)" by (rule unsigned_less)
    then show ?thesis by (auto simp: is_whitespace_def)
  qed
  then have "trim (map (\<lambda>b. unat b + 256) (bs :: bytes)) = map (\<lambda>b. unat b + 256) bs" for bs
    by (intro trim_no_ws) auto
  moreover have "map ((\<lambda>c. of_nat (c - 256)) \<circ> (\<lambda>b. unat b + 256)) (bs :: bytes) = bs" for bs
    by (induction bs) simp_all
  ultimately show ?thesis
    by (simp add: test_signer_ok_def ed25519_line_def suite_libs_def suite_lines key_material_def suite_signer_def suite_sign_def
        sample_libs_def split: list.splits)
qed

lemma suite_time: "test_time_ok suite_libs"
proof -
  have p: "map_option (\<lambda>n. int (unat n) * 10 ^ 9) (parse_u64 (show_int k)) = Some (k * 10 ^ 9)" if "0 \<le> k" "k < 2 ^ 64" for k
  proof -
    define n where "n = nat k"
    with that have n: "k = int n" "n < 2 ^ 64" by simp_all
    then have "unat (of_nat n :: u64) = n" "uint (of_nat n :: u64) = int n"
      by (simp_all add: unsigned_of_nat take_bit_eq_mod)
    with n show ?thesis using parse_show_u64 [of "of_nat n"] by (simp add: show_int_def show_u64_def)
  qed
  have "lib_rfc3339_parse suite_libs (rfc3339 suite_libs (test_now + secs d)) = Some (test_now + secs d)"
    if "- 1700000000 \<le> d" "d < 10 ^ 10" for d
  proof -
    have e: "test_now + secs d = secs (1700000000 + d)" by (simp add: test_now_def)
    have "lib_rfc3339_parse suite_libs (rfc3339 suite_libs (secs k)) = Some (secs k)" if "0 \<le> k" "k < 2 ^ 64" for k
      using p [OF that] by (simp add: rfc3339_def suite_libs_def sample_libs_def)
    from this [of "1700000000 + d"] that show ?thesis unfolding e by (simp del: distrib_right_numeral)
  qed
  moreover have "- 1700000000 \<le> d \<and> d < 10 ^ 10" if "d \<in> {-7200, -3600, 30, 3600, 7200 :: int}" for d using that by auto
  ultimately have "\<forall>d \<in> {-7200, -3600, 30, 3600, 7200}.
      lib_rfc3339_parse suite_libs (rfc3339 suite_libs (test_now + secs d)) = Some (test_now + secs d)" by blast
  moreover have "lib_rfc3339_parse suite_libs (lit ''not-a-time'') = None"
    by (simp add: suite_libs_def sample_libs_def parse_u64_def lit_def is_ascii_digit_def)
  ultimately show ?thesis unfolding test_time_ok_def by blast
qed

lemma utf8_lengths: "length (utf8 (a @ b)) = length (utf8 a) + length (utf8 b)" "length (utf8 (c # s)) = length (utf8_char c) + length (utf8 s)"
  by (simp_all add: utf8_append utf8_Cons)

lemma ca_01_quoted: "json_escape ca_01 = ca_01" "json_escape (suite_key i) = suite_key i"
proof -
  have id: "json_escape s = s" if "\<forall>c \<in> set s. 34 < c \<and> c < 92 \<or> 92 < c \<or> c = 32" for s
    using that by (induction s) (auto simp: json_escape_char_def)
  show "json_escape ca_01 = ca_01" by (rule id) (simp add: ca_01_def lit_def)
  show "json_escape (suite_key i) = suite_key i" by (rule id) (auto simp: suite_key_def lit_def)
qed

lemma suite_lengths:
  "length (utf8 (suite_key 1)) = Suc (length (utf8 (suite_key 0)))"
  "length (utf8 (show_u64 999)) = length (utf8 (show_u64 1)) + 2"
  by (simp_all add: suite_key_def utf8_lengths utf8_char_def show_u64_def show_nat.simps)

lemma suite_payloads:
  "length (untampered L suite_key [test_key ca_01 (suite_key 1)] 1) = Suc (length (untampered L suite_key [test_key ca_01 (suite_key 0)] 1))"
  "length (untampered L suite_key [test_key ca_01 (suite_key 0)] 999) = length (untampered L suite_key [test_key ca_01 (suite_key 0)] 1) + 2"
  using suite_lengths
  by (simp_all add: untampered_def canonical_signing_payload_def append_keys_array_def append_key_def test_key_def
      ca_01_quoted utf8_lengths)

lemma suite_verifies: "lib_verify_strict suite_libs k m sig \<longleftrightarrow> k = [1] \<and> sig = suite_sign m"
    "sg_key suite_signer = [1]" "sg_raw_sign suite_signer = suite_sign"
  by (simp_all add: suite_libs_def suite_signer_def)

lemma suite_forgeries: "forgeries_fail suite_libs suite_signer suite_key"
proof -
  have ne: "suite_sign m \<noteq> suite_sign m'" if "of_nat (length m) \<noteq> (of_nat (length m') :: u8)" for m m'
    using that by (simp add: suite_sign_def)
  have "suite_sign (utf8 (lit ''original-payload'')) \<noteq> suite_sign (utf8 (lit ''tampered-payload''))"
    by (simp add: suite_sign_def lit_def utf8_Cons utf8_char_def)
  moreover have "replicate 64 0 \<noteq> suite_sign m" for m by (simp add: suite_sign_def numeral_eq_Suc)
  ultimately show ?thesis
    using ne suite_payloads [of suite_libs] by (auto simp: forgeries_fail_def suite_verifies)
qed

lemma suite_fixtures: "test_fixtures suite_libs suite_signer suite_key suite_openssh"
proof -
  have "test_digests_ok suite_libs suite_key"
  proof -
    have "length (lit ''aaa4a001b964adfb2217ef11e804f8334ae417719f25e44b1978e3220f722d23'') = 64" "length (lit ''00'') = 2" by simp_all
    moreover have "utf8 (lit ''aaa4a001b964adfb2217ef11e804f8334ae417719f25e44b1978e3220f722d23'') \<noteq> utf8 (replicate 64 48)"
      by (simp add: lit_def utf8_Cons utf8_char_def numeral_eq_Suc)
    moreover have "utf8 (lit ''00'') \<noteq> utf8 (replicate 64 48)"
      by (simp add: lit_def utf8_Cons utf8_char_def numeral_eq_Suc)
    ultimately show ?thesis by (simp add: test_digests_ok_def suite_libs_def)
  qed
  moreover have "small_order_ok suite_libs suite_openssh"
  proof -
    have "\<forall>c \<in> set (lit ''ssh-ed25519 CCCC''). \<not> is_control c" by (simp add: lit_def is_control_def)
    moreover have "identity_point \<noteq> [1]" by (simp add: identity_point_def)
    ultimately show ?thesis
      by (simp add: small_order_ok_def suite_openssh_def ed25519_line_def suite_libs_def suite_lines)
  qed
  ultimately show ?thesis
    using suite_keys suite_signs suite_time suite_forgeries by (simp add: test_fixtures_def)
qed

end
