(* ===== verification/Parser_Tests.thy ===== *)
theory Parser_Tests
  imports Trusted_Ca Sshd_Config Signing Ipc_Protocol Test_Support
begin

text \<open>
  The unit tests of the parsers and encodings: \<open>src/ssh/trusted_ca.rs\<close>, \<open>src/ssh/sshd_config.rs\<close>,
  \<open>src/protocol/signing.rs\<close> and \<open>src/ipc/protocol.rs\<close>, and that the model passes them.
\<close>

section \<open>Trusted authorities\<close>

definition blob :: str where
  "blob = replicate 68 65"

definition parses_single_ed25519_key :: bool where
  "parses_single_ed25519_key \<longleftrightarrow>
     (case ca_public_key_parse (lit ''ssh-ed25519 '' @ blob) of
        Inr key \<Rightarrow> ca_algorithm key = lit ''ssh-ed25519'' \<and> ca_key_data key = blob \<and> ca_comment key = None
      | Inl _ \<Rightarrow> False)"

definition parses_key_with_comment :: bool where
  "parses_key_with_comment \<longleftrightarrow>
     (case ca_public_key_parse (lit ''ssh-ed25519 '' @ blob @ lit '' mayfly root ca'') of
        Inr key \<Rightarrow> ca_comment key = Some (lit ''mayfly root ca'') | Inl _ \<Rightarrow> False)"

definition rejects_disallowed_algorithm :: bool where
  "rejects_disallowed_algorithm \<longleftrightarrow> ca_public_key_parse (lit ''ssh-dss '' @ blob) = Inl TcaDisallowedAlgorithm"

definition rejects_malformed_single_field :: bool where
  "rejects_malformed_single_field \<longleftrightarrow> ca_public_key_parse (lit ''ssh-ed25519'') = Inl TcaMalformed"

definition rejects_invalid_base64 :: bool where
  "rejects_invalid_base64 \<longleftrightarrow> ca_public_key_parse (lit ''ssh-ed25519 not*base64'') = Inl TcaInvalidEncoding"

definition rejects_control_characters :: bool where
  "rejects_control_characters \<longleftrightarrow>
     ca_public_key_parse (lit ''ssh-ed25519 '' @ blob @ [9, 7]) = Inl TcaIllegalCharacter"

definition base64_validator_rules :: bool where
  "base64_validator_rules \<longleftrightarrow>
     is_valid_base64 (lit ''AAAA'') \<and> is_valid_base64 (lit ''AAA='') \<and> is_valid_base64 (lit ''AA=='')
     \<and> \<not> is_valid_base64 (lit '''') \<and> \<not> is_valid_base64 (lit ''AAA'') \<and> \<not> is_valid_base64 (lit ''A==='')
     \<and> \<not> is_valid_base64 (lit ''AA=A'') \<and> \<not> is_valid_base64 (lit ''AAA*'')"

definition parses_multi_key_file_ignoring_blanks_and_comments :: bool where
  "parses_multi_key_file_ignoring_blanks_and_comments \<longleftrightarrow>
     (case trusted_ca_keys_parse (lit ''# Mayfly trusted CAs'' @ [10, 10] @ lit ''ssh-ed25519 '' @ blob @ lit '' primary''
         @ [10] @ lit ''   '' @ [10] @ lit ''ssh-rsa '' @ blob @ [10] @ lit ''# trailing comment'' @ [10]) of
        Inr keys \<Rightarrow> length keys = 2 \<and> ca_algorithm (keys ! 0) = lit ''ssh-ed25519''
          \<and> ca_comment (keys ! 0) = Some (lit ''primary'') \<and> ca_algorithm (keys ! 1) = lit ''ssh-rsa''
      | Inl _ \<Rightarrow> False)"

definition empty_file_is_valid_and_empty :: bool where
  "empty_file_is_valid_and_empty \<longleftrightarrow> trusted_ca_keys_parse ([10, 10] @ lit ''# only comments'' @ [10]) = Inr []"

definition file_with_one_bad_entry_is_rejected :: bool where
  "file_with_one_bad_entry_is_rejected \<longleftrightarrow>
     trusted_ca_keys_parse (lit ''ssh-ed25519 '' @ blob @ [10] @ lit ''ssh-dss '' @ blob @ [10])
     = Inl (InvalidTrustedCa TcaDisallowedAlgorithm)"

section \<open>The sshd configuration\<close>

definition detects_include_of_dropin_dir :: bool where
  "detects_include_of_dropin_dir \<longleftrightarrow>
     (let text = lit ''Port 22'' @ [10] @ lit ''Include /etc/ssh/sshd_config.d/*.conf'' @ [10]
      in includes_dropin_dir text DROPIN_DIR \<and> includes_dropin_dir text (lit ''/etc/ssh/sshd_config.d/''))"

definition detects_include_among_multiple_patterns :: bool where
  "detects_include_among_multiple_patterns \<longleftrightarrow>
     includes_dropin_dir (lit ''Include /etc/ssh/other.d/*.conf /etc/ssh/sshd_config.d/*.conf'' @ [10]) DROPIN_DIR"

definition missing_include_is_detected :: bool where
  "missing_include_is_detected \<longleftrightarrow>
     \<not> includes_dropin_dir (lit ''Port 22'' @ [10] @ lit ''PermitRootLogin no'' @ [10]) DROPIN_DIR
     \<and> \<not> includes_dropin_dir (lit ''# Include /etc/ssh/sshd_config.d/*.conf'' @ [10]) DROPIN_DIR
     \<and> \<not> includes_dropin_dir (lit ''Include /etc/ssh/other.d/*.conf'' @ [10]) DROPIN_DIR"

definition include_keyword_is_case_insensitive :: bool where
  "include_keyword_is_case_insensitive \<longleftrightarrow>
     includes_dropin_dir (lit ''include /etc/ssh/sshd_config.d/*.conf'' @ [10]) DROPIN_DIR"

section \<open>The parsers pass\<close>

lemma blob_plain: "\<forall>c \<in> set blob. \<not> is_whitespace c \<and> \<not> is_control c" "blob \<noteq> []"
  by (simp_all add: blob_def is_whitespace_def is_control_def)

lemma blob_valid: "is_valid_base64 blob"
proof (rule valid_base64_if)
  show "base64_string blob"
    unfolding base64_string_def
    by (intro exI [of _ blob] exI [of _ 0]) (simp add: blob_def base64_char_def is_ascii_alphanumeric_def)
qed

lemma plain_line: "\<forall>c \<in> set s. \<not> is_control c \<Longrightarrow> lines (s @ 10 # t) = s # lines t"
  by (rule lines_Cons) (auto simp: is_control_def)

lemma two_fields:
  assumes "a \<noteq> []" "b \<noteq> []" and "\<forall>c \<in> set (a @ b). \<not> is_whitespace c \<and> \<not> is_control c"
  shows "ca_public_key_parse (a @ 32 # b) =
    (if a \<notin> set ALLOWED_ALGORITHMS then Inl TcaDisallowedAlgorithm
     else if \<not> is_valid_base64 b then Inl TcaInvalidEncoding
     else Inr \<lparr>ca_algorithm = a, ca_key_data = b, ca_comment = None\<rparr>)"
proof -
  have ws: "is_whitespace 32" "\<not> is_control 32" by (simp_all add: is_whitespace_def is_control_def)
  have t: "trim (a @ 32 # b) = a @ 32 # b"
    using assms by (intro trim_id) auto
  have s: "split_whitespace (a @ 32 # b) = [a, b]"
    using split_whitespace_Cons [of a 32 b] split_whitespace_single [of b] assms ws by auto
  have c: "collect_comment (a @ 32 # b) a b = None"
    using collect_comment_eq [of a b "[]" "[32]" "[]"] assms ws by simp
  show ?thesis
    unfolding ca_public_key_parse_def Let_def t s using assms ws c by auto
qed

lemma algorithms: "lit ''ssh-ed25519'' \<in> set ALLOWED_ALGORITHMS" "lit ''ssh-rsa'' \<in> set ALLOWED_ALGORITHMS"
    "lit ''ssh-dss'' \<notin> set ALLOWED_ALGORITHMS"
  by (simp_all add: ALLOWED_ALGORITHMS_def)

lemma spaced: "lit (s @ '' '') @ t = lit s @ 32 # t"
  by (simp add: lit_append) (simp add: lit_def)

lemma algorithm_plain: "\<forall>c \<in> set (lit ''ssh-ed25519''). \<not> is_whitespace c \<and> \<not> is_control c"
    "\<forall>c \<in> set (lit ''ssh-rsa''). \<not> is_whitespace c \<and> \<not> is_control c"
    "\<forall>c \<in> set (lit ''ssh-dss''). \<not> is_whitespace c \<and> \<not> is_control c"
  by (simp_all add: lit_def is_whitespace_def is_control_def)

lemma blob_lines:
  "ca_public_key_parse (lit ''ssh-ed25519 '' @ blob) = Inr \<lparr>ca_algorithm = lit ''ssh-ed25519'', ca_key_data = blob, ca_comment = None\<rparr>"
  "ca_public_key_parse (lit ''ssh-rsa '' @ blob) = Inr \<lparr>ca_algorithm = lit ''ssh-rsa'', ca_key_data = blob, ca_comment = None\<rparr>"
  "ca_public_key_parse (lit ''ssh-dss '' @ blob) = Inl TcaDisallowedAlgorithm"
  using two_fields [of "lit ''ssh-ed25519''" blob] two_fields [of "lit ''ssh-rsa''" blob] two_fields [of "lit ''ssh-dss''" blob]
    spaced [of "''ssh-ed25519''" blob] spaced [of "''ssh-rsa''" blob] spaced [of "''ssh-dss''" blob]
    blob_plain blob_valid algorithms algorithm_plain
  by (auto simp: ball_Un)

lemma commented_line:
  assumes "trim c = c" "c \<noteq> []" "\<forall>x \<in> set c. \<not> is_control x"
  shows "ca_public_key_parse (lit ''ssh-ed25519 '' @ blob @ 32 # c)
    = Inr \<lparr>ca_algorithm = lit ''ssh-ed25519'', ca_key_data = blob, ca_comment = Some c\<rparr>"
proof (rule parse_complete)
  have ws: "is_whitespace 32" "\<not> is_control 32" by (simp_all add: is_whitespace_def is_control_def)
  have "trim (32 # c) = c" using assms(1) ws(1) by (simp add: trim_Cons_ws)
  then show "key_line (lit ''ssh-ed25519 '' @ blob @ 32 # c) \<lparr>ca_algorithm = lit ''ssh-ed25519'', ca_key_data = blob, ca_comment = Some c\<rparr>"
    unfolding key_line_def using spaced [of "''ssh-ed25519''" "blob @ 32 # c"] assms ws blob_plain blob_valid algorithms(1) algorithm_plain(1)
    by (intro conjI exI [of _ "[]"] exI [of _ "[32]"] exI [of _ "32 # c"]) (auto simp: ball_Un)
qed

lemma trusted_ca_tests:
  "parses_single_ed25519_key" "parses_key_with_comment" "rejects_disallowed_algorithm" "rejects_malformed_single_field"
  "rejects_invalid_base64" "rejects_control_characters" "base64_validator_rules"
proof -
  show "parses_single_ed25519_key" "rejects_disallowed_algorithm"
    by (simp_all add: parses_single_ed25519_key_def rejects_disallowed_algorithm_def blob_lines)
  have c: "trim (lit ''mayfly root ca'') = lit ''mayfly root ca''" by (rule trim_id) (simp_all add: lit_def is_whitespace_def)
  have e: "lit '' mayfly root ca'' = 32 # lit ''mayfly root ca''" by (simp add: lit_def)
  have "\<forall>x \<in> set (lit ''mayfly root ca''). \<not> is_control x" by (simp add: lit_def is_control_def)
  then show "parses_key_with_comment"
    unfolding parses_key_with_comment_def e by (subst commented_line [OF c]) simp_all
  have "trim (lit ''ssh-ed25519'') = lit ''ssh-ed25519''" "split_whitespace (lit ''ssh-ed25519'') = [lit ''ssh-ed25519'']"
    using algorithm_plain(1) by (auto intro: trim_no_ws split_whitespace_single)
  then show "rejects_malformed_single_field"
    using algorithm_plain(1) by (simp add: rejects_malformed_single_field_def ca_public_key_parse_def)
  show "base64_validator_rules"
    by (simp add: base64_validator_rules_def is_valid_base64_def lit_def utf8_Cons utf8_char_def str_len_def is_base64_char_def
        is_ascii_alphanumeric_def is_ascii_digit_def)
  have "\<not> is_valid_base64 (lit ''not*base64'')"
    by (simp add: is_valid_base64_def lit_def utf8_Cons utf8_char_def str_len_def)
  moreover have "\<forall>c \<in> set (lit ''not*base64''). \<not> is_whitespace c \<and> \<not> is_control c"
    by (simp add: lit_def is_whitespace_def is_control_def)
  moreover have "lit ''ssh-ed25519 not*base64'' = lit ''ssh-ed25519'' @ 32 # lit ''not*base64''" by (simp add: lit_def)
  ultimately show "rejects_invalid_base64"
    using two_fields [of "lit ''ssh-ed25519''" "lit ''not*base64''"] algorithms algorithm_plain(1)
    by (simp add: rejects_invalid_base64_def ball_Un)
  have "is_control 9" by (simp add: is_control_def)
  then show "rejects_control_characters" by (auto simp: rejects_control_characters_def ca_public_key_parse_def)
qed

lemma lf_lines: "lines (10 # s) = [] # lines s"
  using plain_line [of "[]" s] by simp

lemma parse_lines_key:
  assumes "hd l = 115" "l \<noteq> []"
  shows "parse_lines (l # rest) = bind_res (map_err InvalidTrustedCa (ca_public_key_parse l)) (\<lambda>key.
    bind_res (parse_lines rest) (\<lambda>keys. Inr (key # keys)))"
proof -
  have "\<not> is_whitespace 115" by (simp add: is_whitespace_def)
  then obtain t where "trim l = 115 # t" using trim_hd [of 115 "tl l"] assms by (cases l) auto
  then show ?thesis by (simp add: Let_def)
qed

lemma parse_lines_skip: "l = [] \<or> hd l = 35 \<Longrightarrow> parse_lines (l # rest) = parse_lines rest"
  using parse_lines_comments [of "[l]" rest] by (cases "l = []") (simp_all add: Let_def)

lemma trusted_ca_file_tests:
  "parses_multi_key_file_ignoring_blanks_and_comments" "empty_file_is_valid_and_empty" "file_with_one_bad_entry_is_rejected"
proof -
  let ?a = "lit ''ssh-ed25519 '' @ blob @ 32 # lit ''primary''" and ?b = "lit ''ssh-rsa '' @ blob" and ?d = "lit ''ssh-ed25519 '' @ blob"
    and ?bad = "lit ''ssh-dss '' @ blob" and ?h = "lit ''# Mayfly trusted CAs''" and ?t = "lit ''# trailing comment''" and ?o = "lit ''# only comments''"
  have e: "lit '' primary'' = 32 # lit ''primary''" by (simp add: lit_def)
  have c: "trim (lit ''primary'') = lit ''primary''" by (rule trim_id) (simp_all add: lit_def is_whitespace_def)
  have "\<forall>x \<in> set (lit ''primary''). \<not> is_control x" by (simp add: lit_def is_control_def)
  note a = commented_line [OF c _ this]
  have pl: "\<forall>c \<in> set ?a. \<not> is_control c" "\<forall>c \<in> set ?b. \<not> is_control c" "\<forall>c \<in> set ?d. \<not> is_control c" "\<forall>c \<in> set ?bad. \<not> is_control c"
    "\<forall>c \<in> set ?h. \<not> is_control c" "\<forall>c \<in> set (lit ''   ''). \<not> is_control c" "\<forall>c \<in> set ?t. \<not> is_control c" "\<forall>c \<in> set ?o. \<not> is_control c"
    using blob_plain(1) by (auto simp: ball_Un lit_def is_control_def)
  have hd: "hd ?a = 115 \<and> ?a \<noteq> []" "hd ?b = 115 \<and> ?b \<noteq> []" "hd ?d = 115 \<and> ?d \<noteq> []" "hd ?bad = 115 \<and> ?bad \<noteq> []"
    "hd ?h = 35" "hd ?t = 35" "hd ?o = 35"
    by (simp_all add: lit_def)
  have blank: "parse_lines (lit ''   '' # rest) = parse_lines rest" for rest
    by (simp add: trim_eq_Nil [THEN iffD2] lit_def is_whitespace_def)
  have "lines (?h @ 10 # 10 # ?a @ 10 # lit ''   '' @ 10 # ?b @ 10 # ?t @ 10 # []) = [?h, [], ?a, lit ''   '', ?b, ?t]"
    unfolding plain_line [OF pl(5)] lf_lines plain_line [OF pl(1)] plain_line [OF pl(6)] plain_line [OF pl(2)]
      plain_line [OF pl(7)] lines_Nil ..
  moreover have "parse_lines [?h, [], ?a, lit ''   '', ?b, ?t] = Inr
      [\<lparr>ca_algorithm = lit ''ssh-ed25519'', ca_key_data = blob, ca_comment = Some (lit ''primary'')\<rparr>,
       \<lparr>ca_algorithm = lit ''ssh-rsa'', ca_key_data = blob, ca_comment = None\<rparr>]"
    using hd a by (simp only: parse_lines_skip parse_lines_key blank blob_lines simp_thms map_err_simps bind_res_simps parse_lines.simps(1)) simp
  ultimately have "trusted_ca_keys_parse (?h @ 10 # 10 # ?a @ 10 # lit ''   '' @ 10 # ?b @ 10 # ?t @ 10 # []) = Inr
      [\<lparr>ca_algorithm = lit ''ssh-ed25519'', ca_key_data = blob, ca_comment = Some (lit ''primary'')\<rparr>,
       \<lparr>ca_algorithm = lit ''ssh-rsa'', ca_key_data = blob, ca_comment = None\<rparr>]"
    unfolding trusted_ca_keys_parse_def by metis
  then show "parses_multi_key_file_ignoring_blanks_and_comments"
    by (simp add: parses_multi_key_file_ignoring_blanks_and_comments_def e)
  have "lines (10 # 10 # ?o @ 10 # []) = [[], [], ?o]" unfolding lf_lines plain_line [OF pl(8)] lines_Nil ..
  then show "empty_file_is_valid_and_empty"
    using hd by (simp add: empty_file_is_valid_and_empty_def trusted_ca_keys_parse_def parse_lines_skip del: parse_lines.simps(2))
  have "lines (?d @ 10 # ?bad @ 10 # []) = [?d, ?bad]" unfolding plain_line [OF pl(3)] plain_line [OF pl(4)] lines_Nil ..
  then show "file_with_one_bad_entry_is_rejected"
    using hd by (simp add: file_with_one_bad_entry_is_rejected_def trusted_ca_keys_parse_def parse_lines_key blob_lines
        del: parse_lines.simps(2))
qed

lemma test_line:
  "include_of DROPIN_DIR (lit ''Include /etc/ssh/sshd_config.d/*.conf'')"
  "include_of (lit ''/etc/ssh/sshd_config.d/'') (lit ''Include /etc/ssh/sshd_config.d/*.conf'')"
  "include_of DROPIN_DIR (lit ''include /etc/ssh/sshd_config.d/*.conf'')"
  "include_of DROPIN_DIR (lit ''Include /etc/ssh/other.d/*.conf /etc/ssh/sshd_config.d/*.conf'')"
  "\<not> include_of DROPIN_DIR (lit ''Include /etc/ssh/other.d/*.conf'')" "\<not> include_of DROPIN_DIR (lit ''Port 22'')"
  "\<not> include_of DROPIN_DIR (lit ''PermitRootLogin no'')" "\<not> include_of DROPIN_DIR (lit ''# Include /etc/ssh/sshd_config.d/*.conf'')"
  unfolding include_of_alt DROPIN_DIR_def
  by (simp_all add: lit_def trim_def trim_start_def trim_end_def is_whitespace_def eq_ignore_ascii_case_def
      to_ascii_lowercase_def to_ascii_lower_def split_whitespace_def trim_end_matches_def pattern_dir_def rsplit_once_def)

lemma sshd_tests:
  "detects_include_of_dropin_dir" "detects_include_among_multiple_patterns" "missing_include_is_detected"
  "include_keyword_is_case_insensitive"
proof -
  have plain: "\<forall>c \<in> set (lit ''Port 22''). \<not> is_control c" "\<forall>c \<in> set (lit ''PermitRootLogin no''). \<not> is_control c"
    "\<forall>c \<in> set (lit ''Include /etc/ssh/sshd_config.d/*.conf''). \<not> is_control c"
    "\<forall>c \<in> set (lit ''include /etc/ssh/sshd_config.d/*.conf''). \<not> is_control c"
    "\<forall>c \<in> set (lit ''Include /etc/ssh/other.d/*.conf /etc/ssh/sshd_config.d/*.conf''). \<not> is_control c"
    "\<forall>c \<in> set (lit ''Include /etc/ssh/other.d/*.conf''). \<not> is_control c"
    "\<forall>c \<in> set (lit ''# Include /etc/ssh/sshd_config.d/*.conf''). \<not> is_control c"
    by (simp_all add: lit_def is_control_def)
  note split = plain [THEN plain_line]
  show "detects_include_of_dropin_dir" "detects_include_among_multiple_patterns" "missing_include_is_detected"
    "include_keyword_is_case_insensitive"
    by (simp_all add: detects_include_of_dropin_dir_def detects_include_among_multiple_patterns_def
        missing_include_is_detected_def include_keyword_is_case_insensitive_def includes_dropin_dir_correct split test_line)
qed

section \<open>Requests and frames\<close>

definition canonical_layout_is_exact_and_matches_spec :: bool where
  "canonical_layout_is_exact_and_matches_spec \<longleftrightarrow>
     canonical_string (lit ''m'') 5 (lit ''n'') (lit ''POST'') (lit ''/p'') (lit ''deadbeef'')
     = lit ''mayfly-agent-auth-v1'' @ [10] @ lit ''m'' @ [10] @ lit ''5'' @ [10] @ lit ''n'' @ [10] @ lit ''POST'' @ [10]
       @ lit ''/p'' @ [10] @ lit ''deadbeef''"

definition empty_body_hash_is_known_vector :: "libs \<Rightarrow> bool" where
  "empty_body_hash_is_known_vector L \<longleftrightarrow>
     body_sha256_hex L [] = lit ''e3b0c44298fc1c149afbf4c8996fb92427ae41e4649b934ca495991b7852b855''"

definition is_ascii_hexdigit :: "rchar \<Rightarrow> bool" where
  "is_ascii_hexdigit c \<longleftrightarrow> is_ascii_digit c \<or> 65 \<le> c \<and> c \<le> 70 \<or> 97 \<le> c \<and> c \<le> 102"

definition nonces_are_unique_and_hex :: "libs \<Rightarrow> world \<Rightarrow> bool" where
  "nonces_are_unique_and_hex L w \<longleftrightarrow>
     (let (a, w1) = generate_nonce L w; (b, w2) = generate_nonce L w1
      in a \<noteq> b \<and> str_len a = NONCE_BYTES * 2 \<and> list_all is_ascii_hexdigit a)"

text \<open>A vector of bytes as a peer that takes everything.\<close>

definition byte_vec :: helper_conn where
  "byte_vec = \<lparr>conn_timeouts = True, conn_capacity = None, conn_flush = True, conn_reply = (\<lambda>_. [])\<rparr>"

definition request_round_trips_through_frame ::
    "(ipc_request \<Rightarrow> bytes option) \<Rightarrow> (bytes \<Rightarrow> ipc_request option) \<Rightarrow> bool" where
  "request_round_trips_through_frame enc dec \<longleftrightarrow>
     (let req = request_apply (lit ''tok'') (lit ''# keys'' @ [10])
      in case encode_request enc req of
           Inl _ \<Rightarrow> False
         | Inr body \<Rightarrow>
             (case write_frame byte_vec body of
                (Inl _, _) \<Rightarrow> False
              | (Inr _, buf) \<Rightarrow>
                  (case read_frame buf of
                     Inl _ \<Rightarrow> False
                   | Inr (rd, _) \<Rightarrow> decode_request dec rd = Inr req \<and> rq_op req = ApplyTrustedCaKeys
                       \<and> rq_content req = Some (lit ''# keys'' @ [10]))))"

definition response_round_trips ::
    "(ipc_response \<Rightarrow> bytes option) \<Rightarrow> (bytes \<Rightarrow> ipc_response option) \<Rightarrow> bool" where
  "response_round_trips enc dec \<longleftrightarrow>
     (let resp = response_failure OutRolledBack (lit ''sshd validation failed'')
      in bind_res (encode_response enc resp) (decode_response dec) = Inr resp)"

definition ping_request_has_no_content_field :: "(ipc_request \<Rightarrow> bytes option) \<Rightarrow> bool" where
  "ping_request_has_no_content_field enc \<longleftrightarrow>
     (case encode_request enc (request_new (lit ''tok'') Ping) of
        Inl _ \<Rightarrow> False
      | Inr body \<Rightarrow>
          (case from_utf8 body of
             None \<Rightarrow> False
           | Some json \<Rightarrow> \<not> str_contains json (lit ''content'') \<and> str_contains json (lit ''\"op\":\"ping\"'')))"

definition write_frame_rejects_oversized_body :: bool where
  "write_frame_rejects_oversized_body \<longleftrightarrow>
     fst (write_frame byte_vec (replicate (MAX_BODY_BYTES + 1) 0)) = Inl HelperProtocol"

definition read_frame_rejects_oversized_length_prefix :: bool where
  "read_frame_rejects_oversized_length_prefix \<longleftrightarrow>
     read_frame (to_be_bytes (of_nat MAX_BODY_BYTES + 1)) = Inl HelperProtocol"

definition read_frame_reports_unavailable_on_truncation :: bool where
  "read_frame_reports_unavailable_on_truncation \<longleftrightarrow> read_frame (to_be_bytes 8 @ [1, 2]) = Inl HelperUnavailable"

definition decode_request_rejects_garbage :: "(bytes \<Rightarrow> ipc_request option) \<Rightarrow> bool" where
  "decode_request_rejects_garbage dec \<longleftrightarrow> decode_request dec (utf8 (lit ''not json'')) = Inl HelperProtocol"

definition constant_time_eq_matches_semantics :: bool where
  "constant_time_eq_matches_semantics \<longleftrightarrow>
     constant_time_eq (utf8 (lit ''abc'')) (utf8 (lit ''abc'')) \<and> \<not> constant_time_eq (utf8 (lit ''abc'')) (utf8 (lit ''abd''))
     \<and> \<not> constant_time_eq (utf8 (lit ''abc'')) (utf8 (lit ''abcd'')) \<and> constant_time_eq [] []"

text \<open>
  The JSON of a message is read back; the JSON of a ping is the one the protocol vectors show,
  for this token.
\<close>

definition ping_json :: str where
  "ping_json = lit ''{\"protocol_version\":1,\"token\":\"tok\",\"op\":\"ping\"}''"

definition ipc_codec_ok ::
    "(ipc_request \<Rightarrow> bytes option) \<Rightarrow> (bytes \<Rightarrow> ipc_request option) \<Rightarrow>
     (ipc_response \<Rightarrow> bytes option) \<Rightarrow> (bytes \<Rightarrow> ipc_response option) \<Rightarrow> bool" where
  "ipc_codec_ok enc dec enc_resp dec_resp \<longleftrightarrow>
     (\<exists>body. enc (request_apply (lit ''tok'') (lit ''# keys'' @ [10])) = Some body \<and> length body \<le> MAX_BODY_BYTES
        \<and> dec body = Some (request_apply (lit ''tok'') (lit ''# keys'' @ [10])))
     \<and> enc (request_new (lit ''tok'') Ping) = Some (utf8 ping_json) \<and> dec (utf8 (lit ''not json'')) = None
     \<and> (let resp = response_failure OutRolledBack (lit ''sshd validation failed'')
        in \<exists>body. enc_resp resp = Some body \<and> dec_resp body = Some resp)"

lemma frame_tests:
  assumes "ipc_codec_ok enc dec enc_resp dec_resp"
  shows "request_round_trips_through_frame enc dec" "response_round_trips enc_resp dec_resp"
    "ping_request_has_no_content_field enc" "decode_request_rejects_garbage dec" "constant_time_eq_matches_semantics"
proof -
  from assms obtain body where b: "enc (request_apply (lit ''tok'') (lit ''# keys'' @ [10])) = Some body"
      "length body \<le> MAX_BODY_BYTES" "dec body = Some (request_apply (lit ''tok'') (lit ''# keys'' @ [10]))"
    by (auto simp: ipc_codec_ok_def)
  have "write_frame byte_vec body = (Inr (), frame body)"
    using b(2) by (simp add: write_frame_def stream_write_def byte_vec_def frame_def MAX_BODY_BYTES_def)
  then show "request_round_trips_through_frame enc dec"
    using b read_frame_frame [OF b(2), of "[]"]
    by (simp add: request_round_trips_through_frame_def encode_request_def decode_request_def request_apply_def)
  show "response_round_trips enc_resp dec_resp"
    using assms by (auto simp: response_round_trips_def ipc_codec_ok_def Let_def encode_response_def decode_response_def)
  have "list_all is_scalar ping_json" by (simp add: ping_json_def lit_def is_scalar_def)
  then have j: "from_utf8 (utf8 ping_json) = Some ping_json" by (rule from_utf8_utf8)
  have "ping_json = lit ''{\"protocol_version\":1,\"token\":\"tok\",'' @ lit ''\"op\":\"ping\"'' @ lit ''}''"
    by (simp add: ping_json_def flip: lit_append)
  then have op: "str_contains ping_json (lit ''\"op\":\"ping\"'')" using str_contains_part by metis
  have "\<not> str_contains ping_json (lit ''content'')" by code_simp
  then show "ping_request_has_no_content_field enc"
    using assms j op by (simp add: ping_request_has_no_content_field_def ipc_codec_ok_def encode_request_def)
  show "decode_request_rejects_garbage dec"
    using assms by (simp add: decode_request_rejects_garbage_def ipc_codec_ok_def decode_request_def)
  show "constant_time_eq_matches_semantics"
    by (simp add: constant_time_eq_matches_semantics_def token.exact lit_def utf8_Cons utf8_char_def)
qed

lemma frame_limit_tests:
  "write_frame_rejects_oversized_body" "read_frame_rejects_oversized_length_prefix" "read_frame_reports_unavailable_on_truncation"
proof -
  have "length (replicate (MAX_BODY_BYTES + 1) (0 :: u8)) > MAX_BODY_BYTES" by simp
  then show "write_frame_rejects_oversized_body" unfolding write_frame_rejects_oversized_body_def write_frame_def by simp
  have take: "read_exact 4 (to_be_bytes n @ r) = Some (to_be_bytes n, r)" for n r by (simp add: read_exact_def)
  have "unat (of_nat MAX_BODY_BYTES + 1 :: u32) = MAX_BODY_BYTES + 1" by (simp add: MAX_BODY_BYTES_def)
  then show "read_frame_rejects_oversized_length_prefix"
    using take [of "of_nat MAX_BODY_BYTES + 1" "[]"]
    by (simp add: read_frame_rejects_oversized_length_prefix_def read_frame_def be_bytes_inverse del: from_be_bytes.simps)
  have "unat (8 :: u32) = 8" by simp
  then show "read_frame_reports_unavailable_on_truncation"
    using take [of 8 "[1, 2]"]
    by (simp add: read_frame_reports_unavailable_on_truncation_def read_frame_def be_bytes_inverse del: from_be_bytes.simps)
       (simp add: read_exact_def MAX_BODY_BYTES_def)
qed

text \<open>The digest of nothing; two draws of the random source that differ, and their digits.\<close>

definition random_ok :: "libs \<Rightarrow> world \<Rightarrow> bool" where
  "random_ok L w \<longleftrightarrow> lib_hex L (lib_sha256 L []) = lit ''e3b0c44298fc1c149afbf4c8996fb92427ae41e4649b934ca495991b7852b855''
     \<and> os_random w (tick w) NONCE_BYTES \<noteq> os_random w (Suc (tick w)) NONCE_BYTES
     \<and> (\<forall>t. length (os_random w t NONCE_BYTES) = NONCE_BYTES) \<and> inj (lib_hex L)
     \<and> (\<forall>b. length (lib_hex L b) = 2 * length b \<and> list_all is_ascii_hexdigit (lib_hex L b))"

lemma signing_tests:
  assumes "random_ok L w"
  shows "canonical_layout_is_exact_and_matches_spec" "empty_body_hash_is_known_vector L" "nonces_are_unique_and_hex L w"
proof -
  show "canonical_layout_is_exact_and_matches_spec"
    by (simp add: canonical_layout_is_exact_and_matches_spec_def canonical_string_def SIGNING_DOMAIN_def show_int_def
        show_nat.simps lit_def)
  show "empty_body_hash_is_known_vector L"
    using assms by (simp add: empty_body_hash_is_known_vector_def body_sha256_hex_def random_ok_def)
  have "str_len s = length s" if "list_all is_ascii_hexdigit s" for s
    using that by (intro str_len_ascii) (auto simp: list_all_iff is_ascii_hexdigit_def is_ascii_digit_def)
  then show "nonces_are_unique_and_hex L w"
    using assms by (auto simp: nonces_are_unique_and_hex_def generate_nonce_def random_bytes_def random_ok_def advance_def
        dest: injD)
qed

section \<open>Messages\<close>

definition sensitive :: str where
  "sensitive = lit ''/etc/mayfly-agent/config.toml''"

definition test_errors :: "error list" where
  "test_errors = [ConfigRead (IoErr NotFound sensitive), Io (IoErr PermissionDenied sensitive),
     ConfigInvalid (lit ''server_url must use https''), UnexpectedSymlink, InsecureOwnership, InsecurePermissions,
     InvalidPath, NotRoot, InvalidTrustedCa TcaDisallowedAlgorithm, AlreadyEnrolled, KeyAlreadyExists, KeyGeneration,
     KeyParse, KeySerialize, InvalidHostname, InvalidToken, InvalidServerUrl, MalformedPublicKey,
     InvalidServerResponse InvalidMachineId, EnrollmentRejected, EnrollmentTransport, RequestSigning, HeartbeatTransport,
     HeartbeatRejected, InvalidHeartbeatResponse, CaBundleTransport, CaBundleRejected,
     InvalidCaBundle FingerprintMismatch, CaReloadFailed]"

definition error_messages_never_contain_paths :: bool where
  "error_messages_never_contain_paths \<longleftrightarrow>
     list_all (\<lambda>e. \<not> str_contains (display e) [47] \<and> \<not> str_contains (display e) sensitive) test_errors"

definition token_value_never_appears_in_error_display :: bool where
  "token_value_never_appears_in_error_display \<longleftrightarrow> display InvalidToken = lit ''invalid enrollment token''"

definition server_response_error_messages_are_stable :: bool where
  "server_response_error_messages_are_stable \<longleftrightarrow>
     display_server_response EmptyMachineId = ''machine_id is empty''
     \<and> display_server_response InvalidServerIdentity = ''server_identity is not a valid key''"

definition config_invalid_reason_is_preserved :: bool where
  "config_invalid_reason_is_preserved \<longleftrightarrow>
     str_contains (display (config_invalid (lit ''machine_id must not be empty''))) (lit ''machine_id must not be empty'')"

definition trusted_ca_error_messages_are_stable :: bool where
  "trusted_ca_error_messages_are_stable \<longleftrightarrow>
     display_trusted_ca TcaEmpty = ''entry is empty''
     \<and> display_trusted_ca TcaDisallowedAlgorithm = ''key algorithm is not allowed''"

definition ca_bundle_error_messages_are_stable :: bool where
  "ca_bundle_error_messages_are_stable \<longleftrightarrow>
     display_ca_bundle FingerprintMismatch = ''bundle fingerprint does not match its contents''
     \<and> display_ca_bundle BundleEmpty = ''bundle contains no keys''
     \<and> display_ca_bundle NotYetValid = ''bundle is not valid yet''"

lemma message_tests:
  "error_messages_never_contain_paths" "token_value_never_appears_in_error_display"
  "server_response_error_messages_are_stable" "config_invalid_reason_is_preserved"
  "trusted_ca_error_messages_are_stable" "ca_bundle_error_messages_are_stable"
proof -
  have "\<not> str_contains (display e) [47] \<and> \<not> str_contains (display e) sensitive" if "e \<in> set test_errors" for e
  proof -
    have "e \<in> set test_errors \<Longrightarrow> e = ConfigInvalid r \<Longrightarrow> slash \<notin> set r" for r
      by (auto simp: test_errors_def slash_lit)
    with that have "slash \<notin> set (display e)" unfolding display_never_contains_paths by blast
    moreover have "slash \<in> set sensitive" by (simp add: sensitive_def slash_lit)
    moreover have "slash \<in> set [47]" by (simp add: slash_def)
    ultimately show ?thesis by (blast dest: str_contains_set)
  qed
  then show "error_messages_never_contain_paths" by (simp add: error_messages_never_contain_paths_def list_all_iff)
  show "config_invalid_reason_is_preserved"
    using str_contains_part [of "lit ''invalid configuration: ''" _ "[]"]
    by (simp add: config_invalid_reason_is_preserved_def config_invalid_def)
qed (simp_all add: token_value_never_appears_in_error_display_def server_response_error_messages_are_stable_def
    trusted_ca_error_messages_are_stable_def ca_bundle_error_messages_are_stable_def)

section \<open>The suites\<close>

definition text_tests_pass ::
    "libs \<Rightarrow> world \<Rightarrow> (ipc_request \<Rightarrow> bytes option) \<Rightarrow> (bytes \<Rightarrow> ipc_request option) \<Rightarrow>
     (ipc_response \<Rightarrow> bytes option) \<Rightarrow> (bytes \<Rightarrow> ipc_response option) \<Rightarrow> bool" where
  "text_tests_pass L w enc dec enc_resp dec_resp \<longleftrightarrow>
     parses_single_ed25519_key \<and> parses_key_with_comment \<and> rejects_disallowed_algorithm \<and> rejects_malformed_single_field
     \<and> rejects_invalid_base64 \<and> rejects_control_characters \<and> base64_validator_rules
     \<and> parses_multi_key_file_ignoring_blanks_and_comments \<and> empty_file_is_valid_and_empty \<and> file_with_one_bad_entry_is_rejected
     \<and> detects_include_of_dropin_dir \<and> detects_include_among_multiple_patterns \<and> missing_include_is_detected
     \<and> include_keyword_is_case_insensitive
     \<and> canonical_layout_is_exact_and_matches_spec \<and> empty_body_hash_is_known_vector L \<and> nonces_are_unique_and_hex L w
     \<and> request_round_trips_through_frame enc dec \<and> response_round_trips enc_resp dec_resp
     \<and> ping_request_has_no_content_field enc \<and> write_frame_rejects_oversized_body
     \<and> read_frame_rejects_oversized_length_prefix \<and> read_frame_reports_unavailable_on_truncation
     \<and> decode_request_rejects_garbage dec \<and> constant_time_eq_matches_semantics
     \<and> error_messages_never_contain_paths \<and> token_value_never_appears_in_error_display
     \<and> server_response_error_messages_are_stable \<and> config_invalid_reason_is_preserved
     \<and> trusted_ca_error_messages_are_stable \<and> ca_bundle_error_messages_are_stable"

theorem text_suites_pass:
  assumes "random_ok L w" and "ipc_codec_ok enc dec enc_resp dec_resp"
  shows "text_tests_pass L w enc dec enc_resp dec_resp"
  unfolding text_tests_pass_def
  using trusted_ca_tests trusted_ca_file_tests sshd_tests signing_tests [OF assms(1)] frame_tests [OF assms(2)]
    frame_limit_tests message_tests
  by blast

end
