(* ===== verification/Timing_Tests.thy ===== *)
theory Timing_Tests
  imports App_State Backoff
begin

text \<open>
  The unit tests of \<open>src/service/scheduler.rs\<close>, \<open>src/service/backoff.rs\<close>, \<open>src/clock.rs\<close> and
  \<open>src/state.rs\<close>, and that the model passes them. The random source that always gives the same
  number is a world whose source writes that number; the sleeper that moves a mock clock moves the
  clock of the world.
\<close>

section \<open>The fixtures\<close>

definition at_unix :: "int \<Rightarrow> int" where
  "at_unix s = s * 10 ^ 9"

definition seconds :: "nat \<Rightarrow> duration" where
  "seconds n = n * NANOS_PER_SEC"

text \<open>A world whose clock shows one time and whose random source draws one number.\<close>

definition test_world :: "int \<Rightarrow> bytes \<Rightarrow> world" where
  "test_world now draw = \<lparr>fs = Map.empty, euid = 0, tick = 0, fault = (\<lambda>_. None), tmp_name = (\<lambda>_. []),
     clock = (\<lambda>_. now), os_random = (\<lambda>_ _. draw), http = (\<lambda>_ _ _. None), helper = (\<lambda>_ _. None),
     stop_flag = (\<lambda>_. False), trace = []\<rparr>"

definition zero_draw :: bytes where
  "zero_draw = replicate 8 0"

text \<open>\<open>JITTER_RESOLUTION - 1\<close> as eight bytes.\<close>

definition highest_draw :: bytes where
  "highest_draw = [0x3F, 0x42, 0x0F, 0, 0, 0, 0, 0]"

definition advancing_sleep :: "duration \<Rightarrow> world \<Rightarrow> world option" where
  "advancing_sleep d w = Some (w\<lparr>clock := \<lambda>t. clock w t + int d\<rparr>)"

definition no_jitter :: "nat \<Rightarrow> jittered_interval" where
  "no_jitter s = jittered_interval_new (seconds s) (Fin 0)"

section \<open>The scheduler\<close>

definition zero_jitter_returns_base :: "world \<Rightarrow> bool" where
  "zero_jitter_returns_base w \<longleftrightarrow> fst (next_delay (no_jitter 60) w) = Some (seconds 60)"

definition jitter_stays_within_bounds :: bool where
  "jitter_stays_within_bounds \<longleftrightarrow>
     (let interval = jittered_interval_new (seconds 100) (Fin (1 / 2))
      in (case fst (next_delay interval (test_world 0 highest_draw)) of
            None \<Rightarrow> False | Some high \<Rightarrow> high \<ge> seconds 100 \<and> high < seconds 150)
         \<and> fst (next_delay interval (test_world 0 zero_draw)) = Some (seconds 100))"

definition ratio_is_clamped :: bool where
  "ratio_is_clamped \<longleftrightarrow>
     (case fst (next_delay (jittered_interval_new (seconds 10) (Fin 5)) (test_world 0 highest_draw)) of
        None \<Rightarrow> False | Some d \<Rightarrow> d < seconds 20)"

text \<open>What is due at each of the given instants, one after the other.\<close>

fun due_at :: "int list \<Rightarrow> scheduler \<Rightarrow> world \<Rightarrow> poll_action list list option" where
  "due_at [] s w = Some []"
| "due_at (t # ts) s w =
     (case take_due t s w of
        (Some (due, s'), w') \<Rightarrow> map_option ((#) due) (due_at ts s' w')
      | (None, _) \<Rightarrow> None)"

definition scheduler_orders_heartbeat_before_sync :: "world \<Rightarrow> bool" where
  "scheduler_orders_heartbeat_before_sync w \<longleftrightarrow>
     (case scheduler_new (at_unix 0) (no_jitter 10) (no_jitter 10) w of
        (Some sched, w') \<Rightarrow> due_at [at_unix 10] sched w' = Some [[Heartbeat, BundleSync]]
      | _ \<Rightarrow> False)"

definition scheduler_returns_only_due_actions :: "world \<Rightarrow> bool" where
  "scheduler_returns_only_due_actions w \<longleftrightarrow>
     (case scheduler_new (at_unix 0) (no_jitter 10) (no_jitter 60) w of
        (Some sched, w') \<Rightarrow> due_at [at_unix 10, at_unix 15, at_unix 20, at_unix 60] sched w'
          = Some [[Heartbeat], [], [Heartbeat], [Heartbeat, BundleSync]]
      | _ \<Rightarrow> False)"

definition next_due_is_minimum :: "world \<Rightarrow> bool" where
  "next_due_is_minimum w \<longleftrightarrow>
     (case scheduler_new (at_unix 100) (no_jitter 30) (no_jitter 5) w of
        (Some sched, _) \<Rightarrow> next_due sched = at_unix 105 | _ \<Rightarrow> False)"

text \<open>The two counters of the polling tests; a callback counts and succeeds, or fails.\<close>

definition count_heartbeat :: "(nat \<times> nat) callback" where
  "count_heartbeat c w = (Inr (), (Suc (fst c), snd c), w)"

definition count_sync :: "(nat \<times> nat) callback" where
  "count_sync c w = (Inr (), (fst c, Suc (snd c)), w)"

definition failing_heartbeat :: "(nat \<times> nat) callback" where
  "failing_heartbeat c w = (Inl HeartbeatTransport, c, w)"

definition for_cycles :: "u64 \<Rightarrow> u64 \<Rightarrow> world \<Rightarrow> bool \<times> world" where
  "for_cycles n cycle w = (cycle < n, w)"

definition polled :: "nat \<Rightarrow> nat \<Rightarrow> (nat \<times> nat) callback \<Rightarrow> u64 \<Rightarrow> (nat \<times> nat) option" where
  "polled heartbeat sync on_heartbeat cycles =
     (case scheduler_new (at_unix 0) (no_jitter heartbeat) (no_jitter sync) (test_world (at_unix 0) zero_draw) of
        (Some sched, w) \<Rightarrow>
          map_option (\<lambda>(_, c, _). c) (run_polling advancing_sleep on_heartbeat count_sync (for_cycles cycles) 0 sched (0, 0) w)
      | _ \<Rightarrow> None)"

definition run_polling_drives_actions_without_real_sleep :: bool where
  "run_polling_drives_actions_without_real_sleep \<longleftrightarrow> polled 10 20 count_heartbeat 4 = Some (4, 2)"

definition run_polling_swallows_callback_errors :: bool where
  "run_polling_swallows_callback_errors \<longleftrightarrow> map_option snd (polled 10 10 failing_heartbeat 2) = Some 2"

section \<open>Delays in the tests\<close>

lemma no_jitter_delay: "next_delay (no_jitter s) w = (Some (seconds s), w)"
  by (simp add: no_jitter_def jittered_interval_new_def next_delay_def fle_def is_finite_def fclamp_def)

lemma highest_fraction:
  "\<exists>q. jitter_fraction (from_le_bytes highest_draw) = Fin q \<and> 0 \<le> q \<and> q \<le> 1 - 1 / 2 ^ 20"
proof -
  let ?y = "1 - 1 / 2 ^ 20 :: rat"
  have "from_le_bytes highest_draw = 999999" by (simp add: from_le_bytes_def highest_draw_def)
  then have n: "unat (from_le_bytes highest_draw) mod JITTER_RESOLUTION = 999999" by (simp add: JITTER_RESOLUTION_def)
  have "exponent_of ?y \<le> 0" by (rule exponent_unique) simp_all
  then have "round_pos ?y = ?y"
    by (intro round_pos_grid [of _ "2 ^ 20 - 1" "- 20"]) (simp_all add: quantum_def power_int_def power_divide)
  then have r: "representable ?y" by (simp add: representable_def round53_def)
  have "to_f64 (of_nat 999999) = Fin (of_nat 999999)" by (rule to_f64_int) simp
  then have "jitter_fraction (from_le_bytes highest_draw) = to_f64 (999999 / 1000000)"
    by (simp add: jitter_fraction_def n fdiv_def) (simp add: JITTER_RESOLUTION_def)
  with to_f64_bounded [OF _ _ r, of "999999 / 1000000"] show ?thesis by (auto simp: F_MAX_def)
qed

text \<open>A whole number of seconds of jitter, times the highest fraction, stays below it.\<close>

lemma highest_extra:
  assumes "0 < m" "m \<le> 64"
  shows "\<exists>d. from_secs_f64 (fmul (Fin (of_nat m)) (jitter_fraction (from_le_bytes highest_draw))) = Some d \<and> d < seconds m"
proof -
  obtain q where q: "jitter_fraction (from_le_bytes highest_draw) = Fin q" "0 \<le> q" "q \<le> 1 - 1 / 2 ^ 20"
    using highest_fraction by blast
  let ?y = "of_nat m * (1 - 1 / 2 ^ 20) :: rat"
  have y: "?y = of_int (int m * (2 ^ 20 - 1)) * 2 powi (- 20)" "0 < ?y" "?y < 64"
    using assms by (simp_all add: power_int_def power_divide)
  have "exponent_of ?y \<le> 5" by (rule exponent_unique) (use y(2,3) in simp_all)
  then have "round_pos ?y = ?y"
    using y by (intro round_pos_grid [OF y(2,1)]) (simp add: quantum_def)
  then have r: "representable ?y" using y(2) by (simp add: representable_def round53_def)
  have "of_nat m * q \<le> ?y" using q(3) by (intro mult_left_mono) simp_all
  moreover have "?y < F_MAX" using y(3) by (simp add: F_MAX_def)
  ultimately obtain x where x: "to_f64 (of_nat m * q) = Fin x" "0 \<le> x" "x \<le> ?y"
    using to_f64_bounded [OF _ _ r, of "of_nat m * q"] q(2) by auto
  have "x * of_nat NANOS_PER_SEC \<le> ?y * of_nat NANOS_PER_SEC" using x(3) by (rule mult_right_mono) simp
  also have "\<dots> \<le> of_int (int m * 10 ^ 9 - 2)"
    using assms by (simp add: NANOS_PER_SEC_def field_simps)
  finally have "round_even (x * of_nat NANOS_PER_SEC) \<le> int m * 10 ^ 9 - 2"
    using round_even_mono round_even_int by metis
  then have "nat (round_even (x * of_nat NANOS_PER_SEC)) < seconds m"
    using assms by (simp add: seconds_def NANOS_PER_SEC_def)
  moreover have "seconds m \<le> DURATION_MAX" using assms by (simp add: seconds_def DURATION_MAX_def NANOS_PER_SEC_def)
  ultimately show ?thesis using q(1) x(1,2) by (simp add: from_secs_f64_def Let_def)
qed

lemma finite_Fin: "is_finite (Fin x)"
  unfolding is_finite_def by blast

lemma draws: "next_u64 (test_world t bs) = (from_le_bytes bs, advance (test_world t bs))"
  by (simp add: next_u64_def random_bytes_def test_world_def)

lemma jitter_tests: "zero_jitter_returns_base w" "jitter_stays_within_bounds" "ratio_is_clamped"
proof -
  show "zero_jitter_returns_base w" by (simp add: zero_jitter_returns_base_def no_jitter_delay)
  have b: "as_secs_f64 (seconds 100) = Fin 100" "as_secs_f64 (seconds 10) = Fin 10"
    using as_secs_whole [of 100] as_secs_whole [of 10] by (simp_all add: seconds_def)
  have m: "to_f64 50 = Fin 50" "to_f64 10 = Fin 10" "to_f64 0 = Fin 0"
    using to_f64_int [of 50] to_f64_int [of 10] to_f64_int [of 0] by simp_all
  have z: "jitter_fraction (from_le_bytes zero_draw) = Fin 0"
  proof -
    have "from_le_bytes (replicate n 0) = 0" for n by (induction n) (simp_all add: from_le_bytes_def)
    then show ?thesis using to_f64_int [of 0] by (simp add: zero_draw_def jitter_fraction_def fdiv_def)
  qed
  obtain d where d: "from_secs_f64 (fmul (Fin 50) (jitter_fraction (from_le_bytes highest_draw))) = Some d" "d < seconds 50"
    using highest_extra [of 50] by auto
  obtain d' where d': "from_secs_f64 (fmul (Fin 10) (jitter_fraction (from_le_bytes highest_draw))) = Some d'" "d' < seconds 10"
    using highest_extra [of 10] by auto
  have z': "from_secs_f64 (Fin 0) = Some 0"
    by (simp add: from_secs_f64_def round_even_int [of 0, simplified])
  have i: "jittered_interval_new (seconds 100) (Fin (1 / 2)) = \<lparr>ji_base = seconds 100, ji_ratio = Fin (1 / 2)\<rparr>"
    "jittered_interval_new (seconds 10) (Fin 5) = \<lparr>ji_base = seconds 10, ji_ratio = Fin 1\<rparr>"
    by (simp_all add: jittered_interval_new_def finite_Fin fclamp_def)
  have sums: "seconds 150 = seconds 100 + seconds 50" "seconds 20 = seconds 10 + seconds 10" by (simp_all add: seconds_def)
  have lim: "seconds 100 + seconds 50 \<le> DURATION_MAX" "seconds 10 + seconds 10 \<le> DURATION_MAX" by (simp_all add: seconds_def DURATION_MAX_def NANOS_PER_SEC_def)
  show "jitter_stays_within_bounds"
    using d lim sums unfolding jitter_stays_within_bounds_def i next_delay_def
    by (simp add: fle_def draws b m z z' duration_add_def)
  show "ratio_is_clamped"
    using d' lim sums unfolding ratio_is_clamped_def i next_delay_def
    by (simp add: fle_def draws b m duration_add_def)
qed

lemma scheduler_tests:
  "scheduler_orders_heartbeat_before_sync w" "scheduler_returns_only_due_actions w" "next_due_is_minimum w"
  by (simp_all add: scheduler_orders_heartbeat_before_sync_def scheduler_returns_only_due_actions_def next_due_is_minimum_def
      scheduler_new_def due_after_def no_jitter_delay time_add_def TIME_MAX_def at_unix_def seconds_def NANOS_PER_SEC_def
      take_due_def next_due_def)

lemma polling_tests: "run_polling_drives_actions_without_real_sleep" "run_polling_swallows_callback_errors"
  unfolding run_polling_drives_actions_without_real_sleep_def run_polling_swallows_callback_errors_def polled_def
  by (simp_all add: scheduler_new_def due_after_def no_jitter_delay time_add_def TIME_MAX_def at_unix_def seconds_def
      NANOS_PER_SEC_def run_polling.simps for_cycles_def poll_wait_def poll_due_def clock_now_def next_due_def take_due_def
      advancing_sleep_def test_world_def count_heartbeat_def count_sync_def failing_heartbeat_def advance_def)

section \<open>Retries\<close>

text \<open>The sleeper that records the delays it was asked for, and these delays.\<close>

definition recording_sleep :: "duration \<Rightarrow> world \<Rightarrow> world option" where
  "recording_sleep d w = Some (w\<lparr>trace := trace w @ [Slept d]\<rparr>)"

definition delays :: "world \<Rightarrow> nat list" where
  "delays w = concat (map (\<lambda>e. case e of Slept d \<Rightarrow> [d] | _ \<Rightarrow> []) (trace w))"

definition always :: "world \<Rightarrow> bool \<times> world" where
  "always w = (True, w)"

text \<open>The captured cell holds the attempts seen.\<close>

definition succeeds_on_first_attempt_without_sleeping :: "(f64 \<Rightarrow> int \<Rightarrow> f64) \<Rightarrow> bool" where
  "succeeds_on_first_attempt_without_sleeping pw \<longleftrightarrow>
     (case retry_with_backoff pw backoff_default recording_sleep always
         (\<lambda>attempt c w. (Inr (42 :: u32), c @ [attempt], w)) [] (test_world 0 zero_draw) of
        Some (Finished (Inr v), c, w) \<Rightarrow> v = 42 \<and> c = [1] \<and> delays w = []
      | _ \<Rightarrow> False)"

definition succeeds_after_transient_failures :: "(f64 \<Rightarrow> int \<Rightarrow> f64) \<Rightarrow> bool" where
  "succeeds_after_transient_failures pw \<longleftrightarrow>
     (case retry_with_backoff pw (backoff_default\<lparr>bp_jitter_ratio := Fin 0\<rparr>) recording_sleep always
         (\<lambda>attempt c w. (if attempt < 3 then Inl EnrollmentTransport else Inr (lit ''ok''), attempt, w)) 0
         (test_world 0 zero_draw) of
        Some (Finished (Inr v), calls, w) \<Rightarrow> v = lit ''ok'' \<and> calls = 3 \<and> length (delays w) = 2
      | _ \<Rightarrow> False)"

text \<open>
  Both closures of the next test share a cell, which is non-zero after the first attempt; here the
  cell is the stop request of the world.
\<close>

definition cancellation_stops_and_returns_last_error :: "(f64 \<Rightarrow> int \<Rightarrow> f64) \<Rightarrow> bool" where
  "cancellation_stops_and_returns_last_error pw \<longleftrightarrow>
     (case retry_with_backoff pw backoff_default recording_sleep (\<lambda>w. (\<not> stop_flag w (tick w), w))
         (\<lambda>attempt c w. (Inl EnrollmentRejected :: unit res, attempt, w\<lparr>stop_flag := \<lambda>_. True\<rparr>)) 0
         (test_world 0 zero_draw) of
        Some (Finished (Inl e), attempts, w) \<Rightarrow> e = EnrollmentRejected \<and> attempts = 1 \<and> delays w = []
      | _ \<Rightarrow> False)"

definition growing_policy :: backoff_policy where
  "growing_policy = \<lparr>bp_initial = seconds 1, bp_max = seconds 10, bp_multiplier = Fin 2, bp_jitter_ratio = Fin 0\<rparr>"

definition delay_grows_and_is_capped :: "(f64 \<Rightarrow> int \<Rightarrow> f64) \<Rightarrow> world \<Rightarrow> bool" where
  "delay_grows_and_is_capped pw w \<longleftrightarrow>
     list_all (\<lambda>(attempt, s). fst (backoff_delay pw growing_policy attempt w) = Some (seconds s))
       [(1, 1), (2, 2), (3, 4), (4, 8), (5, 10), (20, 10)]"

text \<open>The powers of two that the delays are computed with are exact.\<close>

definition powers_exact :: "(f64 \<Rightarrow> int \<Rightarrow> f64) \<Rightarrow> bool" where
  "powers_exact pw \<longleftrightarrow> list_all (\<lambda>n. pw (Fin 2) (int n) = Fin (2 ^ n)) [0..<20]"

lemma attempt_numbers: "saturating_add1 0 = 1" "saturating_add1 1 = 2" "saturating_add1 2 = 3"
  by (simp_all add: saturating_add1_def)

lemma no_jitter_backoff:
  assumes "bp_jitter_ratio policy = Fin 0" "bp_max policy = s * NANOS_PER_SEC" "2 * s \<le> 2 ^ 53"
  obtains d where "backoff_delay pw policy attempt w = (Some d, w)"
proof -
  have "snd (backoff_delay pw policy attempt w) = w" using assms(1) by (simp add: backoff_delay_def Let_def)
  moreover have "\<exists>d. fst (backoff_delay pw policy attempt w) = Some d"
    using delay_bounds [OF assms(2,3,1), of pw attempt w] by auto
  ultimately show thesis using that by (cases "backoff_delay pw policy attempt w") auto
qed

lemma retry_tests:
  "succeeds_on_first_attempt_without_sleeping pw" "succeeds_after_transient_failures pw"
  "cancellation_stops_and_returns_last_error pw"
proof -
  show "succeeds_on_first_attempt_without_sleeping pw"
    unfolding succeeds_on_first_attempt_without_sleeping_def retry_with_backoff_def
    by (subst retry_loop.simps) (simp add: always_def attempt_numbers delays_def test_world_def)
  show "cancellation_stops_and_returns_last_error pw"
    unfolding cancellation_stops_and_returns_last_error_def retry_with_backoff_def
    by (subst retry_loop.simps) (simp add: attempt_numbers delays_def test_world_def)
  let ?p = "backoff_default\<lparr>bp_jitter_ratio := Fin 0\<rparr>"
  have p: "bp_jitter_ratio ?p = Fin 0" "bp_max ?p = 60 * NANOS_PER_SEC" "2 * 60 \<le> (2 :: nat) ^ 53"
    by (simp_all add: backoff_default_def)
  let ?w = "test_world 0 zero_draw"
  obtain d1 where d1: "backoff_delay pw ?p 1 ?w = (Some d1, ?w)" by (rule no_jitter_backoff [OF p])
  let ?w1 = "?w\<lparr>trace := trace ?w @ [Slept d1]\<rparr>"
  obtain d2 where d2: "backoff_delay pw ?p 2 ?w1 = (Some d2, ?w1)" by (rule no_jitter_backoff [OF p])
  show "succeeds_after_transient_failures pw"
    unfolding succeeds_after_transient_failures_def retry_with_backoff_def
    by (subst retry_loop.simps, simp add: always_def attempt_numbers d1 recording_sleep_def,
        subst retry_loop.simps, simp add: always_def attempt_numbers d2 recording_sleep_def,
        subst retry_loop.simps, simp add: always_def attempt_numbers delays_def)
      (simp add: test_world_def)
qed

lemma delay_test:
  assumes "powers_exact pw"
  shows "delay_grows_and_is_capped pw w"
proof -
  have ints: "to_f64 (of_nat n) = Fin (of_nat n)" if "n \<le> 2 ^ 53" for n using to_f64_int [OF that] .
  have a: "as_secs_f64 (seconds (Suc 0)) = Fin 1" "as_secs_f64 (seconds 10) = Fin 10"
    using as_secs_whole [of 1] as_secs_whole [of 10] by (simp_all add: seconds_def)
  have pw: "pw (Fin 2) (int n) = Fin (2 ^ n)" if "n < 20" for n
    using assms that by (simp add: powers_exact_def list_all_iff)
  have f: "from_secs_f64 (Fin (of_nat n)) = Some (seconds n)" if "n \<le> 10" for n
  proof -
    have "round_even (of_nat n * of_nat NANOS_PER_SEC) = int (seconds n)"
      using round_even_int [of "int (seconds n)"] by (simp add: seconds_def)
    moreover have "seconds n \<le> DURATION_MAX" using that by (simp add: seconds_def DURATION_MAX_def NANOS_PER_SEC_def)
    ultimately show ?thesis by (simp add: from_secs_f64_def)
  qed
  have step: "fst (backoff_delay pw growing_policy attempt w) = Some (seconds (min (2 ^ n) 10))"
    if "backoff_exponent attempt = int n" "n < 20" for attempt n
  proof -
    have "2 ^ n \<le> (2 :: nat) ^ 53" using that(2) by (intro power_increasing) simp_all
    then have "to_f64 (2 ^ n) = Fin (2 ^ n)" using ints [of "2 ^ n"] by simp
    then have "fmax (fmin (fmul (Fin 1) (Fin (2 ^ n))) (Fin 10)) (Fin 0) = Fin (of_nat (min (2 ^ n) 10))"
      by (auto simp: fmin_def fmax_def min_def simp flip: of_nat_le_iff [where 'a = rat])
    moreover have "fadd (Fin (of_nat (min (2 ^ n) 10))) (Fin 0) = Fin (of_nat (min (2 ^ n) 10))"
      using ints [of "min (2 ^ n) 10"] by simp
    moreover have "from_secs_f64 (Fin (of_nat (min (2 ^ n) 10))) = Some (seconds (min (2 ^ n) 10))" by (rule f) simp
    ultimately show ?thesis
      unfolding backoff_delay_def Let_def growing_policy_def
      by (simp add: a that(1) pw [OF that(2)] del: fadd.simps fmul.simps of_nat_min)
  qed
  have "backoff_exponent 1 = int 0" "backoff_exponent 2 = int 1" "backoff_exponent 3 = int 2" "backoff_exponent 4 = int 3"
    "backoff_exponent 5 = int 4" "backoff_exponent 20 = int 19"
    by (simp_all add: backoff_exponent_def)
  from step [OF this(1)] step [OF this(2)] step [OF this(3)] step [OF this(4)] step [OF this(5)] step [OF this(6)]
  show ?thesis by (simp add: delay_grows_and_is_capped_def)
qed

section \<open>Clocks and the shared state\<close>

text \<open>Two looks at the system clock; the world tells whether it is monotone.\<close>

definition system_clock_is_monotonic_nondecreasing :: "world \<Rightarrow> bool" where
  "system_clock_is_monotonic_nondecreasing w \<longleftrightarrow>
     (let (a, w1) = system_clock_now w; (b, w2) = system_clock_now w1 in b \<ge> a)"

text \<open>The first of January 2024, and noon of the fifteenth of June 2030.\<close>

definition new_year_2024 :: int where
  "new_year_2024 = at_unix 1704067200"

definition june_2030 :: int where
  "june_2030 = at_unix 1907755200"

definition fixed_clock_never_changes :: "world \<Rightarrow> bool" where
  "fixed_clock_never_changes w \<longleftrightarrow>
     (let c = fixed_clock_new new_year_2024; (first, w1) = fixed_clock_now c w; (second, w2) = fixed_clock_now c w1
      in first = second \<and> first = new_year_2024)"

definition fixed_clock_from_unix_test :: "world \<Rightarrow> bool" where
  "fixed_clock_from_unix_test w \<longleftrightarrow>
     (case fixed_clock_from_unix 1700000000 of
        Some c \<Rightarrow> unix_timestamp (fst (fixed_clock_now c w)) = 1700000000 | None \<Rightarrow> False)"

definition mock_clock_advances_only_when_told :: "world \<Rightarrow> bool" where
  "mock_clock_advances_only_when_told w \<longleftrightarrow>
     (case mock_clock_from_unix 1000 of
        None \<Rightarrow> False
      | Some c \<Rightarrow> unix_timestamp (fst (mock_clock_now c w)) = 1000
          \<and> (case mock_clock_advance (seconds 60) c of
               None \<Rightarrow> False
             | Some c' \<Rightarrow> (let (t, w1) = mock_clock_now c' w; (t', w2) = mock_clock_now c' w1
                          in unix_timestamp t = 1060 \<and> unix_timestamp t' = 1060)))"

definition mock_clock_can_be_set_absolutely :: "world \<Rightarrow> bool" where
  "mock_clock_can_be_set_absolutely w \<longleftrightarrow>
     (case mock_clock_from_unix 0 of
        Some c \<Rightarrow> fst (mock_clock_now (mock_clock_set june_2030 c) w) = june_2030 | None \<Rightarrow> False)"

definition startup_time_comes_from_clock :: "config \<Rightarrow> world \<Rightarrow> bool" where
  "startup_time_comes_from_clock c w \<longleftrightarrow>
     (case fixed_clock_from_unix 1700000000 of
        Some clk \<Rightarrow> unix_timestamp (as_startup_time (fst (app_state_new (fixed_clock_now clk) c w))) = 1700000000
      | None \<Rightarrow> False)"

definition uptime_tracks_mock_clock_advance :: "config \<Rightarrow> world \<Rightarrow> bool" where
  "uptime_tracks_mock_clock_advance c w \<longleftrightarrow>
     (case mock_clock_from_unix 1000 of
        None \<Rightarrow> False
      | Some clk \<Rightarrow>
          (let (st, w1) = app_state_new (mock_clock_now clk) c w
           in fst (app_uptime (mock_clock_now clk) st w1) = 0
              \<and> (case mock_clock_advance (seconds 42) clk of
                   Some clk' \<Rightarrow> fst (app_uptime (mock_clock_now clk') st w1) = seconds 42 | None \<Rightarrow> False)))"

definition uptime_is_zero_if_clock_goes_backwards :: "config \<Rightarrow> world \<Rightarrow> bool" where
  "uptime_is_zero_if_clock_goes_backwards c w \<longleftrightarrow>
     (case (mock_clock_from_unix 5000, from_unix_timestamp 4000) of
        (Some clk, Some earlier) \<Rightarrow>
          (let (st, w1) = app_state_new (mock_clock_now clk) c w
           in fst (app_uptime (mock_clock_now (mock_clock_set earlier clk)) st w1) = 0)
      | _ \<Rightarrow> False)"

definition config_is_accessible :: "config \<Rightarrow> world \<Rightarrow> bool" where
  "config_is_accessible c w \<longleftrightarrow>
     (case fixed_clock_from_unix 0 of
        Some clk \<Rightarrow> cfg_machine_id (as_config (fst (app_state_new (fixed_clock_now clk) c w))) = lit ''host-01''
      | None \<Rightarrow> False)"

lemma clock_tests:
  "fixed_clock_never_changes w" "fixed_clock_from_unix_test w" "mock_clock_advances_only_when_told w"
  "mock_clock_can_be_set_absolutely w"
  by (simp_all add: fixed_clock_never_changes_def fixed_clock_from_unix_test_def mock_clock_advances_only_when_told_def
      mock_clock_can_be_set_absolutely_def fixed_clock_new_def fixed_clock_now_def fixed_clock_from_unix_def
      mock_clock_from_unix_def mock_clock_new_def mock_clock_now_def mock_clock_advance_def mock_clock_set_def
      from_unix_timestamp_def MIN_TIMESTAMP_def MAX_TIMESTAMP_def unix_timestamp_def time_add_def TIME_MAX_def seconds_def
      NANOS_PER_SEC_def)

lemma system_clock_test:
  "clock w (tick w) \<le> clock w (Suc (tick w)) \<Longrightarrow> system_clock_is_monotonic_nondecreasing w"
  by (simp add: system_clock_is_monotonic_nondecreasing_def system_clock_now_def clock_now_def advance_def)

lemma state_tests:
  "startup_time_comes_from_clock c w" "uptime_tracks_mock_clock_advance c w" "uptime_is_zero_if_clock_goes_backwards c w"
  "cfg_machine_id c = lit ''host-01'' \<Longrightarrow> config_is_accessible c w"
  by (simp_all add: startup_time_comes_from_clock_def uptime_tracks_mock_clock_advance_def config_is_accessible_def
      uptime_is_zero_if_clock_goes_backwards_def app_state_new_def app_uptime_def fixed_clock_new_def fixed_clock_now_def
      fixed_clock_from_unix_def mock_clock_from_unix_def mock_clock_new_def mock_clock_now_def mock_clock_advance_def
      mock_clock_set_def from_unix_timestamp_def MIN_TIMESTAMP_def MAX_TIMESTAMP_def unix_timestamp_def time_add_def
      TIME_MAX_def seconds_def NANOS_PER_SEC_def)

section \<open>The suites\<close>

definition timing_tests_pass :: "(f64 \<Rightarrow> int \<Rightarrow> f64) \<Rightarrow> config \<Rightarrow> world \<Rightarrow> bool" where
  "timing_tests_pass pw c w \<longleftrightarrow>
     zero_jitter_returns_base w \<and> jitter_stays_within_bounds \<and> ratio_is_clamped
     \<and> scheduler_orders_heartbeat_before_sync w \<and> scheduler_returns_only_due_actions w \<and> next_due_is_minimum w
     \<and> run_polling_drives_actions_without_real_sleep \<and> run_polling_swallows_callback_errors
     \<and> succeeds_on_first_attempt_without_sleeping pw \<and> succeeds_after_transient_failures pw
     \<and> cancellation_stops_and_returns_last_error pw \<and> delay_grows_and_is_capped pw w
     \<and> system_clock_is_monotonic_nondecreasing w \<and> fixed_clock_never_changes w \<and> fixed_clock_from_unix_test w
     \<and> mock_clock_advances_only_when_told w \<and> mock_clock_can_be_set_absolutely w
     \<and> startup_time_comes_from_clock c w \<and> uptime_tracks_mock_clock_advance c w
     \<and> uptime_is_zero_if_clock_goes_backwards c w \<and> config_is_accessible c w"

theorem timing_suites_pass:
  assumes "powers_exact pw" and "cfg_machine_id c = lit ''host-01''" and "clock w (tick w) \<le> clock w (Suc (tick w))"
  shows "timing_tests_pass pw c w"
  unfolding timing_tests_pass_def
  using jitter_tests scheduler_tests polling_tests retry_tests delay_test [OF assms(1)] clock_tests
    system_clock_test [OF assms(3)] state_tests(1-3) state_tests(4) [OF assms(2)]
  by blast

end
