(* ===== verification/File_Tests.thy ===== *)
theory File_Tests
  imports Api_Client Test_Support
begin

text \<open>
  The unit tests of \<open>src/security.rs\<close>, \<open>src/identity/machine.rs\<close> and \<open>src/identity/keypair.rs\<close>.
\<close>

section \<open>The hardened file operations\<close>

definition mode_of :: "path \<Rightarrow> u32 io" where
  "mode_of p = bind_io (symlink_metadata p) (\<lambda>n. return_io (node_mode n AND 0x1FF))"

definition secure_write_creates_file_with_contents_and_mode :: "path \<Rightarrow> bool io" where
  "secure_write_creates_file_with_contents_and_mode dir =
     (let p = path_join dir (lit ''file'')
      in bind_io (secure_write p (utf8 (lit ''hello'')) MODE_SECRET) (\<lambda>_.
         bind_io (read_file p) (\<lambda>bs. bind_io (mode_of p) (\<lambda>mode.
         return_io (bs = utf8 (lit ''hello'') \<and> mode = MODE_SECRET)))))"

text \<open>The names in the directory are the ones the file system has below it.\<close>

definition secure_write_replaces_existing_file_atomically :: "path \<Rightarrow> bool io" where
  "secure_write_replaces_existing_file_atomically dir =
     (let p = path_join dir (lit ''file'')
      in bind_io (secure_write p (utf8 (lit ''v1'')) MODE_PUBLIC) (\<lambda>_.
         bind_io (secure_write p (utf8 (lit ''v2-longer'')) MODE_PUBLIC) (\<lambda>_.
         bind_io (read_file p) (\<lambda>bs.
         bind_io (observe (\<lambda>w. ({c. fs w (components dir @ [c]) \<noteq> None}, w))) (\<lambda>names.
         return_io (bs = utf8 (lit ''v2-longer'') \<and> names = {Normal (lit ''file'')}))))))"

definition secure_write_rejects_pathless_parent :: "bool io" where
  "secure_write_rejects_pathless_parent =
     bind_io (failure (secure_write (lit ''bare'') (utf8 (lit ''x'')) MODE_PUBLIC)) (\<lambda>err. return_io (err = Some InvalidPath))"

definition atomic_replace_moves_file_and_is_durable :: "path \<Rightarrow> bool io" where
  "atomic_replace_moves_file_and_is_durable dir =
     (let src = path_join dir (lit ''src''); dst = path_join dir (lit ''dst'')
      in bind_io (fs_write src (utf8 (lit ''payload''))) (\<lambda>_.
         bind_io (atomic_replace (components src) dst) (\<lambda>_.
         bind_io (observe (file_exists src)) (\<lambda>left_over. bind_io (read_file dst) (\<lambda>bs.
         return_io (\<not> left_over \<and> bs = utf8 (lit ''payload'')))))))"

definition fsync_dir_succeeds :: "path \<Rightarrow> bool io" where
  "fsync_dir_succeeds dir =
     bind_io (fs_write (path_join dir (lit ''file'')) (utf8 (lit ''data''))) (\<lambda>_.
     bind_io (fsync_dir (components dir)) (\<lambda>_. return_io True))"

definition is_symlink_detects_links_and_handles_missing :: "path \<Rightarrow> bool io" where
  "is_symlink_detects_links_and_handles_missing dir =
     (let target = path_join dir (lit ''target''); link = path_join dir (lit ''link''); missing = path_join dir (lit ''missing'')
      in bind_io (fs_write target (utf8 (lit ''t''))) (\<lambda>_. bind_io (fs_symlink target link) (\<lambda>_.
         bind_io (is_symlink target) (\<lambda>a. bind_io (is_symlink link) (\<lambda>b. bind_io (is_symlink missing) (\<lambda>c.
         return_io (\<not> a \<and> b \<and> \<not> c)))))))"

definition ensure_not_symlink_rejects_links :: "path \<Rightarrow> bool io" where
  "ensure_not_symlink_rejects_links dir =
     (let target = path_join dir (lit ''target''); link = path_join dir (lit ''link'')
      in bind_io (fs_write target (utf8 (lit ''t''))) (\<lambda>_. bind_io (fs_symlink target link) (\<lambda>_.
         bind_io (ensure_not_symlink target) (\<lambda>_.
         bind_io (failure (ensure_not_symlink link)) (\<lambda>err. return_io (err = Some UnexpectedSymlink))))))"

definition validate_owner_accepts_current_owner :: "path \<Rightarrow> bool io" where
  "validate_owner_accepts_current_owner dir =
     (let p = path_join dir (lit ''file'')
      in bind_io (fs_write p (utf8 (lit ''x''))) (\<lambda>_. bind_io (symlink_metadata p) (\<lambda>n.
         bind_io (validate_owner p (node_uid n)) (\<lambda>_. return_io True))))"

definition validate_owner_rejects_wrong_owner :: "path \<Rightarrow> bool io" where
  "validate_owner_rejects_wrong_owner dir =
     (let p = path_join dir (lit ''file'')
      in bind_io (fs_write p (utf8 (lit ''x''))) (\<lambda>_. bind_io (symlink_metadata p) (\<lambda>n.
         bind_io (failure (validate_owner p (node_uid n + 1))) (\<lambda>err. return_io (err = Some InsecureOwnership)))))"

definition ensure_not_group_or_world_writable_enforced :: "path \<Rightarrow> bool io" where
  "ensure_not_group_or_world_writable_enforced dir =
     (let p = path_join dir (lit ''file'')
      in bind_io (fs_write p (utf8 (lit ''x''))) (\<lambda>_.
         bind_io (set_permissions p 0x1A4) (\<lambda>_. bind_io (ensure_not_group_or_world_writable p) (\<lambda>_.
         bind_io (set_permissions p 0x1A6) (\<lambda>_. bind_io (failure (ensure_not_group_or_world_writable p)) (\<lambda>e1.
         bind_io (set_permissions p 0x190) (\<lambda>_. bind_io (failure (ensure_not_group_or_world_writable p)) (\<lambda>e2.
         return_io (e1 = Some InsecurePermissions \<and> e2 = Some InsecurePermissions)))))))))"

definition validate_mode_at_most_enforced :: "path \<Rightarrow> bool io" where
  "validate_mode_at_most_enforced dir =
     (let p = path_join dir (lit ''file'')
      in bind_io (fs_write p (utf8 (lit ''x''))) (\<lambda>_.
         bind_io (set_permissions p 0x180) (\<lambda>_.
         bind_io (validate_mode_at_most p 0x1A4) (\<lambda>_. bind_io (validate_mode_at_most p 0x180) (\<lambda>_.
         bind_io (set_permissions p 0x1ED) (\<lambda>_.
         bind_io (failure (validate_mode_at_most p 0x1A4)) (\<lambda>err. return_io (err = Some InsecurePermissions))))))))"

lemma names:
  "plain_name (lit ''file'')" "plain_name (lit ''src'')" "plain_name (lit ''dst'')" "plain_name (lit ''target'')"
  "plain_name (lit ''link'')" "plain_name (lit ''missing'')" "plain_name (lit ''machine.json'')" "plain_name (lit ''absent.json'')"
  "take 4 (lit ''file'') \<noteq> tmp_prefix" "take 4 (lit ''machine.json'') \<noteq> tmp_prefix"
  "lit ''link'' \<noteq> lit ''target''" "lit ''missing'' \<noteq> lit ''target''" "lit ''missing'' \<noteq> lit ''link''"
  "lit ''src'' \<noteq> lit ''dst''" "lit ''target'' \<noteq> lit ''link''"
  by (simp_all add: plain_name_def lit_def tmp_prefix_def)

lemma check_file_tests:
  assumes "empty_dir dir w"
  shows "passes (is_symlink_detects_links_and_handles_missing dir) w" "passes (ensure_not_symlink_rejects_links dir) w"
    "passes (validate_owner_accepts_current_owner dir) w" "passes (validate_owner_rejects_wrong_owner dir) w"
    "passes (ensure_not_group_or_world_writable_enforced dir) w" "passes (validate_mode_at_most_enforced dir) w"
proof -
  have f: "fault w t = None" for t by (rule empty_dir_faults [OF assms])
  have ne: "components dir \<noteq> []" and none: "fs w (components dir @ [c]) = None" for c
    using assms by (simp_all add: empty_dir_def)
  note at = in_dir(2) [OF names(1) ne] in_dir(2) [OF names(4) ne] in_dir(2) [OF names(5) ne] in_dir(2) [OF names(6) ne]
  note run = running Let_def at f none names
  show "passes (is_symlink_detects_links_and_handles_missing dir) w"
    by (simp add: is_symlink_detects_links_and_handles_missing_def run is_symlink_def os_err_def)
  show "passes (ensure_not_symlink_rejects_links dir) w"
    by (simp add: ensure_not_symlink_rejects_links_def run ensure_not_symlink_def is_symlink_def)
  show "passes (validate_owner_accepts_current_owner dir) w"
    by (simp add: validate_owner_accepts_current_owner_def run validate_owner_def)
  show "passes (validate_owner_rejects_wrong_owner dir) w"
    by (simp add: validate_owner_rejects_wrong_owner_def run validate_owner_def)
  show "passes (ensure_not_group_or_world_writable_enforced dir) w"
    by (simp add: ensure_not_group_or_world_writable_enforced_def run ensure_not_group_or_world_writable_def
        GROUP_OR_OTHER_WRITABLE_def)
  show "passes (validate_mode_at_most_enforced dir) w"
    by (simp add: validate_mode_at_most_enforced_def run validate_mode_at_most_def)
qed

lemma pathless_test: "passes secure_write_rejects_pathless_parent w"
  by (simp add: secure_write_rejects_pathless_parent_def running secure_write_def parent_of_def components_def
      segment_component_def lit_def)

lemma moving_tests:
  assumes "empty_dir dir w"
  shows "passes (atomic_replace_moves_file_and_is_durable dir) w" "passes (fsync_dir_succeeds dir) w"
proof -
  have f: "fault w t = None" for t by (rule empty_dir_faults [OF assms])
  have ne: "components dir \<noteq> []" and none: "fs w (components dir @ [c]) = None" for c
    using assms by (simp_all add: empty_dir_def)
  from assms obtain mo u where d: "fs w (components dir) = Some (NDir mo u)" by (auto simp: empty_dir_def)
  note at = in_dir [OF names(1) ne] in_dir [OF names(2) ne] in_dir [OF names(3) ne]
  note run = running Let_def at f none names fsync_dir_def sys_fsync_def stat_of_dir d
  show "passes (atomic_replace_moves_file_and_is_durable dir) w"
    by (simp add: atomic_replace_moves_file_and_is_durable_def run atomic_replace_def sys_rename_def stat_missing)
  show "passes (fsync_dir_succeeds dir) w"
    by (simp add: fsync_dir_succeeds_def run)
qed

lemma writing_tests:
  assumes "empty_dir dir w"
  shows "passes (secure_write_creates_file_with_contents_and_mode dir) w" "passes (secure_write_replaces_existing_file_atomically dir) w"
proof -
  let ?p = "path_join dir (lit ''file'')"
  have c: "calm w" and ne: "components dir \<noteq> []" and none: "fs w (components dir @ [c]) = None" for c
    using assms by (simp_all add: empty_dir_def)
  have wr: "writable {?p} (fs w)" by (rule empty_dir_writable [OF assms]) (use names in auto)
  note at = in_dir [OF names(1) ne]
  obtain w1 where 1: "secure_write ?p (utf8 (lit ''hello'')) MODE_SECRET w = (Inr (), w1)"
      "fs w1 = (fs w)(components ?p \<mapsto> NFile (utf8 (lit ''hello'')) MODE_SECRET (euid w))" "calm w1"
    by (rule calm_write [OF c wr singletonI])
  then have "fault w1 t = None" for t by (simp add: calm_def faultless_def)
  moreover have "(MODE_SECRET AND 0x1FF) = MODE_SECRET" by (simp add: MODE_SECRET_def)
  ultimately show "passes (secure_write_creates_file_with_contents_and_mode dir) w"
    using 1(1,2) by (simp add: secure_write_creates_file_with_contents_and_mode_def running Let_def mode_of_def)
  obtain w2 where 2: "secure_write ?p (utf8 (lit ''v1'')) MODE_PUBLIC w = (Inr (), w2)"
      "fs w2 = (fs w)(components ?p \<mapsto> NFile (utf8 (lit ''v1'')) MODE_PUBLIC (euid w))" "calm w2" "writable {?p} (fs w2)"
    by (rule calm_write [OF c wr singletonI])
  obtain w3 where 3: "secure_write ?p (utf8 (lit ''v2-longer'')) MODE_PUBLIC w2 = (Inr (), w3)"
      "fs w3 = (fs w2)(components ?p \<mapsto> NFile (utf8 (lit ''v2-longer'')) MODE_PUBLIC (euid w2))" "calm w3"
    by (rule calm_write [OF 2(3,4) singletonI])
  have "{c. fs w3 (components dir @ [c]) \<noteq> None} = {Normal (lit ''file'')}"
    using 2(2) 3(2) at(2) none by auto
  moreover have "fault w3 t = None" for t using 3(3) by (simp add: calm_def faultless_def)
  ultimately show "passes (secure_write_replaces_existing_file_atomically dir) w"
    using 2(1) 3(1,2) by (simp add: secure_write_replaces_existing_file_atomically_def running Let_def)
qed

section \<open>The machine record\<close>

text \<open>The codec of the record, which is \<open>serde_json\<close>: what the tests read it to do.\<close>

definition test_record :: machine_record where
  "test_record = \<lparr>mr_machine_id = lit ''srv_abc123'', mr_hostname = lit ''web-01'', mr_server_url = lit ''https://mayfly.example.com'',
     mr_heartbeat_interval_secs = 60, mr_sync_interval_secs = 300, mr_enrolled_at_unix = 1700000000\<rparr>"

definition record_codec_ok :: "(machine_record \<Rightarrow> str + bytes) \<Rightarrow> (bytes \<Rightarrow> str + machine_record) \<Rightarrow> bool" where
  "record_codec_ok enc dec \<longleftrightarrow> (\<exists>json. enc test_record = Inr json \<and> dec (json @ [10]) = Inr test_record)"

definition bad_record_texts :: "str list" where
  "bad_record_texts = [lit ''{ not valid json'',
     lit ''{\"machine_id\":\"x\",\"hostname\":\"h\",\"server_url\":\"https://s\",\"heartbeat_interval_secs\":60,\"sync_interval_secs\":300,\"enrolled_at_unix\":0,\"secret\":\"oops\"}'']"

definition refuses_bad_records :: "(bytes \<Rightarrow> str + machine_record) \<Rightarrow> bool" where
  "refuses_bad_records dec \<longleftrightarrow> list_all (\<lambda>text. isl (dec (utf8 text))) bad_record_texts"

definition record_save_and_load_round_trip ::
    "(machine_record \<Rightarrow> str + bytes) \<Rightarrow> (bytes \<Rightarrow> str + machine_record) \<Rightarrow> path \<Rightarrow> bool io" where
  "record_save_and_load_round_trip enc dec dir =
     (let p = path_join dir (lit ''machine.json'')
      in bind_io (record_save enc test_record p) (\<lambda>_. bind_io (record_load dec p) (\<lambda>loaded.
         return_io (test_record = loaded))))"

definition load_missing_record_is_io_error :: "(bytes \<Rightarrow> str + machine_record) \<Rightarrow> path \<Rightarrow> bool io" where
  "load_missing_record_is_io_error dec dir =
     bind_io (failure (record_load dec (path_join dir (lit ''absent.json'')))) (\<lambda>err.
     return_io (case err of Some (Io _) \<Rightarrow> True | _ \<Rightarrow> False))"

definition refused_record :: "(bytes \<Rightarrow> str + machine_record) \<Rightarrow> str \<Rightarrow> path \<Rightarrow> bool io" where
  "refused_record dec text dir =
     (let p = path_join dir (lit ''machine.json'')
      in bind_io (fs_write p (utf8 text)) (\<lambda>_. bind_io (failure (record_load dec p)) (\<lambda>err.
         return_io (case err of Some (MachineRecordParse _) \<Rightarrow> True | _ \<Rightarrow> False))))"

definition load_corrupt_record_is_parse_error :: "(bytes \<Rightarrow> str + machine_record) \<Rightarrow> path \<Rightarrow> bool io" where
  "load_corrupt_record_is_parse_error dec dir = refused_record dec (bad_record_texts ! 0) dir"

definition record_rejects_unknown_fields :: "(bytes \<Rightarrow> str + machine_record) \<Rightarrow> path \<Rightarrow> bool io" where
  "record_rejects_unknown_fields dec dir = refused_record dec (bad_record_texts ! 1) dir"

definition into_identity_and_back :: bool where
  "into_identity_and_back \<longleftrightarrow>
     (case into_identity test_record (lit ''ssh-ed25519 AAAA'') (lit ''/etc/mayfly-agent/machine_ed25519'')
         (lit ''/etc/mayfly-agent/machine_ed25519.pub'') of
        Inl _ \<Rightarrow> False
      | Inr identity \<Rightarrow> mi_machine_id identity = lit ''srv_abc123'' \<and> mi_heartbeat_interval identity = from_secs 60
          \<and> unix_timestamp (mi_enrolled_at identity) = 1700000000 \<and> to_record identity = test_record)"

lemma record_file_tests:
  assumes "empty_dir dir w" and "record_codec_ok enc dec" and "refuses_bad_records dec"
  shows "passes (record_save_and_load_round_trip enc dec dir) w" "passes (load_missing_record_is_io_error dec dir) w"
    "passes (load_corrupt_record_is_parse_error dec dir) w" "passes (record_rejects_unknown_fields dec dir) w"
proof -
  let ?p = "path_join dir (lit ''machine.json'')"
  have c: "calm w" and ne: "components dir \<noteq> []" and none: "fs w (components dir @ [c]) = None" for c
    using assms(1) by (simp_all add: empty_dir_def)
  have f: "fault w t = None" for t by (rule empty_dir_faults [OF assms(1)])
  note at = in_dir [OF names(7) ne] in_dir [OF names(8) ne]
  note run = running at f none
  have wr: "writable {?p} (fs w)" by (rule empty_dir_writable [OF assms(1)]) (use names in auto)
  from assms(2) obtain json where json: "enc test_record = Inr json" "dec (json @ [10]) = Inr test_record"
    by (auto simp: record_codec_ok_def)
  obtain w1 where 1: "secure_write ?p (json @ [10]) MODE_PUBLIC w = (Inr (), w1)"
      "fs w1 = (fs w)(components ?p \<mapsto> NFile (json @ [10]) MODE_PUBLIC (euid w))" "calm w1"
    by (rule calm_write [OF c wr singletonI])
  then have "fault w1 t = None" for t by (simp add: calm_def faultless_def)
  with 1(1,2) json show "passes (record_save_and_load_round_trip enc dec dir) w"
    by (simp add: record_save_and_load_round_trip_def running Let_def record_save_def record_load_def)
  show "passes (load_missing_record_is_io_error dec dir) w"
    by (simp add: load_missing_record_is_io_error_def run record_load_def stat_missing)
  have "\<exists>e. dec (utf8 (bad_record_texts ! 0)) = Inl e" "\<exists>e. dec (utf8 (bad_record_texts ! 1)) = Inl e"
    using assms(3) by (auto simp: refuses_bad_records_def bad_record_texts_def isl_def)
  then show "passes (load_corrupt_record_is_parse_error dec dir) w" "passes (record_rejects_unknown_fields dec dir) w"
    by (auto simp: load_corrupt_record_is_parse_error_def record_rejects_unknown_fields_def refused_record_def Let_def run
        record_load_def)
qed

lemma identity_test: "into_identity_and_back"
  by (simp add: into_identity_and_back_def into_identity_def test_record_def from_unix_timestamp_def MIN_TIMESTAMP_def
      MAX_TIMESTAMP_def unix_timestamp_def to_record_def)

section \<open>Key pairs\<close>

text \<open>What the tests rely on of the key crate.\<close>

definition enrollment_libs :: "libs \<Rightarrow> bool" where
  "enrollment_libs L \<longleftrightarrow> key_maker L \<and> key_laws L
     \<and> (\<forall>k p. lib_public_write L k = Some p \<longrightarrow> list_all is_scalar p \<and> starts_with p (lit ''ssh-ed25519 ''))
     \<and> lib_ssh_public L (lit ''not-a-key'') = None \<and> lib_private_parse L (lit ''not a valid openssh key'') = None"

text \<open>A key pair is made, and its line is what the crate writes.\<close>

lemma generate_key:
  assumes "enrollment_libs L"
  obtains kp line where "keypair_generate L w = (Inr kp, advance w)" "public_key_openssh L kp = Inr line"
    "ed25519_line L line" "list_all is_scalar line" "starts_with line (lit ''ssh-ed25519 '')"
    "\<exists>pem. to_openssh_private L kp = Inr pem \<and> from_utf8 (utf8 pem) = Some pem \<and> from_openssh_private L pem = Inr kp"
proof -
  from assms obtain k s line where k: "lib_private_random L (os_random w (tick w) 32) = Some k"
      "lib_private_write L (k\<lparr>prk_comment := KEY_COMMENT\<rparr>) = Some s"
      "lib_public_write L (k\<lparr>prk_comment := KEY_COMMENT\<rparr>) = Some line" "ed25519_line L line"
    unfolding key_maker_def enrollment_libs_def by meson
  let ?kp = "\<lparr>mk_key = k\<lparr>prk_comment := KEY_COMMENT\<rparr>\<rparr>"
  have laws: "lib_private_parse L s = Some (k\<lparr>prk_comment := KEY_COMMENT\<rparr>)" "list_all is_scalar s" "prk_algorithm k = AlgEd25519"
    "list_all is_scalar line" "starts_with line (lit ''ssh-ed25519 '')"
    using assms k by (auto simp: enrollment_libs_def key_laws_def)
  show ?thesis
    using that [of ?kp line] k laws from_utf8_utf8 [OF laws(2)]
    by (simp add: keypair_generate_def random_bytes_def public_key_openssh_def to_openssh_private_def from_openssh_private_def)
qed

definition generate_produces_ed25519_key :: "libs \<Rightarrow> bool io" where
  "generate_produces_ed25519_key L =
     bind_io (keypair_generate L) (\<lambda>kp. bind_io (lift_res (public_key_openssh L kp)) (\<lambda>public.
     return_io (starts_with public (lit ''ssh-ed25519 '') \<and> starts_with (keypair_fingerprint L kp) (lit ''SHA256:''))))"

definition generated_keys_are_unique :: "libs \<Rightarrow> bool io" where
  "generated_keys_are_unique L =
     bind_io (keypair_generate L) (\<lambda>a. bind_io (keypair_generate L) (\<lambda>b.
     return_io (keypair_fingerprint L a \<noteq> keypair_fingerprint L b)))"

definition private_key_round_trips :: "libs \<Rightarrow> bool io" where
  "private_key_round_trips L =
     bind_io (keypair_generate L) (\<lambda>kp. bind_io (lift_res (to_openssh_private L kp)) (\<lambda>pem.
     bind_io (lift_res (from_openssh_private L pem)) (\<lambda>reparsed.
     bind_io (lift_res (public_key_openssh L kp)) (\<lambda>a. bind_io (lift_res (public_key_openssh L reparsed)) (\<lambda>b.
     return_io (keypair_fingerprint L kp = keypair_fingerprint L reparsed \<and> a = b))))))"

definition rejects_corrupt_private_key :: "libs \<Rightarrow> bool" where
  "rejects_corrupt_private_key L \<longleftrightarrow> from_openssh_private L (lit ''not a key'') = Inl KeyParse"

definition validates_own_public_key :: "libs \<Rightarrow> bool io" where
  "validates_own_public_key L =
     bind_io (keypair_generate L) (\<lambda>kp. bind_io (lift_res (public_key_openssh L kp)) (\<lambda>public.
     bind_io (lift_res (validate_ed25519_public_key L public)) (\<lambda>_. return_io True)))"

definition rejects_malformed_public_key :: "libs \<Rightarrow> bool" where
  "rejects_malformed_public_key L \<longleftrightarrow>
     list_all (\<lambda>bad. validate_ed25519_public_key L bad = Inl MalformedPublicKey)
       [lit '''', lit ''ssh-ed25519'', lit ''ssh-ed25519 not-base64!!'', lit ''garbage'']"

definition rejects_non_ed25519_public_key :: "libs \<Rightarrow> bool" where
  "rejects_non_ed25519_public_key L \<longleftrightarrow>
     validate_ed25519_public_key L (lit ''ssh-rsa AAAAB3NzaC1yc2EAAAADAQABAAAAgQDExample test'') = Inl MalformedPublicKey"

text \<open>
  The crate's fingerprints have their prefix and tell keys of different seeds apart, the two seeds drawn
  differ, and what is no key is not read.
\<close>

definition fingerprints_ok :: "libs \<Rightarrow> world \<Rightarrow> bool" where
  "fingerprints_ok L w \<longleftrightarrow> (\<forall>k. starts_with (lib_fingerprint L k) (lit ''SHA256:''))
     \<and> (\<forall>s t a b. lib_private_random L s = Some a \<longrightarrow> lib_private_random L t = Some b \<longrightarrow> s \<noteq> t \<longrightarrow>
          lib_fingerprint L (a\<lparr>prk_comment := KEY_COMMENT\<rparr>) \<noteq> lib_fingerprint L (b\<lparr>prk_comment := KEY_COMMENT\<rparr>))
     \<and> os_random w (tick w) 32 \<noteq> os_random w (Suc (tick w)) 32"

definition refuses_bad_keys :: "libs \<Rightarrow> bool" where
  "refuses_bad_keys L \<longleftrightarrow> lib_private_parse L (lit ''not a key'') = None
     \<and> list_all (\<lambda>bad. lib_ssh_public L bad = None) [lit '''', lit ''ssh-ed25519'', lit ''ssh-ed25519 not-base64!!'', lit ''garbage'']
     \<and> (case lib_ssh_public L (lit ''ssh-rsa AAAAB3NzaC1yc2EAAAADAQABAAAAgQDExample test'') of
          None \<Rightarrow> True | Some k \<Rightarrow> spk_algorithm k \<noteq> AlgEd25519)"

lemma keypair_tests:
  assumes "enrollment_libs L" and "fingerprints_ok L w"
  shows "passes (generate_produces_ed25519_key L) w" "passes (generated_keys_are_unique L) w"
    "passes (private_key_round_trips L) w" "passes (validates_own_public_key L) w"
proof -
  obtain kp line where kp: "keypair_generate L w = (Inr kp, advance w)" "public_key_openssh L kp = Inr line"
      "ed25519_line L line" "starts_with line (lit ''ssh-ed25519 '')"
      "\<exists>pem. to_openssh_private L kp = Inr pem \<and> from_utf8 (utf8 pem) = Some pem \<and> from_openssh_private L pem = Inr kp"
    by (rule generate_key [OF assms(1)])
  show "passes (generate_produces_ed25519_key L) w"
    using kp(1,2,4) assms(2) by (simp add: generate_produces_ed25519_key_def running keypair_fingerprint_def fingerprints_ok_def)
  show "passes (private_key_round_trips L) w"
    using kp(1,2,5) by (auto simp: private_key_round_trips_def running)
  show "passes (validates_own_public_key L) w"
    using kp(1-3) by (simp add: validates_own_public_key_def running validate_ed25519_public_key_iff [THEN iffD2])
  obtain a where a: "lib_private_random L (os_random w (tick w) 32) = Some a"
    using assms(1) unfolding enrollment_libs_def key_maker_def by metis
  obtain b where b: "lib_private_random L (os_random w (Suc (tick w)) 32) = Some b"
    using assms(1) unfolding enrollment_libs_def key_maker_def by metis
  have "lib_fingerprint L (a\<lparr>prk_comment := KEY_COMMENT\<rparr>) \<noteq> lib_fingerprint L (b\<lparr>prk_comment := KEY_COMMENT\<rparr>)"
    using assms(2) a b unfolding fingerprints_ok_def by blast
  then show "passes (generated_keys_are_unique L) w"
    using a b by (simp add: generated_keys_are_unique_def running keypair_generate_def random_bytes_def keypair_fingerprint_def)
qed

lemma bad_line_tests:
  assumes "refuses_bad_keys L"
  shows "rejects_corrupt_private_key L" "rejects_malformed_public_key L" "rejects_non_ed25519_public_key L"
  using assms
  by (auto simp: refuses_bad_keys_def rejects_corrupt_private_key_def from_openssh_private_def rejects_malformed_public_key_def
      validate_ed25519_public_key_def rejects_non_ed25519_public_key_def split: option.splits)

section \<open>The suites\<close>

definition file_tests_pass ::
    "libs \<Rightarrow> (machine_record \<Rightarrow> str + bytes) \<Rightarrow> (bytes \<Rightarrow> str + machine_record) \<Rightarrow> path \<Rightarrow> world \<Rightarrow> bool" where
  "file_tests_pass L enc dec dir w \<longleftrightarrow>
     into_identity_and_back \<and> rejects_corrupt_private_key L \<and> rejects_malformed_public_key L \<and> rejects_non_ed25519_public_key L
     \<and> list_all (\<lambda>test. passes test w)
        [secure_write_creates_file_with_contents_and_mode dir, secure_write_replaces_existing_file_atomically dir,
         secure_write_rejects_pathless_parent, atomic_replace_moves_file_and_is_durable dir, fsync_dir_succeeds dir,
         is_symlink_detects_links_and_handles_missing dir, ensure_not_symlink_rejects_links dir,
         validate_owner_accepts_current_owner dir, validate_owner_rejects_wrong_owner dir,
         ensure_not_group_or_world_writable_enforced dir, validate_mode_at_most_enforced dir,
         record_save_and_load_round_trip enc dec dir, load_missing_record_is_io_error dec dir,
         load_corrupt_record_is_parse_error dec dir, record_rejects_unknown_fields dec dir,
         generate_produces_ed25519_key L, generated_keys_are_unique L, private_key_round_trips L, validates_own_public_key L]"

theorem file_suites_pass:
  assumes "empty_dir dir w" and "record_codec_ok enc dec" "refuses_bad_records dec"
    and "enrollment_libs L" "fingerprints_ok L w" "refuses_bad_keys L"
  shows "file_tests_pass L enc dec dir w"
  using check_file_tests [OF assms(1)] pathless_test moving_tests [OF assms(1)] writing_tests [OF assms(1)]
    record_file_tests [OF assms(1-3)] identity_test keypair_tests [OF assms(4,5)] bad_line_tests [OF assms(6)]
  by (simp add: file_tests_pass_def)

end
