(* ===== verification/Config_Tests.thy ===== *)
theory Config_Tests
  imports Config Calm Ca_Bundle
begin

text \<open>
  The unit tests of \<open>src/config.rs\<close> as predicates of the crates, of the TOML reader and of the key
  they draw, and that the model passes them for every reader that reads their texts as written.
\<close>

section \<open>The fixtures\<close>

text \<open>The smallest configuration text, and it with one more line.\<close>

definition MINIMAL :: str where
  "MINIMAL = [10] @ lit ''        server_url = \"https://mayfly.example.com\"'' @ [10]
     @ lit ''        machine_id = \"host-01\"'' @ [10] @ lit ''    ''"

definition minimal_with :: "str \<Rightarrow> str" where
  "minimal_with line = MINIMAL @ [10] @ line @ [10]"

definition no_env :: "str \<Rightarrow> str option" where
  "no_env k = None"

definition load :: "libs \<Rightarrow> (str \<Rightarrow> str + raw_config) \<Rightarrow> str \<Rightarrow> config res" where
  "load L toml text = from_toml_with_env L toml text no_env"

text \<open>\<open>matches!(.., Err(Error::ConfigInvalid(_)))\<close> and \<open>ConfigParse\<close>.\<close>

definition refused_invalid :: "config res \<Rightarrow> bool" where
  "refused_invalid r \<longleftrightarrow> (case r of Inl (ConfigInvalid _) \<Rightarrow> True | _ \<Rightarrow> False)"

definition refused_parse :: "config res \<Rightarrow> bool" where
  "refused_parse r \<longleftrightarrow> (case r of Inl (ConfigParse _) \<Rightarrow> True | _ \<Rightarrow> False)"

abbreviation loads :: "config res \<Rightarrow> (config \<Rightarrow> bool) \<Rightarrow> bool" where
  "loads r P \<equiv> (case r of Inr cfg \<Rightarrow> P cfg | Inl _ \<Rightarrow> False)"

definition only_set :: "string \<Rightarrow> string \<Rightarrow> str \<Rightarrow> str option" where
  "only_set name value k = (if k = lit name then Some (lit value) else None)"

text \<open>A raw string of several lines, indented as in the source.\<close>

definition indented :: "string list \<Rightarrow> str" where
  "indented ls = [10] @ concat (map (\<lambda>l. lit ''            '' @ lit l @ [10]) ls) @ lit ''        ''"

definition full_text :: str where
  "full_text = indented [''server_url = \"https://srv.example.com\"'',
     ''machine_id = \"edge.node-7\"'', ''heartbeat_interval = 15'', ''sync_interval = 120'',
     ''trusted_ca_path = \"/etc/ssh/custom_ca.pub\"'', ''sshd_config_path = \"/etc/ssh/sshd_config.d/custom.conf\"'',
     ''state_dir = \"/var/lib/custom-mayfly\"'', ''log_level = \"debug\"'', ''log_format = \"pretty\"'',
     ''allow_insecure_tls = false'']"

text \<open>The two-line texts: a URL and an identifier.\<close>

definition two_lines :: "string \<Rightarrow> string \<Rightarrow> str" where
  "two_lines url mid = lit ''server_url = \"'' @ lit url @ lit ''\"'' @ [10] @ lit ''machine_id = \"'' @ lit mid @ lit ''\"'' @ [10]"

definition insecure_text :: "bool \<Rightarrow> str" where
  "insecure_text flag = indented ([''server_url = \"http://insecure.example.com\"'', ''machine_id = \"host\"'']
     @ (if flag then [''allow_insecure_tls = true''] else []))"

section \<open>The tests\<close>

definition minimal_config_uses_defaults :: "libs \<Rightarrow> (str \<Rightarrow> str + raw_config) \<Rightarrow> bool" where
  "minimal_config_uses_defaults L toml \<longleftrightarrow> loads (load L toml MINIMAL) (\<lambda>cfg.
     cfg_server_url cfg = lit ''https://mayfly.example.com'' \<and> cfg_machine_id cfg = lit ''host-01''
     \<and> cfg_heartbeat_interval cfg = from_secs DEFAULT_HEARTBEAT_SECS \<and> cfg_sync_interval cfg = from_secs DEFAULT_SYNC_SECS
     \<and> cfg_trusted_ca_path cfg = DEFAULT_TRUSTED_CA_PATH \<and> cfg_sshd_config_path cfg = DEFAULT_SSHD_CONFIG_PATH
     \<and> cfg_state_dir cfg = DEFAULT_STATE_DIR \<and> cfg_identity_dir cfg = DEFAULT_IDENTITY_DIR
     \<and> cfg_helper_socket_path cfg = DEFAULT_HELPER_SOCKET_PATH \<and> cfg_helper_token_path cfg = DEFAULT_HELPER_TOKEN_PATH
     \<and> config_generation_path cfg = lit ''/var/lib/mayfly/current_generation''
     \<and> config_bundle_fingerprint_path cfg = lit ''/var/lib/mayfly/current_bundle.sha256''
     \<and> config_last_sync_path cfg = lit ''/var/lib/mayfly/last_sync''
     \<and> config_last_success_path cfg = lit ''/var/lib/mayfly/last_success''
     \<and> config_bundle_signing_key_path cfg = lit ''/var/lib/mayfly/bundle_signing_key.pub''
     \<and> cfg_bundle_signing_public_key cfg = None
     \<and> (case (cfg_poll_jitter_ratio cfg, DEFAULT_POLL_JITTER_RATIO) of
           (Fin r, Fin d) \<Rightarrow> \<bar>r - d\<bar> < 1 / 2 ^ 52 | _ \<Rightarrow> False)
     \<and> cfg_log_level cfg = LvlInfo \<and> cfg_log_format cfg = FmtJson \<and> \<not> cfg_allow_insecure_tls cfg)"

definition rejects_out_of_range_jitter_ratio :: "libs \<Rightarrow> (str \<Rightarrow> str + raw_config) \<Rightarrow> bool" where
  "rejects_out_of_range_jitter_ratio L toml \<longleftrightarrow>
     refused_invalid (load L toml (minimal_with (lit ''poll_jitter_ratio = 1.5'')))"

definition tls_ca_path_defaults_to_none :: "libs \<Rightarrow> (str \<Rightarrow> str + raw_config) \<Rightarrow> bool" where
  "tls_ca_path_defaults_to_none L toml \<longleftrightarrow> loads (load L toml MINIMAL) (\<lambda>cfg. cfg_tls_ca_path cfg = None)"

definition accepts_absolute_tls_ca_path :: "libs \<Rightarrow> (str \<Rightarrow> str + raw_config) \<Rightarrow> bool" where
  "accepts_absolute_tls_ca_path L toml \<longleftrightarrow>
     loads (load L toml (minimal_with (lit ''tls_ca_path = \"/etc/mayfly-agent/ca.pem\"'')))
       (\<lambda>cfg. cfg_tls_ca_path cfg = Some (lit ''/etc/mayfly-agent/ca.pem''))"

definition rejects_relative_tls_ca_path :: "libs \<Rightarrow> (str \<Rightarrow> str + raw_config) \<Rightarrow> bool" where
  "rejects_relative_tls_ca_path L toml \<longleftrightarrow>
     refused_invalid (load L toml (minimal_with (lit ''tls_ca_path = \"ca.pem\"'')))"

definition tls_ca_path_env_override_sets_and_clears :: "libs \<Rightarrow> (str \<Rightarrow> str + raw_config) \<Rightarrow> bool" where
  "tls_ca_path_env_override_sets_and_clears L toml \<longleftrightarrow>
     loads (from_toml_with_env L toml MINIMAL (only_set ''MAYFLY_AGENT_TLS_CA_PATH'' ''/run/mayfly/ca.pem''))
       (\<lambda>cfg. cfg_tls_ca_path cfg = Some (lit ''/run/mayfly/ca.pem''))
     \<and> loads (from_toml_with_env L toml (minimal_with (lit ''tls_ca_path = \"/etc/mayfly-agent/ca.pem\"''))
           (only_set ''MAYFLY_AGENT_TLS_CA_PATH'' ''''))
       (\<lambda>cfg. cfg_tls_ca_path cfg = None)"

definition rejects_invalid_signing_key :: "libs \<Rightarrow> (str \<Rightarrow> str + raw_config) \<Rightarrow> bool" where
  "rejects_invalid_signing_key L toml \<longleftrightarrow>
     refused_invalid (load L toml (minimal_with (lit ''bundle_signing_public_key = \"not-a-key\"'')))"

definition accepts_valid_pinned_signing_key :: "libs \<Rightarrow> (str \<Rightarrow> str + raw_config) \<Rightarrow> str \<Rightarrow> bool" where
  "accepts_valid_pinned_signing_key L toml key \<longleftrightarrow>
     loads (load L toml (minimal_with (lit ''bundle_signing_public_key = \"'' @ trim key @ lit ''\"'')))
       (\<lambda>cfg. cfg_bundle_signing_public_key cfg = Some (trim key))"

definition full_config_parses_all_fields :: "libs \<Rightarrow> (str \<Rightarrow> str + raw_config) \<Rightarrow> bool" where
  "full_config_parses_all_fields L toml \<longleftrightarrow> loads (load L toml full_text) (\<lambda>cfg.
     cfg_heartbeat_interval cfg = from_secs 15 \<and> cfg_sync_interval cfg = from_secs 120
     \<and> cfg_trusted_ca_path cfg = lit ''/etc/ssh/custom_ca.pub'' \<and> cfg_state_dir cfg = lit ''/var/lib/custom-mayfly''
     \<and> cfg_log_level cfg = LvlDebug \<and> cfg_log_format cfg = FmtPretty)"

definition unknown_fields_are_rejected :: "libs \<Rightarrow> (str \<Rightarrow> str + raw_config) \<Rightarrow> bool" where
  "unknown_fields_are_rejected L toml \<longleftrightarrow> refused_parse (load L toml (minimal_with (lit ''unexpected = true'')))"

definition missing_required_fields_fail :: "libs \<Rightarrow> (str \<Rightarrow> str + raw_config) \<Rightarrow> bool" where
  "missing_required_fields_fail L toml \<longleftrightarrow> refused_parse (load L toml (lit ''server_url = \"https://x.example.com\"''))"

definition override_env :: "str \<Rightarrow> str option" where
  "override_env k =
     (if k = lit ''MAYFLY_AGENT_SERVER_URL'' then Some (lit ''https://override.example.com'')
      else if k = lit ''MAYFLY_AGENT_MACHINE_ID'' then Some (lit ''overridden'')
      else if k = lit ''MAYFLY_AGENT_HEARTBEAT_INTERVAL'' then Some (lit ''10'')
      else if k = lit ''MAYFLY_AGENT_SYNC_INTERVAL'' then Some (lit ''90'')
      else if k = lit ''MAYFLY_AGENT_LOG_LEVEL'' then Some (lit ''warn'')
      else if k = lit ''MAYFLY_AGENT_LOG_FORMAT'' then Some (lit ''pretty'') else None)"

definition env_overrides_take_precedence :: "libs \<Rightarrow> (str \<Rightarrow> str + raw_config) \<Rightarrow> bool" where
  "env_overrides_take_precedence L toml \<longleftrightarrow> loads (from_toml_with_env L toml MINIMAL override_env) (\<lambda>cfg.
     cfg_server_url cfg = lit ''https://override.example.com'' \<and> cfg_machine_id cfg = lit ''overridden''
     \<and> cfg_heartbeat_interval cfg = from_secs 10 \<and> cfg_sync_interval cfg = from_secs 90
     \<and> cfg_log_level cfg = LvlWarn \<and> cfg_log_format cfg = FmtPretty)"

definition env_override_with_invalid_integer_fails :: "libs \<Rightarrow> (str \<Rightarrow> str + raw_config) \<Rightarrow> bool" where
  "env_override_with_invalid_integer_fails L toml \<longleftrightarrow>
     refused_invalid (from_toml_with_env L toml MINIMAL (only_set ''MAYFLY_AGENT_HEARTBEAT_INTERVAL'' ''not-a-number''))"

definition env_override_with_invalid_log_level_fails :: "libs \<Rightarrow> (str \<Rightarrow> str + raw_config) \<Rightarrow> bool" where
  "env_override_with_invalid_log_level_fails L toml \<longleftrightarrow>
     refused_invalid (from_toml_with_env L toml MINIMAL (only_set ''MAYFLY_AGENT_LOG_LEVEL'' ''loud''))"

definition http_url_requires_insecure_flag :: "libs \<Rightarrow> (str \<Rightarrow> str + raw_config) \<Rightarrow> bool" where
  "http_url_requires_insecure_flag L toml \<longleftrightarrow>
     refused_invalid (load L toml (insecure_text False)) \<and> \<not> isl (load L toml (insecure_text True))"

definition non_http_scheme_is_rejected :: "libs \<Rightarrow> (str \<Rightarrow> str + raw_config) \<Rightarrow> bool" where
  "non_http_scheme_is_rejected L toml \<longleftrightarrow> refused_invalid (load L toml (indented [''server_url = \"ftp://example.com\"'', ''machine_id = \"host\"'']))"

definition empty_or_hostless_url_rejected :: "libs \<Rightarrow> (str \<Rightarrow> str + raw_config) \<Rightarrow> bool" where
  "empty_or_hostless_url_rejected L toml \<longleftrightarrow>
     (\<forall>url \<in> {'''', ''https://''}. refused_invalid (load L toml (two_lines url ''host'')))"

definition bad_machine_ids :: "string list" where
  "bad_machine_ids = ['''', ''has space'', ''semi;colon'', ''slash/id'', ''tick'' @ [CHR 0x60]]"

definition bad_machine_ids_are_rejected :: "libs \<Rightarrow> (str \<Rightarrow> str + raw_config) \<Rightarrow> bool" where
  "bad_machine_ids_are_rejected L toml \<longleftrightarrow>
     list_all (\<lambda>bad. refused_invalid (load L toml (two_lines ''https://x.example.com'' bad))) bad_machine_ids"

definition intervals_out_of_range_rejected :: "libs \<Rightarrow> (str \<Rightarrow> str + raw_config) \<Rightarrow> bool" where
  "intervals_out_of_range_rejected L toml \<longleftrightarrow>
     refused_invalid (load L toml (minimal_with (lit ''heartbeat_interval = 0'')))
     \<and> refused_invalid (load L toml (minimal_with (lit ''sync_interval = 999999'')))"

definition relative_or_traversal_paths_rejected :: "libs \<Rightarrow> (str \<Rightarrow> str + raw_config) \<Rightarrow> bool" where
  "relative_or_traversal_paths_rejected L toml \<longleftrightarrow>
     refused_invalid (load L toml (minimal_with (lit ''trusted_ca_path = \"relative/ca.pub\"'')))
     \<and> refused_invalid (load L toml (minimal_with (lit ''sshd_config_path = \"/etc/ssh/../shadow\"'')))"

text \<open>The directory is the temporary one, in the state after the test has written its file.\<close>

definition load_reads_from_disk_and_applies_no_env ::
    "libs \<Rightarrow> (str \<Rightarrow> str + raw_config) \<Rightarrow> path \<Rightarrow> world \<Rightarrow> bool" where
  "load_reads_from_disk_and_applies_no_env L toml dir w \<longleftrightarrow>
     (case fst (sys_read_to_string (components (path_join dir (lit ''config.toml''))) w) of
        Inr raw \<Rightarrow> loads (from_toml_with_env L toml raw no_env) (\<lambda>cfg. cfg_machine_id cfg = lit ''host-01'')
      | Inl _ \<Rightarrow> False)"

definition load_missing_file_reports_config_read ::
    "libs \<Rightarrow> (str \<Rightarrow> str + raw_config) \<Rightarrow> (str \<Rightarrow> str option) \<Rightarrow> path \<Rightarrow> world \<Rightarrow> bool" where
  "load_missing_file_reports_config_read L toml env dir w \<longleftrightarrow>
     (case fst (config_load L toml env (path_join dir (lit ''does-not-exist.toml'')) w) of
        Inl (ConfigRead _) \<Rightarrow> True | _ \<Rightarrow> False)"

definition round_trips_through_toml ::
    "libs \<Rightarrow> (str \<Rightarrow> str + raw_config) \<Rightarrow> (raw_config \<Rightarrow> str) \<Rightarrow> bool" where
  "round_trips_through_toml L toml to_string \<longleftrightarrow>
     loads (load L toml MINIMAL) (\<lambda>cfg. from_toml_with_env L toml (to_string (config_to_raw cfg)) no_env = Inr cfg)"

section \<open>A reader that reads these texts\<close>

definition minimal_raw :: raw_config where
  "minimal_raw =
     \<lparr>rc_server_url = lit ''https://mayfly.example.com'', rc_machine_id = lit ''host-01'', rc_heartbeat_interval = None,
      rc_sync_interval = None, rc_trusted_ca_path = None, rc_sshd_config_path = None, rc_state_dir = None,
      rc_identity_dir = None, rc_helper_socket_path = None, rc_helper_token_path = None,
      rc_bundle_signing_public_key = None, rc_poll_jitter_ratio = None, rc_log_level = None, rc_log_format = None,
      rc_allow_insecure_tls = None, rc_tls_ca_path = None\<rparr>"

definition two_raw :: "string \<Rightarrow> string \<Rightarrow> raw_config" where
  "two_raw url mid = minimal_raw\<lparr>rc_server_url := lit url, rc_machine_id := lit mid\<rparr>"

definition full_raw :: raw_config where
  "full_raw = (two_raw ''https://srv.example.com'' ''edge.node-7'')\<lparr>rc_heartbeat_interval := Some 15,
     rc_sync_interval := Some 120, rc_trusted_ca_path := Some (lit ''/etc/ssh/custom_ca.pub''),
     rc_sshd_config_path := Some (lit ''/etc/ssh/sshd_config.d/custom.conf''),
     rc_state_dir := Some (lit ''/var/lib/custom-mayfly''), rc_log_level := Some LvlDebug,
     rc_log_format := Some FmtPretty, rc_allow_insecure_tls := Some False\<rparr>"

definition config_texts :: "str \<Rightarrow> (str \<times> raw_config) list" where
  "config_texts key = [(MINIMAL, minimal_raw),
     (minimal_with (lit ''poll_jitter_ratio = 1.5''), minimal_raw\<lparr>rc_poll_jitter_ratio := Some (Fin (3 / 2))\<rparr>),
     (minimal_with (lit ''tls_ca_path = \"/etc/mayfly-agent/ca.pem\"''),
        minimal_raw\<lparr>rc_tls_ca_path := Some (lit ''/etc/mayfly-agent/ca.pem'')\<rparr>),
     (minimal_with (lit ''tls_ca_path = \"ca.pem\"''), minimal_raw\<lparr>rc_tls_ca_path := Some (lit ''ca.pem'')\<rparr>),
     (minimal_with (lit ''bundle_signing_public_key = \"not-a-key\"''),
        minimal_raw\<lparr>rc_bundle_signing_public_key := Some (lit ''not-a-key'')\<rparr>),
     (minimal_with (lit ''bundle_signing_public_key = \"'' @ trim key @ lit ''\"''),
        minimal_raw\<lparr>rc_bundle_signing_public_key := Some (trim key)\<rparr>),
     (full_text, full_raw),
     (insecure_text False, two_raw ''http://insecure.example.com'' ''host''),
     (insecure_text True, (two_raw ''http://insecure.example.com'' ''host'')\<lparr>rc_allow_insecure_tls := Some True\<rparr>),
     (indented [''server_url = \"ftp://example.com\"'', ''machine_id = \"host\"''], two_raw ''ftp://example.com'' ''host''),
     (two_lines '''' ''host'', two_raw '''' ''host''), (two_lines ''https://'' ''host'', two_raw ''https://'' ''host''),
     (minimal_with (lit ''heartbeat_interval = 0''), minimal_raw\<lparr>rc_heartbeat_interval := Some 0\<rparr>),
     (minimal_with (lit ''sync_interval = 999999''), minimal_raw\<lparr>rc_sync_interval := Some 999999\<rparr>),
     (minimal_with (lit ''trusted_ca_path = \"relative/ca.pub\"''),
        minimal_raw\<lparr>rc_trusted_ca_path := Some (lit ''relative/ca.pub'')\<rparr>),
     (minimal_with (lit ''sshd_config_path = \"/etc/ssh/../shadow\"''),
        minimal_raw\<lparr>rc_sshd_config_path := Some (lit ''/etc/ssh/../shadow'')\<rparr>)]
     @ map (\<lambda>bad. (two_lines ''https://x.example.com'' bad, two_raw ''https://x.example.com'' bad)) bad_machine_ids"

text \<open>The texts that are no configuration: an unknown field, a missing one.\<close>

definition bad_texts :: "str list" where
  "bad_texts = [minimal_with (lit ''unexpected = true''), lit ''server_url = \"https://x.example.com\"'']"

definition toml_reads :: "(str \<Rightarrow> str + raw_config) \<Rightarrow> (raw_config \<Rightarrow> str) \<Rightarrow> str \<Rightarrow> bool" where
  "toml_reads toml to_string key \<longleftrightarrow> list_all (\<lambda>(t, rc). toml t = Inr rc) (config_texts key)
     \<and> list_all (\<lambda>t. isl (toml t)) bad_texts
     \<and> toml (to_string (config_to_raw (config_of_raw minimal_raw))) = Inr (config_to_raw (config_of_raw minimal_raw))"

section \<open>Loading\<close>

lemma no_overrides: "apply_env_overrides no_env c = Inr c"
  by (simp add: apply_env_overrides_def env_override_def no_env_def)

lemma load_good:
  assumes "toml t = Inr rc" and "good_config L (config_of_raw rc)"
  shows "load L toml t = Inr (config_of_raw rc)"
  using assms by (simp add: load_def from_toml_with_env_def no_overrides good_config_iff [THEN iffD2])

lemma validate_bad:
  assumes "\<not> good_config L c"
  shows "\<exists>m. config_validate L c = Inl (ConfigInvalid m)"
  using assms fixed_validate [of L c] good_config_iff [of L c]
  by (cases "config_validate L c") (auto simp: fixed_errors_def)

lemma load_bad:
  assumes "toml t = Inr rc" and "\<not> good_config L (config_of_raw rc)"
  shows "refused_invalid (load L toml t)"
  using assms validate_bad [OF assms(2)]
  by (auto simp: load_def from_toml_with_env_def no_overrides refused_invalid_def)

lemma load_unread: "isl (toml t) \<Longrightarrow> refused_parse (load L toml t)"
  by (cases "toml t") (simp_all add: load_def from_toml_with_env_def refused_parse_def)

lemma default_paths:
  "good_path DEFAULT_TRUSTED_CA_PATH" "good_path DEFAULT_SSHD_CONFIG_PATH" "good_path DEFAULT_STATE_DIR"
  "good_path DEFAULT_IDENTITY_DIR" "good_path DEFAULT_HELPER_SOCKET_PATH" "good_path DEFAULT_HELPER_TOKEN_PATH"
  by code_simp+

lemma test_paths:
  "good_path (lit ''/etc/ssh/custom_ca.pub'')" "good_path (lit ''/etc/ssh/sshd_config.d/custom.conf'')"
  "good_path (lit ''/var/lib/custom-mayfly'')" "good_path (lit ''/etc/mayfly-agent/ca.pem'')"
  "good_path (lit ''/run/mayfly/ca.pem'')"
  "\<not> good_path (lit ''ca.pem'')" "\<not> good_path (lit ''relative/ca.pub'')" "\<not> good_path (lit ''/etc/ssh/../shadow'')"
  by code_simp+

lemma test_intervals: "good_poll_interval default_heartbeat" "good_poll_interval default_sync"
  "good_poll_interval (from_secs 15)" "good_poll_interval (from_secs 120)" "good_poll_interval (from_secs 10)"
  "good_poll_interval (from_secs 90)" "\<not> good_poll_interval (from_secs 0)" "\<not> good_poll_interval (from_secs 999999)"
  by (auto simp: good_poll_interval_def default_heartbeat_def default_sync_def from_secs_def DEFAULT_HEARTBEAT_SECS_def
      DEFAULT_SYNC_SECS_def NANOS_PER_SEC_def)

lemma url_trim: "list_all (\<lambda>c. \<not> is_whitespace (of_char c)) u \<Longrightarrow> trim (lit u) = lit u"
  by (rule trim_no_ws) (auto simp: lit_def list_all_iff)

lemma good_https: "list_all (\<lambda>c. \<not> is_whitespace (of_char c)) (''https://'' @ h) \<Longrightarrow> h \<noteq> [] \<Longrightarrow> good_url b (lit (''https://'' @ h))"
  unfolding good_url_def by (intro conjI exI [of _ "lit h"] disjI1 url_trim) (simp_all flip: lit_append)

lemma test_urls:
  "good_url b (lit ''https://mayfly.example.com'')" "good_url b (lit ''https://srv.example.com'')"
  "good_url b (lit ''https://override.example.com'')" "good_url True (lit ''http://insecure.example.com'')"
  "\<not> good_url False (lit ''http://insecure.example.com'')" "\<not> good_url b (lit ''ftp://example.com'')"
  "\<not> good_url b (lit '''')" "\<not> good_url b (lit ''https://'')"
proof -
  show "good_url b (lit ''https://mayfly.example.com'')" "good_url b (lit ''https://srv.example.com'')"
    "good_url b (lit ''https://override.example.com'')"
    using good_https [of "''mayfly.example.com''" b] good_https [of "''srv.example.com''" b]
      good_https [of "''override.example.com''" b] by (simp_all add: is_whitespace_def)
  show "good_url True (lit ''http://insecure.example.com'')"
    unfolding good_url_def by (intro conjI exI [of _ "lit ''insecure.example.com''"] disjI2 url_trim)
      (simp_all add: lit_def is_whitespace_def)
qed (simp_all add: good_url_def lit_def)

lemma test_ids:
  "good_machine_id (lit ''host-01'')" "good_machine_id (lit ''host'')" "good_machine_id (lit ''edge.node-7'')"
  "good_machine_id (lit ''overridden'')" "list_all (\<lambda>i. \<not> good_machine_id (lit i)) bad_machine_ids"
  by (simp_all add: good_machine_id_def bad_machine_ids_def lit_def machine_id_char_def is_ascii_alphanumeric_def
      is_ascii_digit_def)

lemma good_jitter: "\<exists>r. DEFAULT_POLL_JITTER_RATIO = Fin r \<and> 0 \<le> r \<and> r \<le> 1"
proof -
  have "representable 1" using representable_int [of 1] by simp
  then show ?thesis
    unfolding DEFAULT_POLL_JITTER_RATIO_def using to_f64_bounded [of "1 / 10" 1] by (auto simp: F_MAX_def)
qed

lemmas config_facts = good_config_def config_of_raw_def minimal_raw_def two_raw_def full_raw_def duration_secs_deserialize_def
  default_paths test_paths test_intervals test_urls test_ids good_jitter

lemma texts_read:
  assumes "toml_reads toml ts key"
  shows "toml MINIMAL = Inr (minimal_raw)"
    "toml (minimal_with (lit ''poll_jitter_ratio = 1.5'')) = Inr (minimal_raw\<lparr>rc_poll_jitter_ratio := Some (Fin (3 / 2))\<rparr>)"
    "toml (minimal_with (lit ''tls_ca_path = \"/etc/mayfly-agent/ca.pem\"'')) = Inr (minimal_raw\<lparr>rc_tls_ca_path := Some (lit ''/etc/mayfly-agent/ca.pem'')\<rparr>)"
    "toml (minimal_with (lit ''tls_ca_path = \"ca.pem\"'')) = Inr (minimal_raw\<lparr>rc_tls_ca_path := Some (lit ''ca.pem'')\<rparr>)"
    "toml (minimal_with (lit ''bundle_signing_public_key = \"not-a-key\"'')) = Inr (minimal_raw\<lparr>rc_bundle_signing_public_key := Some (lit ''not-a-key'')\<rparr>)"
    "toml (minimal_with (lit ''bundle_signing_public_key = \"'' @ trim key @ lit ''\"'')) = Inr (minimal_raw\<lparr>rc_bundle_signing_public_key := Some (trim key)\<rparr>)"
    "toml full_text = Inr (full_raw)"
    "toml (insecure_text False) = Inr (two_raw ''http://insecure.example.com'' ''host'')"
    "toml (insecure_text True) = Inr ((two_raw ''http://insecure.example.com'' ''host'')\<lparr>rc_allow_insecure_tls := Some True\<rparr>)"
    "toml (indented [''server_url = \"ftp://example.com\"'', ''machine_id = \"host\"'']) = Inr (two_raw ''ftp://example.com'' ''host'')"
    "toml (two_lines '''' ''host'') = Inr (two_raw '''' ''host'')"
    "toml (two_lines ''https://'' ''host'') = Inr (two_raw ''https://'' ''host'')"
    "toml (minimal_with (lit ''heartbeat_interval = 0'')) = Inr (minimal_raw\<lparr>rc_heartbeat_interval := Some 0\<rparr>)"
    "toml (minimal_with (lit ''sync_interval = 999999'')) = Inr (minimal_raw\<lparr>rc_sync_interval := Some 999999\<rparr>)"
    "toml (minimal_with (lit ''trusted_ca_path = \"relative/ca.pub\"'')) = Inr (minimal_raw\<lparr>rc_trusted_ca_path := Some (lit ''relative/ca.pub'')\<rparr>)"
    "toml (minimal_with (lit ''sshd_config_path = \"/etc/ssh/../shadow\"'')) = Inr (minimal_raw\<lparr>rc_sshd_config_path := Some (lit ''/etc/ssh/../shadow'')\<rparr>)"
    "\<forall>bad \<in> set bad_machine_ids. toml (two_lines ''https://x.example.com'' bad) = Inr (two_raw ''https://x.example.com'' bad)"
  using assms unfolding toml_reads_def config_texts_def by (simp_all add: list_all_iff)

lemma good_minimal: "good_config L (config_of_raw minimal_raw)"
  by (simp add: config_facts)

lemma loading_tests:
  assumes "toml_reads toml ts key" and "good_signing_key L (trim key)"
  shows "minimal_config_uses_defaults L toml" "tls_ca_path_defaults_to_none L toml" "accepts_absolute_tls_ca_path L toml"
    "accepts_valid_pinned_signing_key L toml key" "full_config_parses_all_fields L toml"
proof -
  note r = texts_read [OF assms(1)] and good = load_good [where toml = toml and L = L]
    and bad = load_bad [where toml = toml and L = L]
  have m: "load L toml MINIMAL = Inr (config_of_raw minimal_raw)"
    by (rule good [OF r(1) good_minimal])
  have "path_join DEFAULT_STATE_DIR GENERATION_FILE = lit ''/var/lib/mayfly/current_generation''"
    "path_join DEFAULT_STATE_DIR BUNDLE_FINGERPRINT_FILE = lit ''/var/lib/mayfly/current_bundle.sha256''"
    "path_join DEFAULT_STATE_DIR LAST_SYNC_FILE = lit ''/var/lib/mayfly/last_sync''"
    "path_join DEFAULT_STATE_DIR LAST_SUCCESS_FILE = lit ''/var/lib/mayfly/last_success''"
    "path_join DEFAULT_STATE_DIR SIGNING_KEY_FILE = lit ''/var/lib/mayfly/bundle_signing_key.pub''"
    by code_simp+
  moreover obtain d where "DEFAULT_POLL_JITTER_RATIO = Fin d" using good_jitter by blast
  ultimately show "minimal_config_uses_defaults L toml"
    unfolding minimal_config_uses_defaults_def m sum.case config_generation_path_def config_bundle_fingerprint_path_def
      config_last_sync_path_def config_last_success_path_def config_bundle_signing_key_path_def
    by (simp add: config_of_raw_def minimal_raw_def default_heartbeat_def default_sync_def) (simp add: \<open>DEFAULT_POLL_JITTER_RATIO = Fin d\<close>)
  show "tls_ca_path_defaults_to_none L toml"
    unfolding tls_ca_path_defaults_to_none_def m by (simp add: config_of_raw_def minimal_raw_def)
  let ?tls = "minimal_raw\<lparr>rc_tls_ca_path := Some (lit ''/etc/mayfly-agent/ca.pem'')\<rparr>"
  have "load L toml (minimal_with (lit ''tls_ca_path = \"/etc/mayfly-agent/ca.pem\"'')) = Inr (config_of_raw ?tls)"
    by (rule good [OF r(3)]) (simp add: config_facts)
  then show "accepts_absolute_tls_ca_path L toml" by (simp add: accepts_absolute_tls_ca_path_def config_of_raw_def)
  let ?pin = "minimal_raw\<lparr>rc_bundle_signing_public_key := Some (trim key)\<rparr>"
  have "load L toml (minimal_with (lit ''bundle_signing_public_key = \"'' @ trim key @ lit ''\"'')) = Inr (config_of_raw ?pin)"
    by (rule good [OF r(6)]) (use assms(2) in \<open>simp add: config_facts\<close>)
  then show "accepts_valid_pinned_signing_key L toml key"
    by (simp add: accepts_valid_pinned_signing_key_def config_of_raw_def)
  have "load L toml full_text = Inr (config_of_raw full_raw)"
    by (rule good [OF r(7)]) (simp add: config_facts)
  then show "full_config_parses_all_fields L toml"
    by (simp add: full_config_parses_all_fields_def config_of_raw_def full_raw_def duration_secs_deserialize_def)
qed

lemma refusing_tests:
  assumes "toml_reads toml ts key" and "\<not> good_signing_key L (lit ''not-a-key'')"
  shows "rejects_out_of_range_jitter_ratio L toml" "rejects_relative_tls_ca_path L toml" "rejects_invalid_signing_key L toml"
    "unknown_fields_are_rejected L toml" "missing_required_fields_fail L toml" "http_url_requires_insecure_flag L toml"
    "non_http_scheme_is_rejected L toml" "empty_or_hostless_url_rejected L toml" "bad_machine_ids_are_rejected L toml"
    "intervals_out_of_range_rejected L toml" "relative_or_traversal_paths_rejected L toml"
proof -
  note r = texts_read [OF assms(1)] and good = load_good [where toml = toml and L = L]
    and bad = load_bad [where toml = toml and L = L]
  show "rejects_out_of_range_jitter_ratio L toml"
    unfolding rejects_out_of_range_jitter_ratio_def by (rule bad [OF r(2)]) (simp add: config_facts)
  show "rejects_relative_tls_ca_path L toml"
    unfolding rejects_relative_tls_ca_path_def by (rule bad [OF r(4)]) (simp add: config_facts)
  show "rejects_invalid_signing_key L toml"
    unfolding rejects_invalid_signing_key_def
    by (rule bad [OF r(5)]) (use assms(2) in \<open>simp add: config_facts\<close>)
  have unread: "isl (toml t)" if "t \<in> set bad_texts" for t using assms(1) that by (auto simp: toml_reads_def list_all_iff)
  show "unknown_fields_are_rejected L toml" "missing_required_fields_fail L toml"
    unfolding unknown_fields_are_rejected_def missing_required_fields_fail_def
    by (rule load_unread, rule unread, simp add: bad_texts_def)+
  let ?flagged = "(two_raw ''http://insecure.example.com'' ''host'')\<lparr>rc_allow_insecure_tls := Some True\<rparr>"
  have "refused_invalid (load L toml (insecure_text False))"
    by (rule bad [OF r(8)]) (simp add: config_facts)
  moreover have "load L toml (insecure_text True) = Inr (config_of_raw ?flagged)"
    by (rule good [OF r(9)]) (simp add: config_facts)
  ultimately show "http_url_requires_insecure_flag L toml" by (simp add: http_url_requires_insecure_flag_def)
  show "non_http_scheme_is_rejected L toml"
    unfolding non_http_scheme_is_rejected_def by (rule bad [OF r(10)]) (simp add: config_facts)
  have "refused_invalid (load L toml (two_lines '''' ''host''))" "refused_invalid (load L toml (two_lines ''https://'' ''host''))"
    by (rule bad [OF r(11)], simp add: config_facts) (rule bad [OF r(12)], simp add: config_facts)
  then show "empty_or_hostless_url_rejected L toml" by (simp add: empty_or_hostless_url_rejected_def)
  have "refused_invalid (load L toml (two_lines ''https://x.example.com'' bad))" if "bad \<in> set bad_machine_ids" for bad
    by (rule bad [OF r(17) [rule_format, OF that]])
       (use that test_ids(5) in \<open>auto simp: list_all_iff good_config_def config_of_raw_def two_raw_def\<close>)
  then show "bad_machine_ids_are_rejected L toml" by (simp add: bad_machine_ids_are_rejected_def list_all_iff)
  show "intervals_out_of_range_rejected L toml"
    unfolding intervals_out_of_range_rejected_def
    by (intro conjI bad [OF r(13)] bad [OF r(14)]; simp add: config_facts)
  show "relative_or_traversal_paths_rejected L toml"
    unfolding relative_or_traversal_paths_rejected_def
    by (intro conjI bad [OF r(15)] bad [OF r(16)]; simp add: config_facts)
qed

section \<open>Overrides\<close>

lemma config_keys: "config_key n = lit (''MAYFLY_AGENT_'' @ n)"
  by (simp add: config_key_def ENV_PREFIX_def flip: lit_append)

lemma override_values:
  "parse_secs f (lit ''10'') = Inr (from_secs 10)" "parse_secs f (lit ''90'') = Inr (from_secs 90)"
  "parse_level (lit ''warn'') = Inr LvlWarn" "parse_format (lit ''pretty'') = Inr FmtPretty"
  "parse_level (lit ''loud'') = Inl (config_invalid (lit ''log_level is not a valid level''))"
  "parse_secs f (lit ''not-a-number'') = Inl (config_invalid (lit (f @ '' must be a non-negative integer'')))"
  "non_empty (lit ''/run/mayfly/ca.pem'') = Some (lit ''/run/mayfly/ca.pem'')" "non_empty (lit '''') = None"
proof -
  have t: "trim (lit ''10'') = lit ''10''" "trim (lit ''90'') = lit ''90''" "trim (lit ''warn'') = lit ''warn''"
    "trim (lit ''pretty'') = lit ''pretty''" "trim (lit ''loud'') = lit ''loud''" "trim (lit ''not-a-number'') = lit ''not-a-number''"
    "trim (lit ''/run/mayfly/ca.pem'') = lit ''/run/mayfly/ca.pem''"
    by (rule url_trim; simp add: is_whitespace_def)+
  show "parse_secs f (lit ''10'') = Inr (from_secs 10)" "parse_secs f (lit ''90'') = Inr (from_secs 90)"
    "parse_secs f (lit ''not-a-number'') = Inl (config_invalid (lit (f @ '' must be a non-negative integer'')))"
    unfolding parse_secs_def config_parse_u64_def t
    by (simp_all add: parse_u64_def lit_def is_ascii_digit_def dec_val_def)
  show "parse_level (lit ''warn'') = Inr LvlWarn" "parse_format (lit ''pretty'') = Inr FmtPretty"
    "parse_level (lit ''loud'') = Inl (config_invalid (lit ''log_level is not a valid level''))"
    unfolding parse_level_def parse_format_def log_level_parse_def log_format_parse_def t
    by (simp_all add: lit_def to_ascii_lowercase_def to_ascii_lower_def)
  show "non_empty (lit ''/run/mayfly/ca.pem'') = Some (lit ''/run/mayfly/ca.pem'')" "non_empty (lit '''') = None"
    unfolding non_empty_def t by (simp_all add: lit_def)
qed

lemma test_overrides:
  "apply_env_overrides (only_set ''MAYFLY_AGENT_TLS_CA_PATH'' v) c = Inr (c\<lparr>cfg_tls_ca_path := non_empty (lit v)\<rparr>)"
    "apply_env_overrides (only_set ''MAYFLY_AGENT_HEARTBEAT_INTERVAL'' ''not-a-number'') c
      = Inl (config_invalid (lit (''heartbeat_interval'' @ '' must be a non-negative integer'')))"
    "apply_env_overrides (only_set ''MAYFLY_AGENT_LOG_LEVEL'' ''loud'') c
      = Inl (config_invalid (lit ''log_level is not a valid level''))"
    "apply_env_overrides override_env c = Inr (c\<lparr>cfg_server_url := lit ''https://override.example.com'',
       cfg_machine_id := lit ''overridden'', cfg_heartbeat_interval := from_secs 10, cfg_sync_interval := from_secs 90,
       cfg_log_level := LvlWarn, cfg_log_format := FmtPretty\<rparr>)"
  by (simp_all add: apply_env_overrides_def env_override_def config_keys only_set_def override_env_def override_values)

lemma override_tests:
  assumes "toml_reads toml ts key"
  shows "tls_ca_path_env_override_sets_and_clears L toml" "env_overrides_take_precedence L toml"
    "env_override_with_invalid_integer_fails L toml" "env_override_with_invalid_log_level_fails L toml"
proof -
  note r = texts_read [OF assms]
  let ?tls = "minimal_raw\<lparr>rc_tls_ca_path := Some (lit ''/etc/mayfly-agent/ca.pem'')\<rparr>"
  have g: "good_config L ((config_of_raw minimal_raw)\<lparr>cfg_tls_ca_path := Some (lit ''/run/mayfly/ca.pem'')\<rparr>)"
    "good_config L ((config_of_raw ?tls)\<lparr>cfg_tls_ca_path := None\<rparr>)"
    "good_config L ((config_of_raw minimal_raw)\<lparr>cfg_server_url := lit ''https://override.example.com'',
       cfg_machine_id := lit ''overridden'', cfg_heartbeat_interval := from_secs 10, cfg_sync_interval := from_secs 90,
       cfg_log_level := LvlWarn, cfg_log_format := FmtPretty\<rparr>)"
    by (simp_all add: config_facts)
  show "tls_ca_path_env_override_sets_and_clears L toml"
    by (simp add: tls_ca_path_env_override_sets_and_clears_def from_toml_with_env_def r test_overrides override_values
        g(1,2) [THEN good_config_iff [THEN iffD2]])
  show "env_overrides_take_precedence L toml"
    by (simp add: env_overrides_take_precedence_def from_toml_with_env_def r test_overrides
        g(3) [THEN good_config_iff [THEN iffD2]])
  show "env_override_with_invalid_integer_fails L toml" "env_override_with_invalid_log_level_fails L toml"
    by (simp_all add: env_override_with_invalid_integer_fails_def env_override_with_invalid_log_level_fails_def
        from_toml_with_env_def r test_overrides refused_invalid_def config_invalid_def)
qed

section \<open>The whole suite\<close>

lemma minimal_scalar: "list_all is_scalar MINIMAL"
  by (simp add: MINIMAL_def lit_def is_scalar_def)

lemma file_tests:
  assumes "toml_reads toml ts key" and "faultless w"
    and "fs w (components (path_join dir (lit ''config.toml''))) = Some (NFile (utf8 MINIMAL) mo u)"
    and "fs w (components (path_join dir (lit ''does-not-exist.toml''))) = None"
  shows "load_reads_from_disk_and_applies_no_env L toml dir w" "load_missing_file_reports_config_read L toml env dir w"
proof -
  have "load L toml MINIMAL = Inr (config_of_raw minimal_raw)"
    by (rule load_good [where toml = toml, OF texts_read(1) [OF assms(1)] good_minimal])
  moreover have "stat_of (fs w) (components (path_join dir (lit ''config.toml''))) = Inr (NFile (utf8 MINIMAL) mo u)"
    using assms(3) by (simp add: stat_of_def max_links_def numeral_eq_Suc)
  ultimately show "load_reads_from_disk_and_applies_no_env L toml dir w"
    using assms(2) from_utf8_utf8 [OF minimal_scalar]
    by (simp add: load_reads_from_disk_and_applies_no_env_def sys_read_to_string_def sys_read_def sys_query_def bind_io_def
        lift_res_def read_of_def faultless_def load_def config_of_raw_def minimal_raw_def)
  have "stat_of (fs w) (components (path_join dir (lit ''does-not-exist.toml''))) = Inl (os_err NotFound)"
    using assms(4) by (simp add: stat_of_def max_links_def numeral_eq_Suc)
  then show "load_missing_file_reports_config_read L toml env dir w"
    using assms(2)
    by (simp add: load_missing_file_reports_config_read_def config_load_def sys_read_to_string_def sys_read_def sys_query_def
        bind_io_def map_err_io_def read_of_def faultless_def)
qed

lemma round_trip_test:
  assumes "toml_reads toml ts key"
  shows "round_trips_through_toml L toml ts"
proof -
  have m: "load L toml MINIMAL = Inr (config_of_raw minimal_raw)"
    by (rule load_good [where toml = toml, OF texts_read(1) [OF assms] good_minimal])
  have ok: "config_validate L (config_of_raw minimal_raw) = Inr ()" using good_minimal good_config_iff by blast
  moreover have "toml (ts (config_to_raw (config_of_raw minimal_raw))) = Inr (config_to_raw (config_of_raw minimal_raw))"
    using assms by (simp add: toml_reads_def)
  ultimately show ?thesis
    unfolding round_trips_through_toml_def m sum.case
    by (simp add: from_toml_with_env_def no_overrides accepted_config_round_trip)
qed

definition config_tests_pass ::
    "libs \<Rightarrow> (str \<Rightarrow> str + raw_config) \<Rightarrow> (raw_config \<Rightarrow> str) \<Rightarrow> str \<Rightarrow> (str \<Rightarrow> str option) \<Rightarrow> path \<Rightarrow> world \<Rightarrow> bool" where
  "config_tests_pass L toml to_string key env dir w \<longleftrightarrow>
     minimal_config_uses_defaults L toml \<and> rejects_out_of_range_jitter_ratio L toml \<and> tls_ca_path_defaults_to_none L toml
     \<and> accepts_absolute_tls_ca_path L toml \<and> rejects_relative_tls_ca_path L toml
     \<and> tls_ca_path_env_override_sets_and_clears L toml \<and> rejects_invalid_signing_key L toml
     \<and> accepts_valid_pinned_signing_key L toml key \<and> full_config_parses_all_fields L toml
     \<and> unknown_fields_are_rejected L toml \<and> missing_required_fields_fail L toml \<and> env_overrides_take_precedence L toml
     \<and> env_override_with_invalid_integer_fails L toml \<and> env_override_with_invalid_log_level_fails L toml
     \<and> http_url_requires_insecure_flag L toml \<and> non_http_scheme_is_rejected L toml
     \<and> empty_or_hostless_url_rejected L toml \<and> bad_machine_ids_are_rejected L toml
     \<and> intervals_out_of_range_rejected L toml \<and> relative_or_traversal_paths_rejected L toml
     \<and> load_reads_from_disk_and_applies_no_env L toml dir w \<and> load_missing_file_reports_config_read L toml env dir w
     \<and> round_trips_through_toml L toml to_string"

theorem config_suite_passes:
  assumes "toml_reads toml to_string key" and "good_signing_key L (trim key)" "\<not> good_signing_key L (lit ''not-a-key'')"
    and "faultless w" "fs w (components (path_join dir (lit ''config.toml''))) = Some (NFile (utf8 MINIMAL) mo u)"
      "fs w (components (path_join dir (lit ''does-not-exist.toml''))) = None"
  shows "config_tests_pass L toml to_string key env dir w"
  unfolding config_tests_pass_def
  using loading_tests [OF assms(1,2)] refusing_tests [OF assms(1,3)] override_tests [OF assms(1)]
    file_tests [OF assms(1,4-6)] round_trip_test [OF assms(1)]
  by blast

section \<open>A reader for which the suite passes\<close>

definition suite_toml :: "str \<Rightarrow> str + raw_config" where
  "suite_toml t = (if t = [] then Inr (config_to_raw (config_of_raw minimal_raw))
     else ok_or (map_of (config_texts sample_key) t) [])"

lemma text_shapes [simp]:
  "minimal_with l = minimal_with l' \<longleftrightarrow> l = l'" "minimal_with l \<noteq> MINIMAL" "MINIMAL \<noteq> minimal_with l" "minimal_with l \<noteq> []"
  "minimal_with l \<noteq> indented (x # xs)" "indented (x # xs) \<noteq> minimal_with l" "MINIMAL \<noteq> indented (x # xs)"
  "minimal_with l \<noteq> two_lines a b" "two_lines a b \<noteq> minimal_with l" "MINIMAL \<noteq> two_lines a b" "MINIMAL \<noteq> []"
  "indented xs \<noteq> two_lines a b" "two_lines a b \<noteq> indented xs" "two_lines a b \<noteq> []" "indented xs \<noteq> []"
proof -
  show "minimal_with l \<noteq> MINIMAL" "MINIMAL \<noteq> minimal_with l" by (auto simp: minimal_with_def)
  have m: "MINIMAL = 10 # 32 # 32 # 32 # 32 # 32 # 32 # 32 # 32 # 115 # drop 10 MINIMAL"
    by (simp add: MINIMAL_def lit_def)
  have "minimal_with l = 10 # 32 # 32 # 32 # 32 # 32 # 32 # 32 # 32 # 115 # drop 10 MINIMAL @ 10 # l @ [10]"
    unfolding minimal_with_def by (subst m) simp
  then show "minimal_with l \<noteq> indented (x # xs)" "indented (x # xs) \<noteq> minimal_with l" "minimal_with l \<noteq> two_lines a b"
    "two_lines a b \<noteq> minimal_with l" "minimal_with l \<noteq> []"
    by (simp_all add: indented_def two_lines_def lit_def)
  show "MINIMAL \<noteq> indented (x # xs)" "MINIMAL \<noteq> two_lines a b"
    by (subst m, simp add: indented_def two_lines_def lit_def)+
  show "MINIMAL \<noteq> []" by (subst m) simp
qed (simp_all add: indented_def two_lines_def lit_def minimal_with_def)

lemma two_lines_inject [simp]: "two_lines a b = two_lines a b' \<longleftrightarrow> b = b'"
  by (simp add: two_lines_def)

lemma more_shapes [simp]:
  "minimal_with l \<noteq> full_text" "full_text \<noteq> minimal_with l" "minimal_with l \<noteq> insecure_text f" "insecure_text f \<noteq> minimal_with l"
  "MINIMAL \<noteq> full_text" "MINIMAL \<noteq> insecure_text f" "full_text \<noteq> two_lines a b" "insecure_text f \<noteq> two_lines a b"
  "full_text \<noteq> []" "insecure_text f \<noteq> []"
  by (simp_all add: full_text_def insecure_text_def)

lemma key_text_line:
  assumes "c \<noteq> CHR ''b''"
  shows "lit ''bundle_signing_public_key = \"'' @ s \<noteq> lit (c # u)" "lit (c # u) \<noteq> lit ''bundle_signing_public_key = \"'' @ s"
proof -
  have "(of_char c :: nat) \<noteq> of_char CHR ''b''" using assms by (simp only: of_char_eq_iff not_False_eq_True)
  then show "lit ''bundle_signing_public_key = \"'' @ s \<noteq> lit (c # u)" by (simp add: lit_def)
  then show "lit (c # u) \<noteq> lit ''bundle_signing_public_key = \"'' @ s" by (rule not_sym)
qed

lemma suite_texts_distinct: "distinct (map fst (config_texts sample_key))"
proof -
  have "full_text \<noteq> insecure_text f" "full_text \<noteq> indented [''server_url = \"ftp://example.com\"'', ''machine_id = \"host\"'']"
    "insecure_text f \<noteq> indented [''server_url = \"ftp://example.com\"'', ''machine_id = \"host\"'']"
    "insecure_text False \<noteq> insecure_text True" for f
    by (simp_all add: full_text_def insecure_text_def indented_def lit_def)
  moreover have "two_lines '''' h \<noteq> two_lines ''https://'' h'" "two_lines '''' h \<noteq> two_lines ''https://x.example.com'' h'"
    "two_lines ''https://'' h \<noteq> two_lines ''https://x.example.com'' h'" for h h'
    by (simp_all add: two_lines_def lit_def)
  moreover have "distinct bad_machine_ids" by (simp add: bad_machine_ids_def)
  moreover have "lit ''bundle_signing_public_key = \"not-a-key\"'' \<noteq> lit ''bundle_signing_public_key = \"'' @ trim sample_key @ lit ''\"''"
    unfolding sample_key_ok(2) by (simp add: lit_def sample_key_def)
  ultimately show ?thesis
    by (simp add: config_texts_def image_iff distinct_map inj_on_def comp_def key_text_line)
qed

lemma suite_bad_texts:
  "list_all (\<lambda>t. t \<noteq> [] \<and> t \<notin> set (map fst (config_texts sample_key))) bad_texts"
proof -
  let ?u = "lit ''server_url = \"https://x.example.com\"''"
  have "10 \<in> set MINIMAL" "10 \<in> set (minimal_with l)" "10 \<in> set (indented ls)" "10 \<in> set (two_lines a b)" for l ls a b
    by (simp_all add: MINIMAL_def minimal_with_def indented_def two_lines_def)
  moreover have "10 \<notin> set ?u" by (simp add: lit_def)
  ultimately have "?u \<noteq> MINIMAL" "?u \<noteq> minimal_with l" "?u \<noteq> indented ls" "?u \<noteq> two_lines a b" for l ls a b
    by metis+
  then show ?thesis
    by (auto simp: bad_texts_def config_texts_def image_iff key_text_line full_text_def insecure_text_def)
qed

lemma suite_reads: "toml_reads suite_toml (\<lambda>_. []) sample_key"
proof -
  have "[] \<notin> set (map fst (config_texts sample_key))"
    by (auto simp: config_texts_def eq_commute [of "[]"])
  then have "suite_toml t = Inr rc" if "(t, rc) \<in> set (config_texts sample_key)" for t rc
    using that suite_texts_distinct by (force simp: suite_toml_def map_of_is_SomeI)
  moreover have "isl (suite_toml t)" if "t \<in> set bad_texts" for t
  proof -
    have "t \<noteq> []" "t \<notin> fst ` set (config_texts sample_key)" using that suite_bad_texts by (auto simp: list_all_iff)
    then show ?thesis by (simp add: suite_toml_def map_of_eq_None_iff [THEN iffD2])
  qed
  ultimately show ?thesis by (auto simp: toml_reads_def list_all_iff suite_toml_def)
qed

definition suite_world :: world where
  "suite_world = \<lparr>fs = [components (path_join (lit ''/tmp'') (lit ''config.toml'')) \<mapsto> NFile (utf8 MINIMAL) 0x1A4 0], euid = 0,
     tick = 0, fault = (\<lambda>_. None), tmp_name = (\<lambda>_. []), clock = (\<lambda>_. 0), os_random = (\<lambda>_ n. replicate n 0),
     http = (\<lambda>_ _ _. None), helper = (\<lambda>_ _. None), stop_flag = (\<lambda>_. False), trace = []\<rparr>"

lemma suite_signing_key:
  "good_signing_key sample_libs (trim sample_key)" "\<not> good_signing_key sample_libs (lit ''not-a-key'')"
proof -
  show "good_signing_key sample_libs (trim sample_key)"
    using sample_key_ok by (simp add: good_signing_key_def sample_key_def)
  have "split_whitespace (lit ''not-a-key'') = [lit ''not-a-key'']"
    by (rule split_whitespace_single) (simp_all add: lit_def is_whitespace_def)
  then show "\<not> good_signing_key sample_libs (lit ''not-a-key'')"
    by (simp add: good_signing_key_def ed25519_line_def sample_libs_def)
qed

lemma suite_files:
  "faultless suite_world"
  "fs suite_world (components (path_join (lit ''/tmp'') (lit ''config.toml''))) = Some (NFile (utf8 MINIMAL) 0x1A4 0)"
  "fs suite_world (components (path_join (lit ''/tmp'') (lit ''does-not-exist.toml''))) = None"
proof -
  have "components (path_join (lit ''/tmp'') (lit ''does-not-exist.toml'')) \<noteq> components (path_join (lit ''/tmp'') (lit ''config.toml''))"
    by code_simp
  then show "faultless suite_world"
    "fs suite_world (components (path_join (lit ''/tmp'') (lit ''config.toml''))) = Some (NFile (utf8 MINIMAL) 0x1A4 0)"
    "fs suite_world (components (path_join (lit ''/tmp'') (lit ''does-not-exist.toml''))) = None"
    by (simp_all add: faultless_def suite_world_def)
qed

end
