(* ===== verification/Status_Tests.thy ===== *)
theory Status_Tests
  imports Validation Runtime_State File_Tests Config_Tests
begin

text \<open>
  The unit tests of \<open>src/service/runtime_state.rs\<close> and \<open>src/service/validation.rs\<close>. The
  configurations of the tests are read from texts by the TOML reader, an argument; the
  directory of a test is absolute and empty.
\<close>

section \<open>The fixtures\<close>

definition state_text :: "path \<Rightarrow> str option \<Rightarrow> str" where
  "state_text dir operator_pin =
     lit ''server_url = \"https://mayfly.example.com\"'' @ [10] @ lit ''machine_id = \"host-01\"'' @ [10]
     @ lit ''state_dir = \"'' @ dir @ lit ''\"'' @ [10]
     @ (case operator_pin of Some k \<Rightarrow> lit ''bundle_signing_public_key = \"'' @ k @ lit ''\"'' @ [10] | None \<Rightarrow> [])"

definition config_in :: "libs \<Rightarrow> (str \<Rightarrow> str + raw_config) \<Rightarrow> path \<Rightarrow> str option \<Rightarrow> config io" where
  "config_in L toml dir operator_pin = lift_res (load L toml (state_text dir operator_pin))"

definition a_key :: "libs \<Rightarrow> str io" where
  "a_key L = bind_io (keypair_generate L) (\<lambda>kp. lift_res (public_key_openssh L kp))"

definition test_status :: runtime_status where
  "test_status = \<lparr>st_agent_version = lit ''0.1.0'', st_machine_id = lit ''srv_abc'', st_started_at_unix = 1700000000,
     st_last_heartbeat_unix = Some 1700000060, st_last_heartbeat_ok = Some True, st_last_sync_unix = Some 1700000300,
     st_last_sync_outcome = Some (lit ''updated''), st_current_generation = 7, st_clean_shutdown = True\<rparr>"

section \<open>The persisted state\<close>

definition status_round_trips_and_missing_is_none ::
    "libs \<Rightarrow> (str \<Rightarrow> str + raw_config) \<Rightarrow> (runtime_status \<Rightarrow> str + bytes) \<Rightarrow> (bytes \<Rightarrow> str + runtime_status) \<Rightarrow> path \<Rightarrow> bool io" where
  "status_round_trips_and_missing_is_none L toml enc dec dir =
     bind_io (config_in L toml dir None) (\<lambda>c. bind_io (status_load dec c) (\<lambda>before.
     bind_io (status_save enc test_status c) (\<lambda>_. bind_io (status_load dec c) (\<lambda>loaded.
     return_io (before = None \<and> loaded = Some test_status)))))"

definition read_generation_defaults_to_zero_then_reads_value :: "libs \<Rightarrow> (str \<Rightarrow> str + raw_config) \<Rightarrow> path \<Rightarrow> bool io" where
  "read_generation_defaults_to_zero_then_reads_value L toml dir =
     bind_io (config_in L toml dir None) (\<lambda>c. bind_io (Runtime_State.read_generation c) (\<lambda>g0.
     bind_io (secure_write (config_generation_path c) (utf8 (lit ''42'' @ [10])) MODE_PUBLIC) (\<lambda>_.
     bind_io (Runtime_State.read_generation c) (\<lambda>g. return_io (g0 = 0 \<and> g = 42)))))"

definition pin_written_once_then_idempotent :: "libs \<Rightarrow> (str \<Rightarrow> str + raw_config) \<Rightarrow> path \<Rightarrow> bool io" where
  "pin_written_once_then_idempotent L toml dir =
     bind_io (config_in L toml dir None) (\<lambda>c. bind_io (a_key L) (\<lambda>key.
     bind_io (pin_bundle_signing_key c (Some key)) (\<lambda>pinned.
     bind_io (read_text (config_bundle_signing_key_path c)) (\<lambda>on_disk.
     bind_io (a_key L) (\<lambda>other. bind_io (pin_bundle_signing_key c (Some other)) (\<lambda>pinned_again.
     bind_io (read_text (config_bundle_signing_key_path c)) (\<lambda>again.
     return_io (pinned \<and> trim on_disk = trim key \<and> \<not> pinned_again \<and> trim again = trim key))))))))"

definition pin_skipped_when_operator_pin_configured :: "libs \<Rightarrow> (str \<Rightarrow> str + raw_config) \<Rightarrow> path \<Rightarrow> bool io" where
  "pin_skipped_when_operator_pin_configured L toml dir =
     bind_io (a_key L) (\<lambda>operator. bind_io (config_in L toml dir (Some operator)) (\<lambda>c.
     bind_io (a_key L) (\<lambda>key. bind_io (pin_bundle_signing_key c (Some key)) (\<lambda>pinned.
     bind_io (observe (file_exists (config_bundle_signing_key_path c))) (\<lambda>there.
     return_io (\<not> pinned \<and> \<not> there))))))"

definition pin_skipped_when_key_absent :: "libs \<Rightarrow> (str \<Rightarrow> str + raw_config) \<Rightarrow> path \<Rightarrow> bool io" where
  "pin_skipped_when_key_absent L toml dir =
     bind_io (config_in L toml dir None) (\<lambda>c. bind_io (pin_bundle_signing_key c None) (\<lambda>pinned.
     bind_io (observe (file_exists (config_bundle_signing_key_path c))) (\<lambda>there.
     return_io (\<not> pinned \<and> \<not> there))))"

definition ensure_state_dir_creates_directory :: "u32 \<Rightarrow> path \<Rightarrow> bool io" where
  "ensure_state_dir_creates_directory dmode dir =
     (let nested = path_join dir (lit ''var/lib/mayfly'')
      in bind_io (ensure_state_dir dmode nested) (\<lambda>_.
         bind_io (observe (sys_is_dir (components nested))) (\<lambda>there.
         bind_io (ensure_state_dir dmode nested) (\<lambda>_. return_io there))))"

section \<open>The start-up checks\<close>

definition dirs_text :: "path \<Rightarrow> path \<Rightarrow> path \<Rightarrow> path \<Rightarrow> str" where
  "dirs_text identity state socket token =
     lit ''server_url = \"https://x.example.com\"'' @ [10] @ lit ''machine_id = \"host-01\"'' @ [10]
     @ lit ''identity_dir = \"'' @ identity @ lit ''\"'' @ [10] @ lit ''state_dir = \"'' @ state @ lit ''\"'' @ [10]
     @ lit ''helper_socket_path = \"'' @ socket @ lit ''\"'' @ [10] @ lit ''helper_token_path = \"'' @ token @ lit ''\"'' @ [10]"

definition config_with_dirs :: "libs \<Rightarrow> (str \<Rightarrow> str + raw_config) \<Rightarrow> path \<Rightarrow> path \<Rightarrow> path \<Rightarrow> path \<Rightarrow> config io" where
  "config_with_dirs L toml identity state socket token = lift_res (load L toml (dirs_text identity state socket token))"

text \<open>The configuration of a test, whose socket and token are in its directory, and the report.\<close>

definition report_for ::
    "libs \<Rightarrow> (str \<Rightarrow> str + raw_config) \<Rightarrow> (ipc_request \<Rightarrow> bytes option) \<Rightarrow> (bytes \<Rightarrow> ipc_response option)
     \<Rightarrow> path \<Rightarrow> path \<Rightarrow> validation_report io" where
  "report_for L toml hreq hresp identity dir =
     bind_io (config_with_dirs L toml identity dir (path_join dir (lit ''helper.sock'')) (path_join dir (lit ''helper.token''))) (\<lambda>c.
     observe (validate_startup L hreq hresp c))"

definition severity_of :: "validation_report \<Rightarrow> string \<Rightarrow> severity option" where
  "severity_of r name = map_option ck_severity (find (\<lambda>c. ck_name c = name) (rep_checks r))"

definition report_includes_all_expected_checks ::
    "libs \<Rightarrow> (str \<Rightarrow> str + raw_config) \<Rightarrow> (ipc_request \<Rightarrow> bytes option) \<Rightarrow> (bytes \<Rightarrow> ipc_response option) \<Rightarrow> path \<Rightarrow> bool io" where
  "report_includes_all_expected_checks L toml hreq hresp dir =
     bind_io (report_for L toml hreq hresp dir dir) (\<lambda>report.
     return_io (list_all (\<lambda>expected. expected \<in> set (map ck_name (rep_checks report)))
       [''configuration'', ''identity'', ''state_dir'', ''helper_token'', ''helper'', ''systemd'', ''ssh_compatibility'']))"

definition missing_identity_dir_is_fatal ::
    "libs \<Rightarrow> (str \<Rightarrow> str + raw_config) \<Rightarrow> (ipc_request \<Rightarrow> bytes option) \<Rightarrow> (bytes \<Rightarrow> ipc_response option) \<Rightarrow> path \<Rightarrow> bool io" where
  "missing_identity_dir_is_fatal L toml hreq hresp dir =
     bind_io (report_for L toml hreq hresp (path_join dir (lit ''no-such-identity'')) dir) (\<lambda>report.
     return_io (has_failures report \<and> isl (into_result report)))"

definition present_dirs_pass_identity_check ::
    "libs \<Rightarrow> (str \<Rightarrow> str + raw_config) \<Rightarrow> (ipc_request \<Rightarrow> bytes option) \<Rightarrow> (bytes \<Rightarrow> ipc_response option) \<Rightarrow> path \<Rightarrow> bool io" where
  "present_dirs_pass_identity_check L toml hreq hresp dir =
     bind_io (report_for L toml hreq hresp dir dir) (\<lambda>report.
     return_io (severity_of report ''identity'' = Some SevOk \<and> severity_of report ''helper'' = Some SevWarn
       \<and> \<not> has_failures report))"

definition empty_token_is_warning ::
    "libs \<Rightarrow> (str \<Rightarrow> str + raw_config) \<Rightarrow> (ipc_request \<Rightarrow> bytes option) \<Rightarrow> (bytes \<Rightarrow> ipc_response option) \<Rightarrow> path \<Rightarrow> bool io" where
  "empty_token_is_warning L toml hreq hresp dir =
     bind_io (fs_write (path_join dir (lit ''helper.token'')) (utf8 (lit ''   '' @ [10]))) (\<lambda>_.
     bind_io (report_for L toml hreq hresp dir dir) (\<lambda>report.
     return_io (severity_of report ''helper_token'' = Some SevWarn)))"

section \<open>Reading the configurations\<close>

text \<open>The texts of a directory as TOML reads them; the keys in them have no quotes.\<close>

definition dirs_raw :: "path \<Rightarrow> path \<Rightarrow> raw_config" where
  "dirs_raw identity dir = (two_raw ''https://x.example.com'' ''host-01'')\<lparr>rc_identity_dir := Some identity,
     rc_state_dir := Some dir, rc_helper_socket_path := Some (path_join dir (lit ''helper.sock'')),
     rc_helper_token_path := Some (path_join dir (lit ''helper.token''))\<rparr>"

definition reads_dir_texts :: "(str \<Rightarrow> str + raw_config) \<Rightarrow> path \<Rightarrow> bool" where
  "reads_dir_texts toml dir \<longleftrightarrow>
     toml (state_text dir None) = Inr (minimal_raw\<lparr>rc_state_dir := Some dir\<rparr>)
     \<and> (\<forall>k. 34 \<notin> set k \<and> 92 \<notin> set k \<and> (\<forall>c \<in> set k. \<not> is_control c) \<longrightarrow>
          toml (state_text dir (Some k)) = Inr (minimal_raw\<lparr>rc_state_dir := Some dir, rc_bundle_signing_public_key := Some k\<rparr>))
     \<and> (\<forall>identity \<in> {dir, path_join dir (lit ''no-such-identity'')}.
          toml (dirs_text identity dir (path_join dir (lit ''helper.sock'')) (path_join dir (lit ''helper.token'')))
          = Inr (dirs_raw identity dir))"

definition plain_lines :: "libs \<Rightarrow> bool" where
  "plain_lines L \<longleftrightarrow> (\<forall>k p. lib_public_write L k = Some p \<longrightarrow> 34 \<notin> set p \<and> 92 \<notin> set p)"

lemma status_names:
  "plain_name RUNTIME_STATUS_FILE" "plain_name GENERATION_FILE" "plain_name SIGNING_KEY_FILE"
  "take 4 RUNTIME_STATUS_FILE \<noteq> tmp_prefix" "take 4 GENERATION_FILE \<noteq> tmp_prefix" "take 4 SIGNING_KEY_FILE \<noteq> tmp_prefix"
  "plain_name (lit ''helper.sock'')" "plain_name (lit ''helper.token'')" "plain_name (lit ''no-such-identity'')"
  "plain_name (lit ''var'')" "plain_name (lit ''lib'')" "plain_name (lit ''mayfly'')"
  by (simp_all add: plain_name_def RUNTIME_STATUS_FILE_def GENERATION_FILE_def SIGNING_KEY_FILE_def tmp_prefix_def lit_def)

lemma good_path_join:
  assumes "good_path dir" and "plain_name f"
  shows "good_path (path_join dir f)"
proof -
  have "hd (path_join dir f) = 47" "path_join dir f \<noteq> []"
    using assms by (auto simp: good_path_def is_absolute_def path_join_def plain_name_def)
  then show ?thesis
    using assms components_path_join [OF assms(2), of dir] by (simp add: good_path_def is_absolute_def)
qed

lemma good_path_components: "good_path dir \<Longrightarrow> components dir \<noteq> []"
  by (auto simp: good_path_def is_absolute_def components_def)

lemma load_state_config:
  assumes "reads_dir_texts toml dir" and "good_path dir"
  shows "config_in L toml dir None w = (Inr (config_of_raw (minimal_raw\<lparr>rc_state_dir := Some dir\<rparr>)), w)"
    and "good_signing_key L k \<Longrightarrow> 34 \<notin> set k \<Longrightarrow> 92 \<notin> set k \<Longrightarrow> config_in L toml dir (Some k) w
      = (Inr (config_of_raw (minimal_raw\<lparr>rc_state_dir := Some dir, rc_bundle_signing_public_key := Some k\<rparr>)), w)"
proof -
  have "good_config L (config_of_raw (minimal_raw\<lparr>rc_state_dir := Some dir\<rparr>))" using assms(2) by (simp add: config_facts)
  then show "config_in L toml dir None w = (Inr (config_of_raw (minimal_raw\<lparr>rc_state_dir := Some dir\<rparr>)), w)"
    using load_good [of toml "state_text dir None"] assms(1) by (simp add: config_in_def lift_res_def reads_dir_texts_def)
  assume k: "good_signing_key L k" "34 \<notin> set k" "92 \<notin> set k"
  then have "\<forall>c \<in> set k. \<not> is_control c" by (simp add: good_signing_key_def ed25519_line_def)
  then have "toml (state_text dir (Some k)) = Inr (minimal_raw\<lparr>rc_state_dir := Some dir, rc_bundle_signing_public_key := Some k\<rparr>)"
    using assms(1) k(2,3) by (simp add: reads_dir_texts_def)
  moreover have "good_config L (config_of_raw (minimal_raw\<lparr>rc_state_dir := Some dir, rc_bundle_signing_public_key := Some k\<rparr>))"
    using assms(2) k(1) by (simp add: config_facts)
  ultimately show "config_in L toml dir (Some k) w
      = (Inr (config_of_raw (minimal_raw\<lparr>rc_state_dir := Some dir, rc_bundle_signing_public_key := Some k\<rparr>)), w)"
    using load_good [of toml "state_text dir (Some k)"] by (simp add: config_in_def lift_res_def)
qed

lemma load_dirs_config:
  assumes "reads_dir_texts toml dir" and "good_path dir" and "identity \<in> {dir, path_join dir (lit ''no-such-identity'')}"
  shows "config_with_dirs L toml identity dir (path_join dir (lit ''helper.sock'')) (path_join dir (lit ''helper.token'')) w
      = (Inr (config_of_raw (dirs_raw identity dir)), w)" and "good_config L (config_of_raw (dirs_raw identity dir))"
proof -
  have "good_url b (lit ''https://x.example.com'')" for b
    using good_https [of "''x.example.com''" b] by (simp add: is_whitespace_def)
  moreover have "good_path identity" "good_path (path_join dir (lit ''helper.sock''))" "good_path (path_join dir (lit ''helper.token''))"
    using assms(2,3) good_path_join [OF assms(2)] status_names by auto
  ultimately show g: "good_config L (config_of_raw (dirs_raw identity dir))"
    using assms(2) by (simp add: config_facts dirs_raw_def)
  then show "config_with_dirs L toml identity dir (path_join dir (lit ''helper.sock'')) (path_join dir (lit ''helper.token'')) w
      = (Inr (config_of_raw (dirs_raw identity dir)), w)"
    using load_good [of toml _ "dirs_raw identity dir" L] assms(1,3)
    unfolding config_with_dirs_def lift_res_def reads_dir_texts_def by auto
qed

section \<open>The state tests pass\<close>

definition status_codec_ok :: "(runtime_status \<Rightarrow> str + bytes) \<Rightarrow> (bytes \<Rightarrow> str + runtime_status) \<Rightarrow> bool" where
  "status_codec_ok enc dec \<longleftrightarrow> (\<exists>json. enc test_status = Inr json \<and> dec (json @ [10]) = Inr test_status)"

lemma state_paths:
  "status_path (config_of_raw (minimal_raw\<lparr>rc_state_dir := Some dir\<rparr>)) = path_join dir RUNTIME_STATUS_FILE"
  "config_generation_path (config_of_raw (minimal_raw\<lparr>rc_state_dir := Some dir\<rparr>)) = path_join dir GENERATION_FILE"
  "config_bundle_signing_key_path (config_of_raw (minimal_raw\<lparr>rc_state_dir := Some dir\<rparr>)) = path_join dir SIGNING_KEY_FILE"
  "config_bundle_signing_key_path (config_of_raw (minimal_raw\<lparr>rc_state_dir := Some dir, rc_bundle_signing_public_key := k\<rparr>))
    = path_join dir SIGNING_KEY_FILE"
  "cfg_bundle_signing_public_key (config_of_raw (minimal_raw\<lparr>rc_state_dir := Some dir\<rparr>)) = None"
  "cfg_bundle_signing_public_key (config_of_raw (minimal_raw\<lparr>rc_state_dir := Some dir, rc_bundle_signing_public_key := k\<rparr>)) = k"
  by (simp_all add: status_path_def config_generation_path_def config_bundle_signing_key_path_def config_of_raw_def minimal_raw_def)

lemma written_once:
  assumes "empty_dir dir w" and "plain_name f" "take 4 f \<noteq> tmp_prefix"
  obtains w' where "secure_write (path_join dir f) bs MODE_PUBLIC w = (Inr (), w')"
    "fs w' = (fs w)(components dir @ [Normal f] \<mapsto> NFile bs MODE_PUBLIC (euid w))" "calm w'"
proof -
  have c: "calm w" and ne: "components dir \<noteq> []" using assms(1) by (simp_all add: empty_dir_def)
  have "writable {path_join dir f} (fs w)" by (rule empty_dir_writable [OF assms(1)]) (use assms(2,3) in auto)
  from calm_write [OF c this singletonI] show ?thesis using that in_dir(2) [OF assms(2) ne] by metis
qed

lemma calm_faults: "calm w \<Longrightarrow> fault w t = None"
  by (simp add: calm_def faultless_def)

lemma stored_value_tests:
  assumes "empty_dir dir w" and "good_path dir" and "reads_dir_texts toml dir" and "status_codec_ok enc dec"
  shows "passes (status_round_trips_and_missing_is_none L toml enc dec dir) w"
    "passes (read_generation_defaults_to_zero_then_reads_value L toml dir) w"
    "passes (pin_skipped_when_key_absent L toml dir) w"
proof -
  have f: "fault w t = None" for t by (rule empty_dir_faults [OF assms(1)])
  have ne: "components dir \<noteq> []" and none: "fs w (components dir @ [c]) = None" for c
    using assms(1) by (simp_all add: empty_dir_def)
  note at = in_dir(2) [OF status_names(1) ne] in_dir(2) [OF status_names(2) ne] in_dir(2) [OF status_names(3) ne]
  note cfg = load_state_config(1) [OF assms(3,2)] state_paths
  have e: "empty_dir dir (advance w)" using assms(1) by simp
  from assms(4) obtain json where json: "enc test_status = Inr json" "dec (json @ [10]) = Inr test_status"
    by (auto simp: status_codec_ok_def)
  obtain w1 where 1: "secure_write (path_join dir RUNTIME_STATUS_FILE) (json @ [10]) MODE_PUBLIC (advance w) = (Inr (), w1)"
      "fs w1 = (fs (advance w))(components dir @ [Normal RUNTIME_STATUS_FILE] \<mapsto> NFile (json @ [10]) MODE_PUBLIC (euid (advance w)))"
      "calm w1" by (rule written_once [OF e status_names(1,4)])
  show "passes (status_round_trips_and_missing_is_none L toml enc dec dir) w"
    using json 1 calm_faults [OF 1(3)]
    by (simp add: status_round_trips_and_missing_is_none_def cfg running at f none status_load_def status_save_def stat_missing
        os_err_def)
  obtain w2 where 2: "secure_write (path_join dir GENERATION_FILE) (utf8 (lit ''42'' @ [10])) MODE_PUBLIC (advance w) = (Inr (), w2)"
      "fs w2 = (fs (advance w))(components dir @ [Normal GENERATION_FILE] \<mapsto> NFile (utf8 (lit ''42'' @ [10])) MODE_PUBLIC (euid (advance w)))"
      "calm w2" by (rule written_once [OF e status_names(2,5)])
  have "list_all is_scalar (lit ''42'' @ [10])" by (simp add: lit_def is_scalar_def)
  then have u: "from_utf8 (utf8 (lit ''42'' @ [10])) = Some (lit ''42'' @ [10])" by (rule from_utf8_utf8)
  have t: "trim (lit ''42'' @ [10]) = lit ''42''" "parse_u64 (lit ''42'') = Some 42" "lit ''42'' \<noteq> []" "trim (lit ''42'') = lit ''42''"
    by (simp_all add: lit_def trim_def trim_start_def trim_end_def is_whitespace_def parse_u64_def is_ascii_digit_def dec_val_def)
  show "passes (read_generation_defaults_to_zero_then_reads_value L toml dir) w"
    using 2 calm_faults [OF 2(3)] u t
    by (simp add: read_generation_defaults_to_zero_then_reads_value_def cfg running at f none Runtime_State.read_generation_def
        runtime_read_optional_string_def stat_missing os_err_def)
  show "passes (pin_skipped_when_key_absent L toml dir) w"
    by (simp add: pin_skipped_when_key_absent_def cfg running at f none pin_bundle_signing_key_def stat_missing)
qed

lemma key_drawn:
  assumes "enrollment_libs L" and "plain_lines L"
  obtains line where "a_key L w = (Inr line, advance w)" "good_signing_key L line" "list_all is_scalar line"
    "34 \<notin> set line" "92 \<notin> set line"
proof -
  obtain kp line where kp: "keypair_generate L w = (Inr kp, advance w)" "public_key_openssh L kp = Inr line"
      "ed25519_line L line" "list_all is_scalar line" "starts_with line (lit ''ssh-ed25519 '')"
    by (rule generate_key [OF assms(1)])
  have "115 \<in> set line" using kp(5) by (auto simp: starts_with_iff lit_def)
  moreover have "\<not> is_whitespace 115" by (simp add: is_whitespace_def)
  ultimately have "trim line \<noteq> []" unfolding trim_eq_Nil by metis
  moreover have "34 \<notin> set line \<and> 92 \<notin> set line"
    using assms(2) kp(2) by (auto simp: plain_lines_def public_key_openssh_def split: option.splits)
  ultimately show ?thesis using that [of line] kp(1-4) by (simp add: a_key_def bind_io_def lift_res_def good_signing_key_def)
qed

lemma pin_tests:
  assumes "empty_dir dir w" and "good_path dir" and "reads_dir_texts toml dir" and "enrollment_libs L" "plain_lines L"
  shows "passes (pin_written_once_then_idempotent L toml dir) w" "passes (pin_skipped_when_operator_pin_configured L toml dir) w"
proof -
  have f: "fault w t = None" for t by (rule empty_dir_faults [OF assms(1)])
  have ne: "components dir \<noteq> []" and none: "fs w (components dir @ [c]) = None" for c
    using assms(1) by (simp_all add: empty_dir_def)
  note at = in_dir(2) [OF status_names(3) ne]
  obtain line where l: "a_key L w = (Inr line, advance w)" "good_signing_key L line" "list_all is_scalar line"
      "34 \<notin> set line" "92 \<notin> set line" by (rule key_drawn [OF assms(4,5)])
  obtain line2 where l2: "a_key L (advance w) = (Inr line2, advance (advance w))" by (rule key_drawn [OF assms(4,5)])
  show "passes (pin_skipped_when_operator_pin_configured L toml dir) w"
    using l(1) l2
    by (simp add: pin_skipped_when_operator_pin_configured_def load_state_config(2) [OF assms(3,2) l(2,4,5)] state_paths running at f
        none pin_bundle_signing_key_def stat_missing)
  have "empty_dir dir (advance (advance w))" using assms(1) by simp
  then obtain w1 where 1: "secure_write (path_join dir SIGNING_KEY_FILE) (utf8 (trim line @ [10])) MODE_PUBLIC (advance (advance w)) = (Inr (), w1)"
      "fs w1 = (fs (advance (advance w)))(components dir @ [Normal SIGNING_KEY_FILE] \<mapsto> NFile (utf8 (trim line @ [10])) MODE_PUBLIC (euid (advance (advance w))))"
      "calm w1" by (rule written_once [OF _ status_names(3,6)])
  obtain line3 where l3: "a_key L (advance w1) = (Inr line3, advance (advance w1))" by (rule key_drawn [OF assms(4,5)])
  obtain u v where "line = u @ trim line @ v" using trim_decomp [of line] by blast
  with l(3) have "list_all is_scalar (trim line)" by (metis list_all_append)
  then have "list_all is_scalar (trim line @ [10])" by (simp add: is_scalar_def)
  then have u: "from_utf8 (utf8 (trim line @ [10])) = Some (trim line @ [10])" by (rule from_utf8_utf8)
  have t: "trim (trim line @ [10]) = trim line" "trim line \<noteq> []"
    using trim_append_ws [of "[10]" "trim line"] l(2) by (simp_all add: is_whitespace_def good_signing_key_def)
  show "passes (pin_written_once_then_idempotent L toml dir) w"
    using 1 l(1) l3 u t calm_faults [OF 1(3)]
    by (simp add: pin_written_once_then_idempotent_def load_state_config(1) [OF assms(3,2)] state_paths running at f none
        pin_bundle_signing_key_def runtime_read_optional_string_def stat_missing os_err_def)
qed

lemma nested_key:
  assumes "components dir \<noteq> []"
  shows "components (path_join dir (lit ''var/lib/mayfly'')) = components dir @ [Normal (lit ''var''), Normal (lit ''lib''), Normal (lit ''mayfly'')]"
proof -
  have "path_join dir (lit ''var/lib/mayfly'') = path_join (path_join (path_join dir (lit ''var'')) (lit ''lib'')) (lit ''mayfly'')"
    by (simp add: path_join_def is_absolute_def lit_def)
  then show ?thesis by (simp add: components_path_join status_names)
qed

lemma mkdir_test:
  assumes "empty_dir dir w"
  shows "passes (ensure_state_dir_creates_directory dmode dir) w"
proof -
  have f: "fault w t = None" for t by (rule empty_dir_faults [OF assms])
  have ne: "components dir \<noteq> []" and none: "fs w (components dir @ c # rest) = None" for c rest
    using assms by (simp_all add: empty_dir_def)
  from assms obtain mo u where d: "fs w (components dir) = Some (NDir mo u)" by (auto simp: empty_dir_def)
  have bl: "butlast (components dir @ [a, b, c]) = components dir @ [a, b]" "butlast (components dir @ [a, b]) = components dir @ [a]"
    "butlast (components dir @ [a]) = components dir" for a b c by (simp_all add: butlast_append)
  have follow: "follow max_links m k = Some k" if "m k = Some (NDir a b)" for m k a b
    using that by (simp add: max_links_def numeral_eq_Suc)
  show ?thesis
    unfolding ensure_state_dir_creates_directory_def Let_def nested_key [OF ne] ensure_state_dir_def create_dir_all_def
    by (simp add: running f none d ne bl create_dirs.simps sys_mkdir_def stat_missing stat_of_dir os_err_def ensure_not_symlink_def
        is_symlink_def nested_key [OF ne] sys_set_permissions_def follow Let_def sys_is_dir_def or_is_dir_def)
qed

section \<open>The validation tests pass\<close>

lemma check_names:
  "dir_check n p s d w = (ck, w') \<Longrightarrow> ck_name ck = n"
  "helper_token_check c w = (ck, w') \<Longrightarrow> ck_name ck = ''helper_token''"
  "helper_check hreq hresp c w = (ck, w') \<Longrightarrow> ck_name ck = ''helper''"
  "systemd_check w = (ck, w') \<Longrightarrow> ck_name ck = ''systemd''"
  "ssh_compat_check w = (ck, w') \<Longrightarrow> ck_name ck = ''ssh_compatibility''"
  by (auto simp: dir_check_def helper_token_check_def helper_check_def systemd_check_def ssh_compat_check_def ck_ok_def ck_warn_def
      split: prod.splits sum.splits bool.splits if_splits)

text \<open>The report of a test: its checks by name, in order, and the severities the tests look at.\<close>

definition test_report :: "fsmap \<Rightarrow> path \<Rightarrow> path \<Rightarrow> validation_report \<Rightarrow> bool" where
  "test_report m dir identity report \<longleftrightarrow>
     map ck_name (rep_checks report) = [''configuration'', ''identity'', ''state_dir'', ''helper_token'', ''helper'', ''systemd'', ''ssh_compatibility'']
     \<and> ck_severity (rep_checks report ! 1) = (if \<exists>mo u. stat_of m (components identity) = Inr (NDir mo u) then SevOk else SevFail)
     \<and> (has_failures report \<longleftrightarrow> \<not> (\<exists>mo u. stat_of m (components identity) = Inr (NDir mo u)))
     \<and> (\<forall>e. read_of m (components (path_join dir (lit ''helper.token''))) = Inl e \<longrightarrow> ck_severity (rep_checks report ! 4) = SevWarn)
     \<and> (\<forall>bs text. read_of m (components (path_join dir (lit ''helper.token''))) = Inr bs \<longrightarrow> from_utf8 bs = Some text \<longrightarrow> trim text = []
          \<longrightarrow> ck_severity (rep_checks report ! 3) = SevWarn)"

lemma report_of:
  assumes "calm w" and "reads_dir_texts toml dir" and "good_path dir" and "identity \<in> {dir, path_join dir (lit ''no-such-identity'')}"
  obtains report w' where "report_for L toml hreq hresp identity dir w = (Inr report, w')" "test_report (fs w) dir identity report"
proof -
  let ?c = "config_of_raw (dirs_raw identity dir)"
  note cfg = load_dirs_config [OF assms(2-4)]
  have paths: "cfg_identity_dir ?c = identity" "cfg_state_dir ?c = dir" "cfg_helper_token_path ?c = path_join dir (lit ''helper.token'')"
    by (simp_all add: config_of_raw_def dirs_raw_def)
  have f: "fault w t = None" for t using assms(1) by (rule calm_faults)
  obtain ci where 1: "dir_check ''identity'' identity SevFail ''identity directory is missing'' w = (ci, advance w)"
      "ck_severity ci = (if \<exists>mo u. stat_of (fs w) (components identity) = Inr (NDir mo u) then SevOk else SevFail)"
    using assms(1) by (auto simp: dir_check_def sys_is_dir_def sys_stat_def calm_query ck_ok_def split: sum.splits node.splits)
  obtain cs where 2: "dir_check ''state_dir'' dir SevWarn ''state directory is missing'' (advance w) = (cs, advance (advance w))"
      "ck_severity cs \<noteq> SevFail"
    using assms(1) by (auto simp: dir_check_def sys_is_dir_def sys_stat_def calm_query ck_ok_def split: sum.splits node.splits)
  obtain ct w3 where 3: "helper_token_check ?c (advance (advance w)) = (ct, w3)" by fastforce
  note token = helper_token_check_def read_nonempty_def sys_read_to_string_def sys_read_def calm_query bind_io_def lift_res_def
    paths ck_warn_def ck_ok_def
  have w3: "w3 = advance (advance (advance w))"
    using 3 assms(1) by (auto simp: token split: sum.splits option.splits bool.splits if_splits prod.splits)
  have tk: "ck_severity ct = SevWarn" if "read_of (fs w) (components (path_join dir (lit ''helper.token''))) = Inr bs"
      "from_utf8 bs = Some s" "trim s = []" for bs s
    using 3 assms(1) that by (auto simp: token)
  obtain ch w4 where 4: "helper_check hreq hresp ?c w3 = (ch, w4)" by fastforce
  have h: "ck_severity ch = SevWarn" if "read_of (fs w) (components (path_join dir (lit ''helper.token''))) = Inl e" for e
    using 4 that assms(1) w3
    by (auto simp: helper_check_def from_paths_def map_err_io_def sys_read_to_string_def sys_read_def calm_query bind_io_def paths ck_warn_def)
  obtain cy w5 where 5: "systemd_check w4 = (cy, w5)" by fastforce
  obtain cx w6 where 6: "ssh_compat_check w5 = (cx, w6)" by fastforce
  have g: "configuration_check L ?c = ck_ok ''configuration''"
    using cfg(2) good_config_iff [of L ?c] by (auto simp: configuration_check_def split: sum.splits)
  let ?r = "\<lparr>rep_checks = [ck_ok ''configuration'', ci, cs, ct, ch, cy, cx]\<rparr>"
  have "report_for L toml hreq hresp identity dir w = (Inr ?r, w6)"
    using cfg(1) 1(1) 2(1) 3 4 5 6 g paths by (simp add: report_for_def bind_io_def observe_def validate_startup_def)
  moreover have "has_failures ?r \<longleftrightarrow> ck_severity ci = SevFail"
    using 2(2) survivable(1) [OF 3] survivable(2) [OF 4] survivable(3) [OF 5] survivable(4) [OF 6]
    by (simp add: has_failures_def ck_ok_def)
  ultimately show ?thesis
    using that [of ?r w6] 1(2) tk h check_names(1) [OF 1(1)] check_names(1) [OF 2(1)] check_names(2) [OF 3] check_names(3) [OF 4]
      check_names(4) [OF 5] check_names(5) [OF 6]
    by (simp add: test_report_def ck_ok_def split: if_splits)
qed

lemma severity_at:
  assumes "map ck_name (rep_checks r) = [''configuration'', ''identity'', ''state_dir'', ''helper_token'', ''helper'', ''systemd'', ''ssh_compatibility'']"
  shows "severity_of r ''identity'' = Some (ck_severity (rep_checks r ! 1))"
    "severity_of r ''helper_token'' = Some (ck_severity (rep_checks r ! 3))" "severity_of r ''helper'' = Some (ck_severity (rep_checks r ! 4))"
proof -
  obtain a b c d e f g where "rep_checks r = [a, b, c, d, e, f, g]" using assms by (auto simp: map_eq_Cons_conv)
  with assms show "severity_of r ''identity'' = Some (ck_severity (rep_checks r ! 1))"
    "severity_of r ''helper_token'' = Some (ck_severity (rep_checks r ! 3))" "severity_of r ''helper'' = Some (ck_severity (rep_checks r ! 4))"
    by (simp_all add: severity_of_def)
qed

lemma validation_tests:
  assumes "empty_dir dir w" and "good_path dir" and "reads_dir_texts toml dir"
  shows "passes (report_includes_all_expected_checks L toml hreq hresp dir) w" "passes (missing_identity_dir_is_fatal L toml hreq hresp dir) w"
    "passes (present_dirs_pass_identity_check L toml hreq hresp dir) w" "passes (empty_token_is_warning L toml hreq hresp dir) w"
proof -
  have c: "calm w" and ne: "components dir \<noteq> []" and none: "fs w (components dir @ [c]) = None" for c
    using assms(1) by (simp_all add: empty_dir_def)
  have f: "fault w t = None" for t by (rule empty_dir_faults [OF assms(1)])
  from assms(1) obtain mo u where d: "fs w (components dir) = Some (NDir mo u)" by (auto simp: empty_dir_def)
  note at = in_dir(2) [OF status_names(8) ne] in_dir(2) [OF status_names(9) ne]
  have token: "read_of (fs w) (components (path_join dir (lit ''helper.token''))) = Inl (os_err NotFound)"
    using none by (simp add: read_of_def at stat_missing)
  obtain r w' where r0: "report_for L toml hreq hresp dir dir w = (Inr r, w')" "test_report (fs w) dir dir r"
    by (rule report_of [OF c assms(3,2), of dir]) auto
  then have r: "report_for L toml hreq hresp dir dir w = (Inr r, w')"
      "map ck_name (rep_checks r) = [''configuration'', ''identity'', ''state_dir'', ''helper_token'', ''helper'', ''systemd'', ''ssh_compatibility'']"
      "ck_severity (rep_checks r ! 1) = SevOk" "\<not> has_failures r" "ck_severity (rep_checks r ! 4) = SevWarn"
    using token stat_of_dir [of "fs w", OF d] by (simp_all add: test_report_def)
  show "passes (report_includes_all_expected_checks L toml hreq hresp dir) w"
    using r(1,2) by (simp add: report_includes_all_expected_checks_def running del: set_map)
  show "passes (present_dirs_pass_identity_check L toml hreq hresp dir) w"
    using r severity_at [OF r(2)] by (simp add: present_dirs_pass_identity_check_def running)
  obtain r2 w2 where r2: "report_for L toml hreq hresp (path_join dir (lit ''no-such-identity'')) dir w = (Inr r2, w2)"
      "test_report (fs w) dir (path_join dir (lit ''no-such-identity'')) r2"
    by (rule report_of [OF c assms(3,2), of "path_join dir (lit ''no-such-identity'')"]) auto
  then have fails: "has_failures r2" using none by (simp add: test_report_def at stat_missing)
  from fails have "into_result r2 \<noteq> Inr ()" by (simp add: into_result_iff)
  then have "isl (into_result r2)" by (cases "into_result r2") auto
  with r2(1) fails show "passes (missing_identity_dir_is_fatal L toml hreq hresp dir) w"
    by (simp add: missing_identity_dir_is_fatal_def running)
  let ?bs = "utf8 (lit ''   '' @ [10])"
  let ?m = "(fs w)(components dir @ [Normal (lit ''helper.token'')] \<mapsto> NFile ?bs 0x1A4 (euid w))"
  let ?v = "(advance w)\<lparr>fs := ?m, trace := trace w @ [FsNow ?m]\<rparr>"
  have "\<not> is_tmp (components dir @ [Normal (lit ''helper.token'')])" by (rule not_tmp_name) (simp add: lit_def tmp_prefix_def)
  then have cv: "calm ?v" using c by (auto simp: calm_def faultless_def)
  have "list_all is_scalar (lit ''   '' @ [10])" by (simp add: lit_def is_scalar_def)
  then have u: "from_utf8 ?bs = Some (lit ''   '' @ [10])" by (rule from_utf8_utf8)
  have t: "trim (lit ''   '' @ [10]) = []" by (simp add: trim_eq_Nil lit_def is_whitespace_def)
  have rd: "read_of (fs ?v) (components (path_join dir (lit ''helper.token''))) = Inr ?bs" by (simp add: read_of_def at stat_of_file)
  obtain r3 w3 where r3: "report_for L toml hreq hresp dir dir ?v = (Inr r3, w3)" "test_report (fs ?v) dir dir r3"
    by (rule report_of [OF cv assms(3,2), of dir]) auto
  then have names: "map ck_name (rep_checks r3)
      = [''configuration'', ''identity'', ''state_dir'', ''helper_token'', ''helper'', ''systemd'', ''ssh_compatibility'']"
    unfolding test_report_def by blast
  have "ck_severity (rep_checks r3 ! 3) = SevWarn" using r3(2) rd u t unfolding test_report_def by blast
  moreover have "fs_write (path_join dir (lit ''helper.token'')) ?bs w = (Inr (), ?v)" using f by (simp add: running at)
  ultimately show "passes (empty_token_is_warning L toml hreq hresp dir) w"
    using r3(1) severity_at(2) [OF names] by (simp add: empty_token_is_warning_def passes_def bind_io_def return_io_def)
qed

section \<open>The suites\<close>

definition status_tests_pass ::
    "libs \<Rightarrow> (str \<Rightarrow> str + raw_config) \<Rightarrow> (runtime_status \<Rightarrow> str + bytes) \<Rightarrow> (bytes \<Rightarrow> str + runtime_status)
     \<Rightarrow> (ipc_request \<Rightarrow> bytes option) \<Rightarrow> (bytes \<Rightarrow> ipc_response option) \<Rightarrow> u32 \<Rightarrow> path \<Rightarrow> world \<Rightarrow> bool" where
  "status_tests_pass L toml enc dec hreq hresp dmode dir w \<longleftrightarrow>
     list_all (\<lambda>test. passes test w)
       [status_round_trips_and_missing_is_none L toml enc dec dir, read_generation_defaults_to_zero_then_reads_value L toml dir,
        pin_written_once_then_idempotent L toml dir, pin_skipped_when_operator_pin_configured L toml dir,
        pin_skipped_when_key_absent L toml dir, ensure_state_dir_creates_directory dmode dir,
        report_includes_all_expected_checks L toml hreq hresp dir, missing_identity_dir_is_fatal L toml hreq hresp dir,
        present_dirs_pass_identity_check L toml hreq hresp dir, empty_token_is_warning L toml hreq hresp dir]"

theorem status_suites_pass:
  assumes "empty_dir dir w" and "good_path dir" and "reads_dir_texts toml dir" and "status_codec_ok enc dec"
    and "enrollment_libs L" "plain_lines L"
  shows "status_tests_pass L toml enc dec hreq hresp dmode dir w"
  using stored_value_tests [OF assms(1-4)] pin_tests [OF assms(1-3,5,6)] mkdir_test [OF assms(1)] validation_tests [OF assms(1-3)]
  by (simp add: status_tests_pass_def)

end
