(* ===== verification/Enrollment_Tests.thy ===== *)
theory Enrollment_Tests
  imports File_Tests
begin

text \<open>
  The unit tests of \<open>src/identity/enrollment.rs\<close>. A test that works in a temporary directory is
  a computation in a world (\<open>Test_Support\<close>). Left out are the tests of the derived JSON codecs.
\<close>

section \<open>The fixtures\<close>

definition permissions_of :: "path \<Rightarrow> u32 io" where
  "permissions_of p = bind_io (metadata p) (\<lambda>n. return_io (node_mode n AND 0x1FF))"

definition TOKEN :: str where
  "TOKEN = lit ''mf_enroll_abcDEF123456''"

definition SERVER :: str where
  "SERVER = lit ''https://mayfly.example.com''"

definition HOST :: str where
  "HOST = lit ''web-01''"

definition service :: "path \<Rightarrow> enrollment_service" where
  "service dir = enrollment_service_new dir"

definition valid_server_identity :: "libs \<Rightarrow> str io" where
  "valid_server_identity L = bind_io (keypair_generate L) (\<lambda>kp. lift_res (public_key_openssh L kp))"

definition ok_response :: "libs \<Rightarrow> enrollment_response io" where
  "ok_response L = bind_io (valid_server_identity L) (\<lambda>identity.
     return_io \<lparr>en_machine_id = lit ''srv_abc123'', en_heartbeat_interval = 60, en_sync_interval = 300,
       en_server_identity = identity, en_bundle_signing_key = None\<rparr>)"

section \<open>Tests of the checks\<close>

definition token_validation :: bool where
  "token_validation \<longleftrightarrow> validate_token TOKEN = Inr ()
     \<and> list_all (\<lambda>bad. validate_token bad = Inl InvalidToken)
         [lit '''', lit ''enroll_abc'', lit ''mf_enroll_'', lit ''mf_enroll_has space'', lit ''mf_enroll_semi;colon'']"

definition hostname_validation :: bool where
  "hostname_validation \<longleftrightarrow>
     list_all (\<lambda>good. validate_hostname good = Inr ()) [lit ''web-01'', lit ''a'', lit ''host.example.com'', lit ''node-7.dc1'']
     \<and> list_all (\<lambda>bad. validate_hostname bad = Inl InvalidHostname)
         [lit '''', lit ''has space'', lit ''-leading'', lit ''trailing-'', lit ''a..b'', lit ''under_score'', lit ''end.'']"

definition server_url_validation :: bool where
  "server_url_validation \<longleftrightarrow> validate_server_url SERVER = Inr ()
     \<and> list_all (\<lambda>bad. validate_server_url bad = Inl InvalidServerUrl)
         [lit '''', lit ''http://x.com'', lit ''https://'', lit ''ftp://x'', lit '' https://x.com'']"

definition response_validation_accepts_good_response :: "libs \<Rightarrow> bool io" where
  "response_validation_accepts_good_response L =
     bind_io (ok_response L) (\<lambda>r. return_io (validate_enrollment_response L r = Inr ()))"

definition response_validation_rejects_bad_responses :: "libs \<Rightarrow> bool io" where
  "response_validation_rejects_bad_responses L =
     bind_io (ok_response L) (\<lambda>r1. bind_io (ok_response L) (\<lambda>r2. bind_io (ok_response L) (\<lambda>r3.
     bind_io (ok_response L) (\<lambda>r4. bind_io (ok_response L) (\<lambda>r5. bind_io (ok_response L) (\<lambda>r6.
     return_io (list_all (\<lambda>(r, e). validate_enrollment_response L r = Inl (InvalidServerResponse e))
       [(r1\<lparr>en_machine_id := []\<rparr>, EmptyMachineId),
        (r2\<lparr>en_machine_id := lit ''has space''\<rparr>, InvalidMachineId),
        (r3\<lparr>en_heartbeat_interval := 0\<rparr>, IntervalOutOfRange),
        (r4\<lparr>en_sync_interval := 1000000\<rparr>, IntervalOutOfRange),
        (r5\<lparr>en_server_identity := lit ''not-a-key''\<rparr>, InvalidServerIdentity),
        (r6\<lparr>en_bundle_signing_key := Some (lit ''not-a-key'')\<rparr>, InvalidBundleSigningKey)])))))))"

definition response_validation_accepts_valid_bundle_signing_key :: "libs \<Rightarrow> bool io" where
  "response_validation_accepts_valid_bundle_signing_key L =
     bind_io (ok_response L) (\<lambda>r. bind_io (valid_server_identity L) (\<lambda>key.
     return_io (validate_enrollment_response L (r\<lparr>en_bundle_signing_key := Some key\<rparr>) = Inr ())))"

section \<open>Tests of requests and key files\<close>

text \<open>The JSON of a request has its fields, by name; they are read off the request here.\<close>

definition request_serializes_with_expected_fields :: "libs \<Rightarrow> host_env \<Rightarrow> path \<Rightarrow> bool io" where
  "request_serializes_with_expected_fields L env dir =
     bind_io (generate_machine_keypair L (service dir)) (\<lambda>kp.
     bind_io (lift_res (create_enrollment_request L env TOKEN HOST kp)) (\<lambda>rq.
     return_io (er_enrollment_token rq = TOKEN \<and> er_hostname rq = HOST \<and> er_os rq = he_os env \<and> er_arch rq = he_arch env
       \<and> er_agent_version rq = he_version env \<and> starts_with (er_public_key rq) (lit ''ssh-ed25519 ''))))"

text \<open>What \<open>debug_struct\<close> prints of fields whose values need no escapes.\<close>

fun debug_fields :: "(str \<times> str) list \<Rightarrow> str" where
  "debug_fields [] = []"
| "debug_fields [(f, v)] = f @ lit '': \"'' @ v @ lit ''\"''"
| "debug_fields ((f, v) # rest) = f @ lit '': \"'' @ v @ lit ''\", '' @ debug_fields rest"

definition debug_text :: "str \<Rightarrow> (str \<times> str) list \<Rightarrow> str" where
  "debug_text name shown = name @ lit '' { '' @ debug_fields shown @ lit '' }''"

definition request_debug_redacts_token :: bool where
  "request_debug_redacts_token \<longleftrightarrow>
     (let debug = debug_text (lit ''EnrollmentRequest'') (request_debug
        \<lparr>er_enrollment_token = lit ''mf_enroll_supersecret'', er_hostname = HOST, er_os = lit ''linux'',
         er_arch = lit ''x86_64'', er_agent_version = lit ''0.1.0'', er_public_key = lit ''ssh-ed25519 AAAA''\<rparr>)
      in str_contains debug (lit ''<redacted>'') \<and> \<not> str_contains debug (lit ''supersecret''))"

definition generate_keypair_writes_files :: "libs \<Rightarrow> path \<Rightarrow> bool io" where
  "generate_keypair_writes_files L dir =
     bind_io (generate_machine_keypair L (service dir)) (\<lambda>kp.
     bind_io (observe (sys_is_file (components (path_join dir PRIVATE_KEY_FILE)))) (\<lambda>is_file.
     bind_io (read_text (path_join dir PUBLIC_KEY_FILE)) (\<lambda>pub_contents.
     bind_io (lift_res (public_key_openssh L kp)) (\<lambda>line.
     return_io (is_file \<and> starts_with pub_contents (lit ''ssh-ed25519 '') \<and> pub_contents = line @ [10])))))"

definition generated_key_permissions_are_correct :: "libs \<Rightarrow> path \<Rightarrow> bool io" where
  "generated_key_permissions_are_correct L dir =
     bind_io (generate_machine_keypair L (service dir)) (\<lambda>_.
     bind_io (permissions_of (path_join dir PRIVATE_KEY_FILE)) (\<lambda>priv_mode.
     bind_io (permissions_of (path_join dir PUBLIC_KEY_FILE)) (\<lambda>pub_mode.
     return_io (priv_mode = 0x180 \<and> pub_mode = 0x1A4))))"

definition generate_keypair_refuses_to_overwrite :: "libs \<Rightarrow> path \<Rightarrow> bool io" where
  "generate_keypair_refuses_to_overwrite L dir =
     bind_io (generate_machine_keypair L (service dir)) (\<lambda>first.
     bind_io (failure (generate_machine_keypair L (service dir))) (\<lambda>err.
     bind_io (read_keypair L (service dir)) (\<lambda>reloaded.
     return_io (err = Some KeyAlreadyExists \<and> keypair_fingerprint L first = keypair_fingerprint L reloaded))))"

definition load_keypair_rejects_symlink :: "libs \<Rightarrow> path \<Rightarrow> bool io" where
  "load_keypair_rejects_symlink L dir =
     (let real = path_join dir (lit ''real_key''); link = path_join dir PRIVATE_KEY_FILE
      in bind_io (fs_write real (utf8 (lit ''data''))) (\<lambda>_.
         bind_io (fs_symlink real link) (\<lambda>_.
         bind_io (failure (read_keypair L (service dir))) (\<lambda>err. return_io (err = Some UnexpectedSymlink)))))"

definition load_keypair_rejects_world_writable :: "libs \<Rightarrow> path \<Rightarrow> bool io" where
  "load_keypair_rejects_world_writable L dir =
     bind_io (generate_machine_keypair L (service dir)) (\<lambda>_.
     bind_io (set_permissions (path_join dir PRIVATE_KEY_FILE) 0x1B6) (\<lambda>_.
     bind_io (failure (read_keypair L (service dir))) (\<lambda>err. return_io (err = Some InsecurePermissions))))"

definition load_missing_keypair_is_io_error :: "libs \<Rightarrow> path \<Rightarrow> bool io" where
  "load_missing_keypair_is_io_error L dir =
     bind_io (failure (read_keypair L (service dir))) (\<lambda>err.
     return_io (case err of Some (Io _) \<Rightarrow> True | _ \<Rightarrow> False))"

definition load_corrupt_keypair_is_parse_error :: "libs \<Rightarrow> path \<Rightarrow> bool io" where
  "load_corrupt_keypair_is_parse_error L dir =
     (let p = path_join dir PRIVATE_KEY_FILE
      in bind_io (fs_write p (utf8 (lit ''not a valid openssh key''))) (\<lambda>_.
         bind_io (set_permissions p 0x180) (\<lambda>_.
         bind_io (failure (read_keypair L (service dir))) (\<lambda>err. return_io (err = Some KeyParse)))))"

section \<open>Tests of the record and of whole enrollments\<close>

text \<open>The codec of the record, and the identity that is stored.\<close>

definition persist_test_identity ::
    "libs \<Rightarrow> (machine_record \<Rightarrow> str + bytes) \<Rightarrow> path \<Rightarrow> machine_identity io" where
  "persist_test_identity L enc dir =
     bind_io (generate_machine_keypair L (service dir)) (\<lambda>kp.
     bind_io (ok_response L) (\<lambda>response.
     persist_machine_identity L enc (service dir) SERVER HOST kp response))"

definition persist_then_load_identity_round_trips ::
    "libs \<Rightarrow> (machine_record \<Rightarrow> str + bytes) \<Rightarrow> (bytes \<Rightarrow> str + machine_record) \<Rightarrow> path \<Rightarrow> bool io" where
  "persist_then_load_identity_round_trips L enc dec dir =
     bind_io (persist_test_identity L enc dir) (\<lambda>identity.
     bind_io (load_machine_identity L dec (service dir)) (\<lambda>loaded.
     return_io (mi_machine_id identity = lit ''srv_abc123'' \<and> mi_server_url identity = SERVER
       \<and> mi_heartbeat_interval identity = from_secs 60 \<and> unix_timestamp (mi_enrolled_at identity) = 1700000000
       \<and> mi_machine_id loaded = mi_machine_id identity \<and> mi_public_key loaded = mi_public_key identity
       \<and> mi_heartbeat_interval loaded = mi_heartbeat_interval identity)))"

definition is_enrolled_reflects_record_presence :: "libs \<Rightarrow> (machine_record \<Rightarrow> str + bytes) \<Rightarrow> path \<Rightarrow> bool io" where
  "is_enrolled_reflects_record_presence L enc dir =
     bind_io (observe (is_enrolled (service dir))) (\<lambda>before.
     bind_io (persist_test_identity L enc dir) (\<lambda>_.
     bind_io (observe (is_enrolled (service dir))) (\<lambda>after. return_io (\<not> before \<and> after))))"

text \<open>
  The mock client records requests in a cell; its state goes through the calls of \<open>enroll\<close>, which
  here also returns it.
\<close>

definition mock_enrollment ::
    "libs \<Rightarrow> host_env \<Rightarrow> (machine_record \<Rightarrow> str + bytes) \<Rightarrow> path \<Rightarrow> str \<Rightarrow> str \<Rightarrow> str \<Rightarrow> mock_client
     \<Rightarrow> (machine_identity res \<times> mock_client) io" where
  "mock_enrollment L env enc dir server token host client w =
     (case enroll L env enc mock_enroll (service dir) server token host client w of
        (r, client', w') \<Rightarrow> (Inr (r, client'), w'))"

definition enroll_success_with_mock_client :: "libs \<Rightarrow> host_env \<Rightarrow> (machine_record \<Rightarrow> str + bytes) \<Rightarrow> path \<Rightarrow> bool io" where
  "enroll_success_with_mock_client L env enc dir =
     bind_io (ok_response L) (\<lambda>response.
     bind_io (mock_enrollment L env enc dir SERVER TOKEN HOST (mock_success response)) (\<lambda>(r, client).
     bind_io (lift_res r) (\<lambda>identity.
     bind_io (observe (is_enrolled (service dir))) (\<lambda>enrolled.
     return_io (mi_machine_id identity = lit ''srv_abc123'' \<and> enrolled
       \<and> (case captured_requests client of
            [rq] \<Rightarrow> er_hostname rq = HOST \<and> starts_with (er_public_key rq) (lit ''ssh-ed25519 '')
          | _ \<Rightarrow> False))))))"

definition enroll_fails_with ::
    "libs \<Rightarrow> host_env \<Rightarrow> (machine_record \<Rightarrow> str + bytes) \<Rightarrow> path \<Rightarrow> mock_client \<Rightarrow> error \<Rightarrow> bool io" where
  "enroll_fails_with L env enc dir client e =
     bind_io (mock_enrollment L env enc dir SERVER TOKEN HOST client) (\<lambda>(r, _).
     bind_io (observe (is_enrolled (service dir))) (\<lambda>enrolled. return_io (r = Inl e \<and> \<not> enrolled)))"

definition enroll_rejected_by_server :: "libs \<Rightarrow> host_env \<Rightarrow> (machine_record \<Rightarrow> str + bytes) \<Rightarrow> path \<Rightarrow> bool io" where
  "enroll_rejected_by_server L env enc dir = enroll_fails_with L env enc dir mock_rejected EnrollmentRejected"

definition enroll_transport_failure :: "libs \<Rightarrow> host_env \<Rightarrow> (machine_record \<Rightarrow> str + bytes) \<Rightarrow> path \<Rightarrow> bool io" where
  "enroll_transport_failure L env enc dir = enroll_fails_with L env enc dir mock_transport_failure EnrollmentTransport"

definition enroll_refuses_when_already_enrolled ::
    "libs \<Rightarrow> host_env \<Rightarrow> (machine_record \<Rightarrow> str + bytes) \<Rightarrow> path \<Rightarrow> bool io" where
  "enroll_refuses_when_already_enrolled L env enc dir =
     bind_io (ok_response L) (\<lambda>response.
     bind_io (mock_enrollment L env enc dir SERVER TOKEN HOST (mock_success response)) (\<lambda>(r, client).
     bind_io (lift_res r) (\<lambda>_.
     bind_io (mock_enrollment L env enc dir SERVER TOKEN HOST client) (\<lambda>(r2, _).
     return_io (r2 = Inl AlreadyEnrolled)))))"

definition enroll_rejects_invalid_inputs_before_calling_client ::
    "libs \<Rightarrow> host_env \<Rightarrow> (machine_record \<Rightarrow> str + bytes) \<Rightarrow> path \<Rightarrow> bool io" where
  "enroll_rejects_invalid_inputs_before_calling_client L env enc dir =
     bind_io (ok_response L) (\<lambda>response.
     bind_io (mock_enrollment L env enc dir (lit ''http://insecure'') TOKEN HOST (mock_success response)) (\<lambda>(r1, c1).
     bind_io (mock_enrollment L env enc dir SERVER (lit ''bad token'') HOST c1) (\<lambda>(r2, c2).
     bind_io (mock_enrollment L env enc dir SERVER TOKEN (lit ''bad host'') c2) (\<lambda>(r3, c3).
     return_io (r1 = Inl InvalidServerUrl \<and> r2 = Inl InvalidToken \<and> r3 = Inl InvalidHostname
       \<and> captured_requests c3 = [])))))"

definition failed_enrollment_can_be_retried_with_same_key ::
    "libs \<Rightarrow> host_env \<Rightarrow> (machine_record \<Rightarrow> str + bytes) \<Rightarrow> path \<Rightarrow> bool io" where
  "failed_enrollment_can_be_retried_with_same_key L env enc dir =
     bind_io (mock_enrollment L env enc dir SERVER TOKEN HOST mock_rejected) (\<lambda>(r1, _).
     bind_io (read_keypair L (service dir)) (\<lambda>kp1.
     bind_io (ok_response L) (\<lambda>response.
     bind_io (mock_enrollment L env enc dir SERVER TOKEN HOST (mock_success response)) (\<lambda>(r2, _).
     bind_io (lift_res r2) (\<lambda>identity.
     bind_io (read_keypair L (service dir)) (\<lambda>kp2.
     bind_io (lift_res (public_key_openssh L kp2)) (\<lambda>line.
     return_io (isl r1 \<and> mi_public_key identity = line \<and> keypair_fingerprint L kp2 = keypair_fingerprint L kp1))))))))"

section \<open>The checks\<close>

lemma token_test: "token_validation"
  by (simp add: token_validation_def validate_token_def TOKEN_def TOKEN_PREFIX_def MAX_TOKEN_LEN_def strip_prefix_def lit_def
      is_control_def is_ascii_alphanumeric_def is_ascii_digit_def str_len_def utf8_Cons utf8_char_def)

lemma hostname_test: "hostname_validation"
  by (simp add: hostname_validation_def validate_hostname_def MAX_HOSTNAME_LEN_def MAX_LABEL_LEN_def lit_def
      is_ascii_alphanumeric_def is_ascii_digit_def str_len_def utf8_Cons utf8_char_def)

lemma server_url_test: "server_url_validation"
  by (simp add: server_url_validation_def validate_server_url_def SERVER_def strip_prefix_def lit_def trim_def trim_start_def
      trim_end_def is_whitespace_def)

lemma debug_test: "request_debug_redacts_token"
proof -
  let ?rq = "\<lparr>er_enrollment_token = lit ''mf_enroll_supersecret'', er_hostname = HOST, er_os = lit ''linux'',
         er_arch = lit ''x86_64'', er_agent_version = lit ''0.1.0'', er_public_key = lit ''ssh-ed25519 AAAA''\<rparr>"
  let ?d = "debug_text (lit ''EnrollmentRequest'') (request_debug ?rq)"
  have d: "?d = lit ''EnrollmentRequest { enrollment_token: \"'' @ lit ''<redacted>'' @ lit ''\", hostname: \"web-01\", os: \"linux\", arch: \"x86_64\", agent_version: \"0.1.0\", public_key: \"ssh-ed25519 AAAA\" }''"
    by (simp add: debug_text_def request_debug_def HOST_def flip: lit_append)
  then have "str_contains ?d (lit ''<redacted>'')" by (metis str_contains_part)
  moreover have "\<not> str_contains ?d (lit ''supersecret'')"
    unfolding d by (simp add: lit_def str_contains_Nil str_contains_Cons)
  ultimately show ?thesis by (simp only: request_debug_redacts_token_def Let_def simp_thms)
qed

section \<open>The tests in a directory\<close>

text \<open>The empty directory with its clock.\<close>

definition tempdir :: "path \<Rightarrow> world \<Rightarrow> bool" where
  "tempdir dir w \<longleftrightarrow> fresh_machine (service dir) w \<and> (\<forall>t. clock w t = 1700000000 * 10 ^ 9)"

lemma tempdir_advance [simp]: "tempdir dir (advance w) \<longleftrightarrow> tempdir dir w"
  by (simp add: tempdir_def fresh_machine_def)

lemma service_keys:
  "components (es_private_key_path (service dir)) = components (path_join dir PRIVATE_KEY_FILE)"
  "components (es_public_key_path (service dir)) = components (path_join dir PUBLIC_KEY_FILE)"
  "components (es_record_path (service dir)) = components (path_join dir MACHINE_RECORD_FILE)"
  "components (path_join dir PRIVATE_KEY_FILE) \<noteq> components (path_join dir PUBLIC_KEY_FILE)"
  "components (path_join dir PUBLIC_KEY_FILE) \<noteq> components (path_join dir PRIVATE_KEY_FILE)"
  "components (path_join dir MACHINE_RECORD_FILE) \<noteq> components (path_join dir PRIVATE_KEY_FILE)"
  "components (path_join dir MACHINE_RECORD_FILE) \<noteq> components (path_join dir PUBLIC_KEY_FILE)"
  using service_paths_ok_new [of dir]
  by (simp_all add: service_def enrollment_service_new_def service_paths_ok_def Let_def) metis+

lemma test_response:
  assumes "enrollment_libs L"
  obtains r where "ok_response L w = (Inr r, advance w)" "good_enrollment_response L r" "en_machine_id r = lit ''srv_abc123''"
    "en_heartbeat_interval r = 60" "en_sync_interval r = 300"
proof -
  obtain kp line where kp: "keypair_generate L w = (Inr kp, advance w)" "public_key_openssh L kp = Inr line" "ed25519_line L line"
    using generate_key [OF assms, of w] by metis
  then show ?thesis
    using that [of "\<lparr>en_machine_id = lit ''srv_abc123'', en_heartbeat_interval = 60, en_sync_interval = 300,
       en_server_identity = line, en_bundle_signing_key = None\<rparr>"]
    by (simp add: ok_response_def valid_server_identity_def bind_io_def good_enrollment_response_def lit_def id_char_def
        is_ascii_alphanumeric_def is_ascii_digit_def)
qed

definition usable :: "libs \<Rightarrow> enrollment_response \<Rightarrow> bool" where
  "usable L q \<longleftrightarrow> en_machine_id q = lit ''srv_abc123'' \<and> en_heartbeat_interval q = 60 \<and> en_sync_interval q = 300
     \<and> validate_ed25519_public_key L (en_server_identity q) = Inr ()"

lemma response_tests:
  assumes "enrollment_libs L"
  shows "passes (response_validation_accepts_good_response L) w"
    "passes (response_validation_accepts_valid_bundle_signing_key L) w"
    "passes (response_validation_rejects_bad_responses L) w"
proof -
  obtain r where r: "ok_response L w = (Inr r, advance w)" "good_enrollment_response L r"
    using test_response [OF assms, of w] by metis
  then show "passes (response_validation_accepts_good_response L) w"
    by (simp add: passes_def response_validation_accepts_good_response_def bind_io_def response_check.check_iff)
  obtain kp line where kp: "keypair_generate L (advance w) = (Inr kp, advance (advance w))" "public_key_openssh L kp = Inr line"
      "ed25519_line L line"
    using generate_key [OF assms, of "advance w"] by metis
  have "good_enrollment_response L (r\<lparr>en_bundle_signing_key := Some line\<rparr>)"
    using r(2) kp(3) by (simp add: good_enrollment_response_def)
  then show "passes (response_validation_accepts_valid_bundle_signing_key L) w"
    using r(1) kp(1,2)
    by (simp add: passes_def response_validation_accepts_valid_bundle_signing_key_def bind_io_def valid_server_identity_def
        response_check.check_iff)
  have draw: "\<exists>q. ok_response L v = (Inr q, advance v) \<and> usable L q" for v
  proof -
    obtain q where "ok_response L v = (Inr q, advance v)" "good_enrollment_response L q" "en_machine_id q = lit ''srv_abc123''"
      "en_heartbeat_interval q = 60" "en_sync_interval q = 300" by (rule test_response [OF assms])
    then show ?thesis by (simp add: usable_def good_enrollment_response_def validate_ed25519_public_key_iff)
  qed
  have bad: "validate_ed25519_public_key L (lit ''not-a-key'') = Inl MalformedPublicKey"
    using assms by (simp add: validate_ed25519_public_key_def enrollment_libs_def)
  have id: "lit ''srv_abc123'' \<noteq> []" "str_len (lit ''srv_abc123'') \<le> MAX_MACHINE_ID_LEN" "list_all id_char (lit ''srv_abc123'')"
    "lit ''has space'' \<noteq> []" "\<not> list_all id_char (lit ''has space'')"
    by (simp_all add: lit_def str_len_def utf8_Cons utf8_char_def MAX_MACHINE_ID_LEN_def id_char_def is_ascii_alphanumeric_def
        is_ascii_digit_def)
  have iv: "is_valid_interval 60" "is_valid_interval 300" "\<not> is_valid_interval 0" "\<not> is_valid_interval 1000000"
    by (simp_all add: is_valid_interval_def MIN_INTERVAL_SECS_def MAX_INTERVAL_SECS_def)
  obtain q1 where q1: "ok_response L w = (Inr q1, advance w)" "usable L q1" using draw by blast
  obtain q2 where q2: "ok_response L (advance w) = (Inr q2, advance (advance w))" "usable L q2" using draw by blast
  obtain q3 where q3: "ok_response L (advance (advance w)) = (Inr q3, advance (advance (advance w)))" "usable L q3"
    using draw by blast
  obtain q4 where q4: "ok_response L (advance (advance (advance w))) = (Inr q4, advance (advance (advance (advance w))))"
      "usable L q4" using draw by blast
  obtain q5 where q5: "ok_response L (advance (advance (advance (advance w))))
      = (Inr q5, advance (advance (advance (advance (advance w)))))" "usable L q5" using draw by blast
  obtain q6 where q6: "ok_response L (advance (advance (advance (advance (advance w)))))
      = (Inr q6, advance (advance (advance (advance (advance (advance w))))))" "usable L q6" using draw by blast
  show "passes (response_validation_rejects_bad_responses L) w"
    using q1 q2 q3 q4 q5 q6 bad id iv
    by (simp add: passes_def response_validation_rejects_bad_responses_def bind_io_def validate_enrollment_response_def
        usable_def return_io_def)
qed

text \<open>After the generation of a key: the two files, and what can be read from them.\<close>

definition keyed :: "libs \<Rightarrow> path \<Rightarrow> machine_keypair \<Rightarrow> str \<Rightarrow> world \<Rightarrow> bool" where
  "keyed L dir kp line w \<longleftrightarrow> calm w \<and> writable (service_paths (service dir)) (fs w) \<and> key_file L (service dir) (euid w) kp (fs w)
     \<and> (\<exists>bs. fs w (components (path_join dir PRIVATE_KEY_FILE)) = Some (NFile bs MODE_SECRET (euid w)))
     \<and> fs w (components (path_join dir PUBLIC_KEY_FILE)) = Some (NFile (utf8 (line @ [10])) MODE_PUBLIC (euid w))
     \<and> public_key_openssh L kp = Inr line \<and> ed25519_line L line \<and> list_all is_scalar line
     \<and> starts_with line (lit ''ssh-ed25519 '')"

lemma keyed_same: "keyed L dir kp line w \<Longrightarrow> same_env w w' \<Longrightarrow> fs w' = fs w \<Longrightarrow> keyed L dir kp line w'"
  by (auto simp: keyed_def same_env_def calm_def faultless_def)

lemma keyed_advance [simp]: "keyed L dir kp line (advance w) \<longleftrightarrow> keyed L dir kp line w"
  by (simp add: keyed_def)

lemma make_keys:
  assumes "enrollment_libs L" and "tempdir dir w"
  obtains kp line w' where "generate_machine_keypair L (service dir) w = (Inr kp, w')" "keyed L dir kp line w'" "same_env w w'"
    "fs w' (components (path_join dir MACHINE_RECORD_FILE)) = None"
proof -
  let ?svc = "service dir" and ?w2 = "advance (advance w)" and ?w3 = "advance (advance (advance w))"
  let ?priv = "es_private_key_path ?svc" and ?pub = "es_public_key_path ?svc"
  have calm: "calm w" and wr: "writable (service_paths ?svc) (fs w)"
    and none: "fs w (components ?priv) = None" "fs w (components ?pub) = None" "fs w (components (es_record_path ?svc)) = None"
    using assms(2) by (simp_all add: tempdir_def fresh_machine_def service_paths_def)
  obtain kp line where kp: "keypair_generate L ?w2 = (Inr kp, ?w3)" "public_key_openssh L kp = Inr line"
      "ed25519_line L line" "list_all is_scalar line" "starts_with line (lit ''ssh-ed25519 '')"
      "\<exists>pem. to_openssh_private L kp = Inr pem \<and> from_utf8 (utf8 pem) = Some pem \<and> from_openssh_private L pem = Inr kp"
    by (rule generate_key [OF assms(1)])
  then obtain pem where pem: "to_openssh_private L kp = Inr pem" "from_utf8 (utf8 pem) = Some pem" "from_openssh_private L pem = Inr kp"
    by blast
  have paths: "?priv \<in> service_paths ?svc" "?pub \<in> service_paths ?svc" by (simp_all add: service_paths_def)
  have c3: "calm ?w3" "writable (service_paths ?svc) (fs ?w3)" using calm wr by simp_all
  obtain w5 where w5: "secure_write ?priv (utf8 pem) MODE_SECRET ?w3 = (Inr (), w5)"
      "fs w5 = (fs ?w3)(components ?priv \<mapsto> NFile (utf8 pem) MODE_SECRET (euid ?w3))" "calm w5"
      "writable (service_paths ?svc) (fs w5)" "same_env ?w3 w5"
    by (rule calm_write [OF c3 paths(1)])
  obtain w6 where w6: "secure_write ?pub (utf8 (line @ [10])) MODE_PUBLIC w5 = (Inr (), w6)"
      "fs w6 = (fs w5)(components ?pub \<mapsto> NFile (utf8 (line @ [10])) MODE_PUBLIC (euid w5))" "calm w6"
      "writable (service_paths ?svc) (fs w6)" "same_env w5 w6"
    by (rule calm_write [OF w5(3,4) paths(2)])
  have "generate_machine_keypair L ?svc w = (Inr kp, w6)"
    using calm none(1,2) w5(1) w6(1) kp(1,2) pem(1)
    by (simp add: generate_machine_keypair_def bind_io_def path_exists_None write_keypair_def)
  moreover have env: "same_env w w6" "euid w5 = euid w" "euid w6 = euid w" using w5(5) w6(5) by (simp_all add: same_env_def)
  moreover have "key_file L ?svc (euid w6) kp (fs w6)"
    using pem(2,3) w5(2) w6(2) env(2,3) service_keys(4) [of dir]
    by (auto simp: key_file_def service_keys mode_within_def)
  moreover have "fs w6 (components (path_join dir MACHINE_RECORD_FILE)) = None"
    using w5(2) w6(2) none(3) by (simp add: service_keys)
  ultimately show ?thesis
    using that [of kp w6 line] kp(2-5) w5(2) w6(2-4) by (simp add: keyed_def service_keys)
qed

lemma keyed_read:
  assumes "keyed L dir kp line w"
  obtains w' where "read_keypair L (service dir) w = (Inr kp, w')" "fs w' = fs w" "same_env w w'"
  using assms read_keypair_ok [of L "service dir" w kp] by (auto simp: keyed_def)

lemma calm_change: "calm w \<Longrightarrow> f (fs w) = Inr m \<Longrightarrow> sys_update f w = (Inr (), (advance w)\<lparr>fs := m, trace := trace w @ [FsNow m]\<rparr>)"
  by (simp add: sys_update_def calm_def faultless_def)

lemma key_file_tests:
  assumes "enrollment_libs L" and "tempdir dir w"
  shows "passes (request_serializes_with_expected_fields L env dir) w"
    "passes (generate_keypair_writes_files L dir) w" "passes (generated_key_permissions_are_correct L dir) w"
    "passes (generate_keypair_refuses_to_overwrite L dir) w" "passes (load_keypair_rejects_world_writable L dir) w"
proof -
  obtain kp line w' where g: "generate_machine_keypair L (service dir) w = (Inr kp, w')" "keyed L dir kp line w'"
    by (rule make_keys [OF assms])
  then obtain bs where k: "calm w'" "fs w' (components (path_join dir PRIVATE_KEY_FILE)) = Some (NFile bs MODE_SECRET (euid w'))"
      "fs w' (components (path_join dir PUBLIC_KEY_FILE)) = Some (NFile (utf8 (line @ [10])) MODE_PUBLIC (euid w'))"
      "public_key_openssh L kp = Inr line" "ed25519_line L line" "list_all is_scalar line" "starts_with line (lit ''ssh-ed25519 '')"
    by (auto simp: keyed_def)
  have "validate_token TOKEN = Inr ()" "validate_hostname HOST = Inr ()"
    using token_test hostname_test by (simp_all add: token_validation_def hostname_validation_def HOST_def)
  then show "passes (request_serializes_with_expected_fields L env dir) w"
    using g(1) k(4,5,7)
    by (simp add: passes_def request_serializes_with_expected_fields_def bind_io_def create_enrollment_request_def
        validate_ed25519_public_key_iff [THEN iffD2] return_io_def)
  have stats: "stat_of (fs w') (components (path_join dir PRIVATE_KEY_FILE)) = Inr (NFile bs MODE_SECRET (euid w'))"
    "stat_of (fs w') (components (path_join dir PUBLIC_KEY_FILE)) = Inr (NFile (utf8 (line @ [10])) MODE_PUBLIC (euid w'))"
    using k(2,3) by (simp_all add: stat_of_file)
  have "list_all is_scalar (line @ [10])" using k(6) by (simp add: is_scalar_def)
  then have u: "from_utf8 (utf8 (line @ [10])) = Some (line @ [10])" by (rule from_utf8_utf8)
  moreover have "starts_with (line @ [10]) (lit ''ssh-ed25519 '')" using k(7) by (rule starts_with_append)
  ultimately show "passes (generate_keypair_writes_files L dir) w"
    using g(1) k(1,4) stats
    by (simp add: passes_def generate_keypair_writes_files_def bind_io_def observe_def sys_is_file_def sys_stat_def calm_query
        read_text_def map_err_io_def sys_read_to_string_def sys_read_def read_of_def return_io_def)
  have "(MODE_SECRET AND 0x1FF) = 0x180" "(MODE_PUBLIC AND 0x1FF) = 0x1A4" by (simp_all add: MODE_SECRET_def MODE_PUBLIC_def)
  then show "passes (generated_key_permissions_are_correct L dir) w"
    using g(1) k(1) stats
    by (simp add: passes_def generated_key_permissions_are_correct_def permissions_of_def metadata_def bind_io_def map_err_io_def sys_stat_def
        calm_query return_io_def)
  have "keyed L dir kp line (advance w')" using g(2) by simp
  then obtain w'' where "read_keypair L (service dir) (advance w') = (Inr kp, w'')" by (rule keyed_read)
  moreover have "path_exists (es_private_key_path (service dir)) w' = (Inr True, advance w')"
    using k(1,2) by (simp add: path_exists_def sys_lstat_def calm_query service_keys)
  ultimately show "passes (generate_keypair_refuses_to_overwrite L dir) w"
    using g(1)
    by (simp add: passes_def generate_keypair_refuses_to_overwrite_def bind_io_def failure_def generate_machine_keypair_def
        return_io_def)
  let ?n = "NFile bs 0x1B6 (euid w')"
  let ?m = "(fs w')(components (path_join dir PRIVATE_KEY_FILE) \<mapsto> ?n)"
  let ?v = "(advance w')\<lparr>fs := ?m, trace := trace w' @ [FsNow ?m]\<rparr>"
  have set: "set_permissions (path_join dir PRIVATE_KEY_FILE) 0x1B6 w' = (Inr (), ?v)"
    using k(1,2) by (simp add: set_permissions_def map_err_io_def sys_chmod_def calm_change chmod_node_def)
  have f: "fault w' t = None" for t using k(1) by (simp add: calm_def faultless_def)
  have "(0x1B6 AND 0x1FF) AND GROUP_OR_OTHER_WRITABLE \<noteq> (0 :: u32)" by (simp add: GROUP_OR_OTHER_WRITABLE_def)
  then have "fst (failure (read_keypair L (service dir)) ?v) = Inr (Some InsecurePermissions)"
    using f
    by (simp add: failure_def read_keypair_def validate_private_key_security_def bind_io_def ensure_not_symlink_def is_symlink_def
        validate_owner_def ensure_not_group_or_world_writable_def map_err_io_def sys_lstat_def sys_query_def service_keys
        effective_uid_def)
  then show "passes (load_keypair_rejects_world_writable L dir) w"
    using g(1) set
    by (auto simp: passes_def load_keypair_rejects_world_writable_def bind_io_def return_io_def split: prod.splits)
qed

lemma bad_key_tests:
  assumes "enrollment_libs L" and "tempdir dir w"
  shows "passes (load_missing_keypair_is_io_error L dir) w" "passes (load_keypair_rejects_symlink L dir) w"
    "passes (load_corrupt_keypair_is_parse_error L dir) w"
proof -
  let ?k = "components (path_join dir PRIVATE_KEY_FILE)"
  have c: "calm w" and none: "fs w ?k = None"
    using assms(2) by (simp_all add: tempdir_def fresh_machine_def service_paths_def service_keys)
  then have f: "fault w t = None" for t by (simp add: calm_def faultless_def)
  note reading = failure_def read_keypair_def validate_private_key_security_def bind_io_def ensure_not_symlink_def is_symlink_def
    validate_owner_def ensure_not_group_or_world_writable_def validate_mode_at_most_def map_err_io_def sys_lstat_def sys_query_def
    service_keys effective_uid_def passes_def return_io_def
  show "passes (load_missing_keypair_is_io_error L dir) w"
    using f none by (simp add: reading load_missing_keypair_is_io_error_def os_err_def)
  show "passes (load_keypair_rejects_symlink L dir) w"
    using f
    by (simp add: reading load_keypair_rejects_symlink_def Let_def fs_write_def fs_symlink_def sys_update_def)
  have p: "lib_private_parse L (lit ''not a valid openssh key'') = None" using assms(1) by (simp add: enrollment_libs_def)
  have "list_all is_scalar (lit ''not a valid openssh key'')" by (simp add: lit_def is_scalar_def)
  then have u: "from_utf8 (utf8 (lit ''not a valid openssh key'')) = Some (lit ''not a valid openssh key'')"
    by (rule from_utf8_utf8)
  have m: "(0x180 AND 0x1FF) AND GROUP_OR_OTHER_WRITABLE = (0 :: u32)" "(0x180 AND 0x1FF) AND NOT (MODE_SECRET AND 0x1FF) = (0 :: u32)"
    by (simp_all add: GROUP_OR_OTHER_WRITABLE_def MODE_SECRET_def)
  show "passes (load_corrupt_keypair_is_parse_error L dir) w"
    using f p u m
    by (simp add: reading load_corrupt_keypair_is_parse_error_def Let_def fs_write_def set_permissions_def sys_chmod_def
        chmod_node_def sys_update_def sys_read_to_string_def sys_read_def read_of_def stat_of_file from_openssh_private_def)
qed

text \<open>The identity of the tests is stored, and its record can be read back.\<close>

lemma keyed_record:
  assumes "keyed L dir kp line w" and "calm w'" "writable (service_paths (service dir)) (fs w')" "euid w' = euid w"
    and "fs w' = (fs w)(components (path_join dir MACHINE_RECORD_FILE) \<mapsto> n)"
  shows "keyed L dir kp line w'"
proof -
  have "fs w' (components (path_join dir PRIVATE_KEY_FILE)) = fs w (components (path_join dir PRIVATE_KEY_FILE))"
    "fs w' (components (path_join dir PUBLIC_KEY_FILE)) = fs w (components (path_join dir PUBLIC_KEY_FILE))"
    using assms(5) service_keys(6,7) [of dir] by simp_all
  with assms(1-4) show ?thesis by (simp add: keyed_def key_file_def service_keys)
qed

lemma persist_identity:
  assumes "record_codec_ok enc dec" and "keyed L dir kp line w" and "good_enrollment_response L r"
    and "\<forall>t. clock w t = 1700000000 * 10 ^ 9"
    and "en_machine_id r = lit ''srv_abc123''" "en_heartbeat_interval r = 60" "en_sync_interval r = 300"
  obtains i w' where "persist_machine_identity L enc (service dir) SERVER HOST kp r w = (Inr i, w')" "keyed L dir kp line w'"
    "same_env w w'" "mi_machine_id i = en_machine_id r" "mi_public_key i = line" "mi_server_url i = SERVER"
    "mi_heartbeat_interval i = from_secs (en_heartbeat_interval r)" "mi_sync_interval i = from_secs (en_sync_interval r)"
    "mi_enrolled_at i = 1700000000 * 10 ^ 9"
    "mi_private_key_path i = es_private_key_path (service dir)" "mi_public_key_path i = es_public_key_path (service dir)"
    "\<exists>json. fs w' (components (path_join dir MACHINE_RECORD_FILE)) = Some (NFile (json @ [10]) MODE_PUBLIC (euid w))
      \<and> dec (json @ [10]) = Inr (to_record i)"
proof -
  let ?svc = "service dir"
  let ?i = "\<lparr>mi_machine_id = en_machine_id r, mi_hostname = HOST, mi_public_key = line,
      mi_private_key_path = es_private_key_path ?svc, mi_public_key_path = es_public_key_path ?svc,
      mi_enrolled_at = 1700000000 * 10 ^ 9, mi_server_url = SERVER,
      mi_heartbeat_interval = from_secs (en_heartbeat_interval r), mi_sync_interval = from_secs (en_sync_interval r)\<rparr>"
  have "to_record ?i = test_record" using assms(5-7) by (simp add: to_record_def test_record_def HOST_def SERVER_def unix_timestamp_def)
  with assms(1) obtain json where json: "enc (to_record ?i) = Inr json" "dec (json @ [10]) = Inr (to_record ?i)"
    unfolding record_codec_ok_def by auto
  have c: "calm (advance w)" "writable (service_paths ?svc) (fs (advance w))" using assms(2) by (simp_all add: keyed_def)
  have "es_record_path ?svc \<in> service_paths ?svc" by (simp add: service_paths_def)
  from calm_write [OF c this] obtain w' where w': "secure_write (es_record_path ?svc) (json @ [10]) MODE_PUBLIC (advance w) = (Inr (), w')"
      "fs w' = (fs (advance w))(components (es_record_path ?svc) \<mapsto> NFile (json @ [10]) MODE_PUBLIC (euid (advance w)))" "calm w'"
      "writable (service_paths ?svc) (fs w')" "same_env (advance w) w'" by metis
  have "validate_server_url SERVER = Inr ()" "validate_hostname HOST = Inr ()"
    using server_url_test hostname_test by (simp_all add: server_url_validation_def hostname_validation_def HOST_def)
  then have "persist_machine_identity L enc ?svc SERVER HOST kp r w = (Inr ?i, w')"
    using assms(2-4) json(1) w'(1)
    by (simp add: persist_machine_identity_def bind_io_def now_io_def clock_now_def record_save_def Let_def keyed_def
        response_check.check_iff [THEN iffD2])
  moreover have "same_env w w'" using w'(5) by (simp add: same_env_def)
  moreover have "keyed L dir kp line w'"
    by (rule keyed_record [OF assms(2) w'(3,4)]) (use w'(2,5) in \<open>simp_all add: service_keys same_env_def\<close>)
  ultimately show ?thesis
    using that [of ?i w'] json(2) w'(2) by (simp add: service_keys)
qed

lemma enrolled_look:
  assumes "calm w"
  shows "is_enrolled (service dir) w
    = ((case stat_of (fs w) (components (path_join dir MACHINE_RECORD_FILE)) of Inr (NFile _ _ _) \<Rightarrow> True | _ \<Rightarrow> False), advance w)"
  using assms by (simp add: is_enrolled_def sys_is_file_def sys_stat_def calm_query service_keys)

lemma record_tests:
  assumes "enrollment_libs L" and "tempdir dir w" and "record_codec_ok enc dec"
  shows "passes (persist_then_load_identity_round_trips L enc dec dir) w" "passes (is_enrolled_reflects_record_presence L enc dir) w"
proof -
  have persisted: "\<exists>i kp line v'. persist_test_identity L enc dir v = (Inr i, v') \<and> keyed L dir kp line v' \<and> mi_machine_id i = lit ''srv_abc123''
      \<and> mi_public_key i = line \<and> mi_server_url i = SERVER \<and> mi_heartbeat_interval i = from_secs 60 \<and> mi_sync_interval i = from_secs 300
      \<and> mi_enrolled_at i = 1700000000 * 10 ^ 9
      \<and> mi_private_key_path i = es_private_key_path (service dir) \<and> mi_public_key_path i = es_public_key_path (service dir)
      \<and> (\<exists>json. fs v' (components (path_join dir MACHINE_RECORD_FILE)) = Some (NFile (json @ [10]) MODE_PUBLIC (euid v'))
          \<and> dec (json @ [10]) = Inr (to_record i))" if v: "tempdir dir v" for v
  proof -
    obtain kp line v1 where g: "generate_machine_keypair L (service dir) v = (Inr kp, v1)" "keyed L dir kp line v1" "same_env v v1"
      by (rule make_keys [OF assms(1) v])
    obtain r where r: "ok_response L v1 = (Inr r, advance v1)" "good_enrollment_response L r" "en_machine_id r = lit ''srv_abc123''"
        "en_heartbeat_interval r = 60" "en_sync_interval r = 300" by (rule test_response [OF assms(1)])
    have "keyed L dir kp line (advance v1)" "\<forall>t. clock (advance v1) t = 1700000000 * 10 ^ 9"
      using g(2,3) v by (simp_all add: tempdir_def same_env_def)
    then obtain i v2 where i: "persist_machine_identity L enc (service dir) SERVER HOST kp r (advance v1) = (Inr i, v2)"
        "keyed L dir kp line v2" "same_env (advance v1) v2" "mi_machine_id i = en_machine_id r" "mi_public_key i = line"
        "mi_server_url i = SERVER" "mi_heartbeat_interval i = from_secs (en_heartbeat_interval r)"
        "mi_sync_interval i = from_secs (en_sync_interval r)" "mi_enrolled_at i = 1700000000 * 10 ^ 9"
        "mi_private_key_path i = es_private_key_path (service dir)" "mi_public_key_path i = es_public_key_path (service dir)"
        "\<exists>json. fs v2 (components (path_join dir MACHINE_RECORD_FILE)) = Some (NFile (json @ [10]) MODE_PUBLIC (euid (advance v1)))
          \<and> dec (json @ [10]) = Inr (to_record i)"
      by (rule persist_identity [OF assms(3) _ r(2)]) (simp_all add: r)
    moreover have "euid v2 = euid v1" using i(3) by (simp add: same_env_def)
    ultimately show ?thesis
      using g(1) r by (intro exI [of _ i] exI [of _ kp] exI [of _ line] exI [of _ v2]) (simp add: persist_test_identity_def bind_io_def)
  qed
  obtain i kp line v where i: "persist_test_identity L enc dir w = (Inr i, v)" "keyed L dir kp line v"
      "mi_machine_id i = lit ''srv_abc123''" "mi_public_key i = line" "mi_server_url i = SERVER" "mi_heartbeat_interval i = from_secs 60"
      "mi_sync_interval i = from_secs 300" "mi_enrolled_at i = 1700000000 * 10 ^ 9"
      "mi_private_key_path i = es_private_key_path (service dir)" "mi_public_key_path i = es_public_key_path (service dir)"
      "\<exists>json. fs v (components (path_join dir MACHINE_RECORD_FILE)) = Some (NFile (json @ [10]) MODE_PUBLIC (euid v))
          \<and> dec (json @ [10]) = Inr (to_record i)"
    using persisted [OF assms(2)] by blast
  from i(2) obtain v1 where v1: "read_keypair L (service dir) v = (Inr kp, v1)" "fs v1 = fs v" "same_env v v1" by (rule keyed_read)
  have c1: "calm v1" using i(2) v1 by (auto simp: keyed_def intro: calm_same)
  from i(11) obtain json where j: "fs v (components (path_join dir MACHINE_RECORD_FILE)) = Some (NFile (json @ [10]) MODE_PUBLIC (euid v))"
      "dec (json @ [10]) = Inr (to_record i)" by blast
  have "record_load dec (es_record_path (service dir)) v1 = (Inr (to_record i), advance v1)"
    using j v1(2) c1 by (simp add: record_load_def map_err_io_def bind_io_def sys_read_def calm_query read_of_def service_keys stat_of_file)
  moreover have "representable_time (mi_enrolled_at i)" using i(8) by (simp add: representable_time_def MIN_TIMESTAMP_def MAX_TIMESTAMP_def)
  then have "into_identity (to_record i) (mi_public_key i) (mi_private_key_path i) (mi_public_key_path i)
      = Inr (i\<lparr>mi_enrolled_at := whole_second (mi_enrolled_at i)\<rparr>)"
    using i(6,7) by (rule into_identity_to_record)
  moreover have "public_key_openssh L kp = Inr line" using i(2) by (simp add: keyed_def)
  ultimately have "fst (load_machine_identity L dec (service dir) v) = Inr (i\<lparr>mi_enrolled_at := whole_second (mi_enrolled_at i)\<rparr>)"
    using v1(1) i(4,9,10) by (simp add: load_machine_identity_def bind_io_def)
  then show "passes (persist_then_load_identity_round_trips L enc dec dir) w"
    using i(1,3-6,8)
    by (cases "load_machine_identity L dec (service dir) v")
      (simp add: passes_def persist_then_load_identity_round_trips_def bind_io_def return_io_def unix_timestamp_def)
  have c: "calm w" and none: "fs w (components (path_join dir MACHINE_RECORD_FILE)) = None"
    using assms(2) by (simp_all add: tempdir_def fresh_machine_def service_paths_def service_keys)
  have "tempdir dir (advance w)" using assms(2) by simp
  from persisted [OF this] obtain i' kp' line' u where u: "persist_test_identity L enc dir (advance w) = (Inr i', u)" "keyed L dir kp' line' u"
      "\<exists>json. fs u (components (path_join dir MACHINE_RECORD_FILE)) = Some (NFile (json @ [10]) MODE_PUBLIC (euid u))" by blast
  then have "calm u" by (simp add: keyed_def)
  then show "passes (is_enrolled_reflects_record_presence L enc dir) w"
    using c none u(1,3)
    by (auto simp: passes_def is_enrolled_reflects_record_presence_def bind_io_def observe_def enrolled_look stat_missing stat_of_file return_io_def)
qed

section \<open>Whole enrollments\<close>

text \<open>A world in which the key is there or can be made, without a record.\<close>

definition ready :: "libs \<Rightarrow> path \<Rightarrow> machine_keypair \<Rightarrow> str \<Rightarrow> world \<Rightarrow> world \<Rightarrow> bool" where
  "ready L dir kp line w w' \<longleftrightarrow> is_enrolled (service dir) w = (False, advance w)
     \<and> load_or_generate_keypair L (service dir) (advance w) = (Inr kp, w') \<and> keyed L dir kp line w'
     \<and> fs w' (components (path_join dir MACHINE_RECORD_FILE)) = None \<and> (\<forall>t. clock w' t = 1700000000 * 10 ^ 9)"

lemma ready_fresh:
  assumes "enrollment_libs L" and "tempdir dir w"
  obtains kp line w' where "ready L dir kp line w w'"
proof -
  have t: "tempdir dir (advance (advance w))" using assms(2) by simp
  have c: "calm w" and none: "fs w (components (path_join dir MACHINE_RECORD_FILE)) = None"
    "fs w (components (es_private_key_path (service dir))) = None"
    using assms(2) by (simp_all add: tempdir_def fresh_machine_def service_paths_def service_keys)
  obtain kp line w' where g: "generate_machine_keypair L (service dir) (advance (advance w)) = (Inr kp, w')" "keyed L dir kp line w'"
      "same_env (advance (advance w)) w'" "fs w' (components (path_join dir MACHINE_RECORD_FILE)) = None"
    by (rule make_keys [OF assms(1) t])
  moreover have "clock w' t = 1700000000 * 10 ^ 9" for t using g(3) assms(2) by (simp add: same_env_def tempdir_def)
  ultimately show ?thesis
    using that [of kp line w'] c none
    by (simp add: ready_def enrolled_look stat_missing load_or_generate_keypair_def bind_io_def path_exists_None)
qed

lemma ready_keyed:
  assumes "keyed L dir kp line w" and "fs w (components (path_join dir MACHINE_RECORD_FILE)) = None"
    and "\<forall>t. clock w t = 1700000000 * 10 ^ 9"
  obtains w' where "ready L dir kp line w w'"
proof -
  have c: "calm w" and priv: "fs w (components (es_private_key_path (service dir))) \<noteq> None"
    using assms(1) by (auto simp: keyed_def service_keys)
  have "keyed L dir kp line (advance (advance w))" using assms(1) by simp
  then obtain w' where r: "read_keypair L (service dir) (advance (advance w)) = (Inr kp, w')" "fs w' = fs (advance (advance w))"
      "same_env (advance (advance w)) w'" by (rule keyed_read)
  have "load_or_generate_keypair L (service dir) (advance w) = (Inr kp, w')"
    using load_existing [of "advance w" "service dir" L] priv c r(1) by (simp add: calm_def faultless_def)
  moreover have "keyed L dir kp line w'"
    using keyed_same [of L dir kp line "advance (advance w)" w'] assms(1) r(2,3) by simp
  ultimately show ?thesis
    using that [of w'] r(2,3) assms(2,3) c by (simp add: ready_def enrolled_look stat_missing same_env_def)
qed

lemma ready_prepares:
  assumes "ready L dir kp line w w'"
  shows "enroll_prepare L env (service dir) SERVER TOKEN HOST (advance w)
    = (Inr (kp, \<lparr>er_enrollment_token = TOKEN, er_hostname = HOST, er_os = he_os env, er_arch = he_arch env,
        er_agent_version = he_version env, er_public_key = line\<rparr>), w')"
proof -
  have "validate_server_url SERVER = Inr ()" "validate_token TOKEN = Inr ()" "validate_hostname HOST = Inr ()"
    using token_test server_url_test hostname_test
    by (simp_all add: server_url_validation_def token_validation_def hostname_validation_def HOST_def)
  then show ?thesis
    using assms
    by (simp add: ready_def keyed_def enroll_prepare_def bind_io_def create_enrollment_request_def
        validate_ed25519_public_key_iff [THEN iffD2])
qed

lemma mock_refuses:
  assumes "ready L dir kp line w w'" and "mc_outcome client = MockRejected \<and> e = EnrollmentRejected \<or> mc_outcome client = MockTransport \<and> e = EnrollmentTransport"
  obtains client' where "mock_enrollment L env enc dir SERVER TOKEN HOST client w = (Inr (Inl e, client'), w')"
  using assms ready_prepares [OF assms(1), of env] that
  by (auto simp: mock_enrollment_def enroll_def mock_enroll_def ready_def)

lemma mock_enrolls:
  assumes "record_codec_ok enc dec" and "ready L dir kp line w w1" and "mc_outcome client = MockSuccess r" and "good_enrollment_response L r"
    and "en_machine_id r = lit ''srv_abc123''" "en_heartbeat_interval r = 60" "en_sync_interval r = 300"
  obtains i rq w' where "mock_enrollment L env enc dir SERVER TOKEN HOST client w
      = (Inr (Inr i, client\<lparr>mc_requests := mc_requests client @ [rq]\<rparr>), w')"
    "er_hostname rq = HOST" "er_public_key rq = line" "mi_machine_id i = en_machine_id r" "mi_public_key i = line"
    "keyed L dir kp line w'" "is_enrolled (service dir) w' = (True, advance w')"
proof -
  let ?rq = "\<lparr>er_enrollment_token = TOKEN, er_hostname = HOST, er_os = he_os env, er_arch = he_arch env,
        er_agent_version = he_version env, er_public_key = line\<rparr>"
  have k: "keyed L dir kp line w1" "\<forall>t. clock w1 t = 1700000000 * 10 ^ 9" using assms(2) by (simp_all add: ready_def)
  obtain i w' where i: "persist_machine_identity L enc (service dir) SERVER HOST kp r w1 = (Inr i, w')" "keyed L dir kp line w'"
      "mi_machine_id i = en_machine_id r" "mi_public_key i = line"
      "\<exists>json. fs w' (components (path_join dir MACHINE_RECORD_FILE)) = Some (NFile (json @ [10]) MODE_PUBLIC (euid w1))
        \<and> dec (json @ [10]) = Inr (to_record i)"
    by (rule persist_identity [OF assms(1) k(1) assms(4) k(2) assms(5-7)])
  have "mock_enrollment L env enc dir SERVER TOKEN HOST client w
      = (Inr (Inr i, client\<lparr>mc_requests := mc_requests client @ [?rq]\<rparr>), w')"
    using assms(2,3) ready_prepares [OF assms(2), of env] i(1) by (simp add: mock_enrollment_def enroll_def mock_enroll_def ready_def)
  moreover have "is_enrolled (service dir) w' = (True, advance w')"
  proof -
    have "calm w'" using i(2) by (simp add: keyed_def)
    with i(5) show ?thesis by (auto simp: enrolled_look stat_of_file)
  qed
  ultimately show ?thesis using that [of i ?rq w'] i(2-4) by simp
qed

lemma enroll_success_test:
  assumes "enrollment_libs L" and "tempdir dir w" and "record_codec_ok enc dec"
  shows "passes (enroll_success_with_mock_client L env enc dir) w" "passes (enroll_refuses_when_already_enrolled L env enc dir) w"
proof -
  obtain r where r: "ok_response L w = (Inr r, advance w)" "good_enrollment_response L r" "en_machine_id r = lit ''srv_abc123''"
      "en_heartbeat_interval r = 60" "en_sync_interval r = 300"
    by (rule test_response [OF assms(1)])
  have "tempdir dir (advance w)" using assms(2) by simp
  from ready_fresh [OF assms(1) this] obtain kp line w1 where rd: "ready L dir kp line (advance w) w1" by blast
  have out: "mc_outcome (mock_success r) = MockSuccess r" by (simp add: mock_success_def mock_new_def)
  obtain i rq v where e: "mock_enrollment L env enc dir SERVER TOKEN HOST (mock_success r) (advance w)
      = (Inr (Inr i, (mock_success r)\<lparr>mc_requests := mc_requests (mock_success r) @ [rq]\<rparr>), v)"
      "er_hostname rq = HOST" "er_public_key rq = line" "mi_machine_id i = en_machine_id r"
      "keyed L dir kp line v" "is_enrolled (service dir) v = (True, advance v)"
    by (rule mock_enrolls [OF assms(3) rd out r(2-5)])
  have "starts_with line (lit ''ssh-ed25519 '')" using rd by (simp add: ready_def keyed_def)
  then show "passes (enroll_success_with_mock_client L env enc dir) w"
    using r(1,3) e
    by (simp add: passes_def enroll_success_with_mock_client_def bind_io_def observe_def captured_requests_def mock_success_def
        mock_new_def return_io_def)
  show "passes (enroll_refuses_when_already_enrolled L env enc dir) w"
    using r(1) e
    by (simp add: passes_def enroll_refuses_when_already_enrolled_def bind_io_def mock_enrollment_def [of _ _ _ _ _ _ _ _ v]
        enroll_def return_io_def)
qed

lemma enroll_failure_tests:
  assumes "enrollment_libs L" and "tempdir dir w"
  shows "passes (enroll_rejected_by_server L env enc dir) w" "passes (enroll_transport_failure L env enc dir) w"
proof -
  from ready_fresh [OF assms] obtain kp line w1 where rd: "ready L dir kp line w w1" by blast
  have "calm w1" "fs w1 (components (path_join dir MACHINE_RECORD_FILE)) = None" using rd by (simp_all add: ready_def keyed_def)
  then have none: "is_enrolled (service dir) w1 = (False, advance w1)" by (simp add: enrolled_look stat_missing)
  have out: "mc_outcome mock_rejected = MockRejected" "mc_outcome mock_transport_failure = MockTransport"
    by (simp_all add: mock_rejected_def mock_transport_failure_def mock_new_def)
  obtain c1 where "mock_enrollment L env enc dir SERVER TOKEN HOST mock_rejected w = (Inr (Inl EnrollmentRejected, c1), w1)"
    by (rule mock_refuses [OF rd, of mock_rejected EnrollmentRejected env enc]) (simp add: out)
  then show "passes (enroll_rejected_by_server L env enc dir) w"
    using none by (simp add: passes_def enroll_rejected_by_server_def enroll_fails_with_def bind_io_def observe_def return_io_def)
  obtain c2 where "mock_enrollment L env enc dir SERVER TOKEN HOST mock_transport_failure w = (Inr (Inl EnrollmentTransport, c2), w1)"
    by (rule mock_refuses [OF rd, of mock_transport_failure EnrollmentTransport env enc]) (simp add: out)
  then show "passes (enroll_transport_failure L env enc dir) w"
    using none by (simp add: passes_def enroll_transport_failure_def enroll_fails_with_def bind_io_def observe_def return_io_def)
qed

lemma enroll_input_test:
  assumes "enrollment_libs L" and "tempdir dir w"
  shows "passes (enroll_rejects_invalid_inputs_before_calling_client L env enc dir) w"
proof -
  obtain r where r: "ok_response L w = (Inr r, advance w)" by (rule test_response [OF assms(1)])
  have c: "calm v \<Longrightarrow> fs v = fs w \<Longrightarrow> is_enrolled (service dir) v = (False, advance v)" for v
    using assms(2) by (simp add: tempdir_def fresh_machine_def service_paths_def service_keys enrolled_look stat_missing)
  have w: "calm w" using assms(2) by (simp add: tempdir_def fresh_machine_def)
  have good: "validate_server_url SERVER = Inr ()" "validate_token TOKEN = Inr ()"
    using token_test server_url_test by (simp_all add: server_url_validation_def token_validation_def)
  have bad: "validate_server_url (lit ''http://insecure'') = Inl InvalidServerUrl" "validate_token (lit ''bad token'') = Inl InvalidToken"
    "validate_hostname (lit ''bad host'') = Inl InvalidHostname"
    by (simp_all add: validate_server_url_def strip_prefix_def validate_token_def TOKEN_PREFIX_def validate_hostname_def
        MAX_LABEL_LEN_def lit_def is_ascii_alphanumeric_def is_ascii_digit_def)
  show ?thesis
    using r c w good bad
    by (simp add: passes_def enroll_rejects_invalid_inputs_before_calling_client_def bind_io_def mock_enrollment_def enroll_def
        enroll_prepare_def captured_requests_def mock_success_def mock_new_def return_io_def)
qed

lemma retry_test:
  assumes "enrollment_libs L" and "tempdir dir w" and "record_codec_ok enc dec"
  shows "passes (failed_enrollment_can_be_retried_with_same_key L env enc dir) w"
proof -
  from ready_fresh [OF assms(1,2)] obtain kp line w1 where rd: "ready L dir kp line w w1" by blast
  have "mc_outcome mock_rejected = MockRejected" by (simp add: mock_rejected_def mock_new_def)
  then obtain c1 where 1: "mock_enrollment L env enc dir SERVER TOKEN HOST mock_rejected w = (Inr (Inl EnrollmentRejected, c1), w1)"
    using mock_refuses [OF rd] by metis
  have k1: "keyed L dir kp line w1" "fs w1 (components (path_join dir MACHINE_RECORD_FILE)) = None" "\<forall>t. clock w1 t = 1700000000 * 10 ^ 9"
    using rd by (simp_all add: ready_def)
  obtain w2 where 2: "read_keypair L (service dir) w1 = (Inr kp, w2)" "fs w2 = fs w1" "same_env w1 w2" by (rule keyed_read [OF k1(1)])
  obtain r where r: "ok_response L w2 = (Inr r, advance w2)" "good_enrollment_response L r" "en_machine_id r = lit ''srv_abc123''"
      "en_heartbeat_interval r = 60" "en_sync_interval r = 300" by (rule test_response [OF assms(1)])
  have "keyed L dir kp line (advance w2)" "fs (advance w2) (components (path_join dir MACHINE_RECORD_FILE)) = None"
    "\<forall>t. clock (advance w2) t = 1700000000 * 10 ^ 9"
    using keyed_same [OF k1(1) 2(3,2)] k1(2,3) 2(2,3) by (simp_all add: same_env_def)
  then obtain w3 where rd2: "ready L dir kp line (advance w2) w3" by (rule ready_keyed)
  have "mc_outcome (mock_success r) = MockSuccess r" by (simp add: mock_success_def mock_new_def)
  then obtain i rq v where 3: "mock_enrollment L env enc dir SERVER TOKEN HOST (mock_success r) (advance w2)
      = (Inr (Inr i, (mock_success r)\<lparr>mc_requests := mc_requests (mock_success r) @ [rq]\<rparr>), v)"
      "mi_public_key i = line" "keyed L dir kp line v"
    using mock_enrolls [OF assms(3) rd2 _ r(2-5)] by metis
  obtain v1 where 4: "read_keypair L (service dir) v = (Inr kp, v1)" by (rule keyed_read [OF 3(3)])
  have "public_key_openssh L kp = Inr line" using k1(1) by (simp add: keyed_def)
  then show ?thesis
    using 1 2(1) r(1) 3(1,2) 4
    by (simp add: passes_def failed_enrollment_can_be_retried_with_same_key_def bind_io_def return_io_def)
qed

section \<open>The suite\<close>

definition enrollment_tests_pass ::
    "libs \<Rightarrow> host_env \<Rightarrow> (machine_record \<Rightarrow> str + bytes) \<Rightarrow> (bytes \<Rightarrow> str + machine_record) \<Rightarrow> path \<Rightarrow> world \<Rightarrow> bool" where
  "enrollment_tests_pass L env enc dec dir w \<longleftrightarrow>
     token_validation \<and> hostname_validation \<and> server_url_validation \<and> request_debug_redacts_token
     \<and> list_all (\<lambda>test. passes test w)
        [response_validation_accepts_good_response L, response_validation_rejects_bad_responses L,
         response_validation_accepts_valid_bundle_signing_key L, request_serializes_with_expected_fields L env dir,
         generate_keypair_writes_files L dir, generated_key_permissions_are_correct L dir,
         generate_keypair_refuses_to_overwrite L dir, load_keypair_rejects_symlink L dir,
         load_keypair_rejects_world_writable L dir, load_missing_keypair_is_io_error L dir,
         load_corrupt_keypair_is_parse_error L dir, persist_then_load_identity_round_trips L enc dec dir,
         is_enrolled_reflects_record_presence L enc dir, enroll_success_with_mock_client L env enc dir,
         enroll_rejected_by_server L env enc dir, enroll_transport_failure L env enc dir,
         enroll_refuses_when_already_enrolled L env enc dir, enroll_rejects_invalid_inputs_before_calling_client L env enc dir,
         failed_enrollment_can_be_retried_with_same_key L env enc dir]"

theorem enrollment_suite_passes:
  assumes "enrollment_libs L" and "tempdir dir w" and "record_codec_ok enc dec"
  shows "enrollment_tests_pass L env enc dec dir w"
  using token_test hostname_test server_url_test debug_test response_tests [OF assms(1)] key_file_tests [OF assms(1,2)]
    bad_key_tests [OF assms(1,2)] record_tests [OF assms] enroll_success_test [OF assms] enroll_failure_tests [OF assms(1,2)]
    enroll_input_test [OF assms(1,2)] retry_test [OF assms]
  by (simp add: enrollment_tests_pass_def)

end
