(* ===== verification/Client_Tests.thy ===== *)
theory Client_Tests
  imports Status_Tests Enrollment_Tests Ipc_Client
begin

text \<open>
  The unit tests of the three clients: \<open>src/protocol/heartbeat.rs\<close>, \<open>src/identity/api_client.rs\<close> and
  \<open>src/ipc/client.rs\<close>, and of the signatures in \<open>src/protocol/signing.rs\<close>. A mock transport is the
  network of the world answering as programmed, the request it recorded is the last one sent; the mock
  helper is a connection whose reply is computed from the bytes written to it.
\<close>

section \<open>The fixtures\<close>

definition use_transport :: "http_response option \<Rightarrow> unit io" where
  "use_transport response w = (Inr (), w\<lparr>http := (\<lambda>_ _ _. response)\<rparr>)"

definition use_fixed_clock :: "int \<Rightarrow> unit io" where
  "use_fixed_clock secs w = (Inr (), w\<lparr>clock := (\<lambda>_. secs * 10 ^ 9)\<rparr>)"

definition sent_requests :: "event list \<Rightarrow> http_request list" where
  "sent_requests es = concat (map (\<lambda>e. case e of Sent m rq \<Rightarrow> [rq] | _ \<Rightarrow> []) es)"

definition last_request :: "http_request option io" where
  "last_request w = (Inr (case rev (sent_requests (trace w)) of rq # _ \<Rightarrow> Some rq | [] \<Rightarrow> None), w)"

definition mock_ok :: "bytes \<Rightarrow> http_response option" where
  "mock_ok body = Some \<lparr>resp_status = 200, resp_body = body\<rparr>"

definition mock_with :: "u16 \<Rightarrow> bytes \<Rightarrow> http_response option" where
  "mock_with status body = Some \<lparr>resp_status = status, resp_body = body\<rparr>"

text \<open>\<open>parse::<i64>\<close>.\<close>

definition parse_i64 :: "str \<Rightarrow> int option" where
  "parse_i64 s =
     (let d = (case s of c # cs \<Rightarrow> if c = 43 \<or> c = 45 then cs else s | [] \<Rightarrow> []);
          n = (if take 1 s = [45] then - int (dec_val d) else int (dec_val d))
      in if d = [] \<or> \<not> list_all is_ascii_digit d then None
         else if - (2 ^ 63) \<le> n \<and> n < 2 ^ 63 then Some n else None)"

section \<open>Signatures\<close>

text \<open>The verifying key of an OpenSSH line, and the check a server makes. \<open>verify\<close> is the crate's.\<close>

definition verifying_key :: "libs \<Rightarrow> str \<Rightarrow> bytes option" where
  "verifying_key L openssh =
     Option.bind (lib_ssh_public L openssh) (\<lambda>key. Option.bind (spk_ed25519 key) (\<lambda>ed.
     if lib_verifying_key L ed then Some ed else None))"

definition server_accepts :: "libs \<Rightarrow> (bytes \<Rightarrow> bytes \<Rightarrow> bytes \<Rightarrow> bool) \<Rightarrow> str \<Rightarrow> str \<Rightarrow> str \<Rightarrow> bool" where
  "server_accepts L verify public canonical signature \<longleftrightarrow>
     (case (verifying_key L public, lib_b64_decode L signature) of
        (Some vk, Some sig_bytes) \<Rightarrow> length sig_bytes = 64 \<and> verify vk (utf8 canonical) sig_bytes
      | _ \<Rightarrow> False)"

definition signature_verifies_against_machine_public_key ::
    "libs \<Rightarrow> (bytes \<Rightarrow> bytes \<Rightarrow> bytes \<Rightarrow> bool) \<Rightarrow> bool io" where
  "signature_verifies_against_machine_public_key L verify =
     (let body = utf8 (lit ''{\"agent_version\":\"0.1.0\"}'')
      in bind_io (keypair_generate L) (\<lambda>kp. bind_io (lift_res (public_key_openssh L kp)) (\<lambda>public.
         bind_io (lift_res (sign_request L kp (lit ''srv_abc'') 1700000000 (lit ''nonce123'') (lit ''POST'')
             (lit ''/api/v1/agent/heartbeat'') body)) (\<lambda>signed.
         return_io (server_accepts L verify public
           (canonical_string (lit ''srv_abc'') 1700000000 (lit ''nonce123'') (lit ''POST'')
             (lit ''/api/v1/agent/heartbeat'') (body_sha256_hex L body))
           (sh_signature signed))))))"

section \<open>Heartbeats\<close>

definition test_client :: "libs \<Rightarrow> heartbeat_client io" where
  "test_client L = bind_io (keypair_generate L) (\<lambda>kp.
     return_io (heartbeat_client_new (lit ''srv_abc'') kp (lit ''https://mayfly.example.com/'')))"

definition test_heartbeat :: heartbeat_request where
  "test_heartbeat = \<lparr>hb_agent_version = lit ''0.1.0'', hb_hostname = lit ''pi-zero'', hb_os = lit ''linux'',
     hb_kernel = lit ''6.12'', hb_ip = lit ''192.168.1.20'', hb_current_generation = 17, hb_uptime_seconds = 123456\<rparr>"

definition OK_BODY :: bytes where
  "OK_BODY = utf8 (lit ''{\"status\":\"ok\",\"server_time\":\"2026-06-24T12:00:00.000Z\",\"next_heartbeat_seconds\":60}'')"

definition ZERO_BODY :: bytes where
  "ZERO_BODY = utf8 (lit ''{\"status\":\"ok\",\"server_time\":\"t\",\"next_heartbeat_seconds\":0}'')"

definition heartbeat_join_url_test :: bool where
  "heartbeat_join_url_test \<longleftrightarrow>
     join_url (lit ''https://h'') (lit ''/api/v1/agent/heartbeat'') = lit ''https://h/api/v1/agent/heartbeat''
     \<and> join_url (lit ''https://h/'') (lit ''/api/v1/agent/heartbeat'') = lit ''https://h/api/v1/agent/heartbeat''"

text \<open>A heartbeat of the test client over a programmed transport, and a failing one.\<close>

definition heartbeat_over ::
    "libs \<Rightarrow> (heartbeat_request \<Rightarrow> bytes option) \<Rightarrow> (bytes \<Rightarrow> heartbeat_response option) \<Rightarrow> http_response option
     \<Rightarrow> heartbeat_response io" where
  "heartbeat_over L enc dec response =
     bind_io (use_transport response) (\<lambda>_. bind_io (use_fixed_clock 1700000000) (\<lambda>_.
     bind_io (test_client L) (\<lambda>client. send_heartbeat L enc dec client test_heartbeat)))"

definition send_heartbeat_signs_and_parses ::
    "libs \<Rightarrow> (heartbeat_request \<Rightarrow> bytes option) \<Rightarrow> (bytes \<Rightarrow> heartbeat_response option) \<Rightarrow> bool io" where
  "send_heartbeat_signs_and_parses L enc dec =
     bind_io (heartbeat_over L enc dec (mock_ok OK_BODY)) (\<lambda>response. bind_io last_request (\<lambda>last.
     return_io (hb_status response = lit ''ok'' \<and> hb_next_heartbeat_seconds response = 60
       \<and> (case last of None \<Rightarrow> False | Some sent \<Rightarrow>
            req_url sent = lit ''https://mayfly.example.com/api/v1/agent/heartbeat''
            \<and> list_all (\<lambda>name. name \<in> set (map fst (req_headers sent)))
                [HEADER_MACHINE_ID, HEADER_TIMESTAMP, HEADER_NONCE, HEADER_SIGNATURE]))))"

definition header_of :: "http_request \<Rightarrow> str \<Rightarrow> str option" where
  "header_of sent name = map_of (req_headers sent) name"

definition sent_signature_verifies_over_sent_body ::
    "libs \<Rightarrow> (bytes \<Rightarrow> bytes \<Rightarrow> bytes \<Rightarrow> bool) \<Rightarrow> (heartbeat_request \<Rightarrow> bytes option)
     \<Rightarrow> (bytes \<Rightarrow> heartbeat_response option) \<Rightarrow> bool io" where
  "sent_signature_verifies_over_sent_body L verify enc dec =
     bind_io (keypair_generate L) (\<lambda>kp. bind_io (lift_res (public_key_openssh L kp)) (\<lambda>public.
     bind_io (use_transport (mock_ok OK_BODY)) (\<lambda>_. bind_io (use_fixed_clock 1700000000) (\<lambda>_.
     bind_io (send_heartbeat L enc dec
       (heartbeat_client_new (lit ''srv_abc'') kp (lit ''https://mayfly.example.com'')) test_heartbeat) (\<lambda>_.
     bind_io last_request (\<lambda>last.
     return_io (case last of None \<Rightarrow> False | Some sent \<Rightarrow>
       (case (Option.bind (header_of sent HEADER_TIMESTAMP) parse_i64, header_of sent HEADER_NONCE, header_of sent HEADER_SIGNATURE) of
          (Some timestamp, Some nonce, Some signature) \<Rightarrow>
            server_accepts L verify public
              (canonical_string (lit ''srv_abc'') timestamp nonce (lit ''POST'') HEARTBEAT_PATH (body_sha256_hex L (req_body sent)))
              signature
        | _ \<Rightarrow> False))))))))"

definition heartbeat_fails ::
    "libs \<Rightarrow> (heartbeat_request \<Rightarrow> bytes option) \<Rightarrow> (bytes \<Rightarrow> heartbeat_response option) \<Rightarrow> http_response option
     \<Rightarrow> error \<Rightarrow> bool io" where
  "heartbeat_fails L enc dec response e =
     bind_io (failure (heartbeat_over L enc dec response)) (\<lambda>err. return_io (err = Some e))"

definition non_2xx_is_rejected ::
    "libs \<Rightarrow> (heartbeat_request \<Rightarrow> bytes option) \<Rightarrow> (bytes \<Rightarrow> heartbeat_response option) \<Rightarrow> bool io" where
  "non_2xx_is_rejected L enc dec = heartbeat_fails L enc dec (mock_with 401 (utf8 (lit ''{}''))) HeartbeatRejected"

definition invalid_json_response_is_rejected ::
    "libs \<Rightarrow> (heartbeat_request \<Rightarrow> bytes option) \<Rightarrow> (bytes \<Rightarrow> heartbeat_response option) \<Rightarrow> bool io" where
  "invalid_json_response_is_rejected L enc dec =
     heartbeat_fails L enc dec (mock_with 200 (utf8 (lit ''not json''))) InvalidHeartbeatResponse"

definition out_of_range_next_heartbeat_is_rejected ::
    "libs \<Rightarrow> (heartbeat_request \<Rightarrow> bytes option) \<Rightarrow> (bytes \<Rightarrow> heartbeat_response option) \<Rightarrow> bool io" where
  "out_of_range_next_heartbeat_is_rejected L enc dec = heartbeat_fails L enc dec (mock_with 200 ZERO_BODY) InvalidHeartbeatResponse"

definition transport_error_propagates ::
    "libs \<Rightarrow> (heartbeat_request \<Rightarrow> bytes option) \<Rightarrow> (bytes \<Rightarrow> heartbeat_response option) \<Rightarrow> bool io" where
  "transport_error_propagates L enc dec = heartbeat_fails L enc dec None HeartbeatTransport"

text \<open>
  What these tests rely on: a key signs, the crate verifies what it signed and Base64 reads
  back; JSON writes the request and reads the literals as they are written.
\<close>

definition signing_crate :: "libs \<Rightarrow> (bytes \<Rightarrow> bytes \<Rightarrow> bytes \<Rightarrow> bool) \<Rightarrow> bool" where
  "signing_crate L verify \<longleftrightarrow>
     (\<forall>seed k line. lib_private_random L seed = Some k \<longrightarrow> lib_public_write L (k\<lparr>prk_comment := KEY_COMMENT\<rparr>) = Some line \<longrightarrow>
        (\<exists>s ed. prk_data k = KdEd25519 s \<and> verifying_key L line = Some ed \<and> (\<forall>msg. verify ed msg (lib_ed25519_sign L s msg))))
     \<and> (\<forall>bs. lib_b64_decode L (lib_b64_encode L bs) = Some bs)
     \<and> (\<forall>s msg. length (lib_ed25519_sign L s msg) = 64)"

definition heartbeat_json_ok :: "(heartbeat_request \<Rightarrow> bytes option) \<Rightarrow> (bytes \<Rightarrow> heartbeat_response option) \<Rightarrow> bool" where
  "heartbeat_json_ok enc dec \<longleftrightarrow> enc test_heartbeat \<noteq> None
     \<and> dec OK_BODY = Some \<lparr>hb_status = lit ''ok'', hb_server_time = lit ''2026-06-24T12:00:00.000Z'', hb_next_heartbeat_seconds = 60\<rparr>
     \<and> dec ZERO_BODY = Some \<lparr>hb_status = lit ''ok'', hb_server_time = lit ''t'', hb_next_heartbeat_seconds = 0\<rparr>
     \<and> dec (utf8 (lit ''not json'')) = None"

text \<open>A key pair that signs what the server accepts.\<close>

lemma signing_key:
  assumes "enrollment_libs L" and "signing_crate L verify"
  obtains kp line s where "keypair_generate L w = (Inr kp, advance w)" "public_key_openssh L kp = Inr line"
    "prk_data (mk_key kp) = KdEd25519 s"
    "\<And>text. server_accepts L verify line text (lib_b64_encode L (lib_ed25519_sign L s (utf8 text)))"
proof -
  obtain k where k: "lib_private_random L (os_random w (tick w) 32) = Some k"
    using assms(1) unfolding enrollment_libs_def key_maker_def by metis
  let ?kp = "\<lparr>mk_key = k\<lparr>prk_comment := KEY_COMMENT\<rparr>\<rparr>"
  obtain p where p: "lib_public_write L (k\<lparr>prk_comment := KEY_COMMENT\<rparr>) = Some p"
    using assms(1) k unfolding enrollment_libs_def key_maker_def by (metis option.inject)
  obtain s ed where s: "prk_data k = KdEd25519 s" "verifying_key L p = Some ed" "\<forall>msg. verify ed msg (lib_ed25519_sign L s msg)"
    using assms(2) k p unfolding signing_crate_def by meson
  have gen: "keypair_generate L w = (Inr ?kp, advance w)"
    using k by (simp add: keypair_generate_def random_bytes_def)
  have pub: "public_key_openssh L ?kp = Inr p"
    using p by (simp add: public_key_openssh_def)
  have "server_accepts L verify p t (lib_b64_encode L (lib_ed25519_sign L s (utf8 t)))" for t
    using s(2) s(3) [rule_format, of "utf8 t"] assms(2) by (simp add: server_accepts_def signing_crate_def)
  with s(1) show ?thesis by (intro that [OF gen pub]) simp_all
qed


lemma parse_show_i64:
  assumes "0 \<le> t" and "t < 2 ^ 63"
  shows "parse_i64 (show_int t) = Some t"
proof -
  have s: "show_int t = show_nat (nat t)" using assms by (simp add: show_int_def)
  obtain c cs where c: "show_nat (nat t) = c # cs" using show_nat_not_Nil by (cases "show_nat (nat t)") auto
  have "c \<noteq> 43" "c \<noteq> 45" using show_nat_set [of c "nat t"] c by auto
  then show ?thesis
    using assms show_nat_digits [of "nat t"] dec_val_show_nat [of "nat t"] by (simp add: parse_i64_def s c)
qed

lemma signing_test:
  assumes "enrollment_libs L" and "signing_crate L verify"
  shows "passes (signature_verifies_against_machine_public_key L verify) w"
proof -
  obtain kp line s where kp: "keypair_generate L w = (Inr kp, advance w)" "public_key_openssh L kp = Inr line"
      "prk_data (mk_key kp) = KdEd25519 s"
      "\<And>text. server_accepts L verify line text (lib_b64_encode L (lib_ed25519_sign L s (utf8 text)))"
    by (rule signing_key [OF assms]) blast
  show ?thesis
    using kp by (simp add: signature_verifies_against_machine_public_key_def running Let_def sign_request_def keypair_sign_def)
qed

lemma join_tests: "heartbeat_join_url_test"
  by (simp add: heartbeat_join_url_test_def join_url_def trim_end_matches_def lit_def)

text \<open>A heartbeat over a programmed transport: the request, which is the last one sent, and the result.\<close>

lemma sent_requests_snoc: "rev (sent_requests (es @ [Sent m rq])) = rq # rev (sent_requests es)"
  by (simp add: sent_requests_def)

definition verdict :: "(bytes \<Rightarrow> heartbeat_response option) \<Rightarrow> http_response option \<Rightarrow> heartbeat_response res" where
  "verdict dec response = (case response of
     None \<Rightarrow> Inl HeartbeatTransport
   | Some resp \<Rightarrow>
       if \<not> (200 \<le> unat (resp_status resp) \<and> unat (resp_status resp) < 300) then Inl HeartbeatRejected
       else (case dec (resp_body resp) of
               Some parsed \<Rightarrow> if good_heartbeat_response parsed then Inr parsed else Inl InvalidHeartbeatResponse
             | None \<Rightarrow> Inl InvalidHeartbeatResponse))"

lemma mocked_heartbeat:
  assumes "enc test_heartbeat = Some body" and "prk_data (mk_key (hbc_keypair client)) = KdEd25519 s"
    and "\<And>t m rq. http w t m rq = response" "\<And>t. clock w t = 1700000000 * 10 ^ 9"
  obtains w' sent nonce where "send_heartbeat L enc dec client test_heartbeat w = (verdict dec response, w')"
    "last_request w' = (Inr (Some sent), w')" "signed_post L client (1700000000 * 10 ^ 9) nonce body = Some sent"
proof -
  obtain r w' where run: "send_heartbeat L enc dec client test_heartbeat w = (r, w')" by fastforce
  let ?nonce = "lib_hex L (os_random w (Suc (tick w)) 16)"
  obtain sent where sent: "signed_post L client (1700000000 * 10 ^ 9) ?nonce body = Some sent"
    using assms(2) by (simp add: signed_post_def)
  with send_heartbeat_result [OF run] assms have "trace w' = trace w @ [Sent POST sent]" "r = verdict dec response"
    by (simp_all add: verdict_def)
  then have "last_request w' = (Inr (Some sent), w')" by (simp add: last_request_def sent_requests_snoc)
  with run sent \<open>r = _\<close> show ?thesis by (intro that) simp_all
qed

lemma heartbeat_over_result:
  assumes "enrollment_libs L" and "signing_crate L verify" and "enc test_heartbeat \<noteq> None"
  obtains w' sent nonce body kp s where "heartbeat_over L enc dec response w = (verdict dec response, w')"
    "last_request w' = (Inr (Some sent), w')" "prk_data (mk_key kp) = KdEd25519 s"
    "signed_post L (heartbeat_client_new (lit ''srv_abc'') kp (lit ''https://mayfly.example.com/'')) (1700000000 * 10 ^ 9) nonce body = Some sent"
proof -
  let ?w = "w\<lparr>http := \<lambda>_ _ _. response, clock := \<lambda>_. 1700000000 * 10 ^ 9\<rparr>"
  obtain kp line s where kp: "keypair_generate L ?w = (Inr kp, advance ?w)" "prk_data (mk_key kp) = KdEd25519 s"
    by (rule signing_key [OF assms(1,2)]) blast
  let ?client = "heartbeat_client_new (lit ''srv_abc'') kp (lit ''https://mayfly.example.com/'')"
  obtain body where body: "enc test_heartbeat = Some body" using assms(3) by auto
  have s: "prk_data (mk_key (hbc_keypair ?client)) = KdEd25519 s" using kp(2) by (simp add: heartbeat_client_new_def)
  obtain w' sent nonce where 1: "send_heartbeat L enc dec ?client test_heartbeat (advance ?w) = (verdict dec response, w')"
      "last_request w' = (Inr (Some sent), w')" "signed_post L ?client (1700000000 * 10 ^ 9) nonce body = Some sent"
    by (rule mocked_heartbeat [of enc body ?client s "advance ?w" response L dec, OF body s]) simp_all
  have "heartbeat_over L enc dec response w = (verdict dec response, w')"
    using kp(1) 1(1) by (simp add: heartbeat_over_def use_transport_def use_fixed_clock_def test_client_def bind_io_def return_io_def)
  with 1(2,3) kp(2) show ?thesis by (intro that)
qed

lemma heartbeat_failure_tests:
  assumes "enrollment_libs L" and "signing_crate L verify" and "heartbeat_json_ok enc dec"
  shows "passes (non_2xx_is_rejected L enc dec) w" "passes (invalid_json_response_is_rejected L enc dec) w"
    "passes (out_of_range_next_heartbeat_is_rejected L enc dec) w" "passes (transport_error_propagates L enc dec) w"
proof -
  have e: "enc test_heartbeat \<noteq> None" using assms(3) by (simp add: heartbeat_json_ok_def)
  have fails: "passes (heartbeat_fails L enc dec response e) w" if "verdict dec response = Inl e" for response e
  proof -
    obtain w' where "heartbeat_over L enc dec response w = (verdict dec response, w')"
      by (rule heartbeat_over_result [where enc = enc, OF assms(1,2) e])
    with that show ?thesis by (simp add: heartbeat_fails_def running)
  qed
  show "passes (non_2xx_is_rejected L enc dec) w" "passes (invalid_json_response_is_rejected L enc dec) w"
    "passes (out_of_range_next_heartbeat_is_rejected L enc dec) w" "passes (transport_error_propagates L enc dec) w"
    unfolding non_2xx_is_rejected_def invalid_json_response_is_rejected_def out_of_range_next_heartbeat_is_rejected_def
      transport_error_propagates_def
    by (rule fails; use assms(3) in \<open>simp add: verdict_def mock_with_def heartbeat_json_ok_def good_heartbeat_response_def\<close>)+
qed

lemma good_heartbeat: "good_heartbeat_response \<lparr>hb_status = lit ''ok'', hb_server_time = lit ''2026-06-24T12:00:00.000Z'', hb_next_heartbeat_seconds = 60\<rparr>"
  by (simp add: good_heartbeat_response_def trim_eq_Nil lit_def is_whitespace_def)

lemma heartbeat_success_test:
  assumes "enrollment_libs L" and "signing_crate L verify" and "heartbeat_json_ok enc dec"
  shows "passes (send_heartbeat_signs_and_parses L enc dec) w"
proof -
  have e: "enc test_heartbeat \<noteq> None" using assms(3) by (simp add: heartbeat_json_ok_def)
  have v: "verdict dec (mock_ok OK_BODY)
      = Inr \<lparr>hb_status = lit ''ok'', hb_server_time = lit ''2026-06-24T12:00:00.000Z'', hb_next_heartbeat_seconds = 60\<rparr>"
    using assms(3) good_heartbeat by (simp add: verdict_def mock_ok_def heartbeat_json_ok_def)
  obtain w' sent nonce body kp s where 1: "heartbeat_over L enc dec (mock_ok OK_BODY) w = (verdict dec (mock_ok OK_BODY), w')"
      "last_request w' = (Inr (Some sent), w')" "prk_data (mk_key kp) = KdEd25519 s"
      "signed_post L (heartbeat_client_new (lit ''srv_abc'') kp (lit ''https://mayfly.example.com/'')) (1700000000 * 10 ^ 9) nonce body = Some sent"
    by (rule heartbeat_over_result [where enc = enc, OF assms(1,2) e])
  have url: "join_url (lit ''https://mayfly.example.com/'') HEARTBEAT_PATH = lit ''https://mayfly.example.com/api/v1/agent/heartbeat''"
    by (simp add: join_url_def trim_end_matches_def lit_def HEARTBEAT_PATH_def)
  from 1(3,4) have "req_url sent = lit ''https://mayfly.example.com/api/v1/agent/heartbeat''"
    "map fst (req_headers sent) = [lit ''content-type'', HEADER_MACHINE_ID, HEADER_TIMESTAMP, HEADER_NONCE, HEADER_SIGNATURE]"
    by (auto simp: signed_post_def heartbeat_client_new_def url HEADER_MACHINE_ID_def HEADER_TIMESTAMP_def HEADER_NONCE_def HEADER_SIGNATURE_def)
  then show ?thesis
    using 1(1,2) v by (simp add: send_heartbeat_signs_and_parses_def passes_def bind_io_def return_io_def del: set_map)
qed

lemma heartbeat_signature_test:
  assumes "enrollment_libs L" and "signing_crate L verify" and "heartbeat_json_ok enc dec"
  shows "passes (sent_signature_verifies_over_sent_body L verify enc dec) w"
proof -
  obtain kp line s where kp: "keypair_generate L w = (Inr kp, advance w)" "public_key_openssh L kp = Inr line"
      "prk_data (mk_key kp) = KdEd25519 s"
      "\<And>text. server_accepts L verify line text (lib_b64_encode L (lib_ed25519_sign L s (utf8 text)))"
    by (rule signing_key [OF assms(1,2)]) blast
  let ?client = "heartbeat_client_new (lit ''srv_abc'') kp (lit ''https://mayfly.example.com'')"
  let ?w = "(advance w)\<lparr>http := \<lambda>_ _ _. mock_ok OK_BODY, clock := \<lambda>_. 1700000000 * 10 ^ 9\<rparr>"
  obtain body where body: "enc test_heartbeat = Some body" using assms(3) by (auto simp: heartbeat_json_ok_def)
  have s: "prk_data (mk_key (hbc_keypair ?client)) = KdEd25519 s" using kp(3) by (simp add: heartbeat_client_new_def)
  obtain w' sent nonce where 1: "send_heartbeat L enc dec ?client test_heartbeat ?w = (verdict dec (mock_ok OK_BODY), w')"
      "last_request w' = (Inr (Some sent), w')" "signed_post L ?client (1700000000 * 10 ^ 9) nonce body = Some sent"
    by (rule mocked_heartbeat [of enc body ?client s ?w "mock_ok OK_BODY" L dec, OF body s]) simp_all
  have v: "verdict dec (mock_ok OK_BODY)
      = Inr \<lparr>hb_status = lit ''ok'', hb_server_time = lit ''2026-06-24T12:00:00.000Z'', hb_next_heartbeat_seconds = 60\<rparr>"
    using assms(3) good_heartbeat by (simp add: verdict_def mock_ok_def heartbeat_json_ok_def)
  have t: "parse_i64 (show_int 1700000000) = Some 1700000000" by (rule parse_show_i64) simp_all
  have "header_of sent HEADER_TIMESTAMP = Some (show_int 1700000000)" "header_of sent HEADER_NONCE = Some nonce"
      "header_of sent HEADER_SIGNATURE = Some (lib_b64_encode L (lib_ed25519_sign L s
         (utf8 (canonical_string (lit ''srv_abc'') 1700000000 nonce (lit ''POST'') HEARTBEAT_PATH (body_sha256_hex L body)))))"
      "req_body sent = body"
    using 1(3) kp(3) by (auto simp: signed_post_def heartbeat_client_new_def header_of_def HEADER_TIMESTAMP_def HEADER_NONCE_def
        HEADER_SIGNATURE_def body_sha256_hex_def)
  then show ?thesis
    using kp(1,2,4) 1(1,2) v t
    by (simp add: sent_signature_verifies_over_sent_body_def use_transport_def use_fixed_clock_def passes_def bind_io_def return_io_def
        lift_res_def)
qed


section \<open>The enrollment client\<close>

definition server_key :: "libs \<Rightarrow> str io" where
  "server_key L = bind_io (keypair_generate L) (\<lambda>kp. lift_res (public_key_openssh L kp))"

definition api_request :: enrollment_request where
  "api_request = \<lparr>er_enrollment_token = lit ''mf_enroll_abc123'', er_hostname = lit ''web-01'', er_os = lit ''linux'',
     er_arch = lit ''x86_64'', er_agent_version = lit ''0.1.0'', er_public_key = lit ''ssh-ed25519 AAAA''\<rparr>"

definition enroll_text :: "str \<Rightarrow> str option \<Rightarrow> str" where
  "enroll_text identity bundle_signing_key =
     lit ''{\"machine_id\":\"srv_abc\",\"heartbeat_interval\":60,\"sync_interval\":300,\"server_identity\":\"'' @ identity @ lit ''\"''
     @ (case bundle_signing_key of Some k \<Rightarrow> lit '',\"bundle_signing_key\":\"'' @ k @ lit ''\"'' | None \<Rightarrow> []) @ lit ''}''"

definition ok_body :: "libs \<Rightarrow> str option \<Rightarrow> bytes io" where
  "ok_body L bundle_signing_key = bind_io (server_key L) (\<lambda>key. return_io (utf8 (enroll_text key bundle_signing_key)))"

text \<open>The call with its result and the client after it.\<close>

definition enroll_call ::
    "(enrollment_request \<Rightarrow> bytes option) \<Rightarrow> (bytes \<Rightarrow> enrollment_response option) \<Rightarrow> str
     \<Rightarrow> (enrollment_response res \<times> http_enrollment_client) io" where
  "enroll_call jenc jdec url w =
     (case http_enroll jenc jdec api_request (http_client_new url) w of (r, c, w') \<Rightarrow> (Inr (r, c), w'))"

definition enroll_success_parses_and_records_response ::
    "libs \<Rightarrow> (enrollment_request \<Rightarrow> bytes option) \<Rightarrow> (bytes \<Rightarrow> enrollment_response option) \<Rightarrow> bool io" where
  "enroll_success_parses_and_records_response L jenc jdec =
     bind_io (server_key L) (\<lambda>key. bind_io (ok_body L (Some key)) (\<lambda>body.
     bind_io (use_transport (mock_with 200 body)) (\<lambda>_.
     bind_io (enroll_call jenc jdec (lit ''https://mayfly.example.com'')) (\<lambda>(r, c). bind_io last_request (\<lambda>last.
     return_io (case r of Inl _ \<Rightarrow> False | Inr response \<Rightarrow>
       en_machine_id response = lit ''srv_abc'' \<and> en_bundle_signing_key response = Some key
       \<and> map_option req_url last = Some (lit ''https://mayfly.example.com/api/v1/machines/enroll'')
       \<and> map_option en_bundle_signing_key (hec_last_response c) = Some (Some key)))))))"

definition enroll_without_bundle_signing_key_is_none ::
    "libs \<Rightarrow> (enrollment_request \<Rightarrow> bytes option) \<Rightarrow> (bytes \<Rightarrow> enrollment_response option) \<Rightarrow> bool io" where
  "enroll_without_bundle_signing_key_is_none L jenc jdec =
     bind_io (ok_body L None) (\<lambda>body. bind_io (use_transport (mock_with 200 body)) (\<lambda>_.
     bind_io (enroll_call jenc jdec (lit ''https://h'')) (\<lambda>(r, c).
     return_io (case r of Inl _ \<Rightarrow> False | Inr response \<Rightarrow> en_bundle_signing_key response = None))))"

definition enroll_non_2xx_is_rejected_and_not_recorded ::
    "(enrollment_request \<Rightarrow> bytes option) \<Rightarrow> (bytes \<Rightarrow> enrollment_response option) \<Rightarrow> bool io" where
  "enroll_non_2xx_is_rejected_and_not_recorded jenc jdec =
     bind_io (use_transport (mock_with 401 (utf8 (lit ''{}'')))) (\<lambda>_.
     bind_io (enroll_call jenc jdec (lit ''https://h'')) (\<lambda>(r, c).
     return_io (r = Inl EnrollmentRejected \<and> hec_last_response c = None)))"

definition malformed_2xx_body_is_rejected ::
    "(enrollment_request \<Rightarrow> bytes option) \<Rightarrow> (bytes \<Rightarrow> enrollment_response option) \<Rightarrow> bool io" where
  "malformed_2xx_body_is_rejected jenc jdec =
     bind_io (use_transport (mock_with 200 (utf8 (lit ''not json'')))) (\<lambda>_.
     bind_io (enroll_call jenc jdec (lit ''https://h'')) (\<lambda>(r, c). return_io (r = Inl EnrollmentRejected)))"

definition transport_failure_propagates ::
    "(enrollment_request \<Rightarrow> bytes option) \<Rightarrow> (bytes \<Rightarrow> enrollment_response option) \<Rightarrow> bool io" where
  "transport_failure_propagates jenc jdec =
     bind_io (use_transport None) (\<lambda>_.
     bind_io (enroll_call jenc jdec (lit ''https://h'')) (\<lambda>(r, c). return_io (r = Inl EnrollmentTransport)))"

definition enroll_join_url_test :: bool where
  "enroll_join_url_test \<longleftrightarrow> join_url (lit ''https://h/'') ENROLL_PATH = lit ''https://h/api/v1/machines/enroll''"

text \<open>JSON writes the request and reads the literals, whatever keys they quote.\<close>

definition quotable :: "str \<Rightarrow> bool" where
  "quotable k \<longleftrightarrow> list_all is_scalar k \<and> (\<forall>c \<in> set k. \<not> is_control c \<and> c \<noteq> 34 \<and> c \<noteq> 92)"

definition enroll_json_ok :: "(enrollment_request \<Rightarrow> bytes option) \<Rightarrow> (bytes \<Rightarrow> enrollment_response option) \<Rightarrow> bool" where
  "enroll_json_ok jenc jdec \<longleftrightarrow> jenc api_request \<noteq> None \<and> jdec (utf8 (lit ''not json'')) = None
     \<and> (\<forall>key pin. quotable key \<longrightarrow> list_all quotable (case pin of Some k \<Rightarrow> [k] | None \<Rightarrow> []) \<longrightarrow>
          jdec (utf8 (enroll_text key pin)) = Some \<lparr>en_machine_id = lit ''srv_abc'', en_heartbeat_interval = 60, en_sync_interval = 300,
            en_server_identity = key, en_bundle_signing_key = pin\<rparr>)"

lemma quotable_key:
  assumes "enrollment_libs L" and "plain_lines L"
  obtains key where "server_key L w = (Inr key, advance w)" "quotable key"
proof -
  obtain kp line where kp: "keypair_generate L w = (Inr kp, advance w)" "public_key_openssh L kp = Inr line"
      "ed25519_line L line" "list_all is_scalar line"
    by (rule generate_key [OF assms(1)])
  have "34 \<notin> set line" "92 \<notin> set line"
    using kp(2) assms(2) by (auto simp: public_key_openssh_def plain_lines_def ok_or_def split: option.splits)
  with kp(3,4) have "quotable line" by (auto simp: quotable_def ed25519_line_def)
  with kp(1,2) show ?thesis by (intro that) (simp_all add: server_key_def bind_io_def lift_res_def)
qed

text \<open>What the call gives over a programmed transport.\<close>

lemma enroll_call_result:
  assumes "jenc api_request = Some body"
  defines "rq url \<equiv> \<lparr>req_url = join_url url ENROLL_PATH, req_headers = [(lit ''content-type'', lit ''application/json'')], req_body = body\<rparr>"
  shows "enroll_call jenc jdec url w =
    (Inr (case http w (tick w) POST (rq url) of None \<Rightarrow> (Inl EnrollmentTransport, http_client_new url)
      | Some resp \<Rightarrow> if \<not> is_success (resp_status resp) then (Inl EnrollmentRejected, http_client_new url)
          else (case jdec (resp_body resp) of None \<Rightarrow> (Inl EnrollmentRejected, http_client_new url)
                | Some parsed \<Rightarrow> (Inr parsed, (http_client_new url)\<lparr>hec_last_response := Some parsed\<rparr>))),
     (advance w)\<lparr>trace := trace w @ [Sent POST (rq url)]\<rparr>)"
  using assms by (auto simp: enroll_call_def http_enroll_def post_json_def http_exchange_def http_client_new_def ok_or_def split: option.splits)

lemma enroll_join: "enroll_join_url_test" "join_url (lit ''https://mayfly.example.com'') ENROLL_PATH = lit ''https://mayfly.example.com/api/v1/machines/enroll''"
  by (simp_all add: enroll_join_url_test_def join_url_def trim_end_matches_def lit_def ENROLL_PATH_def)

lemma enroll_call_tests:
  assumes "enrollment_libs L" and "plain_lines L" and "enroll_json_ok jenc jdec"
  shows "passes (enroll_success_parses_and_records_response L jenc jdec) w"
    "passes (enroll_without_bundle_signing_key_is_none L jenc jdec) w"
    "passes (enroll_non_2xx_is_rejected_and_not_recorded jenc jdec) w" "passes (malformed_2xx_body_is_rejected jenc jdec) w"
    "passes (transport_failure_propagates jenc jdec) w"
proof -
  obtain body where body: "jenc api_request = Some body" using assms(3) by (auto simp: enroll_json_ok_def)
  note run = passes_def bind_io_def return_io_def use_transport_def mock_with_def is_success_def http_client_new_def
  note call = enroll_call_result [where jenc = jenc, OF body]
  have bad: "jdec (utf8 (lit ''not json'')) = None" using assms(3) by (simp add: enroll_json_ok_def)
  show "passes (enroll_non_2xx_is_rejected_and_not_recorded jenc jdec) w"
    by (simp add: enroll_non_2xx_is_rejected_and_not_recorded_def run call)
  show "passes (malformed_2xx_body_is_rejected jenc jdec) w"
    by (simp add: malformed_2xx_body_is_rejected_def run call bad)
  show "passes (transport_failure_propagates jenc jdec) w"
    by (simp add: transport_failure_propagates_def run call)
  obtain key where key: "server_key L w = (Inr key, advance w)" "quotable key" by (rule quotable_key [OF assms(1,2)])
  obtain other where other: "server_key L (advance w) = (Inr other, advance (advance w))" "quotable other"
    by (rule quotable_key [OF assms(1,2)])
  have read: "jdec (utf8 (enroll_text k pin)) = Some \<lparr>en_machine_id = lit ''srv_abc'', en_heartbeat_interval = 60, en_sync_interval = 300,
      en_server_identity = k, en_bundle_signing_key = pin\<rparr>" if "quotable k" "pin = None \<or> pin = Some key" for k pin
    using assms(3) key(2) that by (auto simp: enroll_json_ok_def)
  show "passes (enroll_without_bundle_signing_key_is_none L jenc jdec) w"
    using key by (simp add: enroll_without_bundle_signing_key_is_none_def ok_body_def run call read)
  show "passes (enroll_success_parses_and_records_response L jenc jdec) w"
    using key(1) other
    by (simp add: enroll_success_parses_and_records_response_def ok_body_def run call read last_request_def sent_requests_snoc enroll_join)
qed

section \<open>The helper's client\<close>

text \<open>
  The mock helper: it reads a frame, decodes it and checks the token, and writes the answer as a
  frame. Whoever connects to its socket gets this connection.
\<close>

definition MOCK_VERSION :: str where
  "MOCK_VERSION = lit ''mock-helper-0.0.0''"

definition open_conn :: "(bytes \<Rightarrow> bytes) \<Rightarrow> helper_conn" where
  "open_conn reply = \<lparr>conn_timeouts = True, conn_capacity = None, conn_flush = True, conn_reply = reply\<rparr>"

definition mock_reply ::
    "(bytes \<Rightarrow> ipc_request option) \<Rightarrow> (ipc_response \<Rightarrow> bytes option) \<Rightarrow> (ipc_request \<Rightarrow> ipc_response) \<Rightarrow> bytes \<Rightarrow> bytes" where
  "mock_reply dec_rq enc_rs answer sent =
     (let response = (case read_frame sent of
            Inr (body, _) \<Rightarrow> (case decode_request dec_rq body of
                Inr req \<Rightarrow> answer req
              | Inl _ \<Rightarrow> response_failure OutUnhealthy (lit ''protocol error''))
          | Inl _ \<Rightarrow> response_failure OutUnhealthy (lit ''protocol error''))
      in case encode_response enc_rs response of
           Inr body \<Rightarrow> snd (write_frame (open_conn (\<lambda>_. [])) body)
         | Inl _ \<Rightarrow> [])"

definition spawn :: "path \<Rightarrow> (bytes \<Rightarrow> bytes) \<Rightarrow> unit io" where
  "spawn socket reply w =
     (Inr (), w\<lparr>helper := (\<lambda>t p. if p = socket then Some (open_conn reply) else helper w t p)\<rparr>)"

definition token_matches :: "str \<Rightarrow> ipc_request \<Rightarrow> bool" where
  "token_matches expected req \<longleftrightarrow> constant_time_eq (utf8 (rq_token req)) (utf8 expected)"

definition mock_answer :: "str \<Rightarrow> ipc_request \<Rightarrow> ipc_response" where
  "mock_answer expected req =
     (if rq_protocol_version req \<noteq> PROTOCOL_VERSION then response_failure OutUnhealthy (lit ''unsupported protocol version'')
      else if \<not> token_matches expected req then response_failure OutUnhealthy (lit ''unauthenticated'')
      else if rq_op req = Ping then \<lparr>rs_ok = True, rs_outcome = OutOk, rs_helper_version = Some MOCK_VERSION, rs_detail = None\<rparr>
      else response_success OutOk)"

definition apply_answer :: "str \<Rightarrow> ipc_response \<Rightarrow> ipc_request \<Rightarrow> ipc_response" where
  "apply_answer expected reply req =
     (if \<not> token_matches expected req then response_failure OutUnhealthy (lit ''unauthenticated'') else reply)"

text \<open>The two servers of the tests, each bound to the socket of a directory.\<close>

definition spawn_mock_server ::
    "(bytes \<Rightarrow> ipc_request option) \<Rightarrow> (ipc_response \<Rightarrow> bytes option) \<Rightarrow> path \<Rightarrow> str \<Rightarrow> path io" where
  "spawn_mock_server dec enc dir expected =
     (let socket = path_join dir (lit ''helper.sock'')
      in bind_io (spawn socket (mock_reply dec enc (mock_answer expected))) (\<lambda>_. return_io socket))"

definition spawn_apply_server ::
    "(bytes \<Rightarrow> ipc_request option) \<Rightarrow> (ipc_response \<Rightarrow> bytes option) \<Rightarrow> path \<Rightarrow> str \<Rightarrow> ipc_response \<Rightarrow> path io" where
  "spawn_apply_server dec enc dir expected reply =
     (let socket = path_join dir (lit ''helper.sock'')
      in bind_io (spawn socket (mock_reply dec enc (apply_answer expected reply))) (\<lambda>_. return_io socket))"

text \<open>The four codecs of the messages, the agent's and the mock's.\<close>

record ipc_codec =
  enc_rq :: "ipc_request \<Rightarrow> bytes option"
  dec_rq :: "bytes \<Rightarrow> ipc_request option"
  enc_rs :: "ipc_response \<Rightarrow> bytes option"
  dec_rs :: "bytes \<Rightarrow> ipc_response option"

definition ping_round_trip_returns_version :: "ipc_codec \<Rightarrow> path \<Rightarrow> bool io" where
  "ping_round_trip_returns_version J dir =
     bind_io (spawn_mock_server (dec_rq J) (enc_rs J) dir (lit ''secret-token'')) (\<lambda>socket.
     bind_io (helper_ping (enc_rq J) (dec_rs J) (helper_client_new socket (lit ''secret-token''))) (\<lambda>version.
     return_io (version = MOCK_VERSION)))"

definition wrong_token_is_rejected_as_unauthenticated :: "ipc_codec \<Rightarrow> path \<Rightarrow> bool io" where
  "wrong_token_is_rejected_as_unauthenticated J dir =
     bind_io (spawn_mock_server (dec_rq J) (enc_rs J) dir (lit ''real-token'')) (\<lambda>socket.
     bind_io (failure (helper_ping (enc_rq J) (dec_rs J) (helper_client_new socket (lit ''wrong-token'')))) (\<lambda>err.
     return_io (err = Some HelperUnauthenticated)))"

definition connect_to_missing_socket_is_unavailable :: "ipc_codec \<Rightarrow> bool io" where
  "connect_to_missing_socket_is_unavailable J =
     bind_io (failure (helper_ping (enc_rq J) (dec_rs J) (helper_client_new (lit ''/nonexistent/helper.sock'') (lit ''t'')))) (\<lambda>err.
     return_io (err = Some HelperUnavailable))"

definition from_paths_reads_token_file :: "path \<Rightarrow> bool io" where
  "from_paths_reads_token_file dir =
     (let token_path = path_join dir (lit ''helper.token'')
      in bind_io (fs_write token_path (utf8 (lit ''file-token'' @ [10]))) (\<lambda>_.
         bind_io (from_paths (path_join dir (lit ''helper.sock'')) token_path) (\<lambda>client.
         return_io (hc_token client = lit ''file-token''))))"

definition apply_bundle_maps_ok_response_to_applied :: "ipc_codec \<Rightarrow> path \<Rightarrow> bool io" where
  "apply_bundle_maps_ok_response_to_applied J dir =
     bind_io (spawn_apply_server (dec_rq J) (enc_rs J) dir (lit ''tok'') (response_success OutApplied)) (\<lambda>socket.
     bind_io (apply_bundle (enc_rq J) (dec_rs J) (helper_client_new socket (lit ''tok'')) (lit ''body'')) (\<lambda>out.
     return_io (out = BundleApplied)))"

definition apply_bundle_maps_rolled_back_failure_to_rolled_back :: "ipc_codec \<Rightarrow> path \<Rightarrow> bool io" where
  "apply_bundle_maps_rolled_back_failure_to_rolled_back J dir =
     bind_io (spawn_apply_server (dec_rq J) (enc_rs J) dir (lit ''tok'')
       (response_failure OutRolledBack (lit ''sshd -t failed''))) (\<lambda>socket.
     bind_io (apply_bundle (enc_rq J) (dec_rs J) (helper_client_new socket (lit ''tok'')) (lit ''body'')) (\<lambda>out.
     return_io (out = BundleRolledBack)))"

definition apply_bundle_maps_other_failure_to_operation_failed :: "ipc_codec \<Rightarrow> path \<Rightarrow> bool io" where
  "apply_bundle_maps_other_failure_to_operation_failed J dir =
     bind_io (spawn_apply_server (dec_rq J) (enc_rs J) dir (lit ''tok'')
       (response_failure OutUnhealthy (lit ''boom''))) (\<lambda>socket.
     bind_io (failure (apply_bundle (enc_rq J) (dec_rs J) (helper_client_new socket (lit ''tok'')) (lit ''body''))) (\<lambda>err.
     return_io (err = Some HelperOperationFailed)))"

definition apply_bundle_wrong_token_is_unauthenticated :: "ipc_codec \<Rightarrow> path \<Rightarrow> bool io" where
  "apply_bundle_wrong_token_is_unauthenticated J dir =
     bind_io (spawn_apply_server (dec_rq J) (enc_rs J) dir (lit ''real-token'') (response_success OutApplied)) (\<lambda>socket.
     bind_io (failure (apply_bundle (enc_rq J) (dec_rs J) (helper_client_new socket (lit ''wrong-token'')) (lit ''body''))) (\<lambda>err.
     return_io (err = Some HelperUnauthenticated)))"

definition helper_bundle_applier_applies_over_socket :: "ipc_codec \<Rightarrow> path \<Rightarrow> bool io" where
  "helper_bundle_applier_applies_over_socket J dir =
     bind_io (spawn_apply_server (dec_rq J) (enc_rs J) dir (lit ''tok'') (response_success OutApplied)) (\<lambda>socket.
     let token_path = path_join dir (lit ''helper.token'')
     in bind_io (fs_write token_path (utf8 (lit ''tok'' @ [10]))) (\<lambda>_.
        bind_io (helper_apply (enc_rq J) (dec_rs J) (helper_applier_new socket token_path) (lit ''body'')) (\<lambda>out.
        return_io (out = BundleApplied))))"

definition helper_bundle_applier_missing_token_errors_without_changing_host :: "ipc_codec \<Rightarrow> path \<Rightarrow> bool io" where
  "helper_bundle_applier_missing_token_errors_without_changing_host J dir =
     bind_io (failure (helper_apply (enc_rq J) (dec_rs J)
       (helper_applier_new (path_join dir (lit ''helper.sock'')) (path_join dir (lit ''absent.token''))) (lit ''body''))) (\<lambda>err.
     return_io (err \<noteq> None))"


text \<open>JSON round trips for the messages of the tests, which are short.\<close>

definition mock_requests :: "ipc_request list" where
  "mock_requests = [request_new (lit ''secret-token'') Ping, request_new (lit ''wrong-token'') Ping,
     request_apply (lit ''tok'') (lit ''body''), request_apply (lit ''wrong-token'') (lit ''body'')]"

definition mock_responses :: "ipc_response list" where
  "mock_responses = [\<lparr>rs_ok = True, rs_outcome = OutOk, rs_helper_version = Some MOCK_VERSION, rs_detail = None\<rparr>,
     response_failure OutUnhealthy (lit ''unauthenticated''), response_success OutApplied,
     response_failure OutRolledBack (lit ''sshd -t failed''), response_failure OutUnhealthy (lit ''boom'')]"

definition short_trip :: "('m \<Rightarrow> bytes option) \<Rightarrow> (bytes \<Rightarrow> 'm option) \<Rightarrow> 'm \<Rightarrow> bool" where
  "short_trip enc dec m \<longleftrightarrow> (case enc m of None \<Rightarrow> False | Some b \<Rightarrow> length b \<le> MAX_BODY_BYTES \<and> dec b = Some m)"

definition mock_codec_ok :: "ipc_codec \<Rightarrow> bool" where
  "mock_codec_ok J \<longleftrightarrow> list_all (short_trip (enc_rq J) (dec_rq J)) mock_requests
     \<and> list_all (short_trip (enc_rs J) (dec_rs J)) mock_responses"

lemma open_write: "length body \<le> MAX_BODY_BYTES \<Longrightarrow> write_frame (open_conn reply) body = (Inr (), frame body)"
  by (simp add: write_frame_def stream_write_def open_conn_def frame_def MAX_BODY_BYTES_def)

lemma open_conn_simps: "conn_timeouts (open_conn reply)" "conn_reply (open_conn reply) = reply"
  by (simp_all add: open_conn_def)

text \<open>A call to the mock gives the mock's answer.\<close>

lemma mocked_call:
  assumes "short_trip (enc_rq J) (dec_rq J) rq" and "short_trip (enc_rs J) (dec_rs J) (answer rq)"
    and "helper w (tick w) (hc_socket_path client) = Some (open_conn (mock_reply (dec_rq J) (enc_rs J) answer))"
  obtains w' where "helper_call (enc_rq J) (dec_rs J) client rq w = (Inr (answer rq), w')"
proof -
  from assms(1) obtain b where b: "enc_rq J rq = Some b" "length b \<le> MAX_BODY_BYTES" "dec_rq J b = Some rq"
    by (auto simp: short_trip_def split: option.splits)
  from assms(2) obtain c where c: "enc_rs J (answer rq) = Some c" "length c \<le> MAX_BODY_BYTES" "dec_rs J c = Some (answer rq)"
    by (auto simp: short_trip_def split: option.splits)
  have "mock_reply (dec_rq J) (enc_rs J) answer (frame b) = frame c"
    using b c read_frame_frame [OF b(2), of "[]"]
    by (simp add: mock_reply_def decode_request_def encode_response_def open_write)
  then have "helper_call (enc_rq J) (dec_rs J) client rq w = (Inr (answer rq),
      (advance w)\<lparr>trace := trace w @ [HelperSent (hc_socket_path client) (frame b)]\<rparr>)"
    using b c assms(3) read_frame_frame [OF c(2), of "[]"]
    by (simp add: helper_call_def encode_request_def decode_response_def open_write open_conn_simps Let_def)
  with that show ?thesis by blast
qed

lemma tokens: "token_matches (lit ''secret-token'') (request_new (lit ''secret-token'') Ping)"
    "\<not> token_matches (lit ''real-token'') (request_new (lit ''wrong-token'') Ping)"
    "token_matches (lit ''tok'') (request_apply (lit ''tok'') (lit ''body''))"
    "\<not> token_matches (lit ''real-token'') (request_apply (lit ''wrong-token'') (lit ''body''))"
  by (simp_all add: token_matches_def constant_time_eq_correct request_new_def request_apply_def utf8_Cons utf8_char_def lit_def)

text \<open>The world in which the mock of \<open>answer\<close> listens, and its client's calls there.\<close>

definition served :: "ipc_codec \<Rightarrow> path \<Rightarrow> (ipc_request \<Rightarrow> ipc_response) \<Rightarrow> world \<Rightarrow> world" where
  "served J socket answer w = w\<lparr>helper := (\<lambda>t p. if p = socket then Some (open_conn (mock_reply (dec_rq J) (enc_rs J) answer))
     else helper w t p)\<rparr>"

lemma spawn_served: "spawn socket (mock_reply (dec_rq J) (enc_rs J) answer) w = (Inr (), served J socket answer w)"
  by (simp add: spawn_def served_def)

lemma served_call:
  assumes "mock_codec_ok J" and "rq \<in> set mock_requests" and "answer rq \<in> set mock_responses"
    and "\<And>t. helper w t socket = Some (open_conn (mock_reply (dec_rq J) (enc_rs J) answer))"
  shows "\<exists>w'. helper_call (enc_rq J) (dec_rs J) (helper_client_new socket tok) rq w = (Inr (answer rq), w')"
proof (rule mocked_call)
  show "short_trip (enc_rq J) (dec_rq J) rq" "short_trip (enc_rs J) (dec_rs J) (answer rq)"
    using assms(1-3) by (simp_all add: mock_codec_ok_def list_all_iff)
  show "helper w (tick w) (hc_socket_path (helper_client_new socket tok)) = Some (open_conn (mock_reply (dec_rq J) (enc_rs J) answer))"
    using assms(4) by (simp add: helper_client_new_def)
qed blast

lemma helper_served [simp]: "helper (served J socket answer w) t socket = Some (open_conn (mock_reply (dec_rq J) (enc_rs J) answer))"
  by (simp add: served_def)

lemma mock_answers:
  "mock_answer (lit ''secret-token'') (request_new (lit ''secret-token'') Ping)
    = \<lparr>rs_ok = True, rs_outcome = OutOk, rs_helper_version = Some MOCK_VERSION, rs_detail = None\<rparr>"
  "mock_answer (lit ''real-token'') (request_new (lit ''wrong-token'') Ping) = response_failure OutUnhealthy (lit ''unauthenticated'')"
  "apply_answer (lit ''tok'') reply (request_apply (lit ''tok'') (lit ''body'')) = reply"
  "apply_answer (lit ''real-token'') reply (request_apply (lit ''wrong-token'') (lit ''body''))
    = response_failure OutUnhealthy (lit ''unauthenticated'')"
proof -
  have "rq_protocol_version (request_new t p) = PROTOCOL_VERSION" "rq_op (request_new t p) = p" for t p
    by (simp_all add: request_new_def)
  then show "mock_answer (lit ''secret-token'') (request_new (lit ''secret-token'') Ping)
    = \<lparr>rs_ok = True, rs_outcome = OutOk, rs_helper_version = Some MOCK_VERSION, rs_detail = None\<rparr>"
    "mock_answer (lit ''real-token'') (request_new (lit ''wrong-token'') Ping) = response_failure OutUnhealthy (lit ''unauthenticated'')"
    by (simp_all add: mock_answer_def tokens)
qed (simp_all add: apply_answer_def tokens)

lemma servers:
  "spawn_mock_server (dec_rq J) (enc_rs J) dir expected w
    = (Inr (path_join dir (lit ''helper.sock'')), served J (path_join dir (lit ''helper.sock'')) (mock_answer expected) w)"
  "spawn_apply_server (dec_rq J) (enc_rs J) dir expected reply w
    = (Inr (path_join dir (lit ''helper.sock'')), served J (path_join dir (lit ''helper.sock'')) (apply_answer expected reply) w)"
  by (simp_all add: spawn_mock_server_def spawn_apply_server_def Let_def bind_io_def return_io_def spawn_served)

lemma token_of: "hc_token (helper_client_new s t) = t"
  by (simp add: helper_client_new_def)

lemma ping_tests:
  assumes "mock_codec_ok J"
  shows "passes (ping_round_trip_returns_version J dir) w" "passes (wrong_token_is_rejected_as_unauthenticated J dir) w"
proof -
  let ?socket = "path_join dir (lit ''helper.sock'')"
  note calls = passes_def failure_def bind_io_def return_io_def lift_res_def helper_ping_def servers check_ok_def token_of
  have "\<exists>w'. helper_call (enc_rq J) (dec_rs J) (helper_client_new ?socket (lit ''secret-token''))
      (request_new (lit ''secret-token'') Ping) (served J ?socket (mock_answer (lit ''secret-token'')) w)
      = (Inr (mock_answer (lit ''secret-token'') (request_new (lit ''secret-token'') Ping)), w')"
    by (rule served_call [OF assms _ _ helper_served])
      (simp_all add: mock_requests_def mock_responses_def mock_answers)
  then show "passes (ping_round_trip_returns_version J dir) w"
    by (auto simp: ping_round_trip_returns_version_def calls mock_answers)
  have "\<exists>w'. helper_call (enc_rq J) (dec_rs J) (helper_client_new ?socket (lit ''wrong-token''))
      (request_new (lit ''wrong-token'') Ping) (served J ?socket (mock_answer (lit ''real-token'')) w)
      = (Inr (mock_answer (lit ''real-token'') (request_new (lit ''wrong-token'') Ping)), w')"
    by (rule served_call [OF assms _ _ helper_served])
      (simp_all add: mock_requests_def mock_responses_def mock_answers)
  then show "passes (wrong_token_is_rejected_as_unauthenticated J dir) w"
    by (auto simp: wrong_token_is_rejected_as_unauthenticated_def calls mock_answers response_failure_def)
qed

lemma applied_reply:
  assumes "mock_codec_ok J" and "reply \<in> set mock_responses"
    and "\<And>t. helper w t socket = Some (open_conn (mock_reply (dec_rq J) (enc_rs J) (apply_answer (lit ''tok'') reply)))"
  shows "\<exists>w'. apply_bundle (enc_rq J) (dec_rs J) (helper_client_new socket (lit ''tok'')) (lit ''body'') w = (apply_verdict reply, w')"
proof -
  have "\<exists>w'. helper_call (enc_rq J) (dec_rs J) (helper_client_new socket (lit ''tok'')) (request_apply (lit ''tok'') (lit ''body'')) w
      = (Inr (apply_answer (lit ''tok'') reply (request_apply (lit ''tok'') (lit ''body''))), w')"
    by (rule served_call [OF assms(1) _ _ assms(3)]) (use assms(2) in \<open>simp_all add: mock_requests_def mock_answers\<close>)
  then show ?thesis by (auto simp: apply_bundle_def bind_io_def lift_res_def token_of mock_answers)
qed

lemma apply_tests:
  assumes "mock_codec_ok J"
  shows "passes (apply_bundle_maps_ok_response_to_applied J dir) w"
    "passes (apply_bundle_maps_rolled_back_failure_to_rolled_back J dir) w"
    "passes (apply_bundle_maps_other_failure_to_operation_failed J dir) w"
    "passes (apply_bundle_wrong_token_is_unauthenticated J dir) w"
proof -
  let ?socket = "path_join dir (lit ''helper.sock'')"
  note calls = passes_def failure_def bind_io_def return_io_def servers apply_verdict_def response_success_def response_failure_def
  have in_tests: "response_success OutApplied \<in> set mock_responses"
      "response_failure OutRolledBack (lit ''sshd -t failed'') \<in> set mock_responses"
      "response_failure OutUnhealthy (lit ''boom'') \<in> set mock_responses"
    by (simp_all add: mock_responses_def)
  note reply = applied_reply [OF assms _ helper_served, of _ ?socket w]
  have boom: "lit ''boom'' \<noteq> lit ''unauthenticated''" "lit ''sshd -t failed'' \<noteq> lit ''unauthenticated''" by simp_all
  show "passes (apply_bundle_maps_ok_response_to_applied J dir) w"
    using reply [OF in_tests(1)] by (auto simp: apply_bundle_maps_ok_response_to_applied_def calls)
  show "passes (apply_bundle_maps_rolled_back_failure_to_rolled_back J dir) w"
    using reply [OF in_tests(2)] boom by (auto simp: apply_bundle_maps_rolled_back_failure_to_rolled_back_def calls)
  show "passes (apply_bundle_maps_other_failure_to_operation_failed J dir) w"
    using reply [OF in_tests(3)] boom by (auto simp: apply_bundle_maps_other_failure_to_operation_failed_def calls)
  have "\<exists>w'. helper_call (enc_rq J) (dec_rs J) (helper_client_new ?socket (lit ''wrong-token''))
      (request_apply (lit ''wrong-token'') (lit ''body'')) (served J ?socket (apply_answer (lit ''real-token'') (response_success OutApplied)) w)
      = (Inr (apply_answer (lit ''real-token'') (response_success OutApplied) (request_apply (lit ''wrong-token'') (lit ''body''))), w')"
    by (rule served_call [OF assms _ _ helper_served]) (simp_all add: mock_requests_def mock_answers mock_responses_def)
  then show "passes (apply_bundle_wrong_token_is_unauthenticated J dir) w"
    by (auto simp: apply_bundle_wrong_token_is_unauthenticated_def calls apply_bundle_def lift_res_def token_of mock_answers)
qed

text \<open>The tests with a token file.\<close>

lemma file_token:
  assumes "empty_dir dir w" and "list_all is_scalar t" and "trim t = s"
  obtains w1 w2 where "fs_write (path_join dir (lit ''helper.token'')) (utf8 t) w = (Inr (), w1)"
    "from_paths socket (path_join dir (lit ''helper.token'')) w1 = (Inr (helper_client_new socket s), w2)" "helper w2 = helper w"
proof -
  have f: "fault w t = None" for t by (rule empty_dir_faults [OF assms(1)])
  have ne: "components dir \<noteq> []" using assms(1) by (simp add: empty_dir_def)
  note at = in_dir(2) [OF status_names(8) ne]
  let ?m = "(fs w)(components dir @ [Normal (lit ''helper.token'')] \<mapsto> NFile (utf8 t) 0x1A4 (euid w))"
  let ?w1 = "(advance w)\<lparr>fs := ?m, trace := trace w @ [FsNow ?m]\<rparr>"
  have "from_utf8 (utf8 t) = Some t" by (rule from_utf8_utf8 [OF assms(2)])
  then have "from_paths socket (path_join dir (lit ''helper.token'')) ?w1 = (Inr (helper_client_new socket s), advance ?w1)"
    using f assms(3) by (simp add: running at from_paths_def)
  moreover have "fs_write (path_join dir (lit ''helper.token'')) (utf8 t) w = (Inr (), ?w1)"
    using f by (simp add: running at)
  ultimately show ?thesis by (intro that [of ?w1 "advance ?w1"]) simp_all
qed

lemma token_file_tests:
  assumes "mock_codec_ok J" and "empty_dir dir w" and "\<And>t p. helper w t p = None"
  shows "passes (from_paths_reads_token_file dir) w" "passes (helper_bundle_applier_applies_over_socket J dir) w"
    "passes (helper_bundle_applier_missing_token_errors_without_changing_host J dir) w"
    "passes (connect_to_missing_socket_is_unavailable J) w"
proof -
  let ?socket = "path_join dir (lit ''helper.sock'')"
  note calls = passes_def failure_def bind_io_def return_io_def Let_def
  have s: "list_all is_scalar (lit ''file-token'' @ [10])" "list_all is_scalar (lit ''tok'' @ [10])"
    by (simp_all add: lit_def is_scalar_def)
  have t: "trim (lit ''file-token'' @ [10]) = lit ''file-token''" "trim (lit ''tok'' @ [10]) = lit ''tok''"
    by (subst trim_append_ws; (rule trim_no_ws)?; simp add: is_whitespace_def lit_def)+
  obtain w1 w2 where 1: "fs_write (path_join dir (lit ''helper.token'')) (utf8 (lit ''file-token'' @ [10])) w = (Inr (), w1)"
      "from_paths ?socket (path_join dir (lit ''helper.token'')) w1 = (Inr (helper_client_new ?socket (lit ''file-token'')), w2)"
    by (rule file_token [OF assms(2) s(1) t(1)])
  then show "passes (from_paths_reads_token_file dir) w"
    by (simp add: from_paths_reads_token_file_def calls token_of)
  let ?v = "served J ?socket (apply_answer (lit ''tok'') (response_success OutApplied)) w"
  have "empty_dir dir ?v" using assms(2) by (simp add: empty_dir_def served_def calm_def faultless_def)
  then obtain w1 w2 where 2: "fs_write (path_join dir (lit ''helper.token'')) (utf8 (lit ''tok'' @ [10])) ?v = (Inr (), w1)"
      "from_paths ?socket (path_join dir (lit ''helper.token'')) w1 = (Inr (helper_client_new ?socket (lit ''tok'')), w2)" "helper w2 = helper ?v"
    by (rule file_token [OF _ s(2) t(2)])
  have "\<exists>w'. apply_bundle (enc_rq J) (dec_rs J) (helper_client_new ?socket (lit ''tok'')) (lit ''body'') w2
      = (apply_verdict (response_success OutApplied), w')"
    by (rule applied_reply [OF assms(1)]) (simp_all add: mock_responses_def 2(3))
  with 2(1,2) show "passes (helper_bundle_applier_applies_over_socket J dir) w"
    by (auto simp: helper_bundle_applier_applies_over_socket_def calls servers helper_apply_def helper_applier_new_def
        apply_verdict_def response_success_def)
  have "plain_name (lit ''absent.token'')" by (simp add: plain_name_def lit_def)
  moreover have "components dir \<noteq> []" and none: "fs w (components dir @ [c]) = None" for c
    using assms(2) by (simp_all add: empty_dir_def)
  ultimately have "components (path_join dir (lit ''absent.token'')) = components dir @ [Normal (lit ''absent.token'')]"
    by (intro in_dir(2))
  with none empty_dir_faults [OF assms(2)]
  show "passes (helper_bundle_applier_missing_token_errors_without_changing_host J dir) w"
    by (simp add: helper_bundle_applier_missing_token_errors_without_changing_host_def running helper_apply_def helper_applier_new_def
        from_paths_def stat_missing)
  show "passes (connect_to_missing_socket_is_unavailable J) w"
    by (simp add: connect_to_missing_socket_is_unavailable_def calls helper_ping_def helper_call_def assms(3))
qed

section \<open>The suites\<close>

text \<open>The JSON codecs of the heartbeats and of the enrollment come as pairs.\<close>

definition client_tests_pass ::
    "libs \<Rightarrow> (bytes \<Rightarrow> bytes \<Rightarrow> bytes \<Rightarrow> bool) \<Rightarrow> (heartbeat_request \<Rightarrow> bytes option) \<Rightarrow> (bytes \<Rightarrow> heartbeat_response option)
     \<Rightarrow> (enrollment_request \<Rightarrow> bytes option) \<Rightarrow> (bytes \<Rightarrow> enrollment_response option) \<Rightarrow> ipc_codec \<Rightarrow> path \<Rightarrow> world \<Rightarrow> bool" where
  "client_tests_pass L verify henc hdec jenc jdec J dir w \<longleftrightarrow>
     heartbeat_join_url_test \<and> enroll_join_url_test
     \<and> list_all (\<lambda>test. passes test w)
        [signature_verifies_against_machine_public_key L verify, send_heartbeat_signs_and_parses L henc hdec,
         sent_signature_verifies_over_sent_body L verify henc hdec, non_2xx_is_rejected L henc hdec,
         invalid_json_response_is_rejected L henc hdec, out_of_range_next_heartbeat_is_rejected L henc hdec,
         transport_error_propagates L henc hdec, enroll_success_parses_and_records_response L jenc jdec,
         enroll_without_bundle_signing_key_is_none L jenc jdec, enroll_non_2xx_is_rejected_and_not_recorded jenc jdec,
         malformed_2xx_body_is_rejected jenc jdec, transport_failure_propagates jenc jdec,
         ping_round_trip_returns_version J dir, wrong_token_is_rejected_as_unauthenticated J dir,
         connect_to_missing_socket_is_unavailable J, from_paths_reads_token_file dir,
         apply_bundle_maps_ok_response_to_applied J dir, apply_bundle_maps_rolled_back_failure_to_rolled_back J dir,
         apply_bundle_maps_other_failure_to_operation_failed J dir, apply_bundle_wrong_token_is_unauthenticated J dir,
         helper_bundle_applier_applies_over_socket J dir,
         helper_bundle_applier_missing_token_errors_without_changing_host J dir]"

theorem client_suites_pass:
  assumes "enrollment_libs L" and "plain_lines L" and "signing_crate L verify"
    and "heartbeat_json_ok henc hdec" and "enroll_json_ok jenc jdec" and "mock_codec_ok J"
    and "empty_dir dir w" and "\<And>t p. helper w t p = None"
  shows "client_tests_pass L verify henc hdec jenc jdec J dir w"
  using join_tests enroll_join(1) signing_test [OF assms(1,3)] heartbeat_success_test [OF assms(1,3,4)]
    heartbeat_signature_test [OF assms(1,3,4)] heartbeat_failure_tests [OF assms(1,3,4)] enroll_call_tests [OF assms(1,2,5)]
    ping_tests [OF assms(6)] apply_tests [OF assms(6)] token_file_tests [OF assms(6-8)]
  by (simp add: client_tests_pass_def)

end
