(* ===== verification/Service_Tests.thy ===== *)
theory Service_Tests
  imports Timing_Tests Linux Shutdown Logging Test_Support
begin

text \<open>
  The unit tests of \<open>src/service/shutdown.rs\<close>, \<open>src/service/agent.rs\<close>, \<open>src/platform/linux.rs\<close>,
  \<open>src/platform/systemd.rs\<close> and \<open>src/logging.rs\<close>. The time a sleep took is the time slept in the trace. A
  thread that raises the flag during a sleep is a flag that is up from some tick on.
\<close>

section \<open>Shutdown\<close>

definition slept_time :: "event list \<Rightarrow> duration" where
  "slept_time es = sum_list (map (\<lambda>e. case e of Slept d \<Rightarrow> d | _ \<Rightarrow> 0) es)"

definition millis :: "nat \<Rightarrow> duration" where
  "millis n = n * 1000000"

text \<open>The time between two moments of a run; no time is defined if the sleep does not return.\<close>

definition elapsed :: "interruptible_sleeper \<Rightarrow> duration \<Rightarrow> world \<Rightarrow> duration option" where
  "elapsed s d start = map_option (\<lambda>w. slept_time (drop (length (trace start)) (trace w))) (interruptible_sleep s d start)"

definition flag_round_trips :: "world \<Rightarrow> bool" where
  "flag_round_trips w \<longleftrightarrow>
     (case is_requested w of (before, w1) \<Rightarrow>
      case is_requested (shutdown_request w1) of (asked, w2) \<Rightarrow>
      case is_requested w2 of (clone_asked, _) \<Rightarrow> \<not> before \<and> asked \<and> clone_asked)"

definition sleeper_returns_immediately_when_shutdown_requested :: "world \<Rightarrow> bool" where
  "sleeper_returns_immediately_when_shutdown_requested w \<longleftrightarrow>
     (case elapsed (sleeper_with_step (millis 10)) (seconds 30) (shutdown_request w) of
        Some d \<Rightarrow> d < seconds 1 | None \<Rightarrow> False)"

text \<open>Three steps of 10 ms are six ticks: a look at the flag and a sleep each.\<close>

definition request_after :: "nat \<Rightarrow> world \<Rightarrow> world" where
  "request_after n w = w\<lparr>stop_flag := (\<lambda>t. tick w + n \<le> t \<or> stop_flag w t)\<rparr>"

definition sleeper_wakes_when_flag_set_mid_sleep :: "world \<Rightarrow> bool" where
  "sleeper_wakes_when_flag_set_mid_sleep w \<longleftrightarrow>
     (case elapsed (sleeper_with_step (millis 10)) (seconds 30) (request_after 6 w) of
        Some d \<Rightarrow> d < seconds 2 | None \<Rightarrow> False)"

definition sleeper_sleeps_full_duration_without_shutdown :: "world \<Rightarrow> bool" where
  "sleeper_sleeps_full_duration_without_shutdown w \<longleftrightarrow>
     (case elapsed (sleeper_with_step (millis 10)) (millis 60) w of Some d \<Rightarrow> millis 40 \<le> d | None \<Rightarrow> False)"

definition installing_handlers_succeeds :: "bool io" where
  "installing_handlers_succeeds = bind_io install_signal_handlers (\<lambda>_. return_io True)"

definition unstopped :: "world \<Rightarrow> bool" where
  "unstopped w \<longleftrightarrow> (\<forall>t. \<not> stop_flag w t)"

lemma slept_map: "slept_time (map Slept cs) = sum_list cs"
  by (simp add: slept_time_def comp_def)

text \<open>A sleep takes no longer than asked and no longer than the steps before the flag stands.\<close>

lemma elapsed_bounds:
  assumes "0 < step" and "step = max s 1000000"
  obtains e where "elapsed (sleeper_with_step s) d w = Some e" "\<forall>T. (\<forall>t \<ge> T. stop_flag w t) \<longrightarrow> e \<le> (T - tick w) * step"
    "unstopped w \<Longrightarrow> e = d"
proof -
  obtain w' where w': "interruptible_sleep (sleeper_with_step s) d w = Some w'" "slept_properly step d w w'"
    using sleeper_sleeps [of s d w] assms(2) by auto
  from w'(2) obtain cs where cs: "trace w' = trace w @ map Slept cs" "\<forall>c \<in> set cs. 0 < c \<and> c \<le> step"
      "sum_list cs = d \<or> (\<exists>t. tick w \<le> t \<and> t < tick w' \<and> stop_flag w t)"
      "\<forall>T. (\<forall>t \<ge> T. stop_flag w t) \<longrightarrow> length cs \<le> T - tick w"
    by (auto simp: slept_properly_def)
  have "sum_list cs \<le> length cs * step" using cs(2) by (induction cs) auto
  then have "sum_list cs \<le> (T - tick w) * step" if "\<forall>t \<ge> T. stop_flag w t" for T
    using cs(4) that mult_le_mono1 order_trans by blast
  moreover have "elapsed (sleeper_with_step s) d w = Some (sum_list cs)"
    using w'(1) cs(1) by (simp add: elapsed_def slept_map)
  moreover have "unstopped w \<Longrightarrow> sum_list cs = d" using cs(3) by (auto simp: unstopped_def)
  ultimately show ?thesis by (intro that) blast+
qed

lemma shutdown_tests:
  assumes "faultless w" and "unstopped w"
  shows "flag_round_trips w" "sleeper_returns_immediately_when_shutdown_requested w" "sleeper_wakes_when_flag_set_mid_sleep w"
    "sleeper_sleeps_full_duration_without_shutdown w" "passes installing_handlers_succeeds w"
proof -
  show "flag_round_trips w"
    using assms(2) by (simp add: flag_round_trips_def is_requested_def stop_requested_def shutdown_request_def unstopped_def)
  show "passes installing_handlers_succeeds w"
    using assms(1) by (simp add: installing_handlers_succeeds_def install_signal_handlers_def register_signal_def passes_def
        bind_io_def map_err_io_def sys_query_def faultless_def return_io_def)
  obtain e where e: "elapsed (sleeper_with_step (millis 10)) (seconds 30) (shutdown_request w) = Some e"
      "\<forall>T. (\<forall>t \<ge> T. stop_flag (shutdown_request w) t) \<longrightarrow> e \<le> (T - tick (shutdown_request w)) * millis 10"
    by (rule elapsed_bounds [of "millis 10" "millis 10"]) (simp_all add: millis_def)
  from e(2) have "e \<le> 0" by (auto simp: shutdown_request_def)
  with e(1) show "sleeper_returns_immediately_when_shutdown_requested w"
    by (simp add: sleeper_returns_immediately_when_shutdown_requested_def seconds_def NANOS_PER_SEC_def)
  obtain e where e: "elapsed (sleeper_with_step (millis 10)) (seconds 30) (request_after 6 w) = Some e"
      "\<forall>T. (\<forall>t \<ge> T. stop_flag (request_after 6 w) t) \<longrightarrow> e \<le> (T - tick (request_after 6 w)) * millis 10"
    by (rule elapsed_bounds [of "millis 10" "millis 10"]) (simp_all add: millis_def)
  from e(2) [rule_format, of "tick w + 6"] have "e \<le> 6 * millis 10" by (simp add: request_after_def)
  with e(1) show "sleeper_wakes_when_flag_set_mid_sleep w"
    by (simp add: sleeper_wakes_when_flag_set_mid_sleep_def seconds_def NANOS_PER_SEC_def millis_def)
  have step: "0 < millis 10" "millis 10 = max (millis 10) 1000000" by (simp_all add: millis_def)
  obtain e where "elapsed (sleeper_with_step (millis 10)) (millis 60) w = Some e" "e = millis 60"
    by (rule elapsed_bounds [OF step, of "millis 60" w]) (use assms(2) in blast)
  then show "sleeper_sleeps_full_duration_without_shutdown w"
    by (simp add: sleeper_sleeps_full_duration_without_shutdown_def millis_def)
qed

section \<open>The agent\<close>

definition agent_exposes_state :: "config \<Rightarrow> world \<Rightarrow> bool" where
  "agent_exposes_state c w \<longleftrightarrow>
     (case mock_clock_from_unix 0 of
        Some clk \<Rightarrow> cfg_machine_id (as_config (ag_state (agent_new (fst (app_state_new (mock_clock_now clk) c w))))) = lit ''host-01''
      | None \<Rightarrow> False)"

definition agent_uptime_follows_clock :: "config \<Rightarrow> world \<Rightarrow> bool" where
  "agent_uptime_follows_clock c w \<longleftrightarrow>
     (case mock_clock_from_unix 0 of
        None \<Rightarrow> False
      | Some clk \<Rightarrow>
          (let (st, w1) = app_state_new (mock_clock_now clk) c w
           in fst (agent_uptime (mock_clock_now clk) (agent_new st) w1) = 0
              \<and> (case mock_clock_advance (seconds 5) clk of
                   Some clk' \<Rightarrow> fst (agent_uptime (mock_clock_now clk') (agent_new st) w1) = seconds 5 | None \<Rightarrow> False)))"

lemma agent_tests:
  "cfg_machine_id c = lit ''host-01'' \<Longrightarrow> agent_exposes_state c w" "agent_uptime_follows_clock c w"
  by (simp_all add: agent_exposes_state_def agent_uptime_follows_clock_def app_state_new_def agent_new_def agent_uptime_def app_uptime_def
      mock_clock_from_unix_def mock_clock_new_def mock_clock_now_def mock_clock_advance_def from_unix_timestamp_def
      MIN_TIMESTAMP_def MAX_TIMESTAMP_def time_add_def TIME_MAX_def seconds_def NANOS_PER_SEC_def)

section \<open>The host\<close>

definition effective_uid_matches_validate_root :: "world \<Rightarrow> bool" where
  "effective_uid_matches_validate_root w \<longleftrightarrow>
     (if effective_uid w = 0 then \<not> isl (validate_root w) else validate_root w = Inl NotRoot)"

definition host_facts_reports_consistent_os_and_arch :: "host_env \<Rightarrow> bool" where
  "host_facts_reports_consistent_os_and_arch env \<longleftrightarrow>
     (let facts = gather_host_facts env
      in hf_os facts = he_os env \<and> hf_arch facts = he_arch env \<and> hf_kernel facts \<noteq> [] \<and> hf_ip facts \<noteq> [])"

definition is_systemd_matches_marker_directory :: "world \<Rightarrow> bool" where
  "is_systemd_matches_marker_directory w \<longleftrightarrow>
     (case is_systemd w of (a, w1) \<Rightarrow> case sys_is_dir (components SYSTEMD_RUNTIME_MARKER) w1 of (b, _) \<Rightarrow> a = b)"

text \<open>A host with a kernel name in ASCII and written addresses.\<close>

definition populated :: "host_env \<Rightarrow> bool" where
  "populated env \<longleftrightarrow> he_release env \<noteq> [] \<and> (\<forall>b \<in> set (he_release env). unat b < 128)
     \<and> (\<forall>u ip. he_local_addr env = Some (u, ip) \<longrightarrow> ip \<noteq> [])"

lemma host_tests:
  "effective_uid_matches_validate_root w" "populated env \<Longrightarrow> host_facts_reports_consistent_os_and_arch env"
  "faultless w \<Longrightarrow> is_systemd_matches_marker_directory w"
proof -
  show "effective_uid_matches_validate_root w"
    by (simp add: effective_uid_matches_validate_root_def validate_root_def effective_uid_def Let_def)
  show "populated env \<Longrightarrow> host_facts_reports_consistent_os_and_arch env"
    by (auto simp: host_facts_reports_consistent_os_and_arch_def gather_host_facts_def Let_def populated_def cstr_to_string_def
        from_utf8_lossy_ascii local_ip_def unwrap_or_def lit_def split: option.splits)
  show "faultless w \<Longrightarrow> is_systemd_matches_marker_directory w"
    by (simp add: is_systemd_matches_marker_directory_def is_systemd_def sys_is_dir_def sys_stat_def sys_query_def faultless_def)
qed

section \<open>Logging\<close>

definition init_is_idempotent :: "'f tracing_lib \<Rightarrow> (str \<Rightarrow> str option) \<Rightarrow> 'f subscriber option \<Rightarrow> bool" where
  "init_is_idempotent T env global \<longleftrightarrow>
     (case log_init T env LvlInfo FmtJson global of (_, global') \<Rightarrow> \<not> fst (log_init T env LvlDebug FmtPretty global'))"

definition level_maps_to_filter_string :: bool where
  "level_maps_to_filter_string \<longleftrightarrow> as_filter_str LvlTrace = ''trace'' \<and> as_filter_str LvlError = ''error''"

lemma logging_tests: "init_is_idempotent T env global" "level_maps_to_filter_string"
  by (auto simp: init_is_idempotent_def log_init_def try_init_def level_maps_to_filter_string_def split: option.splits)

section \<open>The suites\<close>

definition service_tests_pass ::
    "host_env \<Rightarrow> config \<Rightarrow> 'f tracing_lib \<Rightarrow> (str \<Rightarrow> str option) \<Rightarrow> 'f subscriber option \<Rightarrow> world \<Rightarrow> bool" where
  "service_tests_pass henv c T env global w \<longleftrightarrow>
     flag_round_trips w \<and> sleeper_returns_immediately_when_shutdown_requested w \<and> sleeper_wakes_when_flag_set_mid_sleep w
     \<and> sleeper_sleeps_full_duration_without_shutdown w \<and> passes installing_handlers_succeeds w
     \<and> agent_exposes_state c w \<and> agent_uptime_follows_clock c w
     \<and> effective_uid_matches_validate_root w \<and> host_facts_reports_consistent_os_and_arch henv
     \<and> is_systemd_matches_marker_directory w \<and> init_is_idempotent T env global \<and> level_maps_to_filter_string"

theorem service_suites_pass:
  assumes "faultless w" and "unstopped w" and "populated henv" and "cfg_machine_id c = lit ''host-01''"
  shows "service_tests_pass henv c T env global w"
  unfolding service_tests_pass_def
  using shutdown_tests [OF assms(1,2)] agent_tests(1) [OF assms(4)] agent_tests(2) host_tests(1) host_tests(2) [OF assms(3)]
    host_tests(3) [OF assms(1)] logging_tests
  by blast

end
