(* ===== verification/Test_Instances.thy ===== *)
theory Test_Instances
  imports Client_Tests Service_Tests
begin

text \<open>
  Concrete crates, codecs and a host for the unit tests that work in a directory: they meet the
  laws the suites ask for.
\<close>

section \<open>Keys and records in files\<close>

text \<open>
  A key crate that can be run: a key is its seed, written as characters above the bytes, and
  every public key is written as the one line the small instance reads. A signature is the beginning of
  the message, and Base64 writes every byte as a character.
\<close>

definition seed_key :: "bytes \<Rightarrow> private_key" where
  "seed_key seed = \<lparr>prk_algorithm = AlgEd25519, prk_data = KdEd25519 seed, prk_comment = KEY_COMMENT\<rparr>"

definition seed_write :: "private_key \<Rightarrow> str option" where
  "seed_write k = (case prk_data k of
     KdEd25519 seed \<Rightarrow> if k = seed_key seed then Some (map (\<lambda>b. 256 + unat b) seed) else None
   | _ \<Rightarrow> None)"

definition seed_parse :: "str \<Rightarrow> private_key option" where
  "seed_parse s = (if list_all (\<lambda>c. 256 \<le> c \<and> c < 512) s then Some (seed_key (map (\<lambda>c. word_of_nat (c - 256)) s)) else None)"

definition seed_fingerprint :: "private_key \<Rightarrow> str" where
  "seed_fingerprint k = lit ''SHA256:'' @ (case prk_data k of KdEd25519 seed \<Rightarrow> map unat seed | _ \<Rightarrow> [])"

definition seed_sign :: "bytes \<Rightarrow> bytes" where
  "seed_sign msg = take 64 (msg @ replicate 64 0)"

definition seed_libs :: libs where
  "seed_libs = sample_libs\<lparr>lib_ed25519_sign := (\<lambda>_. seed_sign),
     lib_b64_encode := map unat, lib_b64_decode := (\<lambda>s. Some (map word_of_nat s)),
     lib_private_random := (\<lambda>seed. Some (seed_key seed\<lparr>prk_comment := []\<rparr>)),
     lib_private_write := seed_write, lib_private_parse := seed_parse, lib_fingerprint := seed_fingerprint\<rparr>"

lemma seed_round_trip: "seed_write k = Some s \<Longrightarrow> seed_parse s = Some k \<and> list_all is_scalar s"
proof -
  assume "seed_write k = Some s"
  then obtain seed where k: "k = seed_key seed" and s: "s = map (\<lambda>b. 256 + unat b) seed"
    by (auto simp: seed_write_def split: keypair_data.splits if_splits)
  have "unat b < 256" for b :: u8 using unsigned_less [of b, where 'a = nat] by simp
  then have "unat b < n" if "256 \<le> n" for b :: u8 and n using that less_le_trans by blast
  then have "list_all (\<lambda>c. 256 \<le> c \<and> c < 512) s" "list_all is_scalar s"
    by (simp_all add: s list_all_iff is_scalar_def)
  then show ?thesis by (simp add: seed_parse_def k s comp_def)
qed

lemma seed_enrollment: "enrollment_libs seed_libs"
proof -
  have "lib_ssh_public seed_libs sample_key = Some \<lparr>spk_algorithm = AlgEd25519, spk_ed25519 = Some []\<rparr>"
    using sample_key_tokens by (simp add: seed_libs_def sample_libs_def)
  then have "ed25519_line seed_libs sample_key"
    by (simp add: ed25519_line_def) (simp add: sample_key_def lit_def is_control_def)
  then have "key_maker seed_libs"
    by (simp add: key_maker_def seed_libs_def seed_write_def seed_key_def sample_libs_def sample_key_def)
  moreover have "key_laws seed_libs"
    using seed_round_trip by (auto simp: key_laws_def seed_libs_def seed_key_def)
  moreover have "list_all is_scalar sample_key" "starts_with sample_key (lit ''ssh-ed25519 '')"
    by (simp_all add: sample_key_def lit_def is_scalar_def starts_with_def)
  moreover have "seed_parse (lit ''not a valid openssh key'') = None" by (simp add: seed_parse_def lit_def)
  moreover have "lib_ssh_public seed_libs (lit ''not-a-key'') = None"
    by (simp add: seed_libs_def sample_libs_def lit_def split_whitespace_def is_whitespace_def)
  ultimately show ?thesis
    by (auto simp: enrollment_libs_def seed_libs_def sample_libs_def sample_key_def)
qed

lemma seed_signing: "signing_crate seed_libs (\<lambda>_ msg signature. signature = seed_sign msg)"
proof -
  have "verifying_key seed_libs sample_key = Some []"
    using sample_key_tokens by (simp add: verifying_key_def seed_libs_def sample_libs_def)
  then show ?thesis
    by (simp add: signing_crate_def) (simp add: seed_libs_def sample_libs_def sample_key_def seed_key_def seed_sign_def comp_def min_def)
qed

lemma seed_plain: "plain_lines seed_libs"
  by (simp add: plain_lines_def seed_libs_def sample_libs_def lit_def)

lemma seed_refuses: "refuses_bad_keys seed_libs"
  by (simp add: refuses_bad_keys_def seed_libs_def sample_libs_def seed_parse_def lit_def split_whitespace_def is_whitespace_def)

text \<open>A machine with the directory \<open>/d\<close>, a clock that stands and a source that never draws the same twice.\<close>

definition file_host :: world where
  "file_host = sample_host\<lparr>clock := (\<lambda>_. 1700000000 * 10 ^ 9), os_random := (\<lambda>t n. replicate n (if t = 0 then 0 else 1))\<rparr>"

lemma file_host_dir: "tempdir (lit ''/d'') file_host" "empty_dir (lit ''/d'') file_host" "fingerprints_ok seed_libs file_host"
proof -
  have "fresh_machine (service (lit ''/d'')) file_host"
    using sample_fresh by (simp add: fresh_machine_def file_host_def calm_def faultless_def service_def)
  then show "tempdir (lit ''/d'') file_host" by (simp add: tempdir_def file_host_def)
  from \<open>fresh_machine _ _\<close> show "empty_dir (lit ''/d'') file_host"
    by (simp add: empty_dir_def fresh_machine_def sample_dir_key) (simp add: file_host_def sample_host_def quiet_world_def)
  have "inj (\<lambda>b :: u8. unat b)" by (rule injI) (rule unsigned_word_eqI)
  then show "fingerprints_ok seed_libs file_host"
    by (auto simp: fingerprints_ok_def seed_libs_def seed_fingerprint_def seed_key_def starts_with_append starts_with_def lit_def file_host_def
        sample_host_def quiet_world_def numeral_eq_Suc dest: map_injective)
qed

definition suite_record_read :: "bytes \<Rightarrow> str + machine_record" where
  "suite_record_read bs = (if bs = [10] then Inr test_record else Inl [])"

definition suite_status_read :: "bytes \<Rightarrow> str + runtime_status" where
  "suite_status_read bs = (if bs = [10] then Inr test_status else Inl [])"

lemma suite_records:
  "record_codec_ok (\<lambda>_. Inr []) suite_record_read" "refuses_bad_records suite_record_read"
  "status_codec_ok (\<lambda>_. Inr []) suite_status_read"
  by (simp_all add: record_codec_ok_def suite_record_read_def refuses_bad_records_def bad_record_texts_def utf8_Cons lit_def
      utf8_char_def status_codec_ok_def suite_status_read_def)

text \<open>The two shapes of text in a directory, and the key of a text up to its quote.\<close>

definition quoted_key :: "str \<Rightarrow> str" where
  "quoted_key s = takeWhile (\<lambda>c. c \<noteq> 34) s"

definition dir_toml :: "str \<Rightarrow> str + raw_config" where
  "dir_toml t =
     (let dir = lit ''/d''; sock = path_join dir (lit ''helper.sock''); token = path_join dir (lit ''helper.token'');
          no_dir = path_join dir (lit ''no-such-identity''); 
          pinned = state_text dir None @ lit ''bundle_signing_public_key = \"''
      in if t = state_text dir None then Inr (minimal_raw\<lparr>rc_state_dir := Some dir\<rparr>)
         else if t = dirs_text dir dir sock token then Inr (dirs_raw dir dir)
         else if t = dirs_text no_dir dir sock token then Inr (dirs_raw no_dir dir)
         else case strip_prefix pinned t of
           Some rest \<Rightarrow> Inr (minimal_raw\<lparr>rc_state_dir := Some dir, rc_bundle_signing_public_key := Some (quoted_key rest)\<rparr>)
         | None \<Rightarrow> Inl [])"


lemma state_text_pinned:
  "state_text dir (Some k) = (state_text dir None @ lit ''bundle_signing_public_key = \"'') @ k @ lit ''\"'' @ [10]"
  by (simp add: state_text_def)

lemma dirs_not_state: "dirs_text i d s t \<noteq> state_text dir k"
  by (simp add: state_text_def dirs_text_def lit_def)

lemma dirs_inj: "dirs_text i d s t = dirs_text i' d s t \<Longrightarrow> i = i'"
  by (simp add: dirs_text_def)

lemma suite_dir_texts: "reads_dir_texts dir_toml (lit ''/d'')"
proof -
  have "dir_toml (state_text (lit ''/d'') (Some k))
      = Inr (minimal_raw\<lparr>rc_state_dir := Some (lit ''/d''), rc_bundle_signing_public_key := Some k\<rparr>)" if "34 \<notin> set k" for k
  proof -
    have "takeWhile (\<lambda>c. c \<noteq> 34) (k @ 34 # [10]) = k" using that by (subst takeWhile_append2) auto
    then have "quoted_key (k @ lit ''\"'' @ [10]) = k" by (simp add: quoted_key_def lit_def)
    moreover have "state_text (lit ''/d'') (Some k) \<noteq> state_text (lit ''/d'') None" by (simp add: state_text_def)
    moreover have "strip_prefix (state_text (lit ''/d'') None @ lit ''bundle_signing_public_key = \"'') (state_text (lit ''/d'') (Some k))
        = Some (k @ lit ''\"'' @ [10])"
      by (simp only: state_text_pinned strip_prefix_append)
    ultimately show ?thesis
      by (simp add: dir_toml_def Let_def dirs_not_state [symmetric])
  qed
  moreover have "path_join (lit ''/d'') (lit ''no-such-identity'') \<noteq> lit ''/d''"
    by (simp add: path_join_def lit_def is_absolute_def)
  ultimately show ?thesis
    by (auto simp: reads_dir_texts_def dir_toml_def Let_def dirs_not_state dest: dirs_inj)
qed

lemma suite_path: "good_path (lit ''/d'')"
  by (simp add: good_path_def is_absolute_def sample_dir_key) (simp add: lit_def)


section \<open>Messages\<close>

definition suite_heartbeat_read :: "bytes \<Rightarrow> heartbeat_response option" where
  "suite_heartbeat_read b =
     (if b = OK_BODY then Some \<lparr>hb_status = lit ''ok'', hb_server_time = lit ''2026-06-24T12:00:00.000Z'', hb_next_heartbeat_seconds = 60\<rparr>
      else if b = ZERO_BODY then Some \<lparr>hb_status = lit ''ok'', hb_server_time = lit ''t'', hb_next_heartbeat_seconds = 0\<rparr> else None)"

lemma suite_heartbeats: "heartbeat_json_ok (\<lambda>_. Some []) suite_heartbeat_read"
  by (simp add: heartbeat_json_ok_def suite_heartbeat_read_def) (simp add: OK_BODY_def ZERO_BODY_def lit_def utf8_Cons utf8_char_def)

text \<open>An answer is read by its two shapes: what precedes the keys is fixed, and no key has a quote.\<close>

definition suite_answer :: "str \<Rightarrow> str option \<Rightarrow> enrollment_response" where
  "suite_answer key pin = \<lparr>en_machine_id = lit ''srv_abc'', en_heartbeat_interval = 60, en_sync_interval = 300,
     en_server_identity = key, en_bundle_signing_key = pin\<rparr>"

definition answer_start :: str where
  "answer_start = lit ''{\"machine_id\":\"srv_abc\",\"heartbeat_interval\":60,\"sync_interval\":300,\"server_identity\":\"''"

definition suite_answer_read :: "bytes \<Rightarrow> enrollment_response option" where
  "suite_answer_read b =
     Option.bind (from_utf8 b) (\<lambda>t. Option.bind (strip_prefix answer_start t) (\<lambda>rest.
     let key = quoted_key rest; pin = drop (length key) rest
     in if pin = lit ''\"}'' then Some (suite_answer key None)
        else map_option (\<lambda>k. suite_answer key (Some (quoted_key k))) (strip_prefix (lit ''\",\"bundle_signing_key\":\"'') pin)))"

lemma quoted_key_quote: "34 \<notin> set k \<Longrightarrow> quoted_key (k @ lit ''\"'' @ r) = k"
proof -
  assume "34 \<notin> set k"
  then have "takeWhile (\<lambda>c. c \<noteq> 34) (k @ 34 # r) = k" by (subst takeWhile_append2) auto
  then show ?thesis by (simp add: quoted_key_def lit_def)
qed

lemma lit_scalar: "list_all is_scalar (lit s)"
proof -
  have "(of_char c :: nat) < 0xD800" for c using nat_of_char_less_256 [of c] by linarith
  then show ?thesis by (simp add: lit_def list_all_iff is_scalar_def)
qed

lemma suite_answers: "enroll_json_ok (\<lambda>_. Some []) suite_answer_read"
proof -
  have "suite_answer_read (utf8 (lit ''not json'')) = None"
  proof -
    have "strip_prefix answer_start (lit ''not json'') = None" by (simp add: strip_prefix_def answer_start_def lit_def)
    then show ?thesis by (simp add: suite_answer_read_def from_utf8_utf8 [OF lit_scalar])
  qed
  moreover have "suite_answer_read (utf8 (enroll_text key pin)) = Some (suite_answer key pin)"
    if "quotable key" "list_all quotable (case pin of Some k \<Rightarrow> [k] | None \<Rightarrow> [])" for key pin
  proof -
    have q: "34 \<notin> set key" "34 \<notin> set k" if "pin = Some k" for k
      using \<open>quotable key\<close> \<open>list_all quotable _\<close> that by (auto simp: quotable_def)
    have "34 \<notin> set key" using that(1) by (auto simp: quotable_def)
    have scalar: "list_all is_scalar (enroll_text key pin)"
      using that by (cases pin) (simp_all add: enroll_text_def quotable_def lit_scalar)
    show ?thesis
    proof (cases pin)
      case None
      then have t: "enroll_text key pin = answer_start @ key @ lit ''\"'' @ lit ''}''" by (simp add: enroll_text_def answer_start_def)
      show ?thesis
        using from_utf8_utf8 [OF scalar] quoted_key_quote [OF \<open>34 \<notin> set key\<close>, of "lit ''}''"] None
        unfolding suite_answer_read_def t by (simp add: lit_def)
    next
      case (Some k)
      define tail where "tail = lit ''\"'' @ lit '',\"bundle_signing_key\":\"'' @ k @ lit ''\"'' @ lit ''}''"
      have t: "enroll_text key (Some k) = answer_start @ key @ tail"
        by (simp add: tail_def enroll_text_def answer_start_def)
      have "quoted_key (key @ tail) = key" using \<open>34 \<notin> set key\<close> unfolding tail_def by (rule quoted_key_quote)
      moreover have "tail \<noteq> lit ''\"}''" by (simp add: tail_def lit_def)
      moreover have "tail = lit ''\",\"bundle_signing_key\":\"'' @ k @ lit ''\"'' @ lit ''}''" by (simp add: tail_def lit_def)
      then have "strip_prefix (lit ''\",\"bundle_signing_key\":\"'') tail = Some (k @ lit ''\"'' @ lit ''}'')"
        by (simp only: strip_prefix_append)
      ultimately show ?thesis
        using from_utf8_utf8 [OF scalar] quoted_key_quote [OF q(2) [OF Some], of "lit ''}''"] Some
        by (simp add: suite_answer_read_def t)
    qed
  qed
  ultimately show ?thesis by (auto simp: enroll_json_ok_def suite_answer_def)
qed

text \<open>A message is written as its position in the list of the tests.\<close>

definition index_write :: "'m list \<Rightarrow> 'm \<Rightarrow> bytes option" where
  "index_write ms m = Some [word_of_nat (length (takeWhile (\<lambda>x. x \<noteq> m) ms))]"

definition index_read :: "'m list \<Rightarrow> bytes \<Rightarrow> 'm option" where
  "index_read ms bs = (case bs of [b] \<Rightarrow> if unat b < length ms then Some (ms ! unat b) else None | _ \<Rightarrow> None)"

definition suite_codecs :: ipc_codec where
  "suite_codecs = \<lparr>enc_rq = index_write mock_requests, dec_rq = index_read mock_requests,
     enc_rs = index_write mock_responses, dec_rs = index_read mock_responses\<rparr>"

lemma index_trip:
  assumes "m \<in> set ms" and "length ms < 256"
  shows "short_trip (index_write ms) (index_read ms) m"
proof -
  let ?i = "length (takeWhile (\<lambda>x. x \<noteq> m) ms)"
  have "?i < length ms"
  proof (rule ccontr)
    assume "\<not> ?i < length ms"
    then have "takeWhile (\<lambda>x. x \<noteq> m) ms = ms" by (metis length_takeWhile_le linorder_neqE_nat not_le takeWhile_eq_take take_all_iff)
    with assms(1) show False by (metis set_takeWhileD)
  qed
  moreover from this have "ms ! ?i = m" using nth_length_takeWhile by blast
  moreover have "unat (word_of_nat ?i :: u8) = ?i" using \<open>?i < length ms\<close> assms(2) by (simp add: unat_of_nat)
  ultimately show ?thesis by (simp add: short_trip_def index_write_def index_read_def MAX_BODY_BYTES_def)
qed

lemma suite_messages: "mock_codec_ok suite_codecs"
proof -
  have "length mock_requests < 256" "length mock_responses < 256" by (simp_all add: mock_requests_def mock_responses_def)
  then show ?thesis by (simp add: mock_codec_ok_def list_all_iff suite_codecs_def index_trip)
qed

lemma file_host_quiet: "helper file_host t p = None" "faultless file_host" "unstopped file_host"
  by (simp_all add: file_host_def sample_host_def faultless_def unstopped_def)

lemma suite_populated: "populated sample_env"
  by (simp add: populated_def sample_env_def)

end
