(* ===== verification/Unit_Tests.thy ===== *)
theory Unit_Tests
  imports Bundle_Tests Parser_Tests Timing_Tests Test_Instances Golden_Vectors Daemon_Examples
begin

text \<open>
  The translated unit tests together: the definitions of this development answer every one of
  them the way the program does. The crates, codecs and environment the tests run with are
  given here by concrete functions.
\<close>

section \<open>A digest, a random source and message codecs\<close>

definition empty_digest :: bytes where
  "empty_digest = [0xE3, 0xB0, 0xC4, 0x42, 0x98, 0xFC, 0x1C, 0x14, 0x9A, 0xFB, 0xF4, 0xC8, 0x99, 0x6F, 0xB9, 0x24,
     0x27, 0xAE, 0x41, 0xE4, 0x64, 0x9B, 0x93, 0x4C, 0xA4, 0x95, 0x99, 0x1B, 0x78, 0x52, 0xB8, 0x55]"

definition hex_libs :: libs where
  "hex_libs = sample_libs\<lparr>lib_sha256 := (\<lambda>_. empty_digest), lib_hex := hex_of\<rparr>"

definition drawing_world :: world where
  "drawing_world = (test_world 0 [])\<lparr>os_random := \<lambda>t n. replicate n (if t = 0 then 0 else 1)\<rparr>"

definition suite_request_json :: "ipc_request \<Rightarrow> bytes option" where
  "suite_request_json rq = Some (if rq_op rq = Ping then utf8 ping_json else [])"

definition suite_request_read :: "bytes \<Rightarrow> ipc_request option" where
  "suite_request_read bs = (if bs = [] then Some (request_apply (lit ''tok'') (lit ''# keys'' @ [10])) else None)"

definition suite_response_read :: "bytes \<Rightarrow> ipc_response option" where
  "suite_response_read bs = Some (response_failure OutRolledBack (lit ''sshd validation failed''))"

lemma hex_of_simps [simp]:
  "hex_of [] = []" "hex_of (b # bs) = hex_digit (unat b div 16) # hex_digit (unat b mod 16) # hex_of bs"
  by (simp_all add: hex_of_def)

lemma byte_halves: "unat (b :: u8) div 16 < 16" "unat b mod 16 < 16"
  using unsigned_less [of b, where 'a = nat] by (simp_all add: less_mult_imp_div_less)

lemma hex_of_inj: "inj hex_of"
proof (rule injI)
  fix a b :: bytes
  show "hex_of a = hex_of b \<Longrightarrow> a = b"
  proof (induction a arbitrary: b)
    case Nil
    then show ?case by (cases b) simp_all
  next
    case (Cons x a)
    then obtain y b' where b: "b = y # b'" by (cases b) simp_all
    have "unat x div 16 = unat y div 16" "unat x mod 16 = unat y mod 16"
      using Cons.prems by (simp_all add: b hex_digit_inj byte_halves)
    then have "unat x = unat y" by (metis div_mult_mod_eq)
    then have "x = y" by (rule unsigned_word_eqI)
    with Cons show ?case by (simp add: b)
  qed
qed

lemma hex_of_digits: "length (hex_of b) = 2 * length b" "list_all is_ascii_hexdigit (hex_of b)"
proof -
  have "is_ascii_hexdigit (hex_digit n)" if "n < 16" for n
    using that by (simp add: is_ascii_hexdigit_def is_ascii_digit_def hex_digit_def)
  then show "list_all is_ascii_hexdigit (hex_of b)" by (induction b) (simp_all add: byte_halves)
  show "length (hex_of b) = 2 * length b" by (induction b) simp_all
qed

lemma suite_random: "random_ok hex_libs drawing_world"
proof -
  have "hex_of empty_digest = lit ''e3b0c44298fc1c149afbf4c8996fb92427ae41e4649b934ca495991b7852b855''"
    by (simp add: empty_digest_def hex_digit_def lit_def)
  then show ?thesis
    by (simp add: random_ok_def hex_libs_def drawing_world_def test_world_def hex_of_inj hex_of_digits NONCE_BYTES_def
        numeral_eq_Suc)
qed

lemma suite_codec: "ipc_codec_ok suite_request_json suite_request_read (\<lambda>_. Some []) suite_response_read"
  by (simp add: ipc_codec_ok_def suite_request_json_def suite_request_read_def suite_response_read_def request_apply_def
      request_new_def MAX_BODY_BYTES_def lit_def utf8_Cons utf8_char_def)

lemma suite_powers: "powers_exact (\<lambda>x n. Fin (2 ^ nat n))"
  by (simp add: powers_exact_def list_all_iff)

section \<open>All suites\<close>

text \<open>
  The program's own unit tests hold of the model: those of the bundle gate, the configuration, the parsers,
  the encodings and messages, the scheduler, the retries, the clocks, the hardened file operations, the
  machine record, the keys, enrollment, the persisted state, the start-up checks, the three clients
  with their mock servers, signatures, shutdown, the host facts and logging. Each test is a
  definition that calls the model as the test calls the code, and all of them pass. The
  hypotheses say what the tests rely on: the crates accept the signatures their keys make, refuse
  the forged ones and what is no key, and read back the keys they write (\<open>test_fixtures\<close>, \<open>enrollment_libs\<close>,
  \<open>fingerprints_ok\<close>, \<open>refuses_bad_keys\<close>, \<open>plain_lines\<close>, \<open>signing_crate\<close>); TOML reads the literals of the tests as they are written
  (\<open>toml_reads\<close>, \<open>reads_dir_texts\<close>), JSON reads the literals and what it has written, and the environment has the
  directory, the files and the clock of the tests, no helper, no signal and a kernel name.
\<close>

theorem unit_tests_pass:
  assumes "test_fixtures L sg pks openssh_from_raw" and "parse (utf8 (lit ''not json'')) = None"
    and "toml_reads toml to_string key" and "good_signing_key C (trim key)" "\<not> good_signing_key C (lit ''not-a-key'')"
    and "faultless w" "fs w (components (path_join dir (lit ''config.toml''))) = Some (NFile (utf8 MINIMAL) mo u)"
      "fs w (components (path_join dir (lit ''does-not-exist.toml''))) = None"
    and "random_ok R wr" and "ipc_codec_ok enc dec enc_resp dec_resp"
    and "powers_exact pw" and "cfg_machine_id c = lit ''host-01''" and "clock w (tick w) \<le> clock w (Suc (tick w))"
    and keys: "enrollment_libs K" "fingerprints_ok K wd" "refuses_bad_keys K" "plain_lines K"
    and texts: "record_codec_ok rec_enc rec_dec" "refuses_bad_records rec_dec" "status_codec_ok st_enc st_dec"
      "reads_dir_texts dtoml tmp"
    and messages: "signing_crate K verify" "heartbeat_json_ok henc hdec" "enroll_json_ok jenc jdec" "mock_codec_ok J"
    and host: "empty_dir tmp wd" "tempdir tmp wd" "good_path tmp" "\<And>t p. helper wd t p = None" "unstopped wd" "populated henv"
  shows "ca_bundle_tests_pass L sg pks openssh_from_raw parse \<and> config_tests_pass C toml to_string key env dir w
    \<and> text_tests_pass R wr enc dec enc_resp dec_resp \<and> timing_tests_pass pw c w
    \<and> file_tests_pass K rec_enc rec_dec tmp wd \<and> enrollment_tests_pass K henv rec_enc rec_dec tmp wd
    \<and> status_tests_pass K dtoml st_enc st_dec enc dec_resp dmode tmp wd
    \<and> client_tests_pass K verify henc hdec jenc jdec J tmp wd \<and> service_tests_pass henv c T env global wd"
proof (intro conjI)
  show "ca_bundle_tests_pass L sg pks openssh_from_raw parse" by (rule ca_bundle_suite_passes) (fact assms)+
  show "config_tests_pass C toml to_string key env dir w" by (rule config_suite_passes) (fact assms)+
  show "text_tests_pass R wr enc dec enc_resp dec_resp" by (rule text_suites_pass) (fact assms)+
  show "timing_tests_pass pw c w" by (rule timing_suites_pass) (fact assms)+
  show "file_tests_pass K rec_enc rec_dec tmp wd" by (rule file_suites_pass [OF host(1) texts(1,2) keys(1-3)])
  show "enrollment_tests_pass K henv rec_enc rec_dec tmp wd" by (rule enrollment_suite_passes [OF keys(1) host(2) texts(1)])
  show "status_tests_pass K dtoml st_enc st_dec enc dec_resp dmode tmp wd"
    by (rule status_suites_pass [OF host(1,3) texts(4,3) keys(1,4)])
  show "client_tests_pass K verify henc hdec jenc jdec J tmp wd"
    by (rule client_suites_pass [OF keys(1,4) messages host(1,4)])
  have "faultless wd" using host(1) by (simp add: empty_dir_def calm_def)
  then show "service_tests_pass henv c T env global wd" by (rule service_suites_pass) (fact assms)+
qed

theorem unit_tests_pass_witness:
  "ca_bundle_tests_pass suite_libs suite_signer suite_key suite_openssh (\<lambda>_. None)
   \<and> config_tests_pass sample_libs suite_toml (\<lambda>_. []) sample_key (\<lambda>_. None) (lit ''/tmp'') suite_world
   \<and> text_tests_pass hex_libs drawing_world suite_request_json suite_request_read (\<lambda>_. Some []) suite_response_read
   \<and> timing_tests_pass (\<lambda>x n. Fin (2 ^ nat n)) (sample_config\<lparr>cfg_machine_id := lit ''host-01''\<rparr>) suite_world
   \<and> file_tests_pass seed_libs (\<lambda>_. Inr []) suite_record_read (lit ''/d'') file_host
   \<and> enrollment_tests_pass seed_libs sample_env (\<lambda>_. Inr []) suite_record_read (lit ''/d'') file_host
   \<and> status_tests_pass seed_libs dir_toml (\<lambda>_. Inr []) suite_status_read suite_request_json suite_response_read 0x1ED
       (lit ''/d'') file_host
   \<and> client_tests_pass seed_libs (\<lambda>_ msg signature. signature = seed_sign msg) (\<lambda>_. Some []) suite_heartbeat_read
       (\<lambda>_. Some []) suite_answer_read suite_codecs (lit ''/d'') file_host
   \<and> service_tests_pass sample_env (sample_config\<lparr>cfg_machine_id := lit ''host-01''\<rparr>)
       \<lparr>tr_from_env = (\<lambda>_. None), tr_new = id\<rparr> (\<lambda>_. None) None file_host"
  by (rule unit_tests_pass [OF suite_fixtures refl suite_reads suite_signing_key(1,2) suite_files suite_random suite_codec
        suite_powers _ _ seed_enrollment file_host_dir(3) seed_refuses seed_plain suite_records(1-3) suite_dir_texts
        seed_signing suite_heartbeats suite_answers suite_messages file_host_dir(2,1) suite_path file_host_quiet(1,3) suite_populated])
    (simp_all add: suite_world_def)

end
